(* ===== verification/Prelude.thy ===== *)
theory Prelude
  imports Main "HOL-Library.Word" "HOL-Library.Char_ord" "HOL-Library.List_Lexorder"
    "HOL-Library.Sublist" "HOL-Library.Product_Lexorder"
begin

text \<open>
  Shared vocabulary of the development: results with errors (Rust's \<^verbatim>\<open>Result\<close> and its
  question mark), operations on a locked state that may fail half way, checked 64 bit
  counters, \<^verbatim>\<open>BTreeMap\<close> as an ordered association list, and the byte-string functions of
  Rust's standard library that the program calls. A Rust \<^verbatim>\<open>String\<close> is its UTF-8 byte
  sequence, so \<open>length\<close> is \<^verbatim>\<open>len()\<close> and \<^verbatim>\<open>bytes()\<close> is the list itself.
\<close>

named_theorems res_simps "inversion of results, guards and state operations"
named_theorems chk_simps "arithmetic of checked counters"

section \<open>Results\<close>

definition res_bind :: "'e + 'a \<Rightarrow> ('a \<Rightarrow> 'e + 'b) \<Rightarrow> 'e + 'b" where
  "res_bind m f = (case m of Inl e \<Rightarrow> Inl e | Inr x \<Rightarrow> f x)"

definition ensure :: "bool \<Rightarrow> 'e \<Rightarrow> 'e + unit" where
  "ensure b e = (if b then Inr () else Inl e)"

definition ok_or :: "'a option \<Rightarrow> 'e \<Rightarrow> 'e + 'a" where
  "ok_or x e = (case x of None \<Rightarrow> Inl e | Some v \<Rightarrow> Inr v)"

definition map_err :: "('e \<Rightarrow> 'f) \<Rightarrow> 'e + 'a \<Rightarrow> 'f + 'a" where
  "map_err g m = (case m of Inl e \<Rightarrow> Inl (g e) | Inr x \<Rightarrow> Inr x)"

definition is_ok :: "'e + 'a \<Rightarrow> bool" where
  "is_ok m = (case m of Inl _ \<Rightarrow> False | Inr _ \<Rightarrow> True)"

lemma res_bind_Inr [simp]: "res_bind (Inr x) f = f x"
  and res_bind_Inl [simp]: "res_bind (Inl e) f = Inl e"
  by (simp_all add: res_bind_def)

lemma res_bind_ok [res_simps]:
  "(res_bind m f = Inr y) = (\<exists>x. m = Inr x \<and> f x = Inr y)"
  by (cases m) (simp_all add: res_bind_def)

lemma res_bind_err [res_simps]:
  "(res_bind m f = Inl e) = (m = Inl e \<or> (\<exists>x. m = Inr x \<and> f x = Inl e))"
  by (cases m) (simp_all add: res_bind_def)

lemma ensure_ok [res_simps]: "(ensure b e = Inr u) = b"
  and ensure_err [res_simps]: "(ensure b e = Inl e') = (\<not> b \<and> e' = e)"
  by (auto simp: ensure_def)

lemma ensure_True [simp]: "ensure True e = Inr ()"
  and ensure_False [simp]: "ensure False e = Inl e"
  by (simp_all add: ensure_def)

lemma ok_or_ok [res_simps]: "(ok_or x e = Inr v) = (x = Some v)"
  and ok_or_err [res_simps]: "(ok_or x e = Inl e') = (x = None \<and> e' = e)"
  by (auto simp: ok_or_def split: option.splits)

lemma ok_or_Some [simp]: "ok_or (Some v) e = Inr v"
  and ok_or_None [simp]: "ok_or None e = Inl e"
  by (simp_all add: ok_or_def)

lemma is_ok_iff [simp]: "is_ok m = (\<exists>x. m = Inr x)"
  by (cases m) (simp_all add: is_ok_def)

lemma map_err_ok [res_simps]: "(map_err g m = Inr y) = (m = Inr y)"
  by (cases m) (simp_all add: map_err_def)

text \<open>Collecting an iterator of results stops at the first error.\<close>

fun res_map :: "('a \<Rightarrow> 'e + 'b) \<Rightarrow> 'a list \<Rightarrow> 'e + 'b list" where
  "res_map f [] = Inr []"
| "res_map f (x # xs) =
     res_bind (f x) (\<lambda>y. res_bind (res_map f xs) (\<lambda>ys. Inr (y # ys)))"

lemma res_map_ok_length: "res_map f xs = Inr ys \<Longrightarrow> length ys = length xs"
  by (induction xs arbitrary: ys) (auto simp: res_simps)

lemma res_map_ok_all: "res_map f xs = Inr ys \<Longrightarrow> \<forall>y \<in> set ys. \<exists>x \<in> set xs. f x = Inr y"
  by (induction xs arbitrary: ys) (fastforce simp: res_simps)+

section \<open>Operations on a locked state\<close>

text \<open>
  An operation of a store takes the state behind its mutex and returns a result together
  with the state it leaves. An early return keeps whatever was written before it: that a
  failing operation changes nothing is a theorem about the operation, not a consequence of
  its type.
\<close>

type_synonym ('s, 'e, 'a) op = "'s \<Rightarrow> ('e + 'a) \<times> 's"

definition ret :: "'a \<Rightarrow> ('s, 'e, 'a) op" where
  "ret x s = (Inr x, s)"

definition fail_with :: "'e \<Rightarrow> ('s, 'e, 'a) op" where
  "fail_with e s = (Inl e, s)"

definition bnd :: "('s, 'e, 'a) op \<Rightarrow> ('a \<Rightarrow> ('s, 'e, 'b) op) \<Rightarrow> ('s, 'e, 'b) op" where
  "bnd m f s = (case m s of (Inl e, t) \<Rightarrow> (Inl e, t) | (Inr x, t) \<Rightarrow> f x t)"

definition lift_res :: "'e + 'a \<Rightarrow> ('s, 'e, 'a) op" where
  "lift_res r s = (r, s)"

definition asks :: "('s \<Rightarrow> 'e + 'a) \<Rightarrow> ('s, 'e, 'a) op" where
  "asks f s = (f s, s)"

definition gets :: "('s \<Rightarrow> 'a) \<Rightarrow> ('s, 'e, 'a) op" where
  "gets f s = (Inr (f s), s)"

definition modify :: "('s \<Rightarrow> 's) \<Rightarrow> ('s, 'e, unit) op" where
  "modify f s = (Inr (), f s)"

definition check :: "('s \<Rightarrow> bool) \<Rightarrow> 'e \<Rightarrow> ('s, 'e, unit) op" where
  "check p e = asks (\<lambda>s. ensure (p s) e)"

definition lookup :: "('s \<Rightarrow> 'a option) \<Rightarrow> 'e \<Rightarrow> ('s, 'e, 'a) op" where
  \<comment> \<open>\<^verbatim>\<open>get(..).ok_or_else(..)?\<close>\<close>
  "lookup f e = asks (\<lambda>s. ok_or (f s) e)"

definition best_effort :: "('s, 'e, 'a) op \<Rightarrow> ('s, 'e, unit) op" where
  \<comment> \<open>\<^verbatim>\<open>let _ = op;\<close>: the result is dropped, the effect stays\<close>
  "best_effort m s = (Inr (), snd (m s))"

lemma bnd_ok [res_simps]:
  "(bnd m f s = (Inr y, t)) = (\<exists>x u. m s = (Inr x, u) \<and> f x u = (Inr y, t))"
  by (auto simp: bnd_def split: prod.splits sum.splits)

lemma bnd_err [res_simps]:
  "(bnd m f s = (Inl e, t)) =
     (m s = (Inl e, t) \<or> (\<exists>x u. m s = (Inr x, u) \<and> f x u = (Inl e, t)))"
  by (auto simp: bnd_def split: prod.splits sum.splits)

lemma ret_iff [res_simps]: "(ret x s = (r, t)) = (r = Inr x \<and> t = s)"
  by (auto simp: ret_def)

lemma fail_with_iff [res_simps]: "(fail_with e s = (r, t)) = (r = Inl e \<and> t = s)"
  by (auto simp: fail_with_def)

lemma lift_res_iff [res_simps]: "(lift_res q s = (r, t)) = (q = r \<and> t = s)"
  by (auto simp: lift_res_def)

lemma asks_iff [res_simps]: "(asks g s = (r, t)) = (g s = r \<and> t = s)"
  by (auto simp: asks_def)

lemma gets_iff [res_simps]: "(gets h s = (r, t)) = (r = Inr (h s) \<and> t = s)"
  by (auto simp: gets_def)

lemma modify_iff [res_simps]: "(modify k s = (r, t)) = (r = Inr () \<and> t = k s)"
  by (auto simp: modify_def)

lemma check_iff [res_simps]: "(check p e s = (r, t)) = (ensure (p s) e = r \<and> t = s)"
  by (auto simp: check_def asks_def)

lemma lookup_iff [res_simps]: "(lookup f e s = (r, t)) = (ok_or (f s) e = r \<and> t = s)"
  by (auto simp: lookup_def asks_def)

lemmas op_defs = ret_def fail_with_def bnd_def lift_res_def asks_def gets_def modify_def
  check_def lookup_def

text \<open>
  An operation is \<^emph>\<open>atomic\<close> when an error leaves the state as it was, and \<^emph>\<open>reading\<close>
  when it never changes it. A chain of reading operations that ends in one that never fails
  after its first write is atomic.
\<close>

definition reading :: "('s, 'e, 'a) op \<Rightarrow> bool" where
  "reading m = (\<forall>s. snd (m s) = s)"

definition atomic :: "('s, 'e, 'a) op \<Rightarrow> bool" where
  "atomic m = (\<forall>s e t. m s = (Inl e, t) \<longrightarrow> t = s)"

definition total_op :: "('s, 'e, 'a) op \<Rightarrow> bool" where
  "total_op m = (\<forall>s. \<exists>x t. m s = (Inr x, t))"

named_theorems atomic_intros "rules that show an operation atomic"

lemma atomic_bnd_reading [atomic_intros]:
  "reading m \<Longrightarrow> (\<And>x. atomic (f x)) \<Longrightarrow> atomic (bnd m f)"
  by (auto simp: atomic_def reading_def res_simps) (metis snd_conv)+

lemma atomic_bnd_total:
  "atomic m \<Longrightarrow> (\<And>x. total_op (f x)) \<Longrightarrow> atomic (bnd m f)"
  by (auto simp: atomic_def total_op_def res_simps) (metis Inl_Inr_False prod.inject)

lemma reading_base [atomic_intros]:
  "reading (ret x)" "reading (fail_with e)" "reading (lift_res r)" "reading (asks g)"
  "reading (gets h)" "reading (check p e)" "reading (lookup f e)"
  by (simp_all add: reading_def op_defs)

lemma reading_atomic: "reading m \<Longrightarrow> atomic m"
  by (auto simp: reading_def atomic_def) (metis snd_conv)

lemma atomic_base [atomic_intros]:
  "atomic (ret x)" "atomic (fail_with e)" "atomic (lift_res r)" "atomic (asks g)"
  "atomic (gets h)" "atomic (modify k)" "atomic (check p e)" "atomic (lookup f e)"
  by (auto simp: atomic_def op_defs)

lemma total_base [atomic_intros]:
  "total_op (ret x)" "total_op (gets h)" "total_op (modify k)"
  by (auto simp: total_op_def op_defs)

lemma total_bnd [atomic_intros]:
  "total_op m \<Longrightarrow> (\<And>x. total_op (f x)) \<Longrightarrow> total_op (bnd m f)"
  by (auto simp: total_op_def bnd_def) (metis (mono_tags, lifting) case_prod_conv old.sum.simps(6))

lemma reading_bnd [atomic_intros]:
  "reading m \<Longrightarrow> (\<And>x. reading (f x)) \<Longrightarrow> reading (bnd m f)"
  by (auto simp: reading_def bnd_def split: prod.splits sum.splits) (metis snd_conv)+

text \<open>A predicate of the state that every part of an operation keeps, the operation keeps.\<close>

definition preserves :: "('s \<Rightarrow> bool) \<Rightarrow> ('s, 'e, 'a) op \<Rightarrow> bool" where
  "preserves P m = (\<forall>s r t. P s \<longrightarrow> m s = (r, t) \<longrightarrow> P t)"

named_theorems preserves_intros "rules that show an operation keeps a predicate"

lemma preservesD: "preserves P m \<Longrightarrow> m s = (r, t) \<Longrightarrow> P s \<Longrightarrow> P t"
  by (auto simp: preserves_def)

lemma preserves_bnd [preserves_intros]:
  assumes "preserves P m" and "\<And>x. preserves P (f x)"
  shows "preserves P (bnd m f)"
  unfolding preserves_def
proof (intro allI impI)
  fix s r t assume s: "P s" and "bnd m f s = (r, t)"
  then show "P t"
    using preservesD [OF assms(1)] preservesD [OF assms(2)]
    by (auto simp: bnd_def split: prod.splits sum.splits)
qed

lemma preserves_reading: "reading m \<Longrightarrow> preserves P m"
  by (auto simp: preserves_def reading_def) (metis snd_conv)

lemma preserves_base [preserves_intros]:
  "preserves P (ret x)" "preserves P (fail_with e)" "preserves P (lift_res r)"
  "preserves P (asks g)" "preserves P (gets h)" "preserves P (check p e)" "preserves P (lookup f e)"
  by (simp_all add: preserves_reading reading_base)

lemma preserves_modify: "(\<And>s. P s \<Longrightarrow> P (k s)) \<Longrightarrow> preserves P (modify k)"
  by (auto simp: preserves_def modify_def)

lemma preserves_best_effort [preserves_intros]: "preserves P m \<Longrightarrow> preserves P (best_effort m)"
  by (auto simp: preserves_def best_effort_def) (metis prod.collapse)

lemma preserves_if [preserves_intros]:
  "(c \<Longrightarrow> preserves P m) \<Longrightarrow> (\<not> c \<Longrightarrow> preserves P n) \<Longrightarrow> preserves P (if c then m else n)"
  by simp

section \<open>Checked 64 bit counters\<close>

type_synonym u64 = "64 word"
type_synonym u32 = "32 word"
type_synonym i32 = int

definition checked_add :: "u64 \<Rightarrow> u64 \<Rightarrow> u64 option" where
  "checked_add a b = (if unat a + unat b < 2 ^ 64 then Some (a + b) else None)"

definition u64_of_len :: "nat \<Rightarrow> u64 option" where
  \<comment> \<open>\<^verbatim>\<open>u64::try_from(xs.len())\<close>\<close>
  "u64_of_len n = (if n < 2 ^ 64 then Some (of_nat n) else None)"

lemma checked_add_Some [chk_simps]:
  "(checked_add a b = Some c) = (unat a + unat b < 2 ^ 64 \<and> c = a + b)"
  by (auto simp: checked_add_def)

lemma unat_checked_add: "checked_add a b = Some c \<Longrightarrow> unat c = unat a + unat b"
  by (auto simp: checked_add_def unat_word_ariths split: if_splits)

lemma unat_u64_of_len: "u64_of_len n = Some w \<Longrightarrow> unat w = n"
  by (auto simp: u64_of_len_def unat_of_nat split: if_splits)

lemma checked_add_gt: "checked_add a 1 = Some c \<Longrightarrow> a < c"
  by (drule unat_checked_add) (simp add: word_less_nat_alt)

lemma checked_add_neq: "checked_add a 1 = Some c \<Longrightarrow> c \<noteq> a"
  by (drule checked_add_gt) auto

section \<open>Ordered maps\<close>

text \<open>
  \<^verbatim>\<open>BTreeMap\<close> is an association list in key order. The lookup laws of insertion and removal
  hold for every list; the order is an invariant of the constructors.
\<close>

type_synonym ('k, 'v) btree_map = "('k \<times> 'v) list"

abbreviation bm_get :: "('k, 'v) btree_map \<Rightarrow> 'k \<Rightarrow> 'v option" where
  "bm_get \<equiv> map_of"

fun bm_insert :: "'k::linorder \<Rightarrow> 'v \<Rightarrow> ('k, 'v) btree_map \<Rightarrow> ('k, 'v) btree_map" where
  "bm_insert k v [] = [(k, v)]"
| "bm_insert k v ((k', v') # m) =
     (if k = k' then (k, v) # m
      else if k < k' then (k, v) # (k', v') # m
      else (k', v') # bm_insert k v m)"

definition bm_remove :: "'k \<Rightarrow> ('k, 'v) btree_map \<Rightarrow> ('k, 'v) btree_map" where
  "bm_remove k m = filter (\<lambda>(k', _). k' \<noteq> k) m"

definition bm_contains :: "('k, 'v) btree_map \<Rightarrow> 'k \<Rightarrow> bool" where
  "bm_contains m k = (bm_get m k \<noteq> None)"

definition bm_values :: "('k, 'v) btree_map \<Rightarrow> 'v list" where
  "bm_values m = map snd m"

definition bm_of_list :: "('k::linorder \<times> 'v) list \<Rightarrow> ('k, 'v) btree_map" where
  \<comment> \<open>collecting an iterator: a later binding replaces an earlier one\<close>
  "bm_of_list xs = fold (\<lambda>(k, v). bm_insert k v) xs []"

definition bm_ordered :: "('k::linorder, 'v) btree_map \<Rightarrow> bool" where
  "bm_ordered m = sorted_wrt (<) (map fst m)"

lemma bm_get_insert [simp]: "bm_get (bm_insert k v m) = (bm_get m)(k \<mapsto> v)"
  by (induction m) (auto simp: fun_eq_iff)

lemma bm_get_remove [simp]: "bm_get (bm_remove k m) = (bm_get m)(k := None)"
  by (induction m) (auto simp: bm_remove_def fun_eq_iff)

lemma bm_contains_iff [simp]: "bm_contains m k = (\<exists>v. bm_get m k = Some v)"
  by (auto simp: bm_contains_def)

lemma bm_insert_keys: "set (map fst (bm_insert k v m)) = insert k (set (map fst m))"
proof (induction m)
  case (Cons p m)
  then show ?case by (cases p) (simp add: insert_commute)
qed simp

lemma bm_insert_ordered: "bm_ordered m \<Longrightarrow> bm_ordered (bm_insert k v m)"
proof (induction m)
  case (Cons p m)
  obtain a b where p: "p = (a, b)" by (cases p)
  from Cons.prems have a: "\<forall>x \<in> set (map fst m). a < x" and m: "bm_ordered m"
    by (simp_all add: bm_ordered_def p)
  have "\<forall>x \<in> set (map fst (bm_insert k v m)). a < x" if "a < k"
    using a that by (simp only: bm_insert_keys) simp
  with Cons.IH [OF m] a m show ?case
    by (auto simp: p bm_ordered_def)
qed (simp add: bm_ordered_def)

lemma bm_remove_ordered: "bm_ordered m \<Longrightarrow> bm_ordered (bm_remove k m)"
  by (induction m) (auto simp: bm_ordered_def bm_remove_def)

lemma bm_ordered_Nil [simp]: "bm_ordered []"
  by (simp add: bm_ordered_def)

lemma bm_of_list_ordered: "bm_ordered (bm_of_list xs)"
proof -
  have "bm_ordered m \<Longrightarrow> bm_ordered (fold (\<lambda>(k, v). bm_insert k v) xs m)" for m
    by (induction xs arbitrary: m) (auto simp: bm_insert_ordered)
  then show ?thesis by (simp add: bm_of_list_def)
qed

lemma bm_values_get: "v \<in> set (bm_values m) \<Longrightarrow> distinct (map fst m) \<Longrightarrow> \<exists>k. bm_get m k = Some v"
  by (force simp: bm_values_def)

lemma bm_get_values: "bm_get m k = Some v \<Longrightarrow> v \<in> set (bm_values m)"
  by (force simp: bm_values_def dest: map_of_SomeD)

lemma bm_ordered_distinct: "bm_ordered m \<Longrightarrow> distinct (map fst m)"
  by (simp add: bm_ordered_def strict_sorted_iff)

lemma bm_insert_last: "\<forall>x \<in> set (map fst m). x < k \<Longrightarrow> bm_insert k v m = m @ [(k, v)]"
  by (induction m) auto

lemma bm_of_list_id: "bm_ordered m \<Longrightarrow> bm_of_list m = m"
proof (induction m rule: rev_induct)
  case (snoc p m)
  then have "bm_ordered m" and "\<forall>x \<in> set (map fst m). x < fst p"
    by (auto simp: bm_ordered_def sorted_wrt_append)
  with snoc.IH show ?case
    by (simp add: bm_of_list_def bm_insert_last case_prod_unfold)
qed (simp add: bm_of_list_def)

lemma bm_insert_set: "set (bm_insert k v m) \<subseteq> insert (k, v) (set m)"
  by (induction m) (auto split: if_splits)

lemma bm_of_list_set: "set (bm_of_list xs) \<subseteq> set xs"
proof (induction xs rule: rev_induct)
  case (snoc p xs)
  then show ?case
    using bm_insert_set [of "fst p" "snd p" "bm_of_list xs"]
    by (cases p) (auto simp: bm_of_list_def)
qed (simp add: bm_of_list_def)

text \<open>An ordered map is determined by what it looks up.\<close>

lemma bm_of_list_get: "distinct (map fst xs) \<Longrightarrow> bm_get (bm_of_list xs) = map_of xs"
proof (induction xs rule: rev_induct)
  case (snoc p xs)
  then have "map_of xs (fst p) = None" by (auto simp: map_of_eq_None_iff)
  with snoc show ?case by (auto simp: bm_of_list_def fun_eq_iff map_add_def split: option.splits prod.splits)
qed (simp add: bm_of_list_def)

lemma bm_ordered_unique:
  assumes "bm_ordered m" and "bm_ordered n" and "map_of m = map_of n"
  shows "m = n"
proof -
  note d = bm_ordered_distinct [OF assms(1)] bm_ordered_distinct [OF assms(2)]
  have s: "set m = set n" using assms(3) map_of_inject_set [OF d] by simp
  moreover have "inj_on fst (set m \<union> set n)" using d(1) s by (simp add: distinct_map)
  ultimately show ?thesis
    using d assms(1,2) by (intro map_sorted_distinct_set_unique [of fst]) (auto simp: bm_ordered_def strict_sorted_iff)
qed

section \<open>Histories of a transition system\<close>

text \<open>
  What a component with state promises its clients about a history of steps: an invariant
  every step keeps, and a preorder that relates a state of the invariant to each of its
  successors.
\<close>

locale history =
  fixes step :: "'s \<Rightarrow> 's \<Rightarrow> bool"
    and inv :: "'s \<Rightarrow> bool"
    and later :: "'s \<Rightarrow> 's \<Rightarrow> bool"
  assumes step_inv: "step s t \<Longrightarrow> inv s \<Longrightarrow> inv t"
    and step_later: "step s t \<Longrightarrow> inv s \<Longrightarrow> later s t"
    and later_refl: "later s s"
    and later_trans: "later s t \<Longrightarrow> later t u \<Longrightarrow> later s u"
begin

lemma steps_inv: "step\<^sup>*\<^sup>* s t \<Longrightarrow> inv s \<Longrightarrow> inv t"
  by (induction rule: rtranclp_induct) (auto intro: step_inv)

lemma steps_later: "step\<^sup>*\<^sup>* s t \<Longrightarrow> inv s \<Longrightarrow> later s t"
  by (induction rule: rtranclp_induct) (auto intro: later_refl later_trans step_later steps_inv)

end

section \<open>Duplicates among sorted neighbours\<close>

fun adjacent_distinct :: "'a list \<Rightarrow> bool" where
  \<comment> \<open>\<^verbatim>\<open>windows(2)\<close> holds no pair of equal elements\<close>
  "adjacent_distinct (x # y # xs) = (x \<noteq> y \<and> adjacent_distinct (y # xs))"
| "adjacent_distinct _ = True"

lemma adjacent_distinct_sorted:
  "sorted xs \<Longrightarrow> adjacent_distinct xs = distinct (xs :: 'a::linorder list)"
proof (induction xs rule: adjacent_distinct.induct)
  case (1 x y xs)
  then have "y \<le> z" if "z \<in> set xs" for z using that by auto
  with 1 show ?case by fastforce
qed auto

lemma adjacent_distinct_sort: "adjacent_distinct (sort xs) = distinct (xs :: 'a::linorder list)"
  by (simp add: adjacent_distinct_sorted)

end
