(* ===== verification/Rust_Text.thy ===== *)
theory Rust_Text
  imports Prelude
begin

text \<open>
  The parts of Rust's \<^verbatim>\<open>str\<close>, \<^verbatim>\<open>char\<close> and \<^verbatim>\<open>u8\<close> interfaces that the program uses, on
  UTF-8 byte strings: ASCII classes and case mapping, \<^verbatim>\<open>starts_with\<close>, \<^verbatim>\<open>ends_with\<close>,
  \<^verbatim>\<open>contains\<close>, \<^verbatim>\<open>find\<close>, \<^verbatim>\<open>split\<close>, \<^verbatim>\<open>rsplit_once\<close>, \<^verbatim>\<open>trim\<close>, \<^verbatim>\<open>split_whitespace\<close> and
  \<^verbatim>\<open>join\<close>. White space is Unicode's \<^verbatim>\<open>White_Space\<close> property, recognised by its UTF-8
  encodings.
\<close>

section \<open>Bytes\<close>

definition byte :: "char \<Rightarrow> nat" where
  "byte c = of_char c"

definition is_ascii_digit :: "char \<Rightarrow> bool" where
  "is_ascii_digit c = (48 \<le> byte c \<and> byte c \<le> 57)"

definition is_ascii_lowercase :: "char \<Rightarrow> bool" where
  "is_ascii_lowercase c = (97 \<le> byte c \<and> byte c \<le> 122)"

definition is_ascii_uppercase :: "char \<Rightarrow> bool" where
  "is_ascii_uppercase c = (65 \<le> byte c \<and> byte c \<le> 90)"

definition is_ascii_alphabetic :: "char \<Rightarrow> bool" where
  "is_ascii_alphabetic c = (is_ascii_lowercase c \<or> is_ascii_uppercase c)"

definition is_ascii_alphanumeric :: "char \<Rightarrow> bool" where
  "is_ascii_alphanumeric c = (is_ascii_alphabetic c \<or> is_ascii_digit c)"

definition is_lower_hex :: "char \<Rightarrow> bool" where
  "is_lower_hex c = (is_ascii_digit c \<or> (97 \<le> byte c \<and> byte c \<le> 102))"

definition is_ascii_whitespace :: "char \<Rightarrow> bool" where
  \<comment> \<open>\<^verbatim>\<open>u8::is_ascii_whitespace\<close>: tab, line feed, form feed, carriage return, space\<close>
  "is_ascii_whitespace c = (byte c \<in> {9, 10, 12, 13, 32})"

definition ascii_lower :: "char \<Rightarrow> char" where
  "ascii_lower c = (if is_ascii_uppercase c then char_of (byte c + 32) else c)"

definition ascii_upper :: "char \<Rightarrow> char" where
  "ascii_upper c = (if is_ascii_lowercase c then char_of (byte c - 32) else c)"

definition to_ascii_lowercase :: "string \<Rightarrow> string" where
  "to_ascii_lowercase s = map ascii_lower s"

definition to_ascii_uppercase :: "string \<Rightarrow> string" where
  "to_ascii_uppercase s = map ascii_upper s"

lemmas ascii_defs = is_ascii_digit_def is_ascii_lowercase_def is_ascii_uppercase_def
  is_ascii_alphabetic_def is_ascii_alphanumeric_def is_lower_hex_def is_ascii_whitespace_def
  byte_def

lemma byte_inject [simp]: "(byte c = byte d) = (c = d)"
  by (simp add: byte_def)

lemma ascii_lower_id: "\<not> is_ascii_uppercase c \<Longrightarrow> ascii_lower c = c"
  by (simp add: ascii_lower_def)

section \<open>Searching\<close>

definition starts_with :: "string \<Rightarrow> string \<Rightarrow> bool" where
  "starts_with s p = prefix p s"

definition ends_with :: "string \<Rightarrow> string \<Rightarrow> bool" where
  "ends_with s p = suffix p s"

definition strip_prefix :: "string \<Rightarrow> string \<Rightarrow> string option" where
  "strip_prefix s p = (if prefix p s then Some (drop (length p) s) else None)"

fun find_sub :: "string \<Rightarrow> string \<Rightarrow> nat option" where
  \<comment> \<open>\<open>find_sub p s\<close> is \<^verbatim>\<open>s.find(p)\<close>: the first byte index at which \<open>p\<close> occurs\<close>
  "find_sub p [] = (if p = [] then Some 0 else None)"
| "find_sub p (c # s) =
     (if prefix p (c # s) then Some 0 else map_option Suc (find_sub p s))"

definition contains :: "string \<Rightarrow> string \<Rightarrow> bool" where
  "contains s p = (find_sub p s \<noteq> None)"

lemma find_sub_Some: "find_sub p s = Some i \<Longrightarrow> prefix p (drop i s)"
  by (induction p s arbitrary: i rule: find_sub.induct) (auto split: if_splits)

lemma find_sub_None: "find_sub p s = None \<Longrightarrow> \<not> sublist p s"
  by (induction p s rule: find_sub.induct) (auto split: if_splits simp: sublist_Cons_right)

lemma contains_iff: "contains s p = sublist p s"
proof
  assume "contains s p"
  then obtain i where "prefix p (drop i s)"
    by (auto simp: contains_def dest: find_sub_Some)
  then show "sublist p s"
    by (metis append_take_drop_id prefix_def sublist_appendI)
qed (use find_sub_None [of p s] in \<open>auto simp: contains_def\<close>)

lemma find_sub_bound: "find_sub p s = Some i \<Longrightarrow> i + length p \<le> length s"
  by (induction p s arbitrary: i rule: find_sub.induct)
    (auto split: if_splits dest: prefix_length_le)

lemma find_sub_shrinks:
  "find_sub p s = Some i \<Longrightarrow> p \<noteq> [] \<Longrightarrow> length s - (i + length p) < length s"
  by (drule find_sub_bound) (cases p; simp)

section \<open>Splitting on one byte\<close>

fun split_on :: "char \<Rightarrow> string \<Rightarrow> string list" where
  "split_on sep [] = [[]]"
| "split_on sep (c # s) =
     (if c = sep then [] # split_on sep s
      else (case split_on sep s of [] \<Rightarrow> [[c]] | w # ws \<Rightarrow> (c # w) # ws))"

lemma split_on_not_Nil [simp]: "split_on sep s \<noteq> []"
  by (induction s) (auto split: list.splits)

lemma split_on_no_sep: "w \<in> set (split_on sep s) \<Longrightarrow> sep \<notin> set w"
  by (induction s arbitrary: w) (auto split: if_splits list.splits)

lemma split_on_chars: "w \<in> set (split_on sep s) \<Longrightarrow> set w \<subseteq> set s"
  by (induction s arbitrary: w) (force split: if_splits list.splits)+

lemma split_on_append:
  "split_on sep (a @ sep # b) = split_on sep a @ split_on sep b"
  by (induction a) (auto split: list.splits)

lemma split_on_single: "sep \<notin> set s \<Longrightarrow> split_on sep s = [s]"
  by (induction s) auto

text \<open>\<^verbatim>\<open>s.rsplit_once(p)\<close> splits at the last occurrence of \<open>p\<close>.\<close>

fun rsplit_once :: "string \<Rightarrow> string \<Rightarrow> (string \<times> string) option" where
  "rsplit_once p [] = (if p = [] then Some ([], []) else None)"
| "rsplit_once p (c # s) =
     (case rsplit_once p s of
        Some (a, b) \<Rightarrow> Some (c # a, b)
      | None \<Rightarrow> if prefix p (c # s) then Some ([], drop (length p) (c # s)) else None)"

lemma rsplit_once_Some: "rsplit_once p s = Some (a, b) \<Longrightarrow> s = a @ p @ b"
  by (induction p s arbitrary: a b rule: rsplit_once.induct)
    (auto split: if_splits option.splits elim!: prefixE)

section \<open>White space\<close>

fun ws_len :: "string \<Rightarrow> nat" where
  \<comment> \<open>the byte length of the white space character at the head of the text, 0 if there is none\<close>
  "ws_len [] = 0"
| "ws_len [a] = (if byte a \<in> {9, 10, 11, 12, 13, 32} then 1 else 0)"
| "ws_len [a, b] =
     (if byte a \<in> {9, 10, 11, 12, 13, 32} then 1
      else if byte a = 0xC2 \<and> byte b \<in> {0x85, 0xA0} then 2 else 0)"
| "ws_len (a # b # c # s) =
     (if byte a \<in> {9, 10, 11, 12, 13, 32} then 1
      else if byte a = 0xC2 \<and> byte b \<in> {0x85, 0xA0} then 2
      else if byte a = 0xE1 \<and> byte b = 0x9A \<and> byte c = 0x80 then 3
      else if byte a = 0xE2 \<and> byte b = 0x80 \<and>
        (0x80 \<le> byte c \<and> byte c \<le> 0x8A \<or> byte c \<in> {0xA8, 0xA9, 0xAF}) then 3
      else if byte a = 0xE2 \<and> byte b = 0x81 \<and> byte c = 0x9F then 3
      else if byte a = 0xE3 \<and> byte b = 0x80 \<and> byte c = 0x80 then 3 else 0)"

lemma ws_len_le: "ws_len s \<le> length s"
  by (cases s rule: ws_len.cases) auto

lemma ws_len_pos: "0 < ws_len s \<Longrightarrow> s \<noteq> []"
  by auto

lemma ws_len_take: "ws_len s = 0 \<Longrightarrow> ws_len (take n s) = 0"
  by (cases s rule: ws_len.cases; cases n; cases "n - 1"; cases "n - 2")
    (auto split: if_splits simp: take_Cons')

function trim_start :: "string \<Rightarrow> string" where
  "trim_start s = (if ws_len s = 0 then s else trim_start (drop (ws_len s) s))"
  by pat_completeness auto
termination
  by (relation "measure length") (auto intro!: diff_less dest: ws_len_pos)

declare trim_start.simps [simp del]

definition blank :: "string \<Rightarrow> bool" where
  \<comment> \<open>\<^verbatim>\<open>s.trim().is_empty()\<close>: nothing but white space\<close>
  "blank s = (trim_start s = [])"

lemma blank_Nil [simp]: "blank []"
  by (simp add: blank_def trim_start.simps)

function split_ws :: "string \<Rightarrow> string \<Rightarrow> string list" where
  \<comment> \<open>\<open>split_ws [] s\<close> is \<^verbatim>\<open>s.split_whitespace()\<close>; the first argument is the word being read\<close>
  "split_ws w s =
     (if s = [] then (if w = [] then [] else [w])
      else if ws_len s = 0 then split_ws (w @ [hd s]) (tl s)
      else (if w = [] then [] else [w]) @ split_ws [] (drop (ws_len s) s))"
  by pat_completeness auto
termination
  by (relation "measure (\<lambda>(w, s). length s)") auto

declare split_ws.simps [simp del]

definition split_whitespace :: "string \<Rightarrow> string list" where
  "split_whitespace s = split_ws [] s"

fun join :: "string \<Rightarrow> string list \<Rightarrow> string" where
  "join sep [] = []"
| "join sep [w] = w"
| "join sep (w # v # ws) = w @ sep @ join sep (v # ws)"

text \<open>
  A word of the split holds no white space character, at any position. Words joined by a
  space split back into themselves, since a white space encoding never spans the space.
\<close>

fun no_ws :: "string \<Rightarrow> bool" where
  "no_ws [] = True"
| "no_ws (c # w) = (ws_len (c # w) = 0 \<and> no_ws w)"

declare no_ws.simps(2) [simp del]

lemma no_ws_iff: "no_ws w = (\<forall>i < length w. ws_len (drop i w) = 0)"
  by (induction w) (auto simp: no_ws.simps less_Suc_eq_0_disj simp del: ws_len.simps)

lemma ws_len_append_space:
  assumes "s \<noteq> []" and "ws_len s = 0"
  shows "ws_len (s @ CHR '' '' # t) = 0"
  using assms
  by (cases s rule: ws_len.cases; cases t)
    (auto simp: byte_def split: if_splits)

lemma no_ws_Cons: "no_ws (c # w) \<Longrightarrow> ws_len (c # w) = 0 \<and> no_ws w"
  by (simp only: no_ws.simps)

lemma split_ws_word:
  "no_ws w \<Longrightarrow> split_ws v (w @ CHR '' '' # t) = split_ws (v @ w) (CHR '' '' # t)"
proof (induction w arbitrary: v)
  case (Cons c w)
  then have "ws_len ((c # w) @ CHR '' '' # t) = 0" and "no_ws w"
    using no_ws_Cons [of c w] ws_len_append_space [of "c # w" t] by auto
  then show ?case
    using Cons.IH [of "v @ [c]"] by (subst split_ws.simps) simp
qed simp

lemma split_ws_last: "no_ws w \<Longrightarrow> split_ws v w = (if v @ w = [] then [] else [v @ w])"
proof (induction w arbitrary: v)
  case Nil
  then show ?case by (subst split_ws.simps) simp
next
  case (Cons c w)
  then have "ws_len (c # w) = 0" and "no_ws w"
    using no_ws_Cons [of c w] by auto
  then show ?case
    using Cons.IH [of "v @ [c]"] by (subst split_ws.simps) simp
qed

lemma ws_len_space [simp]: "ws_len (CHR '' '' # t) = 1"
  by (cases "CHR '' '' # t" rule: ws_len.cases) (auto simp: byte_def)

lemma split_whitespace_join:
  "\<forall>w \<in> set ws. w \<noteq> [] \<and> no_ws w \<Longrightarrow> split_whitespace (join '' '' ws) = ws"
proof (induction "'' ''" ws rule: join.induct)
  case 1
  then show ?case by (simp add: split_whitespace_def split_ws.simps)
next
  case (2 w)
  then show ?case by (simp add: split_whitespace_def split_ws_last)
next
  case (3 w v ws)
  have "split_ws w (CHR '' '' # join '' '' (v # ws)) = w # split_ws [] (join '' '' (v # ws))"
    using "3.prems" by (subst split_ws.simps) simp
  with 3 show ?case by (simp add: split_whitespace_def split_ws_word)
qed

lemma split_ws_words:
  assumes "\<forall>i < length v. ws_len (drop i v @ s) = 0" and "w \<in> set (split_ws v s)"
  shows "w \<noteq> [] \<and> no_ws w"
  using assms
proof (induction v s rule: split_ws.induct)
  case (1 v s)
  have v: "no_ws v"
    using "1.prems"(1) ws_len_take [where n = "length v - i" and s = "drop i v @ s" for i]
    by (fastforce simp: no_ws_iff)
  consider (nil) "s = []" | (read) "s \<noteq> []" "ws_len s = 0" | (cut) "s \<noteq> []" "ws_len s \<noteq> 0"
    by blast
  then show ?case
  proof cases
    case nil
    with "1.prems"(2) v show ?thesis
      by (subst (asm) split_ws.simps) (auto split: if_splits)
  next
    case read
    have "\<forall>i < length (v @ [hd s]). ws_len (drop i (v @ [hd s]) @ tl s) = 0"
      using "1.prems"(1) read by (auto simp: less_Suc_eq)
    with read "1.IH"(1) "1.prems"(2) show ?thesis
      by (subst (asm) split_ws.simps [of v s]) auto
  next
    case cut
    then have "w \<in> set (split_ws [] (drop (ws_len s) s)) \<or> w = v \<and> v \<noteq> []"
      using "1.prems"(2) by (subst (asm) split_ws.simps [of v s]) (auto split: if_splits)
    with cut v "1.IH"(2) show ?thesis by auto
  qed
qed

lemma split_whitespace_words:
  "w \<in> set (split_whitespace s) \<Longrightarrow> w \<noteq> [] \<and> no_ws w"
  unfolding split_whitespace_def by (rule split_ws_words [of "[]" s]) simp_all

end
