(* ===== verification/Core.thy ===== *)
theory Core
  imports Rust_Text
begin

text \<open>
  The crate \<^verbatim>\<open>openwork-core\<close> (\<^verbatim>\<open>crates/openwork-core/src/lib.rs\<close>): error codes and their
  process exit codes, the error value whose text is redacted on construction, JSON values,
  and the redaction of free text and of structured data. The lemmas show that redaction is
  idempotent, that no word of a redacted text carries a recognised secret, and that every
  field of a redacted document with a secret key holds the marker.
\<close>

section \<open>Errors\<close>

datatype error_code =
    InvalidArguments | UnsupportedPlatform | PreflightFailed | RuntimeNotFound
  | RuntimeUnhealthy | InstallFailed | ConfigInvalid | InvalidStateTransition
  | PolicyDenied | ApprovalRequired | ApprovalInvalid | SandboxUnavailable
  | ExecutionFailed | RunTimedOut | RunCancelled | ArtifactInvalid | Io | Internal

fun exit_code :: "error_code \<Rightarrow> 8 word" where
  "exit_code InvalidArguments = 2"
| "exit_code UnsupportedPlatform = 10"
| "exit_code PreflightFailed = 11"
| "exit_code RuntimeNotFound = 20"
| "exit_code RuntimeUnhealthy = 21"
| "exit_code InstallFailed = 30"
| "exit_code ConfigInvalid = 40"
| "exit_code InvalidStateTransition = 50"
| "exit_code PolicyDenied = 51"
| "exit_code ApprovalRequired = 52"
| "exit_code ApprovalInvalid = 53"
| "exit_code SandboxUnavailable = 60"
| "exit_code ExecutionFailed = 61"
| "exit_code RunTimedOut = 62"
| "exit_code RunCancelled = 63"
| "exit_code ArtifactInvalid = 64"
| "exit_code Io = 74"
| "exit_code Internal = 70"

section \<open>Redaction of free text\<close>

definition redacted :: string where
  "redacted = ''[REDACTED]''"

definition normalize_key :: "string \<Rightarrow> string" where
  \<comment> \<open>the ASCII letters and digits of the text, in lower case\<close>
  "normalize_key s = map ascii_lower (filter is_ascii_alphanumeric s)"

definition trim_chars :: "char list \<Rightarrow> string \<Rightarrow> string" where
  \<comment> \<open>\<^verbatim>\<open>trim_matches\<close> of a set of characters\<close>
  "trim_chars cs s = rev (dropWhile (\<lambda>c. c \<in> set cs) (rev (dropWhile (\<lambda>c. c \<in> set cs) s)))"

definition assignment_keys :: "string list" where
  "assignment_keys =
    [''authorization'', ''set-cookie'', ''cookie'', ''password'', ''client_secret'',
     ''clientsecret'', ''private_key'', ''privatekey'', ''access_key'', ''accesskey'',
     ''api_key'', ''apikey'', ''secret'', ''token'']"

function assignment_tail_for :: "string \<Rightarrow> string \<Rightarrow> nat option" where
  \<comment> \<open>the inner loop of \<^verbatim>\<open>secret_assignment_tail\<close> for one key, on \<^verbatim>\<open>lower[offset..]\<close>\<close>
  "assignment_tail_for key s =
     (case find_sub key s of
        None \<Rightarrow> None
      | Some relative \<Rightarrow>
          let rest = drop (relative + length key) s;
              suffix = dropWhile (\<lambda>c. c \<in> {CHR 0x22, CHR 0x27, CHR '' '', CHR 0x09}) rest
          in (case suffix of
                [] \<Rightarrow> None
              | separator # tail \<Rightarrow>
                  if separator = CHR ''='' \<or> separator = CHR '':'' then
                    (let val = trim_chars [CHR 0x22, CHR 0x27, CHR '','', CHR '';'', CHR ''}'',
                                 CHR '']'', CHR '' ''] tail
                     in Some (if key = ''authorization'' then (if val = [] then 2 else 1)
                              else (if val = [] then 1 else 0)))
                  else if key = [] then None else assignment_tail_for key rest))"
  \<comment> \<open>every key of \<open>assignment_keys\<close> is non-empty, so each round consumes text\<close>
  by pat_completeness auto
termination
  by (relation "measure (\<lambda>(key, s). length s)") (auto simp: find_sub_shrinks)

declare assignment_tail_for.simps [simp del]

fun first_Some :: "('a \<Rightarrow> 'b option) \<Rightarrow> 'a list \<Rightarrow> 'b option" where
  "first_Some f [] = None"
| "first_Some f (x # xs) = (case f x of Some y \<Rightarrow> Some y | None \<Rightarrow> first_Some f xs)"

definition secret_assignment_tail :: "string \<Rightarrow> nat option" where
  "secret_assignment_tail word =
     (let lower = to_ascii_lowercase word
      in first_Some (\<lambda>key. assignment_tail_for key lower) assignment_keys)"

definition standalone_secret_key :: "string \<Rightarrow> bool option" where
  "standalone_secret_key word =
     (let normalized = normalize_key word;
          authorization = (normalized = ''authorization'');
          secret = (authorization \<or>
            normalized \<in> set [''setcookie'', ''cookie'', ''password'', ''clientsecret'',
              ''privatekey'', ''accesskey'', ''apikey'', ''secret'', ''token''])
      in if secret then Some authorization else None)"

definition word_keys :: "string list" where
  "word_keys = [''TOKEN'', ''API_KEY'', ''PASSWORD'', ''SECRET'', ''AUTHORIZATION'', ''COOKIE'']"

definition token_prefixes :: "string list" where
  "token_prefixes = [''sk-'', ''ghp_'', ''gho_'', ''github_pat_'']"

definition redact_word :: "string \<Rightarrow> string" where
  "redact_word word =
     (if list_ex (\<lambda>key. starts_with (to_ascii_uppercase word) (key @ ''='')) word_keys
         \<or> list_ex (starts_with word) token_prefixes
      then redacted else word)"

definition is_separator :: "string \<Rightarrow> bool" where
  "is_separator word =
     (trim_chars [CHR 0x22, CHR 0x27, CHR '','', CHR '';''] word \<in> {''='', '':''})"

function redact_words :: "nat \<Rightarrow> string list \<Rightarrow> string list" where
  \<comment> \<open>the loop of \<^verbatim>\<open>redact_text\<close>; the counter is \<^verbatim>\<open>redact_following\<close>\<close>
  "redact_words following words =
     (case words of
        [] \<Rightarrow> []
      | word # rest \<Rightarrow>
          if 0 < following then redacted # redact_words (following - 1) rest
          else
            (case (standalone_secret_key word, rest) of
               (Some authorization, nxt # more) \<Rightarrow>
                 if is_separator nxt
                 then redacted # redact_words 0
                        (drop (min (if authorization then 2 else 1) (length more)) more)
                 else
                   (case secret_assignment_tail word of
                      Some n \<Rightarrow> redacted # redact_words n rest
                    | None \<Rightarrow> redact_word word # redact_words 0 rest)
             | _ \<Rightarrow>
                 (case secret_assignment_tail word of
                    Some n \<Rightarrow> redacted # redact_words n rest
                  | None \<Rightarrow> redact_word word # redact_words 0 rest)))"
  by pat_completeness auto
termination
  by (relation "measure (\<lambda>(f, ws). length ws)") auto

declare redact_words.simps [simp del]

definition redact_text :: "string \<Rightarrow> string" where
  "redact_text input = join '' '' (redact_words 0 (split_whitespace input))"

section \<open>The error value\<close>

record openwork_error =
  code :: error_code
  message :: string
  remediation :: "string option"

type_synonym 'a result = "openwork_error + 'a"

definition new_error :: "error_code \<Rightarrow> string \<Rightarrow> openwork_error" where
  "new_error c msg = \<lparr>code = c, message = redact_text msg, remediation = None\<rparr>"

definition with_remediation :: "openwork_error \<Rightarrow> string \<Rightarrow> openwork_error" where
  "with_remediation e text = e\<lparr>remediation := Some (redact_text text)\<rparr>"

definition error_exit_code :: "openwork_error \<Rightarrow> 8 word" where
  "error_exit_code e = exit_code (code e)"

definition display_error :: "openwork_error \<Rightarrow> string" where
  "display_error e =
     message e @
     (case remediation e of None \<Rightarrow> [] | Some text \<Rightarrow> ''; remediation: '' @ text)"

lemma new_error_sel [simp]:
  "code (new_error c m) = c" "remediation (new_error c m) = None"
  by (simp_all add: new_error_def)

section \<open>Structured values\<close>

text \<open>
  A JSON value as \<^verbatim>\<open>serde_json\<close> holds it: a number is an unsigned or a negative 64 bit
  integer or a double (kept as its bit pattern), an object is its entries in iteration order.
\<close>

datatype jnumber = PosInt u64 | NegInt int | Float u64

datatype json =
    JNull
  | JBool bool
  | JNumber jnumber
  | JString string
  | JArray "json list"
  | JObject "(string \<times> json) list"

text \<open>
  What \<^verbatim>\<open>serde_json\<close> guarantees of the numbers it holds: the negative variant is a negative
  \<^verbatim>\<open>i64\<close> and a double is finite (its exponent bits are not all set).
\<close>

fun jnumber_ok :: "jnumber \<Rightarrow> bool" where
  "jnumber_ok (PosInt _) = True"
| "jnumber_ok (NegInt i) = (- (2 ^ 63) \<le> i \<and> i < 0)"
| "jnumber_ok (Float bits) = (unat bits div 2 ^ 52 mod 2 ^ 11 \<noteq> 2047)"

fun json_ok :: "json \<Rightarrow> bool" where
  "json_ok (JNumber n) = jnumber_ok n"
| "json_ok (JArray vs) = list_all json_ok vs"
| "json_ok (JObject es) = list_all (\<lambda>(k, v). json_ok v) es"
| "json_ok v = True"

definition secret_key_parts :: "string list" where
  "secret_key_parts =
    [''authorization'', ''cookie'', ''setcookie'', ''password'', ''secret'', ''token'',
     ''apikey'', ''accesskey'', ''privatekey'', ''clientsecret'', ''prompt'', ''stdout'',
     ''stderr'', ''runtimeoutput'', ''rawoutput'', ''vendorpayload'', ''messagecontent'',
     ''message'', ''content'', ''parameters'']"

definition is_secret_key :: "string \<Rightarrow> bool" where
  "is_secret_key key =
     (let normalized = normalize_key key
      in if ends_with normalized ''sha256'' \<or> ends_with normalized ''hash'' then False
         else list_ex (contains normalized) secret_key_parts)"

fun redact_json :: "json \<Rightarrow> json" where
  "redact_json (JArray vs) = JArray (map redact_json vs)"
| "redact_json (JObject es) =
     JObject (map (\<lambda>(k, v). (k, if is_secret_key k then JString redacted else redact_json v)) es)"
| "redact_json (JString t) = JString (redact_text t)"
| "redact_json v = v"

section \<open>What redaction guarantees\<close>

definition clean_word :: "string \<Rightarrow> bool" where
  "clean_word w = (secret_assignment_tail w = None \<and> redact_word w = w)"

lemma redact_words_Nil [simp]: "redact_words n [] = []"
  by (subst redact_words.simps) simp

lemma redact_words_Cons:
  "(\<exists>n' k. redact_words n (w # ws) = redacted # redact_words n' (drop k ws)) \<or>
   (n = 0 \<and> redact_words n (w # ws) = w # redact_words 0 ws \<and> clean_word w \<and>
    (standalone_secret_key w = None \<or> ws = [] \<or> \<not> is_separator (hd ws)))"
proof -
  note unf = redact_words.simps [of n "w # ws"]
  have w: "redact_word w = redacted \<or> redact_word w = w" by (simp add: redact_word_def)
  consider (count) "0 < n"
    | (sep) a v vs where "n = 0" "standalone_secret_key w = Some a" "ws = v # vs" "is_separator v"
    | (other) "n = 0" "standalone_secret_key w = None \<or> ws = [] \<or> \<not> is_separator (hd ws)"
    by (cases ws; cases "standalone_secret_key w"; cases "is_separator (hd ws)") auto
  then show ?thesis
  proof cases
    case count
    then have "redact_words n (w # ws) = redacted # redact_words (n - 1) (drop 0 ws)"
      by (simp add: unf)
    then show ?thesis by blast
  next
    case sep
    then have "redact_words n (w # ws) =
        redacted # redact_words 0 (drop (Suc (min (if a then 2 else 1) (length vs))) ws)"
      by (simp add: redact_words.simps [of 0 "w # v # vs"])
    then show ?thesis by blast
  next
    case other
    then have "redact_words n (w # ws) = (case secret_assignment_tail w of
        Some m \<Rightarrow> redacted # redact_words m (drop 0 ws)
      | None \<Rightarrow> redact_word w # redact_words 0 (drop 0 ws))"
      by (auto simp: redact_words.simps [of 0 "w # ws"] split: option.splits list.splits)
    moreover have "\<exists>n' k. redacted # redact_words m (drop 0 ws) = redacted # redact_words n' (drop k ws)" for m
      by blast
    ultimately show ?thesis
      using w other
      by (cases "secret_assignment_tail w"; cases "redact_word w = w") (auto simp: clean_word_def)
  qed
qed

lemma redact_words_mem:
  "x \<in> set (redact_words n ws) \<Longrightarrow> x = redacted \<or> x \<in> set ws \<and> clean_word x"
proof (induction "length ws" arbitrary: n ws rule: less_induct)
  case less
  show ?case
  proof (cases ws)
    case (Cons w ws')
    have IH: "x \<in> set (redact_words m (drop k ws')) \<Longrightarrow>
        x = redacted \<or> x \<in> set (drop k ws') \<and> clean_word x" for m k
      using less.hyps [of "drop k ws'" m] Cons by simp
    from redact_words_Cons [of n w ws'] show ?thesis
    proof (elim disjE exE conjE)
      fix m k
      assume "redact_words n (w # ws') = redacted # redact_words m (drop k ws')"
      with less.prems IH [of m k] show ?thesis by (auto simp: Cons dest: in_set_dropD)
    qed (use less.prems IH [of 0 0] in \<open>auto simp: Cons\<close>)
  qed (use less.prems in simp)
qed

lemma redact_words_head:
  "redact_words n ws \<noteq> [] \<Longrightarrow>
     ws \<noteq> [] \<and> (hd (redact_words n ws) = redacted \<or> hd (redact_words n ws) = hd ws)"
  using redact_words_Cons [of n "hd ws" "tl ws"] by (cases ws) auto

text \<open>A list of words on which a second pass changes nothing.\<close>

fun settled :: "string list \<Rightarrow> bool" where
  "settled [] = True"
| "settled [w] = clean_word w"
| "settled (w # v # ws) =
     (clean_word w \<and> (standalone_secret_key w = None \<or> \<not> is_separator v) \<and> settled (v # ws))"

lemma settled_Cons:
  "settled (w # ws) = (clean_word w \<and>
     (standalone_secret_key w = None \<or> ws = [] \<or> \<not> is_separator (hd ws)) \<and> settled ws)"
  by (cases ws) auto

lemma assignment_tail_sep:
  "assignment_tail_for key s = Some n \<Longrightarrow> CHR ''='' \<in> set s \<or> CHR '':'' \<in> set s"
proof (induction "length s" arbitrary: s n rule: less_induct)
  case less
  let ?q = "\<lambda>c. c \<in> {CHR 0x22, CHR 0x27, CHR '' '', CHR 0x09}"
  obtain i where i: "find_sub key s = Some i"
    using less.prems by (subst (asm) assignment_tail_for.simps) (auto split: option.splits)
  let ?rest = "drop (i + length key) s"
  obtain c t where ct: "dropWhile ?q ?rest = c # t"
    using less.prems i by (subst (asm) assignment_tail_for.simps) (auto simp: Let_def split: list.splits)
  then have c: "c \<in> set s"
    by (metis in_set_dropD list.set_intros(1) set_dropWhileD)
  show ?case
  proof (cases "c = CHR ''='' \<or> c = CHR '':''")
    case False
    with less.prems i ct have "key \<noteq> []" and "assignment_tail_for key ?rest = Some n"
      by (subst (asm) assignment_tail_for.simps [of key s], simp split: if_splits)+
    then have "CHR ''='' \<in> set ?rest \<or> CHR '':'' \<in> set ?rest"
      using less.hyps [of ?rest] find_sub_shrinks [OF i] by simp
    then show ?thesis by (auto dest: in_set_dropD)
  qed (use c in blast)
qed

lemma first_Some_None: "first_Some f xs = None \<longleftrightarrow> (\<forall>x \<in> set xs. f x = None)"
  by (induction xs) (auto split: option.splits)

lemma byte_ascii_lower: "is_ascii_uppercase c \<Longrightarrow> byte (ascii_lower c) = byte c + 32"
  by (simp add: ascii_lower_def is_ascii_uppercase_def byte_def)

lemma byte_ascii_upper: "is_ascii_lowercase c \<Longrightarrow> byte (ascii_upper c) = byte c - 32"
  by (auto simp: ascii_upper_def is_ascii_lowercase_def byte_def)

lemma ascii_lower_eq_sep:
  "(ascii_lower c = CHR ''='') = (c = CHR ''='')" "(ascii_lower c = CHR '':'') = (c = CHR '':'')"
  using byte_ascii_lower [of c]
  by (cases "is_ascii_uppercase c";
      force simp: ascii_lower_id is_ascii_uppercase_def byte_def)+

lemma no_separator_no_tail:
  assumes "CHR ''='' \<notin> set w" and "CHR '':'' \<notin> set w"
  shows "secret_assignment_tail w = None"
proof -
  have "CHR ''='' \<notin> set (to_ascii_lowercase w)" "CHR '':'' \<notin> set (to_ascii_lowercase w)"
    using assms by (auto simp: to_ascii_lowercase_def ascii_lower_eq_sep image_iff) (metis ascii_lower_eq_sep)+
  then have "assignment_tail_for key (to_ascii_lowercase w) = None" for key
    using assignment_tail_sep [of key "to_ascii_lowercase w"] by (cases "assignment_tail_for key (to_ascii_lowercase w)") auto
  then show ?thesis by (simp add: secret_assignment_tail_def first_Some_None)
qed

lemma redacted_no_ws: "no_ws redacted"
  by (simp add: redacted_def byte_def no_ws.simps)

lemma redacted_not_separator: "\<not> is_separator redacted"
  by (simp add: redacted_def is_separator_def trim_chars_def)

lemma redacted_not_key: "standalone_secret_key redacted = None"
  by (simp add: redacted_def standalone_secret_key_def normalize_key_def ascii_defs ascii_lower_def)

lemma redacted_no_tail: "secret_assignment_tail redacted = None"
  by (rule no_separator_no_tail) (simp_all add: redacted_def)

lemma redacted_kept: "redact_word redacted = redacted"
  by (simp add: redacted_def redact_word_def)

lemma redacted_clean: "clean_word redacted"
  by (simp add: clean_word_def redacted_no_tail redacted_kept)

lemma redacted_not_Nil: "redacted \<noteq> []"
  by (simp add: redacted_def)

lemmas redacted_facts = redacted_no_ws redacted_not_separator redacted_not_key redacted_clean
  redacted_not_Nil


lemma settled_redact_words: "settled (redact_words n ws)"
proof (induction "length ws" arbitrary: n ws rule: less_induct)
  case less
  show ?case
  proof (cases ws)
    case (Cons w ws')
    have IH: "settled (redact_words m (drop k ws'))" for m k
      using less.hyps [of "drop k ws'" m] Cons by simp
    from redact_words_Cons [of n w ws'] show ?thesis
    proof (elim disjE exE conjE)
      fix m k
      assume "redact_words n (w # ws') = redacted # redact_words m (drop k ws')"
      with IH show ?thesis by (simp add: Cons settled_Cons redacted_facts)
    next
      assume kept: "redact_words n (w # ws') = w # redact_words 0 ws'" "clean_word w"
      assume "standalone_secret_key w = None"
      with kept IH [of 0 0] show ?thesis by (simp add: Cons settled_Cons)
    next
      assume kept: "redact_words n (w # ws') = w # redact_words 0 ws'" "clean_word w"
      assume "ws' = []"
      with kept show ?thesis by (simp add: Cons)
    next
      assume kept: "redact_words n (w # ws') = w # redact_words 0 ws'" "clean_word w"
      assume "\<not> is_separator (hd ws')"
      with kept IH [of 0 0] redact_words_head [of 0 ws'] show ?thesis
        by (auto simp: Cons settled_Cons redacted_facts)
    qed
  qed simp
qed

lemma settled_fixpoint: "settled ws \<Longrightarrow> redact_words 0 ws = ws"
proof (induction ws)
  case (Cons w ws)
  then have "clean_word w" and sep: "standalone_secret_key w = None \<or> ws = [] \<or> \<not> is_separator (hd ws)"
    and ws: "redact_words 0 ws = ws"
    by (auto simp: settled_Cons)
  then have "redact_words 0 (w # ws) = w # redact_words 0 ws"
    by (subst redact_words.simps) (auto simp: clean_word_def split: option.splits list.splits)
  with ws show ?case by simp
qed simp

lemma redact_words_wordlike:
  "x \<in> set (redact_words 0 (split_whitespace s)) \<Longrightarrow> x \<noteq> [] \<and> no_ws x"
  using redact_words_mem [of x 0 "split_whitespace s"]
  by (auto simp: redacted_facts dest: split_whitespace_words)

lemma split_redact_text:
  "split_whitespace (redact_text s) = redact_words 0 (split_whitespace s)"
  unfolding redact_text_def
  by (rule split_whitespace_join) (use redact_words_wordlike in blast)

lemma redact_text_idem [simp]: "redact_text (redact_text s) = redact_text s"
proof -
  have "redact_text (redact_text s) = join '' '' (redact_words 0 (redact_words 0 (split_whitespace s)))"
    by (subst redact_text_def) (simp add: split_redact_text)
  also have "\<dots> = redact_text s"
    by (simp add: redact_text_def settled_fixpoint settled_redact_words)
  finally show ?thesis .
qed

text \<open>
  Text of one word without a separator byte and without a token prefix, such as a hyphenated
  identifier or a digest, is kept as it is.
\<close>

definition graphic :: "char \<Rightarrow> bool" where
  "graphic c = (33 \<le> byte c \<and> byte c < 127)"

definition plain_word :: "string \<Rightarrow> bool" where
  "plain_word w =
     (list_all graphic w \<and> CHR ''='' \<notin> set w \<and> CHR '':'' \<notin> set w
      \<and> \<not> list_ex (starts_with w) token_prefixes)"

lemma ws_len_first: "ws_len (c # s) \<noteq> 0 \<Longrightarrow> byte c \<in> {9, 10, 11, 12, 13, 32} \<or> 194 \<le> byte c"
  by (cases "c # s" rule: ws_len.cases) (auto split: if_splits)

lemma graphic_ws: "graphic c \<Longrightarrow> ws_len (c # s) = 0"
  using ws_len_first [of c s] by (cases "ws_len (c # s) = 0") (auto simp: graphic_def)

lemma graphic_no_ws: "list_all graphic w \<Longrightarrow> no_ws w"
  by (induction w) (simp_all add: no_ws.simps graphic_ws del: ws_len.simps)

lemma ascii_upper_eq_sep: "ascii_upper c = CHR ''='' \<Longrightarrow> c = CHR ''=''"
proof (cases "is_ascii_lowercase c")
  case True
  moreover assume "ascii_upper c = CHR ''=''"
  ultimately show ?thesis using byte_ascii_upper [of c] by (simp add: is_ascii_lowercase_def byte_def) arith
qed (simp add: ascii_upper_def)

lemma redact_word_plain:
  assumes "plain_word w"
  shows "redact_word w = w"
proof -
  have "CHR ''='' \<notin> set (to_ascii_uppercase w)"
    using assms
    by (auto simp: plain_word_def to_ascii_uppercase_def list_all_iff dest!: ascii_upper_eq_sep [OF sym])
  then have "\<not> starts_with (to_ascii_uppercase w) (k @ ''='')" for k
    by (auto simp: starts_with_def elim!: prefixE)
  with assms show ?thesis by (simp add: redact_word_def plain_word_def list_ex_iff)
qed

lemma redact_text_plain:
  assumes "plain_word w"
  shows "redact_text w = w"
proof (cases "w = []")
  case True
  then show ?thesis by (simp add: redact_text_def split_whitespace_def split_ws.simps)
next
  case False
  have "no_ws w" using assms by (simp add: plain_word_def graphic_no_ws)
  then have "clean_word w"
    using assms by (simp add: clean_word_def no_separator_no_tail redact_word_plain plain_word_def)
  then have "redact_words 0 [w] = [w]" by (simp add: settled_fixpoint)
  moreover have "split_whitespace w = [w]"
    using \<open>no_ws w\<close> False by (simp add: split_whitespace_def split_ws_last)
  ultimately show ?thesis by (simp add: redact_text_def)
qed

definition id_char :: "char \<Rightarrow> bool" where
  "id_char c = (is_lower_hex c \<or> c = CHR ''-'')"

lemma id_chars_plain: "list_all id_char w \<Longrightarrow> plain_word w"
proof -
  assume w: "list_all id_char w"
  have "\<not> starts_with w p" if "p \<in> set token_prefixes" for p
    using w that by (cases w) (auto simp: starts_with_def token_prefixes_def id_char_def ascii_defs)
  moreover have "id_char c \<Longrightarrow> graphic c \<and> c \<noteq> CHR ''='' \<and> c \<noteq> CHR '':''" for c
    by (auto simp: id_char_def graphic_def ascii_defs)
  ultimately show "plain_word w" using w by (auto simp: plain_word_def list_all_iff list_ex_iff)
qed

lemma redact_text_id: "list_all id_char w \<Longrightarrow> redact_text w = w"
  by (rule redact_text_plain [OF id_chars_plain])

section \<open>Redacted documents\<close>

fun secret_free :: "json \<Rightarrow> bool" where
  "secret_free (JArray vs) = list_all secret_free vs"
| "secret_free (JObject es) =
     list_all (\<lambda>(k, v). if is_secret_key k then v = JString redacted else secret_free v) es"
| "secret_free (JString t) = (redact_text t = t)"
| "secret_free v = True"

lemma secret_free_redact_json: "secret_free (redact_json v)"
  by (induction v rule: redact_json.induct) (auto simp: list_all_iff)

lemma redact_json_fixpoint: "secret_free v \<Longrightarrow> redact_json v = v"
  by (induction v rule: redact_json.induct) (auto simp: list_all_iff map_idI split: prod.splits)

lemma redact_json_idem [simp]: "redact_json (redact_json v) = redact_json v"
  by (rule redact_json_fixpoint [OF secret_free_redact_json])

end
