(* ===== verification/Contracts.thy ===== *)
theory Contracts
  imports Core
begin

text \<open>
  The frozen contract types of the crate \<^verbatim>\<open>openwork-execution\<close>
  (\<^verbatim>\<open>crates/openwork-execution/src/lib.rs\<close>): identifiers, timestamps, digests, portable
  paths, the run and approval state machines, sandbox requests and results, action requests
  with their canonical binding hash, approvals, and runtime tasks and events. Every smart
  constructor is the function the code has, with its error.

  Code outside the repository enters as the fields of the record \<open>ext\<close>: the SHA-256 function,
  the JSON printer, the UUID parser and printer, and the RFC 3339 parser and printer. A theorem
  that relies on one of them says so as a hypothesis on that field.
\<close>

section \<open>Code outside the repository\<close>

type_synonym uuid = "128 word"
type_synonym timestamp = int  \<comment> \<open>\<^verbatim>\<open>OffsetDateTime\<close> as its UTC instant in nanoseconds\<close>

record ext =
  sha256_digest :: "string \<Rightarrow> string"
  json_to_string :: "json \<Rightarrow> string"
  uuid_hyphenated :: "uuid \<Rightarrow> string"
  uuid_parse_str :: "string \<Rightarrow> uuid option"
  uuid_version_num :: "uuid \<Rightarrow> nat"
  rfc3339_format :: "timestamp \<Rightarrow> string"
  rfc3339_parse :: "string \<Rightarrow> timestamp option"
  ts_checked_add :: "timestamp \<Rightarrow> int \<Rightarrow> timestamp option"

text \<open>What the crates document and the code relies on, one named fact per theorem that needs it.\<close>

definition sha256_width :: "ext \<Rightarrow> bool" where
  "sha256_width X = (\<forall>b. length (sha256_digest X b) = 32)"

definition json_printer_injective :: "ext \<Rightarrow> bool" where
  "json_printer_injective X = inj_on (json_to_string X) {v. json_ok v}"

definition uuid_printer_hex :: "ext \<Rightarrow> bool" where
  "uuid_printer_hex X = (\<forall>u. list_all id_char (uuid_hyphenated X u))"

definition uuid_printer_injective :: "ext \<Rightarrow> bool" where
  "uuid_printer_injective X = inj (uuid_hyphenated X)"

definition time_printer_injective :: "ext \<Rightarrow> bool" where
  "time_printer_injective X = inj (rfc3339_format X)"

section \<open>Limits\<close>

definition execution_schema_version_number :: u32 where
  "execution_schema_version_number = 1"

definition default_max_artifact_bytes :: u64 where
  "default_max_artifact_bytes = 100 * 1024 * 1024"

definition max_action_parameter_bytes :: nat where
  "max_action_parameter_bytes = 64 * 1024"

definition max_action_parameter_depth :: nat where
  "max_action_parameter_depth = 32"

definition max_approval_ttl_seconds :: int where
  "max_approval_ttl_seconds = 24 * 60 * 60"

definition max_sandbox_output_bytes :: u64 where
  "max_sandbox_output_bytes = 16 * 1024 * 1024"

definition max_sandbox_stdin_bytes :: nat where
  "max_sandbox_stdin_bytes = 1024 * 1024"

definition invalid_contract :: "string \<Rightarrow> openwork_error" where
  "invalid_contract msg = new_error InvalidArguments msg"

datatype schema_version = SchemaVersion

definition deserialize_schema_version :: "u32 \<Rightarrow> schema_version result" where
  "deserialize_schema_version version =
     (if version \<noteq> execution_schema_version_number
      then Inl (invalid_contract ''unsupported safe-execution schema version'')
      else Inr SchemaVersion)"

section \<open>Identifiers\<close>

text \<open>The macro \<^verbatim>\<open>uuid_v7_id!\<close>: five distinct newtypes over one UUID, ordered by it.\<close>

datatype 'kind uuid_v7 = UuidV7 (uuid_of: uuid)

datatype run_kind = RunKind
datatype artifact_kind = ArtifactKind
datatype audit_event_kind = AuditEventKind
datatype action_kind = ActionKind
datatype approval_kind = ApprovalKind

type_synonym run_id = "run_kind uuid_v7"
type_synonym artifact_id = "artifact_kind uuid_v7"
type_synonym audit_event_id = "audit_event_kind uuid_v7"
type_synonym action_id = "action_kind uuid_v7"
type_synonym approval_id = "approval_kind uuid_v7"

instantiation uuid_v7 :: (type) linorder
begin

definition less_eq_uuid_v7 :: "'a uuid_v7 \<Rightarrow> 'a uuid_v7 \<Rightarrow> bool" where
  "less_eq_uuid_v7 a b = (uuid_of a \<le> uuid_of b)"

definition less_uuid_v7 :: "'a uuid_v7 \<Rightarrow> 'a uuid_v7 \<Rightarrow> bool" where
  "less_uuid_v7 a b = (uuid_of a < uuid_of b)"

instance
  by standard (auto simp: less_eq_uuid_v7_def less_uuid_v7_def uuid_v7.expand)

end

definition parse_id :: "ext \<Rightarrow> string \<Rightarrow> 'k uuid_v7 result" where
  "parse_id X val =
     (case uuid_parse_str X val of
        None \<Rightarrow> Inl (invalid_contract ''invalid UUID'')
      | Some u \<Rightarrow>
          if uuid_version_num X u \<noteq> 7
          then Inl (invalid_contract ''execution IDs must be UUIDv7'')
          else Inr (UuidV7 u))"

definition to_hyphenated :: "ext \<Rightarrow> 'k uuid_v7 \<Rightarrow> string" where
  "to_hyphenated X i = uuid_hyphenated X (uuid_of i)"

section \<open>Timestamps, digests and portable paths\<close>

definition parse_timestamp :: "ext \<Rightarrow> string \<Rightarrow> timestamp result" where
  "parse_timestamp X val =
     (if \<not> ends_with val ''Z''
      then Inl (invalid_contract ''timestamp must be RFC 3339 UTC with a Z suffix'')
      else ok_or (rfc3339_parse X val)
             (invalid_contract ''timestamp must be RFC 3339 UTC with a Z suffix''))"

datatype digest = Sha256Digest (digest_str: string)

definition valid_sha256_digest :: "string \<Rightarrow> bool" where
  "valid_sha256_digest d = (length d = 64 \<and> list_all is_lower_hex d)"

definition parse_digest :: "string \<Rightarrow> digest result" where
  "parse_digest val =
     (if length val \<noteq> 64 \<or> \<not> list_all is_lower_hex val
      then Inl (invalid_contract ''SHA-256 digest must be 64 lowercase hexadecimal characters'')
      else Inr (Sha256Digest val))"

definition hex_digit :: "nat \<Rightarrow> char" where
  "hex_digit n = (if n < 10 then char_of (48 + n) else char_of (87 + n))"

definition hex_byte :: "char \<Rightarrow> string" where
  \<comment> \<open>the format \<^verbatim>\<open>{byte:02x}\<close>\<close>
  "hex_byte c = [hex_digit (byte c div 16), hex_digit (byte c mod 16)]"

definition sha256_bytes :: "ext \<Rightarrow> string \<Rightarrow> digest" where
  "sha256_bytes X bytes = Sha256Digest (concat (map hex_byte (sha256_digest X bytes)))"

datatype rel_path = RelPath (path_str: string)

definition is_portable_byte :: "char \<Rightarrow> bool" where
  "is_portable_byte c = (is_ascii_alphanumeric c \<or> c \<in> set ''._-/'')"

definition parse_rel_path :: "string \<Rightarrow> rel_path result" where
  "parse_rel_path val =
     (let invalid_segment = list_ex (\<lambda>segment. segment = [] \<or> segment = ''.'' \<or> segment = ''..''
            \<or> CHR '':'' \<in> set segment) (split_on CHR ''/'' val)
      in if starts_with val ''/'' \<or> CHR 0x5C \<in> set val \<or> CHR 0x00 \<in> set val
            \<or> \<not> list_all is_portable_byte val \<or> invalid_segment
            \<or> starts_with val ''/''  \<comment> \<open>\<^verbatim>\<open>Path::is_absolute\<close>\<close>
         then Inl (invalid_contract
           ''artifact path must be a portable relative path below the output root'')
         else Inr (RelPath val))"

datatype working_directory = WorkingDirectory (workdir_str: string)

definition parse_working_directory :: "string \<Rightarrow> working_directory result" where
  "parse_working_directory val =
     (if val \<noteq> ''/workspace'' \<and>
         (\<not> starts_with val ''/workspace/'' \<or> ends_with val ''/'' \<or> contains val ''//''
          \<or> CHR 0x00 \<in> set val
          \<or> list_ex (\<lambda>segment. segment = ''..'' \<or> segment = ''.'') (split_on CHR ''/'' val))
      then Inl (invalid_contract ''runtime working directory must remain below /workspace'')
      else Inr (WorkingDirectory val))"

datatype artifact_size = ArtifactSizeBytes (size_get: u64)

definition new_artifact_size :: "u64 \<Rightarrow> artifact_size result" where
  "new_artifact_size val =
     (if val > default_max_artifact_bytes
      then Inl (invalid_contract ''artifact exceeds the 100 MiB M1 limit'')
      else Inr (ArtifactSizeBytes val))"

datatype actor_id = ActorId (actor_str: string)

definition parse_actor_id :: "string \<Rightarrow> actor_id result" where
  "parse_actor_id val =
     (if blank val \<or> length val > 256
      then Inl (invalid_contract ''actor ID must contain 1 to 256 characters'')
      else Inr (ActorId val))"

section \<open>Runs and artifacts\<close>

datatype run_status =
  Queued | Planning | AwaitingApproval | Running | Succeeded | Failed | Cancelled | TimedOut

fun can_transition_to :: "run_status \<Rightarrow> run_status \<Rightarrow> bool" where
  "can_transition_to Queued nxt = (nxt \<in> {Planning, Failed, Cancelled, TimedOut})"
| "can_transition_to Planning nxt =
     (nxt \<in> {AwaitingApproval, Running, Failed, Cancelled, TimedOut})"
| "can_transition_to AwaitingApproval nxt = (nxt \<in> {Running, Failed, Cancelled, TimedOut})"
| "can_transition_to Running nxt =
     (nxt \<in> {AwaitingApproval, Succeeded, Failed, Cancelled, TimedOut})"
| "can_transition_to _ nxt = False"

definition is_terminal :: "run_status \<Rightarrow> bool" where
  "is_terminal st = (st \<in> {Succeeded, Failed, Cancelled, TimedOut})"

record run =
  r_schema_version :: schema_version
  r_id :: run_id
  r_runtime :: string
  r_workspace :: string
  r_status :: run_status
  r_revision :: u64
  r_actor_id :: actor_id
  r_prompt_sha256 :: digest
  r_created_at :: timestamp
  r_updated_at :: timestamp
  r_started_at :: "timestamp option"
  r_completed_at :: "timestamp option"
  r_terminal_reason :: "string option"

record artifact =
  ar_schema_version :: schema_version
  ar_id :: artifact_id
  ar_run_id :: run_id
  ar_path :: rel_path
  ar_media_type :: string
  ar_size_bytes :: artifact_size
  ar_sha256 :: digest
  ar_created_at :: timestamp

section \<open>Sandbox contracts\<close>

datatype image_ref = DigestPinnedImageRef (image_str: string)

definition valid_oci_segment :: "string \<Rightarrow> bool" where
  "valid_oci_segment segment =
     (case segment of
        [] \<Rightarrow> False
      | first # _ \<Rightarrow>
          let edge_valid = (\<lambda>c. is_ascii_lowercase c \<or> is_ascii_digit c)
          in edge_valid first \<and> edge_valid (last segment) \<and>
             list_all (\<lambda>c. is_ascii_lowercase c \<or> is_ascii_digit c \<or> c \<in> set ''._-'') segment)"

definition is_digest_pinned_image :: "string \<Rightarrow> bool" where
  "is_digest_pinned_image img =
     (if starts_with img ''-'' \<or> list_ex is_ascii_whitespace img then False
      else case strip_prefix img ''sha256:'' of
        Some d \<Rightarrow> valid_sha256_digest d
      | None \<Rightarrow>
          (case rsplit_once ''@sha256:'' img of
             None \<Rightarrow> False
           | Some (name, d) \<Rightarrow>
               (case split_on CHR ''/'' name of
                  [] \<Rightarrow> False
                | first # segments \<Rightarrow>
                    (let valid_first =
                       (case rsplit_once '':'' first of
                          Some (host, port) \<Rightarrow>
                            valid_oci_segment host \<and> port \<noteq> [] \<and> list_all is_ascii_digit port
                        | None \<Rightarrow> valid_oci_segment first)
                     in valid_first \<and> list_all valid_oci_segment segments \<and> valid_sha256_digest d))))"

definition parse_image_ref :: "string \<Rightarrow> image_ref result" where
  "parse_image_ref val =
     (if \<not> is_digest_pinned_image val
      then Inl (invalid_contract
        ''sandbox image must be an OCI name pinned by sha256 digest or a local sha256 image id'')
      else Inr (DigestPinnedImageRef val))"

record sandbox_command =
  sc_program :: string
  sc_arguments :: "string list"
  sc_environment :: "(string, string) btree_map"
  sc_stdin :: string

definition valid_environment_name :: "string \<Rightarrow> bool" where
  "valid_environment_name name =
     (if name = [] \<or> length name > 128 then False
      else (is_ascii_uppercase (hd name) \<or> hd name = CHR ''_'') \<and>
           list_all (\<lambda>c. is_ascii_uppercase c \<or> is_ascii_digit c \<or> c = CHR ''_'') (tl name))"

definition command_with_stdin ::
    "string \<Rightarrow> string list \<Rightarrow> (string, string) btree_map \<Rightarrow> string \<Rightarrow> sandbox_command result" where
  "command_with_stdin program arguments environment stdin =
     (let valid_program = (starts_with program ''/'' \<and> \<not> starts_with program ''//''
            \<and> \<not> ends_with program ''/'' \<and> CHR 0x00 \<notin> set program
            \<and> \<not> list_ex (\<lambda>segment. segment = ''.'' \<or> segment = ''..'') (split_on CHR ''/'' program));
          arguments_valid = (length arguments \<le> 256 \<and>
            list_all (\<lambda>a. length a \<le> 8192 \<and> CHR 0x00 \<notin> set a) arguments);
          environment_valid = (length environment \<le> 64 \<and>
            list_all (\<lambda>(k, v). valid_environment_name k \<and> length v \<le> 8192 \<and> CHR 0x00 \<notin> set v)
              environment);
          stdin_valid = (length stdin \<le> max_sandbox_stdin_bytes)
      in if \<not> valid_program \<or> \<not> arguments_valid \<or> \<not> environment_valid \<or> \<not> stdin_valid
         then Inl (invalid_contract
           ''sandbox command must use an absolute program and bounded argv/environment/stdin allowlist'')
         else Inr \<lparr>sc_program = program, sc_arguments = arguments,
                   sc_environment = environment, sc_stdin = stdin\<rparr>)"

definition new_command ::
    "string \<Rightarrow> string list \<Rightarrow> (string, string) btree_map \<Rightarrow> sandbox_command result" where
  "new_command program arguments environment = command_with_stdin program arguments environment []"

record sandbox_limits =
  sl_cpu_millis :: u64
  sl_memory_bytes :: u64
  sl_pid_limit :: u32
  sl_timeout_seconds :: u64
  sl_max_output_bytes :: u64

definition new_limits :: "u64 \<Rightarrow> u64 \<Rightarrow> u32 \<Rightarrow> u64 \<Rightarrow> u64 \<Rightarrow> sandbox_limits result" where
  "new_limits cpu_millis memory_bytes pid_limit timeout_seconds max_output_bytes =
     (if \<not> (1 \<le> cpu_millis \<and> cpu_millis \<le> 64000)
         \<or> \<not> (1048576 \<le> memory_bytes \<and> memory_bytes \<le> 68719476736)
         \<or> \<not> (1 \<le> pid_limit \<and> pid_limit \<le> 4096)
         \<or> \<not> (1 \<le> timeout_seconds \<and> timeout_seconds \<le> 3600)
         \<or> \<not> (1 \<le> max_output_bytes \<and> max_output_bytes \<le> max_sandbox_output_bytes)
      then Inl (invalid_contract ''sandbox limits are outside M1 bounds'')
      else Inr \<lparr>sl_cpu_millis = cpu_millis, sl_memory_bytes = memory_bytes,
                sl_pid_limit = pid_limit, sl_timeout_seconds = timeout_seconds,
                sl_max_output_bytes = max_output_bytes\<rparr>)"

record sandbox_user =
  su_uid :: u32
  su_gid :: u32

definition new_user :: "u32 \<Rightarrow> u32 \<Rightarrow> sandbox_user result" where
  "new_user uid gid =
     (if uid = 0 \<or> gid = 0
      then Inl (invalid_contract ''sandbox user and group must be non-root'')
      else Inr \<lparr>su_uid = uid, su_gid = gid\<rparr>)"

text \<open>
  Filesystem calls are parameters: \<open>canonicalize\<close> and \<open>is_dir\<close> answer for a path what
  \<^verbatim>\<open>fs::canonicalize\<close> and \<^verbatim>\<open>fs::metadata\<close> answer at the time of the call.
\<close>

record fs_view =
  canonicalize :: "string \<Rightarrow> string option"
  is_dir :: "string \<Rightarrow> bool"

definition path_components :: "string \<Rightarrow> string list" where
  \<comment> \<open>\<^verbatim>\<open>Path::components\<close> of a Unix path: the root, then the names between slashes\<close>
  "path_components p =
     (if starts_with p ''/'' then [''/''] else []) @ filter (\<lambda>c. c \<noteq> []) (split_on CHR ''/'' p)"

definition path_starts_with :: "string \<Rightarrow> string \<Rightarrow> bool" where
  "path_starts_with p root = prefix (path_components root) (path_components p)"

definition path_eq :: "string \<Rightarrow> string \<Rightarrow> bool" where
  "path_eq p q = (path_components p = path_components q)"

datatype mount_dir = ApprovedMountDirectory (mount_path: string)

definition under_root :: "fs_view \<Rightarrow> string \<Rightarrow> string \<Rightarrow> mount_dir result" where
  "under_root F path approved_root =
     res_bind (ok_or (canonicalize F approved_root)
         (invalid_contract ''approved mount root is unavailable'')) (\<lambda>root.
     res_bind (ok_or (canonicalize F path)
         (invalid_contract ''sandbox mount directory is unavailable'')) (\<lambda>canonical.
     if \<not> path_starts_with canonical root \<or> path_eq canonical root \<or> \<not> is_dir F canonical
     then Inl (invalid_contract ''sandbox mount must be a directory below its approved root'')
     else Inr (ApprovedMountDirectory canonical)))"

datatype network_name = SandboxNetworkName (network_str: string)

definition parse_network_name :: "string \<Rightarrow> network_name result" where
  "parse_network_name val =
     (if val = [] \<or> length val > 63
         \<or> \<not> list_all (\<lambda>c. is_ascii_alphanumeric c \<or> c \<in> set ''._-'') val
         \<or> \<not> is_ascii_alphanumeric (hd val) \<or> \<not> is_ascii_alphanumeric (last val)
      then Inl (invalid_contract ''sandbox network name is invalid'')
      else Inr (SandboxNetworkName val))"

datatype network_policy = NetDisabled | NetRestricted network_name

record sandbox_request =
  sr_schema_version :: schema_version
  sr_run_id :: run_id
  sr_image :: image_ref
  sr_command :: sandbox_command
  sr_user :: sandbox_user
  sr_network :: network_policy
  sr_input_directory :: mount_dir
  sr_output_directory :: mount_dir
  sr_limits :: sandbox_limits

definition new_sandbox_request ::
    "run_id \<Rightarrow> image_ref \<Rightarrow> sandbox_command \<Rightarrow> sandbox_user \<Rightarrow> mount_dir \<Rightarrow> mount_dir
      \<Rightarrow> sandbox_limits \<Rightarrow> sandbox_request result" where
  "new_sandbox_request rid img command user input_directory output_directory limits =
     (if path_eq (mount_path input_directory) (mount_path output_directory)
      then Inl (invalid_contract ''sandbox input and output directories must be distinct'')
      else Inr \<lparr>sr_schema_version = SchemaVersion, sr_run_id = rid, sr_image = img,
                sr_command = command, sr_user = user, sr_network = NetDisabled,
                sr_input_directory = input_directory, sr_output_directory = output_directory,
                sr_limits = limits\<rparr>)"

definition with_network :: "sandbox_request \<Rightarrow> network_policy \<Rightarrow> sandbox_request" where
  "with_network request network = request\<lparr>sr_network := network\<rparr>"

datatype termination_kind = TermExited | TermCancelled | TermTimedOut | TermOutOfMemory | TermFailed

datatype cleanup_status = CleanupSucceeded | CleanupFailed string

record sandbox_result =
  sx_schema_version :: schema_version
  sx_run_id :: run_id
  sx_sandbox_id :: string
  sx_termination :: termination_kind
  sx_exit_code :: "i32 option"
  sx_stdout :: string
  sx_stderr :: string
  sx_truncated :: bool
  sx_started_at :: timestamp
  sx_completed_at :: timestamp
  sx_output_paths :: "rel_path list"
  sx_cleanup :: cleanup_status

definition valid_machine_code :: "string \<Rightarrow> bool" where
  "valid_machine_code c =
     (c \<noteq> [] \<and> length c \<le> 128 \<and>
      list_all (\<lambda>b. is_ascii_lowercase b \<or> is_ascii_digit b \<or> b \<in> set ''._-'') c)"

definition validate_sandbox_result :: "sandbox_result \<Rightarrow> unit result" where
  "validate_sandbox_result res =
     (let exited_consistently =
            (case sx_termination res of
               TermExited \<Rightarrow> sx_exit_code res \<noteq> None
             | TermFailed \<Rightarrow> True
             | _ \<Rightarrow> sx_exit_code res = None);
          cleanup_valid =
            (case sx_cleanup res of
               CleanupSucceeded \<Rightarrow> True
             | CleanupFailed c \<Rightarrow> valid_machine_code c)
      in if sx_sandbox_id res = [] \<or> length (sx_sandbox_id res) > 128
            \<or> sx_completed_at res < sx_started_at res
            \<or> length (sx_stdout res) + length (sx_stderr res) > unat max_sandbox_output_bytes
            \<or> length (sx_output_paths res) > 1024
            \<or> \<not> exited_consistently \<or> \<not> cleanup_valid
         then Inl (invalid_contract ''sandbox result invariants are invalid'')
         else Inr ())"

section \<open>Actions and their binding\<close>

datatype risk_level = Read | LocalWrite | InternalMutation | ExternalEffect | DestructiveOrFinancial

fun validate_parameter_value :: "json \<Rightarrow> nat \<Rightarrow> unit result"
  and validate_parameter_values :: "json list \<Rightarrow> nat \<Rightarrow> unit result"
  and validate_parameter_entries :: "(string \<times> json) list \<Rightarrow> nat \<Rightarrow> unit result" where
  "validate_parameter_value v depth =
     (if depth > max_action_parameter_depth
      then Inl (invalid_contract ''action parameters exceed the maximum depth'')
      else case v of
        JArray vs \<Rightarrow> validate_parameter_values vs (depth + 1)
      | JObject es \<Rightarrow> validate_parameter_entries es (depth + 1)
      | JNumber (Float _) \<Rightarrow>
          Inl (invalid_contract ''floating-point action parameters are not canonical in v1'')
      | _ \<Rightarrow> Inr ())"
| "validate_parameter_values [] depth = Inr ()"
| "validate_parameter_values (v # vs) depth =
     res_bind (validate_parameter_value v depth) (\<lambda>_. validate_parameter_values vs depth)"
| "validate_parameter_entries [] depth = Inr ()"
| "validate_parameter_entries ((k, v) # es) depth =
     res_bind (validate_parameter_value v depth) (\<lambda>_. validate_parameter_entries es depth)"

fun canonical_json :: "json \<Rightarrow> json" where
  "canonical_json (JArray vs) = JArray (map canonical_json vs)"
| "canonical_json (JObject es) =
     JObject (bm_of_list (map (\<lambda>(k, v). (k, canonical_json v)) es))"
| "canonical_json v = v"

definition action_binding :: "ext \<Rightarrow> run_id \<Rightarrow> action_id \<Rightarrow> string \<Rightarrow> string \<Rightarrow> json \<Rightarrow> json" where
  "action_binding X rid aid action resource parameters =
     JArray [JString ''openwork-action-approval-v1'',
             JString (to_hyphenated X rid), JString (to_hyphenated X aid),
             JString action, JString resource, canonical_json parameters]"

definition action_parameter_hash ::
    "ext \<Rightarrow> run_id \<Rightarrow> action_id \<Rightarrow> string \<Rightarrow> string \<Rightarrow> json \<Rightarrow> digest result" where
  "action_parameter_hash X rid aid action resource parameters =
     res_bind (validate_parameter_value parameters 0) (\<lambda>_.
     let bytes = json_to_string X (action_binding X rid aid action resource parameters)
     in if length bytes > max_action_parameter_bytes
        then Inl (invalid_contract ''action binding exceeds the 64 KiB limit'')
        else Inr (sha256_bytes X bytes))"

record action_request =
  ac_schema_version :: schema_version
  ac_id :: action_id
  ac_run_id :: run_id
  ac_action :: string
  ac_resource :: string
  ac_parameters :: json
  ac_parameter_hash :: digest

definition new_action_request ::
    "ext \<Rightarrow> action_id \<Rightarrow> run_id \<Rightarrow> string \<Rightarrow> string \<Rightarrow> json \<Rightarrow> action_request result" where
  "new_action_request X aid rid action resource parameters =
     (if blank action \<or> blank resource \<or> length action > 256 \<or> length resource > 2048
      then Inl (invalid_contract ''action and resource must be non-empty and bounded'')
      else res_bind (action_parameter_hash X rid aid action resource parameters) (\<lambda>h.
        Inr \<lparr>ac_schema_version = SchemaVersion, ac_id = aid, ac_run_id = rid,
             ac_action = action, ac_resource = resource, ac_parameters = parameters,
             ac_parameter_hash = h\<rparr>))"

definition parameters_match_hash :: "ext \<Rightarrow> action_request \<Rightarrow> bool" where
  "parameters_match_hash X a =
     (case action_parameter_hash X (ac_run_id a) (ac_id a) (ac_action a) (ac_resource a)
             (ac_parameters a) of
        Inl _ \<Rightarrow> False
      | Inr expected \<Rightarrow> ac_parameter_hash a = expected)"

datatype policy_decision = Allow | Deny | RequireApproval

record policy_evaluation =
  pe_schema_version :: schema_version
  pe_run_id :: run_id
  pe_action_id :: action_id
  pe_parameter_hash :: digest
  pe_decision :: policy_decision
  pe_effective_risk :: risk_level
  pe_policy_version :: string
  pe_rule_id :: string
  pe_reason_code :: string
  pe_evaluated_at :: timestamp

section \<open>Approvals\<close>

datatype approval_status = Pending | Approved | Denied | Expired | Consumed

fun approval_can_transition_to :: "approval_status \<Rightarrow> approval_status \<Rightarrow> bool" where
  "approval_can_transition_to Pending nxt = (nxt \<in> {Approved, Denied, Expired})"
| "approval_can_transition_to Approved nxt = (nxt \<in> {Consumed, Expired})"
| "approval_can_transition_to _ nxt = False"

datatype approval_decision = DecisionApproved | DecisionDenied

record decision_record =
  dr_decision :: approval_decision
  dr_actor :: actor_id
  dr_reason :: "string option"
  dr_decided_at :: timestamp

record approval_request =
  ap_schema_version :: schema_version
  ap_id :: approval_id
  ap_run_id :: run_id
  ap_action_id :: action_id
  ap_parameter_hash :: digest
  ap_requested_by :: actor_id
  ap_request_reason :: string
  ap_created_at :: timestamp
  ap_expires_at :: timestamp
  ap_status :: approval_status
  ap_revision :: u64
  ap_decision :: "decision_record option"
  ap_consumed_at :: "timestamp option"

definition decided_as :: "approval_request \<Rightarrow> approval_decision \<Rightarrow> bool" where
  "decided_as a d = (case ap_decision a of None \<Rightarrow> False | Some record \<Rightarrow> dr_decision record = d)"

definition approval_state_valid :: "approval_request \<Rightarrow> bool" where
  "approval_state_valid a =
     (case ap_status a of
        Pending \<Rightarrow> ap_decision a = None \<and> ap_consumed_at a = None
      | Approved \<Rightarrow> decided_as a DecisionApproved \<and> ap_consumed_at a = None
      | Denied \<Rightarrow> decided_as a DecisionDenied \<and> ap_consumed_at a = None
      | Expired \<Rightarrow> ap_consumed_at a = None
      | Consumed \<Rightarrow>
          (case ap_decision a of
             None \<Rightarrow> False
           | Some record \<Rightarrow>
               dr_decision record = DecisionApproved \<and>
               (case ap_consumed_at a of
                  None \<Rightarrow> False
                | Some consumed \<Rightarrow> consumed \<ge> dr_decided_at record \<and> consumed < ap_expires_at a)))"

definition validate_approval :: "approval_request \<Rightarrow> unit result" where
  "validate_approval a =
     (if blank (ap_request_reason a)
      then Inl (invalid_contract ''approval request reason cannot be empty'')
      else let ttl_nanos = ap_expires_at a - ap_created_at a
      in if ttl_nanos \<le> 0 \<or> ttl_nanos > max_approval_ttl_seconds * 1000000000
      then Inl (invalid_contract ''approval TTL must be positive and no more than 24 hours'')
      else if \<not> approval_state_valid a
      then Inl (invalid_contract
        ''approval status is inconsistent with decision or consumption fields'')
      else if (case ap_decision a of
                 None \<Rightarrow> False
               | Some record \<Rightarrow>
                   dr_decided_at record < ap_created_at a \<or> dr_decided_at record \<ge> ap_expires_at a)
      then Inl (invalid_contract ''approval decision must occur before the trusted expiry time'')
      else Inr ())"

definition binding_matches :: "ext \<Rightarrow> approval_request \<Rightarrow> action_request \<Rightarrow> bool" where
  "binding_matches X a action =
     (ap_run_id a = ac_run_id action \<and> ap_action_id a = ac_id action \<and>
      ap_parameter_hash a = ac_parameter_hash action \<and> parameters_match_hash X action)"

definition is_expired_at :: "approval_request \<Rightarrow> timestamp \<Rightarrow> bool" where
  "is_expired_at a trusted_now = (trusted_now \<ge> ap_expires_at a)"

definition can_consume_at ::
    "ext \<Rightarrow> approval_request \<Rightarrow> action_request \<Rightarrow> u64 \<Rightarrow> timestamp \<Rightarrow> unit result" where
  "can_consume_at X a action expected_revision trusted_now =
     res_bind (validate_approval a) (\<lambda>_.
     if ap_status a \<noteq> Approved \<or> ap_revision a \<noteq> expected_revision
        \<or> is_expired_at a trusted_now \<or> \<not> binding_matches X a action
     then Inl (new_error ApprovalInvalid
       ''approval is expired, consumed, stale, or bound to another action'')
     else Inr ())"

definition deserialize_approval :: "approval_request \<Rightarrow> approval_request result" where
  \<comment> \<open>the wire record has the same fields; what it decodes to is validated\<close>
  "deserialize_approval wire = res_bind (validate_approval wire) (\<lambda>_. Inr wire)"

section \<open>Runtime tasks and events\<close>

record runtime_task =
  rt_schema_version :: schema_version
  rt_run_id :: run_id
  rt_runtime :: string
  rt_prompt :: string
  rt_prompt_hash :: digest
  rt_working_directory :: working_directory
  rt_timeout_seconds :: u64
  rt_capabilities :: "string list"

definition prompt_matches_hash :: "ext \<Rightarrow> runtime_task \<Rightarrow> bool" where
  "prompt_matches_hash X t = (rt_prompt_hash t = sha256_bytes X (rt_prompt t))"

definition validate_runtime_task :: "ext \<Rightarrow> runtime_task \<Rightarrow> unit result" where
  "validate_runtime_task X t =
     (let capabilities_valid = (length (rt_capabilities t) \<le> 64 \<and>
            list_all (\<lambda>c. \<not> blank c \<and> length c \<le> 128) (rt_capabilities t));
          unique = adjacent_distinct (sort (rt_capabilities t))
      in if blank (rt_runtime t) \<or> length (rt_runtime t) > 128
            \<or> \<not> (1 \<le> rt_timeout_seconds t \<and> rt_timeout_seconds t \<le> 3600)
            \<or> \<not> capabilities_valid \<or> \<not> unique \<or> \<not> prompt_matches_hash X t
         then Inl (invalid_contract ''runtime task invariants are invalid'')
         else Inr ())"

datatype redacted_metadata = RedactedAuditMetadata (as_map: "(string, json) btree_map")

definition from_untrusted :: "(string, json) btree_map \<Rightarrow> redacted_metadata" where
  "from_untrusted metadata =
     (case redact_json (JObject (bm_of_list metadata)) of
        JObject entries \<Rightarrow> RedactedAuditMetadata (bm_of_list entries)
      | _ \<Rightarrow> RedactedAuditMetadata [])  \<comment> \<open>unreachable: an object remains an object\<close>"

datatype event_payload =
    PStarted
  | PStdout string bool
  | PStderr string bool
  | PMessage string
  | PToolCall string json
  | PArtifact string
  | PCompleted i32
  | PFailed string string
  | PCancelled

record runtime_event =
  re_schema_version :: schema_version
  re_run_id :: run_id
  re_sequence :: u64
  re_timestamp :: timestamp
  re_payload :: event_payload
  re_vendor_metadata :: redacted_metadata

fun runtime_event_payload_kind :: "event_payload \<Rightarrow> string" where
  "runtime_event_payload_kind PStarted = ''started''"
| "runtime_event_payload_kind (PStdout _ _) = ''stdout''"
| "runtime_event_payload_kind (PStderr _ _) = ''stderr''"
| "runtime_event_payload_kind (PMessage _) = ''message''"
| "runtime_event_payload_kind (PToolCall _ _) = ''tool_call''"
| "runtime_event_payload_kind (PArtifact _) = ''artifact''"
| "runtime_event_payload_kind (PCompleted _) = ''completed''"
| "runtime_event_payload_kind (PFailed _ _) = ''failed''"
| "runtime_event_payload_kind PCancelled = ''cancelled''"

text \<open>The canonical form of a well-formed value is well-formed.\<close>

lemma json_ok_canonical: "json_ok v \<Longrightarrow> json_ok (canonical_json v)"
proof (induction v rule: canonical_json.induct)
  case (2 es)
  have "json_ok v" if "(k, v) \<in> set (map (\<lambda>(k, v). (k, canonical_json v)) es)" for k v
  proof -
    from that obtain w where "(k, w) \<in> set es" "v = canonical_json w" by auto
    with 2 show ?thesis by (fastforce simp: list_all_iff)
  qed
  then show ?case
    using bm_of_list_set [of "map (\<lambda>(k, v). (k, canonical_json v)) es"]
    by (auto simp: list_all_iff simp del: list.set_map) blast
qed (auto simp: list_all_iff)

section \<open>State machines with terminal states\<close>

text \<open>
  The interface a lifecycle offers its clients: a step test and a terminal test, where no
  step leaves a terminal state and every other state has one. A history of steps that
  reaches a terminal state stays there.
\<close>

locale lifecycle =
  fixes can :: "'s \<Rightarrow> 's \<Rightarrow> bool"
    and terminal :: "'s \<Rightarrow> bool"
  assumes terminal_stuck: "terminal s \<Longrightarrow> \<not> can s t"
    and progress: "\<not> terminal s \<Longrightarrow> \<exists>t. can s t \<and> terminal t"
begin

lemma terminal_absorbing: "can\<^sup>*\<^sup>* s t \<Longrightarrow> terminal s \<Longrightarrow> t = s"
  by (induction rule: converse_rtranclp_induct) (auto simp: terminal_stuck)

lemma can_finish: "\<exists>t. can\<^sup>*\<^sup>* s t \<and> terminal t"
  using progress [of s] by (cases "terminal s") auto

lemma step_not_terminal: "can s t \<Longrightarrow> \<not> terminal s"
  using terminal_stuck by blast

end

interpretation run_life: lifecycle can_transition_to is_terminal
proof
  show "is_terminal s \<Longrightarrow> \<not> can_transition_to s t" for s t
    by (cases s) (simp_all add: is_terminal_def)
  show "\<not> is_terminal s \<Longrightarrow> \<exists>t. can_transition_to s t \<and> is_terminal t" for s
    by (rule exI [of _ Failed], cases s) (simp_all add: is_terminal_def)
qed

definition approval_closed :: "approval_status \<Rightarrow> bool" where
  "approval_closed st = (st \<in> {Denied, Expired, Consumed})"

interpretation approval_life: lifecycle approval_can_transition_to approval_closed
proof
  show "approval_closed s \<Longrightarrow> \<not> approval_can_transition_to s t" for s t
    by (cases s) (simp_all add: approval_closed_def)
  show "\<not> approval_closed s \<Longrightarrow> \<exists>t. approval_can_transition_to s t \<and> approval_closed t" for s
    by (rule exI [of _ Expired], cases s) (simp_all add: approval_closed_def)
qed

lemma no_return_to_queued: "\<not> can_transition_to s Queued"
  by (cases s) simp_all

section \<open>Facts about the smart constructors\<close>

lemma rel_path_segments:
  assumes "parse_rel_path v = Inr p" and "seg \<in> set (split_on CHR ''/'' v)"
  shows "seg \<noteq> [] \<and> seg \<noteq> ''.'' \<and> seg \<noteq> ''..'' \<and> CHR ''/'' \<notin> set seg \<and> CHR 0x5C \<notin> set seg
    \<and> list_all is_portable_byte seg"
  using assms split_on_chars [OF assms(2)] split_on_no_sep [OF assms(2)]
  by (auto simp: parse_rel_path_def Let_def list_ex_iff list_all_iff split: if_splits)

lemma rel_path_text: "parse_rel_path v = Inr p \<Longrightarrow> path_str p = v"
  by (auto simp: parse_rel_path_def Let_def split: if_splits)

lemma hex_digit_ok: "n < 16 \<Longrightarrow> is_lower_hex (hex_digit n)"
  by (auto simp: hex_digit_def ascii_defs)

lemma byte_lt_256 [simp]: "byte c < 256"
  using nat_of_char_less_256 [of c] by (simp add: byte_def)

lemma byte_nibbles [simp]: "byte c div 16 < 16" "byte c mod 16 < 16"
  by (simp_all add: less_mult_imp_div_less)

lemma hex_byte_ok: "list_all is_lower_hex (hex_byte c) \<and> length (hex_byte c) = 2"
  by (auto simp: hex_byte_def intro!: hex_digit_ok)

lemma sha256_bytes_valid:
  assumes "sha256_width X"
  shows "valid_sha256_digest (digest_str (sha256_bytes X b))"
proof -
  have "list_all is_lower_hex (concat (map hex_byte xs)) \<and> length (concat (map hex_byte xs)) = 2 * length xs" for xs
    using hex_byte_ok by (induction xs) (auto simp: list_all_iff)
  with assms show ?thesis
    by (simp add: sha256_bytes_def valid_sha256_digest_def sha256_width_def)
qed

lemma hex_byte_inj: "hex_byte a = hex_byte b \<Longrightarrow> a = b"
proof -
  have d: "hex_digit n = hex_digit m \<Longrightarrow> n < 16 \<Longrightarrow> m < 16 \<Longrightarrow> n = m" for n m :: nat
    by (auto simp: hex_digit_def split: if_splits)
  assume "hex_byte a = hex_byte b"
  then have "byte a div 16 = byte b div 16" "byte a mod 16 = byte b mod 16"
    by (auto simp: hex_byte_def intro!: d)
  then have "byte a = byte b" by (metis div_mult_mod_eq)
  then show "a = b" by simp
qed

lemma hex_bytes_inj: "concat (map hex_byte xs) = concat (map hex_byte ys) \<Longrightarrow> xs = ys"
proof (induction xs arbitrary: ys)
  case Nil
  then show ?case by (cases ys) (auto simp: hex_byte_def)
next
  case (Cons x xs)
  then obtain y ys' where ys: "ys = y # ys'" by (cases ys) (auto simp: hex_byte_def)
  with Cons.prems hex_byte_ok [of x] hex_byte_ok [of y]
  have "hex_byte x = hex_byte y" "concat (map hex_byte xs) = concat (map hex_byte ys')"
    by (simp_all add: append_eq_append_conv)
  with Cons.IH hex_byte_inj ys show ?case by blast
qed

text \<open>Equal digests mean equal texts or a SHA-256 collision.\<close>

definition sha256_collision :: "ext \<Rightarrow> string \<Rightarrow> string \<Rightarrow> bool" where
  "sha256_collision X a b = (a \<noteq> b \<and> sha256_digest X a = sha256_digest X b)"

lemma sha256_bytes_eq: "sha256_bytes X a = sha256_bytes X b \<Longrightarrow> a = b \<or> sha256_collision X a b"
  by (auto simp: sha256_bytes_def sha256_collision_def dest: hex_bytes_inj)

lemma to_hyphenated_inj:
  "uuid_printer_injective X \<Longrightarrow> to_hyphenated X a = to_hyphenated X b \<Longrightarrow> a = b"
  by (auto simp: to_hyphenated_def uuid_printer_injective_def intro: uuid_v7.expand dest: injD)

text \<open>Redacted metadata is stable under another pass through the redacting constructor.\<close>

lemma from_untrusted_map:
  "as_map (from_untrusted m) =
     map (\<lambda>(k, v). (k, if is_secret_key k then JString redacted else redact_json v)) (bm_of_list m)"
proof -
  have "bm_ordered (map (\<lambda>(k, v). (k, f k v)) (bm_of_list m))" for f :: "string \<Rightarrow> json \<Rightarrow> json"
    using bm_of_list_ordered [of m] by (simp add: bm_ordered_def comp_def case_prod_unfold)
  then show ?thesis by (simp add: from_untrusted_def bm_of_list_id)
qed

lemma from_untrusted_ordered: "bm_ordered (as_map (from_untrusted m))"
  using bm_of_list_ordered [of m]
  by (simp add: from_untrusted_map bm_ordered_def comp_def case_prod_unfold)

lemma from_untrusted_secret_free: "secret_free (JObject (as_map (from_untrusted m)))"
  using secret_free_redact_json [of "JObject (bm_of_list m)"] by (simp add: from_untrusted_map)

lemma from_untrusted_stable: "from_untrusted (as_map (from_untrusted m)) = from_untrusted m"
proof (rule redacted_metadata.expand)
  have "redact_json (JObject (as_map (from_untrusted m))) = JObject (as_map (from_untrusted m))"
    by (rule redact_json_fixpoint [OF from_untrusted_secret_free])
  then show "as_map (from_untrusted (as_map (from_untrusted m))) = as_map (from_untrusted m)"
    using from_untrusted_ordered [of m] by (simp add: from_untrusted_map [of "as_map (from_untrusted m)"] bm_of_list_id)
qed

end
