(* ===== verification/Audit_Chain.thy ===== *)
theory Audit_Chain
  imports Contracts
begin

text \<open>
  Audit events and their hash chain: \<^verbatim>\<open>AuditEvent\<close> of
  \<^verbatim>\<open>crates/openwork-execution/src/lib.rs\<close> and the append envelope \<^verbatim>\<open>AuditAppend\<close> of
  \<^verbatim>\<open>crates/openwork-execution/src/audit/mod.rs\<close>. An event binds its position, its content and
  the hash of its predecessor. The lemmas show that a built event verifies at its position,
  that a verified chain determines its events up to a SHA-256 collision, and that decoding
  accepts exactly the events whose hash matches.
\<close>

section \<open>Events\<close>

datatype audit_event_type =
    EvRunCreated | EvRuntimeSelected | EvSandboxCreated | EvActionRequested | EvPolicyAllowed
  | EvPolicyDenied | EvApprovalRequested | EvApprovalApproved | EvApprovalDenied
  | EvApprovalExpired | EvApprovalConsumed | EvActionExecuted | EvRuntimeStarted
  | EvRuntimeOutput | EvArtifactCreated | EvRuntimeCompleted | EvSandboxDestroyed
  | EvRunCompleted | EvRunFailed | EvApprovalBindingMismatch | EvCancelRequested
  | EvCancelConfirmed

fun audit_event_type_name :: "audit_event_type \<Rightarrow> string" where
  "audit_event_type_name EvRunCreated = ''run_created''"
| "audit_event_type_name EvRuntimeSelected = ''runtime_selected''"
| "audit_event_type_name EvSandboxCreated = ''sandbox_created''"
| "audit_event_type_name EvActionRequested = ''action_requested''"
| "audit_event_type_name EvPolicyAllowed = ''policy_allowed''"
| "audit_event_type_name EvPolicyDenied = ''policy_denied''"
| "audit_event_type_name EvApprovalRequested = ''approval_requested''"
| "audit_event_type_name EvApprovalApproved = ''approval_approved''"
| "audit_event_type_name EvApprovalDenied = ''approval_denied''"
| "audit_event_type_name EvApprovalExpired = ''approval_expired''"
| "audit_event_type_name EvApprovalConsumed = ''approval_consumed''"
| "audit_event_type_name EvActionExecuted = ''action_executed''"
| "audit_event_type_name EvRuntimeStarted = ''runtime_started''"
| "audit_event_type_name EvRuntimeOutput = ''runtime_output''"
| "audit_event_type_name EvArtifactCreated = ''artifact_created''"
| "audit_event_type_name EvRuntimeCompleted = ''runtime_completed''"
| "audit_event_type_name EvSandboxDestroyed = ''sandbox_destroyed''"
| "audit_event_type_name EvRunCompleted = ''run_completed''"
| "audit_event_type_name EvRunFailed = ''run_failed''"
| "audit_event_type_name EvApprovalBindingMismatch = ''approval_binding_mismatch''"
| "audit_event_type_name EvCancelRequested = ''cancel_requested''"
| "audit_event_type_name EvCancelConfirmed = ''cancel_confirmed''"

record audit_event =
  ev_schema_version :: schema_version
  ev_id :: audit_event_id
  ev_run_id :: run_id
  ev_sequence :: u64
  ev_event_type :: audit_event_type
  ev_actor :: actor_id
  ev_timestamp :: timestamp
  ev_metadata :: redacted_metadata
  ev_previous_hash :: "digest option"
  ev_event_hash :: digest

definition validate_audit_position :: "u64 \<Rightarrow> digest option \<Rightarrow> unit result" where
  "validate_audit_position sequence previous_hash =
     (let valid = (sequence = 1 \<and> previous_hash = None) \<or> (sequence > 1 \<and> previous_hash \<noteq> None)
      in if \<not> valid
         then Inl (invalid_contract
           ''audit sequence starts at 1 and non-genesis events require previous_hash'')
         else Inr ())"

definition audit_binding ::
    "ext \<Rightarrow> audit_event_id \<Rightarrow> run_id \<Rightarrow> u64 \<Rightarrow> audit_event_type \<Rightarrow> actor_id \<Rightarrow> timestamp
      \<Rightarrow> redacted_metadata \<Rightarrow> digest option \<Rightarrow> json" where
  "audit_binding X eid rid sequence event_type actor ts metadata previous_hash =
     JArray [JString ''openwork-audit-event-v1'',
             JString (to_hyphenated X eid), JString (to_hyphenated X rid),
             JNumber (PosInt sequence), JString (audit_event_type_name event_type),
             JString (actor_str actor), JString (rfc3339_format X ts),
             canonical_json (JObject (as_map metadata)),
             (case previous_hash of None \<Rightarrow> JNull | Some h \<Rightarrow> JString (digest_str h))]"

definition audit_event_hash ::
    "ext \<Rightarrow> audit_event_id \<Rightarrow> run_id \<Rightarrow> u64 \<Rightarrow> audit_event_type \<Rightarrow> actor_id \<Rightarrow> timestamp
      \<Rightarrow> redacted_metadata \<Rightarrow> digest option \<Rightarrow> digest" where
  "audit_event_hash X eid rid sequence event_type actor ts metadata previous_hash =
     sha256_bytes X (json_to_string X
       (audit_binding X eid rid sequence event_type actor ts metadata previous_hash))"

definition new_audit_event ::
    "ext \<Rightarrow> audit_event_id \<Rightarrow> run_id \<Rightarrow> u64 \<Rightarrow> audit_event_type \<Rightarrow> actor_id \<Rightarrow> timestamp
      \<Rightarrow> redacted_metadata \<Rightarrow> digest option \<Rightarrow> audit_event result" where
  "new_audit_event X eid rid sequence event_type actor ts metadata previous_hash =
     res_bind (validate_audit_position sequence previous_hash) (\<lambda>_.
     Inr \<lparr>ev_schema_version = SchemaVersion, ev_id = eid, ev_run_id = rid,
          ev_sequence = sequence, ev_event_type = event_type, ev_actor = actor,
          ev_timestamp = ts, ev_metadata = metadata, ev_previous_hash = previous_hash,
          ev_event_hash = audit_event_hash X eid rid sequence event_type actor ts metadata
            previous_hash\<rparr>)"

definition event_content_hash :: "ext \<Rightarrow> audit_event \<Rightarrow> digest" where
  "event_content_hash X e =
     audit_event_hash X (ev_id e) (ev_run_id e) (ev_sequence e) (ev_event_type e) (ev_actor e)
       (ev_timestamp e) (ev_metadata e) (ev_previous_hash e)"

definition verify_integrity :: "ext \<Rightarrow> audit_event \<Rightarrow> u64 \<Rightarrow> digest option \<Rightarrow> unit result" where
  "verify_integrity X e expected_sequence expected_previous =
     res_bind (validate_audit_position (ev_sequence e) (ev_previous_hash e)) (\<lambda>_.
     if ev_sequence e \<noteq> expected_sequence \<or> ev_previous_hash e \<noteq> expected_previous
        \<or> ev_event_hash e \<noteq> event_content_hash X e
     then Inl (invalid_contract ''audit hash-chain integrity check failed'')
     else Inr ())"

definition deserialize_audit_event :: "ext \<Rightarrow> audit_event \<Rightarrow> audit_event result" where
  \<comment> \<open>the argument is the decoded wire record, whose metadata is redacted again while decoding\<close>
  "deserialize_audit_event X wire =
     res_bind (new_audit_event X (ev_id wire) (ev_run_id wire) (ev_sequence wire)
         (ev_event_type wire) (ev_actor wire) (ev_timestamp wire)
         (from_untrusted (as_map (ev_metadata wire))) (ev_previous_hash wire)) (\<lambda>event.
     if ev_event_hash wire \<noteq> ev_event_hash event
     then Inl (invalid_contract ''audit event hash does not match canonical content'')
     else Inr event)"

section \<open>Append envelopes\<close>

datatype audit_details =
    DetNone
  | DetRunStatus run_status
  | DetArtifact digest u64
  | DetActionExecution action_id digest

record audit_append =
  aa_actor :: actor_id
  aa_timestamp :: timestamp
  aa_details :: audit_details

definition new_audit_append :: "actor_id \<Rightarrow> timestamp \<Rightarrow> audit_append" where
  "new_audit_append actor ts = \<lparr>aa_actor = actor, aa_timestamp = ts, aa_details = DetNone\<rparr>"

definition with_run_status :: "audit_append \<Rightarrow> run_status \<Rightarrow> audit_append" where
  "with_run_status a st = a\<lparr>aa_details := DetRunStatus st\<rparr>"

definition with_artifact :: "audit_append \<Rightarrow> artifact \<Rightarrow> audit_append" where
  "with_artifact a art = a\<lparr>aa_details := DetArtifact (ar_sha256 art) (size_get (ar_size_bytes art))\<rparr>"

definition with_action_execution :: "audit_append \<Rightarrow> action_id \<Rightarrow> digest \<Rightarrow> audit_append" where
  "with_action_execution a aid h = a\<lparr>aa_details := DetActionExecution aid h\<rparr>"

fun run_status_name :: "run_status \<Rightarrow> string" where
  "run_status_name Queued = ''queued''"
| "run_status_name Planning = ''planning''"
| "run_status_name AwaitingApproval = ''awaiting_approval''"
| "run_status_name Running = ''running''"
| "run_status_name Succeeded = ''succeeded''"
| "run_status_name Failed = ''failed''"
| "run_status_name Cancelled = ''cancelled''"
| "run_status_name TimedOut = ''timed_out''"

fun details_metadata :: "ext \<Rightarrow> audit_details \<Rightarrow> (string, json) btree_map" where
  "details_metadata X DetNone = []"
| "details_metadata X (DetRunStatus st) = [(''run_status'', JString (run_status_name st))]"
| "details_metadata X (DetArtifact sha sz) =
     bm_of_list [(''artifact_sha256'', JString (digest_str sha)),
                 (''artifact_size_bytes'', JNumber (PosInt sz))]"
| "details_metadata X (DetActionExecution aid h) =
     bm_of_list [(''action_id'', JString (to_hyphenated X aid)),
                 (''parameter_hash'', JString (digest_str h))]"

definition build_event ::
    "ext \<Rightarrow> audit_event_id \<Rightarrow> audit_append \<Rightarrow> run_id \<Rightarrow> u64 \<Rightarrow> audit_event_type \<Rightarrow> digest option
      \<Rightarrow> audit_event result" where
  \<comment> \<open>the first identifier is the one \<^verbatim>\<open>AuditEventId::generate\<close> returns\<close>
  "build_event X eid a rid sequence event_type previous_hash =
     new_audit_event X eid rid sequence event_type (aa_actor a) (aa_timestamp a)
       (from_untrusted (details_metadata X (aa_details a))) previous_hash"

section \<open>Chains\<close>

text \<open>A chain verifies when every event verifies at its position after its predecessor.\<close>

fun verify_chain_from :: "ext \<Rightarrow> nat \<Rightarrow> digest option \<Rightarrow> audit_event list \<Rightarrow> bool" where
  "verify_chain_from X n prev [] = True"
| "verify_chain_from X n prev (e # es) =
     (unat (ev_sequence e) = Suc n \<and> is_ok (verify_integrity X e (ev_sequence e) prev) \<and>
      verify_chain_from X (Suc n) (Some (ev_event_hash e)) es)"

definition verify_chain :: "ext \<Rightarrow> audit_event list \<Rightarrow> bool" where
  "verify_chain X es = verify_chain_from X 0 None es"

definition last_hash :: "audit_event list \<Rightarrow> digest option" where
  "last_hash es = (if es = [] then None else Some (ev_event_hash (last es)))"

lemma new_audit_event_verifies:
  "new_audit_event X eid rid sq ty actor ts md prev = Inr e \<Longrightarrow>
     verify_integrity X e sq prev = Inr () \<and> ev_sequence e = sq \<and> ev_previous_hash e = prev
     \<and> ev_run_id e = rid \<and> ev_timestamp e = ts \<and> ev_event_type e = ty \<and> ev_actor e = actor
     \<and> ev_metadata e = md"
  by (auto simp: new_audit_event_def verify_integrity_def event_content_hash_def res_simps)

lemma build_event_verifies:
  "build_event X eid a rid sq ty prev = Inr e \<Longrightarrow>
     verify_integrity X e sq prev = Inr () \<and> ev_sequence e = sq \<and> ev_previous_hash e = prev
     \<and> ev_run_id e = rid \<and> ev_timestamp e = aa_timestamp a \<and> ev_event_type e = ty
     \<and> ev_actor e = aa_actor a
     \<and> ev_metadata e = from_untrusted (details_metadata X (aa_details a))"
  unfolding build_event_def by (drule new_audit_event_verifies) simp

lemma verify_chain_from_append:
  "verify_chain_from X n prev (es @ fs) =
     (verify_chain_from X n prev es \<and>
      verify_chain_from X (n + length es) (if es = [] then prev else last_hash es) fs)"
  by (induction es arbitrary: n prev) (auto simp: last_hash_def)

lemma verify_chain_snoc:
  "verify_chain X (es @ [e]) =
     (verify_chain X es \<and> unat (ev_sequence e) = Suc (length es) \<and>
      verify_integrity X e (ev_sequence e) (last_hash es) = Inr ())"
  by (auto simp: verify_chain_def verify_chain_from_append last_hash_def)

lemma verify_chain_nth:
  "verify_chain X es \<Longrightarrow> i < length es \<Longrightarrow>
     unat (ev_sequence (es ! i)) = Suc i \<and> ev_event_hash (es ! i) = event_content_hash X (es ! i)
     \<and> ev_previous_hash (es ! i) = (if i = 0 then None else Some (ev_event_hash (es ! (i - 1))))"
proof (induction es rule: rev_induct)
  case (snoc e es)
  then show ?case
    by (cases "i = length es")
      (auto simp: verify_chain_snoc nth_append last_hash_def verify_integrity_def res_simps last_conv_nth
        split: if_splits)
qed simp

text \<open>
  Two verified chains with the same head hash hold the same events, unless two of their
  canonical texts collide. Metadata is compared in the canonical form that is hashed.
\<close>

definition event_binding :: "ext \<Rightarrow> audit_event \<Rightarrow> json" where
  "event_binding X e =
     audit_binding X (ev_id e) (ev_run_id e) (ev_sequence e) (ev_event_type e) (ev_actor e)
       (ev_timestamp e) (ev_metadata e) (ev_previous_hash e)"

definition event_text :: "ext \<Rightarrow> audit_event \<Rightarrow> string" where
  "event_text X e = json_to_string X (event_binding X e)"

definition canonical_metadata :: "redacted_metadata \<Rightarrow> redacted_metadata" where
  "canonical_metadata md =
     (case canonical_json (JObject (as_map md)) of
        JObject es \<Rightarrow> RedactedAuditMetadata es
      | _ \<Rightarrow> md)"

definition canonical_event :: "audit_event \<Rightarrow> audit_event" where
  "canonical_event e = e\<lparr>ev_metadata := canonical_metadata (ev_metadata e)\<rparr>"

lemma event_content_hash_text: "event_content_hash X e = sha256_bytes X (event_text X e)"
  by (simp add: event_content_hash_def event_text_def event_binding_def audit_event_hash_def)

lemma event_type_name_inj: "audit_event_type_name a = audit_event_type_name b \<Longrightarrow> a = b"
  by (cases a; cases b) simp_all

lemma actor_str_inj: "actor_str a = actor_str b \<Longrightarrow> a = b"
  by (rule actor_id.expand)

lemma previous_hash_json_inj:
  "(case p of None \<Rightarrow> JNull | Some h \<Rightarrow> JString (digest_str h)) =
   (case q of None \<Rightarrow> JNull | Some h \<Rightarrow> JString (digest_str h)) \<Longrightarrow> p = q"
  by (auto split: option.splits intro: digest.expand)

lemma event_binding_eq:
  assumes "uuid_printer_injective X" and "time_printer_injective X"
    and "event_binding X e = event_binding X f" and "ev_event_hash e = ev_event_hash f"
  shows "canonical_event e = canonical_event f"
proof (rule audit_event.equality)
  note b = assms(3) [unfolded event_binding_def audit_binding_def]
  show "ev_timestamp (canonical_event e) = ev_timestamp (canonical_event f)"
    using b assms(2) by (auto simp: canonical_event_def time_printer_injective_def dest: injD)
  show "ev_schema_version (canonical_event e) = ev_schema_version (canonical_event f)"
    by (metis schema_version.exhaust)
qed (use assms(3,4) to_hyphenated_inj [OF assms(1)] in
    \<open>auto simp: event_binding_def audit_binding_def canonical_event_def canonical_metadata_def
      dest: event_type_name_inj actor_str_inj previous_hash_json_inj\<close>)

definition metadata_ok :: "audit_event \<Rightarrow> bool" where
  \<comment> \<open>the numbers in the metadata are values of \<^verbatim>\<open>serde_json\<close>\<close>
  "metadata_ok e = json_ok (JObject (as_map (ev_metadata e)))"

lemma event_binding_ok: "metadata_ok e \<Longrightarrow> json_ok (event_binding X e)"
  using json_ok_canonical [of "JObject (as_map (ev_metadata e))"]
  by (auto simp: metadata_ok_def event_binding_def audit_binding_def split: option.splits)

lemma last_hash_Nil_iff: "last_hash es = None \<longleftrightarrow> es = []"
  by (simp add: last_hash_def)

lemma verified_chains_agree:
  assumes "json_printer_injective X" and "uuid_printer_injective X" and "time_printer_injective X"
    and "verify_chain X es" and "verify_chain X fs" and "last_hash es = last_hash fs"
    and "list_all metadata_ok es" and "list_all metadata_ok fs"
  shows "map canonical_event es = map canonical_event fs \<or>
    (\<exists>e \<in> set es. \<exists>f \<in> set fs. sha256_collision X (event_text X e) (event_text X f))"
  using assms(4-8)
proof (induction es arbitrary: fs rule: rev_induct)
  case Nil
  then show ?case by (simp add: last_hash_def split: if_splits)
next
  case (snoc e es)
  then obtain gs f where fs: "fs = gs @ [f]"
    by (cases fs rule: rev_cases) (auto simp: last_hash_def)
  have e: "verify_integrity X e (ev_sequence e) (last_hash es) = Inr ()" and es: "verify_chain X es"
    using snoc.prems(1) by (simp_all add: verify_chain_snoc)
  have f: "verify_integrity X f (ev_sequence f) (last_hash gs) = Inr ()" and gs: "verify_chain X gs"
    using snoc.prems(2) by (simp_all add: fs verify_chain_snoc)
  have h: "ev_event_hash e = ev_event_hash f"
    using snoc.prems(3) by (simp add: fs last_hash_def)
  then have "sha256_bytes X (event_text X e) = sha256_bytes X (event_text X f)"
    using e f by (auto simp: verify_integrity_def res_simps event_content_hash_text split: if_splits)
  then consider "event_text X e = event_text X f" | "sha256_collision X (event_text X e) (event_text X f)"
    using sha256_bytes_eq by blast
  then show ?case
  proof cases
    case 1
    then have b: "event_binding X e = event_binding X f"
      using assms(1) snoc.prems(4,5) event_binding_ok [of e X] event_binding_ok [of f X]
      by (auto simp: fs event_text_def json_printer_injective_def dest: inj_onD)
    then have "ev_previous_hash e = ev_previous_hash f"
      by (auto simp: event_binding_def audit_binding_def dest: previous_hash_json_inj)
    then have "last_hash es = last_hash gs"
      using e f by (auto simp: verify_integrity_def res_simps split: if_splits)
    then show ?thesis
      using snoc.IH [OF es gs] snoc.prems(4,5) event_binding_eq [OF assms(2,3) b h] by (auto simp: fs)
  qed (auto simp: fs)
qed

lemma build_event_roundtrip:
  assumes "build_event X eid a rid sq ty prev = Inr e"
  shows "deserialize_audit_event X e = Inr e"
proof -
  from build_event_verifies [OF assms] have "ev_metadata e = from_untrusted (details_metadata X (aa_details a))"
    by simp
  then have "from_untrusted (as_map (ev_metadata e)) = ev_metadata e"
    by (simp add: from_untrusted_stable)
  then show ?thesis
    using assms by (auto simp: build_event_def deserialize_audit_event_def new_audit_event_def res_simps)
qed

end
