(* ===== verification/Store_State.thy ===== *)
theory Store_State
  imports Audit_Chain
begin

text \<open>
  The state behind the mutex of \<^verbatim>\<open>InMemoryExecutionStore\<close>
  (\<^verbatim>\<open>crates/openwork-execution/src/store/mod.rs\<close>) and its implementation of the trait
  \<^verbatim>\<open>ExecutionStore\<close>: creating a run with its genesis event, revision-checked transitions,
  audit appends, the reconciliation of an executed action with the chain, and artifact
  batches. Identifiers the code generates are arguments; an operation that builds several
  events takes a supply indexed by their position in the call. A poisoned lock, which stops
  the process's other users of the store, is not modelled.
\<close>

section \<open>Data\<close>

datatype lease_token = LeaseToken (token_uuid: uuid)

record run_lease =
  ls_run :: run
  ls_token :: lease_token
  ls_owner :: actor_id
  ls_acquired_at :: timestamp
  ls_expires_at :: timestamp
  ls_cancel_requested :: bool

record action_claim =
  cl_run_id :: run_id
  cl_action_id :: action_id
  cl_parameter_hash :: digest
  cl_actor :: actor_id
  cl_claimed_at :: timestamp

record execution_receipt =
  rc_run_id :: run_id
  rc_action_id :: action_id
  rc_parameter_hash :: digest

record state =
  st_runs :: "(run_id, run) btree_map"
  st_audits :: "(run_id, audit_event list) btree_map"
  st_artifacts :: "(run_id, artifact list) btree_map"
  st_approvals :: "(approval_id, approval_request) btree_map"
  st_approval_windows :: "(approval_id, u64) btree_map"
  st_action_claims :: "(action_id, action_claim) btree_map"
  st_leases :: "(run_id, run_lease) btree_map"
  st_cancel_requested :: "(run_id, timestamp) btree_map"

type_synonym 'a store_op = "(state, openwork_error, 'a) op"

definition empty_state :: state where
  "empty_state = \<lparr>st_runs = [], st_audits = [], st_artifacts = [], st_approvals = [],
     st_approval_windows = [], st_action_claims = [], st_leases = [], st_cancel_requested = []\<rparr>"

section \<open>Errors\<close>

definition state_error :: "string \<Rightarrow> openwork_error" where
  "state_error msg = new_error InvalidStateTransition msg"

definition internal_error :: "string \<Rightarrow> openwork_error" where
  "internal_error msg = new_error Internal msg"

definition approval_error :: "string \<Rightarrow> openwork_error" where
  "approval_error msg = new_error ApprovalInvalid msg"

definition artifact_error :: "string \<Rightarrow> openwork_error" where
  "artifact_error msg = new_error ArtifactInvalid msg"

definition run_missing :: openwork_error where
  "run_missing = state_error ''run does not exist''"

definition audit_missing :: openwork_error where
  "audit_missing = internal_error ''run audit chain does not exist''"

definition approval_missing :: openwork_error where
  "approval_missing = approval_error ''approval does not exist''"

section \<open>Chain positions\<close>

definition audit_backwards :: "audit_event list \<Rightarrow> timestamp \<Rightarrow> bool" where
  \<comment> \<open>\<^verbatim>\<open>events.last().is_some_and(|event| timestamp < event.timestamp)\<close>\<close>
  "audit_backwards events ts = (events \<noteq> [] \<and> ts < ev_timestamp (last events))"

definition next_sequence :: "audit_event list \<Rightarrow> u64 result" where
  "next_sequence events =
     res_bind (ok_or (u64_of_len (length events)) (internal_error ''audit sequence overflow''))
       (\<lambda>n. ok_or (checked_add n 1) (internal_error ''audit sequence overflow''))"

definition push_events :: "run_id \<Rightarrow> audit_event list \<Rightarrow> unit store_op" where
  \<comment> \<open>\<^verbatim>\<open>state.audits.get_mut(run_id).ok_or_else(audit_missing)?.extend(events)\<close>\<close>
  "push_events rid new =
     bnd (lookup (\<lambda>s. bm_get (st_audits s) rid) audit_missing) (\<lambda>events.
     modify (\<lambda>s. s\<lparr>st_audits := bm_insert rid (events @ new) (st_audits s)\<rparr>))"

definition put_run :: "run_id \<Rightarrow> run \<Rightarrow> unit store_op" where
  "put_run rid r = modify (\<lambda>s. s\<lparr>st_runs := bm_insert rid r (st_runs s)\<rparr>)"

section \<open>Runs\<close>

definition validate_new_run :: "run \<Rightarrow> unit result" where
  "validate_new_run r =
     (if r_status r \<noteq> Queued \<or> r_revision r \<noteq> 0 \<or> blank (r_runtime r)
         \<or> length (r_runtime r) > 128 \<or> r_workspace r = []
         \<or> r_updated_at r \<noteq> r_created_at r \<or> r_started_at r \<noteq> None
         \<or> r_completed_at r \<noteq> None \<or> r_terminal_reason r \<noteq> None
      then Inl (state_error ''new run invariants are invalid'')
      else Inr ())"

fun transition_event :: "run_status \<Rightarrow> audit_event_type" where
  "transition_event Planning = EvRuntimeSelected"
| "transition_event AwaitingApproval = EvActionRequested"
| "transition_event Running = EvRuntimeStarted"
| "transition_event Succeeded = EvRunCompleted"
| "transition_event _ = EvRunFailed"

definition advanced :: "run \<Rightarrow> run_status \<Rightarrow> u64 \<Rightarrow> string option \<Rightarrow> timestamp \<Rightarrow> run" where
  \<comment> \<open>the field updates shared by every status change\<close>
  "advanced r nxt revision reason ts =
     (let updated = r\<lparr>r_status := nxt, r_revision := revision, r_updated_at := ts\<rparr>;
          updated = (if nxt = Running \<and> r_started_at updated = None
                     then updated\<lparr>r_started_at := Some ts\<rparr> else updated)
      in if is_terminal nxt
         then updated\<lparr>r_completed_at := Some ts,
                r_terminal_reason :=
                  (if nxt \<noteq> Succeeded
                   then Some (case reason of None \<Rightarrow> ''unspecified'' | Some why \<Rightarrow> redact_text why)
                   else None)\<rparr>
         else updated)"

definition create_run :: "ext \<Rightarrow> audit_event_id \<Rightarrow> run \<Rightarrow> audit_append \<Rightarrow> run store_op" where
  "create_run X eid r audit =
     bnd (lift_res (validate_new_run r)) (\<lambda>_.
     bnd (check (\<lambda>s. aa_timestamp audit = r_created_at r)
       (state_error ''genesis audit timestamp must match run creation'')) (\<lambda>_.
     bnd (check (\<lambda>s. \<not> bm_contains (st_runs s) (r_id r)) (state_error ''run already exists'')) (\<lambda>_.
     bnd (lift_res (build_event X eid audit (r_id r) 1 EvRunCreated None)) (\<lambda>event.
     bnd (modify (\<lambda>s. s\<lparr>st_audits := bm_insert (r_id r) [event] (st_audits s)\<rparr>)) (\<lambda>_.
     bnd (put_run (r_id r) r) (\<lambda>_.
     ret r))))))"

definition transition_run ::
    "ext \<Rightarrow> audit_event_id \<Rightarrow> run_id \<Rightarrow> u64 \<Rightarrow> run_status \<Rightarrow> string option \<Rightarrow> audit_append
      \<Rightarrow> run store_op" where
  "transition_run X eid rid expected_revision nxt reason audit =
     bnd (check (\<lambda>s. \<not> bm_contains (st_leases s) rid)
       (state_error ''leased runs must use a lease-capability-bound transition'')) (\<lambda>_.
     bnd (lookup (\<lambda>s. bm_get (st_runs s) rid) run_missing) (\<lambda>current.
     bnd (check (\<lambda>s. r_revision current = expected_revision
                      \<and> can_transition_to (r_status current) nxt)
       (state_error ''run revision is stale or transition is illegal'')) (\<lambda>_.
     bnd (check (\<lambda>s. \<not> aa_timestamp audit < r_updated_at current)
       (state_error ''run timestamps cannot move backwards'')) (\<lambda>_.
     bnd (lookup (\<lambda>s. bm_get (st_audits s) rid) audit_missing) (\<lambda>events.
     bnd (check (\<lambda>s. \<not> audit_backwards events (aa_timestamp audit))
       (state_error ''audit timestamps cannot move backwards'')) (\<lambda>_.
     bnd (lift_res (next_sequence events)) (\<lambda>sequence.
     bnd (lift_res (build_event X eid (with_run_status audit nxt) rid sequence
       (transition_event nxt) (last_hash events))) (\<lambda>event.
     bnd (lift_res (ok_or (checked_add (r_revision current) 1)
       (state_error ''run revision overflow''))) (\<lambda>revision.
     let updated = advanced current nxt revision reason (aa_timestamp audit)
     in bnd (put_run rid updated) (\<lambda>_.
        bnd (push_events rid [event]) (\<lambda>_.
        ret updated)))))))))))"

section \<open>Audit appends and reconciliation\<close>

definition reject_unbound_leased_write :: "run_id \<Rightarrow> unit store_op" where
  "reject_unbound_leased_write rid =
     check (\<lambda>s. \<not> bm_contains (st_leases s) rid)
       (state_error ''leased runs must use a lease-capability-bound worker write'')"

definition append_audit ::
    "ext \<Rightarrow> audit_event_id \<Rightarrow> run_id \<Rightarrow> audit_event_type \<Rightarrow> audit_append \<Rightarrow> audit_event store_op" where
  "append_audit X eid rid event_type audit =
     bnd (check (\<lambda>s. bm_contains (st_runs s) rid) run_missing) (\<lambda>_.
     bnd (reject_unbound_leased_write rid) (\<lambda>_.
     bnd (lookup (\<lambda>s. bm_get (st_audits s) rid) audit_missing) (\<lambda>events.
     bnd (check (\<lambda>s. \<not> audit_backwards events (aa_timestamp audit))
       (state_error ''audit timestamps cannot move backwards'')) (\<lambda>_.
     bnd (lift_res (next_sequence events)) (\<lambda>sequence.
     bnd (lift_res (build_event X eid audit rid sequence event_type (last_hash events))) (\<lambda>event.
     bnd (push_events rid [event]) (\<lambda>_.
     ret event)))))))"

definition verify_execution_claim :: "execution_receipt \<Rightarrow> unit store_op" where
  "verify_execution_claim receipt =
     bnd (lookup (\<lambda>s. bm_get (st_action_claims s) (rc_action_id receipt))
       (approval_error ''action execution has no durable claim'')) (\<lambda>claim.
     check (\<lambda>s. cl_run_id claim = rc_run_id receipt
                \<and> cl_parameter_hash claim = rc_parameter_hash receipt)
       (approval_error ''action execution receipt does not match its durable claim''))"

fun json_as_str :: "json \<Rightarrow> string option" where
  "json_as_str (JString v) = Some v"
| "json_as_str _ = None"

definition metadata_str :: "audit_event \<Rightarrow> string \<Rightarrow> string option" where
  "metadata_str event key = Option.bind (bm_get (as_map (ev_metadata event)) key) json_as_str"

fun count_receipts ::
    "ext \<Rightarrow> execution_receipt \<Rightarrow> audit_event list \<Rightarrow> nat \<Rightarrow> nat result" where
  \<comment> \<open>the counter is a \<^verbatim>\<open>u8\<close>\<close>
  "count_receipts X receipt [] exact_matches = Inr exact_matches"
| "count_receipts X receipt (event # events) exact_matches =
     (if ev_event_type event \<noteq> EvActionExecuted
      then count_receipts X receipt events exact_matches
      else
        res_bind (ok_or (metadata_str event ''action_id'')
          (approval_error ''action execution audit metadata is invalid'')) (\<lambda>aid.
        res_bind (ok_or (metadata_str event ''parameter_hash'')
          (approval_error ''action execution audit metadata is invalid'')) (\<lambda>h.
        if aid = to_hyphenated X (rc_action_id receipt)
        then if ev_run_id event \<noteq> rc_run_id receipt \<or> h \<noteq> digest_str (rc_parameter_hash receipt)
             then Inl (approval_error ''action execution audit binding is invalid'')
             else if exact_matches + 1 > 255
             then Inl (approval_error ''duplicate action execution audit'')
             else count_receipts X receipt events (exact_matches + 1)
        else count_receipts X receipt events exact_matches)))"

definition execution_receipt_was_audited ::
    "ext \<Rightarrow> audit_event list \<Rightarrow> execution_receipt \<Rightarrow> bool result" where
  "execution_receipt_was_audited X events receipt =
     res_bind (count_receipts X receipt events 0) (\<lambda>exact_matches.
     if exact_matches = 0 then Inr False
     else if exact_matches = 1 then Inr True
     else Inl (approval_error ''duplicate action execution audit''))"

definition reconcile_action_execution ::
    "ext \<Rightarrow> audit_event_id \<Rightarrow> execution_receipt \<Rightarrow> audit_append \<Rightarrow> bool store_op" where
  "reconcile_action_execution X eid receipt audit =
     bnd (reject_unbound_leased_write (rc_run_id receipt)) (\<lambda>_.
     bnd (verify_execution_claim receipt) (\<lambda>_.
     bnd (lookup (\<lambda>s. bm_get (st_audits s) (rc_run_id receipt)) audit_missing) (\<lambda>events.
     bnd (lift_res (execution_receipt_was_audited X events receipt)) (\<lambda>audited.
     if audited then ret False
     else
       bnd (check (\<lambda>s. \<not> audit_backwards events (aa_timestamp audit))
         (state_error ''action execution audit timestamp moved backwards'')) (\<lambda>_.
       bnd (lift_res (next_sequence events)) (\<lambda>sequence.
       bnd (lift_res (build_event X eid
         (with_action_execution audit (rc_action_id receipt) (rc_parameter_hash receipt))
         (rc_run_id receipt) sequence EvActionExecuted (last_hash events))) (\<lambda>event.
       bnd (push_events (rc_run_id receipt) [event]) (\<lambda>_.
       ret True))))))))"

section \<open>Artifact batches\<close>

definition artifacts_of :: "state \<Rightarrow> run_id \<Rightarrow> artifact list" where
  "artifacts_of s rid = (case bm_get (st_artifacts s) rid of None \<Rightarrow> [] | Some l \<Rightarrow> l)"

definition duplicate_path :: "artifact list \<Rightarrow> artifact list \<Rightarrow> bool" where
  "duplicate_path existing batch =
     list_ex (\<lambda>candidate.
       list_ex (\<lambda>stored. ar_path stored = ar_path candidate) existing
       \<or> length (filter (\<lambda>item. ar_path item = ar_path candidate) batch) > 1) batch"

definition validate_artifact_batch :: "run_id \<Rightarrow> artifact list \<Rightarrow> unit store_op" where
  "validate_artifact_batch rid batch =
     bnd (check (\<lambda>s. bm_contains (st_runs s) rid
                      \<and> \<not> list_ex (\<lambda>a. ar_run_id a \<noteq> rid) batch)
       (artifact_error ''artifact run mismatch'')) (\<lambda>_.
     bnd (check (\<lambda>s. \<not> list_ex (\<lambda>a. blank (ar_media_type a)) batch)
       (artifact_error ''artifact media type is empty'')) (\<lambda>_.
     check (\<lambda>s. \<not> duplicate_path (artifacts_of s rid) batch)
       (artifact_error ''duplicate artifact path'')))"

fun artifact_events ::
    "ext \<Rightarrow> (nat \<Rightarrow> audit_event_id) \<Rightarrow> audit_append \<Rightarrow> run_id \<Rightarrow> nat \<Rightarrow> u64 \<Rightarrow> digest option
      \<Rightarrow> artifact list \<Rightarrow> audit_event list result" where
  "artifact_events X ids audit rid n sequence previous [] = Inr []"
| "artifact_events X ids audit rid n sequence previous (a # batch) =
     res_bind (build_event X (ids n) (with_artifact audit a) rid sequence EvArtifactCreated previous)
       (\<lambda>event.
     res_bind (ok_or (checked_add sequence 1) (internal_error ''audit sequence overflow''))
       (\<lambda>sequence'.
     res_bind (artifact_events X ids audit rid (Suc n) sequence' (Some (ev_event_hash event)) batch)
       (\<lambda>events. Inr (event # events))))"

definition extend_artifacts :: "run_id \<Rightarrow> artifact list \<Rightarrow> unit store_op" where
  "extend_artifacts rid batch =
     modify (\<lambda>s. s\<lparr>st_artifacts := bm_insert rid (artifacts_of s rid @ batch) (st_artifacts s)\<rparr>)"

definition record_artifacts ::
    "ext \<Rightarrow> (nat \<Rightarrow> audit_event_id) \<Rightarrow> run_id \<Rightarrow> artifact list \<Rightarrow> audit_append \<Rightarrow> unit store_op" where
  "record_artifacts X ids rid batch audit =
     bnd (reject_unbound_leased_write rid) (\<lambda>_.
     bnd (validate_artifact_batch rid batch) (\<lambda>_.
     bnd (lookup (\<lambda>s. bm_get (st_audits s) rid) audit_missing) (\<lambda>chain.
     bnd (check (\<lambda>s. \<not> audit_backwards chain (aa_timestamp audit))
       (state_error ''audit timestamps cannot move backwards'')) (\<lambda>_.
     bnd (lift_res (next_sequence chain)) (\<lambda>sequence.
     bnd (lift_res (artifact_events X ids audit rid 0 sequence (last_hash chain) batch)) (\<lambda>events.
     bnd (extend_artifacts rid batch) (\<lambda>_.
     push_events rid events)))))))"

section \<open>Reads\<close>

definition get_run :: "run_id \<Rightarrow> run option store_op" where
  "get_run rid = gets (\<lambda>s. bm_get (st_runs s) rid)"

definition audit_events :: "run_id \<Rightarrow> audit_event list store_op" where
  "audit_events rid = gets (\<lambda>s. case bm_get (st_audits s) rid of None \<Rightarrow> [] | Some es \<Rightarrow> es)"

definition artifacts :: "run_id \<Rightarrow> artifact list store_op" where
  "artifacts rid = gets (\<lambda>s. artifacts_of s rid)"

end
