(* ===== verification/Queue_Store.thy ===== *)
theory Queue_Store
  imports Store_State
begin

text \<open>
  The trait \<^verbatim>\<open>RunQueueRepository\<close> as \<^verbatim>\<open>InMemoryExecutionStore\<close> implements it
  (\<^verbatim>\<open>crates/openwork-execution/src/store/mod.rs\<close>): claiming the oldest queued run under a
  lease, heartbeats, lease-bound transitions and writes, cancellation requests and their
  confirmation from sandbox evidence, and the recovery of expired leases. A duration is its
  length in nanoseconds. The fresh lease token is an argument of the claim.
\<close>

section \<open>Cancellation evidence\<close>

datatype cancel_request = CancelDone | CancelRequested | CancelAlreadyTerminal run_status

record cancellation_evidence =
  ce_run_id :: run_id
  ce_sandbox_id :: string
  ce_lease_token :: lease_token
  ce_lease_owner :: actor_id

definition verify_cancellation :: "run_lease \<Rightarrow> sandbox_result \<Rightarrow> cancellation_evidence result" where
  "verify_cancellation lease res =
     res_bind (validate_sandbox_result res) (\<lambda>_.
     if sx_run_id res \<noteq> r_id (ls_run lease) \<or> sx_termination res \<noteq> TermCancelled
        \<or> sx_exit_code res \<noteq> None \<or> sx_cleanup res \<noteq> CleanupSucceeded
     then Inl (state_error ''sandbox result is not cancellation evidence for this lease'')
     else Inr \<lparr>ce_run_id = sx_run_id res, ce_sandbox_id = sx_sandbox_id res,
               ce_lease_token = ls_token lease, ce_lease_owner = ls_owner lease\<rparr>)"

section \<open>Helpers\<close>

definition hour_nanos :: int where
  "hour_nanos = 3600 * 1000000000"

definition checked_lease_expiry :: "ext \<Rightarrow> timestamp \<Rightarrow> int \<Rightarrow> timestamp result" where
  "checked_lease_expiry X now ttl =
     (if ttl \<le> 0 \<or> ttl > hour_nanos
      then Inl (state_error ''lease ttl must be positive and no more than one hour'')
      else ok_or (ts_checked_add X now ttl) (state_error ''lease expiry overflows timestamp''))"

definition ensure_memory_audit_time :: "run_id \<Rightarrow> timestamp \<Rightarrow> timestamp \<Rightarrow> unit store_op" where
  "ensure_memory_audit_time rid ts updated_at =
     check (\<lambda>s. \<not> (ts < updated_at
                    \<or> (case bm_get (st_audits s) rid of
                         None \<Rightarrow> False
                       | Some events \<Rightarrow> audit_backwards events ts)))
       (state_error ''audit timestamps cannot move backwards'')"

definition lease_missing :: openwork_error where
  "lease_missing = state_error ''lease does not exist''"

definition validate_memory_lease :: "run_lease \<Rightarrow> u64 \<Rightarrow> timestamp \<Rightarrow> run store_op" where
  "validate_memory_lease lease expected_revision now =
     bnd (lookup (\<lambda>s. bm_get (st_leases s) (r_id (ls_run lease))) lease_missing) (\<lambda>stored.
     bnd (lookup (\<lambda>s. bm_get (st_runs s) (r_id (ls_run lease))) run_missing) (\<lambda>current.
     bnd (check (\<lambda>s. \<not> (ls_token stored \<noteq> ls_token lease \<or> ls_owner stored \<noteq> ls_owner lease
                         \<or> r_revision (ls_run lease) \<noteq> expected_revision
                         \<or> r_revision current \<noteq> expected_revision
                         \<or> now < ls_acquired_at stored \<or> now \<ge> ls_expires_at stored
                         \<or> now < r_updated_at current))
       (state_error ''lease capability, revision, or time is not current'')) (\<lambda>_.
     bnd (ensure_memory_audit_time (r_id (ls_run lease)) now (r_updated_at current)) (\<lambda>_.
     ret current))))"

definition ensure_worker_runtime_event :: "audit_event_type \<Rightarrow> unit result" where
  "ensure_worker_runtime_event event_type =
     (if event_type \<in> {EvSandboxCreated, EvRuntimeStarted, EvRuntimeOutput, EvRuntimeCompleted,
                       EvSandboxDestroyed}
      then Inr ()
      else Inl (state_error ''leased worker audit event must describe runtime or sandbox activity''))"

definition append_memory_audit ::
    "ext \<Rightarrow> audit_event_id \<Rightarrow> run_id \<Rightarrow> actor_id \<Rightarrow> timestamp \<Rightarrow> audit_event_type \<Rightarrow> unit store_op" where
  "append_memory_audit X eid rid actor ts event_type =
     bnd (lookup (\<lambda>s. bm_get (st_audits s) rid) audit_missing) (\<lambda>events.
     bnd (check (\<lambda>s. \<not> audit_backwards events ts)
       (state_error ''audit timestamps cannot move backwards'')) (\<lambda>_.
     bnd (lift_res (next_sequence events)) (\<lambda>sequence.
     bnd (lift_res (build_event X eid (new_audit_append actor ts) rid sequence event_type
       (last_hash events))) (\<lambda>event.
     push_events rid [event]))))"

definition apply_memory_transition_with_reason ::
    "ext \<Rightarrow> audit_event_id \<Rightarrow> run \<Rightarrow> run_status \<Rightarrow> string option \<Rightarrow> timestamp \<Rightarrow> actor_id
      \<Rightarrow> audit_event_type \<Rightarrow> run store_op" where
  "apply_memory_transition_with_reason X eid current nxt reason ts actor event_type =
     bnd (check (\<lambda>s. \<not> (\<not> can_transition_to (r_status current) nxt \<or> ts < r_updated_at current))
       (state_error ''run transition is illegal or timestamps move backwards'')) (\<lambda>_.
     bnd (lift_res (ok_or (checked_add (r_revision current) 1)
       (state_error ''run revision overflow''))) (\<lambda>revision.
     let updated = advanced current nxt revision reason ts
     in bnd (append_memory_audit X eid (r_id current) actor ts event_type) (\<lambda>_.
        bnd (put_run (r_id current) updated) (\<lambda>_.
        ret updated))))"

definition apply_memory_transition ::
    "ext \<Rightarrow> audit_event_id \<Rightarrow> run \<Rightarrow> run_status \<Rightarrow> timestamp \<Rightarrow> actor_id \<Rightarrow> audit_event_type
      \<Rightarrow> run store_op" where
  "apply_memory_transition X eid current nxt ts actor event_type =
     apply_memory_transition_with_reason X eid current nxt None ts actor event_type"

definition put_lease :: "run_id \<Rightarrow> run_lease \<Rightarrow> unit store_op" where
  "put_lease rid lease = modify (\<lambda>s. s\<lparr>st_leases := bm_insert rid lease (st_leases s)\<rparr>)"

definition drop_lease :: "run_id \<Rightarrow> unit store_op" where
  "drop_lease rid =
     bnd (modify (\<lambda>s. s\<lparr>st_leases := bm_remove rid (st_leases s)\<rparr>)) (\<lambda>_.
     modify (\<lambda>s. s\<lparr>st_cancel_requested := bm_remove rid (st_cancel_requested s)\<rparr>))"

section \<open>Claims and leases\<close>

definition claim_candidates :: "state \<Rightarrow> (run_id \<times> run) list" where
  "claim_candidates s =
     filter (\<lambda>(rid, r). r_status r = Queued \<and> \<not> bm_contains (st_leases s) rid) (st_runs s)"

fun min_by_age :: "(run_id \<times> run) list \<Rightarrow> (run_id \<times> run) option" where
  \<comment> \<open>\<^verbatim>\<open>min_by\<close> keeps the first of equal elements\<close>
  "min_by_age [] = None"
| "min_by_age (p # ps) =
     (case min_by_age ps of
        None \<Rightarrow> Some p
      | Some q \<Rightarrow>
          if (r_created_at (snd q), fst q) < (r_created_at (snd p), fst p) then Some q else Some p)"

definition claim_next_run ::
    "ext \<Rightarrow> audit_event_id \<Rightarrow> lease_token \<Rightarrow> actor_id \<Rightarrow> timestamp \<Rightarrow> int \<Rightarrow> run_lease option store_op" where
  "claim_next_run X eid token owner now ttl =
     bnd (lift_res (checked_lease_expiry X now ttl)) (\<lambda>expires_at.
     bnd (gets (\<lambda>s. min_by_age (claim_candidates s))) (\<lambda>candidate.
     case candidate of
       None \<Rightarrow> ret None
     | Some (rid, _) \<Rightarrow>
         bnd (lookup (\<lambda>s. bm_get (st_runs s) rid) run_missing) (\<lambda>current.
         bnd (check (\<lambda>s. \<not> now < r_updated_at current)
           (state_error ''claim timestamp cannot move backwards'')) (\<lambda>_.
         bnd (apply_memory_transition X eid current Planning now owner EvRuntimeSelected) (\<lambda>updated.
         let lease = \<lparr>ls_run = updated, ls_token = token, ls_owner = owner, ls_acquired_at = now,
                      ls_expires_at = expires_at, ls_cancel_requested = False\<rparr>
         in bnd (put_lease rid lease) (\<lambda>_. ret (Some lease)))))))"

definition heartbeat_lease ::
    "ext \<Rightarrow> run_lease \<Rightarrow> timestamp \<Rightarrow> int \<Rightarrow> run_lease store_op" where
  "heartbeat_lease X lease now ttl =
     bnd (lift_res (checked_lease_expiry X now ttl)) (\<lambda>expires_at.
     let rid = r_id (ls_run lease)
     in bnd (gets (\<lambda>s. bm_contains (st_cancel_requested s) rid)) (\<lambda>cancel_requested.
        bnd (lookup (\<lambda>s. bm_get (st_runs s) rid) run_missing) (\<lambda>current.
        bnd (lookup (\<lambda>s. bm_get (st_leases s) rid) lease_missing) (\<lambda>stored.
        bnd (check (\<lambda>s. \<not> (ls_token stored \<noteq> ls_token lease \<or> ls_owner stored \<noteq> ls_owner lease
                            \<or> r_revision (ls_run stored) \<noteq> r_revision (ls_run lease)
                            \<or> r_revision current \<noteq> r_revision (ls_run lease)
                            \<or> now < ls_acquired_at stored \<or> now \<ge> ls_expires_at stored
                            \<or> now < r_updated_at current))
          (state_error ''lease is not current'')) (\<lambda>_.
        let refreshed = stored\<lparr>ls_expires_at := expires_at, ls_cancel_requested := cancel_requested\<rparr>
        in bnd (put_lease rid refreshed) (\<lambda>_. ret refreshed))))))"

definition transition_leased_run ::
    "ext \<Rightarrow> audit_event_id \<Rightarrow> run_lease \<Rightarrow> u64 \<Rightarrow> run_status \<Rightarrow> timestamp \<Rightarrow> run_lease store_op" where
  "transition_leased_run X eid lease expected_revision nxt now =
     bnd (check (\<lambda>s. \<not> is_terminal nxt)
       (state_error ''leased transition target must be non-terminal'')) (\<lambda>_.
     let rid = r_id (ls_run lease)
     in bnd (validate_memory_lease lease expected_revision now) (\<lambda>current.
        bnd (apply_memory_transition X eid current nxt now (ls_owner lease) (transition_event nxt))
          (\<lambda>updated.
        bnd (lookup (\<lambda>s. bm_get (st_leases s) rid) lease_missing) (\<lambda>stored.
        bnd (gets (\<lambda>s. bm_contains (st_cancel_requested s) rid)) (\<lambda>cancel_requested.
        let refreshed = stored\<lparr>ls_run := updated, ls_cancel_requested := cancel_requested\<rparr>
        in bnd (put_lease rid refreshed) (\<lambda>_. ret refreshed))))))"

definition complete_leased_run ::
    "ext \<Rightarrow> audit_event_id \<Rightarrow> run_lease \<Rightarrow> u64 \<Rightarrow> run_status \<Rightarrow> string option \<Rightarrow> timestamp
      \<Rightarrow> run store_op" where
  "complete_leased_run X eid lease expected_revision nxt reason now =
     bnd (check (\<lambda>s. nxt \<in> {Succeeded, Failed, TimedOut})
       (state_error ''leased completion must be succeeded, failed, or timed_out'')) (\<lambda>_.
     let rid = r_id (ls_run lease)
     in bnd (validate_memory_lease lease expected_revision now) (\<lambda>current.
        bnd (check (\<lambda>s. \<not> (nxt = Succeeded \<and> bm_contains (st_cancel_requested s) rid))
          (state_error ''cannot complete a cancellation-requested run successfully'')) (\<lambda>_.
        bnd (apply_memory_transition_with_reason X eid current nxt reason now (ls_owner lease)
          (transition_event nxt)) (\<lambda>updated.
        bnd (drop_lease rid) (\<lambda>_. ret updated)))))"

section \<open>Lease-bound writes\<close>

definition append_leased_runtime_audit ::
    "ext \<Rightarrow> audit_event_id \<Rightarrow> run_lease \<Rightarrow> u64 \<Rightarrow> audit_event_type \<Rightarrow> timestamp \<Rightarrow> audit_event store_op" where
  "append_leased_runtime_audit X eid lease expected_revision event_type now =
     bnd (lift_res (ensure_worker_runtime_event event_type)) (\<lambda>_.
     let rid = r_id (ls_run lease)
     in bnd (validate_memory_lease lease expected_revision now) (\<lambda>_.
        bnd (lookup (\<lambda>s. bm_get (st_audits s) rid) audit_missing) (\<lambda>events.
        bnd (lift_res (next_sequence events)) (\<lambda>sequence.
        bnd (lift_res (build_event X eid (new_audit_append (ls_owner lease) now) rid sequence
          event_type (last_hash events))) (\<lambda>event.
        bnd (push_events rid [event]) (\<lambda>_. ret event))))))"

definition record_leased_artifacts ::
    "ext \<Rightarrow> (nat \<Rightarrow> audit_event_id) \<Rightarrow> run_lease \<Rightarrow> u64 \<Rightarrow> artifact list \<Rightarrow> timestamp \<Rightarrow> unit store_op" where
  "record_leased_artifacts X ids lease expected_revision batch now =
     (let rid = r_id (ls_run lease)
      in bnd (validate_memory_lease lease expected_revision now) (\<lambda>_.
         bnd (validate_artifact_batch rid batch) (\<lambda>_.
         bnd (lookup (\<lambda>s. bm_get (st_audits s) rid) audit_missing) (\<lambda>chain.
         bnd (lift_res (next_sequence chain)) (\<lambda>sequence.
         bnd (lift_res (artifact_events X ids (new_audit_append (ls_owner lease) now) rid 0 sequence
           (last_hash chain) batch)) (\<lambda>events.
         bnd (extend_artifacts rid batch) (\<lambda>_.
         push_events rid events)))))))"

section \<open>Cancellation and recovery\<close>

definition request_cancel ::
    "ext \<Rightarrow> audit_event_id \<Rightarrow> run_id \<Rightarrow> actor_id \<Rightarrow> timestamp \<Rightarrow> cancel_request store_op" where
  "request_cancel X eid rid actor now =
     bnd (lookup (\<lambda>s. bm_get (st_runs s) rid) run_missing) (\<lambda>current.
     if is_terminal (r_status current) then ret (CancelAlreadyTerminal (r_status current))
     else bnd (gets (\<lambda>s. bm_contains (st_leases s) rid)) (\<lambda>leased.
     if r_status current \<in> {Queued, AwaitingApproval} \<and> \<not> leased
     then bnd (ensure_memory_audit_time rid now (r_updated_at current)) (\<lambda>_.
          bnd (apply_memory_transition X eid current Cancelled now actor EvCancelConfirmed) (\<lambda>_.
          ret CancelDone))
     else
       bnd (check (\<lambda>s. r_status current \<in> {Planning, AwaitingApproval, Running})
         (state_error ''only active runs may request cancellation'')) (\<lambda>_.
       bnd (check (\<lambda>s. bm_contains (st_leases s) rid)
         (state_error ''active run has no current worker lease for cancellation'')) (\<lambda>_.
       bnd (gets (\<lambda>s. bm_contains (st_cancel_requested s) rid)) (\<lambda>requested.
       if requested then ret CancelRequested
       else
         bnd (ensure_memory_audit_time rid now (r_updated_at current)) (\<lambda>_.
         bnd (append_memory_audit X eid rid actor now EvCancelRequested) (\<lambda>_.
         bnd (modify (\<lambda>s. s\<lparr>st_cancel_requested := bm_insert rid now (st_cancel_requested s)\<rparr>)) (\<lambda>_.
         bnd (modify (\<lambda>s. case bm_get (st_leases s) rid of
                 None \<Rightarrow> s
               | Some lease \<Rightarrow>
                   s\<lparr>st_leases := bm_insert rid (lease\<lparr>ls_cancel_requested := True\<rparr>) (st_leases s)\<rparr>))
           (\<lambda>_. ret CancelRequested)))))))))"

definition lease_cancel_requested :: "run_lease \<Rightarrow> timestamp \<Rightarrow> bool store_op" where
  "lease_cancel_requested lease now =
     (let rid = r_id (ls_run lease)
      in bnd (lookup (\<lambda>s. bm_get (st_leases s) rid) lease_missing) (\<lambda>stored.
         bnd (check (\<lambda>s. \<not> (ls_token stored \<noteq> ls_token lease \<or> ls_owner stored \<noteq> ls_owner lease
                             \<or> r_revision (ls_run stored) \<noteq> r_revision (ls_run lease)
                             \<or> now < ls_acquired_at stored \<or> now \<ge> ls_expires_at stored))
           (state_error ''lease is not current'')) (\<lambda>_.
         gets (\<lambda>s. bm_contains (st_cancel_requested s) rid))))"

definition confirm_cancel ::
    "ext \<Rightarrow> audit_event_id \<Rightarrow> run_lease \<Rightarrow> timestamp \<Rightarrow> cancellation_evidence \<Rightarrow> run store_op" where
  "confirm_cancel X eid lease now evidence =
     (let rid = r_id (ls_run lease)
      in bnd (check (\<lambda>s. \<not> (ce_run_id evidence \<noteq> rid \<or> ce_sandbox_id evidence = []
                              \<or> ce_lease_token evidence \<noteq> ls_token lease
                              \<or> ce_lease_owner evidence \<noteq> ls_owner lease))
           (state_error ''cancellation evidence does not match lease'')) (\<lambda>_.
         bnd (lookup (\<lambda>s. bm_get (st_leases s) rid) lease_missing) (\<lambda>stored.
         bnd (check (\<lambda>s. \<not> (ls_token stored \<noteq> ls_token lease \<or> ls_owner stored \<noteq> ls_owner lease
                             \<or> r_revision (ls_run stored) \<noteq> r_revision (ls_run lease)
                             \<or> now \<ge> ls_expires_at stored
                             \<or> \<not> bm_contains (st_cancel_requested s) rid))
           (state_error ''lease is not eligible to confirm cancellation'')) (\<lambda>_.
         bnd (lookup (\<lambda>s. bm_get (st_runs s) rid) run_missing) (\<lambda>current.
         bnd (check (\<lambda>s. \<not> (r_revision current \<noteq> r_revision (ls_run lease)
                             \<or> now < ls_acquired_at stored))
           (state_error ''lease capability, revision, or time is not current'')) (\<lambda>_.
         bnd (ensure_memory_audit_time rid now (r_updated_at current)) (\<lambda>_.
         bnd (apply_memory_transition X eid current Cancelled now (ls_owner lease) EvCancelConfirmed)
           (\<lambda>updated.
         bnd (drop_lease rid) (\<lambda>_. ret updated)))))))))"

definition recover_one ::
    "ext \<Rightarrow> audit_event_id \<Rightarrow> actor_id \<Rightarrow> timestamp \<Rightarrow> run_id \<Rightarrow> unit store_op" where
  "recover_one X eid actor now rid =
     bnd (lookup (\<lambda>s. bm_get (st_runs s) rid) run_missing) (\<lambda>current.
     bnd (ensure_memory_audit_time rid now (r_updated_at current)) (\<lambda>_.
     bnd (if \<not> is_terminal (r_status current)
          then bnd (apply_memory_transition X eid current Failed now actor EvRunFailed) (\<lambda>_. ret ())
          else ret ()) (\<lambda>_.
     drop_lease rid)))"

fun recover_each ::
    "ext \<Rightarrow> (nat \<Rightarrow> audit_event_id) \<Rightarrow> actor_id \<Rightarrow> timestamp \<Rightarrow> nat \<Rightarrow> run_id list \<Rightarrow> unit store_op" where
  "recover_each X ids actor now n [] = ret ()"
| "recover_each X ids actor now n (rid # rids) =
     bnd (recover_one X (ids n) actor now rid) (\<lambda>_. recover_each X ids actor now (Suc n) rids)"

definition expired_leases :: "state \<Rightarrow> timestamp \<Rightarrow> run_id list" where
  "expired_leases s now = map fst (filter (\<lambda>(_, lease). ls_expires_at lease \<le> now) (st_leases s))"

definition recover_expired_leases ::
    "ext \<Rightarrow> (nat \<Rightarrow> audit_event_id) \<Rightarrow> actor_id \<Rightarrow> timestamp \<Rightarrow> run_id list store_op" where
  "recover_expired_leases X ids actor now =
     bnd (gets (\<lambda>s. expired_leases s now)) (\<lambda>expired.
     bnd (recover_each X ids actor now 0 expired) (\<lambda>_. ret expired))"

end
