(* ===== verification/Approval_Store.thy ===== *)
theory Approval_Store
  imports Store_State
begin

text \<open>
  The trait \<^verbatim>\<open>ApprovalRepository\<close> as \<^verbatim>\<open>InMemoryExecutionStore\<close> implements it
  (\<^verbatim>\<open>crates/openwork-execution/src/store/mod.rs\<close>, contract in
  \<^verbatim>\<open>crates/openwork-execution/src/approval/mod.rs\<close>): a pending approval bound to one action and
  to the revision of the awaiting run, its decision, its expiry, and the transaction that
  consumes it, moves the run to running and leaves the durable action claim.
\<close>

record approval_consumption =
  cn_approval :: approval_request
  cn_action_claim :: action_claim

definition next_revision :: "u64 \<Rightarrow> u64 result" where
  "next_revision revision =
     ok_or (checked_add revision 1) (approval_error ''approval revision overflow'')"

fun approval_status_name :: "approval_status \<Rightarrow> string" where
  "approval_status_name Pending = ''pending''"
| "approval_status_name Approved = ''approved''"
| "approval_status_name Denied = ''denied''"
| "approval_status_name Expired = ''expired''"
| "approval_status_name Consumed = ''consumed''"

definition approval_window_run :: "approval_request \<Rightarrow> run store_op" where
  "approval_window_run approval =
     bnd (lookup (\<lambda>s. bm_get (st_runs s) (ap_run_id approval)) run_missing) (\<lambda>r.
     bnd (check (\<lambda>s. r_status r = AwaitingApproval
                      \<and> bm_get (st_approval_windows s) (ap_id approval) = Some (r_revision r))
       (approval_error ''approval does not belong to the current awaiting-approval window'')) (\<lambda>_.
     ret r))"

definition approval_metadata :: "ext \<Rightarrow> approval_request \<Rightarrow> (string, json) btree_map" where
  "approval_metadata X approval =
     bm_of_list
       [(''approval_id'', JString (to_hyphenated X (ap_id approval))),
        (''action_id'', JString (to_hyphenated X (ap_action_id approval))),
        (''parameter_hash'', JString (digest_str (ap_parameter_hash approval))),
        (''revision'', JNumber (PosInt (ap_revision approval))),
        (''status'', JString (approval_status_name (ap_status approval)))]"

definition approval_event ::
    "ext \<Rightarrow> audit_event_id \<Rightarrow> approval_request \<Rightarrow> audit_event_type \<Rightarrow> actor_id \<Rightarrow> timestamp
      \<Rightarrow> audit_event store_op" where
  "approval_event X eid approval event_type actor ts =
     bnd (lookup (\<lambda>s. bm_get (st_audits s) (ap_run_id approval)) audit_missing) (\<lambda>events.
     bnd (check (\<lambda>s. \<not> audit_backwards events ts)
       (approval_error ''approval audit timestamp moved backwards'')) (\<lambda>_.
     bnd (lift_res (next_sequence events)) (\<lambda>sequence.
     lift_res (new_audit_event X eid (ap_run_id approval) sequence event_type actor ts
       (from_untrusted (approval_metadata X approval)) (last_hash events)))))"

definition put_approval :: "approval_request \<Rightarrow> unit store_op" where
  "put_approval approval =
     modify (\<lambda>s. s\<lparr>st_approvals := bm_insert (ap_id approval) approval (st_approvals s)\<rparr>)"

definition commit_approval :: "approval_request \<Rightarrow> audit_event \<Rightarrow> unit store_op" where
  "commit_approval approval event =
     bnd (lookup (\<lambda>s. bm_get (st_audits s) (ap_run_id approval)) audit_missing) (\<lambda>events.
     bnd (put_approval approval) (\<lambda>_.
     modify (\<lambda>s. s\<lparr>st_audits := bm_insert (ap_run_id approval) (events @ [event]) (st_audits s)\<rparr>)))"

definition approval_exists :: "state \<Rightarrow> approval_request \<Rightarrow> bool" where
  "approval_exists s request =
     (bm_contains (st_approvals s) (ap_id request)
      \<or> bm_contains (st_action_claims s) (ap_action_id request)
      \<or> list_ex (\<lambda>stored. ap_action_id stored = ap_action_id request) (bm_values (st_approvals s))
      \<or> list_ex (\<lambda>stored. ap_run_id stored = ap_run_id request
            \<and> ap_action_id stored = ap_action_id request
            \<and> ap_parameter_hash stored = ap_parameter_hash request
            \<and> ap_status stored \<in> {Pending, Approved}) (bm_values (st_approvals s)))"

definition create_approval ::
    "ext \<Rightarrow> audit_event_id \<Rightarrow> approval_request \<Rightarrow> actor_id \<Rightarrow> timestamp \<Rightarrow> approval_request store_op" where
  "create_approval X eid request trusted_actor trusted_now =
     bnd (check (\<lambda>s. \<not> (ap_status request \<noteq> Pending \<or> ap_revision request \<noteq> 0
                         \<or> ap_requested_by request \<noteq> trusted_actor
                         \<or> ap_created_at request \<noteq> trusted_now
                         \<or> length (ap_request_reason request) > 2048))
       (approval_error ''new approval invariants are invalid'')) (\<lambda>_.
     let request = request\<lparr>ap_request_reason := redact_text (ap_request_reason request)\<rparr>
     in bnd (lift_res (validate_approval request)) (\<lambda>_.
        bnd (lookup (\<lambda>s. bm_get (st_runs s) (ap_run_id request)) run_missing) (\<lambda>r.
        bnd (check (\<lambda>s. r_status r = AwaitingApproval)
          (approval_error ''approval run is not awaiting approval'')) (\<lambda>_.
        bnd (check (\<lambda>s. \<not> approval_exists s request)
          (approval_error ''approval already exists'')) (\<lambda>_.
        bnd (approval_event X eid request EvApprovalRequested trusted_actor trusted_now) (\<lambda>event.
        bnd (lookup (\<lambda>s. bm_get (st_audits s) (ap_run_id request)) audit_missing) (\<lambda>events.
        bnd (put_approval request) (\<lambda>_.
        bnd (modify (\<lambda>s. s\<lparr>st_approval_windows :=
               bm_insert (ap_id request) (r_revision r) (st_approval_windows s)\<rparr>)) (\<lambda>_.
        bnd (modify (\<lambda>s. s\<lparr>st_audits :=
               bm_insert (ap_run_id request) (events @ [event]) (st_audits s)\<rparr>)) (\<lambda>_.
        ret request))))))))))"

fun decision_status :: "approval_decision \<Rightarrow> approval_status" where
  "decision_status DecisionApproved = Approved"
| "decision_status DecisionDenied = Denied"

fun decision_event :: "approval_decision \<Rightarrow> audit_event_type" where
  "decision_event DecisionApproved = EvApprovalApproved"
| "decision_event DecisionDenied = EvApprovalDenied"

definition decide_approval ::
    "ext \<Rightarrow> audit_event_id \<Rightarrow> approval_id \<Rightarrow> u64 \<Rightarrow> approval_decision \<Rightarrow> actor_id \<Rightarrow> string option
      \<Rightarrow> timestamp \<Rightarrow> approval_request store_op" where
  "decide_approval X eid pid expected_revision decision trusted_actor reason trusted_now =
     bnd (check (\<lambda>s. \<not> (case reason of None \<Rightarrow> False | Some why \<Rightarrow> length why > 2048))
       (approval_error ''approval decision reason is too long'')) (\<lambda>_.
     bnd (lookup (\<lambda>s. bm_get (st_approvals s) pid) approval_missing) (\<lambda>current.
     bnd (check (\<lambda>s. \<not> (ap_status current \<noteq> Pending \<or> ap_revision current \<noteq> expected_revision
                         \<or> is_expired_at current trusted_now))
       (approval_error ''approval is expired, stale, or no longer pending'')) (\<lambda>_.
     bnd (if decision = DecisionApproved
          then bnd (approval_window_run current) (\<lambda>_. ret ()) else ret ()) (\<lambda>_.
     bnd (lift_res (next_revision (ap_revision current))) (\<lambda>revision.
     let updated = current\<lparr>ap_status := decision_status decision, ap_revision := revision,
           ap_decision := Some \<lparr>dr_decision = decision, dr_actor = trusted_actor,
             dr_reason = map_option redact_text reason, dr_decided_at = trusted_now\<rparr>\<rparr>
     in bnd (lift_res (validate_approval updated)) (\<lambda>_.
        bnd (approval_event X eid updated (decision_event decision) trusted_actor trusted_now) (\<lambda>event.
        bnd (commit_approval updated event) (\<lambda>_.
        ret updated))))))))"

definition expire_approval ::
    "ext \<Rightarrow> audit_event_id \<Rightarrow> approval_id \<Rightarrow> u64 \<Rightarrow> actor_id \<Rightarrow> timestamp \<Rightarrow> approval_request store_op" where
  "expire_approval X eid pid expected_revision trusted_actor trusted_now =
     bnd (lookup (\<lambda>s. bm_get (st_approvals s) pid) approval_missing) (\<lambda>current.
     bnd (check (\<lambda>s. \<not> (ap_status current \<notin> {Pending, Approved}
                         \<or> ap_revision current \<noteq> expected_revision
                         \<or> \<not> is_expired_at current trusted_now))
       (approval_error ''approval cannot expire at this revision and time'')) (\<lambda>_.
     bnd (lift_res (next_revision (ap_revision current))) (\<lambda>revision.
     let updated = current\<lparr>ap_status := Expired, ap_revision := revision\<rparr>
     in bnd (lift_res (validate_approval updated)) (\<lambda>_.
        bnd (approval_event X eid updated EvApprovalExpired trusted_actor trusted_now) (\<lambda>event.
        bnd (commit_approval updated event) (\<lambda>_.
        ret updated))))))"

definition reject_mismatch ::
    "ext \<Rightarrow> audit_event_id \<Rightarrow> approval_request \<Rightarrow> actor_id \<Rightarrow> timestamp \<Rightarrow> approval_consumption store_op" where
  \<comment> \<open>the branch of \<^verbatim>\<open>consume_approval\<close> for an action the approval is not bound to\<close>
  "reject_mismatch X eid current trusted_actor trusted_now =
     bnd (approval_event X eid current EvApprovalBindingMismatch trusted_actor trusted_now) (\<lambda>event.
     bnd (push_events (ap_run_id current) [event]) (\<lambda>_.
     fail_with (approval_error ''approval binding does not match action'')))"

definition commit_consumption ::
    "ext \<Rightarrow> audit_event_id \<Rightarrow> audit_event_id \<Rightarrow> approval_request \<Rightarrow> run \<Rightarrow> u64 \<Rightarrow> action_request
      \<Rightarrow> actor_id \<Rightarrow> timestamp \<Rightarrow> approval_consumption store_op" where
  \<comment> \<open>the rest of \<^verbatim>\<open>consume_approval\<close>\<close>
  "commit_consumption X eid eid' current r expected_revision action trusted_actor trusted_now =
     bnd (lift_res (can_consume_at X current action expected_revision trusted_now)) (\<lambda>_.
     bnd (check (\<lambda>s. \<not> bm_contains (st_action_claims s) (ac_id action))
       (approval_error ''action was already claimed'')) (\<lambda>_.
     bnd (lift_res (next_revision (ap_revision current))) (\<lambda>revision.
     let updated = current\<lparr>ap_status := Consumed, ap_revision := revision,
           ap_consumed_at := Some trusted_now\<rparr>
     in bnd (lift_res (validate_approval updated)) (\<lambda>_.
     let claim = \<lparr>cl_run_id = ac_run_id action, cl_action_id = ac_id action,
           cl_parameter_hash = ac_parameter_hash action, cl_actor = trusted_actor,
           cl_claimed_at = trusted_now\<rparr>
     in bnd (approval_event X eid updated EvApprovalConsumed trusted_actor trusted_now) (\<lambda>event.
     bnd (lift_res (ok_or (checked_add (r_revision r) 1)
       (state_error ''run revision overflow''))) (\<lambda>run_revision.
     let updated_run = advanced r Running run_revision None trusted_now
     in bnd (lift_res (ok_or (checked_add (ev_sequence event) 1)
       (internal_error ''audit sequence overflow''))) (\<lambda>sequence.
     bnd (lift_res (build_event X eid' (with_run_status (new_audit_append trusted_actor trusted_now)
       Running) (r_id updated_run) sequence EvRuntimeStarted (Some (ev_event_hash event))))
       (\<lambda>runtime_event.
     bnd (lookup (\<lambda>s. bm_get (st_audits s) (ap_run_id updated)) audit_missing) (\<lambda>events.
     bnd (put_approval updated) (\<lambda>_.
     bnd (put_run (r_id updated_run) updated_run) (\<lambda>_.
     bnd (modify (\<lambda>s. s\<lparr>st_audits :=
            bm_insert (ap_run_id updated) (events @ [event, runtime_event]) (st_audits s)\<rparr>)) (\<lambda>_.
     bnd (modify (\<lambda>s. s\<lparr>st_action_claims :=
            bm_insert (cl_action_id claim) claim (st_action_claims s)\<rparr>)) (\<lambda>_.
     ret \<lparr>cn_approval = updated, cn_action_claim = claim\<rparr>)))))))))))))"

definition consume_approval ::
    "ext \<Rightarrow> audit_event_id \<Rightarrow> audit_event_id \<Rightarrow> approval_id \<Rightarrow> u64 \<Rightarrow> action_request \<Rightarrow> actor_id
      \<Rightarrow> timestamp \<Rightarrow> approval_consumption store_op" where
  "consume_approval X eid eid' pid expected_revision action trusted_actor trusted_now =
     bnd (lookup (\<lambda>s. bm_get (st_approvals s) pid) approval_missing) (\<lambda>current.
     bnd (approval_window_run current) (\<lambda>r.
     if ap_status current = Approved \<and> ap_revision current = expected_revision
        \<and> \<not> is_expired_at current trusted_now \<and> \<not> binding_matches X current action
     then reject_mismatch X eid current trusted_actor trusted_now
     else commit_consumption X eid eid' current r expected_revision action trusted_actor trusted_now))"

definition get_approval :: "approval_id \<Rightarrow> approval_request option store_op" where
  "get_approval pid = gets (\<lambda>s. bm_get (st_approvals s) pid)"

definition get_action_claim :: "action_id \<Rightarrow> action_claim option store_op" where
  "get_action_claim aid = gets (\<lambda>s. bm_get (st_action_claims s) aid)"

end
