(* ===== verification/Ledger.thy ===== *)
theory Ledger
  imports Queue_Store Approval_Store
begin

text \<open>
  The abstract specification of the execution store: a ledger of runs, audit chains,
  artifacts, approvals, claims and leases, and the ten kinds of step it may take. Its
  invariant says what every stored object satisfies, and \<open>evolves\<close> says how an object may
  change over a history: runs and approvals only along their state machines with one
  revision per transition, chains and artifact lists only by appending, claims never. The
  operations of the store are shown in the theory \<open>Store_Refine\<close> to take only these steps.
\<close>

section \<open>The ledger\<close>

record ledger =
  lg_runs :: "run_id \<rightharpoonup> run"
  lg_audits :: "run_id \<rightharpoonup> audit_event list"
  lg_artifacts :: "run_id \<rightharpoonup> artifact list"
  lg_approvals :: "approval_id \<rightharpoonup> approval_request"
  lg_windows :: "approval_id \<rightharpoonup> u64"
  lg_claims :: "action_id \<rightharpoonup> action_claim"
  lg_leases :: "run_id \<rightharpoonup> run_lease"
  lg_cancels :: "run_id \<rightharpoonup> timestamp"

definition empty_ledger :: ledger where
  "empty_ledger = \<lparr>lg_runs = Map.empty, lg_audits = Map.empty, lg_artifacts = Map.empty,
     lg_approvals = Map.empty, lg_windows = Map.empty, lg_claims = Map.empty,
     lg_leases = Map.empty, lg_cancels = Map.empty\<rparr>"

definition good_chain :: "ext \<Rightarrow> run_id \<Rightarrow> audit_event list \<Rightarrow> bool" where
  "good_chain X rid es =
     (verify_chain X es \<and> (\<forall>e \<in> set es. ev_run_id e = rid) \<and> sorted (map ev_timestamp es))"

definition grown :: "ext \<Rightarrow> ledger \<Rightarrow> run_id \<Rightarrow> audit_event list \<Rightarrow> (run_id \<rightharpoonup> audit_event list) \<Rightarrow> bool" where
  \<comment> \<open>the chain of one run extended by events that keep it a good chain\<close>
  "grown X L rid new audits =
     (\<exists>es. lg_audits L rid = Some es \<and> good_chain X rid (es @ new) \<and>
           audits = (lg_audits L)(rid \<mapsto> es @ new))"

definition moved :: "ext \<Rightarrow> ledger \<Rightarrow> run_id \<Rightarrow> run_status \<Rightarrow> run \<Rightarrow> (run_id \<rightharpoonup> audit_event list) \<Rightarrow> bool" where
  \<comment> \<open>a run advanced along the state machine with the events that record it\<close>
  "moved X L rid nxt r' audits =
     (\<exists>r new rev why. lg_runs L rid = Some r \<and> can_transition_to (r_status r) nxt \<and>
        checked_add (r_revision r) 1 = Some rev \<and> new \<noteq> [] \<and> grown X L rid new audits \<and>
        r_updated_at r \<le> ev_timestamp (last new) \<and>
        r' = advanced r nxt rev why (ev_timestamp (last new)))"

definition same_lease :: "run_lease \<Rightarrow> run_lease \<Rightarrow> bool" where
  "same_lease l l' =
     (ls_token l' = ls_token l \<and> ls_owner l' = ls_owner l \<and> ls_acquired_at l' = ls_acquired_at l)"

definition same_binding :: "approval_request \<Rightarrow> approval_request \<Rightarrow> bool" where
  "same_binding a a' =
     (ap_id a' = ap_id a \<and> ap_run_id a' = ap_run_id a \<and> ap_action_id a' = ap_action_id a
      \<and> ap_parameter_hash a' = ap_parameter_hash a \<and> ap_requested_by a' = ap_requested_by a
      \<and> ap_request_reason a' = ap_request_reason a \<and> ap_created_at a' = ap_created_at a
      \<and> ap_expires_at a' = ap_expires_at a)"

definition approval_moved :: "approval_request \<Rightarrow> approval_request \<Rightarrow> bool" where
  "approval_moved a a' =
     (same_binding a a' \<and> approval_can_transition_to (ap_status a) (ap_status a')
      \<and> checked_add (ap_revision a) 1 = Some (ap_revision a') \<and> validate_approval a' = Inr ())"

inductive ledger_step :: "ext \<Rightarrow> ledger \<Rightarrow> ledger \<Rightarrow> bool" for X where
  create:
    "lg_runs L (r_id r) = None \<Longrightarrow> validate_new_run r = Inr () \<Longrightarrow> good_chain X (r_id r) [e] \<Longrightarrow>
     ev_timestamp e = r_created_at r \<Longrightarrow>
     ledger_step X L (L\<lparr>lg_runs := (lg_runs L)(r_id r \<mapsto> r), lg_audits := (lg_audits L)(r_id r \<mapsto> [e])\<rparr>)"
| append:
    "grown X L rid new au \<Longrightarrow> ledger_step X L (L\<lparr>lg_audits := au\<rparr>)"
| advance_free:
    "moved X L rid nxt r' au \<Longrightarrow> lg_leases L rid = None \<Longrightarrow>
     ledger_step X L (L\<lparr>lg_runs := (lg_runs L)(rid \<mapsto> r'), lg_audits := au\<rparr>)"
| claim:
    "moved X L rid Planning r' au \<Longrightarrow> lg_leases L rid = None \<Longrightarrow> ls_run l = r' \<Longrightarrow>
     \<not> ls_cancel_requested l \<Longrightarrow>
     ledger_step X L (L\<lparr>lg_runs := (lg_runs L)(rid \<mapsto> r'), lg_audits := au,
       lg_leases := (lg_leases L)(rid \<mapsto> l)\<rparr>)"
| advance_held:
    "moved X L rid nxt r' au \<Longrightarrow> lg_leases L rid = Some l \<Longrightarrow> \<not> is_terminal nxt \<Longrightarrow>
     same_lease l l' \<Longrightarrow> ls_run l' = r' \<Longrightarrow> ls_cancel_requested l' = (lg_cancels L rid \<noteq> None) \<Longrightarrow>
     ledger_step X L (L\<lparr>lg_runs := (lg_runs L)(rid \<mapsto> r'), lg_audits := au,
       lg_leases := (lg_leases L)(rid \<mapsto> l')\<rparr>)"
| finish:
    "moved X L rid nxt r' au \<Longrightarrow> lg_leases L rid = Some l \<Longrightarrow> is_terminal nxt \<Longrightarrow>
     (nxt = Succeeded \<longrightarrow> lg_cancels L rid = None) \<Longrightarrow>
     ledger_step X L (L\<lparr>lg_runs := (lg_runs L)(rid \<mapsto> r'), lg_audits := au,
       lg_leases := (lg_leases L)(rid := None), lg_cancels := (lg_cancels L)(rid := None)\<rparr>)"
| refresh:
    "lg_leases L rid = Some l \<Longrightarrow> same_lease l l' \<Longrightarrow> ls_run l' = ls_run l \<Longrightarrow>
     ls_cancel_requested l' = (lg_cancels L rid \<noteq> None) \<Longrightarrow>
     ledger_step X L (L\<lparr>lg_leases := (lg_leases L)(rid \<mapsto> l')\<rparr>)"
| intend_cancel:
    "grown X L rid new au \<Longrightarrow> lg_leases L rid = Some l \<Longrightarrow> lg_cancels L rid = None \<Longrightarrow>
     ledger_step X L (L\<lparr>lg_audits := au, lg_cancels := (lg_cancels L)(rid \<mapsto> now),
       lg_leases := (lg_leases L)(rid \<mapsto> l\<lparr>ls_cancel_requested := True\<rparr>)\<rparr>)"
| propose:
    "grown X L (ap_run_id a) new au \<Longrightarrow> lg_runs L (ap_run_id a) = Some r \<Longrightarrow>
     r_status r = AwaitingApproval \<Longrightarrow> lg_approvals L (ap_id a) = None \<Longrightarrow>
     lg_claims L (ap_action_id a) = None \<Longrightarrow>
     (\<forall>p b. lg_approvals L p = Some b \<longrightarrow> ap_action_id b \<noteq> ap_action_id a) \<Longrightarrow>
     ap_status a = Pending \<Longrightarrow> ap_revision a = 0 \<Longrightarrow> validate_approval a = Inr () \<Longrightarrow>
     ledger_step X L (L\<lparr>lg_audits := au, lg_approvals := (lg_approvals L)(ap_id a \<mapsto> a),
       lg_windows := (lg_windows L)(ap_id a \<mapsto> r_revision r)\<rparr>)"
| settle:
    "grown X L (ap_run_id a) new au \<Longrightarrow> lg_approvals L p = Some a \<Longrightarrow> approval_moved a a' \<Longrightarrow>
     ap_status a' \<noteq> Consumed \<Longrightarrow>
     ledger_step X L (L\<lparr>lg_audits := au, lg_approvals := (lg_approvals L)(p \<mapsto> a')\<rparr>)"
| consume:
    "moved X L (ap_run_id a) Running r' au \<Longrightarrow> lg_runs L (ap_run_id a) = Some r \<Longrightarrow>
     r_status r = AwaitingApproval \<Longrightarrow> lg_windows L p = Some (r_revision r) \<Longrightarrow>
     lg_approvals L p = Some a \<Longrightarrow> approval_moved a a' \<Longrightarrow> ap_status a' = Consumed \<Longrightarrow>
     lg_claims L (ap_action_id a) = None \<Longrightarrow>
     cl_run_id c = ap_run_id a \<Longrightarrow> cl_action_id c = ap_action_id a \<Longrightarrow>
     cl_parameter_hash c = ap_parameter_hash a \<Longrightarrow> ap_consumed_at a' = Some (cl_claimed_at c) \<Longrightarrow>
     ledger_step X L (L\<lparr>lg_runs := (lg_runs L)(ap_run_id a \<mapsto> r'), lg_audits := au,
       lg_approvals := (lg_approvals L)(p \<mapsto> a'), lg_claims := (lg_claims L)(ap_action_id a \<mapsto> c)\<rparr>)"
| store_artifacts:
    "grown X L rid new au \<Longrightarrow> old = (case lg_artifacts L rid of None \<Rightarrow> [] | Some l \<Rightarrow> l) \<Longrightarrow>
     distinct (map ar_path batch) \<Longrightarrow> ar_path ` set batch \<inter> ar_path ` set old = {} \<Longrightarrow>
     (\<forall>x \<in> set batch. ar_run_id x = rid \<and> \<not> blank (ar_media_type x)) \<Longrightarrow>
     ledger_step X L (L\<lparr>lg_audits := au, lg_artifacts := (lg_artifacts L)(rid \<mapsto> old @ batch)\<rparr>)"

section \<open>The invariant\<close>

definition run_ok :: "run \<Rightarrow> bool" where
  "run_ok r =
     (r_created_at r \<le> r_updated_at r
      \<and> r_completed_at r = (if is_terminal (r_status r) then Some (r_updated_at r) else None)
      \<and> (r_terminal_reason r \<noteq> None \<longleftrightarrow> r_status r \<in> {Failed, Cancelled, TimedOut})
      \<and> (\<forall>why. r_terminal_reason r = Some why \<longrightarrow> redact_text why = why)
      \<and> (\<forall>t. r_started_at r = Some t \<longrightarrow> r_created_at r \<le> t \<and> t \<le> r_updated_at r)
      \<and> (r_status r \<in> {Running, Succeeded} \<longrightarrow> r_started_at r \<noteq> None)
      \<and> (r_status r \<in> {Queued, Planning} \<longrightarrow> r_started_at r = None)
      \<and> (r_revision r = 0 \<longleftrightarrow> r_status r = Queued))"

definition inv_runs :: "ext \<Rightarrow> (run_id \<rightharpoonup> run) \<Rightarrow> (run_id \<rightharpoonup> audit_event list) \<Rightarrow> bool" where
  "inv_runs X runs audits =
     (dom audits = dom runs \<and>
      (\<forall>rid r es. runs rid = Some r \<longrightarrow> audits rid = Some es \<longrightarrow>
         r_id r = rid \<and> run_ok r \<and> good_chain X rid es \<and> es \<noteq> []
         \<and> r_updated_at r \<le> ev_timestamp (last es)))"

definition active :: "run_status \<Rightarrow> bool" where
  "active st = (st \<in> {Planning, AwaitingApproval, Running})"

definition inv_leases ::
    "(run_id \<rightharpoonup> run) \<Rightarrow> (run_id \<rightharpoonup> run_lease) \<Rightarrow> (run_id \<rightharpoonup> timestamp) \<Rightarrow> bool" where
  "inv_leases runs leases cancels =
     (dom cancels \<subseteq> dom leases \<and>
      (\<forall>rid l. leases rid = Some l \<longrightarrow>
         (\<exists>r. runs rid = Some r \<and> active (r_status r) \<and> r_id (ls_run l) = rid
              \<and> r_revision (ls_run l) \<le> r_revision r)
         \<and> ls_cancel_requested l = (cancels rid \<noteq> None)))"

definition approval_age :: "approval_request \<Rightarrow> bool" where
  "approval_age a =
     (case ap_status a of
        Pending \<Rightarrow> ap_revision a = 0
      | Approved \<Rightarrow> ap_revision a = 1
      | Denied \<Rightarrow> ap_revision a = 1
      | Expired \<Rightarrow> ap_revision a = 1 \<or> ap_revision a = 2
      | Consumed \<Rightarrow> ap_revision a = 2)"

definition claim_for :: "action_claim \<Rightarrow> approval_request \<Rightarrow> bool" where
  "claim_for c a =
     (cl_run_id c = ap_run_id a \<and> cl_action_id c = ap_action_id a
      \<and> cl_parameter_hash c = ap_parameter_hash a \<and> ap_status a = Consumed
      \<and> ap_consumed_at a = Some (cl_claimed_at c))"

definition approval_entry ::
    "(run_id \<rightharpoonup> run) \<Rightarrow> (action_id \<rightharpoonup> action_claim) \<Rightarrow> approval_id \<Rightarrow> approval_request \<Rightarrow> bool" where
  "approval_entry runs claims p a =
     (ap_id a = p \<and> validate_approval a = Inr () \<and> approval_age a \<and> ap_run_id a \<in> dom runs
      \<and> (ap_status a = Consumed \<longleftrightarrow> ap_action_id a \<in> dom claims))"

definition inv_approvals ::
    "(run_id \<rightharpoonup> run) \<Rightarrow> (approval_id \<rightharpoonup> approval_request) \<Rightarrow> (approval_id \<rightharpoonup> u64)
      \<Rightarrow> (action_id \<rightharpoonup> action_claim) \<Rightarrow> bool" where
  "inv_approvals runs approvals windows claims =
     (dom windows = dom approvals \<and>
      (\<forall>p a. approvals p = Some a \<longrightarrow> approval_entry runs claims p a) \<and>
      (\<forall>p q a b. approvals p = Some a \<longrightarrow> approvals q = Some b \<longrightarrow>
         ap_action_id a = ap_action_id b \<longrightarrow> p = q) \<and>
      (\<forall>x c. claims x = Some c \<longrightarrow>
         cl_action_id c = x \<and> (\<exists>p a. approvals p = Some a \<and> claim_for c a)))"

definition inv_artifacts :: "(run_id \<rightharpoonup> run) \<Rightarrow> (run_id \<rightharpoonup> artifact list) \<Rightarrow> bool" where
  "inv_artifacts runs arts =
     (\<forall>rid as. arts rid = Some as \<longrightarrow>
        rid \<in> dom runs \<and> distinct (map ar_path as)
        \<and> (\<forall>x \<in> set as. ar_run_id x = rid \<and> \<not> blank (ar_media_type x)))"

definition ledger_inv :: "ext \<Rightarrow> ledger \<Rightarrow> bool" where
  "ledger_inv X L =
     (inv_runs X (lg_runs L) (lg_audits L) \<and> inv_leases (lg_runs L) (lg_leases L) (lg_cancels L)
      \<and> inv_approvals (lg_runs L) (lg_approvals L) (lg_windows L) (lg_claims L)
      \<and> inv_artifacts (lg_runs L) (lg_artifacts L))"

section \<open>What a status change keeps\<close>

lemma advanced_simps [simp]:
  "r_id (advanced r nxt rv why ts) = r_id r"
  "r_status (advanced r nxt rv why ts) = nxt"
  "r_revision (advanced r nxt rv why ts) = rv"
  "r_updated_at (advanced r nxt rv why ts) = ts"
  "r_created_at (advanced r nxt rv why ts) = r_created_at r"
  "r_runtime (advanced r nxt rv why ts) = r_runtime r"
  "r_workspace (advanced r nxt rv why ts) = r_workspace r"
  "r_actor_id (advanced r nxt rv why ts) = r_actor_id r"
  "r_prompt_sha256 (advanced r nxt rv why ts) = r_prompt_sha256 r"
  "r_started_at (advanced r nxt rv why ts) =
     (if nxt = Running \<and> r_started_at r = None then Some ts else r_started_at r)"
  "r_completed_at (advanced r nxt rv why ts) =
     (if is_terminal nxt then Some ts else r_completed_at r)"
  "r_terminal_reason (advanced r nxt rv why ts) =
     (if is_terminal nxt
      then if nxt \<noteq> Succeeded
           then Some (case why of None \<Rightarrow> ''unspecified'' | Some w \<Rightarrow> redact_text w) else None
      else r_terminal_reason r)"
  by (simp_all add: advanced_def Let_def)

lemma unspecified_clean: "redact_text ''unspecified'' = ''unspecified''"
  by (rule redact_text_plain) (simp add: plain_word_def graphic_def byte_def starts_with_def token_prefixes_def)

lemma advanced_run_ok:
  assumes "run_ok r" and "can_transition_to (r_status r) nxt"
    and "checked_add (r_revision r) 1 = Some rv" and "r_updated_at r \<le> ts"
  shows "run_ok (advanced r nxt rv why ts)"
proof -
  have "rv \<noteq> 0"
    using unat_checked_add [OF assms(3)] by (auto simp: unat_eq_0)
  moreover have "nxt \<noteq> Queued"
    using assms(2) no_return_to_queued by blast
  moreover have "redact_text w = w" if "w = (case why of None \<Rightarrow> ''unspecified'' | Some w \<Rightarrow> redact_text w)" for w
    using that by (simp add: unspecified_clean redact_text_idem split: option.splits)
  ultimately show ?thesis
    using assms by (cases "r_status r"; cases nxt) (auto simp: run_ok_def is_terminal_def)
qed

lemma new_run_ok: "validate_new_run r = Inr () \<Longrightarrow> run_ok r"
  by (auto simp: validate_new_run_def run_ok_def is_terminal_def split: if_splits)

lemma active_not_terminal: "active st \<longleftrightarrow> \<not> is_terminal st \<and> st \<noteq> Queued"
  by (cases st) (simp_all add: active_def is_terminal_def)

lemma active_transition: "can_transition_to st nxt \<Longrightarrow> \<not> is_terminal nxt \<Longrightarrow> active nxt"
  by (auto simp: active_not_terminal no_return_to_queued)

section \<open>The invariant is kept\<close>

lemma good_chain_last: "good_chain X rid (es @ new) \<Longrightarrow> es \<noteq> [] \<Longrightarrow> ev_timestamp (last es) \<le> ev_timestamp (last (es @ new))"
  by (cases "new = []") (auto simp: good_chain_def sorted_append)

lemma inv_runs_grown:
  assumes "inv_runs X (lg_runs L) (lg_audits L)" and "grown X L rid new au"
  shows "inv_runs X (lg_runs L) au"
proof -
  from assms(2) obtain es where es: "lg_audits L rid = Some es" "good_chain X rid (es @ new)"
    and au: "au = (lg_audits L)(rid \<mapsto> es @ new)" by (auto simp: grown_def)
  have "rid \<in> dom (lg_runs L)" using es(1) assms(1) by (auto simp: inv_runs_def)
  then have d: "dom au = dom (lg_runs L)" using assms(1) by (auto simp: inv_runs_def au)
  have "r_id r = i \<and> run_ok r \<and> good_chain X i fs \<and> fs \<noteq> [] \<and> r_updated_at r \<le> ev_timestamp (last fs)"
    if "lg_runs L i = Some r" "au i = Some fs" for i r fs
  proof (cases "i = rid")
    case True
    with that es(1) assms(1) have "r_id r = rid" "run_ok r" "es \<noteq> []" "r_updated_at r \<le> ev_timestamp (last es)"
      by (auto simp: inv_runs_def)
    with good_chain_last [OF es(2)] es(2) that True show ?thesis by (auto simp: au)
  next
    case False
    with that assms(1) show ?thesis by (simp add: inv_runs_def au)
  qed
  with d show ?thesis unfolding inv_runs_def by blast
qed

lemma inv_runs_moved:
  assumes "inv_runs X (lg_runs L) (lg_audits L)" and "moved X L rid nxt r' au"
  shows "inv_runs X ((lg_runs L)(rid \<mapsto> r')) au"
proof -
  from assms(2) obtain r new rv why where r: "lg_runs L rid = Some r"
    and step: "can_transition_to (r_status r) nxt" "checked_add (r_revision r) 1 = Some rv"
      "r_updated_at r \<le> ev_timestamp (last new)" "new \<noteq> []"
    and g: "grown X L rid new au" and r': "r' = advanced r nxt rv why (ev_timestamp (last new))"
    by (auto simp: moved_def)
  from g obtain es where es: "lg_audits L rid = Some es" and au: "au = (lg_audits L)(rid \<mapsto> es @ new)"
    by (auto simp: grown_def)
  have i: "inv_runs X (lg_runs L) au" by (rule inv_runs_grown [OF assms(1) g])
  have ok: "r_id r = rid" "run_ok r" using assms(1) r es by (auto simp: inv_runs_def)
  show ?thesis
    using i r advanced_run_ok [OF ok(2) step(1-3)] ok(1) step(4)
    unfolding inv_runs_def by (auto simp: r' au insert_absorb)
qed

lemma moved_runs:
  assumes "moved X L rid nxt r' au"
  obtains r where "lg_runs L rid = Some r" "can_transition_to (r_status r) nxt" "r_status r' = nxt"
    "r_revision r < r_revision r'" "r_id r' = r_id r"
  using assms checked_add_gt by (auto simp: moved_def)

lemma inv_leases_run:
  assumes "inv_leases runs leases cancels" and "runs rid = Some r" and "r_revision r \<le> r_revision r'"
    and "leases rid \<noteq> None \<Longrightarrow> active (r_status r')"
  shows "inv_leases (runs(rid \<mapsto> r')) leases cancels"
  unfolding inv_leases_def
proof (intro conjI allI impI)
  show "dom cancels \<subseteq> dom leases" using assms(1) by (simp add: inv_leases_def)
  fix i l assume l: "leases i = Some l"
  then show "ls_cancel_requested l = (cancels i \<noteq> None)" using assms(1) by (simp add: inv_leases_def)
  from l assms(1) obtain q where "runs i = Some q" "active (r_status q)" "r_id (ls_run l) = i"
    "r_revision (ls_run l) \<le> r_revision q" unfolding inv_leases_def by blast
  with l assms(2-4) show "\<exists>x. (runs(rid \<mapsto> r')) i = Some x \<and> active (r_status x)
      \<and> r_id (ls_run l) = i \<and> r_revision (ls_run l) \<le> r_revision x"
    by (cases "i = rid") auto
qed

lemma inv_leases_put:
  assumes "inv_leases runs leases cancels" and "runs rid = Some r" and "active (r_status r)"
    and "r_id (ls_run l) = rid" and "r_revision (ls_run l) \<le> r_revision r"
    and "ls_cancel_requested l = (cancels rid \<noteq> None)"
  shows "inv_leases runs (leases(rid \<mapsto> l)) cancels"
  using assms by (auto simp: inv_leases_def)

lemma inv_leases_drop:
  assumes "inv_leases runs leases cancels"
  shows "inv_leases runs (leases(rid := None)) (cancels(rid := None))"
  using assms by (auto simp: inv_leases_def)

lemma inv_leases_finish:
  assumes "inv_leases runs leases cancels" and "runs rid = Some r" and "r_revision r \<le> r_revision r'"
  shows "inv_leases (runs(rid \<mapsto> r')) (leases(rid := None)) (cancels(rid := None))"
  using inv_leases_run [OF inv_leases_drop [OF assms(1), of rid] assms(2,3)] by simp

lemma inv_approvalsI:
  assumes "dom ws = dom aps" and "\<And>p a. aps p = Some a \<Longrightarrow> approval_entry runs cs p a"
    and "\<And>p q a b. aps p = Some a \<Longrightarrow> aps q = Some b \<Longrightarrow> ap_action_id a = ap_action_id b \<Longrightarrow> p = q"
    and "\<And>x c. cs x = Some c \<Longrightarrow> cl_action_id c = x"
    and "\<And>x c. cs x = Some c \<Longrightarrow> \<exists>p a. aps p = Some a \<and> claim_for c a"
  shows "inv_approvals runs aps ws cs"
  using assms unfolding inv_approvals_def by blast

lemma inv_approvalsD:
  assumes "inv_approvals runs aps ws cs"
  shows "dom ws = dom aps" "aps p = Some a \<Longrightarrow> approval_entry runs cs p a"
    "aps p = Some a \<Longrightarrow> aps q = Some b \<Longrightarrow> ap_action_id a = ap_action_id b \<Longrightarrow> p = q"
    "cs x = Some c \<Longrightarrow> cl_action_id c = x"
    "cs x = Some c \<Longrightarrow> \<exists>p a. aps p = Some a \<and> claim_for c a"
  using assms unfolding inv_approvals_def by blast+

lemma inv_approvals_runs:
  assumes "inv_approvals runs aps ws cs" and "dom runs \<subseteq> dom runs'"
  shows "inv_approvals runs' aps ws cs"
  using assms unfolding inv_approvals_def approval_entry_def by blast

lemma inv_artifacts_runs:
  "inv_artifacts runs arts \<Longrightarrow> dom runs \<subseteq> dom runs' \<Longrightarrow> inv_artifacts runs' arts"
  unfolding inv_artifacts_def by (meson subsetD)

lemma approval_age_moved:
  "approval_age a \<Longrightarrow> approval_moved a a' \<Longrightarrow> approval_age a'"
  by (cases "ap_status a"; cases "ap_status a'")
    (auto simp: approval_age_def approval_moved_def checked_add_def split: if_splits)

lemma approval_moved_open: "approval_moved a a' \<Longrightarrow> ap_status a \<noteq> Consumed"
  by (auto simp: approval_moved_def)

lemma inv_approvals_propose:
  assumes inv: "inv_approvals runs aps ws cs" and "aps (ap_id a) = None"
    and "cs (ap_action_id a) = None"
    and fresh: "\<forall>p b. aps p = Some b \<longrightarrow> ap_action_id b \<noteq> ap_action_id a"
    and "ap_status a = Pending" and "ap_revision a = 0" and "validate_approval a = Inr ()"
    and "ap_run_id a \<in> dom runs"
  shows "inv_approvals runs (aps(ap_id a \<mapsto> a)) (ws(ap_id a \<mapsto> w)) cs"
proof (rule inv_approvalsI)
  show "dom (ws(ap_id a \<mapsto> w)) = dom (aps(ap_id a \<mapsto> a))"
    using inv_approvalsD(1) [OF inv] by simp
  show "approval_entry runs cs p b" if "(aps(ap_id a \<mapsto> a)) p = Some b" for p b
    using that assms inv_approvalsD(2) [OF inv]
    by (cases "p = ap_id a") (auto simp: approval_entry_def approval_age_def)
  show "p = q" if "(aps(ap_id a \<mapsto> a)) p = Some b" "(aps(ap_id a \<mapsto> a)) q = Some c"
    "ap_action_id b = ap_action_id c" for p q b c
    using that fresh inv_approvalsD(3) [OF inv] by (metis fun_upd_apply option.inject)
  show "cl_action_id c = x" if "cs x = Some c" for x c
    by (rule inv_approvalsD(4) [OF inv that])
  show "\<exists>p b. (aps(ap_id a \<mapsto> a)) p = Some b \<and> claim_for c b" if "cs x = Some c" for x c
    using inv_approvalsD(5) [OF inv that] assms(2) by (metis fun_upd_other option.distinct(1))
qed

lemma approval_entry_moved:
  assumes "approval_entry runs cs p a" and "approval_moved a a'"
    and "ap_status a' = Consumed \<longleftrightarrow> ap_action_id a \<in> dom cs'"
  shows "approval_entry runs cs' p a'"
  using assms approval_age_moved [OF _ assms(2)]
  by (auto simp: approval_entry_def approval_moved_def same_binding_def)

lemma moved_unique:
  assumes inv: "inv_approvals runs aps ws cs" and "aps p = Some a" and "approval_moved a a'"
    and "(aps(p \<mapsto> a')) q = Some b" and "(aps(p \<mapsto> a')) q' = Some c"
    and "ap_action_id b = ap_action_id c"
  shows "q = q'"
proof -
  have "ap_action_id a' = ap_action_id a"
    using assms(3) by (simp add: approval_moved_def same_binding_def)
  with assms inv_approvalsD(3) [OF inv] show ?thesis by (metis fun_upd_apply option.inject)
qed

lemma inv_approvals_settle:
  assumes inv: "inv_approvals runs aps ws cs" and a: "aps p = Some a" and m: "approval_moved a a'"
    and open_: "ap_status a' \<noteq> Consumed"
  shows "inv_approvals runs (aps(p \<mapsto> a')) ws cs"
proof (rule inv_approvalsI)
  note e = inv_approvalsD(2) [OF inv a]
  show "dom ws = dom (aps(p \<mapsto> a'))" using inv_approvalsD(1) [OF inv] a by auto
  show "approval_entry runs cs q b" if "(aps(p \<mapsto> a')) q = Some b" for q b
  proof (cases "q = p")
    case True
    with that approval_entry_moved [OF e m] open_ approval_moved_open [OF m] e show ?thesis
      by (auto simp: approval_entry_def)
  qed (use that inv_approvalsD(2) [OF inv] in auto)
  show "q = q'" if "(aps(p \<mapsto> a')) q = Some b" "(aps(p \<mapsto> a')) q' = Some c"
    "ap_action_id b = ap_action_id c" for q q' b c
    by (rule moved_unique [OF inv a m that])
  show "cl_action_id c = x" if "cs x = Some c" for x c
    by (rule inv_approvalsD(4) [OF inv that])
  show "\<exists>q b. (aps(p \<mapsto> a')) q = Some b \<and> claim_for c b" if c: "cs x = Some c" for x c
  proof -
    obtain q b where q: "aps q = Some b" "claim_for c b" using inv_approvalsD(5) [OF inv c] by blast
    then have "q \<noteq> p" using a approval_moved_open [OF m] by (auto simp: claim_for_def)
    with q show ?thesis by (intro exI [of _ q]) simp
  qed
qed

lemma inv_approvals_consume:
  assumes inv: "inv_approvals runs aps ws cs" and a: "aps p = Some a" and m: "approval_moved a a'"
    and c: "claim_for c a'" and fresh: "cs (ap_action_id a) = None"
  shows "inv_approvals runs (aps(p \<mapsto> a')) ws (cs(ap_action_id a \<mapsto> c))"
proof (rule inv_approvalsI)
  note e = inv_approvalsD(2) [OF inv a]
  have same: "ap_action_id a' = ap_action_id a" using m by (simp add: approval_moved_def same_binding_def)
  show "dom ws = dom (aps(p \<mapsto> a'))" using inv_approvalsD(1) [OF inv] a by auto
  show "approval_entry runs (cs(ap_action_id a \<mapsto> c)) q b" if "(aps(p \<mapsto> a')) q = Some b" for q b
  proof (cases "q = p")
    case True
    with that approval_entry_moved [OF e m] c show ?thesis by (auto simp: claim_for_def)
  next
    case False
    with that have q: "aps q = Some b" by simp
    then have "ap_action_id b \<noteq> ap_action_id a" using inv_approvalsD(3) [OF inv q a] False by blast
    with inv_approvalsD(2) [OF inv q] show ?thesis by (simp add: approval_entry_def)
  qed
  show "q = q'" if "(aps(p \<mapsto> a')) q = Some b" "(aps(p \<mapsto> a')) q' = Some d"
    "ap_action_id b = ap_action_id d" for q q' b d
    by (rule moved_unique [OF inv a m that])
  show "cl_action_id d = x" if "(cs(ap_action_id a \<mapsto> c)) x = Some d" for x d
    using that c same inv_approvalsD(4) [OF inv] by (auto simp: claim_for_def split: if_splits)
  show "\<exists>q b. (aps(p \<mapsto> a')) q = Some b \<and> claim_for d b"
    if d: "(cs(ap_action_id a \<mapsto> c)) x = Some d" for x d
  proof (cases "x = ap_action_id a")
    case False
    with d have x: "cs x = Some d" by simp
    obtain q b where q: "aps q = Some b" "claim_for d b" using inv_approvalsD(5) [OF inv x] by blast
    then have "q \<noteq> p" using a approval_moved_open [OF m] by (auto simp: claim_for_def)
    with q show ?thesis by (intro exI [of _ q]) simp
  qed (use d c in auto)
qed

lemma inv_artifacts_store:
  assumes "inv_artifacts runs arts" and "rid \<in> dom runs"
    and "old = (case arts rid of None \<Rightarrow> [] | Some l \<Rightarrow> l)" and "distinct (map ar_path batch)"
    and "ar_path ` set batch \<inter> ar_path ` set old = {}"
    and "\<forall>x \<in> set batch. ar_run_id x = rid \<and> \<not> blank (ar_media_type x)"
  shows "inv_artifacts runs (arts(rid \<mapsto> old @ batch))"
proof -
  have "distinct (map ar_path old) \<and> (\<forall>x \<in> set old. ar_run_id x = rid \<and> \<not> blank (ar_media_type x))"
    using assms(1,3) by (auto simp: inv_artifacts_def split: option.splits)
  with assms show ?thesis
    unfolding inv_artifacts_def by (auto simp: Int_commute)
qed

lemma moved_dom: "moved X L rid nxt r' au \<Longrightarrow> rid \<in> dom (lg_runs L)"
  by (auto simp: moved_def)

lemma grown_run:
  "inv_runs X (lg_runs L) (lg_audits L) \<Longrightarrow> grown X L rid new au \<Longrightarrow> rid \<in> dom (lg_runs L)"
  by (auto simp: grown_def inv_runs_def)

lemma ledger_invI:
  "inv_runs X (lg_runs L) (lg_audits L) \<Longrightarrow> inv_leases (lg_runs L) (lg_leases L) (lg_cancels L) \<Longrightarrow>
   inv_approvals (lg_runs L) (lg_approvals L) (lg_windows L) (lg_claims L) \<Longrightarrow>
   inv_artifacts (lg_runs L) (lg_artifacts L) \<Longrightarrow> ledger_inv X L"
  by (simp add: ledger_inv_def)

lemma inv_leases_cancel:
  assumes "inv_leases runs leases cancels" and "leases rid = Some l"
  shows "inv_leases runs (leases(rid \<mapsto> l\<lparr>ls_cancel_requested := True\<rparr>)) (cancels(rid \<mapsto> now))"
  using assms by (auto simp: inv_leases_def)

lemma inv_leases_moved:
  assumes "inv_leases (lg_runs L) (lg_leases L) (lg_cancels L)" and "moved X L rid nxt r' au"
    and "lg_leases L rid \<noteq> None \<Longrightarrow> \<not> is_terminal nxt"
  shows "inv_leases ((lg_runs L)(rid \<mapsto> r')) (lg_leases L) (lg_cancels L)"
proof -
  obtain r where "lg_runs L rid = Some r" "can_transition_to (r_status r) nxt" "r_status r' = nxt"
    "r_revision r < r_revision r'" using assms(2) by (rule moved_runs)
  with assms(1,3) show ?thesis
    by (intro inv_leases_run) (auto intro: active_transition)
qed

lemma moved_lease_entry:
  assumes "inv_runs X (lg_runs L) (lg_audits L)" and "moved X L rid nxt r' au"
  shows "r_id r' = rid" and "\<not> is_terminal nxt \<Longrightarrow> active (r_status r')"
proof -
  obtain r where r: "lg_runs L rid = Some r" "can_transition_to (r_status r) nxt" "r_status r' = nxt"
    "r_id r' = r_id r" using assms(2) by (rule moved_runs)
  moreover obtain es where "lg_audits L rid = Some es"
    using r(1) assms(1) unfolding inv_runs_def by (metis domD domI)
  ultimately show "r_id r' = rid" "\<not> is_terminal nxt \<Longrightarrow> active (r_status r')"
    using assms(1) active_transition [OF r(2)] by (auto simp: inv_runs_def)
qed

lemma ledger_step_inv:
  assumes "ledger_step X L M" and inv: "ledger_inv X L"
  shows "ledger_inv X M"
  using assms(1)
proof cases
  note i = inv [unfolded ledger_inv_def, THEN conjunct1]
    inv [unfolded ledger_inv_def, THEN conjunct2, THEN conjunct1]
    inv [unfolded ledger_inv_def, THEN conjunct2, THEN conjunct2, THEN conjunct1]
    inv [unfolded ledger_inv_def, THEN conjunct2, THEN conjunct2, THEN conjunct2]
  have wider: "inv_approvals ((lg_runs L)(k \<mapsto> v)) (lg_approvals L) (lg_windows L) (lg_claims L)"
    "inv_artifacts ((lg_runs L)(k \<mapsto> v)) (lg_artifacts L)" for k v
    using inv_approvals_runs [OF i(3), of "(lg_runs L)(k \<mapsto> v)"]
      inv_artifacts_runs [OF i(4), of "(lg_runs L)(k \<mapsto> v)"] by auto
  {
    case (create r e)
    have "dom (lg_audits L) = dom (lg_runs L)" using i(1) by (simp add: inv_runs_def)
    then have "inv_runs X ((lg_runs L)(r_id r \<mapsto> r)) ((lg_audits L)(r_id r \<mapsto> [e]))"
      using i(1) create new_run_ok [OF create(3)]
      by (auto simp: inv_runs_def validate_new_run_def split: if_splits)
    moreover have "lg_leases L (r_id r) = None"
      using i(2) create(2) unfolding inv_leases_def by (metis not_Some_eq option.distinct(1))
    then have "inv_leases ((lg_runs L)(r_id r \<mapsto> r)) (lg_leases L) (lg_cancels L)"
      using i(2) by (auto simp: inv_leases_def)
    ultimately show ?thesis using wider by (auto simp: create(1) intro!: ledger_invI)
  next
    case (append rid new au)
    with i inv_runs_grown [OF i(1)] show ?thesis by (auto intro!: ledger_invI)
  next
    case (advance_free rid nxt r' au)
    with inv_runs_moved [OF i(1)] inv_leases_moved [OF i(2) advance_free(2)] wider show ?thesis
      by (auto intro!: ledger_invI)
  next
    case (claim rid r' au l)
    note m = moved_lease_entry [OF i(1) claim(2)]
    have "lg_cancels L rid = None" using i(2) claim(3) by (auto simp: inv_leases_def)
    then have "inv_leases ((lg_runs L)(rid \<mapsto> r')) ((lg_leases L)(rid \<mapsto> l)) (lg_cancels L)"
      using inv_leases_moved [OF i(2) claim(2)] claim m by (intro inv_leases_put) (auto simp: is_terminal_def)
    with inv_runs_moved [OF i(1)] wider claim show ?thesis by (auto intro!: ledger_invI)
  next
    case (advance_held rid nxt r' au l l')
    note m = moved_lease_entry [OF i(1) advance_held(2)]
    have "inv_leases ((lg_runs L)(rid \<mapsto> r')) ((lg_leases L)(rid \<mapsto> l')) (lg_cancels L)"
      using inv_leases_moved [OF i(2) advance_held(2)] advance_held m by (intro inv_leases_put) auto
    with inv_runs_moved [OF i(1)] wider advance_held show ?thesis by (auto intro!: ledger_invI)
  next
    case (finish rid nxt r' au l)
    obtain r where "lg_runs L rid = Some r" "r_revision r < r_revision r'"
      using finish(2) by (rule moved_runs)
    with inv_leases_finish [OF i(2)] inv_runs_moved [OF i(1)] wider finish show ?thesis
      by (auto intro!: ledger_invI)
  next
    case (refresh rid l l')
    then have "inv_leases (lg_runs L) ((lg_leases L)(rid \<mapsto> l')) (lg_cancels L)"
      using i(2) by (auto simp: inv_leases_def)
    with i refresh show ?thesis by (auto intro!: ledger_invI)
  next
    case (intend_cancel rid new au l now)
    with i inv_runs_grown [OF i(1)] inv_leases_cancel [OF i(2)] show ?thesis
      by (auto intro!: ledger_invI)
  next
    case (propose a new au r)
    have "ap_run_id a \<in> dom (lg_runs L)" using propose(3) by blast
    note approvals = inv_approvals_propose [OF i(3) propose(5-10) this]
    from propose inv_runs_grown [OF i(1)] approvals i show ?thesis
      by (auto intro!: ledger_invI)
  next
    case (settle a new au p a')
    with inv_runs_grown [OF i(1)] inv_approvals_settle [OF i(3)] i show ?thesis
      by (auto intro!: ledger_invI)
  next
    case (consume a r' au r p a' c)
    have "claim_for c a'"
      using consume by (auto simp: claim_for_def approval_moved_def same_binding_def)
    then have "inv_approvals (lg_runs L) ((lg_approvals L)(p \<mapsto> a')) (lg_windows L)
        ((lg_claims L)(ap_action_id a \<mapsto> c))"
      using consume by (intro inv_approvals_consume [OF i(3)])
    then have "inv_approvals ((lg_runs L)(ap_run_id a \<mapsto> r')) ((lg_approvals L)(p \<mapsto> a')) (lg_windows L)
        ((lg_claims L)(ap_action_id a \<mapsto> c))"
      by (rule inv_approvals_runs) auto
    moreover have "inv_leases ((lg_runs L)(ap_run_id a \<mapsto> r')) (lg_leases L) (lg_cancels L)"
      using inv_leases_moved [OF i(2) consume(2)] by (simp add: is_terminal_def)
    ultimately show ?thesis
      using inv_runs_moved [OF i(1) consume(2)] wider(2) by (auto simp: consume(1) intro!: ledger_invI)
  next
    case (store_artifacts rid new au old batch)
    note d = grown_run [OF i(1) store_artifacts(2)]
    have "inv_artifacts (lg_runs L) ((lg_artifacts L)(rid \<mapsto> old @ batch))"
      by (rule inv_artifacts_store [OF i(4) d store_artifacts(3-6)])
    with inv_runs_grown [OF i(1) store_artifacts(2)] i show ?thesis
      by (auto simp: store_artifacts(1) intro!: ledger_invI)
  }
qed

lemma empty_ledger_inv: "ledger_inv X empty_ledger"
  by (auto simp: ledger_inv_def empty_ledger_def inv_runs_def inv_leases_def inv_approvals_def
      inv_artifacts_def)

section \<open>Histories\<close>

definition run_evolves :: "run \<Rightarrow> run \<Rightarrow> bool" where
  "run_evolves r r' =
     (r_id r' = r_id r \<and> r_runtime r' = r_runtime r \<and> r_workspace r' = r_workspace r
      \<and> r_actor_id r' = r_actor_id r \<and> r_prompt_sha256 r' = r_prompt_sha256 r
      \<and> r_created_at r' = r_created_at r \<and> r_updated_at r \<le> r_updated_at r'
      \<and> (\<exists>n. (can_transition_to ^^ n) (r_status r) (r_status r')
             \<and> unat (r_revision r') = unat (r_revision r) + n \<and> (n = 0 \<longrightarrow> r' = r)))"

definition approval_evolves :: "approval_request \<Rightarrow> approval_request \<Rightarrow> bool" where
  "approval_evolves a a' =
     (same_binding a a' \<and>
      (\<exists>n. (approval_can_transition_to ^^ n) (ap_status a) (ap_status a')
           \<and> unat (ap_revision a') = unat (ap_revision a) + n \<and> (n = 0 \<longrightarrow> a' = a)))"

definition pointwise :: "('v \<Rightarrow> 'v \<Rightarrow> bool) \<Rightarrow> ('k \<rightharpoonup> 'v) \<Rightarrow> ('k \<rightharpoonup> 'v) \<Rightarrow> bool" where
  \<comment> \<open>no key is lost and every value is related to the one that replaces it\<close>
  "pointwise R f g = (\<forall>k v. f k = Some v \<longrightarrow> (\<exists>w. g k = Some w \<and> R v w))"

definition evolves :: "ledger \<Rightarrow> ledger \<Rightarrow> bool" where
  "evolves L M =
     (pointwise run_evolves (lg_runs L) (lg_runs M)
      \<and> pointwise prefix (lg_audits L) (lg_audits M)
      \<and> pointwise prefix (lg_artifacts L) (lg_artifacts M)
      \<and> pointwise approval_evolves (lg_approvals L) (lg_approvals M)
      \<and> pointwise (=) (lg_windows L) (lg_windows M)
      \<and> pointwise (=) (lg_claims L) (lg_claims M))"

lemma pointwise_refl [simp]: "(\<And>v. R v v) \<Longrightarrow> pointwise R f f"
  by (simp add: pointwise_def)

lemma pointwise_trans:
  "pointwise R f g \<Longrightarrow> pointwise R g h \<Longrightarrow> (\<And>u v w. R u v \<Longrightarrow> R v w \<Longrightarrow> R u w) \<Longrightarrow> pointwise R f h"
  unfolding pointwise_def by metis

lemma pointwise_upd:
  "(\<And>v. R v v) \<Longrightarrow> (\<And>v. f k = Some v \<Longrightarrow> R v w) \<Longrightarrow> pointwise R f (f(k \<mapsto> w))"
  by (simp add: pointwise_def)

lemma run_evolves_refl [simp]: "run_evolves r r"
  unfolding run_evolves_def by (intro conjI exI [of _ 0]) simp_all

lemma run_evolves_trans: "run_evolves a b \<Longrightarrow> run_evolves b c \<Longrightarrow> run_evolves a c"
proof -
  assume a: "run_evolves a b" and b: "run_evolves b c"
  from a obtain n where n: "(can_transition_to ^^ n) (r_status a) (r_status b)"
    "unat (r_revision b) = unat (r_revision a) + n" "n = 0 \<longrightarrow> b = a" unfolding run_evolves_def by blast
  from b obtain m where m: "(can_transition_to ^^ m) (r_status b) (r_status c)"
    "unat (r_revision c) = unat (r_revision b) + m" "m = 0 \<longrightarrow> c = b" unfolding run_evolves_def by blast
  have "(can_transition_to ^^ (n + m)) (r_status a) (r_status c)" using n(1) m(1) by (rule relpowp_trans)
  then show ?thesis
    using a b n m unfolding run_evolves_def by (intro conjI exI [of _ "n + m"]) simp_all
qed

lemma approval_evolves_refl [simp]: "approval_evolves a a"
  unfolding approval_evolves_def by (intro conjI exI [of _ 0]) (simp_all add: same_binding_def)

lemma approval_evolves_trans: "approval_evolves a b \<Longrightarrow> approval_evolves b c \<Longrightarrow> approval_evolves a c"
proof -
  assume a: "approval_evolves a b" and b: "approval_evolves b c"
  from a obtain n where n: "(approval_can_transition_to ^^ n) (ap_status a) (ap_status b)"
    "unat (ap_revision b) = unat (ap_revision a) + n" "n = 0 \<longrightarrow> b = a" unfolding approval_evolves_def by blast
  from b obtain m where m: "(approval_can_transition_to ^^ m) (ap_status b) (ap_status c)"
    "unat (ap_revision c) = unat (ap_revision b) + m" "m = 0 \<longrightarrow> c = b" unfolding approval_evolves_def by blast
  have "(approval_can_transition_to ^^ (n + m)) (ap_status a) (ap_status c)"
    using n(1) m(1) by (rule relpowp_trans)
  then show ?thesis
    using a b n m unfolding approval_evolves_def
    by (intro conjI exI [of _ "n + m"]) (simp_all add: same_binding_def)
qed

lemma evolves_refl [simp]: "evolves L L"
  by (simp add: evolves_def)

lemma evolves_trans: "evolves L M \<Longrightarrow> evolves M N \<Longrightarrow> evolves L N"
  unfolding evolves_def
  by (intro conjI; elim conjE; erule (1) pointwise_trans)
    (auto intro: run_evolves_trans approval_evolves_trans prefix_order.trans)

lemma moved_evolves:
  assumes "moved X L rid nxt r' au"
  shows "pointwise run_evolves (lg_runs L) ((lg_runs L)(rid \<mapsto> r'))"
    and "pointwise prefix (lg_audits L) au"
proof -
  obtain r new rv why where r: "lg_runs L rid = Some r" "can_transition_to (r_status r) nxt"
    "checked_add (r_revision r) 1 = Some rv" "r_updated_at r \<le> ev_timestamp (last new)"
    "r' = advanced r nxt rv why (ev_timestamp (last new))" "grown X L rid new au"
    using assms by (auto simp: moved_def)
  have "run_evolves r r'"
    using r(2-4) unat_checked_add [OF r(3)]
    unfolding run_evolves_def by (intro conjI exI [of _ 1]) (auto simp: r(5))
  then show "pointwise run_evolves (lg_runs L) ((lg_runs L)(rid \<mapsto> r'))"
    using r(1) by (intro pointwise_upd) auto
  show "pointwise prefix (lg_audits L) au"
    using r(6) by (auto simp: grown_def intro!: pointwise_upd)
qed

lemma grown_evolves: "grown X L rid new au \<Longrightarrow> pointwise prefix (lg_audits L) au"
  by (auto simp: grown_def intro!: pointwise_upd)

lemma approval_moved_evolves:
  assumes "approval_moved a a'" and "lg_approvals L p = Some a"
  shows "pointwise approval_evolves (lg_approvals L) ((lg_approvals L)(p \<mapsto> a'))"
proof -
  have "approval_evolves a a'"
    using assms(1) unat_checked_add [of "ap_revision a" 1 "ap_revision a'"]
    unfolding approval_evolves_def approval_moved_def by (intro conjI exI [of _ 1]) auto
  with assms(2) show ?thesis by (intro pointwise_upd) auto
qed

lemma fresh_evolves: "f k = None \<Longrightarrow> (\<And>v. R v v) \<Longrightarrow> pointwise R f (f(k \<mapsto> w))"
  by (intro pointwise_upd) auto

lemma ledger_step_evolves:
  assumes "ledger_step X L M" and inv: "ledger_inv X L"
  shows "evolves L M"
  using assms(1)
proof cases
  case (create r e)
  have "lg_audits L (r_id r) = None"
    using inv create(2) unfolding ledger_inv_def inv_runs_def by (metis domIff)
  with create show ?thesis by (auto simp: evolves_def intro!: fresh_evolves)
next
  case (propose a new au r)
  have "lg_windows L (ap_id a) = None"
    using inv propose(5) unfolding ledger_inv_def inv_approvals_def by (metis domIff)
  with propose grown_evolves show ?thesis by (auto simp: evolves_def intro!: fresh_evolves)
next
  case (consume a r' au r p a' c)
  with moved_evolves [OF consume(2)] approval_moved_evolves [OF consume(7,6)] show ?thesis
    by (auto simp: evolves_def intro!: fresh_evolves)
next
  case (store_artifacts rid new au old batch)
  then have "pointwise prefix (lg_artifacts L) ((lg_artifacts L)(rid \<mapsto> old @ batch))"
    by (intro pointwise_upd) (auto split: option.splits)
  with store_artifacts grown_evolves show ?thesis by (auto simp: evolves_def)
qed (auto simp: evolves_def moved_evolves intro: grown_evolves moved_evolves approval_moved_evolves)

interpretation ledger_history: history "ledger_step X" "ledger_inv X" evolves for X
  by unfold_locales (auto intro: ledger_step_inv ledger_step_evolves evolves_trans)

end
