(* ===== verification/Store_Refine.thy ===== *)
theory Store_Refine
  imports Ledger
begin

text \<open>
  The store refines the ledger: every operation of the three traits, whatever it returns,
  takes zero or more ledger steps, and it leaves a ledger without a change when it fails,
  with two exceptions that the code makes on purpose (an approval consumed for another
  action is audited before the error) or by its loop (the recovery of leases stops at the
  first error). The maps of the store stay in key order.
\<close>

section \<open>Abstraction\<close>

definition abs_ledger :: "state \<Rightarrow> ledger" where
  "abs_ledger s =
     \<lparr>lg_runs = bm_get (st_runs s), lg_audits = bm_get (st_audits s),
      lg_artifacts = bm_get (st_artifacts s), lg_approvals = bm_get (st_approvals s),
      lg_windows = bm_get (st_approval_windows s), lg_claims = bm_get (st_action_claims s),
      lg_leases = bm_get (st_leases s), lg_cancels = bm_get (st_cancel_requested s)\<rparr>"

lemma abs_ledger_sel [simp]:
  "lg_runs (abs_ledger s) = bm_get (st_runs s)"
  "lg_audits (abs_ledger s) = bm_get (st_audits s)"
  "lg_artifacts (abs_ledger s) = bm_get (st_artifacts s)"
  "lg_approvals (abs_ledger s) = bm_get (st_approvals s)"
  "lg_windows (abs_ledger s) = bm_get (st_approval_windows s)"
  "lg_claims (abs_ledger s) = bm_get (st_action_claims s)"
  "lg_leases (abs_ledger s) = bm_get (st_leases s)"
  "lg_cancels (abs_ledger s) = bm_get (st_cancel_requested s)"
  by (simp_all add: abs_ledger_def)

lemma abs_ledger_upd [simp]:
  "abs_ledger (s\<lparr>st_runs := a\<rparr>) = (abs_ledger s)\<lparr>lg_runs := bm_get a\<rparr>"
  "abs_ledger (s\<lparr>st_audits := b\<rparr>) = (abs_ledger s)\<lparr>lg_audits := bm_get b\<rparr>"
  "abs_ledger (s\<lparr>st_artifacts := c\<rparr>) = (abs_ledger s)\<lparr>lg_artifacts := bm_get c\<rparr>"
  "abs_ledger (s\<lparr>st_approvals := d\<rparr>) = (abs_ledger s)\<lparr>lg_approvals := bm_get d\<rparr>"
  "abs_ledger (s\<lparr>st_approval_windows := e\<rparr>) = (abs_ledger s)\<lparr>lg_windows := bm_get e\<rparr>"
  "abs_ledger (s\<lparr>st_action_claims := f\<rparr>) = (abs_ledger s)\<lparr>lg_claims := bm_get f\<rparr>"
  "abs_ledger (s\<lparr>st_leases := g\<rparr>) = (abs_ledger s)\<lparr>lg_leases := bm_get g\<rparr>"
  "abs_ledger (s\<lparr>st_cancel_requested := h\<rparr>) = (abs_ledger s)\<lparr>lg_cancels := bm_get h\<rparr>"
  by (simp_all add: abs_ledger_def)

abbreviation store_inv :: "ext \<Rightarrow> state \<Rightarrow> bool" where
  "store_inv X s \<equiv> ledger_inv X (abs_ledger s)"

abbreviation sim :: "ext \<Rightarrow> state \<Rightarrow> state \<Rightarrow> bool" where
  "sim X s t \<equiv> (ledger_step X)\<^sup>*\<^sup>* (abs_ledger s) (abs_ledger t)"

lemma sim_one: "ledger_step X (abs_ledger s) M \<Longrightarrow> abs_ledger t = M \<Longrightarrow> sim X s t"
  by (simp add: r_into_rtranclp)

lemma store_invD:
  assumes "store_inv X s"
  shows "bm_get (st_runs s) rid = Some r \<Longrightarrow> r_id r = rid"
    and "bm_get (st_audits s) rid = Some es \<Longrightarrow> good_chain X rid es"
    and "bm_get (st_audits s) rid = Some es \<Longrightarrow> \<exists>r. bm_get (st_runs s) rid = Some r"
    and "bm_get (st_runs s) rid = Some r \<Longrightarrow> \<exists>es. bm_get (st_audits s) rid = Some es \<and> es \<noteq> []"
proof -
  have i: "inv_runs X (bm_get (st_runs s)) (bm_get (st_audits s))"
    using assms by (simp add: ledger_inv_def)
  then have d: "dom (bm_get (st_audits s)) = dom (bm_get (st_runs s))" by (simp add: inv_runs_def)
  show ex: "\<exists>r. bm_get (st_runs s) rid = Some r" if "bm_get (st_audits s) rid = Some es" for es
    using d that by (metis domD domI)
  show ey: "\<exists>es. bm_get (st_audits s) rid = Some es \<and> es \<noteq> []" if "bm_get (st_runs s) rid = Some r" for r
    using d that i unfolding inv_runs_def by (metis domD domI)
  show "bm_get (st_runs s) rid = Some r \<Longrightarrow> r_id r = rid"
    using ey i unfolding inv_runs_def by blast
  show "bm_get (st_audits s) rid = Some es \<Longrightarrow> good_chain X rid es"
    using ex i unfolding inv_runs_def by blast
qed

section \<open>Chains grow by one verified event\<close>

lemma next_sequence_unat: "next_sequence es = Inr sq \<Longrightarrow> unat sq = Suc (length es)"
  by (auto simp: next_sequence_def res_simps dest!: unat_checked_add unat_u64_of_len)

lemma sorted_le_last: "sorted xs \<Longrightarrow> x \<in> set xs \<Longrightarrow> x \<le> last xs"
  by (cases xs rule: rev_cases) (auto simp: sorted_append)

lemma good_chain_snoc:
  assumes "good_chain X rid es" and "unat sq = Suc (length es)" and "\<not> audit_backwards es ts"
    and "new_audit_event X eid rid sq ty actor ts md (last_hash es) = Inr e"
  shows "good_chain X rid (es @ [e])" and "ev_timestamp e = ts"
proof -
  note e = new_audit_event_verifies [OF assms(4)]
  then show "ev_timestamp e = ts" by simp
  have "verify_chain X (es @ [e])"
    using assms e by (auto simp: good_chain_def verify_chain_snoc)
  moreover have "x \<le> ts" if "x \<in> ev_timestamp ` set es" for x
  proof -
    from that have es: "es \<noteq> []" by auto
    have "sorted (map ev_timestamp es)" using assms(1) by (simp add: good_chain_def)
    then have "x \<le> last (map ev_timestamp es)"
      using that by (intro sorted_le_last) auto
    then show ?thesis using assms(3) es by (auto simp: audit_backwards_def last_map)
  qed
  ultimately show "good_chain X rid (es @ [e])"
    using assms(1) e by (auto simp: good_chain_def sorted_append)
qed

lemmas good_chain_build = good_chain_snoc [OF _ next_sequence_unat]

lemma push_events_iff [res_simps]:
  "(push_events rid new s = (r, t)) =
     (case bm_get (st_audits s) rid of
        None \<Rightarrow> r = Inl audit_missing \<and> t = s
      | Some es \<Rightarrow> r = Inr () \<and> t = s\<lparr>st_audits := bm_insert rid (es @ new) (st_audits s)\<rparr>)"
  by (auto simp: push_events_def op_defs split: option.splits)

lemma put_run_iff [res_simps]:
  "(put_run rid x s = (r, t)) = (r = Inr () \<and> t = s\<lparr>st_runs := bm_insert rid x (st_runs s)\<rparr>)"
  by (auto simp: put_run_def res_simps)

lemma put_lease_iff [res_simps]:
  "(put_lease rid x s = (r, t)) = (r = Inr () \<and> t = s\<lparr>st_leases := bm_insert rid x (st_leases s)\<rparr>)"
  by (auto simp: put_lease_def res_simps)

lemma drop_lease_iff [res_simps]:
  "(drop_lease rid s = (r, t)) =
     (r = Inr () \<and> t = s\<lparr>st_leases := bm_remove rid (st_leases s),
                           st_cancel_requested := bm_remove rid (st_cancel_requested s)\<rparr>)"
  by (auto simp: drop_lease_def op_defs)

lemma put_approval_iff [res_simps]:
  "(put_approval a s = (r, t)) =
     (r = Inr () \<and> t = s\<lparr>st_approvals := bm_insert (ap_id a) a (st_approvals s)\<rparr>)"
  by (auto simp: put_approval_def res_simps)

lemma extend_artifacts_iff [res_simps]:
  "(extend_artifacts rid b s = (r, t)) =
     (r = Inr () \<and> t = s\<lparr>st_artifacts := bm_insert rid (artifacts_of s rid @ b) (st_artifacts s)\<rparr>)"
  by (auto simp: extend_artifacts_def res_simps)

lemma reject_unbound_iff [res_simps]:
  "(reject_unbound_leased_write rid s = (r, t)) =
     (t = s \<and> ensure (bm_get (st_leases s) rid = None)
        (state_error ''leased runs must use a lease-capability-bound worker write'') = r)"
  by (auto simp: reject_unbound_leased_write_def res_simps)

lemma audit_time_iff [res_simps]:
  "(ensure_memory_audit_time rid ts upd s = (Inr u, t)) =
     (t = s \<and> upd \<le> ts \<and> (\<forall>es. bm_get (st_audits s) rid = Some es \<longrightarrow> \<not> audit_backwards es ts))"
  by (auto simp: ensure_memory_audit_time_def res_simps split: option.splits)

lemma audit_time_reading [atomic_intros]: "reading (ensure_memory_audit_time rid ts upd)"
  by (simp add: ensure_memory_audit_time_def atomic_intros)

lemma reject_reading [atomic_intros]: "reading (reject_unbound_leased_write rid)"
  by (simp add: reject_unbound_leased_write_def atomic_intros)

lemma validate_lease_reading [atomic_intros]: "reading (validate_memory_lease l r now)"
  unfolding validate_memory_lease_def by (intro atomic_intros)

lemma artifact_batch_reading [atomic_intros]: "reading (validate_artifact_batch rid b)"
  unfolding validate_artifact_batch_def by (intro atomic_intros)

lemma window_run_reading [atomic_intros]: "reading (approval_window_run a)"
  unfolding approval_window_run_def by (intro atomic_intros)

lemma approval_event_reading [atomic_intros]: "reading (approval_event X eid a ty actor ts)"
  unfolding approval_event_def by (intro atomic_intros)

lemma execution_claim_reading [atomic_intros]: "reading (verify_execution_claim rc)"
  unfolding verify_execution_claim_def by (intro atomic_intros)

lemma push_events_atomic [atomic_intros]: "atomic (push_events rid new)"
  unfolding push_events_def by (intro atomic_intros)

lemma append_memory_audit_atomic [atomic_intros]: "atomic (append_memory_audit X eid rid actor ts ty)"
  unfolding append_memory_audit_def by (intro atomic_intros)

lemma put_total [atomic_intros]:
  "total_op (put_run rid r)" "total_op (put_lease rid l)" "total_op (drop_lease rid)"
  "total_op (put_approval a)" "total_op (extend_artifacts rid b)"
  unfolding put_run_def put_lease_def drop_lease_def put_approval_def extend_artifacts_def
  by (intro atomic_intros)+

lemma readingD: "reading m \<Longrightarrow> m s = (r, t) \<Longrightarrow> t = s"
  by (metis reading_def snd_conv)

lemma atomicD: "atomic m \<Longrightarrow> m s = (Inl e, t) \<Longrightarrow> t = s"
  by (auto simp: atomic_def)

lemma apply_transition_atomic [atomic_intros]:
  "atomic (apply_memory_transition_with_reason X eid r nxt why ts actor ty)"
  "atomic (apply_memory_transition X eid r nxt ts actor ty)"
  unfolding apply_memory_transition_def apply_memory_transition_with_reason_def Let_def
  by (intro atomic_bnd_reading atomic_bnd_total append_memory_audit_atomic atomic_intros)+

lemmas step_dests =
  readingD [OF validate_lease_reading] readingD [OF artifact_batch_reading]
  readingD [OF audit_time_reading] readingD [OF window_run_reading]
  readingD [OF approval_event_reading] atomicD [OF apply_transition_atomic(1)]
  atomicD [OF apply_transition_atomic(2)] atomicD [OF append_memory_audit_atomic]

section \<open>Trait ExecutionStore\<close>

lemma create_run_sim:
  assumes "create_run X eid r audit s = (res, t)" and "store_inv X s"
  shows "sim X s t"
proof (cases res)
  case (Inl e)
  with assms(1) show ?thesis by (auto simp: create_run_def res_simps)
next
  case (Inr r')
  with assms(1) obtain e where v: "validate_new_run r = Inr ()" "aa_timestamp audit = r_created_at r"
    "bm_get (st_runs s) (r_id r) = None" and e: "build_event X eid audit (r_id r) 1 EvRunCreated None = Inr e"
    and t: "t = s\<lparr>st_audits := bm_insert (r_id r) [e] (st_audits s),
                  st_runs := bm_insert (r_id r) r (st_runs s)\<rparr>"
    by (auto simp: create_run_def res_simps)
  have nil: "good_chain X (r_id r) []" "unat (1 :: u64) = Suc (length ([] :: audit_event list))"
    "\<not> audit_backwards [] (aa_timestamp audit)" "last_hash [] = None"
    by (simp_all add: good_chain_def verify_chain_def audit_backwards_def last_hash_def)
  note c = good_chain_snoc [OF nil(1-3) e [unfolded build_event_def, folded nil(4)]]
  from c v t show ?thesis
    by (intro sim_one [OF ledger_step.create [of _ r _ e]]) simp_all
qed

lemma abs_runs_audits:
  "abs_ledger (s\<lparr>st_runs := a, st_audits := b\<rparr>) = (abs_ledger s)\<lparr>lg_runs := bm_get a, lg_audits := bm_get b\<rparr>"
  by simp

lemma transition_run_ok:
  assumes "transition_run X eid rid rv nxt why audit s = (Inr r', t)" and inv: "store_inv X s"
  shows "\<exists>au. moved X (abs_ledger s) rid nxt r' au \<and> bm_get (st_leases s) rid = None
    \<and> abs_ledger t = (abs_ledger s)\<lparr>lg_runs := (bm_get (st_runs s))(rid \<mapsto> r'), lg_audits := au\<rparr>
    \<and> (\<exists>r. bm_get (st_runs s) rid = Some r \<and> r_revision r = rv)"
proof -
  from assms(1) obtain r es sq e n where r: "bm_get (st_leases s) rid = None"
    "bm_get (st_runs s) rid = Some r" "r_revision r = rv" "can_transition_to (r_status r) nxt"
    "\<not> aa_timestamp audit < r_updated_at r"
    and es: "bm_get (st_audits s) rid = Some es" "\<not> audit_backwards es (aa_timestamp audit)"
      "next_sequence es = Inr sq"
    and e: "build_event X eid (with_run_status audit nxt) rid sq (transition_event nxt) (last_hash es) = Inr e"
    and n: "checked_add (r_revision r) 1 = Some n" and r': "r' = advanced r nxt n why (aa_timestamp audit)"
    and t: "t = s\<lparr>st_runs := bm_insert rid r' (st_runs s),
                  st_audits := bm_insert rid (es @ [e]) (st_audits s)\<rparr>"
    by (auto simp: transition_run_def Let_def res_simps split: option.splits)
  have c: "good_chain X rid (es @ [e])" "ev_timestamp e = aa_timestamp audit"
    using good_chain_build [OF store_invD(2) [OF inv es(1)] es(3) es(2)] e
    by (auto simp: build_event_def with_run_status_def)
  have "moved X (abs_ledger s) rid nxt r' ((bm_get (st_audits s))(rid \<mapsto> es @ [e]))"
    unfolding moved_def grown_def
    using r es c n r' by (intro exI [of _ r] exI [of _ "[e]"] exI [of _ n] exI [of _ why]) auto
  with r t show ?thesis by auto
qed

lemma transition_run_atomic: "transition_run X eid rid rv nxt why audit s = (Inl e, t) \<Longrightarrow> t = s"
  by (auto simp: transition_run_def Let_def res_simps split: option.splits)

lemma transition_run_sim:
  assumes "transition_run X eid rid rv nxt why audit s = (res, t)" and "store_inv X s"
  shows "sim X s t"
proof (cases res)
  case (Inl e)
  with assms(1) transition_run_atomic show ?thesis by blast
next
  case (Inr r')
  with transition_run_ok assms obtain au where m: "moved X (abs_ledger s) rid nxt r' au"
    "bm_get (st_leases s) rid = None"
    "abs_ledger t = (abs_ledger s)\<lparr>lg_runs := (bm_get (st_runs s))(rid \<mapsto> r'), lg_audits := au\<rparr>"
    by blast
  then show ?thesis by (intro sim_one [OF ledger_step.advance_free [OF m(1)]]) simp_all
qed

lemma grown_one:
  assumes "store_inv X s" and "bm_get (st_audits s) rid = Some es" and "next_sequence es = Inr sq"
    and "\<not> audit_backwards es ts"
    and "new_audit_event X eid rid sq ty actor ts md (last_hash es) = Inr e"
  shows "grown X (abs_ledger s) rid [e] ((bm_get (st_audits s))(rid \<mapsto> es @ [e]))"
    and "ev_timestamp e = ts"
  using good_chain_build [OF store_invD(2) [OF assms(1,2)] assms(3-5)] assms(2)
  by (auto simp: grown_def)

lemma append_audit_atomic: "append_audit X eid rid ty audit s = (Inl e, t) \<Longrightarrow> t = s"
  by (auto simp: append_audit_def res_simps split: option.splits)

lemma append_audit_sim:
  assumes "append_audit X eid rid ty audit s = (res, t)" and inv: "store_inv X s"
  shows "sim X s t"
proof (cases res)
  case (Inl e)
  with assms(1) append_audit_atomic show ?thesis by blast
next
  case (Inr e)
  with assms(1) obtain es sq where es: "bm_get (st_audits s) rid = Some es" "next_sequence es = Inr sq"
    "\<not> audit_backwards es (aa_timestamp audit)"
    "build_event X eid audit rid sq ty (last_hash es) = Inr e"
    and t: "t = s\<lparr>st_audits := bm_insert rid (es @ [e]) (st_audits s)\<rparr>"
    by (auto simp: append_audit_def res_simps split: option.splits)
  from grown_one(1) [OF inv es(1-3) es(4) [unfolded build_event_def]] t show ?thesis
    by (intro sim_one [OF ledger_step.append]) auto
qed

lemma reconcile_atomic: "reconcile_action_execution X eid rc audit s = (Inl e, t) \<Longrightarrow> t = s"
  by (auto simp: reconcile_action_execution_def verify_execution_claim_def res_simps split: option.splits if_splits)

lemma reconcile_ok:
  assumes "reconcile_action_execution X eid rc audit s = (Inr b, t)"
  obtains es where "bm_get (st_audits s) (rc_run_id rc) = Some es"
      "execution_receipt_was_audited X es rc = Inr (\<not> b)" "\<not> b \<Longrightarrow> t = s"
      "b \<Longrightarrow> \<exists>sq e. next_sequence es = Inr sq \<and> \<not> audit_backwards es (aa_timestamp audit)
         \<and> build_event X eid (with_action_execution audit (rc_action_id rc) (rc_parameter_hash rc))
             (rc_run_id rc) sq EvActionExecuted (last_hash es) = Inr e
         \<and> t = s\<lparr>st_audits := bm_insert (rc_run_id rc) (es @ [e]) (st_audits s)\<rparr>"
  using assms
  by (auto simp: reconcile_action_execution_def verify_execution_claim_def res_simps
      split: option.splits if_splits)

lemma reconcile_sim:
  assumes "reconcile_action_execution X eid rc audit s = (res, t)" and inv: "store_inv X s"
  shows "sim X s t"
proof (cases res)
  case (Inl e)
  with assms(1) reconcile_atomic show ?thesis by blast
next
  case (Inr b)
  with assms(1) obtain es where es: "bm_get (st_audits s) (rc_run_id rc) = Some es" "\<not> b \<Longrightarrow> t = s"
    "b \<Longrightarrow> \<exists>sq e. next_sequence es = Inr sq \<and> \<not> audit_backwards es (aa_timestamp audit)
       \<and> build_event X eid (with_action_execution audit (rc_action_id rc) (rc_parameter_hash rc))
           (rc_run_id rc) sq EvActionExecuted (last_hash es) = Inr e
       \<and> t = s\<lparr>st_audits := bm_insert (rc_run_id rc) (es @ [e]) (st_audits s)\<rparr>"
    by (auto elim: reconcile_ok)
  show ?thesis
  proof (cases b)
    case True
    with es(3) obtain sq e where e: "next_sequence es = Inr sq" "\<not> audit_backwards es (aa_timestamp audit)"
      "build_event X eid (with_action_execution audit (rc_action_id rc) (rc_parameter_hash rc))
         (rc_run_id rc) sq EvActionExecuted (last_hash es) = Inr e"
      and t: "t = s\<lparr>st_audits := bm_insert (rc_run_id rc) (es @ [e]) (st_audits s)\<rparr>" by blast
    have "grown X (abs_ledger s) (rc_run_id rc) [e] ((bm_get (st_audits s))(rc_run_id rc \<mapsto> es @ [e]))"
      using grown_one(1) [OF inv es(1) e(1), of "aa_timestamp audit"] e
      by (simp add: build_event_def with_action_execution_def)
    with t show ?thesis by (intro sim_one [OF ledger_step.append]) auto
  qed (use es in simp)
qed

lemma artifact_events_grow:
  assumes "artifact_events X ids audit rid n sq (last_hash es) batch = Inr new"
    and "good_chain X rid es" and "unat sq = Suc (length es)" and "\<not> audit_backwards es (aa_timestamp audit)"
  shows "good_chain X rid (es @ new)"
  using assms
proof (induction batch arbitrary: n sq es new)
  case (Cons a batch)
  then obtain e sq' more where e: "build_event X (ids n) (with_artifact audit a) rid sq EvArtifactCreated (last_hash es) = Inr e"
    and sq': "checked_add sq 1 = Some sq'"
    and more: "artifact_events X ids audit rid (Suc n) sq' (Some (ev_event_hash e)) batch = Inr more"
    and new: "new = e # more" by (auto simp: res_simps)
  have c: "good_chain X rid (es @ [e])" "ev_timestamp e = aa_timestamp audit"
    using good_chain_snoc [OF Cons.prems(2,3), of "aa_timestamp audit"] Cons.prems(4) e
    by (simp_all add: build_event_def with_artifact_def)
  have "good_chain X rid ((es @ [e]) @ more)"
    using Cons.IH [of "Suc n" sq' "es @ [e]" more] more c unat_checked_add [OF sq'] Cons.prems(3)
    by (simp add: last_hash_def audit_backwards_def)
  then show ?case by (simp add: new)
qed simp

lemma duplicate_path_iff:
  "\<not> duplicate_path old batch \<longleftrightarrow>
     distinct (map ar_path batch) \<and> ar_path ` set batch \<inter> ar_path ` set old = {}"
proof -
  have "(\<forall>a \<in> set batch. length (filter (\<lambda>b. ar_path b = ar_path a) batch) \<le> 1) \<longleftrightarrow> distinct (map ar_path batch)"
  proof (induction batch)
    case (Cons a batch)
    have "filter (\<lambda>b. ar_path b = ar_path a) batch = [] \<longleftrightarrow> ar_path a \<notin> ar_path ` set batch"
      by (induction batch) auto
    moreover have "length (filter (\<lambda>b. ar_path b = ar_path x) batch) \<noteq> 0" if "x \<in> set batch" for x
      using that by (auto simp: filter_empty_conv)
    ultimately show ?case using Cons by (auto simp: le_Suc_eq)
  qed simp
  then show ?thesis by (auto simp: duplicate_path_def list_ex_iff not_less) metis
qed

lemma artifact_batch_ok:
  "validate_artifact_batch rid batch s = (Inr u, t) \<Longrightarrow>
     t = s \<and> distinct (map ar_path batch) \<and> ar_path ` set batch \<inter> ar_path ` set (artifacts_of s rid) = {}
     \<and> (\<forall>x \<in> set batch. ar_run_id x = rid \<and> \<not> blank (ar_media_type x))"
  by (auto simp: validate_artifact_batch_def res_simps list_ex_iff duplicate_path_iff)

lemma store_artifacts_sim:
  assumes inv: "store_inv X s" and b: "validate_artifact_batch rid batch s = (Inr (), s)"
    and es: "bm_get (st_audits s) rid = Some es" "next_sequence es = Inr sq"
      "\<not> audit_backwards es (aa_timestamp audit)"
    and new: "artifact_events X ids audit rid n sq (last_hash es) batch = Inr new"
    and t: "t = s\<lparr>st_artifacts := bm_insert rid (artifacts_of s rid @ batch) (st_artifacts s),
                  st_audits := bm_insert rid (es @ new) (st_audits s)\<rparr>"
  shows "sim X s t"
proof -
  have "good_chain X rid (es @ new)"
    by (rule artifact_events_grow [OF new store_invD(2) [OF inv es(1)] next_sequence_unat [OF es(2)] es(3)])
  then have g: "grown X (abs_ledger s) rid new ((bm_get (st_audits s))(rid \<mapsto> es @ new))"
    using es(1) by (auto simp: grown_def)
  have o: "artifacts_of s rid = (case lg_artifacts (abs_ledger s) rid of None \<Rightarrow> [] | Some l \<Rightarrow> l)"
    by (simp add: artifacts_of_def)
  from artifact_batch_ok [OF b] show ?thesis
    by (intro sim_one [OF ledger_step.store_artifacts [OF g o, of batch]]) (auto simp: t)
qed

lemma record_artifacts_atomic: "record_artifacts X ids rid batch audit s = (Inl e, t) \<Longrightarrow> t = s"
  by (auto simp: record_artifacts_def validate_artifact_batch_def res_simps split: option.splits)

lemma record_artifacts_sim:
  assumes "record_artifacts X ids rid batch audit s = (res, t)" and inv: "store_inv X s"
  shows "sim X s t"
proof (cases res)
  case (Inl e)
  with assms(1) record_artifacts_atomic show ?thesis by blast
next
  case (Inr u)
  with assms(1) obtain v es sq new where b: "validate_artifact_batch rid batch s = (Inr (), v)"
    and es: "bm_get (st_audits v) rid = Some es" "next_sequence es = Inr sq"
      "\<not> audit_backwards es (aa_timestamp audit)"
    and new: "artifact_events X ids audit rid 0 sq (last_hash es) batch = Inr new"
    and t: "t = v\<lparr>st_artifacts := bm_insert rid (artifacts_of v rid @ batch) (st_artifacts v),
                  st_audits := bm_insert rid (es @ new) (st_audits v)\<rparr>"
    by (auto simp: record_artifacts_def res_simps split: option.splits)
  have "v = s" using artifact_batch_ok [OF b] by simp
  with store_artifacts_sim [OF inv _ _ es(2,3) new] b es t show ?thesis by simp
qed

section \<open>Trait RunQueueRepository\<close>

lemma append_memory_audit_ok:
  assumes "append_memory_audit X eid rid actor ts ty s = (Inr u, t)" and "store_inv X s"
  obtains es e where "bm_get (st_audits s) rid = Some es"
    "grown X (abs_ledger s) rid [e] ((bm_get (st_audits s))(rid \<mapsto> es @ [e]))" "ev_timestamp e = ts"
    "t = s\<lparr>st_audits := bm_insert rid (es @ [e]) (st_audits s)\<rparr>"
proof -
  from assms(1) obtain es sq e where es: "bm_get (st_audits s) rid = Some es" "next_sequence es = Inr sq"
    "\<not> audit_backwards es ts"
    "build_event X eid (new_audit_append actor ts) rid sq ty (last_hash es) = Inr e"
    and t: "t = s\<lparr>st_audits := bm_insert rid (es @ [e]) (st_audits s)\<rparr>"
    by (auto simp: append_memory_audit_def res_simps split: option.splits)
  from grown_one [OF assms(2) es(1-3)] es(4) t es(1) show ?thesis
    by (intro that) (auto simp: build_event_def new_audit_append_def)
qed

lemma apply_transition_ok:
  assumes "apply_memory_transition_with_reason X eid r nxt why ts actor ty s = (Inr r', t)"
    and inv: "store_inv X s" and r: "bm_get (st_runs s) rid = Some r"
  obtains es e where "moved X (abs_ledger s) rid nxt r' ((bm_get (st_audits s))(rid \<mapsto> es @ [e]))"
    "t = s\<lparr>st_audits := bm_insert rid (es @ [e]) (st_audits s), st_runs := bm_insert rid r' (st_runs s)\<rparr>"
    "r_status r' = nxt" "can_transition_to (r_status r) nxt" "r_updated_at r' = ts"
proof -
  have id: "r_id r = rid" by (rule store_invD(1) [OF inv r])
  from assms(1) obtain n u where g: "can_transition_to (r_status r) nxt" "r_updated_at r \<le> ts"
    "checked_add (r_revision r) 1 = Some n" and r': "r' = advanced r nxt n why ts"
    and a: "append_memory_audit X eid (r_id r) actor ts ty s = (Inr (), u)"
    and t: "t = u\<lparr>st_runs := bm_insert rid r' (st_runs u)\<rparr>"
    by (auto simp: apply_memory_transition_with_reason_def Let_def res_simps id)
  obtain es e where e: "grown X (abs_ledger s) rid [e] ((bm_get (st_audits s))(rid \<mapsto> es @ [e]))"
    "ev_timestamp e = ts" "u = s\<lparr>st_audits := bm_insert rid (es @ [e]) (st_audits s)\<rparr>"
    using append_memory_audit_ok [OF a [unfolded id] inv] by metis
  have "moved X (abs_ledger s) rid nxt r' ((bm_get (st_audits s))(rid \<mapsto> es @ [e]))"
    unfolding moved_def using r g e r'
    by (intro exI [of _ r] exI [of _ "[e]"] exI [of _ n] exI [of _ why]) auto
  with e g r' t show ?thesis by (intro that) auto
qed

lemmas apply_transition_simple_ok =
  apply_transition_ok [where why = None, folded apply_memory_transition_def]

lemma validate_lease_ok:
  "validate_memory_lease lease rv now s = (Inr r, t) \<Longrightarrow>
     t = s \<and> bm_get (st_runs s) (r_id (ls_run lease)) = Some r \<and> r_revision r = rv
     \<and> r_revision (ls_run lease) = rv
     \<and> (\<exists>stored. bm_get (st_leases s) (r_id (ls_run lease)) = Some stored
          \<and> ls_token stored = ls_token lease \<and> ls_owner stored = ls_owner lease
          \<and> ls_acquired_at stored \<le> now \<and> now < ls_expires_at stored)
     \<and> r_updated_at r \<le> now
     \<and> (\<forall>es. bm_get (st_audits s) (r_id (ls_run lease)) = Some es \<longrightarrow> \<not> audit_backwards es now)"
  by (auto simp: validate_memory_lease_def res_simps)

lemma min_by_age_in: "min_by_age ps = Some p \<Longrightarrow> p \<in> set ps"
  by (induction ps arbitrary: p) (auto split: option.splits if_splits)

lemma min_by_age_None: "min_by_age ps = None \<longleftrightarrow> ps = []"
  by (cases ps) (auto split: option.splits if_splits)

lemma min_by_age_least:
  "min_by_age ps = Some p \<Longrightarrow> q \<in> set ps \<Longrightarrow>
     (r_created_at (snd p), fst p) \<le> (r_created_at (snd q), fst q)"
proof (induction ps arbitrary: p q)
  case (Cons x ps)
  show ?case
  proof (cases "min_by_age ps")
    case None
    with Cons.prems show ?thesis by (auto simp: min_by_age_None)
  next
    case (Some y)
    have y: "(r_created_at (snd y), fst y) \<le> (r_created_at (snd q), fst q)" if "q \<in> set ps"
      by (rule Cons.IH [OF Some that])
    show ?thesis
      using Cons.prems Some y order_trans [of "(r_created_at (snd x), fst x)"]
      by (auto simp: not_less simp del: less_prod_simp less_eq_prod_simp split: if_splits)
  qed
qed simp

definition store_ordered :: "state \<Rightarrow> bool" where
  "store_ordered s =
     (bm_ordered (st_runs s) \<and> bm_ordered (st_audits s) \<and> bm_ordered (st_artifacts s)
      \<and> bm_ordered (st_approvals s) \<and> bm_ordered (st_approval_windows s)
      \<and> bm_ordered (st_action_claims s) \<and> bm_ordered (st_leases s)
      \<and> bm_ordered (st_cancel_requested s))"

lemma bm_mem_get: "bm_ordered m \<Longrightarrow> (k, v) \<in> set m \<longleftrightarrow> bm_get m k = Some v"
  using bm_ordered_distinct [of m] by (auto dest: map_of_SomeD)

lemma claim_next_run_ok:
  assumes "claim_next_run X eid token owner now ttl s = (Inr (Some lease), t)" and inv: "store_inv X s"
  obtains rid r r' es e cand where "min_by_age (claim_candidates s) = Some (rid, cand)"
    "bm_get (st_runs s) rid = Some r"
    "moved X (abs_ledger s) rid Planning r' ((bm_get (st_audits s))(rid \<mapsto> es @ [e]))"
    "bm_get (st_leases s) rid = None" "ls_run lease = r'" "ls_token lease = token" "ls_owner lease = owner"
    "ls_acquired_at lease = now" "checked_lease_expiry X now ttl = Inr (ls_expires_at lease)"
    "\<not> ls_cancel_requested lease" "can_transition_to (r_status r) Planning" "r_status r' = Planning"
    "t = s\<lparr>st_audits := bm_insert rid (es @ [e]) (st_audits s), st_runs := bm_insert rid r' (st_runs s),
           st_leases := bm_insert rid lease (st_leases s)\<rparr>"
proof -
  from assms(1) obtain rid cand r r' u expires where c: "min_by_age (claim_candidates s) = Some (rid, cand)"
    and r: "bm_get (st_runs s) rid = Some r" and x: "checked_lease_expiry X now ttl = Inr expires"
    and a: "apply_memory_transition X eid r Planning now owner EvRuntimeSelected s = (Inr r', u)"
    and l: "lease = \<lparr>ls_run = r', ls_token = token, ls_owner = owner, ls_acquired_at = now,
              ls_expires_at = expires, ls_cancel_requested = False\<rparr>"
    and t: "t = u\<lparr>st_leases := bm_insert rid lease (st_leases u)\<rparr>"
    by (auto simp: claim_next_run_def Let_def res_simps split: option.splits)
  have free: "bm_get (st_leases s) rid = None"
    using min_by_age_in [OF c] by (auto simp: claim_candidates_def)
  show ?thesis
    by (rule apply_transition_simple_ok [OF a inv r]) (rule that [OF c r]; use free l t x in simp)
qed

lemma claim_next_run_none: "claim_next_run X eid token owner now ttl s = (Inr None, t) \<Longrightarrow> t = s"
  by (auto simp: claim_next_run_def Let_def res_simps split: option.splits)

lemma claim_next_run_atomic:
  assumes "claim_next_run X eid token owner now ttl s = (Inl e, t)"
  shows "t = s"
  using assms atomicD [OF apply_transition_atomic(2)]
  by (auto simp: claim_next_run_def Let_def res_simps split: option.splits)

lemma claim_next_run_sim:
  assumes "claim_next_run X eid token owner now ttl s = (res, t)" and inv: "store_inv X s"
  shows "sim X s t"
proof -
  consider e where "res = Inl e" | "res = Inr None" | l where "res = Inr (Some l)"
    by (metis not_None_eq obj_sumE)
  then show ?thesis
  proof cases
    case (3 l)
    from assms(1) [unfolded 3] inv show ?thesis
    proof (rule claim_next_run_ok)
      fix rid r r' es e cand
      assume m: "moved X (abs_ledger s) rid Planning r' ((bm_get (st_audits s))(rid \<mapsto> es @ [e]))"
        "bm_get (st_leases s) rid = None" "ls_run l = r'" "\<not> ls_cancel_requested l"
        and t: "t = s\<lparr>st_audits := bm_insert rid (es @ [e]) (st_audits s),
           st_runs := bm_insert rid r' (st_runs s), st_leases := bm_insert rid l (st_leases s)\<rparr>"
      then show "sim X s t"
        by (intro sim_one [OF ledger_step.claim [OF m(1)]]) (simp_all add: abs_ledger_def)
    qed
  qed (use assms claim_next_run_atomic claim_next_run_none in blast)+
qed

lemma heartbeat_atomic: "heartbeat_lease X lease now ttl s = (Inl e, t) \<Longrightarrow> t = s"
  by (auto simp: heartbeat_lease_def Let_def res_simps)

lemma heartbeat_ok:
  "heartbeat_lease X lease now ttl s = (Inr l', t) \<Longrightarrow>
     \<exists>l. bm_get (st_leases s) (r_id (ls_run lease)) = Some l
       \<and> ls_token l = ls_token lease \<and> ls_owner l = ls_owner lease
       \<and> ls_acquired_at l \<le> now \<and> now < ls_expires_at l
       \<and> same_lease l l' \<and> ls_run l' = ls_run l
       \<and> checked_lease_expiry X now ttl = Inr (ls_expires_at l')
       \<and> ls_cancel_requested l' = (bm_get (st_cancel_requested s) (r_id (ls_run lease)) \<noteq> None)
       \<and> t = s\<lparr>st_leases := bm_insert (r_id (ls_run lease)) l' (st_leases s)\<rparr>"
  by (auto simp: heartbeat_lease_def Let_def res_simps same_lease_def)

lemma heartbeat_sim:
  assumes "heartbeat_lease X lease now ttl s = (res, t)" and "store_inv X s"
  shows "sim X s t"
proof (cases res)
  case (Inl e)
  with assms(1) heartbeat_atomic show ?thesis by blast
next
  case (Inr l')
  with assms(1) heartbeat_ok obtain l where l: "bm_get (st_leases s) (r_id (ls_run lease)) = Some l"
    "same_lease l l'" "ls_run l' = ls_run l"
    "ls_cancel_requested l' = (bm_get (st_cancel_requested s) (r_id (ls_run lease)) \<noteq> None)"
    "t = s\<lparr>st_leases := bm_insert (r_id (ls_run lease)) l' (st_leases s)\<rparr>" by blast
  then show ?thesis
    by (intro sim_one [OF ledger_step.refresh [of _ "r_id (ls_run lease)" l l']]) simp_all
qed

lemma transition_leased_atomic:
  assumes "transition_leased_run X eid lease rv nxt now s = (Inl e, t)" and inv: "store_inv X s"
  shows "t = s"
proof -
  have "bm_get (st_leases u) rid = Some l"
    if "apply_memory_transition X eid r nxt now a ty s = (Inr r', u)" "bm_get (st_leases s) rid = Some l"
    for r r' u a ty rid l
    using that by (auto simp: apply_memory_transition_def apply_memory_transition_with_reason_def
      append_memory_audit_def Let_def res_simps split: option.splits)
  then show ?thesis
    using assms(1) readingD [OF validate_lease_reading] atomicD [OF apply_transition_atomic(2)]
    unfolding transition_leased_run_def Let_def
    by (auto simp: res_simps dest!: validate_lease_ok)
qed

lemma transition_leased_ok:
  assumes "transition_leased_run X eid lease rv nxt now s = (Inr l', t)" and inv: "store_inv X s"
  obtains rid r r' es e l where "rid = r_id (ls_run lease)" "bm_get (st_runs s) rid = Some r"
    "moved X (abs_ledger s) rid nxt r' ((bm_get (st_audits s))(rid \<mapsto> es @ [e]))"
    "bm_get (st_leases s) rid = Some l" "\<not> is_terminal nxt" "same_lease l l'" "ls_run l' = r'"
    "ls_token l = ls_token lease" "ls_owner l = ls_owner lease" "r_revision r = rv"
    "ls_cancel_requested l' = (bm_get (st_cancel_requested s) rid \<noteq> None)"
    "t = s\<lparr>st_audits := bm_insert rid (es @ [e]) (st_audits s), st_runs := bm_insert rid r' (st_runs s),
           st_leases := bm_insert rid l' (st_leases s)\<rparr>"
proof -
  define rid where "rid = r_id (ls_run lease)"
  from assms(1) obtain r u r' v l where nt: "\<not> is_terminal nxt"
    and va: "validate_memory_lease lease rv now s = (Inr r, u)"
    and a: "apply_memory_transition X eid r nxt now (ls_owner lease) (transition_event nxt) u = (Inr r', v)"
    and l: "bm_get (st_leases v) rid = Some l"
    and l': "l' = l\<lparr>ls_run := r', ls_cancel_requested := bm_contains (st_cancel_requested v) rid\<rparr>"
    and t: "t = v\<lparr>st_leases := bm_insert rid l' (st_leases v)\<rparr>"
    by (auto simp: transition_leased_run_def Let_def res_simps rid_def)
  note va = validate_lease_ok [OF va, folded rid_def]
  then have us: "u = s" and r: "bm_get (st_runs s) rid = Some r" by simp_all
  show ?thesis
  proof (rule apply_transition_simple_ok [OF a [unfolded us] inv r])
    fix es e
    assume m: "moved X (abs_ledger s) rid nxt r' ((bm_get (st_audits s))(rid \<mapsto> es @ [e]))"
      and v: "v = s\<lparr>st_audits := bm_insert rid (es @ [e]) (st_audits s), st_runs := bm_insert rid r' (st_runs s)\<rparr>"
    show ?thesis
      by (rule that [OF rid_def r m, of l]) (use va nt l l' t v in \<open>auto simp: same_lease_def\<close>)
  qed
qed

lemma transition_leased_sim:
  assumes "transition_leased_run X eid lease rv nxt now s = (res, t)" and inv: "store_inv X s"
  shows "sim X s t"
proof (cases res)
  case (Inl e)
  with assms transition_leased_atomic show ?thesis by blast
next
  case (Inr l')
  from assms(1) [unfolded Inr] inv show ?thesis
  proof (rule transition_leased_ok)
    fix rid r r' es e l
    assume m: "moved X (abs_ledger s) rid nxt r' ((bm_get (st_audits s))(rid \<mapsto> es @ [e]))"
      "bm_get (st_leases s) rid = Some l" "\<not> is_terminal nxt" "same_lease l l'" "ls_run l' = r'"
      "ls_cancel_requested l' = (bm_get (st_cancel_requested s) rid \<noteq> None)"
      "t = s\<lparr>st_audits := bm_insert rid (es @ [e]) (st_audits s), st_runs := bm_insert rid r' (st_runs s),
           st_leases := bm_insert rid l' (st_leases s)\<rparr>"
    then show "sim X s t"
      by (intro sim_one [OF ledger_step.advance_held [OF m(1)]]) (simp_all add: abs_ledger_def)
  qed
qed

lemma finish_sim:
  assumes "moved X (abs_ledger s) rid nxt r' ((bm_get (st_audits s))(rid \<mapsto> es @ [e]))"
    and "bm_get (st_leases s) rid = Some l" and "is_terminal nxt"
    and "nxt = Succeeded \<Longrightarrow> bm_get (st_cancel_requested s) rid = None"
    and "t = s\<lparr>st_audits := bm_insert rid (es @ [e]) (st_audits s), st_runs := bm_insert rid r' (st_runs s),
           st_leases := bm_remove rid (st_leases s),
           st_cancel_requested := bm_remove rid (st_cancel_requested s)\<rparr>"
  shows "sim X s t"
  using assms by (intro sim_one [OF ledger_step.finish [OF assms(1)]]) (simp_all add: abs_ledger_def)

lemma complete_leased_ok:
  assumes "complete_leased_run X eid lease rv nxt why now s = (Inr r', t)" and inv: "store_inv X s"
  obtains rid r es e l where "rid = r_id (ls_run lease)" "bm_get (st_runs s) rid = Some r"
    "moved X (abs_ledger s) rid nxt r' ((bm_get (st_audits s))(rid \<mapsto> es @ [e]))"
    "bm_get (st_leases s) rid = Some l" "nxt \<in> {Succeeded, Failed, TimedOut}"
    "nxt = Succeeded \<Longrightarrow> bm_get (st_cancel_requested s) rid = None"
    "ls_token l = ls_token lease" "ls_owner l = ls_owner lease" "r_revision r = rv"
    "t = s\<lparr>st_audits := bm_insert rid (es @ [e]) (st_audits s), st_runs := bm_insert rid r' (st_runs s),
           st_leases := bm_remove rid (st_leases s),
           st_cancel_requested := bm_remove rid (st_cancel_requested s)\<rparr>"
proof -
  define rid where "rid = r_id (ls_run lease)"
  from assms(1) obtain r u v where n: "nxt \<in> {Succeeded, Failed, TimedOut}"
    and va: "validate_memory_lease lease rv now s = (Inr r, u)"
    and c: "nxt = Succeeded \<Longrightarrow> bm_get (st_cancel_requested u) rid = None"
    and a: "apply_memory_transition_with_reason X eid r nxt why now (ls_owner lease)
        (transition_event nxt) u = (Inr r', v)"
    and t: "t = v\<lparr>st_leases := bm_remove rid (st_leases v),
                  st_cancel_requested := bm_remove rid (st_cancel_requested v)\<rparr>"
    by (auto simp: complete_leased_run_def Let_def res_simps rid_def)
  note va = validate_lease_ok [OF va, folded rid_def]
  then obtain l where us: "u = s" and r: "bm_get (st_runs s) rid = Some r"
    and l: "bm_get (st_leases s) rid = Some l" "ls_token l = ls_token lease" "ls_owner l = ls_owner lease"
    by auto
  show ?thesis
  proof (rule apply_transition_ok [OF a [unfolded us] inv r])
    fix es e
    assume m: "moved X (abs_ledger s) rid nxt r' ((bm_get (st_audits s))(rid \<mapsto> es @ [e]))"
      and v: "v = s\<lparr>st_audits := bm_insert rid (es @ [e]) (st_audits s), st_runs := bm_insert rid r' (st_runs s)\<rparr>"
    show ?thesis
      by (rule that [OF rid_def r m l(1) n]) (use c us va l t v in auto)
  qed
qed

lemma complete_leased_atomic:
  assumes "complete_leased_run X eid lease rv nxt why now s = (Inl e, t)"
  shows "t = s"
  using assms by (auto simp: complete_leased_run_def Let_def res_simps dest!: step_dests)

lemma complete_leased_sim:
  assumes "complete_leased_run X eid lease rv nxt why now s = (res, t)" and inv: "store_inv X s"
  shows "sim X s t"
proof (cases res)
  case (Inl e)
  with assms complete_leased_atomic show ?thesis by blast
next
  case (Inr r')
  from assms(1) [unfolded Inr] inv show ?thesis
    by (rule complete_leased_ok) (erule (1) finish_sim; auto simp: is_terminal_def)
qed

lemma append_leased_atomic:
  assumes "append_leased_runtime_audit X eid lease rv ty now s = (Inl e, t)"
  shows "t = s"
  using assms
  by (auto simp: append_leased_runtime_audit_def Let_def res_simps split: option.splits dest!: step_dests)

lemma append_leased_sim:
  assumes "append_leased_runtime_audit X eid lease rv ty now s = (res, t)" and inv: "store_inv X s"
  shows "sim X s t"
proof (cases res)
  case (Inl e)
  with assms append_leased_atomic show ?thesis by blast
next
  case (Inr e)
  define rid where "rid = r_id (ls_run lease)"
  from assms(1) Inr obtain r u es sq where va: "validate_memory_lease lease rv now s = (Inr r, u)"
    and es: "bm_get (st_audits u) rid = Some es" "next_sequence es = Inr sq"
      "build_event X eid (new_audit_append (ls_owner lease) now) rid sq ty (last_hash es) = Inr e"
    and t: "t = u\<lparr>st_audits := bm_insert rid (es @ [e]) (st_audits u)\<rparr>"
    by (auto simp: append_leased_runtime_audit_def Let_def res_simps rid_def split: option.splits)
  note va = validate_lease_ok [OF va, folded rid_def]
  then have us: "u = s" and nb: "\<not> audit_backwards es now" using es(1) by auto
  have "grown X (abs_ledger s) rid [e] ((bm_get (st_audits s))(rid \<mapsto> es @ [e]))"
    using grown_one(1) [OF inv _ es(2) nb] es us by (simp add: build_event_def new_audit_append_def)
  with t us show ?thesis by (intro sim_one [OF ledger_step.append]) auto
qed

lemma record_leased_atomic:
  assumes "record_leased_artifacts X ids lease rv batch now s = (Inl e, t)"
  shows "t = s"
  using assms
  by (auto simp: record_leased_artifacts_def Let_def res_simps split: option.splits dest!: step_dests)

lemma record_leased_sim:
  assumes "record_leased_artifacts X ids lease rv batch now s = (res, t)" and inv: "store_inv X s"
  shows "sim X s t"
proof (cases res)
  case (Inl e)
  with assms record_leased_atomic show ?thesis by blast
next
  case (Inr x)
  define rid where "rid = r_id (ls_run lease)"
  define au where "au = new_audit_append (ls_owner lease) now"
  from assms(1) Inr obtain r u v es sq new where va: "validate_memory_lease lease rv now s = (Inr r, u)"
    and b: "validate_artifact_batch rid batch u = (Inr (), v)"
    and es: "bm_get (st_audits v) rid = Some es" "next_sequence es = Inr sq"
    and new: "artifact_events X ids au rid 0 sq (last_hash es) batch = Inr new"
    and t: "t = v\<lparr>st_artifacts := bm_insert rid (artifacts_of v rid @ batch) (st_artifacts v),
                  st_audits := bm_insert rid (es @ new) (st_audits v)\<rparr>"
    by (auto simp: record_leased_artifacts_def Let_def res_simps rid_def au_def split: option.splits)
  have vs: "v = s" "u = s" using validate_lease_ok [OF va] artifact_batch_ok [OF b] by auto
  have "\<not> audit_backwards es (aa_timestamp au)"
    using validate_lease_ok [OF va] es(1) vs by (auto simp: rid_def au_def new_audit_append_def)
  from store_artifacts_sim [OF inv _ _ es(2) this new] b es(1) t vs show ?thesis by simp
qed

lemma request_cancel_atomic:
  assumes "request_cancel X eid rid actor now s = (Inl e, t)"
  shows "t = s"
  using assms by (auto simp: request_cancel_def Let_def res_simps split: if_splits dest!: step_dests)

lemma request_cancel_ok:
  assumes "request_cancel X eid rid actor now s = (Inr c, t)"
  shows "t = s
    \<or> (\<exists>r r'. bm_get (st_runs s) rid = Some r \<and> bm_get (st_leases s) rid = None
         \<and> apply_memory_transition X eid r Cancelled now actor EvCancelConfirmed s = (Inr r', t))
    \<or> (\<exists>l u. bm_get (st_leases s) rid = Some l \<and> bm_get (st_cancel_requested s) rid = None
         \<and> append_memory_audit X eid rid actor now EvCancelRequested s = (Inr (), u)
         \<and> t = (case bm_get (st_leases u) rid of
                 None \<Rightarrow> u\<lparr>st_cancel_requested := bm_insert rid now (st_cancel_requested u)\<rparr>
               | Some l \<Rightarrow> u\<lparr>st_cancel_requested := bm_insert rid now (st_cancel_requested u),
                   st_leases := bm_insert rid (l\<lparr>ls_cancel_requested := True\<rparr>) (st_leases u)\<rparr>))"
proof -
  from assms obtain r where r: "bm_get (st_runs s) rid = Some r"
    by (auto simp: request_cancel_def res_simps)
  consider "is_terminal (r_status r)"
    | "\<not> is_terminal (r_status r)" "r_status r \<in> {Queued, AwaitingApproval}" "bm_get (st_leases s) rid = None"
    | "\<not> is_terminal (r_status r)" "\<not> (r_status r \<in> {Queued, AwaitingApproval} \<and> bm_get (st_leases s) rid = None)"
    by metis
  then show ?thesis
  proof cases
    case 1
    then show ?thesis using assms r by (simp add: request_cancel_def res_simps)
  next
    case 2
    then show ?thesis using assms r by (auto simp: request_cancel_def res_simps dest!: step_dests(3))
  next
    case 3
    then show ?thesis
      using assms r by (cases "bm_get (st_leases s) rid"; cases "bm_get (st_cancel_requested s) rid")
        (auto simp: request_cancel_def res_simps is_terminal_def cong: option.case_cong)
  qed
qed

lemma request_cancel_sim:
  assumes "request_cancel X eid rid actor now s = (res, t)" and inv: "store_inv X s"
  shows "sim X s t"
proof (cases res)
  case (Inl e)
  with assms request_cancel_atomic show ?thesis by blast
next
  case (Inr c)
  with assms(1) consider "t = s"
    | r r' where "bm_get (st_runs s) rid = Some r" "bm_get (st_leases s) rid = None"
        "apply_memory_transition X eid r Cancelled now actor EvCancelConfirmed s = (Inr r', t)"
    | l u where "bm_get (st_leases s) rid = Some l" "bm_get (st_cancel_requested s) rid = None"
        "append_memory_audit X eid rid actor now EvCancelRequested s = (Inr (), u)"
        "t = (case bm_get (st_leases u) rid of
                None \<Rightarrow> u\<lparr>st_cancel_requested := bm_insert rid now (st_cancel_requested u)\<rparr>
              | Some l \<Rightarrow> u\<lparr>st_cancel_requested := bm_insert rid now (st_cancel_requested u),
                  st_leases := bm_insert rid (l\<lparr>ls_cancel_requested := True\<rparr>) (st_leases u)\<rparr>)"
    using request_cancel_ok [of X eid rid actor now s c t] by blast
  then show ?thesis
  proof cases
    case (2 r r')
    from apply_transition_simple_ok [OF 2(3) inv 2(1)] obtain es e where
      m: "moved X (abs_ledger s) rid Cancelled r' ((bm_get (st_audits s))(rid \<mapsto> es @ [e]))"
      and t: "t = s\<lparr>st_audits := bm_insert rid (es @ [e]) (st_audits s), st_runs := bm_insert rid r' (st_runs s)\<rparr>"
      by metis
    with 2(2) show ?thesis
      by (intro sim_one [OF ledger_step.advance_free [OF m]]) (simp_all add: abs_ledger_def)
  next
    case (3 l u)
    from append_memory_audit_ok [OF 3(3) inv] obtain es e where
      g: "grown X (abs_ledger s) rid [e] ((bm_get (st_audits s))(rid \<mapsto> es @ [e]))"
      and u: "u = s\<lparr>st_audits := bm_insert rid (es @ [e]) (st_audits s)\<rparr>" by metis
    with 3 show ?thesis
      by (intro sim_one [OF ledger_step.intend_cancel [OF g, of l now]]) simp_all
  qed simp
qed

lemma confirm_cancel_ok:
  assumes "confirm_cancel X eid lease now ev s = (Inr r', t)" and inv: "store_inv X s"
  obtains rid r es e l where "rid = r_id (ls_run lease)" "bm_get (st_runs s) rid = Some r"
    "moved X (abs_ledger s) rid Cancelled r' ((bm_get (st_audits s))(rid \<mapsto> es @ [e]))"
    "bm_get (st_leases s) rid = Some l" "bm_get (st_cancel_requested s) rid \<noteq> None"
    "ls_token l = ls_token lease" "ls_owner l = ls_owner lease" "ce_lease_token ev = ls_token lease"
    "ce_run_id ev = rid" "ce_sandbox_id ev \<noteq> []"
    "t = s\<lparr>st_audits := bm_insert rid (es @ [e]) (st_audits s), st_runs := bm_insert rid r' (st_runs s),
           st_leases := bm_remove rid (st_leases s),
           st_cancel_requested := bm_remove rid (st_cancel_requested s)\<rparr>"
proof -
  define rid where "rid = r_id (ls_run lease)"
  from assms(1) obtain l r v where l: "bm_get (st_leases s) rid = Some l"
    "bm_get (st_cancel_requested s) rid \<noteq> None" "ls_token l = ls_token lease" "ls_owner l = ls_owner lease"
    "ce_lease_token ev = ls_token lease" "ce_run_id ev = rid" "ce_sandbox_id ev \<noteq> []"
    and r: "bm_get (st_runs s) rid = Some r"
    and a: "apply_memory_transition X eid r Cancelled now (ls_owner lease) EvCancelConfirmed s = (Inr r', v)"
    and t: "t = v\<lparr>st_leases := bm_remove rid (st_leases v),
                  st_cancel_requested := bm_remove rid (st_cancel_requested v)\<rparr>"
    by (auto simp: confirm_cancel_def Let_def res_simps rid_def)
  show ?thesis
  proof (rule apply_transition_simple_ok [OF a inv r])
    fix es e
    assume m: "moved X (abs_ledger s) rid Cancelled r' ((bm_get (st_audits s))(rid \<mapsto> es @ [e]))"
      and v: "v = s\<lparr>st_audits := bm_insert rid (es @ [e]) (st_audits s), st_runs := bm_insert rid r' (st_runs s)\<rparr>"
    show ?thesis
      by (rule that [OF rid_def r m l]) (use t v in simp)
  qed
qed

lemma confirm_cancel_atomic:
  assumes "confirm_cancel X eid lease now ev s = (Inl e, t)"
  shows "t = s"
  using assms by (auto simp: confirm_cancel_def Let_def res_simps dest!: step_dests)

lemma confirm_cancel_sim:
  assumes "confirm_cancel X eid lease now ev s = (res, t)" and inv: "store_inv X s"
  shows "sim X s t"
proof (cases res)
  case (Inl e)
  with assms confirm_cancel_atomic show ?thesis by blast
next
  case (Inr r')
  from assms(1) [unfolded Inr] inv show ?thesis
    by (rule confirm_cancel_ok) (erule (1) finish_sim; auto simp: is_terminal_def)
qed

lemma recover_one_sim:
  assumes "recover_one X eid actor now rid s = (res, t)" and inv: "store_inv X s"
    and lease: "bm_get (st_leases s) rid = Some l"
  shows "sim X s t" and "res = Inl e \<Longrightarrow> t = s"
    and "res = Inr () \<Longrightarrow> bm_get (st_leases t) = (bm_get (st_leases s))(rid := None)
      \<and> (\<exists>r. bm_get (st_runs t) rid = Some r \<and> r_status r = Failed \<and> r_updated_at r = now)
      \<and> (\<forall>i. i \<noteq> rid \<longrightarrow> bm_get (st_runs t) i = bm_get (st_runs s) i)"
proof -
  obtain r where r: "bm_get (st_runs s) rid = Some r" "active (r_status r)"
    using inv lease unfolding ledger_inv_def inv_leases_def by fastforce
  have nt: "\<not> is_terminal (r_status r)" using r(2) by (simp add: active_not_terminal)
  show "t = s" if "res = Inl e"
    using assms(1) that r nt by (auto simp: recover_one_def res_simps dest!: step_dests)
  have ok: "\<exists>r' es e. moved X (abs_ledger s) rid Failed r' ((bm_get (st_audits s))(rid \<mapsto> es @ [e]))
      \<and> r_status r' = Failed \<and> r_updated_at r' = now
      \<and> t = s\<lparr>st_audits := bm_insert rid (es @ [e]) (st_audits s), st_runs := bm_insert rid r' (st_runs s),
           st_leases := bm_remove rid (st_leases s),
           st_cancel_requested := bm_remove rid (st_cancel_requested s)\<rparr>" if "res = Inr ()"
  proof -
    from assms(1) that r nt obtain r' v where
      a: "apply_memory_transition X eid r Failed now actor EvRunFailed s = (Inr r', v)"
      and t: "t = v\<lparr>st_leases := bm_remove rid (st_leases v),
                  st_cancel_requested := bm_remove rid (st_cancel_requested v)\<rparr>"
      by (auto simp: recover_one_def res_simps)
    show ?thesis
      by (rule apply_transition_simple_ok [OF a inv r(1)]) (use t in force)
  qed
  show "sim X s t"
  proof (cases res)
    case (Inl e)
    then show ?thesis
      using assms(1) r nt by (auto simp: recover_one_def res_simps dest!: step_dests)
  next
    case (Inr u)
    with ok lease show ?thesis by (auto intro!: finish_sim simp: is_terminal_def)
  qed
  show "bm_get (st_leases t) = (bm_get (st_leases s))(rid := None)
      \<and> (\<exists>r. bm_get (st_runs t) rid = Some r \<and> r_status r = Failed \<and> r_updated_at r = now)
      \<and> (\<forall>i. i \<noteq> rid \<longrightarrow> bm_get (st_runs t) i = bm_get (st_runs s) i)" if "res = Inr ()"
    using ok [OF that] by auto
qed

lemma recover_each_sim:
  assumes "recover_each X ids actor now n rids s = (res, t)" and "store_inv X s"
    and "distinct rids" and "\<forall>rid \<in> set rids. bm_get (st_leases s) rid \<noteq> None"
  shows "sim X s t \<and> (res = Inr () \<longrightarrow>
      bm_get (st_leases t) = (\<lambda>i. if i \<in> set rids then None else bm_get (st_leases s) i)
      \<and> (\<forall>i. if i \<in> set rids then \<exists>r. bm_get (st_runs t) i = Some r \<and> r_status r = Failed \<and> r_updated_at r = now
             else bm_get (st_runs t) i = bm_get (st_runs s) i))"
  using assms
proof (induction rids arbitrary: n s)
  case (Cons rid rids)
  obtain l where l: "bm_get (st_leases s) rid = Some l" using Cons.prems(4) by auto
  from Cons.prems(1) consider e where "recover_one X (ids n) actor now rid s = (Inl e, t)" "res = Inl e"
    | u where "recover_one X (ids n) actor now rid s = (Inr (), u)"
        "recover_each X ids actor now (Suc n) rids u = (res, t)"
    by (cases res) (auto simp: res_simps)
  then show ?case
  proof cases
    case (1 e)
    with recover_one_sim(2) [OF 1(1) Cons.prems(2) l] show ?thesis by simp
  next
    case (2 u)
    note o = recover_one_sim [OF 2(1) Cons.prems(2) l]
    have inv: "store_inv X u" by (rule ledger_history.steps_inv [OF o(1) Cons.prems(2)])
    have "\<forall>i \<in> set rids. bm_get (st_leases u) i \<noteq> None"
      using o(3) Cons.prems(3,4) by auto
    from Cons.IH [OF 2(2) inv _ this] Cons.prems(3) o show ?thesis
      by (auto simp: fun_eq_iff elim: rtranclp_trans)
  qed
qed (auto simp: res_simps)

lemma expired_leases_distinct: "store_ordered s \<Longrightarrow> distinct (expired_leases s now)"
  by (auto simp: expired_leases_def store_ordered_def dest!: bm_ordered_distinct intro: distinct_map_filter)

lemma expired_leases_iff:
  "store_ordered s \<Longrightarrow> rid \<in> set (expired_leases s now) \<longleftrightarrow>
     (\<exists>l. bm_get (st_leases s) rid = Some l \<and> ls_expires_at l \<le> now)"
  by (force simp: expired_leases_def store_ordered_def bm_mem_get [symmetric])

lemma recover_expired_sim:
  assumes "recover_expired_leases X ids actor now s = (res, t)" and "store_inv X s" and "store_ordered s"
  shows "sim X s t"
proof -
  from assms(1) obtain r where "recover_each X ids actor now 0 (expired_leases s now) s = (r, t)"
    by (cases res) (auto simp: recover_expired_leases_def res_simps)
  from recover_each_sim [OF this assms(2) expired_leases_distinct [OF assms(3)]] show ?thesis
    using expired_leases_iff [OF assms(3)] by auto
qed

section \<open>Trait ApprovalRepository\<close>

lemma window_run_ok:
  "approval_window_run a s = (Inr r, t) \<Longrightarrow>
     t = s \<and> bm_get (st_runs s) (ap_run_id a) = Some r \<and> r_status r = AwaitingApproval
     \<and> bm_get (st_approval_windows s) (ap_id a) = Some (r_revision r)"
  by (auto simp: approval_window_run_def res_simps)

lemma approval_event_ok:
  assumes "approval_event X eid a ty actor ts s = (Inr e, t)" and inv: "store_inv X s"
  obtains es where "t = s" "bm_get (st_audits s) (ap_run_id a) = Some es" "ev_timestamp e = ts"
    "grown X (abs_ledger s) (ap_run_id a) [e] ((bm_get (st_audits s))(ap_run_id a \<mapsto> es @ [e]))"
    "unat (ev_sequence e) = Suc (length es)"
proof -
  from assms(1) obtain es sq where t: "t = s" and es: "bm_get (st_audits s) (ap_run_id a) = Some es"
    "next_sequence es = Inr sq" "\<not> audit_backwards es ts"
    "new_audit_event X eid (ap_run_id a) sq ty actor ts (from_untrusted (approval_metadata X a)) (last_hash es) = Inr e"
    by (auto simp: approval_event_def res_simps)
  have "unat (ev_sequence e) = Suc (length es)"
    using new_audit_event_verifies [OF es(4)] next_sequence_unat [OF es(2)] by simp
  with grown_one [OF inv es] t es(1) show ?thesis by (intro that) auto
qed

lemma approval_exists_iff:
  assumes "store_ordered s"
  shows "approval_exists s a \<longleftrightarrow>
    bm_get (st_approvals s) (ap_id a) \<noteq> None \<or> bm_get (st_action_claims s) (ap_action_id a) \<noteq> None
    \<or> (\<exists>p b. bm_get (st_approvals s) p = Some b \<and> ap_action_id b = ap_action_id a)"
proof -
  have v: "b \<in> set (bm_values (st_approvals s)) \<longleftrightarrow> (\<exists>p. bm_get (st_approvals s) p = Some b)" for b
    using assms bm_values_get bm_get_values bm_ordered_distinct unfolding store_ordered_def by metis
  show ?thesis unfolding approval_exists_def list_ex_iff Bex_def v by auto
qed

lemma create_approval_ok:
  assumes "create_approval X eid req actor now s = (Inr a, t)"
  obtains r e es where "a = req\<lparr>ap_request_reason := redact_text (ap_request_reason req)\<rparr>"
    "ap_status a = Pending" "ap_revision a = 0" "validate_approval a = Inr ()"
    "bm_get (st_runs s) (ap_run_id a) = Some r" "r_status r = AwaitingApproval" "\<not> approval_exists s a"
    "approval_event X eid a EvApprovalRequested actor now s = (Inr e, s)"
    "bm_get (st_audits s) (ap_run_id a) = Some es"
    "t = s\<lparr>st_approvals := bm_insert (ap_id a) a (st_approvals s),
           st_approval_windows := bm_insert (ap_id a) (r_revision r) (st_approval_windows s),
           st_audits := bm_insert (ap_run_id a) (es @ [e]) (st_audits s)\<rparr>"
proof -
  define a' where "a' = req\<lparr>ap_request_reason := redact_text (ap_request_reason req)\<rparr>"
  from assms have "\<exists>r e es u. ap_status a' = Pending \<and> ap_revision a' = 0 \<and> validate_approval a' = Inr ()
    \<and> bm_get (st_runs s) (ap_run_id a') = Some r \<and> r_status r = AwaitingApproval \<and> \<not> approval_exists s a'
    \<and> approval_event X eid a' EvApprovalRequested actor now s = (Inr e, u)
    \<and> bm_get (st_audits u) (ap_run_id a') = Some es \<and> a = a'
    \<and> t = u\<lparr>st_approvals := bm_insert (ap_id a') a' (st_approvals u),
           st_approval_windows := bm_insert (ap_id a') (r_revision r) (st_approval_windows u),
           st_audits := bm_insert (ap_run_id a') (es @ [e]) (st_audits u)\<rparr>"
    by (simp add: create_approval_def Let_def res_simps flip: a'_def) (auto simp: a'_def)
  then show ?thesis
    using readingD [OF approval_event_reading] that by (metis a'_def)
qed

lemma create_approval_atomic:
  assumes "create_approval X eid req actor now s = (Inl e, t)" and inv: "store_inv X s"
  shows "t = s"
  using assms(1)
  by (auto simp: create_approval_def Let_def res_simps dest!: step_dests)

lemma create_approval_sim:
  assumes "create_approval X eid req actor now s = (res, t)" and inv: "store_inv X s"
    and ord: "store_ordered s"
  shows "sim X s t"
proof (cases res)
  case (Inl e)
  with assms create_approval_atomic show ?thesis by blast
next
  case (Inr a)
  from assms(1) [unfolded Inr] show ?thesis
  proof (rule create_approval_ok)
    fix r e es
    assume a: "ap_status a = Pending" "ap_revision a = 0" "validate_approval a = Inr ()"
      "bm_get (st_runs s) (ap_run_id a) = Some r" "r_status r = AwaitingApproval" "\<not> approval_exists s a"
      and e: "approval_event X eid a EvApprovalRequested actor now s = (Inr e, s)"
      and es: "bm_get (st_audits s) (ap_run_id a) = Some es"
      and t: "t = s\<lparr>st_approvals := bm_insert (ap_id a) a (st_approvals s),
           st_approval_windows := bm_insert (ap_id a) (r_revision r) (st_approval_windows s),
           st_audits := bm_insert (ap_run_id a) (es @ [e]) (st_audits s)\<rparr>"
    have g: "grown X (abs_ledger s) (ap_run_id a) [e] ((bm_get (st_audits s))(ap_run_id a \<mapsto> es @ [e]))"
      by (rule approval_event_ok [OF e inv]) (use es in simp)
    show "sim X s t"
      by (intro sim_one [OF ledger_step.propose [OF g]])
        (use a approval_exists_iff [OF ord] t in \<open>auto simp: abs_ledger_def\<close>)
  qed
qed

lemma settle_sim:
  assumes inv: "store_inv X s" and a: "bm_get (st_approvals s) p = Some a"
    and m: "approval_moved a a'" "ap_status a' \<noteq> Consumed"
    and e: "approval_event X eid a' ty actor now s = (Inr e, u)"
    and c: "commit_approval a' e u = (Inr x, t)"
  shows "sim X s t"
proof -
  obtain es where es: "u = s" "bm_get (st_audits s) (ap_run_id a') = Some es"
    and g: "grown X (abs_ledger s) (ap_run_id a') [e] ((bm_get (st_audits s))(ap_run_id a' \<mapsto> es @ [e]))"
    using approval_event_ok [OF e inv] by metis
  have same: "ap_run_id a' = ap_run_id a" "ap_id a' = p"
    using m(1) inv a by (auto simp: approval_moved_def same_binding_def ledger_inv_def
        dest: inv_approvalsD(2) simp: approval_entry_def)
  have t: "t = s\<lparr>st_approvals := bm_insert p a' (st_approvals s),
      st_audits := bm_insert (ap_run_id a') (es @ [e]) (st_audits s)\<rparr>"
    using c es by (auto simp: commit_approval_def res_simps same)
  show ?thesis
    by (rule sim_one [OF ledger_step.settle [OF g [unfolded same(1)] _ m]])
      (use a t same in \<open>auto simp: abs_ledger_def\<close>)
qed

lemma commit_approval_atomic: "commit_approval a e s = (Inl x, t) \<Longrightarrow> t = s"
  by (auto simp: commit_approval_def res_simps)

lemma decide_approval_ok:
  assumes "decide_approval X eid p rv d actor why now s = (Inr a', t)"
  obtains a e u where "bm_get (st_approvals s) p = Some a" "ap_status a = Pending"
    "approval_moved a a'" "ap_status a' = decision_status d" "now < ap_expires_at a" "ap_revision a = rv"
    "approval_event X eid a' (decision_event d) actor now s = (Inr e, u)"
    "commit_approval a' e u = (Inr (), t)"
    "d = DecisionApproved \<Longrightarrow> \<exists>r. approval_window_run a s = (Inr r, s)"
proof -
  from assms obtain a n e u v where a: "bm_get (st_approvals s) p = Some a" "ap_status a = Pending"
    "ap_revision a = rv" "\<not> is_expired_at a now" "next_revision (ap_revision a) = Inr n"
    and a': "a' = a\<lparr>ap_status := decision_status d, ap_revision := n,
           ap_decision := Some \<lparr>dr_decision = d, dr_actor = actor,
             dr_reason = map_option redact_text why, dr_decided_at = now\<rparr>\<rparr>"
    and w: "(if d = DecisionApproved then bnd (approval_window_run a) (\<lambda>_. ret ()) else ret ()) s = (Inr (), v)"
    and v: "validate_approval a' = Inr ()"
    and e: "approval_event X eid a' (decision_event d) actor now v = (Inr e, u)"
    and c: "commit_approval a' e u = (Inr (), t)"
    by (auto simp: decide_approval_def Let_def res_simps)
  have vs: "v = s" using w by (auto simp: res_simps split: if_splits dest!: step_dests)
  have "\<exists>r. approval_window_run a s = (Inr r, s)" if "d = DecisionApproved"
    using w that vs by (auto simp: res_simps)
  moreover have "approval_moved a a'"
    using a a' v by (cases d) (auto simp: approval_moved_def same_binding_def next_revision_def res_simps)
  ultimately show ?thesis
    using a a' v e c vs by (intro that [of a e u]) (auto simp: is_expired_at_def)
qed

lemma decide_approval_atomic:
  assumes "decide_approval X eid p rv d actor why now s = (Inl e, t)"
  shows "t = s"
  using assms
  by (auto simp: decide_approval_def Let_def res_simps split: if_splits
      dest!: step_dests commit_approval_atomic)

lemma decide_approval_sim:
  assumes "decide_approval X eid p rv d actor why now s = (res, t)" and inv: "store_inv X s"
  shows "sim X s t"
proof (cases res)
  case (Inl e)
  with assms decide_approval_atomic show ?thesis by blast
next
  case (Inr a')
  from assms(1) [unfolded Inr] show ?thesis
    by (rule decide_approval_ok) (rule settle_sim [OF inv], auto, cases d, auto)
qed

lemma expire_approval_ok:
  assumes "expire_approval X eid p rv actor now s = (Inr a', t)"
  obtains a e u where "bm_get (st_approvals s) p = Some a" "approval_moved a a'" "ap_status a' = Expired"
    "ap_expires_at a \<le> now" "ap_revision a = rv"
    "approval_event X eid a' EvApprovalExpired actor now s = (Inr e, u)"
    "commit_approval a' e u = (Inr (), t)"
proof -
  from assms obtain a n e u where a: "bm_get (st_approvals s) p = Some a" "ap_status a \<in> {Pending, Approved}"
    "ap_revision a = rv" "is_expired_at a now" "next_revision (ap_revision a) = Inr n"
    and a': "a' = a\<lparr>ap_status := Expired, ap_revision := n\<rparr>" and v: "validate_approval a' = Inr ()"
    and e: "approval_event X eid a' EvApprovalExpired actor now s = (Inr e, u)"
    and c: "commit_approval a' e u = (Inr (), t)"
    by (auto simp: expire_approval_def Let_def res_simps)
  have "approval_moved a a'"
    using a a' v by (auto simp: approval_moved_def same_binding_def next_revision_def res_simps)
  with a a' e c show ?thesis by (intro that [of a e u]) (auto simp: is_expired_at_def)
qed

lemma expire_approval_atomic:
  assumes "expire_approval X eid p rv actor now s = (Inl e, t)"
  shows "t = s"
  using assms
  by (auto simp: expire_approval_def Let_def res_simps dest!: step_dests commit_approval_atomic)

lemma expire_approval_sim:
  assumes "expire_approval X eid p rv actor now s = (res, t)" and inv: "store_inv X s"
  shows "sim X s t"
proof (cases res)
  case (Inl e)
  with assms expire_approval_atomic show ?thesis by blast
next
  case (Inr a')
  from assms(1) [unfolded Inr] show ?thesis
    by (rule expire_approval_ok) (rule settle_sim [OF inv], auto)
qed

definition consumed_as :: "approval_request \<Rightarrow> u64 \<Rightarrow> timestamp \<Rightarrow> approval_request" where
  "consumed_as a n now = a\<lparr>ap_status := Consumed, ap_revision := n, ap_consumed_at := Some now\<rparr>"

definition claim_of :: "action_request \<Rightarrow> actor_id \<Rightarrow> timestamp \<Rightarrow> action_claim" where
  "claim_of act actor now =
     \<lparr>cl_run_id = ac_run_id act, cl_action_id = ac_id act, cl_parameter_hash = ac_parameter_hash act,
      cl_actor = actor, cl_claimed_at = now\<rparr>"

lemma commit_consumption_ok:
  assumes "commit_consumption X eid eid' a r rv act actor now s = (Inr c, t)"
  obtains n e m sq e' es where "can_consume_at X a act rv now = Inr ()"
    "bm_get (st_action_claims s) (ac_id act) = None" "next_revision (ap_revision a) = Inr n"
    "validate_approval (consumed_as a n now) = Inr ()"
    "approval_event X eid (consumed_as a n now) EvApprovalConsumed actor now s = (Inr e, s)"
    "checked_add (r_revision r) 1 = Some m" "checked_add (ev_sequence e) 1 = Some sq"
    "build_event X eid' (with_run_status (new_audit_append actor now) Running) (r_id r) sq
       EvRuntimeStarted (Some (ev_event_hash e)) = Inr e'"
    "bm_get (st_audits s) (ap_run_id a) = Some es"
    "c = \<lparr>cn_approval = consumed_as a n now, cn_action_claim = claim_of act actor now\<rparr>"
    "t = s\<lparr>st_approvals := bm_insert (ap_id a) (consumed_as a n now) (st_approvals s),
           st_runs := bm_insert (r_id r) (advanced r Running m None now) (st_runs s),
           st_audits := bm_insert (ap_run_id a) (es @ [e, e']) (st_audits s),
           st_action_claims := bm_insert (ac_id act) (claim_of act actor now) (st_action_claims s)\<rparr>"
proof -
  from assms obtain n e v m sq e' es where k: "can_consume_at X a act rv now = Inr ()"
    "bm_get (st_action_claims s) (ac_id act) = None" "next_revision (ap_revision a) = Inr n"
    "validate_approval (consumed_as a n now) = Inr ()"
    and e: "approval_event X eid (consumed_as a n now) EvApprovalConsumed actor now s = (Inr e, v)"
    and l: "checked_add (r_revision r) 1 = Some m" "checked_add (ev_sequence e) 1 = Some sq"
      "build_event X eid' (with_run_status (new_audit_append actor now) Running) (r_id r) sq
         EvRuntimeStarted (Some (ev_event_hash e)) = Inr e'"
      "bm_get (st_audits v) (ap_run_id a) = Some es"
      "c = \<lparr>cn_approval = consumed_as a n now, cn_action_claim = claim_of act actor now\<rparr>"
      "t = v\<lparr>st_approvals := bm_insert (ap_id a) (consumed_as a n now) (st_approvals v),
           st_runs := bm_insert (r_id r) (advanced r Running m None now) (st_runs v),
           st_audits := bm_insert (ap_run_id a) (es @ [e, e']) (st_audits v),
           st_action_claims := bm_insert (ac_id act) (claim_of act actor now) (st_action_claims v)\<rparr>"
    by (auto simp: commit_consumption_def Let_def res_simps consumed_as_def claim_of_def)
  have "v = s" by (rule readingD [OF approval_event_reading e])
  with that [OF k _ l(1-3)] e l show ?thesis by simp
qed

lemma consume_approval_ok:
  assumes "consume_approval X eid eid' p rv act actor now s = (Inr c, t)"
  obtains a r where "bm_get (st_approvals s) p = Some a" "approval_window_run a s = (Inr r, s)"
    "commit_consumption X eid eid' a r rv act actor now s = (Inr c, t)"
proof -
  from assms obtain a r u where k: "bm_get (st_approvals s) p = Some a"
    "approval_window_run a s = (Inr r, u)" "commit_consumption X eid eid' a r rv act actor now u = (Inr c, t)"
    by (auto simp: consume_approval_def reject_mismatch_def res_simps split: if_splits)
  with readingD [OF window_run_reading k(2)] that show ?thesis by simp
qed

lemma consume_moved:
  assumes inv: "store_inv X s" and r: "bm_get (st_runs s) rid = Some r" "r_status r = AwaitingApproval"
    and e: "approval_event X eid a ty actor now s = (Inr e, s)" "ap_run_id a = rid"
    and m: "checked_add (r_revision r) 1 = Some m" "checked_add (ev_sequence e) 1 = Some sq"
    and e': "build_event X eid' (with_run_status (new_audit_append actor now) Running) (r_id r) sq
       EvRuntimeStarted (Some (ev_event_hash e)) = Inr e'"
    and es: "bm_get (st_audits s) rid = Some es"
  shows "moved X (abs_ledger s) rid Running (advanced r Running m None now)
    ((bm_get (st_audits s))(rid \<mapsto> es @ [e, e']))"
proof -
  have ge: "good_chain X rid (es @ [e])" and te: "ev_timestamp e = now"
    and se: "unat (ev_sequence e) = Suc (length es)"
    by (rule approval_event_ok [OF e(1) inv]; use e(2) es in \<open>auto simp: grown_def fun_upd_eqD\<close>)+
  have id: "r_id r = rid" by (rule store_invD(1) [OF inv r(1)])
  have "new_audit_event X eid' rid sq EvRuntimeStarted actor now
      (from_untrusted (details_metadata X (DetRunStatus Running))) (last_hash (es @ [e])) = Inr e'"
    using e' id by (simp add: build_event_def with_run_status_def new_audit_append_def last_hash_def)
  then have g: "good_chain X rid ((es @ [e]) @ [e'])" and te': "ev_timestamp e' = now"
    using good_chain_snoc [OF ge, of sq now] unat_checked_add [OF m(2)] se te
    by (simp_all add: audit_backwards_def)
  have "es \<noteq> []" "r_updated_at r \<le> ev_timestamp (last es)"
    using inv r(1) es by (auto simp: ledger_inv_def inv_runs_def)
  then have "r_updated_at r \<le> now" using good_chain_last [OF ge] te by simp
  then show ?thesis
    unfolding moved_def using r m(1) g te' es
    by (intro exI [of _ r] exI [of _ "[e, e']"] exI [of _ m] exI [of _ None]) (auto simp: grown_def)
qed

lemma consume_approval_sim_ok:
  assumes "consume_approval X eid eid' p rv act actor now s = (Inr c, t)" and inv: "store_inv X s"
  shows "sim X s t"
proof -
  obtain a r where a: "bm_get (st_approvals s) p = Some a" and w: "approval_window_run a s = (Inr r, s)"
    and k: "commit_consumption X eid eid' a r rv act actor now s = (Inr c, t)"
    using assms(1) by (rule consume_approval_ok)
  note w = window_run_ok [OF w]
  have p: "ap_id a = p" and id: "r_id r = ap_run_id a"
    using inv a w store_invD(1) [OF inv]
    by (auto simp: ledger_inv_def approval_entry_def dest: inv_approvalsD(2))
  show ?thesis
  proof (rule commit_consumption_ok [OF k])
    fix n e m sq e' es
    assume g: "can_consume_at X a act rv now = Inr ()" "bm_get (st_action_claims s) (ac_id act) = None"
      "next_revision (ap_revision a) = Inr n" "validate_approval (consumed_as a n now) = Inr ()"
      and ev: "approval_event X eid (consumed_as a n now) EvApprovalConsumed actor now s = (Inr e, s)"
        "checked_add (r_revision r) 1 = Some m" "checked_add (ev_sequence e) 1 = Some sq"
        "build_event X eid' (with_run_status (new_audit_append actor now) Running) (r_id r) sq
           EvRuntimeStarted (Some (ev_event_hash e)) = Inr e'"
        "bm_get (st_audits s) (ap_run_id a) = Some es"
      and t: "t = s\<lparr>st_approvals := bm_insert (ap_id a) (consumed_as a n now) (st_approvals s),
           st_runs := bm_insert (r_id r) (advanced r Running m None now) (st_runs s),
           st_audits := bm_insert (ap_run_id a) (es @ [e, e']) (st_audits s),
           st_action_claims := bm_insert (ac_id act) (claim_of act actor now) (st_action_claims s)\<rparr>"
    have b: "ac_id act = ap_action_id a" "ac_run_id act = ap_run_id a"
      "ac_parameter_hash act = ap_parameter_hash a" "ap_status a = Approved"
      using g(1) by (auto simp: can_consume_at_def binding_matches_def res_simps split: if_splits)
    have mv: "approval_moved a (consumed_as a n now)"
      using g(3,4) b(4) by (auto simp: approval_moved_def same_binding_def consumed_as_def
          next_revision_def res_simps)
    have m: "moved X (abs_ledger s) (ap_run_id a) Running (advanced r Running m None now)
        ((bm_get (st_audits s))(ap_run_id a \<mapsto> es @ [e, e']))"
      using w by (intro consume_moved [OF inv _ _ ev(1) _ ev(2-5)]) (simp_all add: consumed_as_def)
    show "sim X s t"
      by (rule sim_one [OF ledger_step.consume [OF m, of r p "consumed_as a n now" "claim_of act actor now"]])
        (use a w p id g b mv t in \<open>auto simp: claim_of_def consumed_as_def abs_ledger_def\<close>)
  qed
qed

lemma consume_approval_fail:
  assumes "consume_approval X eid eid' p rv act actor now s = (Inl x, t)"
  obtains "t = s"
  | a e where "bm_get (st_approvals s) p = Some a" "ap_status a = Approved" "ap_revision a = rv"
      "\<not> is_expired_at a now" "\<not> binding_matches X a act"
      "approval_event X eid a EvApprovalBindingMismatch actor now s = (Inr e, s)"
      "push_events (ap_run_id a) [e] s = (Inr (), t)"
      "x = approval_error ''approval binding does not match action''"
proof -
  from assms consider "bm_get (st_approvals s) p = None" "t = s"
    | a where "approval_window_run a s = (Inl x, t)"
    | a r u where "approval_window_run a s = (Inr r, u)"
        "commit_consumption X eid eid' a r rv act actor now u = (Inl x, t)"
    | a r u where "bm_get (st_approvals s) p = Some a" "approval_window_run a s = (Inr r, u)"
        "ap_status a = Approved" "ap_revision a = rv" "\<not> is_expired_at a now" "\<not> binding_matches X a act"
        "reject_mismatch X eid a actor now u = (Inl x, t)"
    by (auto simp: consume_approval_def res_simps split: if_splits)
  then show ?thesis
  proof cases
    case (2 a)
    with readingD [OF window_run_reading] that(1) show ?thesis by blast
  next
    case (3 a r u)
    have "t = u"
      using 3(2) by (auto simp: commit_consumption_def Let_def res_simps dest!: step_dests)
    with readingD [OF window_run_reading 3(1)] that(1) show ?thesis by simp
  next
    case (4 a r u)
    have us: "u = s" by (rule readingD [OF window_run_reading 4(2)])
    from 4(7) consider "approval_event X eid a EvApprovalBindingMismatch actor now s = (Inl x, t)"
      | e v where "approval_event X eid a EvApprovalBindingMismatch actor now s = (Inr e, v)"
          "push_events (ap_run_id a) [e] v = (Inl x, t)"
      | e v where "approval_event X eid a EvApprovalBindingMismatch actor now s = (Inr e, v)"
          "push_events (ap_run_id a) [e] v = (Inr (), t)"
          "x = approval_error ''approval binding does not match action''"
      by (auto simp: reject_mismatch_def bnd_err fail_with_iff us)
    then show ?thesis
    proof cases
      case 1
      with readingD [OF approval_event_reading] that(1) show ?thesis by blast
    next
      case (2 e v)
      with readingD [OF approval_event_reading 2(1)] atomicD [OF push_events_atomic 2(2)] that(1)
      show ?thesis by simp
    next
      case (3 e v)
      with readingD [OF approval_event_reading 3(1)] that(2) [OF 4(1,3-6)] show ?thesis by blast
    qed
  qed (use that in blast)
qed

lemma consume_approval_sim:
  assumes "consume_approval X eid eid' p rv act actor now s = (res, t)" and inv: "store_inv X s"
  shows "sim X s t"
proof (cases res)
  case (Inl x)
  from assms(1) [unfolded Inl] show ?thesis
  proof (cases rule: consume_approval_fail)
    case (2 a e)
    obtain es where es: "bm_get (st_audits s) (ap_run_id a) = Some es"
      and g: "grown X (abs_ledger s) (ap_run_id a) [e] ((bm_get (st_audits s))(ap_run_id a \<mapsto> es @ [e]))"
      using approval_event_ok [OF 2(6) inv] by metis
    from 2(7) es show ?thesis
      by (intro sim_one [OF ledger_step.append [OF g]]) (simp add: res_simps)
  qed simp
next
  case (Inr c)
  with assms consume_approval_sim_ok show ?thesis by blast
qed

end
