(* ===== verification/Store_Trace.thy ===== *)
theory Store_Trace
  imports Store_Refine
begin

text \<open>
  Histories of the execution store. A step is one call of one operation of the traits
  \<^verbatim>\<open>ExecutionStore\<close>, \<^verbatim>\<open>RunQueueRepository\<close> and \<^verbatim>\<open>ApprovalRepository\<close> with any arguments and
  any result; the mutex makes a concurrent execution a sequence of such steps. Every
  reachable state satisfies the ledger invariant and keeps its maps in key order, and a
  later state evolves from an earlier one.
\<close>

section \<open>Key order\<close>

lemma store_ordered_upd [simp]:
  "store_ordered s \<Longrightarrow> store_ordered (s\<lparr>st_runs := bm_insert a b (st_runs s)\<rparr>)"
  "store_ordered s \<Longrightarrow> store_ordered (s\<lparr>st_audits := bm_insert c d (st_audits s)\<rparr>)"
  "store_ordered s \<Longrightarrow> store_ordered (s\<lparr>st_artifacts := bm_insert e f (st_artifacts s)\<rparr>)"
  "store_ordered s \<Longrightarrow> store_ordered (s\<lparr>st_approvals := bm_insert g h (st_approvals s)\<rparr>)"
  "store_ordered s \<Longrightarrow> store_ordered (s\<lparr>st_approval_windows := bm_insert i j (st_approval_windows s)\<rparr>)"
  "store_ordered s \<Longrightarrow> store_ordered (s\<lparr>st_action_claims := bm_insert k l (st_action_claims s)\<rparr>)"
  "store_ordered s \<Longrightarrow> store_ordered (s\<lparr>st_leases := bm_insert m n (st_leases s)\<rparr>)"
  "store_ordered s \<Longrightarrow> store_ordered (s\<lparr>st_cancel_requested := bm_insert p q (st_cancel_requested s)\<rparr>)"
  "store_ordered s \<Longrightarrow> store_ordered (s\<lparr>st_leases := bm_remove m (st_leases s)\<rparr>)"
  "store_ordered s \<Longrightarrow> store_ordered (s\<lparr>st_cancel_requested := bm_remove m (st_cancel_requested s)\<rparr>)"
  by (simp_all add: store_ordered_def bm_insert_ordered bm_remove_ordered)

abbreviation keeps_order :: "'a store_op \<Rightarrow> bool" where
  "keeps_order \<equiv> preserves store_ordered"

lemma keeps_order_reading [preserves_intros]:
  "keeps_order (ensure_memory_audit_time rid ts upd)" "keeps_order (reject_unbound_leased_write rid)"
  "keeps_order (validate_memory_lease l r now)" "keeps_order (validate_artifact_batch rid b)"
  "keeps_order (approval_window_run a)" "keeps_order (approval_event X eid a ty actor ts)"
  "keeps_order (verify_execution_claim rc)"
  by (intro preserves_reading atomic_intros)+

lemma keeps_order_put [preserves_intros]:
  "keeps_order (put_run rid r)" "keeps_order (put_lease rid l)" "keeps_order (put_approval a)"
  "keeps_order (extend_artifacts rid b)" "keeps_order (drop_lease rid)" "keeps_order (push_events rid new)"
  unfolding put_run_def put_lease_def put_approval_def extend_artifacts_def drop_lease_def push_events_def
  by (intro preserves_intros preserves_modify; simp)+

lemma keeps_order_append [preserves_intros]:
  "keeps_order (append_memory_audit X eid rid actor ts ty)"
  "keeps_order (apply_memory_transition_with_reason X eid r nxt why ts actor ty)"
  "keeps_order (apply_memory_transition X eid r nxt ts actor ty)"
  unfolding apply_memory_transition_def apply_memory_transition_with_reason_def Let_def append_memory_audit_def
  by (intro preserves_intros)+

lemma keeps_order_execution:
  "keeps_order (create_run X eid r audit)"
  "keeps_order (transition_run X eid rid rv nxt why audit)"
  "keeps_order (append_audit X eid rid ty audit)"
  "keeps_order (reconcile_action_execution X eid rc audit)"
  "keeps_order (record_artifacts X ids rid batch audit)"
  unfolding create_run_def transition_run_def append_audit_def reconcile_action_execution_def
    record_artifacts_def Let_def
  by (intro preserves_intros preserves_modify; simp)+

lemma preserves_case_option [preserves_intros]:
  "preserves P m \<Longrightarrow> (\<And>x. preserves P (f x)) \<Longrightarrow> preserves P (case y of None \<Rightarrow> m | Some x \<Rightarrow> f x)"
  by (cases y) simp_all

lemma preserves_case_prod [preserves_intros]:
  "(\<And>a b. preserves P (f a b)) \<Longrightarrow> preserves P (case p of (a, b) \<Rightarrow> f a b)"
  by (cases p) simp

lemma keeps_order_recover: "keeps_order (recover_each X ids actor now n rids)"
proof (induction rids arbitrary: n)
  case (Cons rid rids)
  have "keeps_order (recover_one X (ids n) actor now rid)"
    unfolding recover_one_def by (intro preserves_intros)
  with Cons show ?case by (simp add: preserves_intros)
qed (simp add: preserves_intros)

lemma keeps_order_cancel_flag:
  "store_ordered s \<Longrightarrow> store_ordered (case bm_get (st_leases s) rid of
     None \<Rightarrow> s | Some l \<Rightarrow> s\<lparr>st_leases := bm_insert rid (l\<lparr>ls_cancel_requested := True\<rparr>) (st_leases s)\<rparr>)"
  by (simp split: option.splits)

lemma keeps_order_queue:
  "keeps_order (claim_next_run X eid token owner now ttl)"
  "keeps_order (heartbeat_lease X lease now ttl)"
  "keeps_order (transition_leased_run X eid lease rv nxt now)"
  "keeps_order (complete_leased_run X eid lease rv nxt why now)"
  "keeps_order (append_leased_runtime_audit X eid lease rv ty now)"
  "keeps_order (record_leased_artifacts X ids lease rv batch now)"
  "keeps_order (request_cancel X eid rid actor now)"
  "keeps_order (confirm_cancel X eid lease now ev)"
  "keeps_order (recover_expired_leases X ids actor now)"
  unfolding claim_next_run_def heartbeat_lease_def transition_leased_run_def complete_leased_run_def
    append_leased_runtime_audit_def record_leased_artifacts_def request_cancel_def confirm_cancel_def
    recover_expired_leases_def Let_def
  by (intro preserves_intros preserves_modify keeps_order_recover keeps_order_cancel_flag; simp)+

lemma keeps_order_approvals:
  "keeps_order (create_approval X eid req actor now)"
  "keeps_order (decide_approval X eid p rv d actor why now)"
  "keeps_order (expire_approval X eid p rv actor now)"
  "keeps_order (consume_approval X eid eid' p rv act actor now)"
  unfolding create_approval_def decide_approval_def expire_approval_def consume_approval_def
    reject_mismatch_def commit_consumption_def commit_approval_def Let_def
  by (intro preserves_intros preserves_modify; simp)+

section \<open>Calls\<close>

datatype store_call =
    CallCreateRun audit_event_id run audit_append
  | CallTransitionRun audit_event_id run_id u64 run_status "string option" audit_append
  | CallAppendAudit audit_event_id run_id audit_event_type audit_append
  | CallReconcile audit_event_id execution_receipt audit_append
  | CallRecordArtifacts "nat \<Rightarrow> audit_event_id" run_id "artifact list" audit_append
  | CallClaimNext audit_event_id lease_token actor_id timestamp int
  | CallHeartbeat run_lease timestamp int
  | CallTransitionLeased audit_event_id run_lease u64 run_status timestamp
  | CallCompleteLeased audit_event_id run_lease u64 run_status "string option" timestamp
  | CallAppendLeased audit_event_id run_lease u64 audit_event_type timestamp
  | CallRecordLeased "nat \<Rightarrow> audit_event_id" run_lease u64 "artifact list" timestamp
  | CallRequestCancel audit_event_id run_id actor_id timestamp
  | CallConfirmCancel audit_event_id run_lease timestamp cancellation_evidence
  | CallRecoverExpired "nat \<Rightarrow> audit_event_id" actor_id timestamp
  | CallCreateApproval audit_event_id approval_request actor_id timestamp
  | CallDecideApproval audit_event_id approval_id u64 approval_decision actor_id "string option" timestamp
  | CallExpireApproval audit_event_id approval_id u64 actor_id timestamp
  | CallConsumeApproval audit_event_id audit_event_id approval_id u64 action_request actor_id timestamp

definition outcome :: "'a store_op \<Rightarrow> state \<Rightarrow> openwork_error option \<times> state" where
  "outcome m s = (case m s of (Inl e, t) \<Rightarrow> (Some e, t) | (Inr x, t) \<Rightarrow> (None, t))"

fun exec_call :: "ext \<Rightarrow> store_call \<Rightarrow> state \<Rightarrow> openwork_error option \<times> state" where
  "exec_call X (CallCreateRun eid r audit) = outcome (create_run X eid r audit)"
| "exec_call X (CallTransitionRun eid rid rv nxt why audit) =
     outcome (transition_run X eid rid rv nxt why audit)"
| "exec_call X (CallAppendAudit eid rid ty audit) = outcome (append_audit X eid rid ty audit)"
| "exec_call X (CallReconcile eid rc audit) = outcome (reconcile_action_execution X eid rc audit)"
| "exec_call X (CallRecordArtifacts ids rid batch audit) =
     outcome (record_artifacts X ids rid batch audit)"
| "exec_call X (CallClaimNext eid token owner now ttl) =
     outcome (claim_next_run X eid token owner now ttl)"
| "exec_call X (CallHeartbeat lease now ttl) = outcome (heartbeat_lease X lease now ttl)"
| "exec_call X (CallTransitionLeased eid lease rv nxt now) =
     outcome (transition_leased_run X eid lease rv nxt now)"
| "exec_call X (CallCompleteLeased eid lease rv nxt why now) =
     outcome (complete_leased_run X eid lease rv nxt why now)"
| "exec_call X (CallAppendLeased eid lease rv ty now) =
     outcome (append_leased_runtime_audit X eid lease rv ty now)"
| "exec_call X (CallRecordLeased ids lease rv batch now) =
     outcome (record_leased_artifacts X ids lease rv batch now)"
| "exec_call X (CallRequestCancel eid rid actor now) = outcome (request_cancel X eid rid actor now)"
| "exec_call X (CallConfirmCancel eid lease now ev) = outcome (confirm_cancel X eid lease now ev)"
| "exec_call X (CallRecoverExpired ids actor now) = outcome (recover_expired_leases X ids actor now)"
| "exec_call X (CallCreateApproval eid req actor now) = outcome (create_approval X eid req actor now)"
| "exec_call X (CallDecideApproval eid p rv d actor why now) =
     outcome (decide_approval X eid p rv d actor why now)"
| "exec_call X (CallExpireApproval eid p rv actor now) = outcome (expire_approval X eid p rv actor now)"
| "exec_call X (CallConsumeApproval eid eid' p rv act actor now) =
     outcome (consume_approval X eid eid' p rv act actor now)"

inductive store_step :: "ext \<Rightarrow> state \<Rightarrow> state \<Rightarrow> bool" for X where
  call: "exec_call X c s = (err, t) \<Longrightarrow> store_step X s t"

definition reachable :: "ext \<Rightarrow> state \<Rightarrow> bool" where
  "reachable X s = (store_step X)\<^sup>*\<^sup>* empty_state s"

inductive_cases store_step_elim: "store_step X s t"

lemma outcome_cases:
  assumes "outcome m s = (err, t)"
  obtains e where "m s = (Inl e, t)" "err = Some e" | x where "m s = (Inr x, t)" "err = None"
  using assms by (auto simp: outcome_def split: prod.splits sum.splits)

lemma outcome_state: "outcome m s = (err, t) \<Longrightarrow> \<exists>r. m s = (r, t)"
  by (auto elim: outcome_cases)

lemma outcome_error: "outcome m s = (Some e, t) \<Longrightarrow> m s = (Inl e, t)"
  by (auto elim: outcome_cases)

lemma outcome_intro: "m s = (r, t) \<Longrightarrow> \<exists>err. outcome m s = (err, t)"
  by (cases r) (simp_all add: outcome_def)

lemma exec_call_sim:
  assumes "exec_call X c s = (err, t)" and "store_inv X s" and "store_ordered s"
  shows "sim X s t"
  using assms
  by (cases c)
    (auto dest!: outcome_state intro: create_run_sim transition_run_sim append_audit_sim reconcile_sim
      record_artifacts_sim claim_next_run_sim heartbeat_sim transition_leased_sim complete_leased_sim
      append_leased_sim record_leased_sim request_cancel_sim confirm_cancel_sim recover_expired_sim
      create_approval_sim decide_approval_sim expire_approval_sim consume_approval_sim)

lemma exec_call_ordered:
  assumes "exec_call X c s = (err, t)" and "store_ordered s"
  shows "store_ordered t"
  using assms
  by (cases c)
    (auto dest!: outcome_state intro: preservesD [OF keeps_order_execution(1)]
      preservesD [OF keeps_order_execution(2)] preservesD [OF keeps_order_execution(3)]
      preservesD [OF keeps_order_execution(4)] preservesD [OF keeps_order_execution(5)]
      preservesD [OF keeps_order_queue(1)] preservesD [OF keeps_order_queue(2)]
      preservesD [OF keeps_order_queue(3)] preservesD [OF keeps_order_queue(4)]
      preservesD [OF keeps_order_queue(5)] preservesD [OF keeps_order_queue(6)]
      preservesD [OF keeps_order_queue(7)] preservesD [OF keeps_order_queue(8)]
      preservesD [OF keeps_order_queue(9)] preservesD [OF keeps_order_approvals(1)]
      preservesD [OF keeps_order_approvals(2)] preservesD [OF keeps_order_approvals(3)]
      preservesD [OF keeps_order_approvals(4)])

definition sound :: "ext \<Rightarrow> state \<Rightarrow> bool" where
  "sound X s = (store_inv X s \<and> store_ordered s)"

definition succeeds :: "state \<Rightarrow> state \<Rightarrow> bool" where
  \<comment> \<open>the second state is a possible later state of the first\<close>
  "succeeds s t = evolves (abs_ledger s) (abs_ledger t)"

lemma store_step_sound: "store_step X s t \<Longrightarrow> sound X s \<Longrightarrow> sound X t"
  using ledger_history.steps_inv exec_call_sim exec_call_ordered
  by (auto simp: sound_def elim!: store_step_elim) blast

lemma store_step_succeeds: "store_step X s t \<Longrightarrow> sound X s \<Longrightarrow> succeeds s t"
  using ledger_history.steps_later exec_call_sim
  by (auto simp: sound_def succeeds_def elim!: store_step_elim) blast

interpretation store_history: history "store_step X" "sound X" succeeds for X
  by unfold_locales
    (auto intro: store_step_sound store_step_succeeds [unfolded succeeds_def] evolves_trans simp: succeeds_def)

lemma empty_state_sound: "sound X empty_state"
proof -
  have "abs_ledger empty_state = empty_ledger"
    by (simp add: abs_ledger_def empty_state_def empty_ledger_def fun_eq_iff)
  then show ?thesis
    by (simp add: sound_def empty_ledger_inv store_ordered_def empty_state_def)
qed

lemma reachable_sound: "reachable X s \<Longrightarrow> sound X s"
  unfolding reachable_def by (rule store_history.steps_inv [OF _ empty_state_sound])

lemma reachable_later:
  "reachable X s \<Longrightarrow> (store_step X)\<^sup>*\<^sup>* s t \<Longrightarrow> reachable X t \<and> succeeds s t"
  using store_history.steps_later [OF _ reachable_sound] by (auto simp: reachable_def)

section \<open>What a later state keeps\<close>

lemma pointwiseE:
  assumes "pointwise R f g" and "f k = Some v"
  obtains w where "g k = Some w" "R v w"
  using assms unfolding pointwise_def by blast

lemma later_run:
  assumes "succeeds s t" and "bm_get (st_runs s) rid = Some r"
  obtains r' where "bm_get (st_runs t) rid = Some r'" "run_evolves r r'"
  using assms unfolding succeeds_def evolves_def by (auto elim: pointwiseE)

lemma later_audit:
  assumes "succeeds s t" and "bm_get (st_audits s) rid = Some es"
  obtains es' where "bm_get (st_audits t) rid = Some es'" "prefix es es'"
  using assms unfolding succeeds_def evolves_def by (auto elim: pointwiseE)

lemma later_artifacts:
  assumes "succeeds s t" and "bm_get (st_artifacts s) rid = Some l"
  obtains l' where "bm_get (st_artifacts t) rid = Some l'" "prefix l l'"
  using assms unfolding succeeds_def evolves_def by (auto elim: pointwiseE)

lemma later_approval:
  assumes "succeeds s t" and "bm_get (st_approvals s) p = Some a"
  obtains a' where "bm_get (st_approvals t) p = Some a'" "approval_evolves a a'"
  using assms unfolding succeeds_def evolves_def by (auto elim: pointwiseE)

lemma later_claim:
  "succeeds s t \<Longrightarrow> bm_get (st_action_claims s) x = Some c \<Longrightarrow> bm_get (st_action_claims t) x = Some c"
  by (auto simp: succeeds_def evolves_def pointwise_def)

lemma later_window:
  "succeeds s t \<Longrightarrow> bm_get (st_approval_windows s) p = Some w \<Longrightarrow> bm_get (st_approval_windows t) p = Some w"
  by (auto simp: succeeds_def evolves_def pointwise_def)

lemma relpowp_terminal: "(can_transition_to ^^ n) st st' \<Longrightarrow> is_terminal st \<Longrightarrow> n = 0"
  by (cases n) (auto simp: relpowp_Suc_left OO_def simp del: relpowp.simps dest: run_life.terminal_stuck)

lemma run_evolves_terminal: "run_evolves r r' \<Longrightarrow> is_terminal (r_status r) \<Longrightarrow> r' = r"
  unfolding run_evolves_def by (auto dest: relpowp_terminal)

lemma run_evolves_queued: "run_evolves r r' \<Longrightarrow> r_status r' = Queued \<Longrightarrow> r' = r"
proof -
  assume "run_evolves r r'" and q: "r_status r' = Queued"
  then obtain n where n: "(can_transition_to ^^ n) (r_status r) Queued" "n = 0 \<longrightarrow> r' = r"
    unfolding run_evolves_def by auto
  then show "r' = r" by (cases n) (auto simp: no_return_to_queued)
qed

lemma run_evolves_revision: "run_evolves r r' \<Longrightarrow> r_revision r' = r_revision r \<Longrightarrow> r' = r"
  unfolding run_evolves_def by auto

lemma run_evolves_mono: "run_evolves r r' \<Longrightarrow> r_revision r \<le> r_revision r'"
  unfolding run_evolves_def by (auto simp: word_le_nat_alt)

lemma outcome_step: "m s = (r, t) \<Longrightarrow> exec_call X c = outcome m \<Longrightarrow> store_step X s t"
  using outcome_intro [of m s r t] by (auto intro: store_step.call [of X c])

lemma call_step:
  "transition_run X eid rid rv nxt why audit s = (r1, t) \<Longrightarrow> store_step X s t"
  "consume_approval X eid eid' p rv act actor now s = (r2, t) \<Longrightarrow> store_step X s t"
  "claim_next_run X eid token owner now ttl s = (r3, t) \<Longrightarrow> store_step X s t"
  "reconcile_action_execution X eid rc audit s = (r4, t) \<Longrightarrow> store_step X s t"
  by (erule outcome_step, rule exec_call.simps)+

section \<open>Sequences of calls\<close>

fun run_calls :: "ext \<Rightarrow> store_call list \<Rightarrow> state \<Rightarrow> state" where
  "run_calls X [] s = s"
| "run_calls X (c # cs) s = run_calls X cs (snd (exec_call X c s))"

lemma run_calls_steps: "(store_step X)\<^sup>*\<^sup>* s (run_calls X cs s)"
proof (induction cs arbitrary: s)
  case (Cons c cs)
  have "store_step X s (snd (exec_call X c s))" by (rule store_step.call [of X c s "fst (exec_call X c s)"]) simp
  with Cons.IH show ?case by (auto intro: converse_rtranclp_into_rtranclp)
qed simp

lemma run_calls_reachable: "reachable X s \<Longrightarrow> reachable X (run_calls X cs s)"
  using run_calls_steps [of X s cs] by (auto simp: reachable_def)

section \<open>Properties\<close>

text \<open>
  C4. Every state the store can reach keeps, for every run, an audit chain that verifies from
  its genesis event: each event carries the next sequence number, the hash of its own content
  and the hash of its predecessor, names the run, and is not dated before its predecessor; and
  the run's update time is not after the last event.
\<close>

theorem reachable_chain_verifies:
  assumes "reachable X s" and "bm_get (st_runs s) rid = Some r"
  shows "\<exists>es. bm_get (st_audits s) rid = Some es \<and> es \<noteq> [] \<and> verify_chain X es
    \<and> (\<forall>e \<in> set es. ev_run_id e = rid) \<and> sorted (map ev_timestamp es)
    \<and> r_updated_at r \<le> ev_timestamp (last es)"
proof -
  have inv: "store_inv X s" using reachable_sound [OF assms(1)] by (simp add: sound_def)
  obtain es where es: "bm_get (st_audits s) rid = Some es" "es \<noteq> []"
    using store_invD(4) [OF inv assms(2)] by blast
  then have "good_chain X rid es \<and> r_updated_at r \<le> ev_timestamp (last es)"
    using inv assms(2) by (auto simp: ledger_inv_def inv_runs_def)
  with es show ?thesis by (auto simp: good_chain_def)
qed

text \<open>
  C5. Every operation of the store, on every branch, takes zero or more steps of the abstract
  ledger: the in-memory store refines the ledger's specification.
\<close>

theorem store_refines_ledger:
  assumes "reachable X s" and "exec_call X c s = (err, t)"
  shows "(ledger_step X)\<^sup>*\<^sup>* (abs_ledger s) (abs_ledger t)"
  using exec_call_sim [OF assms(2)] reachable_sound [OF assms(1)] by (simp add: sound_def)

text \<open>
  The audit trail is append-only: along any history of calls, what a run's chain holds stays
  a prefix of what it holds later.
\<close>

theorem audit_append_only:
  assumes "reachable X s" and "(store_step X)\<^sup>*\<^sup>* s t" and "bm_get (st_audits s) rid = Some es"
  shows "\<exists>more. bm_get (st_audits t) rid = Some (es @ more)"
proof -
  have "succeeds s t" using reachable_later [OF assms(1,2)] by simp
  then show ?thesis using assms(3) by (rule later_audit) (auto elim: prefixE)
qed

text \<open>
  A terminal run is final: no later call of any operation changes any of its fields.
\<close>

theorem terminal_run_frozen:
  assumes "reachable X s" and "(store_step X)\<^sup>*\<^sup>* s t"
    and "bm_get (st_runs s) rid = Some r" and "is_terminal (r_status r)"
  shows "bm_get (st_runs t) rid = Some r"
proof -
  have "succeeds s t" using reachable_later [OF assms(1,2)] by simp
  then show ?thesis
    using assms(3) by (rule later_run) (use run_evolves_terminal assms(4) in blast)
qed

text \<open>
  Revisions are compare-and-swap tokens: once a transition at some revision has succeeded, every
  later transition of that run at the same revision is rejected and changes nothing.
\<close>

theorem transition_revision_used_once:
  assumes "reachable X s" and "transition_run X eid rid rv nxt why audit s = (Inr r, t)"
    and "(store_step X)\<^sup>*\<^sup>* t u"
  shows "\<exists>e. transition_run X eid' rid rv nxt' why' audit' u = (Inl e, u)"
proof -
  have inv: "store_inv X s" using reachable_sound [OF assms(1)] by (simp add: sound_def)
  obtain au q where m: "moved X (abs_ledger s) rid nxt r au"
    "abs_ledger t = (abs_ledger s)\<lparr>lg_runs := (bm_get (st_runs s))(rid \<mapsto> r), lg_audits := au\<rparr>"
    and q: "bm_get (st_runs s) rid = Some q" "r_revision q = rv"
    using transition_run_ok [OF assms(2) inv] by blast
  have gt: "rv < r_revision r" using m(1) q by (auto elim!: moved_runs)
  have t: "bm_get (st_runs t) rid = Some r"
    using arg_cong [OF m(2), of lg_runs] by (simp add: fun_eq_iff)
  have "reachable X t"
    using assms(1) call_step(1) [OF assms(2)] by (auto simp: reachable_def)
  then have "succeeds t u" using reachable_later [OF _ assms(3)] by simp
  then obtain r' where r': "bm_get (st_runs u) rid = Some r'" "run_evolves r r'"
    using t by (rule later_run)
  then have "r_revision r' \<noteq> rv" using run_evolves_mono gt by fastforce
  then have "fst (transition_run X eid' rid rv nxt' why' audit' u) \<noteq> Inr x" for x
    using r'(1) by (auto simp: transition_run_def Let_def bnd_def check_def lookup_def asks_def
        ensure_def split: if_splits)
  then obtain e v where "transition_run X eid' rid rv nxt' why' audit' u = (Inl e, v)"
    by (metis fst_conv obj_sumE surj_pair)
  with transition_run_atomic show ?thesis by blast
qed

lemma reachable_step: "reachable X s \<Longrightarrow> store_step X s t \<Longrightarrow> reachable X t"
  by (auto simp: reachable_def)

lemma reachable_inv: "reachable X s \<Longrightarrow> store_inv X s"
  using reachable_sound by (auto simp: sound_def)

lemma consume_facts:
  assumes "consume_approval X eid eid' p rv act actor now s = (Inr c, t)" and "store_inv X s"
  shows "cn_action_claim c = claim_of act actor now"
    and "bm_get (st_action_claims s) (ac_id act) = None"
    and "bm_get (st_action_claims t) (ac_id act) = Some (cn_action_claim c)"
    and "\<exists>a r. bm_get (st_approvals s) p = Some a \<and> can_consume_at X a act rv now = Inr ()
      \<and> bm_get (st_runs s) (ap_run_id a) = Some r \<and> r_status r = AwaitingApproval
      \<and> bm_get (st_approval_windows s) p = Some (r_revision r)
      \<and> bm_get (st_approvals t) p = Some (cn_approval c) \<and> ap_status (cn_approval c) = Consumed
      \<and> (\<exists>m. checked_add (r_revision r) 1 = Some m
          \<and> bm_get (st_runs t) (ap_run_id a) = Some (advanced r Running m None now))"
proof -
  obtain a r where a: "bm_get (st_approvals s) p = Some a" and w: "approval_window_run a s = (Inr r, s)"
    and k: "commit_consumption X eid eid' a r rv act actor now s = (Inr c, t)"
    using assms(1) by (rule consume_approval_ok)
  have p: "ap_id a = p" and id: "r_id r = ap_run_id a"
    using assms(2) a window_run_ok [OF w] store_invD(1) [OF assms(2)]
    by (auto simp: ledger_inv_def approval_entry_def dest: inv_approvalsD(2))
  from k show "cn_action_claim c = claim_of act actor now" by (rule commit_consumption_ok) simp
  from k show "bm_get (st_action_claims s) (ac_id act) = None" by (rule commit_consumption_ok)
  from k show "bm_get (st_action_claims t) (ac_id act) = Some (cn_action_claim c)"
    by (rule commit_consumption_ok) simp
  from k show "\<exists>a r. bm_get (st_approvals s) p = Some a \<and> can_consume_at X a act rv now = Inr ()
      \<and> bm_get (st_runs s) (ap_run_id a) = Some r \<and> r_status r = AwaitingApproval
      \<and> bm_get (st_approval_windows s) p = Some (r_revision r)
      \<and> bm_get (st_approvals t) p = Some (cn_approval c) \<and> ap_status (cn_approval c) = Consumed
      \<and> (\<exists>m. checked_add (r_revision r) 1 = Some m
          \<and> bm_get (st_runs t) (ap_run_id a) = Some (advanced r Running m None now))"
    by (rule commit_consumption_ok)
      (use a window_run_ok [OF w] p id in \<open>auto simp: consumed_as_def intro!: exI [of _ a] exI [of _ r]\<close>)
qed

text \<open>
  C1. An approval authorizes one action once: after a consumption succeeds, every later attempt to
  consume the same approval, or any approval for the same action, fails.
\<close>

theorem approval_consumed_once:
  assumes "reachable X s" and "consume_approval X e1 e2 p rv act actor now s = (Inr c, t)"
    and "(store_step X)\<^sup>*\<^sup>* t u" and "p' = p \<or> ac_id act' = ac_id act"
  shows "\<exists>e v. consume_approval X e3 e4 p' rv' act' actor' now' u = (Inl e, v)"
proof -
  note f = consume_facts [OF assms(2) reachable_inv [OF assms(1)]]
  have t: "reachable X t" by (rule reachable_step [OF assms(1) call_step(2) [OF assms(2)]])
  then have u: "reachable X u" and later: "succeeds t u" using reachable_later [OF _ assms(3)] by simp_all
  have claimed: "bm_get (st_action_claims u) (ac_id act) = Some (cn_action_claim c)"
    by (rule later_claim [OF later f(3)])
  have False if ok: "consume_approval X e3 e4 p' rv' act' actor' now' u = (Inr d, v)" for d v
  proof -
    note g = consume_facts [OF ok reachable_inv [OF u]]
    from g(4) obtain b where b: "bm_get (st_approvals u) p' = Some b"
      "can_consume_at X b act' rv' now' = Inr ()" by blast
    then have "ap_status b = Approved" by (auto simp: can_consume_at_def res_simps split: if_splits)
    from f(4) obtain a where a: "bm_get (st_approvals t) p = Some (cn_approval c)"
      "ap_status (cn_approval c) = Consumed" by blast
    obtain a' where a': "bm_get (st_approvals u) p = Some a'" "approval_evolves (cn_approval c) a'"
      using later a(1) by (rule later_approval)
    then have "ap_status a' = Consumed"
      using a(2) unfolding approval_evolves_def by (metis approval_can_transition_to.simps(5) relpowp_E2)
    with a'(1) b(1) \<open>ap_status b = Approved\<close> have "p' \<noteq> p" by auto
    then have "ac_id act' = ac_id act" using assms(4) by simp
    with claimed g(2) show False by simp
  qed
  then show ?thesis by (metis obj_sumE surj_pair)
qed

text \<open>
  C2. A consumption that succeeds was authorized exactly: the approval was approved, unexpired, at the
  presented revision, bound to this run, this action and the hash of these parameters, and made for
  the run's current awaiting window; it moves the run to running and the approval to consumed and
  leaves the claim.
\<close>

theorem consumption_is_exact:
  assumes "reachable X s" and "consume_approval X e1 e2 p rv act actor now s = (Inr c, t)"
  shows "\<exists>a r m. bm_get (st_approvals s) p = Some a \<and> ap_status a = Approved \<and> ap_revision a = rv
    \<and> now < ap_expires_at a \<and> ap_run_id a = ac_run_id act \<and> ap_action_id a = ac_id act
    \<and> action_parameter_hash X (ac_run_id act) (ac_id act) (ac_action act) (ac_resource act)
        (ac_parameters act) = Inr (ap_parameter_hash a)
    \<and> bm_get (st_runs s) (ac_run_id act) = Some r \<and> r_status r = AwaitingApproval
    \<and> bm_get (st_approval_windows s) p = Some (r_revision r)
    \<and> bm_get (st_runs t) (ac_run_id act) = Some (advanced r Running m None now)
    \<and> bm_get (st_approvals t) p = Some (cn_approval c) \<and> ap_status (cn_approval c) = Consumed
    \<and> bm_get (st_action_claims t) (ac_id act) = Some (claim_of act actor now)"
proof -
  note f = consume_facts [OF assms(2) reachable_inv [OF assms(1)]]
  obtain a r m where a: "bm_get (st_approvals s) p = Some a" "can_consume_at X a act rv now = Inr ()"
    "bm_get (st_runs s) (ap_run_id a) = Some r" "r_status r = AwaitingApproval"
    "bm_get (st_approval_windows s) p = Some (r_revision r)"
    "bm_get (st_approvals t) p = Some (cn_approval c)" "ap_status (cn_approval c) = Consumed"
    "bm_get (st_runs t) (ap_run_id a) = Some (advanced r Running m None now)"
    using f(4) by blast
  have b: "ap_status a = Approved" "ap_revision a = rv" "now < ap_expires_at a"
    "ap_run_id a = ac_run_id act" "ap_action_id a = ac_id act"
    "action_parameter_hash X (ac_run_id act) (ac_id act) (ac_action act) (ac_resource act)
        (ac_parameters act) = Inr (ap_parameter_hash a)"
    using a(2) by (auto simp: can_consume_at_def binding_matches_def parameters_match_hash_def
        is_expired_at_def res_simps split: if_splits sum.splits)
  from a b f(1,3) show ?thesis
    by (intro exI [of _ a] exI [of _ r] exI [of _ m]) simp
qed

lemma claim_facts:
  assumes "claim_next_run X eid tok owner now ttl s = (Inr (Some l), t)" and "sound X s"
  shows "\<exists>r. bm_get (st_runs s) (r_id (ls_run l)) = Some r \<and> r_status r = Queued
      \<and> min_by_age (claim_candidates s) = Some (r_id (ls_run l), r)"
    and "bm_get (st_runs t) (r_id (ls_run l)) = Some (ls_run l)" and "r_status (ls_run l) = Planning"
    and "bm_get (st_leases t) (r_id (ls_run l)) = Some l"
    and "ls_token l = tok" "ls_owner l = owner" "ls_acquired_at l = now"
    and "checked_lease_expiry X now ttl = Inr (ls_expires_at l)"
proof -
  have inv: "store_inv X s" and o: "bm_ordered (st_runs s)"
    using assms(2) by (simp_all add: sound_def store_ordered_def)
  obtain rid r r' es e cand where c: "min_by_age (claim_candidates s) = Some (rid, cand)"
    and r: "bm_get (st_runs s) rid = Some r"
    and m: "moved X (abs_ledger s) rid Planning r' ((bm_get (st_audits s))(rid \<mapsto> es @ [e]))"
    and l: "ls_run l = r'" "ls_token l = tok" "ls_owner l = owner" "ls_acquired_at l = now"
      "checked_lease_expiry X now ttl = Inr (ls_expires_at l)" "r_status r' = Planning"
    and t: "t = s\<lparr>st_audits := bm_insert rid (es @ [e]) (st_audits s),
         st_runs := bm_insert rid r' (st_runs s), st_leases := bm_insert rid l (st_leases s)\<rparr>"
    using assms(1) inv by (rule claim_next_run_ok)
  have id: "r_id r' = rid" using m r store_invD(1) [OF inv r] by (auto elim!: moved_runs)
  have "(rid, cand) \<in> set (st_runs s)" "r_status cand = Queued"
    using min_by_age_in [OF c] by (auto simp: claim_candidates_def)
  then have "cand = r" using r bm_mem_get [OF o] by simp
  with c r l id t \<open>r_status cand = Queued\<close> show "\<exists>r. bm_get (st_runs s) (r_id (ls_run l)) = Some r
      \<and> r_status r = Queued \<and> min_by_age (claim_candidates s) = Some (r_id (ls_run l), r)"
    and "bm_get (st_runs t) (r_id (ls_run l)) = Some (ls_run l)" and "r_status (ls_run l) = Planning"
    and "bm_get (st_leases t) (r_id (ls_run l)) = Some l"
    and "ls_token l = tok" "ls_owner l = owner" "ls_acquired_at l = now"
    and "checked_lease_expiry X now ttl = Inr (ls_expires_at l)"
    by auto
qed

lemma lease_active:
  assumes "store_inv X s" and "bm_get (st_leases s) rid = Some l"
  shows "\<exists>r. bm_get (st_runs s) rid = Some r \<and> active (r_status r)"
  using assms unfolding ledger_inv_def inv_leases_def abs_ledger_sel by blast

lemma queued_not_leased:
  assumes "store_inv X s" and "bm_get (st_runs s) rid = Some r" and "r_status r = Queued"
  shows "bm_get (st_leases s) rid = None"
proof (rule ccontr)
  assume "bm_get (st_leases s) rid \<noteq> None"
  then obtain l where "bm_get (st_leases s) rid = Some l" by blast
  with assms lease_active show False by (fastforce simp: active_def)
qed

text \<open>
  A claim that returns a lease takes the oldest queued run (ties broken by identifier) and leaves
  it in planning, held under the fresh token and the owner that claimed it.
\<close>

theorem claim_takes_oldest:
  assumes "reachable X s" and "claim_next_run X eid tok owner now ttl s = (Inr (Some l), t)"
  shows "\<exists>r. bm_get (st_runs s) (r_id (ls_run l)) = Some r \<and> r_status r = Queued
    \<and> (\<forall>i q. bm_get (st_runs s) i = Some q \<and> r_status q = Queued \<longrightarrow>
         (r_created_at r, r_id (ls_run l)) \<le> (r_created_at q, i))
    \<and> bm_get (st_runs t) (r_id (ls_run l)) = Some (ls_run l) \<and> r_status (ls_run l) = Planning
    \<and> bm_get (st_leases t) (r_id (ls_run l)) = Some l \<and> ls_token l = tok \<and> ls_owner l = owner"
proof -
  have snd: "sound X s" and inv: "store_inv X s" and o: "bm_ordered (st_runs s)"
    using reachable_sound [OF assms(1)] by (simp_all add: sound_def store_ordered_def)
  note f = claim_facts [OF assms(2) snd]
  obtain r where r: "bm_get (st_runs s) (r_id (ls_run l)) = Some r" "r_status r = Queued"
    "min_by_age (claim_candidates s) = Some (r_id (ls_run l), r)" using f(1) by blast
  have "(r_created_at r, r_id (ls_run l)) \<le> (r_created_at q, i)"
    if q: "bm_get (st_runs s) i = Some q" "r_status q = Queued" for i q
  proof -
    have "(i, q) \<in> set (claim_candidates s)"
      using q queued_not_leased [OF inv q] bm_mem_get [OF o] by (simp add: claim_candidates_def)
    from min_by_age_least [OF r(3) this] show ?thesis by (simp only: fst_conv snd_conv)
  qed
  with r f(2-6) show ?thesis by blast
qed

lemma claimed_stays_claimed:
  assumes "reachable X s" and "claim_next_run X e1 tok owner now ttl s = (Inr (Some l), t)" and "(store_step X)\<^sup>*\<^sup>* t u"
  obtains r where "reachable X u" "bm_get (st_runs u) (r_id (ls_run l)) = Some r" "r_status r \<noteq> Queued"
proof -
  note f = claim_facts [OF assms(2) reachable_sound [OF assms(1)]]
  have t: "reachable X t" by (rule reachable_step [OF assms(1) call_step(3) [OF assms(2)]])
  then have u: "reachable X u" and later: "succeeds t u" using reachable_later [OF _ assms(3)] by simp_all
  obtain r where r: "bm_get (st_runs u) (r_id (ls_run l)) = Some r" "run_evolves (ls_run l) r"
    using later f(2) by (rule later_run)
  with run_evolves_queued f(3) have "r_status r \<noteq> Queued" by fastforce
  with u r(1) that show ?thesis by blast
qed

lemma not_claimed_again:
  assumes "reachable X s" and "claim_next_run X e1 tok owner now ttl s = (Inr (Some l), t)" and "(store_step X)\<^sup>*\<^sup>* t u"
    and "claim_next_run X e2 tok' owner' now' ttl' u = (Inr (Some l'), v)"
  shows "r_id (ls_run l') \<noteq> r_id (ls_run l)"
proof -
  obtain r where r: "reachable X u" "bm_get (st_runs u) (r_id (ls_run l)) = Some r" "r_status r \<noteq> Queued"
    using claimed_stays_claimed [OF assms(1-3)] .
  from claim_facts(1) [OF assms(4) reachable_sound [OF r(1)]] r(2,3) show ?thesis by auto
qed

text \<open>
  C6. Work is claimed at most once: whatever happens after a claim, no later claim returns the same
  run, so a run is never executed under two leases or requeued.
\<close>

theorem run_claimed_once:
  assumes "reachable X s" and "claim_next_run X e1 tok owner now ttl s = (Inr (Some l), t)"
    and "(store_step X)\<^sup>*\<^sup>* t u"
    and "claim_next_run X e2 tok' owner' now' ttl' u = (Inr (Some l'), v)"
  shows "r_id (ls_run l') \<noteq> r_id (ls_run l)"
  by (rule not_claimed_again [OF assms])

text \<open>
  Recovery fails closed: when the recovery of expired leases succeeds, every lease that had expired
  is gone and its run is failed at the recovery time, and every other lease and run is untouched.
\<close>

theorem recovery_fails_expired:
  assumes "reachable X s" and "recover_expired_leases X ids actor now s = (Inr recovered, t)"
  shows "(\<forall>rid. rid \<in> set recovered \<longleftrightarrow> (\<exists>l. bm_get (st_leases s) rid = Some l \<and> ls_expires_at l \<le> now))
    \<and> (\<forall>rid. if rid \<in> set recovered
        then bm_get (st_leases t) rid = None
          \<and> (\<exists>r. bm_get (st_runs t) rid = Some r \<and> r_status r = Failed \<and> r_updated_at r = now)
        else bm_get (st_leases t) rid = bm_get (st_leases s) rid
          \<and> bm_get (st_runs t) rid = bm_get (st_runs s) rid)"
proof -
  have o: "store_ordered s" and inv: "store_inv X s"
    using reachable_sound [OF assms(1)] by (simp_all add: sound_def)
  from assms(2) have d: "recovered = expired_leases s now"
    and "recover_each X ids actor now 0 (expired_leases s now) s = (Inr (), t)"
    by (auto simp: recover_expired_leases_def res_simps)
  moreover have "\<forall>rid \<in> set (expired_leases s now). bm_get (st_leases s) rid \<noteq> None"
    using expired_leases_iff [OF o] by auto
  ultimately have "bm_get (st_leases t) = (\<lambda>i. if i \<in> set recovered then None else bm_get (st_leases s) i)"
    and "\<forall>i. if i \<in> set recovered
      then \<exists>r. bm_get (st_runs t) i = Some r \<and> r_status r = Failed \<and> r_updated_at r = now
      else bm_get (st_runs t) i = bm_get (st_runs s) i"
    using recover_each_sim [OF _ inv expired_leases_distinct [OF o]] by blast+
  then show ?thesis using expired_leases_iff [OF o] unfolding d by auto
qed

text \<open>
  C8. A failing call changes nothing: whenever an operation of the store returns an error, the state
  is as before, except for the audited binding mismatch of a consumption and for the loop that
  recovers expired leases, which keeps the leases it failed before the error.
\<close>

theorem failed_call_changes_nothing:
  assumes "reachable X s" and "exec_call X c s = (Some e, t)"
    and "\<forall>ids actor now. c \<noteq> CallRecoverExpired ids actor now"
    and "\<forall>e1 e2 p rv act actor now. c = CallConsumeApproval e1 e2 p rv act actor now \<longrightarrow>
      e \<noteq> approval_error ''approval binding does not match action''"
  shows "t = s"
proof (cases c)
  case (CallConsumeApproval e1 e2 p rv act actor now)
  with assms(2) have k: "consume_approval X e1 e2 p rv act actor now s = (Inl e, t)"
    by (auto dest: outcome_error)
  have "e \<noteq> approval_error ''approval binding does not match action''"
    using assms(4) CallConsumeApproval by blast
  with k show ?thesis by (auto elim: consume_approval_fail)
next
  case (CallRecoverExpired ids actor now)
  with assms(3) show ?thesis by blast
next
  case (CallCreateRun eid r audit)
  with assms(2) show ?thesis by (auto simp: create_run_def res_simps dest!: outcome_error)
qed (use assms(2) reachable_inv [OF assms(1)] in
  \<open>auto dest!: outcome_error dest: transition_run_atomic append_audit_atomic reconcile_atomic
    record_artifacts_atomic claim_next_run_atomic heartbeat_atomic transition_leased_atomic
    complete_leased_atomic append_leased_atomic record_leased_atomic request_cancel_atomic
    confirm_cancel_atomic create_approval_atomic decide_approval_atomic expire_approval_atomic\<close>)

text \<open>
  C10. The lifecycle fields of every stored run agree with its status: completion time exactly when
  terminal, a redacted reason exactly for an unsuccessful end, a start time for a run that ran, and
  revision zero exactly while queued.
\<close>

theorem reachable_run_consistent:
  assumes "reachable X s" and "bm_get (st_runs s) rid = Some r"
  shows "r_id r = rid \<and> r_created_at r \<le> r_updated_at r
    \<and> r_completed_at r = (if is_terminal (r_status r) then Some (r_updated_at r) else None)
    \<and> (r_terminal_reason r \<noteq> None \<longleftrightarrow> r_status r \<in> {Failed, Cancelled, TimedOut})
    \<and> (\<forall>why. r_terminal_reason r = Some why \<longrightarrow> redact_text why = why)
    \<and> (r_status r \<in> {Running, Succeeded} \<longrightarrow> r_started_at r \<noteq> None)
    \<and> (r_revision r = 0 \<longleftrightarrow> r_status r = Queued)"
proof -
  have inv: "store_inv X s" by (rule reachable_inv [OF assms(1)])
  obtain es where "bm_get (st_audits s) rid = Some es" using store_invD(4) [OF inv assms(2)] by blast
  with inv assms(2) have "r_id r = rid" "run_ok r" by (auto simp: ledger_inv_def inv_runs_def)
  then show ?thesis by (auto simp: run_ok_def)
qed

text \<open>
  Claims and consumed approvals correspond: every durable action claim belongs to a consumed
  approval with the same run, action, parameter hash and time, every consumed approval has its claim,
  and no two approvals name the same action.
\<close>

theorem claims_match_consumed_approvals:
  assumes "reachable X s"
  shows "(\<forall>x c. bm_get (st_action_claims s) x = Some c \<longrightarrow> cl_action_id c = x
      \<and> (\<exists>p a. bm_get (st_approvals s) p = Some a \<and> claim_for c a))
    \<and> (\<forall>p a. bm_get (st_approvals s) p = Some a \<and> ap_status a = Consumed \<longrightarrow>
         (\<exists>c. bm_get (st_action_claims s) (ap_action_id a) = Some c))
    \<and> (\<forall>p q a b. bm_get (st_approvals s) p = Some a \<and> bm_get (st_approvals s) q = Some b
         \<and> ap_action_id a = ap_action_id b \<longrightarrow> p = q)"
proof -
  have i: "inv_approvals (bm_get (st_runs s)) (bm_get (st_approvals s)) (bm_get (st_approval_windows s))
      (bm_get (st_action_claims s))"
    using reachable_inv [OF assms] by (simp add: ledger_inv_def)
  show ?thesis
    using inv_approvalsD [OF i] unfolding approval_entry_def by (meson domD)
qed

text \<open>
  Cancellation intent blocks success: once a cancellation of a leased run is recorded, completing
  that run as succeeded is rejected, whatever lease is presented.
\<close>

theorem cancel_blocks_success:
  assumes "bm_get (st_cancel_requested s) (r_id (ls_run lease)) = Some when"
  shows "\<exists>e. complete_leased_run X eid lease rv Succeeded why now s = (Inl e, s)"
proof -
  obtain res t where c: "complete_leased_run X eid lease rv Succeeded why now s = (res, t)"
    by (metis surj_pair)
  have "res \<noteq> Inr r" for r
  proof
    assume "res = Inr r"
    with c obtain q u where v: "validate_memory_lease lease rv now s = (Inr q, u)"
      and n: "bm_get (st_cancel_requested u) (r_id (ls_run lease)) = None"
      by (auto simp: complete_leased_run_def Let_def res_simps)
    from readingD [OF validate_lease_reading v] n assms show False by simp
  qed
  then obtain e where "res = Inl e" by (cases res) auto
  with c complete_leased_atomic show ?thesis by blast
qed

text \<open>
  C9. A lease is an exclusive capability: while a run is leased, the transitions and audit appends that
  present no lease are rejected, and a worker that presents another token or owner can neither move
  the run nor write its audit chain or artifacts, extend the lease or confirm a cancellation.
\<close>

theorem lease_is_exclusive:
  assumes "bm_get (st_leases s) (r_id (ls_run lease)) = Some held"
    and "ls_token lease \<noteq> ls_token held \<or> ls_owner lease \<noteq> ls_owner held"
  shows "(\<exists>e. transition_run X i1 (r_id (ls_run lease)) rv nxt why audit s = (Inl e, s))
    \<and> (\<exists>e. append_audit X i1 (r_id (ls_run lease)) ty audit s = (Inl e, s))
    \<and> (\<exists>e. transition_leased_run X i1 lease rv nxt now s = (Inl e, s))
    \<and> (\<exists>e. complete_leased_run X i1 lease rv nxt why now s = (Inl e, s))
    \<and> (\<exists>e. append_leased_runtime_audit X i1 lease rv ty now s = (Inl e, s))
    \<and> (\<exists>e. record_leased_artifacts X ids lease rv batch now s = (Inl e, s))
    \<and> (\<exists>e. heartbeat_lease X lease now ttl s = (Inl e, s))
    \<and> (\<exists>e. confirm_cancel X i1 lease now ev s = (Inl e, s))"
proof -
  obtain e where v: "validate_memory_lease lease rv now s = (Inl e, s)"
  proof -
    obtain r t where vl: "validate_memory_lease lease rv now s = (r, t)" by (metis surj_pair)
    have "r \<noteq> Inr x" for x using vl assms by (auto dest!: validate_lease_ok)
    then obtain e where "r = Inl e" by (cases r) auto
    with vl readingD [OF validate_lease_reading vl] that show ?thesis by simp
  qed
  show ?thesis
    using assms v
    by (intro conjI)
      (auto simp: transition_run_def append_audit_def reject_unbound_leased_write_def
        transition_leased_run_def complete_leased_run_def append_leased_runtime_audit_def
        record_leased_artifacts_def heartbeat_lease_def confirm_cancel_def Let_def bnd_def check_def
        lookup_def asks_def gets_def lift_res_def ensure_def ok_or_def split: sum.splits option.splits)
qed

section \<open>Reconciliation\<close>

definition records :: "ext \<Rightarrow> execution_receipt \<Rightarrow> audit_event \<Rightarrow> bool" where
  "records X rc e =
     (ev_event_type e = EvActionExecuted \<and>
      metadata_str e ''action_id'' = Some (to_hyphenated X (rc_action_id rc)))"

lemma count_receipts_count:
  "count_receipts X rc es n = Inr m \<Longrightarrow> m = n + length (filter (records X rc) es)"
proof (induction es arbitrary: n)
  case (Cons e es)
  show ?case
    using Cons.prems Cons.IH [of n] Cons.IH [of "Suc n"]
    by (auto simp: records_def res_simps split: if_splits)
qed simp

lemma was_audited_iff:
  "execution_receipt_was_audited X es rc = Inr b \<Longrightarrow> b = (\<exists>e \<in> set es. records X rc e)"
proof -
  assume "execution_receipt_was_audited X es rc = Inr b"
  then have "b = (filter (records X rc) es \<noteq> [])"
    by (auto simp: execution_receipt_was_audited_def res_simps split: if_splits dest!: count_receipts_count)
  then show ?thesis by (auto simp: filter_empty_conv)
qed

lemma execution_keys: "\<not> is_secret_key ''action_id''" "\<not> is_secret_key ''parameter_hash''"
  by code_simp+

lemma execution_event_records:
  assumes "uuid_printer_hex X"
    and "build_event X eid (with_action_execution audit (rc_action_id rc) h) rid sq EvActionExecuted prev = Inr e"
  shows "records X rc e"
proof -
  have "list_all id_char (to_hyphenated X (rc_action_id rc))"
    using assms(1) by (simp add: uuid_printer_hex_def to_hyphenated_def)
  then have "redact_text (to_hyphenated X (rc_action_id rc)) = to_hyphenated X (rc_action_id rc)"
    by (rule redact_text_id)
  then show ?thesis
    using build_event_verifies [OF assms(2)] execution_keys
    by (simp add: records_def metadata_str_def from_untrusted_map with_action_execution_def
        bm_of_list_def)
qed

lemma count_receipts_append:
  "count_receipts X rc (es @ fs) n = res_bind (count_receipts X rc es n) (\<lambda>m. count_receipts X rc fs m)"
  by (induction es arbitrary: n) (auto simp: res_bind_def split: sum.splits)

lemma execution_event_exact:
  assumes "valid_sha256_digest (digest_str h)"
    and "build_event X eid (with_action_execution audit aid h) rid sq EvActionExecuted prev = Inr e"
  shows "metadata_str e ''parameter_hash'' = Some (digest_str h)"
proof -
  have "list_all id_char (digest_str h)"
    using assms(1) by (auto simp: valid_sha256_digest_def id_char_def list_all_iff)
  then have "redact_text (digest_str h) = digest_str h" by (rule redact_text_id)
  then show ?thesis
    using build_event_verifies [OF assms(2)] execution_keys
    by (simp add: metadata_str_def from_untrusted_map with_action_execution_def bm_of_list_def)
qed

lemma reconcile_retry:
  assumes "uuid_printer_hex X" and "valid_sha256_digest (digest_str (rc_parameter_hash rc))"
    and "reconcile_action_execution X e1 rc audit s = (Inr True, t)"
  shows "reconcile_action_execution X e2 rc audit' t = (Inr False, t)"
proof -
  obtain es where es: "bm_get (st_audits s) (rc_run_id rc) = Some es"
      "execution_receipt_was_audited X es rc = Inr False"
      "\<exists>sq e. build_event X e1 (with_action_execution audit (rc_action_id rc) (rc_parameter_hash rc))
             (rc_run_id rc) sq EvActionExecuted (last_hash es) = Inr e
         \<and> t = s\<lparr>st_audits := bm_insert (rc_run_id rc) (es @ [e]) (st_audits s)\<rparr>"
    using assms(3) by (rule reconcile_ok) auto
  then obtain sq e where e: "build_event X e1 (with_action_execution audit (rc_action_id rc)
      (rc_parameter_hash rc)) (rc_run_id rc) sq EvActionExecuted (last_hash es) = Inr e"
    and t: "t = s\<lparr>st_audits := bm_insert (rc_run_id rc) (es @ [e]) (st_audits s)\<rparr>" by blast
  have "count_receipts X rc es 0 = Inr 0"
    using es(2) by (auto simp: execution_receipt_was_audited_def res_simps split: if_splits)
  moreover have "count_receipts X rc [e] 0 = Inr 1"
    using execution_event_records [OF assms(1) e] execution_event_exact [OF assms(2) e]
      build_event_verifies [OF e] by (simp add: records_def)
  ultimately have "execution_receipt_was_audited X (es @ [e]) rc = Inr True"
    by (simp add: execution_receipt_was_audited_def count_receipts_append)
  moreover have "bm_get (st_leases s) (rc_run_id rc) = None" "verify_execution_claim rc s = (Inr (), s)"
    using assms(3) readingD [OF execution_claim_reading]
    by (auto simp: reconcile_action_execution_def res_simps)
  moreover from this(2) have "verify_execution_claim rc t = (Inr (), t)"
    by (auto simp: verify_execution_claim_def res_simps t)
  ultimately show ?thesis
    by (simp add: reconcile_action_execution_def bnd_def reject_unbound_leased_write_def check_def asks_def
        lookup_def lift_res_def ret_def t)
qed

text \<open>
  Reconciliation is idempotent: right after an append, the same receipt is found in the chain (its
  identifiers survive redaction), and the retry reports it without writing anything.
\<close>

theorem reconcile_retry_is_noop:
  assumes "uuid_printer_hex X" and "valid_sha256_digest (digest_str (rc_parameter_hash rc))"
    and "reconcile_action_execution X e1 rc audit s = (Inr True, t)"
  shows "reconcile_action_execution X e2 rc audit' t = (Inr False, t)"
  by (rule reconcile_retry [OF assms])

lemma reconcile_once:
  assumes "reachable X s" and "uuid_printer_hex X"
    and "reconcile_action_execution X e1 rc audit s = (Inr b, t)" and "(store_step X)\<^sup>*\<^sup>* t u"
    and "reconcile_action_execution X e2 rc audit' u = (Inr b', v)"
  shows "\<not> b'"
proof -
  obtain es where es: "bm_get (st_audits s) (rc_run_id rc) = Some es"
      "execution_receipt_was_audited X es rc = Inr (\<not> b)" "\<not> b \<Longrightarrow> t = s"
      "b \<Longrightarrow> \<exists>sq e. build_event X e1 (with_action_execution audit (rc_action_id rc) (rc_parameter_hash rc))
             (rc_run_id rc) sq EvActionExecuted (last_hash es) = Inr e
         \<and> t = s\<lparr>st_audits := bm_insert (rc_run_id rc) (es @ [e]) (st_audits s)\<rparr>"
    using assms(3) by (rule reconcile_ok) blast
  have "\<exists>fs. bm_get (st_audits t) (rc_run_id rc) = Some fs \<and> (\<exists>e \<in> set fs. records X rc e)"
  proof (cases b)
    case True
    with es(4) obtain sq e where "build_event X e1 (with_action_execution audit (rc_action_id rc)
        (rc_parameter_hash rc)) (rc_run_id rc) sq EvActionExecuted (last_hash es) = Inr e"
      and t: "t = s\<lparr>st_audits := bm_insert (rc_run_id rc) (es @ [e]) (st_audits s)\<rparr>" by blast
    from execution_event_records [OF assms(2) this(1)] t show ?thesis by simp
  next
    case False
    with was_audited_iff [OF es(2)] es(1,3) show ?thesis by auto
  qed
  then obtain fs e where fs: "bm_get (st_audits t) (rc_run_id rc) = Some fs" "e \<in> set fs" "records X rc e"
    by blast
  have t: "reachable X t" by (rule reachable_step [OF assms(1) call_step(4) [OF assms(3)]])
  then have later: "succeeds t u" using reachable_later [OF _ assms(4)] by simp
  then obtain gs where gs: "bm_get (st_audits u) (rc_run_id rc) = Some gs" "prefix fs gs"
    using fs(1) by (rule later_audit)
  have "\<exists>e \<in> set gs. records X rc e" using fs gs(2) set_mono_prefix by blast
  moreover obtain hs where "bm_get (st_audits u) (rc_run_id rc) = Some hs"
      "execution_receipt_was_audited X hs rc = Inr (\<not> b')"
    using assms(5) by (rule reconcile_ok) blast
  ultimately show ?thesis using was_audited_iff gs(1) by fastforce
qed

text \<open>
  An executed action is recorded once: after a reconciliation of a receipt has succeeded, whether it
  appended the event or found it, no later reconciliation of that receipt appends another.
\<close>

theorem reconcile_records_once:
  assumes "reachable X s" and "uuid_printer_hex X"
    and "reconcile_action_execution X e1 rc audit s = (Inr b, t)" and "(store_step X)\<^sup>*\<^sup>* t u"
    and "reconcile_action_execution X e2 rc audit' u = (Inr b', v)"
  shows "\<not> b'"
  by (rule reconcile_once [OF assms])

end
