(* ===== verification/Samples.thy ===== *)
theory Samples
  imports Store_Trace
begin

text \<open>
  Concrete instances: functions that stand for the external code, small enough to reason about
  and with the properties the named hypotheses ask for, and a short history of the store from an
  empty state to a consumed approval. The printers are unary, so that injectivity is a fact about
  lengths; the digest function returns 32 bytes.
\<close>

section \<open>External functions\<close>

definition unary :: "nat \<Rightarrow> string" where
  "unary n = replicate n (CHR ''1'') @ ''.''"

fun print_jnumber :: "jnumber \<Rightarrow> string" where
  "print_jnumber (PosInt w) = CHR ''p'' # unary (unat w)"
| "print_jnumber (NegInt i) = CHR ''m'' # (if i < 0 then CHR ''-'' # unary (nat (- i)) else unary (nat i))"
| "print_jnumber (Float w) = CHR ''f'' # unary (unat w)"

definition print_string :: "string \<Rightarrow> string" where
  "print_string t = unary (length t) @ t"

fun print_json :: "json \<Rightarrow> string" where
  "print_json JNull = ''n''"
| "print_json (JBool b) = (if b then ''t'' else ''u'')"
| "print_json (JNumber n) = CHR ''d'' # print_jnumber n"
| "print_json (JString t) = CHR ''s'' # print_string t"
| "print_json (JArray vs) = CHR ''a'' # unary (length vs) @ concat (map print_json vs)"
| "print_json (JObject es) =
     CHR ''o'' # unary (length es) @ concat (map (\<lambda>(k, v). print_string k @ print_json v) es)"

definition print_uuid :: "uuid \<Rightarrow> string" where
  "print_uuid u = replicate (unat u) (CHR ''a'')"

definition print_time :: "timestamp \<Rightarrow> string" where
  "print_time t = (if t < 0 then CHR ''-'' # unary (nat (- t)) else unary (nat t))"

definition sample_ext :: ext where
  "sample_ext =
     \<lparr>sha256_digest = (\<lambda>_. replicate 32 (CHR 0x00)), json_to_string = print_json,
      uuid_hyphenated = print_uuid, uuid_parse_str = (\<lambda>t. Some (of_nat (length t))),
      uuid_version_num = (\<lambda>_. 7), rfc3339_format = print_time,
      rfc3339_parse = (\<lambda>t. Some (int (length t))), ts_checked_add = (\<lambda>t d. Some (t + d))\<rparr>"

lemma unary_prefix: "unary m @ r = unary n @ q \<Longrightarrow> m = n \<and> r = q"
proof (induction m arbitrary: n)
  case 0
  then show ?case by (cases n) (auto simp: unary_def)
next
  case (Suc m)
  then show ?case by (cases n) (auto simp: unary_def)
qed

lemma print_string_prefix: "print_string s @ r = print_string t @ q \<Longrightarrow> s = t \<and> r = q"
  unfolding print_string_def append_assoc by (drule unary_prefix) auto

lemma unary_first: "unary n @ r = c # q \<Longrightarrow> c = CHR ''1'' \<or> c = CHR ''.''"
  by (cases n) (auto simp: unary_def)

lemma unary_not_minus [simp]: "CHR ''-'' # q \<noteq> unary n" "unary n \<noteq> CHR ''-'' # q"
  using unary_first [of n "[]" "CHR ''-''" q] by auto

lemma print_jnumber_prefix: "print_jnumber a @ r = print_jnumber b @ q \<Longrightarrow> a = b \<and> r = q"
  by (cases a; cases b)
    (auto split: if_splits dest!: unary_prefix dest: unary_first unary_first [OF sym] simp: eq_nat_nat_iff word_unat_eq_iff)

lemma print_values_prefix:
  assumes "\<And>v w r q. v \<in> set vs \<Longrightarrow> f v @ r = f w @ q \<Longrightarrow> v = w \<and> r = q"
    and "length vs = length ws" and "concat (map f vs) @ r = concat (map f ws) @ q"
  shows "vs = ws \<and> r = q"
  using assms
proof (induction vs arbitrary: ws)
  case (Cons v vs)
  then obtain w ws' where ws: "ws = w # ws'" by (cases ws) auto
  from Cons.prems(3) have "f v @ concat (map f vs) @ r = f w @ concat (map f ws') @ q" by (simp add: ws)
  then have "v = w" "concat (map f vs) @ r = concat (map f ws') @ q"
    using Cons.prems(1) by (meson list.set_intros(1))+
  with Cons.IH [of ws'] Cons.prems ws show ?case by auto
qed simp

lemma print_json_prefix: "print_json a @ r = print_json b @ q \<Longrightarrow> a = b \<and> r = q"
proof (induction a arbitrary: b r q)
  case (JArray vs)
  then obtain ws where b: "b = JArray ws" by (cases b) (auto split: if_splits)
  with JArray.prems have "length vs = length ws"
    "concat (map print_json vs) @ r = concat (map print_json ws) @ q"
    by (auto dest!: unary_prefix)
  with print_values_prefix [of vs print_json ws r q] JArray.IH b show ?case by blast
next
  case (JObject es)
  let ?f = "\<lambda>(k, v). print_string k @ print_json v"
  obtain fs where b: "b = JObject fs" using JObject.prems by (cases b) (auto split: if_splits)
  with JObject.prems have l: "length es = length fs" "concat (map ?f es) @ r = concat (map ?f fs) @ q"
    by (auto dest!: unary_prefix)
  have "e = f \<and> r = q" if "e \<in> set es" "?f e @ r = ?f f @ q" for e f r q
  proof -
    obtain k v where e: "e = (k, v)" by (cases e)
    obtain k' v' where f: "f = (k', v')" by (cases f)
    from that(2) have "k = k'" "print_json v @ r = print_json v' @ q"
      by (auto simp: e f dest!: print_string_prefix)
    moreover from that(1) have "v = v' \<and> r = q" if "print_json v @ r = print_json v' @ q"
      using JObject.IH [of e v] that by (simp add: e)
    ultimately show ?thesis by (simp add: e f)
  qed
  from print_values_prefix [OF this l] b show ?case by simp
qed (case_tac [!] b, auto split: if_splits dest: print_jnumber_prefix print_string_prefix)

lemma sample_ext_hypotheses:
  "sha256_width sample_ext" "json_printer_injective sample_ext" "uuid_printer_hex sample_ext"
  "uuid_printer_injective sample_ext" "time_printer_injective sample_ext"
proof -
  show "sha256_width sample_ext" by (simp add: sha256_width_def sample_ext_def)
  show "json_printer_injective sample_ext"
    unfolding json_printer_injective_def
    by (rule inj_onI) (use print_json_prefix [of _ "[]" _ "[]"] in \<open>simp add: sample_ext_def\<close>)
  show "uuid_printer_hex sample_ext"
    by (simp add: uuid_printer_hex_def sample_ext_def print_uuid_def list_all_iff id_char_def ascii_defs)
  show "uuid_printer_injective sample_ext"
    by (auto simp: uuid_printer_injective_def sample_ext_def print_uuid_def inj_def word_unat_eq_iff
        dest: arg_cong [of _ _ length])
  show "time_printer_injective sample_ext"
    unfolding time_printer_injective_def
  proof (rule injI)
    fix a b assume "rfc3339_format sample_ext a = rfc3339_format sample_ext b"
    then show "a = b"
      using unary_prefix [of "nat (- a)" "[]" "nat (- b)" "[]"] unary_prefix [of "nat a" "[]" "nat b" "[]"]
        unary_first [of "nat a" "[]"] unary_first [of "nat b" "[]"]
      by (auto simp: sample_ext_def print_time_def split: if_splits)
  qed
qed

section \<open>A history of the store\<close>

lemma empty_reachable: "reachable X empty_state"
  by (simp add: reachable_def)

definition actor0 :: actor_id where "actor0 = ActorId ''ops''"
definition run0 :: run_id where "run0 = UuidV7 1"
definition action0 :: action_id where "action0 = UuidV7 2"
definition approval0 :: approval_id where "approval0 = UuidV7 3"

definition sample_run :: run where
  "sample_run = \<lparr>r_schema_version = SchemaVersion, r_id = run0, r_runtime = ''mock'',
     r_workspace = ''/w'', r_status = Queued, r_revision = 0, r_actor_id = actor0,
     r_prompt_sha256 = sha256_bytes sample_ext ''p'', r_created_at = 0, r_updated_at = 0,
     r_started_at = None, r_completed_at = None, r_terminal_reason = None\<rparr>"

definition act_at :: "timestamp \<Rightarrow> audit_append" where
  "act_at t = new_audit_append actor0 t"

definition mk_event_for ::
    "run_id \<Rightarrow> audit_event_id \<Rightarrow> u64 \<Rightarrow> audit_event_type \<Rightarrow> timestamp \<Rightarrow> redacted_metadata \<Rightarrow> digest option
      \<Rightarrow> audit_event" where
  "mk_event_for rid eid sq ty t md prev =
     \<lparr>ev_schema_version = SchemaVersion, ev_id = eid, ev_run_id = rid, ev_sequence = sq,
      ev_event_type = ty, ev_actor = actor0, ev_timestamp = t, ev_metadata = md,
      ev_previous_hash = prev,
      ev_event_hash = audit_event_hash sample_ext eid rid sq ty actor0 t md prev\<rparr>"

abbreviation mk_event :: "audit_event_id \<Rightarrow> u64 \<Rightarrow> audit_event_type \<Rightarrow> timestamp \<Rightarrow> redacted_metadata
    \<Rightarrow> digest option \<Rightarrow> audit_event" where
  "mk_event \<equiv> mk_event_for run0"

definition det_md :: "audit_details \<Rightarrow> redacted_metadata" where
  "det_md d = from_untrusted (details_metadata sample_ext d)"

definition after :: "audit_event \<Rightarrow> digest option" where
  "after e = Some (ev_event_hash e)"

lemma new_event_sample [simp]:
  "new_audit_event sample_ext eid rid 1 ty actor0 t md None = Inr (mk_event_for rid eid 1 ty t md None)"
  "1 < sq \<Longrightarrow> new_audit_event sample_ext eid rid sq ty actor0 t md (Some h)
     = Inr (mk_event_for rid eid sq ty t md (Some h))"
  by (auto simp: new_audit_event_def validate_audit_position_def mk_event_for_def)

lemma mk_event_sel [simp]:
  "ev_timestamp (mk_event_for rid eid sq ty t md prev) = t"
  "ev_sequence (mk_event_for rid eid sq ty t md prev) = sq"
  "ev_run_id (mk_event_for rid eid sq ty t md prev) = rid"
  "ev_event_type (mk_event_for rid eid sq ty t md prev) = ty"
  "ev_metadata (mk_event_for rid eid sq ty t md prev) = md"
  by (simp_all add: mk_event_for_def)

definition event1 where "event1 = mk_event (UuidV7 10) 1 EvRunCreated 0 (det_md DetNone) None"
definition event2 where
  "event2 = mk_event (UuidV7 11) 2 EvRuntimeSelected 1 (det_md (DetRunStatus Planning)) (after event1)"
definition event3 where
  "event3 = mk_event (UuidV7 12) 3 EvActionRequested 2 (det_md (DetRunStatus AwaitingApproval)) (after event2)"

definition created :: state where
  "created = empty_state\<lparr>st_runs := [(run0, sample_run)], st_audits := [(run0, [event1])]\<rparr>"

definition planning :: state where
  "planning = empty_state\<lparr>st_runs := [(run0, advanced sample_run Planning 1 None 1)],
     st_audits := [(run0, [event1, event2])]\<rparr>"

definition awaiting_run :: run where
  "awaiting_run = advanced (advanced sample_run Planning 1 None 1) AwaitingApproval 2 None 2"

definition awaiting :: state where
  "awaiting = empty_state\<lparr>st_runs := [(run0, awaiting_run)],
     st_audits := [(run0, [event1, event2, event3])]\<rparr>"

lemmas eval_simps = outcome_def op_defs ensure_def ok_or_def put_run_def push_events_def
  build_event_def act_at_def new_audit_append_def with_run_status_def next_sequence_def
  u64_of_len_def checked_add_def audit_backwards_def last_hash_def det_md_def after_def
  empty_state_def

lemma not_blank: "w \<noteq> [] \<Longrightarrow> graphic (hd w) \<Longrightarrow> \<not> blank w"
  by (cases w) (simp_all add: blank_def trim_start.simps graphic_ws)

lemma sample_run_sel [simp]:
  "r_id sample_run = run0" "r_status sample_run = Queued" "r_revision sample_run = 0"
  "r_created_at sample_run = 0" "r_updated_at sample_run = 0"
  by (simp_all add: sample_run_def)

lemma call_created:
  "exec_call sample_ext (CallCreateRun (UuidV7 10) sample_run (act_at 0)) empty_state = (None, created)"
proof -
  have "validate_new_run sample_run = Inr ()"
    by (simp add: validate_new_run_def sample_run_def not_blank graphic_def byte_def)
  then show ?thesis
    by (simp add: create_run_def eval_simps created_def event1_def)
qed

lemma call_planning:
  "exec_call sample_ext (CallTransitionRun (UuidV7 11) run0 0 Planning None (act_at 1)) created = (None, planning)"
  by (simp add: transition_run_def Let_def eval_simps created_def planning_def event1_def event2_def)

lemma call_awaiting:
  "exec_call sample_ext (CallTransitionRun (UuidV7 12) run0 1 AwaitingApproval None (act_at 2)) planning
    = (None, awaiting)"
  by (simp add: transition_run_def Let_def eval_simps planning_def awaiting_def event1_def event2_def
    event3_def awaiting_run_def)

definition sample_binding :: string where
  "sample_binding = json_to_string sample_ext (action_binding sample_ext run0 action0 ''act'' ''res'' JNull)"

definition sample_action :: action_request where
  "sample_action = \<lparr>ac_schema_version = SchemaVersion, ac_id = action0, ac_run_id = run0,
     ac_action = ''act'', ac_resource = ''res'', ac_parameters = JNull,
     ac_parameter_hash = sha256_bytes sample_ext sample_binding\<rparr>"

definition sample_approval :: approval_request where
  "sample_approval = \<lparr>ap_schema_version = SchemaVersion, ap_id = approval0, ap_run_id = run0,
     ap_action_id = action0, ap_parameter_hash = ac_parameter_hash sample_action,
     ap_requested_by = actor0, ap_request_reason = ''why'', ap_created_at = 3, ap_expires_at = 1000,
     ap_status = Pending, ap_revision = 0, ap_decision = None, ap_consumed_at = None\<rparr>"

definition approved_approval :: approval_request where
  "approved_approval = sample_approval\<lparr>ap_status := Approved, ap_revision := 1,
     ap_decision := Some \<lparr>dr_decision = DecisionApproved, dr_actor = actor0, dr_reason = None,
       dr_decided_at = 4\<rparr>\<rparr>"

definition approval_md :: "approval_request \<Rightarrow> redacted_metadata" where
  "approval_md a = from_untrusted (approval_metadata sample_ext a)"

definition event4 where
  "event4 = mk_event (UuidV7 13) 4 EvApprovalRequested 3 (approval_md sample_approval) (after event3)"
definition event5 where
  "event5 = mk_event (UuidV7 14) 5 EvApprovalApproved 4 (approval_md approved_approval) (after event4)"
definition event6 where
  "event6 = mk_event (UuidV7 15) 6 EvApprovalConsumed 5 (approval_md (consumed_as approved_approval 2 5))
     (after event5)"
definition event7 where
  "event7 = mk_event (UuidV7 16) 7 EvRuntimeStarted 5 (det_md (DetRunStatus Running)) (after event6)"

definition proposed :: state where
  "proposed = awaiting\<lparr>st_approvals := [(approval0, sample_approval)],
     st_approval_windows := [(approval0, 2)], st_audits := [(run0, [event1, event2, event3, event4])]\<rparr>"

definition approved :: state where
  "approved = proposed\<lparr>st_approvals := [(approval0, approved_approval)],
     st_audits := [(run0, [event1, event2, event3, event4, event5])]\<rparr>"

definition consumed :: state where
  "consumed = approved\<lparr>st_approvals := [(approval0, consumed_as approved_approval 2 5)],
     st_runs := [(run0, advanced awaiting_run Running 3 None 5)],
     st_audits := [(run0, [event1, event2, event3, event4, event5, event6, event7])],
     st_action_claims := [(action0, claim_of sample_action actor0 5)]\<rparr>"

lemma sample_binding_short: "length sample_binding \<le> max_action_parameter_bytes"
  by (simp add: sample_binding_def action_binding_def sample_ext_def to_hyphenated_def print_uuid_def
    print_string_def unary_def run0_def action0_def max_action_parameter_bytes_def)

lemma sample_hash:
  "action_parameter_hash sample_ext run0 action0 ''act'' ''res'' JNull
    = Inr (sha256_bytes sample_ext sample_binding)"
  using sample_binding_short
  by (simp add: action_parameter_hash_def Let_def max_action_parameter_depth_def flip: sample_binding_def)

lemma sample_matches: "binding_matches sample_ext approved_approval sample_action"
  by (simp add: binding_matches_def parameters_match_hash_def sample_action_def approved_approval_def
    sample_approval_def sample_hash)

lemma why_clean: "redact_text ''why'' = ''why''"
  by (rule redact_text_plain) (simp add: plain_word_def graphic_def byte_def starts_with_def token_prefixes_def)

lemma why_not_blank: "\<not> blank ''why''"
  by (rule not_blank) (simp_all add: graphic_def byte_def)

lemmas approval_eval = eval_simps approval_event_def approval_window_run_def approval_exists_def
  put_approval_def commit_approval_def bm_values_def next_revision_def is_expired_at_def
  validate_approval_def approval_state_valid_def decided_as_def max_approval_ttl_seconds_def
  approval_md_def why_not_blank Let_def

lemma call_proposed:
  "exec_call sample_ext (CallCreateApproval (UuidV7 13) sample_approval actor0 3) awaiting = (None, proposed)"
  by (simp add: create_approval_def approval_eval sample_approval_def awaiting_def proposed_def
    awaiting_run_def event1_def event2_def event3_def event4_def why_clean)

lemma call_approved:
  "exec_call sample_ext (CallDecideApproval (UuidV7 14) approval0 0 DecisionApproved actor0 None 4) proposed
    = (None, approved)"
  by (simp add: decide_approval_def approval_eval sample_approval_def awaiting_def proposed_def
    approved_def approved_approval_def awaiting_run_def event1_def event2_def event3_def event4_def event5_def)

lemma consume_sample:
  "consume_approval sample_ext (UuidV7 15) (UuidV7 16) approval0 1 sample_action actor0 5 approved
    = (Inr \<lparr>cn_approval = consumed_as approved_approval 2 5, cn_action_claim = claim_of sample_action actor0 5\<rparr>,
       consumed)"
proof -
  have "can_consume_at sample_ext approved_approval sample_action 1 5 = Inr ()"
    using sample_matches
    by (simp add: can_consume_at_def approval_eval approved_approval_def sample_approval_def)
  then show ?thesis
    using sample_matches
    by (simp add: consume_approval_def commit_consumption_def approval_eval awaiting_def proposed_def
      approved_def consumed_def awaiting_run_def consumed_as_def claim_of_def approved_approval_def
      sample_approval_def sample_action_def event1_def event2_def event3_def event4_def event5_def
      event6_def event7_def)
qed

lemma reachable_call: "reachable X s \<Longrightarrow> exec_call X c s = (err, t) \<Longrightarrow> reachable X t"
  by (auto intro: reachable_step store_step.call)

lemma sample_reachable:
  "reachable sample_ext created" "reachable sample_ext planning" "reachable sample_ext awaiting"
  "reachable sample_ext proposed" "reachable sample_ext approved" "reachable sample_ext consumed"
proof -
  show c: "reachable sample_ext created" by (rule reachable_call [OF empty_reachable call_created])
  show p: "reachable sample_ext planning" by (rule reachable_call [OF c call_planning])
  show a: "reachable sample_ext awaiting" by (rule reachable_call [OF p call_awaiting])
  show q: "reachable sample_ext proposed" by (rule reachable_call [OF a call_proposed])
  show d: "reachable sample_ext approved" by (rule reachable_call [OF q call_approved])
  show "reachable sample_ext consumed" by (rule reachable_step [OF d call_step(2) [OF consume_sample]])
qed

definition token0 :: lease_token where "token0 = LeaseToken 77"

definition event2q where
  "event2q = mk_event (UuidV7 11) 2 EvRuntimeSelected 1 (det_md DetNone) (after event1)"
definition event3q where
  "event3q = mk_event (UuidV7 12) 3 EvCancelRequested 2 (det_md DetNone) (after event2q)"
definition event3f where
  "event3f = mk_event (UuidV7 12) 3 EvRunFailed 200 (det_md DetNone) (after event2q)"

definition sample_lease :: run_lease where
  "sample_lease = \<lparr>ls_run = advanced sample_run Planning 1 None 1, ls_token = token0, ls_owner = actor0,
     ls_acquired_at = 1, ls_expires_at = 101, ls_cancel_requested = False\<rparr>"

definition claimed :: state where
  "claimed = planning\<lparr>st_audits := [(run0, [event1, event2q])], st_leases := [(run0, sample_lease)]\<rparr>"

definition cancelling :: state where
  "cancelling = claimed\<lparr>st_audits := [(run0, [event1, event2q, event3q])],
     st_leases := [(run0, sample_lease\<lparr>ls_cancel_requested := True\<rparr>)],
     st_cancel_requested := [(run0, 2)]\<rparr>"

definition recovered :: state where
  "recovered = claimed\<lparr>st_runs := [(run0, advanced (advanced sample_run Planning 1 None 1) Failed 2 None 200)],
     st_audits := [(run0, [event1, event2q, event3f])], st_leases := []\<rparr>"

lemmas queue_eval = eval_simps checked_lease_expiry_def hour_nanos_def claim_candidates_def
  apply_memory_transition_def apply_memory_transition_with_reason_def append_memory_audit_def
  put_lease_def drop_lease_def ensure_memory_audit_time_def bm_remove_def is_terminal_def Let_def

lemma claim_sample:
  "claim_next_run sample_ext (UuidV7 11) token0 actor0 1 100 created = (Inr (Some sample_lease), claimed)"
  by (simp add: claim_next_run_def queue_eval created_def claimed_def planning_def sample_lease_def
    event1_def event2q_def sample_ext_def [THEN arg_cong, of ts_checked_add])

lemma call_cancelling:
  "exec_call sample_ext (CallRequestCancel (UuidV7 12) run0 actor0 2) claimed = (None, cancelling)"
  by (simp add: request_cancel_def queue_eval claimed_def planning_def cancelling_def event1_def
    event2q_def event3q_def)

lemma recover_sample:
  "recover_expired_leases sample_ext (\<lambda>_. UuidV7 12) actor0 200 claimed = (Inr [run0], recovered)"
  by (simp add: recover_expired_leases_def expired_leases_def recover_one_def queue_eval claimed_def
    planning_def recovered_def sample_lease_def event1_def event2q_def event3f_def)

lemma queue_reachable: "reachable sample_ext claimed" "reachable sample_ext cancelling"
proof -
  show c: "reachable sample_ext claimed"
    by (rule reachable_step [OF sample_reachable(1) call_step(3) [OF claim_sample]])
  show "reachable sample_ext cancelling" by (rule reachable_call [OF c call_cancelling])
qed

section \<open>Two queued runs\<close>

definition run9 :: run_id where "run9 = UuidV7 9"

definition second_run :: run where
  "second_run = sample_run\<lparr>r_id := run9\<rparr>"

definition event1b where "event1b = mk_event_for run9 (UuidV7 40) 1 EvRunCreated 0 (det_md DetNone) None"
definition event2b where
  "event2b = mk_event_for run9 (UuidV7 41) 2 EvRuntimeSelected 2 (det_md DetNone) (after event1b)"

definition both :: state where
  "both = created\<lparr>st_runs := [(run0, sample_run), (run9, second_run)],
     st_audits := [(run0, [event1]), (run9, [event1b])]\<rparr>"

definition claimed_first :: state where
  "claimed_first = both\<lparr>st_runs := [(run0, advanced sample_run Planning 1 None 1), (run9, second_run)],
     st_audits := [(run0, [event1, event2q]), (run9, [event1b])], st_leases := [(run0, sample_lease)]\<rparr>"

definition second_lease :: run_lease where
  "second_lease = \<lparr>ls_run = advanced second_run Planning 1 None 2, ls_token = LeaseToken 78,
     ls_owner = actor0, ls_acquired_at = 2, ls_expires_at = 102, ls_cancel_requested = False\<rparr>"

definition claimed_both :: state where
  "claimed_both = claimed_first\<lparr>
     st_runs := [(run0, advanced sample_run Planning 1 None 1), (run9, advanced second_run Planning 1 None 2)],
     st_audits := [(run0, [event1, event2q]), (run9, [event1b, event2b])],
     st_leases := [(run0, sample_lease), (run9, second_lease)]\<rparr>"

lemma run_ids_differ [simp]: "run9 \<noteq> run0" "run0 \<noteq> run9" "\<not> run9 < run0" "\<not> run9 \<le> run0"
proof -
  show "run9 \<noteq> run0" "run0 \<noteq> run9" "\<not> run9 < run0"
    by (simp_all add: run0_def run9_def less_uuid_v7_def)
  then show "\<not> run9 \<le> run0" by simp
qed

lemma second_run_sel [simp]:
  "r_id second_run = run9" "r_status second_run = Queued" "r_revision second_run = 0"
  "r_created_at second_run = 0" "r_updated_at second_run = 0"
  by (simp_all add: second_run_def)

lemma call_both:
  "exec_call sample_ext (CallCreateRun (UuidV7 40) second_run (act_at 0)) created = (None, both)"
proof -
  have "validate_new_run second_run = Inr ()"
    by (simp add: validate_new_run_def second_run_def sample_run_def not_blank graphic_def byte_def)
  then show ?thesis
    by (simp add: create_run_def eval_simps created_def both_def event1_def event1b_def)
qed

lemma claim_first:
  "claim_next_run sample_ext (UuidV7 11) token0 actor0 1 100 both = (Inr (Some sample_lease), claimed_first)"
  by (simp add: claim_next_run_def queue_eval created_def both_def claimed_first_def sample_lease_def
    event1_def event2q_def event1b_def sample_ext_def [THEN arg_cong, of ts_checked_add])

lemma claim_second:
  "claim_next_run sample_ext (UuidV7 41) (LeaseToken 78) actor0 2 100 claimed_first
    = (Inr (Some second_lease), claimed_both)"
  by (simp add: claim_next_run_def queue_eval created_def both_def claimed_first_def claimed_both_def
    sample_lease_def second_lease_def event1_def event2q_def event1b_def event2b_def
    sample_ext_def [THEN arg_cong, of ts_checked_add])

lemma both_reachable: "reachable sample_ext both"
  by (rule reachable_call [OF sample_reachable(1) call_both])

end
