(* ===== verification/Witnesses.thy ===== *)
theory Witnesses
  imports Samples
begin

text \<open>
  For each property with hypotheses, a concrete input at which they hold: the sample functions for
  the external code and the sample history of the store.
\<close>

section \<open>The store\<close>

lemma sample_lookups:
  "bm_get (st_runs consumed) run0 = Some (advanced awaiting_run Running 3 None 5)"
  "bm_get (st_audits approved) run0 = Some [event1, event2, event3, event4, event5]"
  "bm_get (st_runs recovered) run0 = Some (advanced (advanced sample_run Planning 1 None 1) Failed 2 None 200)"
  "bm_get (st_leases claimed) run0 = Some sample_lease"
  "bm_get (st_cancel_requested cancelling) run0 = Some 2"
  by (simp_all add: consumed_def approved_def recovered_def claimed_def cancelling_def)

lemma approved_to_consumed: "(store_step sample_ext)\<^sup>*\<^sup>* approved consumed"
  using call_step(2) [OF consume_sample] by blast

lemma recovered_reachable: "reachable sample_ext recovered"
  by (rule reachable_call [OF queue_reachable(1), of "CallRecoverExpired (\<lambda>_. UuidV7 12) actor0 200" None])
    (simp add: outcome_def recover_sample)

theorem reachable_chain_verifies_witness:
  "reachable sample_ext consumed \<and> (\<exists>es. bm_get (st_audits consumed) run0 = Some es \<and> es \<noteq> []
    \<and> verify_chain sample_ext es)"
  using reachable_chain_verifies [OF sample_reachable(6) sample_lookups(1)] sample_reachable(6) by blast

theorem store_refines_ledger_witness:
  "reachable sample_ext proposed \<and> (ledger_step sample_ext)\<^sup>*\<^sup>* (abs_ledger proposed) (abs_ledger approved)"
  using store_refines_ledger [OF sample_reachable(4) call_approved] sample_reachable(4) by blast

theorem audit_append_only_witness:
  "\<exists>more. bm_get (st_audits consumed) run0 = Some ([event1, event2, event3, event4, event5] @ more)"
  by (rule audit_append_only [OF sample_reachable(5) approved_to_consumed sample_lookups(2)])

theorem terminal_run_frozen_witness:
  "bm_get (st_runs (run_calls sample_ext [CallTransitionRun (UuidV7 20) run0 2 Running None (act_at 300)]
     recovered)) run0 = Some (advanced (advanced sample_run Planning 1 None 1) Failed 2 None 200)"
  by (rule terminal_run_frozen [OF recovered_reachable run_calls_steps sample_lookups(3)])
    (simp add: is_terminal_def)

lemma transition_sample:
  "transition_run sample_ext (UuidV7 11) run0 0 Planning None (act_at 1) created
    = (Inr (advanced sample_run Planning 1 None 1), planning)"
  by (simp add: transition_run_def Let_def eval_simps created_def planning_def event1_def event2_def)

theorem transition_revision_used_once_witness:
  "\<exists>e. transition_run sample_ext (UuidV7 30) run0 0 Failed None (act_at 9) planning = (Inl e, planning)"
  by (rule transition_revision_used_once [OF sample_reachable(1) transition_sample]) simp

theorem approval_consumed_once_witness:
  "\<exists>e v. consume_approval sample_ext (UuidV7 17) (UuidV7 18) approval0 2 sample_action actor0 6 consumed
    = (Inl e, v)"
  by (rule approval_consumed_once [OF sample_reachable(5) consume_sample]) simp_all

theorem consumption_is_exact_witness:
  "\<exists>a. bm_get (st_approvals approved) approval0 = Some a \<and> ap_status a = Approved \<and> 5 < ap_expires_at a
    \<and> ap_action_id a = ac_id sample_action"
  using consumption_is_exact [OF sample_reachable(5) consume_sample] by blast

theorem claim_takes_oldest_witness:
  "\<exists>r. bm_get (st_runs created) run0 = Some r \<and> r_status r = Queued
    \<and> bm_get (st_leases claimed) run0 = Some sample_lease"
  using claim_takes_oldest [OF sample_reachable(1) claim_sample] by (auto simp: sample_lease_def)

theorem run_claimed_once_witness: "r_id (ls_run second_lease) \<noteq> r_id (ls_run sample_lease)"
  by (rule run_claimed_once [OF both_reachable claim_first rtranclp.rtrancl_refl claim_second])

theorem recovery_fails_expired_witness:
  "run0 \<in> set [run0] \<and> bm_get (st_leases recovered) run0 = None
    \<and> (\<exists>r. bm_get (st_runs recovered) run0 = Some r \<and> r_status r = Failed \<and> r_updated_at r = 200)"
  using recovery_fails_expired [OF queue_reachable(1) recover_sample] by (simp split: if_splits)

theorem failed_call_changes_nothing_witness:
  "\<exists>e. exec_call sample_ext (CallTransitionRun (UuidV7 30) run0 0 Failed None (act_at 9)) planning = (Some e, planning)"
proof -
  let ?c = "CallTransitionRun (UuidV7 30) run0 0 Failed None (act_at 9)"
  have "\<exists>e t. exec_call sample_ext ?c planning = (Some e, t)"
    by (simp add: transition_run_def eval_simps planning_def)
  then obtain e t where e: "exec_call sample_ext ?c planning = (Some e, t)" by blast
  have "t = planning" by (rule failed_call_changes_nothing [OF sample_reachable(2) e]) simp_all
  with e show ?thesis by blast
qed

theorem reachable_run_consistent_witness:
  "r_completed_at (advanced (advanced sample_run Planning 1 None 1) Failed 2 None 200) = Some 200"
  using reachable_run_consistent [OF recovered_reachable sample_lookups(3)] by (simp add: is_terminal_def)

theorem claims_match_consumed_approvals_witness:
  "\<exists>p a. bm_get (st_approvals consumed) p = Some a \<and> claim_for (claim_of sample_action actor0 5) a"
proof -
  have "bm_get (st_action_claims consumed) action0 = Some (claim_of sample_action actor0 5)"
    by (simp add: consumed_def)
  with claims_match_consumed_approvals [OF sample_reachable(6)] show ?thesis by blast
qed

theorem cancel_blocks_success_witness:
  "\<exists>e. complete_leased_run sample_ext (UuidV7 21) sample_lease 1 Succeeded None 3 cancelling = (Inl e, cancelling)"
  by (rule cancel_blocks_success [of _ _ 2]) (simp add: cancelling_def sample_lease_def)

theorem lease_is_exclusive_witness:
  "\<exists>e. heartbeat_lease sample_ext (sample_lease\<lparr>ls_token := LeaseToken 1\<rparr>) 2 100 claimed = (Inl e, claimed)"
proof -
  have "bm_get (st_leases claimed) (r_id (ls_run (sample_lease\<lparr>ls_token := LeaseToken 1\<rparr>))) = Some sample_lease"
    by (simp add: claimed_def sample_lease_def)
  from lease_is_exclusive [OF this] show ?thesis by (simp add: sample_lease_def token0_def)
qed

definition sample_receipt :: execution_receipt where
  "sample_receipt = \<lparr>rc_run_id = run0, rc_action_id = action0,
     rc_parameter_hash = ac_parameter_hash sample_action\<rparr>"

lemma sample_receipt_sel [simp]:
  "rc_run_id sample_receipt = run0" "rc_action_id sample_receipt = action0"
  "rc_parameter_hash sample_receipt = ac_parameter_hash sample_action"
  by (simp_all add: sample_receipt_def)

lemma sample_not_audited:
  "execution_receipt_was_audited sample_ext [event1, event2, event3, event4, event5, event6, event7]
    sample_receipt = Inr False"
  by (simp add: execution_receipt_was_audited_def event1_def event2_def event3_def event4_def event5_def
    event6_def event7_def)

lemma event7_time: "ev_timestamp event7 = 5"
  by (simp add: event7_def)

lemma reconcile_sample:
  "\<exists>t. reconcile_action_execution sample_ext (UuidV7 50) sample_receipt (act_at 6) consumed = (Inr True, t)"
  by (simp add: reconcile_action_execution_def reject_unbound_leased_write_def verify_execution_claim_def
    eval_simps consumed_def approved_def proposed_def awaiting_def claim_of_def with_action_execution_def
    sample_not_audited sample_action_def event7_time)

lemma sample_digest: "valid_sha256_digest (digest_str (rc_parameter_hash sample_receipt))"
  using sha256_bytes_valid [OF sample_ext_hypotheses(1)] by (simp add: sample_action_def)

theorem reconcile_retry_is_noop_witness:
  "\<exists>t. reconcile_action_execution sample_ext (UuidV7 50) sample_receipt (act_at 6) consumed = (Inr True, t)
    \<and> reconcile_action_execution sample_ext (UuidV7 51) sample_receipt (act_at 7) t = (Inr False, t)"
  using reconcile_sample
    reconcile_retry_is_noop [OF sample_ext_hypotheses(3) sample_digest, of "UuidV7 50" "act_at 6" consumed]
  by blast

theorem reconcile_records_once_witness:
  "\<exists>t b. reconcile_action_execution sample_ext (UuidV7 51) sample_receipt (act_at 7) t = (Inr b, t) \<and> \<not> b"
proof -
  obtain t where t: "reconcile_action_execution sample_ext (UuidV7 50) sample_receipt (act_at 6) consumed
      = (Inr True, t)" using reconcile_sample by blast
  obtain b where b: "reconcile_action_execution sample_ext (UuidV7 51) sample_receipt (act_at 7) t = (Inr b, t)"
    using reconcile_retry [OF sample_ext_hypotheses(3) sample_digest t] by blast
  have "\<not> b"
    by (rule reconcile_records_once [OF sample_reachable(6) sample_ext_hypotheses(3) t rtranclp.rtrancl_refl b])
  with b show ?thesis by blast
qed

end
