(* ===== verification/Contract_Properties.thy ===== *)
theory Contract_Properties
  imports Audit_Chain
begin

text \<open>
  What the contract types guarantee to the rest of the system: redaction leaves no credential and
  is stable, portable paths and mounts cannot escape their root, an image reference pins its
  content, the hash of an action binds the whole action whatever the order of its parameters, and
  the head of an audit chain determines the chain.
\<close>

section \<open>Redaction\<close>

text \<open>
  C21. Redacted text carries no credential in the forms the code knows: each of its words is the marker
  or a word of the input that holds no secret assignment and no token prefix, and redacting it again
  changes nothing.
\<close>

theorem redacted_text_is_clean:
  "(\<forall>w \<in> set (split_whitespace (redact_text t)).
      w = redacted \<or> w \<in> set (split_whitespace t) \<and> secret_assignment_tail w = None
        \<and> \<not> list_ex (starts_with w) token_prefixes)
   \<and> redact_text (redact_text t) = redact_text t"
proof -
  have "w = redacted \<or> w \<in> set (split_whitespace t) \<and> secret_assignment_tail w = None
      \<and> \<not> list_ex (starts_with w) token_prefixes" if "w \<in> set (redact_words 0 (split_whitespace t))" for w
    using redact_words_mem [OF that] by (auto simp: clean_word_def redact_word_def split: if_splits)
  then show ?thesis by (simp add: split_redact_text)
qed

text \<open>
  C22. In a redacted document every value below a secret key, at any depth, is the marker and every other
  string is redacted text; redacting again changes nothing.
\<close>

theorem redacted_json_is_secret_free:
  "secret_free (redact_json v) \<and> redact_json (redact_json v) = redact_json v"
  by (simp add: secret_free_redact_json)

section \<open>Paths, mounts and images\<close>

text \<open>
  An artifact path that parses stays below the root it is joined to: the text is kept, it is not
  absolute, and every component is a non-empty portable name that is neither the current nor the
  parent directory.
\<close>

theorem artifact_path_stays_below:
  assumes "parse_rel_path v = Inr p"
  shows "path_str p = v \<and> \<not> starts_with v ''/'' \<and>
    (\<forall>seg \<in> set (split_on CHR ''/'' v). seg \<noteq> [] \<and> seg \<noteq> ''.'' \<and> seg \<noteq> ''..''
       \<and> list_all is_portable_byte seg \<and> CHR 0x5C \<notin> set seg)"
  using rel_path_text [OF assms] rel_path_segments [OF assms] assms
  by (auto simp: parse_rel_path_def Let_def split: if_splits)

text \<open>
  A mount directory that is approved is a directory strictly below the canonical approved root.
\<close>

theorem approved_mount_below_root:
  assumes "under_root F path root = Inr d"
  shows "\<exists>r. canonicalize F root = Some r \<and> canonicalize F path = Some (mount_path d)
    \<and> strict_prefix (path_components r) (path_components (mount_path d)) \<and> is_dir F (mount_path d)"
  using assms
  by (auto simp: under_root_def res_simps path_starts_with_def path_eq_def strict_prefix_def split: if_splits)

text \<open>
  An image reference that parses is pinned to content: it ends in a full lower-case SHA-256 digest,
  alone or after a registry name, cannot be read as a command line option and holds no white space.
\<close>

theorem image_reference_is_pinned:
  assumes "parse_image_ref v = Inr img"
  shows "image_str img = v \<and> \<not> starts_with v ''-'' \<and> list_all (\<lambda>c. \<not> is_ascii_whitespace c) v
    \<and> (\<exists>name d. valid_sha256_digest d \<and> (v = ''sha256:'' @ d \<or> v = name @ ''@sha256:'' @ d))"
proof -
  have p: "is_digest_pinned_image v" "image_str img = v"
    using assms by (auto simp: parse_image_ref_def split: if_splits)
  then have w: "\<not> starts_with v ''-''" "\<not> list_ex is_ascii_whitespace v"
    by (auto simp: is_digest_pinned_image_def split: if_splits)
  have "\<exists>name d. valid_sha256_digest d \<and> (v = ''sha256:'' @ d \<or> v = name @ ''@sha256:'' @ d)"
  proof (cases "strip_prefix v ''sha256:''")
    case (Some d)
    then have "v = ''sha256:'' @ d" "valid_sha256_digest d"
      using p(1) w by (auto simp: is_digest_pinned_image_def strip_prefix_def starts_with_def prefix_def split: if_splits)
    then show ?thesis by blast
  next
    case None
    then obtain name d where s: "rsplit_once ''@sha256:'' v = Some (name, d)"
      using p(1) w by (auto simp: is_digest_pinned_image_def split: option.splits prod.splits)
    moreover have "valid_sha256_digest d"
      using p(1) w None s by (auto simp: is_digest_pinned_image_def Let_def split: list.splits)
    ultimately show ?thesis using rsplit_once_Some by blast
  qed
  with p w show ?thesis by (auto simp: list_all_iff list_ex_iff)
qed

section \<open>Parameter documents\<close>

text \<open>Nesting depth of a document, and the absence of floating point numbers.\<close>

fun json_depth :: "json \<Rightarrow> nat" where
  "json_depth (JArray vs) = fold max (map (\<lambda>v. Suc (json_depth v)) vs) 0"
| "json_depth (JObject es) = fold max (map (\<lambda>(k, v). Suc (json_depth v)) es) 0"
| "json_depth v = 0"

fun float_free :: "json \<Rightarrow> bool" where
  "float_free (JNumber (Float _)) = False"
| "float_free (JArray vs) = list_all float_free vs"
| "float_free (JObject es) = list_all (\<lambda>(k, v). float_free v) es"
| "float_free v = True"

lemma fold_max_le: "fold max xs (a :: nat) \<le> n \<longleftrightarrow> a \<le> n \<and> (\<forall>x \<in> set xs. x \<le> n)"
  by (induction xs arbitrary: a) auto

declare validate_parameter_value.simps [simp del]

lemma validate_values_ok:
  "validate_parameter_values vs d = Inr () \<longleftrightarrow> (\<forall>v \<in> set vs. validate_parameter_value v d = Inr ())"
  by (induction vs) (auto simp: res_simps)

lemma validate_entries_ok:
  "validate_parameter_entries es d = Inr () \<longleftrightarrow> (\<forall>e \<in> set es. validate_parameter_value (snd e) d = Inr ())"
  by (induction es) (auto simp: res_simps)

lemma json_depth_le:
  "json_depth (JArray vs) \<le> n \<longleftrightarrow> (\<forall>v \<in> set vs. json_depth v < n)"
  "json_depth (JObject es) \<le> n \<longleftrightarrow> (\<forall>e \<in> set es. json_depth (snd e) < n)"
  by (auto simp: fold_max_le Suc_le_eq)

lemma float_free_object: "float_free (JObject es) \<longleftrightarrow> (\<forall>e \<in> set es. float_free (snd e))"
  by (auto simp: list_all_iff)

declare json_depth.simps(1,2) [simp del] float_free.simps(3) [simp del]

lemma validate_parameter_ok:
  "validate_parameter_value v d = Inr () \<longleftrightarrow>
     d \<le> max_action_parameter_depth \<and> json_depth v \<le> max_action_parameter_depth - d \<and> float_free v"
proof (induction v arbitrary: d)
  case (JNumber n)
  then show ?case by (cases n) (auto simp: validate_parameter_value.simps)
next
  case (JArray vs)
  have "validate_parameter_value (JArray vs) d = Inr () \<longleftrightarrow> d \<le> max_action_parameter_depth
      \<and> (\<forall>v \<in> set vs. validate_parameter_value v (d + 1) = Inr ())"
    by (subst validate_parameter_value.simps) (auto simp: validate_values_ok)
  also have "\<dots> \<longleftrightarrow> d \<le> max_action_parameter_depth \<and> (\<forall>v \<in> set vs.
      json_depth v < max_action_parameter_depth - d \<and> float_free v)"
    using JArray.IH [of _ "d + 1"] by auto
  finally show ?case by (auto simp: json_depth_le list_all_iff)
next
  case (JObject es)
  have "validate_parameter_value (JObject es) d = Inr () \<longleftrightarrow> d \<le> max_action_parameter_depth
      \<and> (\<forall>e \<in> set es. validate_parameter_value (snd e) (d + 1) = Inr ())"
    by (subst validate_parameter_value.simps) (auto simp: validate_entries_ok)
  also have "\<dots> \<longleftrightarrow> d \<le> max_action_parameter_depth \<and> (\<forall>e \<in> set es.
      json_depth (snd e) < max_action_parameter_depth - d \<and> float_free (snd e))"
    using JObject.IH [of _ _ "d + 1"] by (auto simp: snds.simps)
  finally show ?case by (auto simp: json_depth_le float_free_object)
qed (auto simp: validate_parameter_value.simps)

text \<open>Two documents that differ only in the order of the entries of their objects, at any depth.\<close>

inductive reordered :: "json \<Rightarrow> json \<Rightarrow> bool" where
  leaf: "reordered v v"
| array: "list_all2 reordered vs ws \<Longrightarrow> reordered (JArray vs) (JArray ws)"
| object: "list_all2 (\<lambda>e f. fst e = fst f \<and> reordered (snd e) (snd f)) es fs \<Longrightarrow> set fs = set gs \<Longrightarrow>
    distinct (map fst fs) \<Longrightarrow> distinct (map fst gs) \<Longrightarrow> reordered (JObject es) (JObject gs)"

lemma bm_of_list_reordered:
  assumes "set xs = set ys" and "distinct (map fst xs)" and "distinct (map fst ys)"
  shows "bm_of_list xs = bm_of_list ys"
proof (rule bm_ordered_unique)
  show "bm_get (bm_of_list xs) = bm_get (bm_of_list ys)"
    using assms map_of_inject_set [OF assms(2,3)] by (simp add: bm_of_list_get)
qed (simp_all add: bm_of_list_ordered)

lemma reordered_canonical: "reordered v w \<Longrightarrow> canonical_json v = canonical_json w"
proof (induction rule: reordered.induct)
  case (array vs ws)
  then have "map canonical_json vs = map canonical_json ws"
    by (auto simp: list_all2_conv_all_nth intro: nth_equalityI)
  then show ?case by simp
next
  case (object es fs gs)
  let ?c = "map (\<lambda>(k, v). (k, canonical_json v))"
  have "?c es = ?c fs"
    by (rule nth_equalityI) (use object.IH in \<open>auto simp: list_all2_conv_all_nth case_prod_unfold\<close>)
  moreover have "bm_of_list (?c fs) = bm_of_list (?c gs)"
    using object.hyps by (intro bm_of_list_reordered) (simp_all add: comp_def case_prod_unfold)
  ultimately show ?case by simp
qed simp

lemma list_all2_image:
  assumes "list_all2 (\<lambda>x y. f x = g y) xs ys"
  shows "f ` set xs = g ` set ys"
  using assms by (induction rule: list_all2_induct) auto

lemma same_bounds: "(\<forall>n. (a :: nat) \<le> n \<longleftrightarrow> b \<le> n) \<longleftrightarrow> a = b"
  by (auto intro: order_antisym)

lemma reordered_bounds:
  "reordered v w \<Longrightarrow> (\<forall>n. json_depth v \<le> n \<longleftrightarrow> json_depth w \<le> n) \<and> float_free v = float_free w"
proof (induction rule: reordered.induct)
  case (array vs ws)
  let ?m = "\<lambda>v. (json_depth v, float_free v)"
  have "list_all2 (\<lambda>v w. ?m v = ?m w) vs ws"
    by (rule list_all2_mono [OF array.IH]) (simp add: same_bounds)
  then have "?m ` set vs = ?m ` set ws" by (rule list_all2_image)
  moreover have "json_depth (JArray us) \<le> n \<longleftrightarrow> (\<forall>p \<in> ?m ` set us. fst p < n)"
    and "float_free (JArray us) \<longleftrightarrow> (\<forall>p \<in> ?m ` set us. snd p)" for us n
    by (auto simp: json_depth_le list_all_iff)
  ultimately show ?case by (simp only: simp_thms)
next
  case (object es fs gs)
  let ?m = "\<lambda>e. (json_depth (snd e), float_free (snd e))"
  have "list_all2 (\<lambda>e f. ?m e = ?m f) es fs"
    by (rule list_all2_mono [OF object.IH]) (simp add: same_bounds)
  then have "?m ` set es = ?m ` set gs" using list_all2_image [of ?m ?m es fs] object.hyps(1) by simp
  moreover have "json_depth (JObject us) \<le> n \<longleftrightarrow> (\<forall>p \<in> ?m ` set us. fst p < n)"
    and "float_free (JObject us) \<longleftrightarrow> (\<forall>p \<in> ?m ` set us. snd p)" for us :: "(string \<times> json) list" and n
    by (auto simp: json_depth_le float_free_object)
  ultimately show ?case by (simp only: simp_thms)
qed simp

section \<open>The binding hash of an action\<close>

text \<open>
  The hash does not depend on the order in which the parameters were written: reordering the
  entries of any object of the document, at any depth, yields the same hash, and is accepted exactly
  when the original is.
\<close>

theorem hash_ignores_entry_order:
  assumes "reordered p q"
  shows "action_parameter_hash X rid aid action resource p = Inr h \<longleftrightarrow>
    action_parameter_hash X rid aid action resource q = Inr h"
  using reordered_canonical [OF assms] reordered_bounds [OF assms]
  by (simp add: action_parameter_hash_def res_simps validate_parameter_ok action_binding_def)

text \<open>
  A document gets a hash exactly when it nests at most 32 levels, holds no floating point number
  and its canonical binding fits 64 KiB; the limits are tight.
\<close>

theorem parameter_limits:
  "(\<exists>h. action_parameter_hash X rid aid action resource p = Inr h) \<longleftrightarrow>
     json_depth p \<le> 32 \<and> float_free p \<and>
     length (json_to_string X (action_binding X rid aid action resource p)) \<le> 65536"
  by (auto simp: action_parameter_hash_def res_simps validate_parameter_ok Let_def
    max_action_parameter_depth_def max_action_parameter_bytes_def split: if_splits)

text \<open>
  C23. The hash binds the whole action: two requests with the same hash name the same run, the same
  action identifier, the same action and resource and parameters with the same canonical form, or
  their two binding texts are a SHA-256 collision.
\<close>

theorem hash_binds_action:
  assumes "json_printer_injective X" and "uuid_printer_injective X"
    and "new_action_request X aid rid action resource p = Inr a" and "json_ok p"
    and "new_action_request X bid sid other target q = Inr b" and "json_ok q"
    and "ac_parameter_hash a = ac_parameter_hash b"
  shows "(ac_run_id a = ac_run_id b \<and> ac_id a = ac_id b \<and> ac_action a = ac_action b
      \<and> ac_resource a = ac_resource b
      \<and> canonical_json (ac_parameters a) = canonical_json (ac_parameters b))
    \<or> sha256_collision X (json_to_string X (action_binding X rid aid action resource p))
        (json_to_string X (action_binding X sid bid other target q))"
proof -
  let ?a = "action_binding X rid aid action resource p" and ?b = "action_binding X sid bid other target q"
  have "sha256_bytes X (json_to_string X ?a) = sha256_bytes X (json_to_string X ?b)"
    using assms(3,5,7) by (auto simp: new_action_request_def action_parameter_hash_def res_simps Let_def split: if_splits)
  then consider "json_to_string X ?a = json_to_string X ?b"
    | "sha256_collision X (json_to_string X ?a) (json_to_string X ?b)"
    using sha256_bytes_eq by blast
  then show ?thesis
  proof cases
    case 1
    moreover have "json_ok ?a" "json_ok ?b"
      using assms(4,6) by (simp_all add: action_binding_def json_ok_canonical)
    ultimately have "?a = ?b"
      using assms(1) by (auto simp: json_printer_injective_def dest: inj_onD)
    then show ?thesis
      using assms(3,5) to_hyphenated_inj [OF assms(2), of rid sid] to_hyphenated_inj [OF assms(2), of aid bid]
      by (auto simp: action_binding_def new_action_request_def res_simps split: if_splits)
  qed simp
qed

section \<open>Audit records\<close>

text \<open>
  C24. The head of an audit chain determines the whole chain: two chains that verify and end in the
  same event hash hold the same events in the same order, up to the canonical form of their metadata,
  or two of their event texts are a SHA-256 collision.
\<close>

theorem chain_head_determines_chain:
  assumes "json_printer_injective X" and "uuid_printer_injective X" and "time_printer_injective X"
    and "verify_chain X es" and "verify_chain X fs" and "last_hash es = last_hash fs"
    and "list_all metadata_ok es" and "list_all metadata_ok fs"
  shows "map canonical_event es = map canonical_event fs \<or>
    (\<exists>e \<in> set es. \<exists>f \<in> set fs. sha256_collision X (event_text X e) (event_text X f))"
  by (rule verified_chains_agree [OF assms])

text \<open>
  C25. An event the append envelope builds survives the wire: decoding its record returns it, although
  decoding redacts the metadata again and recomputes the hash. And decoding trusts no record: a record
  decodes exactly when the hash it carries is the hash of its own contents with redacted metadata, and
  what it decodes to is the record with redacted metadata and nothing else changed, which verifies at
  the position the record names.
\<close>

theorem audit_event_wire_roundtrip:
  "(build_event X eid a rid sq ty prev = Inr e \<longrightarrow> deserialize_audit_event X e = Inr e) \<and>
   (deserialize_audit_event X w = Inr f \<longleftrightarrow>
      f = w\<lparr>ev_metadata := from_untrusted (as_map (ev_metadata w))\<rparr> \<and>
      ev_event_hash w = sha256_bytes X (event_text X (w\<lparr>ev_metadata := from_untrusted (as_map (ev_metadata w))\<rparr>)) \<and>
      (ev_sequence w = 1 \<and> ev_previous_hash w = None \<or> 1 < ev_sequence w \<and> ev_previous_hash w \<noteq> None)) \<and>
   (deserialize_audit_event X w = Inr f \<longrightarrow>
      verify_integrity X f (ev_sequence w) (ev_previous_hash w) = Inr () \<and>
      secret_free (JObject (as_map (ev_metadata f))))"
proof -
  let ?md = "from_untrusted (as_map (ev_metadata w))"
  have "SchemaVersion = ev_schema_version w" by (cases "ev_schema_version w") simp
  then have d: "deserialize_audit_event X w = Inr f \<longleftrightarrow> f = w\<lparr>ev_metadata := ?md\<rparr> \<and>
      ev_event_hash w = sha256_bytes X (event_text X (w\<lparr>ev_metadata := ?md\<rparr>)) \<and>
      (ev_sequence w = 1 \<and> ev_previous_hash w = None \<or> 1 < ev_sequence w \<and> ev_previous_hash w \<noteq> None)"
    by (auto simp: deserialize_audit_event_def new_audit_event_def validate_audit_position_def Let_def res_simps
        event_text_def event_binding_def audit_event_hash_def split: if_splits)
  have "verify_integrity X f (ev_sequence w) (ev_previous_hash w) = Inr ()
      \<and> secret_free (JObject (as_map (ev_metadata f)))" if "deserialize_audit_event X w = Inr f"
  proof -
    have "new_audit_event X (ev_id w) (ev_run_id w) (ev_sequence w) (ev_event_type w) (ev_actor w)
        (ev_timestamp w) ?md (ev_previous_hash w) = Inr f"
      using that by (auto simp: deserialize_audit_event_def res_simps split: if_splits)
    from new_audit_event_verifies [OF this] show ?thesis
      using from_untrusted_secret_free [of "as_map (ev_metadata w)"] by (simp del: secret_free.simps)
  qed
  with d build_event_roundtrip show ?thesis by blast
qed

text \<open>
  A digest the program computes is accepted by its own parser and comes back unchanged, and a text
  that parses is kept byte for byte.
\<close>

theorem digest_roundtrip:
  assumes "sha256_width X"
  shows "parse_digest (digest_str (sha256_bytes X b)) = Inr (sha256_bytes X b) \<and>
    (parse_digest v = Inr d \<longrightarrow> digest_str d = v \<and> length v = 64)"
  using sha256_bytes_valid [OF assms, of b]
  by (auto simp: parse_digest_def valid_sha256_digest_def split: if_splits)

end
