(* ===== verification/Contract_Witnesses.thy ===== *)
theory Contract_Witnesses
  imports Samples Contract_Properties
begin

text \<open>
  Concrete inputs at which the hypotheses of the contract properties hold: portable paths, a mount
  below its root, a pinned image, a reordered document, two equal action requests and the audit chain
  of the sample history.
\<close>

theorem redacted_text_is_clean_witness:
  "redact_text (redact_text ''token=abc done'') = redact_text ''token=abc done''"
  using redacted_text_is_clean [of "''token=abc done''"] by blast

theorem artifact_path_stays_below_witness:
  "parse_rel_path ''out/report.csv'' = Inr (RelPath ''out/report.csv'') \<and>
   (\<forall>seg \<in> set (split_on CHR ''/'' ''out/report.csv''). seg \<noteq> [] \<and> seg \<noteq> ''..'')"
proof -
  have "parse_rel_path ''out/report.csv'' = Inr (RelPath ''out/report.csv'')"
    by (simp add: parse_rel_path_def starts_with_def is_portable_byte_def ascii_defs)
  with artifact_path_stays_below [OF this] show ?thesis by blast
qed

definition sample_fs :: fs_view where
  "sample_fs = \<lparr>canonicalize = Some, is_dir = (\<lambda>_. True)\<rparr>"

theorem approved_mount_below_root_witness:
  "\<exists>d. under_root sample_fs ''/data/in'' ''/data'' = Inr d \<and>
     strict_prefix (path_components ''/data'') (path_components (mount_path d))"
proof -
  have "under_root sample_fs ''/data/in'' ''/data'' = Inr (ApprovedMountDirectory ''/data/in'')"
    by (simp add: under_root_def sample_fs_def path_starts_with_def path_eq_def path_components_def
      starts_with_def)
  with approved_mount_below_root [OF this] show ?thesis by (auto simp: sample_fs_def)
qed

definition sample_image :: string where
  "sample_image = ''sha256:'' @ replicate 64 (CHR ''a'')"

theorem image_reference_is_pinned_witness:
  "\<exists>img. parse_image_ref sample_image = Inr img \<and> image_str img = sample_image
    \<and> \<not> starts_with sample_image ''-''"
proof -
  have "parse_image_ref sample_image = Inr (DigestPinnedImageRef sample_image)"
    by (simp add: parse_image_ref_def is_digest_pinned_image_def sample_image_def starts_with_def
      strip_prefix_def valid_sha256_digest_def list_all_iff list_ex_iff ascii_defs)
  with image_reference_is_pinned [OF this] show ?thesis by blast
qed

theorem hash_ignores_entry_order_witness:
  "\<exists>h. action_parameter_hash sample_ext run0 action0 ''act'' ''res'' (JObject [(''a'', JNull), (''b'', JNull)]) = Inr h
    \<and> action_parameter_hash sample_ext run0 action0 ''act'' ''res'' (JObject [(''b'', JNull), (''a'', JNull)]) = Inr h"
proof -
  have r: "reordered (JObject [(''a'', JNull), (''b'', JNull)]) (JObject [(''b'', JNull), (''a'', JNull)])"
    by (rule reordered.object [of _ "[(''a'', JNull), (''b'', JNull)]"]) (auto intro: reordered.leaf)
  have "\<exists>h. action_parameter_hash sample_ext run0 action0 ''act'' ''res''
      (JObject [(''a'', JNull), (''b'', JNull)]) = Inr h"
    by (simp add: action_parameter_hash_def Let_def validate_parameter_value.simps
      max_action_parameter_depth_def max_action_parameter_bytes_def action_binding_def sample_ext_def
      bm_of_list_def to_hyphenated_def print_uuid_def print_string_def unary_def run0_def action0_def)
  with hash_ignores_entry_order [OF r, of sample_ext run0 action0 "''act''" "''res''"] show ?thesis by blast
qed

lemma sample_request: "new_action_request sample_ext action0 run0 ''act'' ''res'' JNull = Inr sample_action"
  by (simp add: new_action_request_def sample_hash sample_action_def not_blank graphic_def byte_def)

theorem hash_binds_action_witness:
  "(ac_run_id sample_action = run0 \<and> canonical_json (ac_parameters sample_action) = JNull)
    \<or> sha256_collision sample_ext sample_binding sample_binding"
  using hash_binds_action [OF sample_ext_hypotheses(2,4) sample_request _ sample_request]
  by (simp add: sample_binding_def sample_action_def)

lemma sample_chain: "verify_chain sample_ext [event1, event2, event3]"
  by (simp add: verify_chain_def verify_integrity_def validate_audit_position_def event_content_hash_def
    event1_def event2_def event3_def mk_event_for_def after_def)

lemma sample_metadata_ok: "list_all metadata_ok [event1, event2, event3]"
  by (simp add: metadata_ok_def event1_def event2_def event3_def det_md_def from_untrusted_map
    bm_of_list_def)

theorem chain_head_determines_chain_witness:
  "map canonical_event [event1, event2, event3] = map canonical_event [event1, event2, event3] \<or>
    (\<exists>e \<in> set [event1, event2, event3]. \<exists>f \<in> set [event1, event2, event3].
      sha256_collision sample_ext (event_text sample_ext e) (event_text sample_ext f))"
  by (rule chain_head_determines_chain [OF sample_ext_hypotheses(2,4,5) sample_chain sample_chain refl
    sample_metadata_ok sample_metadata_ok])

theorem audit_event_wire_roundtrip_witness:
  "build_event sample_ext (UuidV7 10) (act_at 0) run0 1 EvRunCreated None = Inr event1 \<and>
   deserialize_audit_event sample_ext event1 = Inr event1"
proof -
  have "build_event sample_ext (UuidV7 10) (act_at 0) run0 1 EvRunCreated None = Inr event1"
    by (simp add: build_event_def act_at_def new_audit_append_def event1_def det_md_def)
  with audit_event_wire_roundtrip show ?thesis by blast
qed

theorem digest_roundtrip_witness:
  "parse_digest (digest_str (sha256_bytes sample_ext ''p'')) = Inr (sha256_bytes sample_ext ''p'')"
  using digest_roundtrip [OF sample_ext_hypotheses(1)] by blast

end
