(* ===== verification/Action_Executor.thy ===== *)
theory Action_Executor
  imports Store_Trace
begin

text \<open>
  The execution boundary for approved actions
  (\<^verbatim>\<open>crates/openwork-execution/src/action_executor.rs\<close>): a claimed action is an action checked
  against the durable claim its consumed approval left, an executor performs or recovers it, and
  \<^verbatim>\<open>execute_with_audit\<close> joins the executor to the audit chain of the run. The trait
  \<^verbatim>\<open>ActionExecutor\<close> is a locale with the contract its documentation states; the executor of the
  crate, \<^verbatim>\<open>MockActionExecutor\<close>, is shown to meet it. The state of the composed system is a pair of
  the executor's state and the store's.
\<close>

section \<open>Operations on a pair of states\<close>

definition on_fst :: "('x, 'e, 'a) op \<Rightarrow> ('x \<times> 's, 'e, 'a) op" where
  "on_fst m p = (case m (fst p) of (r, x) \<Rightarrow> (r, (x, snd p)))"

definition on_snd :: "('s, 'e, 'a) op \<Rightarrow> ('x \<times> 's, 'e, 'a) op" where
  "on_snd m p = (case m (snd p) of (r, s) \<Rightarrow> (r, (fst p, s)))"

lemma on_fst_iff [res_simps]: "(on_fst m p = (r, q)) = (m (fst p) = (r, fst q) \<and> snd q = snd p)"
  by (cases q) (auto simp: on_fst_def split: prod.splits)

lemma on_snd_iff [res_simps]: "(on_snd m p = (r, q)) = (m (snd p) = (r, snd q) \<and> fst q = fst p)"
  by (cases q) (auto simp: on_snd_def split: prod.splits)

section \<open>Claimed actions\<close>

record claimed_action =
  ca_action :: action_request
  ca_claim :: action_claim

definition invalid_claim :: openwork_error where
  "invalid_claim = new_error ApprovalInvalid ''action does not match an exact consumed approval claim''"

definition invalid_receipt :: openwork_error where
  "invalid_receipt = new_error ApprovalInvalid
     ''action execution receipt is missing, duplicated, or does not match the exact claim''"

definition verify_claimed :: "ext \<Rightarrow> action_request \<Rightarrow> action_claim \<Rightarrow> claimed_action store_op" where
  "verify_claimed X action claim =
     (if \<not> parameters_match_hash X action \<or> ac_run_id action \<noteq> cl_run_id claim
         \<or> ac_id action \<noteq> cl_action_id claim \<or> ac_parameter_hash action \<noteq> cl_parameter_hash claim
      then fail_with invalid_claim
      else
        bnd (get_action_claim (ac_id action)) (\<lambda>persisted.
        if persisted \<noteq> Some claim then fail_with invalid_claim
        else ret \<lparr>ca_action = action, ca_claim = claim\<rparr>))"

section \<open>Executors\<close>

datatype execution_outcome = Performed execution_receipt | Recovered execution_receipt

fun into_receipt :: "execution_outcome \<Rightarrow> execution_receipt \<times> bool" where
  "into_receipt (Performed receipt) = (receipt, False)"
| "into_receipt (Recovered receipt) = (receipt, True)"

type_synonym 'x executor = "claimed_action \<Rightarrow> ('x, openwork_error, execution_outcome) op"

definition expected_receipt :: "claimed_action \<Rightarrow> execution_receipt" where
  "expected_receipt c =
     \<lparr>rc_run_id = ac_run_id (ca_action c), rc_action_id = ac_id (ca_action c),
      rc_parameter_hash = ac_parameter_hash (ca_action c)\<rparr>"

definition execute_with_audit ::
    "ext \<Rightarrow> 'x executor \<Rightarrow> audit_event_id \<Rightarrow> claimed_action \<Rightarrow> actor_id \<Rightarrow> timestamp
      \<Rightarrow> ('x \<times> state, openwork_error, execution_receipt) op" where
  "execute_with_audit X execute eid claimed actor ts =
     bnd (on_fst (execute claimed)) (\<lambda>outcome.
     let (receipt, recovered) = into_receipt outcome
     in if receipt \<noteq> expected_receipt claimed then fail_with invalid_receipt
        else
          bnd (on_snd (reconcile_action_execution X eid receipt (new_audit_append actor ts))) (\<lambda>appended.
          if \<not> appended
          then fail_with (new_error ApprovalInvalid
            (if recovered then ''executed action was already reconciled''
             else ''executor performed an action with an existing audit receipt''))
          else ret receipt))"

type_synonym mock_executor = "(action_id, execution_receipt) btree_map"

definition mock_execute :: "mock_executor executor" where
  "mock_execute claimed =
     (let action = ca_action claimed
      in bnd (gets (\<lambda>receipts. bm_get receipts (ac_id action))) (\<lambda>found.
         case found of
           Some receipt \<Rightarrow>
             if rc_run_id receipt \<noteq> ac_run_id action
                \<or> rc_parameter_hash receipt \<noteq> ac_parameter_hash action
             then fail_with invalid_receipt
             else ret (Recovered receipt)
         | None \<Rightarrow>
             let receipt = \<lparr>rc_run_id = ac_run_id action, rc_action_id = ac_id action,
                   rc_parameter_hash = cl_parameter_hash (ca_claim claimed)\<rparr>
             in bnd (modify (bm_insert (ac_id action) receipt)) (\<lambda>_. ret (Performed receipt))))"

definition was_executed :: "action_id \<Rightarrow> (mock_executor, openwork_error, bool) op" where
  "was_executed aid = gets (\<lambda>receipts. bm_contains receipts aid)"

definition execution_count :: "(mock_executor, openwork_error, nat) op" where
  "execution_count = gets length"

section \<open>The composed system\<close>

text \<open>
  Other users of the store act between the calls to the boundary: a step is any call of the store or
  one complete \<^verbatim>\<open>execute_with_audit\<close>, whatever it returns.
\<close>

inductive system_step :: "ext \<Rightarrow> 'x executor \<Rightarrow> 'x \<times> state \<Rightarrow> 'x \<times> state \<Rightarrow> bool" for X execute where
  store: "store_step X s t \<Longrightarrow> system_step X execute (x, s) (x, t)"
| boundary: "execute_with_audit X execute eid c actor now p = (r, q) \<Longrightarrow> system_step X execute p q"

lemma execute_with_audit_parts:
  assumes "execute_with_audit X execute eid c actor now (x, s) = (r, (y, t))"
  obtains ro where "execute c x = (ro, y)" "t = s" "\<not> is_ok r"
  | oc res where "execute c x = (Inr oc, y)" "fst (into_receipt oc) = expected_receipt c"
      "reconcile_action_execution X eid (expected_receipt c) (new_audit_append actor now) s = (res, t)"
      "is_ok r \<longleftrightarrow> res = Inr True" "is_ok r \<Longrightarrow> r = Inr (expected_receipt c)"
proof (cases "execute c x")
  case (Pair ro y')
  show thesis
  proof (cases ro)
    case (Inl e)
    with Pair assms show thesis by (intro that(1)) (auto simp: execute_with_audit_def bnd_def on_fst_def)
  next
    case (Inr oc)
    obtain res t' where rc: "reconcile_action_execution X eid (expected_receipt c) (new_audit_append actor now) s = (res, t')"
      by (metis surj_pair)
    show thesis
    proof (cases "fst (into_receipt oc) = expected_receipt c")
      case True
      then obtain b where "into_receipt oc = (expected_receipt c, b)" by (metis prod.collapse)
      with Inr Pair assms rc True show thesis
        by (intro that(2) [of oc res])
          (auto simp: execute_with_audit_def bnd_def on_fst_def on_snd_def op_defs split: sum.splits if_splits)
    next
      case False
      with Inr Pair assms show thesis
        by (intro that(1)) (auto simp: execute_with_audit_def bnd_def on_fst_def op_defs split: prod.splits)
    qed
  qed
qed

lemma boundary_store_steps:
  assumes "execute_with_audit X execute eid c actor now (x, s) = (r, (y, t))"
  shows "(store_step X)\<^sup>*\<^sup>* s t"
  using assms by (rule execute_with_audit_parts) (auto dest: call_step(4))

lemma system_store_steps: "(system_step X execute)\<^sup>*\<^sup>* p q \<Longrightarrow> (store_step X)\<^sup>*\<^sup>* (snd p) (snd q)"
proof (induction rule: rtranclp_induct)
  case (step q r)
  from step.hyps(2) have "(store_step X)\<^sup>*\<^sup>* (snd q) (snd r)"
  proof cases
    case (boundary eid c actor now res)
    then show ?thesis
      using boundary_store_steps [of X execute eid c actor now "fst q" "snd q" res "fst r" "snd r"] by simp
  qed auto
  with step.IH show ?case by simp
qed simp

section \<open>The contract of an executor\<close>

text \<open>
  What the documentation of the trait asks: the receipt of a side effect is recorded before the effect
  is reported, a recorded action is only ever recovered, and a failing call records nothing.
\<close>

locale action_executor =
  fixes execute :: "'x executor"
    and receipts :: "'x \<Rightarrow> action_id \<Rightarrow> execution_receipt option"
  assumes performs: "execute c x = (Inr (Performed r), y) \<Longrightarrow>
      receipts x (ac_id (ca_action c)) = None \<and> receipts y = (receipts x)(ac_id (ca_action c) \<mapsto> r)"
    and recovers: "execute c x = (Inr (Recovered r), y) \<Longrightarrow>
      receipts x (ac_id (ca_action c)) = Some r \<and> receipts y = receipts x"
    and fails: "execute c x = (Inl e, y) \<Longrightarrow> receipts y = receipts x"
begin

lemma receipts_kept:
  assumes "execute c x = (ro, y)" and "receipts x a = Some r"
  shows "receipts y a = Some r"
proof (cases ro)
  case (Inl e)
  with fails assms show ?thesis by simp
next
  case (Inr oc)
  with assms performs [of c x _ y] recovers [of c x _ y] show ?thesis by (cases oc) auto
qed

lemma system_receipts_kept:
  assumes "(system_step X execute)\<^sup>*\<^sup>* p q" and "receipts (fst p) a = Some r"
  shows "receipts (fst q) a = Some r"
  using assms
proof (induction rule: rtranclp_induct)
  case (step q u)
  from step.hyps(2) show ?case
  proof cases
    case (boundary eid c actor now res)
    then obtain ro where "execute c (fst q) = (ro, fst u)"
      using execute_with_audit_parts [of X execute eid c actor now "fst q" "snd q" res "fst u" "snd u"] by fastforce
    with step.IH step.prems receipts_kept show ?thesis by blast
  qed (use step in auto)
qed simp

text \<open>Once an executor has performed or recovered an action, it never performs it again.\<close>

lemma performed_once:
  assumes "execute c x = (Inr oc, y)" and "(system_step X execute)\<^sup>*\<^sup>* (y, s) (z, t)"
    and "execute c' z = (Inr (Performed r), w)"
  shows "ac_id (ca_action c') \<noteq> ac_id (ca_action c)"
proof
  assume same: "ac_id (ca_action c') = ac_id (ca_action c)"
  have "\<exists>r. receipts y (ac_id (ca_action c)) = Some r"
    using assms(1) performs [of c x _ y] recovers [of c x _ y] by (cases oc) auto
  then obtain r' where "receipts y (ac_id (ca_action c)) = Some r'" by blast
  then have "receipts z (ac_id (ca_action c)) = Some r'"
    using system_receipts_kept [OF assms(2)] by simp
  with performs [OF assms(3)] same show False by simp
qed

end

lemma mock_execute_iff:
  "mock_execute c x = (ro, y) \<longleftrightarrow>
    (case bm_get x (ac_id (ca_action c)) of
       Some r \<Rightarrow> y = x \<and> ro = (if rc_run_id r = ac_run_id (ca_action c)
           \<and> rc_parameter_hash r = ac_parameter_hash (ca_action c) then Inr (Recovered r) else Inl invalid_receipt)
     | None \<Rightarrow> let r = \<lparr>rc_run_id = ac_run_id (ca_action c), rc_action_id = ac_id (ca_action c),
           rc_parameter_hash = cl_parameter_hash (ca_claim c)\<rparr>
         in ro = Inr (Performed r) \<and> y = bm_insert (ac_id (ca_action c)) r x)"
  by (auto simp: mock_execute_def Let_def op_defs split: option.splits)

interpretation mock: action_executor mock_execute bm_get
  by unfold_locales (auto simp: mock_execute_iff Let_def split: option.splits if_splits)

section \<open>Properties\<close>

lemma reconcile_claimed:
  assumes "reconcile_action_execution X eid rc audit s = (Inr b, t)"
  obtains c where "bm_get (st_action_claims s) (rc_action_id rc) = Some c" "cl_run_id c = rc_run_id rc"
    "cl_parameter_hash c = rc_parameter_hash rc"
  using assms by (auto simp: reconcile_action_execution_def verify_execution_claim_def res_simps)

text \<open>
  Only an action with a consumed approval passes the boundary: in a reachable state, verifying an
  action against a claim leaves the state alone and succeeds only if some approval for exactly this
  run and action was consumed with exactly the hash of the presented parameters, at the time of the
  claim.
\<close>

theorem claimed_action_was_approved:
  assumes "reachable X s" and "verify_claimed X action claim s = (Inr c, t)"
  shows "t = s \<and> ca_action c = action \<and> ca_claim c = claim \<and>
    action_parameter_hash X (ac_run_id action) (ac_id action) (ac_action action) (ac_resource action)
      (ac_parameters action) = Inr (ac_parameter_hash action) \<and>
    (\<exists>p a. bm_get (st_approvals s) p = Some a \<and> ap_status a = Consumed
      \<and> ap_run_id a = ac_run_id action \<and> ap_action_id a = ac_id action
      \<and> ap_parameter_hash a = ac_parameter_hash action \<and> ap_consumed_at a = Some (cl_claimed_at claim))"
proof -
  have v: "parameters_match_hash X action" "ac_run_id action = cl_run_id claim"
    "ac_id action = cl_action_id claim" "ac_parameter_hash action = cl_parameter_hash claim"
    "bm_get (st_action_claims s) (ac_id action) = Some claim" "t = s"
    "c = \<lparr>ca_action = action, ca_claim = claim\<rparr>"
    using assms(2) by (auto simp: verify_claimed_def get_action_claim_def res_simps split: if_splits)
  have "inv_approvals (bm_get (st_runs s)) (bm_get (st_approvals s)) (bm_get (st_approval_windows s))
      (bm_get (st_action_claims s))"
    using reachable_inv [OF assms(1)] by (simp add: ledger_inv_def)
  from inv_approvalsD(5) [OF this v(5)] obtain p a where
    "bm_get (st_approvals s) p = Some a" "claim_for claim a" by blast
  moreover from v(1) have "action_parameter_hash X (ac_run_id action) (ac_id action) (ac_action action)
      (ac_resource action) (ac_parameters action) = Inr (ac_parameter_hash action)"
    by (auto simp: parameters_match_hash_def split: sum.splits)
  ultimately show ?thesis using v by (auto simp: claim_for_def)
qed

text \<open>
  C11. An approved action takes effect once: after \<^verbatim>\<open>execute_with_audit\<close> returned a receipt, whatever
  the executor and the other users of the store do in between, no later call of it returns a receipt
  for the same action, and the executor never performs that action again.
\<close>

theorem action_takes_effect_once:
  assumes "reachable X s" and "uuid_printer_hex X"
    and "execute_with_audit X mock_execute e1 c actor now (x, s) = (Inr rc, (y, t))"
    and "(system_step X mock_execute)\<^sup>*\<^sup>* (y, t) (z, u)"
    and "ac_id (ca_action c') = ac_id (ca_action c)"
  shows "(\<exists>e w. execute_with_audit X mock_execute e2 c' actor' now' (z, u) = (Inl e, w)) \<and>
    (\<forall>r w. mock_execute c' z \<noteq> (Inr (Performed r), w))"
proof -
  from assms(3) obtain oc where ex: "mock_execute c x = (Inr oc, y)"
    and first: "reconcile_action_execution X e1 (expected_receipt c) (new_audit_append actor now) s = (Inr True, t)"
    by (rule execute_with_audit_parts) auto
  have steps: "(store_step X)\<^sup>*\<^sup>* t u" using system_store_steps [OF assms(4)] by simp
  have t: "reachable X t" by (rule reachable_step [OF assms(1) call_step(4) [OF first]])
  have "\<not> (\<exists>rc' w. execute_with_audit X mock_execute e2 c' actor' now' (z, u) = (Inr rc', w))"
  proof
    assume "\<exists>rc' w. execute_with_audit X mock_execute e2 c' actor' now' (z, u) = (Inr rc', w)"
    then obtain rc' z' v where "execute_with_audit X mock_execute e2 c' actor' now' (z, u) = (Inr rc', (z', v))"
      by auto
    then have again: "reconcile_action_execution X e2 (expected_receipt c') (new_audit_append actor' now') u = (Inr True, v)"
      by (rule execute_with_audit_parts) auto
    obtain k where k: "bm_get (st_action_claims s) (ac_id (ca_action c)) = Some k"
      "cl_run_id k = ac_run_id (ca_action c)" "cl_parameter_hash k = ac_parameter_hash (ca_action c)"
      using first by (rule reconcile_claimed) (simp add: expected_receipt_def)
    obtain k' where k': "bm_get (st_action_claims u) (ac_id (ca_action c')) = Some k'"
      "cl_run_id k' = ac_run_id (ca_action c')" "cl_parameter_hash k' = ac_parameter_hash (ca_action c')"
      using again by (rule reconcile_claimed) (simp add: expected_receipt_def)
    have "succeeds s u"
      using reachable_later [OF assms(1) converse_rtranclp_into_rtranclp [OF call_step(4) [OF first] steps]] by simp
    from later_claim [OF this k(1)] have "k' = k" using k'(1) assms(5) by simp
    with k k' assms(5) have "expected_receipt c' = expected_receipt c" by (simp add: expected_receipt_def)
    with reconcile_once [OF assms(1,2) first steps] again show False by fastforce
  qed
  moreover have "mock_execute c' z \<noteq> (Inr (Performed r), w)" for r w
    using mock.performed_once [OF ex assms(4)] assms(5) by blast
  ultimately show ?thesis by (metis old.sum.exhaust surj_pair)
qed

text \<open>
  C12. A lost audit write is repaired without repeating the effect: when the executor performed the
  action but the store rejected the audit append, the store is unchanged, and a later call, after any
  other activity, for which the store accepts the append succeeds with the same receipt and leaves the
  executor as it was.
\<close>

theorem audit_failure_is_recoverable:
  assumes "reachable X s" and "mock_execute c x = (Inr (Performed rc), y)" and "rc = expected_receipt c"
    and "execute_with_audit X mock_execute e1 c actor now (x, s) = (Inl e, (y, t))"
    and "(system_step X mock_execute)\<^sup>*\<^sup>* (y, t) (z, u)"
    and "reconcile_action_execution X e2 rc (new_audit_append actor' now') u = (Inr True, v)"
  shows "t = s \<and> execute_with_audit X mock_execute e2 c actor' now' (z, u) = (Inr rc, (z, v))"
proof -
  have "t = s"
    using assms(4)
  proof (rule execute_with_audit_parts)
    fix oc res
    assume r: "reconcile_action_execution X e1 (expected_receipt c) (new_audit_append actor now) s = (res, t)"
      and "is_ok (Inl e :: _ + execution_receipt) \<longleftrightarrow> res = Inr True"
    then consider e' where "res = Inl e'" | "res = Inr False" by (cases res) auto
    then show "t = s"
    proof cases
      case 1
      with r reachable_inv [OF assms(1)] show ?thesis by (auto dest: reconcile_atomic)
    next
      case 2
      from r [unfolded 2] show ?thesis by (rule reconcile_ok) simp
    qed
  qed
  moreover have "bm_get y (ac_id (ca_action c)) = Some rc" using mock.performs [OF assms(2)] by simp
  then have "bm_get z (ac_id (ca_action c)) = Some rc"
    using mock.system_receipts_kept [OF assms(5)] by simp
  then have "mock_execute c z = (Inr (Recovered rc), z)"
    using assms(3) by (simp add: mock_execute_iff expected_receipt_def)
  then have "execute_with_audit X mock_execute e2 c actor' now' (z, u) = (Inr rc, (z, v))"
    using assms(3,6) by (simp add: execute_with_audit_def bnd_def on_fst_def on_snd_def ret_def)
  ultimately show ?thesis by blast
qed

end
