(* ===== verification/Artifact_Scan.thy ===== *)
theory Artifact_Scan
  imports Contract_Properties
begin

text \<open>
  The artifact scanner (\<^verbatim>\<open>crates/openwork-execution/src/artifact/mod.rs\<close>): it opens only the output
  paths a sandbox reported, below a root that is not a symbolic link, through components that are not
  symbolic links, and hashes a bounded regular file that must not change while it is read. The answers
  of the file system are a parameter: names as they are at the time of the scan, and for an opened
  file what its metadata and each successive \<^verbatim>\<open>read\<close> return.
\<close>

section \<open>The file system\<close>

record open_file =
  of_before :: "(bool \<times> u64) option"  \<comment> \<open>\<^verbatim>\<open>is_file()\<close> and \<^verbatim>\<open>len()\<close> right after opening\<close>
  of_read :: "nat \<Rightarrow> string option"  \<comment> \<open>the bytes of the n-th read, empty at the end of the file\<close>
  of_after :: "u64 option"  \<comment> \<open>\<^verbatim>\<open>len()\<close> after reading\<close>

record scan_view = fs_view +
  is_symlink :: "string \<Rightarrow> bool option"
  open_path :: "string \<Rightarrow> open_file option"

definition path_join :: "string \<Rightarrow> string \<Rightarrow> string" where
  \<comment> \<open>\<^verbatim>\<open>Path::join\<close> and \<^verbatim>\<open>PathBuf::push\<close>\<close>
  "path_join root rel =
     (if starts_with rel ''/'' then rel
      else if root = [] \<or> ends_with root ''/'' then root @ rel
      else root @ ''/'' @ rel)"

definition path_file_name :: "string \<Rightarrow> string option" where
  \<comment> \<open>\<^verbatim>\<open>Path::file_name\<close>: the last component unless it is the root or the parent\<close>
  "path_file_name p =
     (case filter (\<lambda>c. c \<noteq> ''.'') (path_components p) of
        [] \<Rightarrow> None
      | cs \<Rightarrow> if last cs = ''/'' \<or> last cs = ''..'' then None else Some (last cs))"

definition path_extension :: "string \<Rightarrow> string option" where
  \<comment> \<open>\<^verbatim>\<open>Path::extension\<close>: what follows the last dot, unless the name starts with it\<close>
  "path_extension p =
     Option.bind (path_file_name p) (\<lambda>name.
       case rsplit_once ''.'' name of
         None \<Rightarrow> None
       | Some (before, after) \<Rightarrow> if before = [] then None else Some after)"

section \<open>The scanner\<close>

record artifact_scanner =
  as_max_bytes :: u64

definition scan_error :: "string \<Rightarrow> openwork_error" where
  "scan_error msg = new_error ArtifactInvalid msg"

definition new_scanner :: "u64 \<Rightarrow> artifact_scanner result" where
  "new_scanner max_bytes =
     res_bind (new_artifact_size max_bytes) (\<lambda>_. Inr \<lparr>as_max_bytes = max_bytes\<rparr>)"

definition trusted_root :: "scan_view \<Rightarrow> string \<Rightarrow> string result" where
  "trusted_root F path =
     res_bind (ok_or (is_symlink F path) (scan_error ''output root is unavailable'')) (\<lambda>link.
     if link then Inl (scan_error ''output root cannot be a symlink'')
     else
       res_bind (ok_or (canonicalize F path) (scan_error ''output root is unavailable'')) (\<lambda>root.
       if \<not> is_dir F root then Inl (scan_error ''output root is not a directory'') else Inr root))"

fun reject_links :: "scan_view \<Rightarrow> string \<Rightarrow> string list \<Rightarrow> unit result" where
  "reject_links F current [] = Inr ()"
| "reject_links F current (component # rest) =
     (let current = path_join current component
      in res_bind (ok_or (is_symlink F current) (scan_error ''artifact path is unavailable'')) (\<lambda>link.
         if link then Inl (scan_error ''artifact path cannot contain symlinks'')
         else reject_links F current rest))"

definition reject_symlink_components :: "scan_view \<Rightarrow> string \<Rightarrow> rel_path \<Rightarrow> unit result" where
  "reject_symlink_components F root relative =
     reject_links F root (split_on CHR ''/'' (path_str relative))"

definition media_type :: "string \<Rightarrow> string" where
  "media_type path =
     (case map_option to_ascii_lowercase (path_extension path) of
        None \<Rightarrow> ''application/octet-stream''
      | Some ext \<Rightarrow>
          if ext = ''csv'' then ''text/csv''
          else if ext = ''json'' then ''application/json''
          else if ext = ''md'' then ''text/markdown''
          else if ext = ''txt'' then ''text/plain''
          else ''application/octet-stream'')"

lemma counted:
  assumes "Option.bind (u64_of_len (length buffer)) (checked_add copied) = Some grown"
  shows "unat grown = unat copied + length buffer"
  using assms by (auto simp: bind_eq_Some_conv dest!: unat_checked_add unat_u64_of_len)

text \<open>
  The read loop. The hasher is the text it has been fed. Every round that goes on has counted at least
  one byte more and stays within the limit, so the loop ends even on a file that never does.
\<close>

function hash_loop :: "u64 \<Rightarrow> (nat \<Rightarrow> string option) \<Rightarrow> nat \<Rightarrow> u64 \<Rightarrow> string \<Rightarrow> (u64 \<times> string) result" where
  "hash_loop max_bytes reads n copied hashed =
     (case reads n of
        None \<Rightarrow> Inl (scan_error ''artifact cannot be hashed'')
      | Some buffer \<Rightarrow>
          if buffer = [] then Inr (copied, hashed)
          else
            (case Option.bind (u64_of_len (length buffer)) (checked_add copied) of
               None \<Rightarrow> Inl (scan_error ''artifact too large'')
             | Some grown \<Rightarrow>
                 if grown > max_bytes then Inl (scan_error ''artifact exceeds its configured limit'')
                 else hash_loop max_bytes reads (Suc n) grown (hashed @ buffer)))"
  by pat_completeness auto

termination
proof (relation "measure (\<lambda>(m, r, n, copied, h). unat m - unat copied)")
  fix m r n copied h buffer grown
  assume "(buffer :: string) \<noteq> []"
    and "Option.bind (u64_of_len (length buffer)) (checked_add copied) = Some grown" and "\<not> m < grown"
  then show "((m, r, Suc n, grown, h @ buffer), m, r, n, copied, h)
      \<in> measure (\<lambda>(m, r, n, copied, h). unat m - unat copied)"
    using counted by (cases buffer) (fastforce simp: word_le_nat_alt not_less)+
qed simp

declare hash_loop.simps [simp del]

definition scan_one ::
    "ext \<Rightarrow> scan_view \<Rightarrow> artifact_scanner \<Rightarrow> artifact_id \<Rightarrow> run_id \<Rightarrow> string \<Rightarrow> rel_path \<Rightarrow> timestamp
      \<Rightarrow> artifact result" where
  "scan_one X F scanner aid rid root relative created_at =
     (let candidate = path_join root (path_str relative)
      in res_bind (reject_symlink_components F root relative) (\<lambda>_.
         res_bind (ok_or (canonicalize F candidate) (scan_error ''artifact is unavailable'')) (\<lambda>canonical.
         if \<not> path_starts_with canonical root \<or> path_eq canonical root
         then Inl (scan_error ''artifact escapes the output root'')
         else
         res_bind (ok_or (open_path F canonical) (scan_error ''artifact cannot be read'')) (\<lambda>fh.
         res_bind (ok_or (of_before fh) (scan_error ''artifact metadata unavailable'')) (\<lambda>(is_file, len).
         if \<not> is_file \<or> len > as_max_bytes scanner
         then Inl (scan_error ''artifact is not a bounded regular file'')
         else
         res_bind (hash_loop (as_max_bytes scanner) (of_read fh) 0 0 []) (\<lambda>(copied, hashed).
         res_bind (ok_or (of_after fh) (scan_error ''artifact metadata unavailable'')) (\<lambda>after.
         if copied \<noteq> len \<or> copied > as_max_bytes scanner \<or> len \<noteq> after
         then Inl (scan_error ''artifact changed while scanning or exceeded its limit'')
         else
         res_bind (parse_digest (digest_str (sha256_bytes X hashed))) (\<lambda>sha256.
         res_bind (new_artifact_size copied) (\<lambda>size_bytes.
         Inr \<lparr>ar_schema_version = SchemaVersion, ar_id = aid, ar_run_id = rid, ar_path = relative,
              ar_media_type = media_type canonical, ar_size_bytes = size_bytes, ar_sha256 = sha256,
              ar_created_at = created_at\<rparr>)))))))))"

fun scan_paths ::
    "ext \<Rightarrow> scan_view \<Rightarrow> artifact_scanner \<Rightarrow> (nat \<Rightarrow> artifact_id) \<Rightarrow> run_id \<Rightarrow> string \<Rightarrow> timestamp \<Rightarrow> nat
      \<Rightarrow> string list \<Rightarrow> rel_path list \<Rightarrow> artifact list result" where
  \<comment> \<open>the iterator that \<^verbatim>\<open>scan\<close> collects; the list of texts is the set \<^verbatim>\<open>seen\<close>\<close>
  "scan_paths X F scanner ids rid root created_at n seen [] = Inr []"
| "scan_paths X F scanner ids rid root created_at n seen (path # rest) =
     (if path_str path \<in> set seen then Inl (scan_error ''duplicate output path'')
      else
        res_bind (scan_one X F scanner (ids n) rid root path created_at) (\<lambda>a.
        res_bind (scan_paths X F scanner ids rid root created_at (Suc n) (path_str path # seen) rest) (\<lambda>as.
        Inr (a # as))))"

definition scan ::
    "ext \<Rightarrow> scan_view \<Rightarrow> artifact_scanner \<Rightarrow> (nat \<Rightarrow> artifact_id) \<Rightarrow> run_id \<Rightarrow> string \<Rightarrow> rel_path list
      \<Rightarrow> timestamp \<Rightarrow> artifact list result" where
  "scan X F scanner ids rid output_root paths created_at =
     res_bind (trusted_root F output_root) (\<lambda>root.
     scan_paths X F scanner ids rid root created_at 0 [] paths)"

definition verify_artifact ::
    "ext \<Rightarrow> scan_view \<Rightarrow> artifact_scanner \<Rightarrow> artifact_id \<Rightarrow> string \<Rightarrow> artifact \<Rightarrow> unit result" where
  "verify_artifact X F scanner aid output_root a =
     res_bind (trusted_root F output_root) (\<lambda>root.
     res_bind (scan_one X F scanner aid (ar_run_id a) root (ar_path a) (ar_created_at a)) (\<lambda>current.
     if ar_size_bytes current \<noteq> ar_size_bytes a \<or> ar_sha256 current \<noteq> ar_sha256 a
     then Inl (scan_error ''artifact size or SHA-256 mismatch'')
     else Inr ()))"

section \<open>The read loop\<close>

text \<open>What the file holds: its reads up to the first empty one.\<close>

inductive file_bytes :: "(nat \<Rightarrow> string option) \<Rightarrow> nat \<Rightarrow> string \<Rightarrow> bool" for reads where
  eof: "reads n = Some [] \<Longrightarrow> file_bytes reads n []"
| more: "reads n = Some buffer \<Longrightarrow> buffer \<noteq> [] \<Longrightarrow> file_bytes reads (Suc n) rest \<Longrightarrow>
    file_bytes reads n (buffer @ rest)"

lemma hash_loop_ok:
  assumes "hash_loop m reads n copied hashed = Inr (grown, data)" and "copied \<le> m"
  shows "\<exists>bytes. file_bytes reads n bytes \<and> data = hashed @ bytes
    \<and> unat grown = unat copied + length bytes \<and> grown \<le> m"
  using assms
proof (induction m reads n copied hashed rule: hash_loop.induct)
  case (1 m reads n copied hashed)
  from "1.prems"(1) obtain buffer where b: "reads n = Some buffer"
    by (subst (asm) hash_loop.simps) (auto split: option.splits)
  show ?case
  proof (cases "buffer = []")
    case True
    with "1.prems" b show ?thesis
      by (subst (asm) hash_loop.simps) (auto intro: file_bytes.eof)
  next
    case False
    with "1.prems"(1) b obtain step1 where
      c: "Option.bind (u64_of_len (length buffer)) (checked_add copied) = Some step1" and l: "\<not> step1 > m"
      and r: "hash_loop m reads (Suc n) step1 (hashed @ buffer) = Inr (grown, data)"
      by (subst (asm) hash_loop.simps) (auto split: option.splits if_splits)
    from "1.IH" [OF b False c l r] l obtain bytes where
      "file_bytes reads (Suc n) bytes" "data = (hashed @ buffer) @ bytes"
      "unat grown = unat step1 + length bytes" "grown \<le> m" by (auto simp: not_less)
    with b False counted [OF c] show ?thesis by (auto intro: file_bytes.more)
  qed
qed

lemma hash_loop_reads:
  assumes "\<forall>i. i \<le> unat m - unat copied \<longrightarrow> reads (n + i) = reads' (n + i)"
  shows "hash_loop m reads n copied hashed = hash_loop m reads' n copied hashed"
  using assms
proof (induction m reads n copied hashed rule: hash_loop.induct)
  case (1 m reads n copied hashed)
  have 0: "reads n = reads' n" using "1.prems" by (metis add.right_neutral zero_le)
  have "hash_loop m reads (Suc n) grown (hashed @ buffer) = hash_loop m reads' (Suc n) grown (hashed @ buffer)"
    if "reads n = Some buffer" "buffer \<noteq> []"
      "Option.bind (u64_of_len (length buffer)) (checked_add copied) = Some grown" "\<not> m < grown"
    for buffer grown
  proof (rule "1.IH" [OF that])
    have "unat grown = unat copied + length buffer" by (rule counted [OF that(3)])
    moreover have "0 < length buffer" using that(2) by simp
    moreover have "unat grown \<le> unat m" using that(4) by (simp add: word_le_nat_alt not_less)
    ultimately have "Suc i \<le> unat m - unat copied" if "i \<le> unat m - unat grown" for i using that by linarith
    then show "\<forall>i. i \<le> unat m - unat grown \<longrightarrow> reads (Suc n + i) = reads' (Suc n + i)"
      using "1.prems" by (metis add_Suc_shift)
  qed
  then show ?case
    by (subst (1 2) hash_loop.simps) (auto simp: 0 split: option.splits)
qed

section \<open>What a scan establishes\<close>

definition unlinked :: "scan_view \<Rightarrow> string \<Rightarrow> string list \<Rightarrow> bool" where
  \<comment> \<open>no name on the way from the root through the segments is a symbolic link\<close>
  "unlinked F root segments =
     (\<forall>k < length segments. is_symlink F (foldl path_join root (take (Suc k) segments)) = Some False)"

lemma reject_links_unlinked: "reject_links F root segments = Inr () \<longleftrightarrow> unlinked F root segments"
proof (induction segments arbitrary: root)
  case (Cons segment segments)
  have "unlinked F root (segment # segments) \<longleftrightarrow>
      is_symlink F (path_join root segment) = Some False \<and> unlinked F (path_join root segment) segments"
    unfolding unlinked_def by (simp add: All_less_Suc2)
  with Cons.IH [of "path_join root segment"] show ?case by (auto simp: Let_def res_simps split: if_splits)
qed (simp add: unlinked_def)

definition file_at :: "scan_view \<Rightarrow> string \<Rightarrow> rel_path \<Rightarrow> string \<Rightarrow> bool" where
  \<comment> \<open>a regular file strictly below the root, reached through no symbolic link, that holds exactly
      these bytes and has their number as its length before and after it is read\<close>
  "file_at F root path bytes =
     (\<exists>canonical fh n.
        canonicalize F (path_join root (path_str path)) = Some canonical
        \<and> strict_prefix (path_components root) (path_components canonical)
        \<and> unlinked F root (split_on CHR ''/'' (path_str path))
        \<and> open_path F canonical = Some fh \<and> of_before fh = Some (True, n) \<and> of_after fh = Some n
        \<and> file_bytes (of_read fh) 0 bytes \<and> unat n = length bytes)"

definition scanned_from :: "ext \<Rightarrow> scan_view \<Rightarrow> u64 \<Rightarrow> string \<Rightarrow> artifact \<Rightarrow> bool" where
  "scanned_from X F max_bytes root a =
     (\<exists>bytes. file_at F root (ar_path a) bytes \<and> unat (size_get (ar_size_bytes a)) = length bytes
        \<and> size_get (ar_size_bytes a) \<le> max_bytes \<and> ar_sha256 a = sha256_bytes X bytes
        \<and> (\<exists>canonical. canonicalize F (path_join root (path_str (ar_path a))) = Some canonical
             \<and> ar_media_type a = media_type canonical))"

lemma parse_digest_ok: "parse_digest v = Inr d \<Longrightarrow> d = Sha256Digest v"
  by (auto simp: parse_digest_def split: if_splits)

lemma scan_one_parts:
  assumes "scan_one X F scanner aid rid root path now = Inr a"
  obtains canonical fh len hashed sha sz where
    "reject_symlink_components F root path = Inr ()"
    "canonicalize F (path_join root (path_str path)) = Some canonical"
    "path_starts_with canonical root" "\<not> path_eq canonical root"
    "open_path F canonical = Some fh" "of_before fh = Some (True, len)" "of_after fh = Some len"
    "hash_loop (as_max_bytes scanner) (of_read fh) 0 0 [] = Inr (len, hashed)"
    "\<not> as_max_bytes scanner < len" "parse_digest (digest_str (sha256_bytes X hashed)) = Inr sha"
    "new_artifact_size len = Inr sz"
    "a = \<lparr>ar_schema_version = SchemaVersion, ar_id = aid, ar_run_id = rid, ar_path = path,
       ar_media_type = media_type canonical, ar_size_bytes = sz, ar_sha256 = sha, ar_created_at = now\<rparr>"
  using assms by (auto simp: scan_one_def Let_def res_simps split: if_splits prod.splits)

lemma scan_one_id:
  assumes "scan_one X F scanner aid rid root path now = Inr a"
  shows "scan_one X F scanner aid' rid root path now = Inr (a\<lparr>ar_id := aid'\<rparr>)"
  using assms by (rule scan_one_parts) (simp add: scan_one_def Let_def)

lemma scan_one_ok:
  assumes "scan_one X F scanner aid rid root path now = Inr a"
  shows "ar_id a = aid \<and> ar_run_id a = rid \<and> ar_path a = path \<and> ar_created_at a = now
    \<and> scanned_from X F (as_max_bytes scanner) root a"
  using assms
proof (rule scan_one_parts)
  fix canonical fh len hashed sha sz
  assume p: "reject_symlink_components F root path = Inr ()"
    "canonicalize F (path_join root (path_str path)) = Some canonical"
    "path_starts_with canonical root" "\<not> path_eq canonical root"
    "open_path F canonical = Some fh" "of_before fh = Some (True, len)" "of_after fh = Some len"
    "\<not> as_max_bytes scanner < len"
    and h: "hash_loop (as_max_bytes scanner) (of_read fh) 0 0 [] = Inr (len, hashed)"
    and d: "parse_digest (digest_str (sha256_bytes X hashed)) = Inr sha"
    and z: "new_artifact_size len = Inr sz"
    and a: "a = \<lparr>ar_schema_version = SchemaVersion, ar_id = aid, ar_run_id = rid, ar_path = path,
       ar_media_type = media_type canonical, ar_size_bytes = sz, ar_sha256 = sha, ar_created_at = now\<rparr>"
  from hash_loop_ok [OF h] have "file_bytes (of_read fh) 0 hashed" "unat len = length hashed" by auto
  moreover from d have "sha = sha256_bytes X hashed" by (auto dest!: parse_digest_ok)
  moreover from z have "size_get sz = len" by (auto simp: new_artifact_size_def split: if_splits)
  ultimately show ?thesis
    using p a
    by (auto simp: scanned_from_def file_at_def reject_symlink_components_def reject_links_unlinked path_starts_with_def path_eq_def strict_prefix_def not_less)
qed

lemma scan_paths_ok:
  assumes "scan_paths X F scanner ids rid root now n seen paths = Inr as"
  shows "map ar_path as = paths \<and> distinct (map path_str paths) \<and> set (map path_str paths) \<inter> set seen = {}
    \<and> (\<forall>a \<in> set as. ar_run_id a = rid \<and> ar_created_at a = now \<and> scanned_from X F (as_max_bytes scanner) root a)"
  using assms
proof (induction paths arbitrary: n seen as)
  case (Cons path rest)
  then obtain a as' where "path_str path \<notin> set seen" "scan_one X F scanner (ids n) rid root path now = Inr a"
    "scan_paths X F scanner ids rid root now (Suc n) (path_str path # seen) rest = Inr as'" "as = a # as'"
    by (auto simp: res_simps split: if_splits)
  with Cons.IH [of "Suc n" "path_str path # seen" as'] scan_one_ok show ?case by fastforce
qed simp

lemma trusted_root_ok:
  "trusted_root F path = Inr root \<Longrightarrow> is_symlink F path = Some False \<and> canonicalize F path = Some root \<and> is_dir F root"
  by (auto simp: trusted_root_def res_simps split: if_splits)

text \<open>
  C20. A scan reports what is there: on success it returns one artifact per reported path, in order and
  without duplicates, and each describes exactly the bytes of a regular file of at most the configured
  size that did not change while it was read, lies strictly below the canonical output root and is
  reached through no symbolic link.
\<close>

theorem scan_is_exact:
  assumes "scan X F scanner ids rid output_root paths now = Inr as"
  shows "map ar_path as = paths \<and> distinct paths \<and> is_symlink F output_root = Some False \<and>
    (\<exists>root. canonicalize F output_root = Some root \<and> is_dir F root \<and>
      (\<forall>a \<in> set as. ar_run_id a = rid \<and> ar_created_at a = now
        \<and> scanned_from X F (as_max_bytes scanner) root a))"
proof -
  from assms obtain root where r: "trusted_root F output_root = Inr root"
    and s: "scan_paths X F scanner ids rid root now 0 [] paths = Inr as"
    by (auto simp: scan_def res_simps)
  from scan_paths_ok [OF s] trusted_root_ok [OF r] show ?thesis by (auto simp: distinct_map)
qed

text \<open>
  The read loop always ends: however the file behaves, even one that never reaches its end, the
  outcome of hashing depends on at most one read more than the byte limit.
\<close>

theorem hashing_reads_are_bounded:
  assumes "\<forall>i \<le> unat max_bytes. reads i = reads' i"
  shows "hash_loop max_bytes reads 0 0 [] = hash_loop max_bytes reads' 0 0 []"
  by (rule hash_loop_reads) (use assms in simp)

text \<open>
  Verification detects drift: an artifact that was recorded from some bytes verifies against a
  later view of the file system only if the file there holds the same bytes, or bytes that collide
  with them under SHA-256; and it verifies against the view it was scanned from.
\<close>

theorem verification_detects_drift:
  assumes "scan_one X F scanner aid rid root path now = Inr a" and "trusted_root F output_root = Inr root"
  shows "verify_artifact X F scanner aid' output_root a = Inr () \<and>
    (verify_artifact X G scanner aid' output_root a = Inr () \<longrightarrow>
      (\<exists>root' bytes bytes'. trusted_root G output_root = Inr root' \<and> file_at F root path bytes
        \<and> file_at G root' path bytes' \<and> length bytes' = length bytes
        \<and> (bytes' = bytes \<or> sha256_collision X bytes' bytes)))"
proof -
  have s: "ar_run_id a = rid" "ar_path a = path" "ar_created_at a = now"
    "scanned_from X F (as_max_bytes scanner) root a" using scan_one_ok [OF assms(1)] by simp_all
  then have "verify_artifact X F scanner aid' output_root a = Inr ()"
    using assms(2) scan_one_id [OF assms(1), of aid'] by (simp add: verify_artifact_def)
  moreover {
    assume "verify_artifact X G scanner aid' output_root a = Inr ()"
    then obtain root' b where r: "trusted_root G output_root = Inr root'"
      and b: "scan_one X G scanner aid' rid root' path now = Inr b"
      and eq: "ar_size_bytes b = ar_size_bytes a" "ar_sha256 b = ar_sha256 a"
      using s by (auto simp: verify_artifact_def res_simps split: if_splits)
    from s(2,4) obtain bytes where f: "file_at F root path bytes"
      "unat (size_get (ar_size_bytes a)) = length bytes" "ar_sha256 a = sha256_bytes X bytes"
      by (auto simp: scanned_from_def)
    from scan_one_ok [OF b] obtain bytes' where g: "file_at G root' path bytes'"
      "unat (size_get (ar_size_bytes b)) = length bytes'" "ar_sha256 b = sha256_bytes X bytes'"
      by (auto simp: scanned_from_def)
    from f g eq have "sha256_bytes X bytes' = sha256_bytes X bytes" "length bytes' = length bytes" by simp_all
    with sha256_bytes_eq [of X bytes' bytes] f(1) g(1) r have "\<exists>root' bytes bytes'.
        trusted_root G output_root = Inr root' \<and> file_at F root path bytes
        \<and> file_at G root' path bytes' \<and> length bytes' = length bytes
        \<and> (bytes' = bytes \<or> sha256_collision X bytes' bytes)" by blast
  }
  ultimately show ?thesis by blast
qed

end
