(* ===== verification/Orchestrator.thy ===== *)
theory Orchestrator
  imports Store_Trace Artifact_Scan
begin

text \<open>
  The execution orchestrator (\<^verbatim>\<open>crates/openwork-execution/src/orchestrator/mod.rs\<close>): it creates a run
  from a prompt of which only the digest is kept, and takes a run through planning, the sandbox, the
  processing of its output and the scan of its artifacts to a terminal status. The sandbox and the
  output processor are parameters that return a result; the identifiers and clock readings of one call
  are fields of a record. A failure transition whose own result the code drops keeps its effect.
\<close>

section \<open>Operations\<close>

definition inspect_err :: "('s, 'e, 'a) op \<Rightarrow> ('s, 'e, 'b) op \<Rightarrow> ('s, 'e, 'a) op" where
  \<comment> \<open>\<^verbatim>\<open>m.inspect_err(|_| { let _ = h; })?\<close>: on an error the handler's effect is kept, its result dropped\<close>
  "inspect_err m h s = (case m s of (Inl e, t) \<Rightarrow> (Inl e, snd (h t)) | (Inr x, t) \<Rightarrow> (Inr x, t))"

lemma inspect_err_ok [res_simps]: "(inspect_err m h s = (Inr x, t)) = (m s = (Inr x, t))"
  by (auto simp: inspect_err_def split: prod.splits sum.splits)

lemma inspect_err_err [res_simps]:
  "(inspect_err m h s = (Inl e, t)) = (\<exists>u. m s = (Inl e, u) \<and> t = snd (h u))"
  by (auto simp: inspect_err_def split: prod.splits sum.splits)

record call_inputs =
  ci_planning :: audit_event_id
  ci_running :: audit_event_id
  ci_failure :: audit_event_id
  ci_terminal :: audit_event_id
  ci_artifacts :: "nat \<Rightarrow> artifact_id"
  ci_artifact_events :: "nat \<Rightarrow> audit_event_id"
  ci_sandbox_failed_at :: timestamp
  ci_output_failed_at :: timestamp
  ci_completed_at :: timestamp

definition orchestrator_create_run ::
    "ext \<Rightarrow> fs_view \<Rightarrow> run_id \<Rightarrow> audit_event_id \<Rightarrow> string \<Rightarrow> string \<Rightarrow> actor_id \<Rightarrow> string \<Rightarrow> timestamp
      \<Rightarrow> run store_op" where
  "orchestrator_create_run X F rid eid runtime workspace actor prompt now =
     (if blank runtime \<or> length runtime > 128
      then fail_with (new_error InvalidArguments ''invalid runtime name'')
      else
        bnd (lift_res (ok_or (canonicalize F workspace)
          (new_error InvalidArguments ''workspace unavailable''))) (\<lambda>workspace.
        if \<not> is_dir F workspace
        then fail_with (new_error InvalidArguments ''workspace is not a directory'')
        else
          create_run X eid
            \<lparr>r_schema_version = SchemaVersion, r_id = rid, r_runtime = runtime, r_workspace = workspace,
             r_status = Queued, r_revision = 0, r_actor_id = actor,
             r_prompt_sha256 = sha256_bytes X prompt, r_created_at = now, r_updated_at = now,
             r_started_at = None, r_completed_at = None, r_terminal_reason = None\<rparr>
            (new_audit_append actor now)))"

definition transition ::
    "ext \<Rightarrow> audit_event_id \<Rightarrow> run_id \<Rightarrow> u64 \<Rightarrow> run_status \<Rightarrow> string option \<Rightarrow> actor_id \<Rightarrow> timestamp
      \<Rightarrow> run store_op" where
  "transition X eid rid expected_revision nxt reason actor now =
     transition_run X eid rid expected_revision nxt reason (new_audit_append actor now)"

definition orchestrator_record_artifacts ::
    "ext \<Rightarrow> scan_view \<Rightarrow> artifact_scanner \<Rightarrow> (nat \<Rightarrow> artifact_id) \<Rightarrow> (nat \<Rightarrow> audit_event_id) \<Rightarrow> run_id
      \<Rightarrow> string \<Rightarrow> rel_path list \<Rightarrow> actor_id \<Rightarrow> timestamp \<Rightarrow> artifact list store_op" where
  "orchestrator_record_artifacts X F scanner aids eids rid output_root paths actor created_at =
     bnd (lift_res (scan X F scanner aids rid output_root paths created_at)) (\<lambda>batch.
     bnd (record_artifacts X eids rid batch (new_audit_append actor created_at)) (\<lambda>_.
     ret batch))"

definition accept_sandbox_result :: "run_id \<Rightarrow> sandbox_result \<Rightarrow> sandbox_result result" where
  \<comment> \<open>the free function \<^verbatim>\<open>validate_sandbox_result\<close> of the orchestrator\<close>
  "accept_sandbox_result rid res =
     res_bind (validate_sandbox_result res) (\<lambda>_.
     if sx_run_id res \<noteq> rid
     then Inl (new_error ExecutionFailed ''sandbox result does not match run'')
     else if sx_cleanup res \<noteq> CleanupSucceeded
     then Inl (new_error ExecutionFailed ''sandbox cleanup failed'')
     else Inr res)"

definition process_output_or_fail ::
    "ext \<Rightarrow> call_inputs \<Rightarrow> run \<Rightarrow> sandbox_result \<Rightarrow> actor_id \<Rightarrow> (sandbox_result \<Rightarrow> unit result)
      \<Rightarrow> unit store_op" where
  "process_output_or_fail X I r res actor process_output =
     inspect_err (lift_res (process_output res))
       (transition_run X (ci_failure I) (r_id r) (r_revision r) Failed
         (Some ''runtime output validation failed'') (new_audit_append actor (ci_output_failed_at I)))"

fun terminal_outcome :: "termination_kind \<Rightarrow> i32 option \<Rightarrow> run_status \<times> string option" where
  "terminal_outcome TermExited status =
     (if status = Some 0 then (Succeeded, None)
      else (Failed, Some ''provider exited with non-zero code''))"
| "terminal_outcome TermCancelled _ = (Cancelled, Some ''sandbox was cancelled'')"
| "terminal_outcome TermTimedOut _ = (TimedOut, Some ''sandbox timed out'')"
| "terminal_outcome TermOutOfMemory _ = (Failed, Some ''sandbox out of memory'')"
| "terminal_outcome TermFailed _ = (Failed, Some ''sandbox execution failed'')"

definition finish_running ::
    "ext \<Rightarrow> scan_view \<Rightarrow> artifact_scanner \<Rightarrow> call_inputs \<Rightarrow> run \<Rightarrow> sandbox_request \<Rightarrow> sandbox_result \<Rightarrow> actor_id
      \<Rightarrow> run store_op" where
  \<comment> \<open>the part after the output was processed\<close>
  "finish_running X F scanner I r request res actor =
     (let completed_at = ci_completed_at I
      in bnd (if sx_termination res = TermExited
              then inspect_err
                (orchestrator_record_artifacts X F scanner (ci_artifacts I) (ci_artifact_events I) (r_id r)
                  (mount_path (sr_output_directory request)) (sx_output_paths res) actor completed_at)
                (transition_run X (ci_failure I) (r_id r) (r_revision r) Failed
                  (Some ''artifact validation failed'') (new_audit_append actor completed_at))
              else ret []) (\<lambda>_.
         let (terminal, reason) = terminal_outcome (sx_termination res) (sx_exit_code res)
         in transition X (ci_terminal I) (r_id r) (r_revision r) terminal reason actor completed_at))"

definition execute_with_output_processor ::
    "ext \<Rightarrow> scan_view \<Rightarrow> artifact_scanner \<Rightarrow> call_inputs \<Rightarrow> run \<Rightarrow> (sandbox_request \<Rightarrow> sandbox_result result)
      \<Rightarrow> sandbox_request \<Rightarrow> actor_id \<Rightarrow> timestamp \<Rightarrow> (sandbox_result \<Rightarrow> unit result) \<Rightarrow> run store_op" where
  "execute_with_output_processor X F scanner I r sandbox request actor now process_output =
     (if r_id r \<noteq> sr_run_id request
      then fail_with (new_error ExecutionFailed ''sandbox request does not match run'')
      else
        bnd (if r_status r = Queued
             then transition X (ci_planning I) (r_id r) (r_revision r) Planning None actor now
             else ret r) (\<lambda>r.
        bnd (transition X (ci_running I) (r_id r) (r_revision r) Running None actor now) (\<lambda>r.
        bnd (inspect_err
               (lift_res (res_bind (sandbox request) (accept_sandbox_result (r_id r))))
               (transition_run X (ci_failure I) (r_id r) (r_revision r) Failed
                 (Some ''sandbox execution failed'') (new_audit_append actor (ci_sandbox_failed_at I)))) (\<lambda>res.
        bnd (process_output_or_fail X I r res actor process_output) (\<lambda>_.
        finish_running X F scanner I r request res actor)))))"

definition orchestrator_execute ::
    "ext \<Rightarrow> scan_view \<Rightarrow> artifact_scanner \<Rightarrow> call_inputs \<Rightarrow> run \<Rightarrow> (sandbox_request \<Rightarrow> sandbox_result result)
      \<Rightarrow> sandbox_request \<Rightarrow> actor_id \<Rightarrow> timestamp \<Rightarrow> run store_op" where
  "orchestrator_execute X F scanner I r sandbox request actor now =
     execute_with_output_processor X F scanner I r sandbox request actor now (\<lambda>_. Inr ())"

section \<open>A run the orchestrator can move\<close>

text \<open>
  No lease holds the run, the clock is not behind it or its audit chain, and the counters have room
  for \<open>n\<close> more events.
\<close>

definition ready :: "state \<Rightarrow> run \<Rightarrow> nat \<Rightarrow> timestamp \<Rightarrow> bool" where
  "ready s r n ts =
     (bm_get (st_runs s) (r_id r) = Some r \<and> bm_get (st_leases s) (r_id r) = None
      \<and> r_updated_at r \<le> ts \<and> unat (r_revision r) + n < 2 ^ 64
      \<and> (\<exists>es. bm_get (st_audits s) (r_id r) = Some es \<and> es \<noteq> [] \<and> ev_timestamp (last es) \<le> ts
           \<and> length es + n < 2 ^ 64))"

lemma next_sequence_ready: "length es + 1 < 2 ^ 64 \<Longrightarrow> next_sequence es = Inr (of_nat (length es) + 1)"
  by (auto simp: next_sequence_def u64_of_len_def checked_add_def res_bind_def ok_or_def unat_of_nat)

lemma build_event_ready:
  assumes "es \<noteq> []" and "length es + 1 < 2 ^ 64"
  obtains e where "build_event X eid a rid (of_nat (length es) + 1) ty (last_hash es) = Inr e"
    "ev_timestamp e = aa_timestamp a"
proof -
  have "unat (of_nat (length es) + 1 :: u64) = Suc (length es)"
    using assms(2) by (simp add: unat_word_ariths unat_of_nat)
  then have "(1 :: u64) < of_nat (length es) + 1"
    using assms(1) by (simp add: word_less_nat_alt)
  moreover have "last_hash es \<noteq> None" using assms(1) by (simp add: last_hash_def)
  ultimately obtain e where "build_event X eid a rid (of_nat (length es) + 1) ty (last_hash es) = Inr e"
    by (auto simp: build_event_def new_audit_event_def validate_audit_position_def)
  with build_event_verifies [OF this] that show ?thesis by blast
qed

lemma transition_ready:
  assumes "ready s r m ts" and "m = Suc n" and "can_transition_to (r_status r) nxt"
  shows "\<exists>t. transition_run X eid (r_id r) (r_revision r) nxt why (new_audit_append actor ts) s
      = (Inr (advanced r nxt (r_revision r + 1) why ts), t)
    \<and> ready t (advanced r nxt (r_revision r + 1) why ts) n ts \<and> st_artifacts t = st_artifacts s"
proof -
  from assms(1) obtain es where es: "bm_get (st_audits s) (r_id r) = Some es" "es \<noteq> []"
    "ev_timestamp (last es) \<le> ts" "length es + Suc n < 2 ^ 64"
    and r: "bm_get (st_runs s) (r_id r) = Some r" "bm_get (st_leases s) (r_id r) = None" "r_updated_at r \<le> ts"
    and b: "unat (r_revision r) + Suc n < 2 ^ 64"
    unfolding ready_def assms(2) by blast
  let ?a = "with_run_status (new_audit_append actor ts) nxt"
  obtain e where e: "build_event X eid ?a (r_id r) (of_nat (length es) + 1) (transition_event nxt) (last_hash es) = Inr e"
    "ev_timestamp e = ts"
    using build_event_ready [of es X eid ?a "r_id r" "transition_event nxt"] es
    by (auto simp: with_run_status_def new_audit_append_def)
  let ?r = "advanced r nxt (r_revision r + 1) why ts"
  let ?t = "s\<lparr>st_runs := bm_insert (r_id r) ?r (st_runs s), st_audits := bm_insert (r_id r) (es @ [e]) (st_audits s)\<rparr>"
  have c: "checked_add (r_revision r) 1 = Some (r_revision r + 1)"
    using b by (simp add: checked_add_def)
  then have "unat (r_revision r + 1) = Suc (unat (r_revision r))" using unat_checked_add by fastforce
  moreover have "transition_run X eid (r_id r) (r_revision r) nxt why (new_audit_append actor ts) s = (Inr ?r, ?t)"
    using es r assms(3) e c next_sequence_ready [of es]
    by (simp add: transition_run_def Let_def op_defs audit_backwards_def put_run_def push_events_def
      new_audit_append_def)
  ultimately show ?thesis
    using es e(2) r b by (intro exI [of _ ?t]) (auto simp: ready_def)
qed

lemma artifact_events_ready:
  assumes "artifact_events X ids audit rid n sq prev batch = Inr new"
  shows "length new = length batch \<and> (\<forall>e \<in> set new. ev_timestamp e = aa_timestamp audit)"
  using assms
proof (induction batch arbitrary: n sq prev new)
  case (Cons a batch)
  then obtain e sq' more where e: "build_event X (ids n) (with_artifact audit a) rid sq EvArtifactCreated prev = Inr e"
    and "artifact_events X ids audit rid (Suc n) sq' (Some (ev_event_hash e)) batch = Inr more"
    and "new = e # more" by (auto simp: res_simps)
  with Cons.IH build_event_verifies [OF e] show ?case by (auto simp: with_artifact_def)
qed simp

lemma record_ready:
  assumes "ready s r (n + length batch) ts"
    and "record_artifacts X ids (r_id r) batch (new_audit_append actor ts) s = (Inr u, t)"
  shows "ready t r n ts \<and> artifacts_of t (r_id r) = artifacts_of s (r_id r) @ batch"
proof -
  from assms(2) obtain es sq new where es: "bm_get (st_audits s) (r_id r) = Some es"
    and new: "artifact_events X ids (new_audit_append actor ts) (r_id r) 0 sq (last_hash es) batch = Inr new"
    and t: "t = s\<lparr>st_artifacts := bm_insert (r_id r) (artifacts_of s (r_id r) @ batch) (st_artifacts s),
                  st_audits := bm_insert (r_id r) (es @ new) (st_audits s)\<rparr>"
    by (auto simp: record_artifacts_def validate_artifact_batch_def reject_unbound_leased_write_def
      extend_artifacts_def push_events_def res_simps)
  have "length new = length batch" "\<forall>e \<in> set new. ev_timestamp e = ts"
    using artifact_events_ready [OF new] by (simp_all add: new_audit_append_def)
  with assms(1) es t show ?thesis
    by (auto simp: ready_def artifacts_of_def last_append)
qed

section \<open>Properties\<close>

lemma terminal_outcome_terminal: "is_terminal (fst (terminal_outcome k c))"
  by (cases k) (auto simp: is_terminal_def)

lemma terminal_outcome_succeeded:
  "fst (terminal_outcome k c) = Succeeded \<longleftrightarrow> k = TermExited \<and> c = Some 0"
  by (cases k) auto

lemma running_can_finish: "is_terminal nxt \<Longrightarrow> can_transition_to Running nxt"
  by (cases nxt) (auto simp: is_terminal_def)

definition ends_in :: "(openwork_error + run) \<times> state \<Rightarrow> run_id \<Rightarrow> bool" where
  \<comment> \<open>the run is stored in a terminal status, the one that was returned or a failure\<close>
  "ends_in out rid =
     (\<exists>r. bm_get (st_runs (snd out)) rid = Some r \<and> is_terminal (r_status r)
        \<and> (case fst out of Inr q \<Rightarrow> q = r | Inl _ \<Rightarrow> r_status r = Failed))"

lemma failed_ends:
  assumes "ready s r 1 ts" and "r_status r = Running"
  shows "ends_in (Inl e, snd (transition_run X eid (r_id r) (r_revision r) Failed why (new_audit_append actor ts) s)) (r_id r)"
proof -
  have "can_transition_to (r_status r) Failed" by (simp add: assms(2))
  from transition_ready [OF assms(1) One_nat_def this, of X eid why actor] show ?thesis
    by (fastforce simp: ends_in_def ready_def is_terminal_def)
qed

lemma finish_ends:
  assumes "ready s r (Suc (length (sx_output_paths res))) (ci_completed_at I)" and "r_status r = Running"
  shows "ends_in (finish_running X F scanner I r request res actor s) (r_id r)"
proof -
  let ?ts = "ci_completed_at I"
  have fin: "ends_in (transition X (ci_terminal I) (r_id r) (r_revision r) (fst oc) (snd oc) actor ?ts t) (r_id r)"
    if "ready t r 1 ?ts" and "is_terminal (fst oc)" for t oc
  proof -
    have "can_transition_to (r_status r) (fst oc)" using that(2) assms(2) by (simp only: running_can_finish)
    from transition_ready [OF that(1) One_nat_def this, of X "ci_terminal I" "snd oc" actor] that(2) show ?thesis
      by (fastforce simp: transition_def ends_in_def ready_def)
  qed
  let ?oc = "terminal_outcome (sx_termination res) (sx_exit_code res)"
  let ?rec = "orchestrator_record_artifacts X F scanner (ci_artifacts I) (ci_artifact_events I) (r_id r)
      (mount_path (sr_output_directory request)) (sx_output_paths res) actor ?ts"
  let ?fail = "transition_run X (ci_failure I) (r_id r) (r_revision r) Failed
      (Some ''artifact validation failed'') (new_audit_append actor ?ts)"
  have one: "ready s r 1 ?ts" using assms(1) by (auto simp: ready_def)
  show ?thesis
  proof (cases "sx_termination res = TermExited")
    case False
    then show ?thesis
      using fin [OF one terminal_outcome_terminal]
      by (simp add: finish_running_def Let_def bnd_def ret_def case_prod_unfold)
  next
    case exited: True
    show ?thesis
    proof (cases "?rec s")
      case (Pair out t)
      show ?thesis
      proof (cases out)
        case (Inr batch)
        with Pair obtain u where "scan X F scanner (ci_artifacts I) (r_id r)
            (mount_path (sr_output_directory request)) (sx_output_paths res) ?ts = Inr batch"
          and rec: "record_artifacts X (ci_artifact_events I) (r_id r) batch (new_audit_append actor ?ts) s = (Inr u, t)"
          by (auto simp: orchestrator_record_artifacts_def res_simps)
        then have "length batch = length (sx_output_paths res)"
          using scan_paths_ok by (fastforce simp: scan_def res_simps dest: arg_cong [of _ _ length])
        with record_ready [OF _ rec, of 1] assms(1) have "ready t r 1 ?ts" by simp
        from fin [OF this terminal_outcome_terminal] show ?thesis
          using Pair Inr exited
          by (simp add: finish_running_def Let_def bnd_def inspect_err_def case_prod_unfold
            del: terminal_outcome.simps)
      next
        case (Inl e)
        with Pair record_artifacts_atomic have "t = s"
          by (auto simp: orchestrator_record_artifacts_def res_simps)
        then show ?thesis
          using Pair Inl exited failed_ends [OF one assms(2)]
          by (simp add: finish_running_def Let_def bnd_def inspect_err_def)
      qed
    qed
  qed
qed

lemma ready_later: "ready s r n ts \<Longrightarrow> m \<le> n \<Longrightarrow> ts \<le> ts' \<Longrightarrow> ready s r m ts'"
  unfolding ready_def by fastforce

lemma accepted_paths: "accept_sandbox_result rid out = Inr res \<Longrightarrow> length (sx_output_paths res) \<le> 1024"
  by (auto simp: accept_sandbox_result_def validate_sandbox_result_def Let_def res_simps split: if_splits)

definition run_in_sandbox ::
    "ext \<Rightarrow> scan_view \<Rightarrow> artifact_scanner \<Rightarrow> call_inputs \<Rightarrow> run \<Rightarrow> (sandbox_request \<Rightarrow> sandbox_result result)
      \<Rightarrow> sandbox_request \<Rightarrow> actor_id \<Rightarrow> (sandbox_result \<Rightarrow> unit result) \<Rightarrow> run store_op" where
  \<comment> \<open>what follows the transition to running\<close>
  "run_in_sandbox X F scanner I r sandbox request actor process_output =
     bnd (inspect_err
            (lift_res (res_bind (sandbox request) (accept_sandbox_result (r_id r))))
            (transition_run X (ci_failure I) (r_id r) (r_revision r) Failed
              (Some ''sandbox execution failed'') (new_audit_append actor (ci_sandbox_failed_at I)))) (\<lambda>res.
     bnd (process_output_or_fail X I r res actor process_output) (\<lambda>_.
     finish_running X F scanner I r request res actor))"

lemma run_in_sandbox_ends:
  assumes "ready s r 1030 now" and "r_status r = Running"
    and "now \<le> ci_sandbox_failed_at I" and "now \<le> ci_output_failed_at I" and "now \<le> ci_completed_at I"
  shows "ends_in (run_in_sandbox X F scanner I r sandbox request actor process_output s) (r_id r)"
proof (cases "res_bind (sandbox request) (accept_sandbox_result (r_id r))")
  case (Inl e)
  with failed_ends [OF ready_later [OF assms(1) _ assms(3)] assms(2)] show ?thesis
    by (simp add: run_in_sandbox_def bnd_def inspect_err_def lift_res_def)
next
  case (Inr res)
  then have n: "length (sx_output_paths res) \<le> 1024" by (auto simp: res_simps dest: accepted_paths)
  show ?thesis
  proof (cases "process_output res")
    case e: (Inl e)
    with failed_ends [OF ready_later [OF assms(1) _ assms(4)] assms(2)] Inr show ?thesis
      by (simp add: run_in_sandbox_def process_output_or_fail_def bnd_def inspect_err_def lift_res_def)
  next
    case u: (Inr u)
    have "ready s r (Suc (length (sx_output_paths res))) (ci_completed_at I)"
      by (rule ready_later [OF assms(1) _ assms(5)]) (use n in simp)
    from finish_ends [OF this assms(2)] u Inr show ?thesis
      by (simp add: run_in_sandbox_def process_output_or_fail_def bnd_def inspect_err_def lift_res_def)
  qed
qed

lemma execute_unfold:
  "execute_with_output_processor X F scanner I r sandbox request actor now process_output =
     (if r_id r \<noteq> sr_run_id request
      then fail_with (new_error ExecutionFailed ''sandbox request does not match run'')
      else
        bnd (if r_status r = Queued
             then transition X (ci_planning I) (r_id r) (r_revision r) Planning None actor now
             else ret r) (\<lambda>r.
        bnd (transition X (ci_running I) (r_id r) (r_revision r) Running None actor now) (\<lambda>r.
        run_in_sandbox X F scanner I r sandbox request actor process_output)))"
  by (simp add: execute_with_output_processor_def run_in_sandbox_def)

text \<open>
  C13. The orchestrator never leaves a run running: from a run that may start, under no lease, with a
  clock that does not go backwards and room in the counters, every execution ends with the run in a
  terminal status, whatever the sandbox, the output processor and the file system do. A returned run is
  the stored one, and an error means the stored run is failed.
\<close>

theorem execution_always_ends:
  assumes "ready s r 1100 now" and "r_id r = sr_run_id request" and "r_status r \<in> {Queued, Planning, AwaitingApproval}"
    and "now \<le> ci_sandbox_failed_at I" and "now \<le> ci_output_failed_at I" and "now \<le> ci_completed_at I"
  shows "ends_in (execute_with_output_processor X F scanner I r sandbox request actor now process_output s) (r_id r)"
proof -
  have go: "ends_in (bnd (transition X (ci_running I) (r_id q) (r_revision q) Running None actor now) (\<lambda>r.
      run_in_sandbox X F scanner I r sandbox request actor process_output) t) (r_id q)"
    if rdy: "ready t q 1099 now" and can: "can_transition_to (r_status q) Running" for t q
  proof -
    obtain u where u: "transition_run X (ci_running I) (r_id q) (r_revision q) Running None (new_audit_append actor now) t
        = (Inr (advanced q Running (r_revision q + 1) None now), u)"
      "ready u (advanced q Running (r_revision q + 1) None now) 1098 now"
      using transition_ready [OF rdy _ can, of 1098] by fastforce
    have "ready u (advanced q Running (r_revision q + 1) None now) 1030 now"
      by (rule ready_later [OF u(2)]) simp_all
    from run_in_sandbox_ends [OF this _ assms(4-6)] u(1) show ?thesis by (simp add: transition_def bnd_def)
  qed
  show ?thesis
  proof (cases "r_status r = Queued")
    case True
    then have "can_transition_to (r_status r) Planning" by simp
    then obtain t where "transition_run X (ci_planning I) (r_id r) (r_revision r) Planning None (new_audit_append actor now) s
        = (Inr (advanced r Planning (r_revision r + 1) None now), t)"
      "ready t (advanced r Planning (r_revision r + 1) None now) 1099 now"
      using transition_ready [OF assms(1), of 1099 Planning] by fastforce
    with go [of t "advanced r Planning (r_revision r + 1) None now"] True assms(2) show ?thesis
      by (simp add: execute_unfold transition_def bnd_def)
  next
    case False
    with go [of s r] ready_later [OF assms(1), of 1099 now] assms(2,3) show ?thesis
      by (auto simp: execute_unfold bnd_def ret_def)
  qed
qed

lemma transition_effect:
  assumes "transition X eid rid rv nxt why actor now s = (Inr r, t)" and "reachable X s"
  shows "r_id r = rid \<and> r_status r = nxt \<and> bm_get (st_runs t) rid = Some r
    \<and> st_artifacts t = st_artifacts s \<and> reachable X t"
proof -
  from assms(1) have m: "transition_run X eid rid rv nxt why (new_audit_append actor now) s = (Inr r, t)"
    by (simp add: transition_def)
  then obtain q n where "bm_get (st_runs s) rid = Some q" "r = advanced q nxt n why now"
    "bm_get (st_runs t) rid = Some r" "st_artifacts t = st_artifacts s"
    by (auto simp: transition_run_def Let_def put_run_def push_events_def new_audit_append_def res_simps)
  with store_invD(1) [OF reachable_inv [OF assms(2)]] reachable_step [OF assms(2) call_step(1) [OF m]]
  show ?thesis by auto
qed

lemma finish_effect:
  assumes "finish_running X F scanner I r request res actor s = (Inr q, t)" and "reachable X s"
  shows "r_id q = r_id r \<and> bm_get (st_runs t) (r_id r) = Some q
    \<and> r_status q = fst (terminal_outcome (sx_termination res) (sx_exit_code res))
    \<and> (sx_termination res = TermExited \<longrightarrow>
         (\<exists>batch. scan X F scanner (ci_artifacts I) (r_id r) (mount_path (sr_output_directory request))
             (sx_output_paths res) (ci_completed_at I) = Inr batch
           \<and> artifacts_of t (r_id r) = artifacts_of s (r_id r) @ batch))"
proof -
  let ?oc = "terminal_outcome (sx_termination res) (sx_exit_code res)"
  let ?fin = "\<lambda>u. transition X (ci_terminal I) (r_id r) (r_revision r) (fst ?oc) (snd ?oc) actor (ci_completed_at I) u"
  show ?thesis
  proof (cases "sx_termination res = TermExited")
    case True
    with assms(1) obtain batch u where
      sc: "scan X F scanner (ci_artifacts I) (r_id r) (mount_path (sr_output_directory request))
             (sx_output_paths res) (ci_completed_at I) = Inr batch"
      and rec: "record_artifacts X (ci_artifact_events I) (r_id r) batch (new_audit_append actor (ci_completed_at I)) s
         = (Inr (), u)" and fin: "?fin u = (Inr q, t)"
      by (auto simp: finish_running_def Let_def orchestrator_record_artifacts_def res_simps case_prod_unfold
        simp del: terminal_outcome.simps)
    have "artifacts_of u (r_id r) = artifacts_of s (r_id r) @ batch"
      using rec by (auto simp: record_artifacts_def validate_artifact_batch_def reject_unbound_leased_write_def
        extend_artifacts_def push_events_def artifacts_of_def res_simps)
    moreover have "reachable X u"
      by (rule reachable_step [OF assms(2) outcome_step [OF rec exec_call.simps(5)]])
    ultimately show ?thesis using transition_effect [OF fin] sc by (simp add: artifacts_of_def)
  next
    case False
    with assms(1) have "?fin s = (Inr q, t)"
      by (auto simp: finish_running_def Let_def res_simps case_prod_unfold)
    from transition_effect [OF this assms(2)] False show ?thesis by simp
  qed
qed

text \<open>
  C14. Success is earned: an execution returns a run only when the sandbox returned a valid result for
  this run with its container cleaned up and the output processor accepted it; the returned run is
  stored with the status the termination calls for, succeeded exactly for a clean exit with code zero,
  and after a clean exit every reported output was scanned and recorded with the run.
\<close>

theorem success_is_earned:
  assumes "reachable X s"
    and "execute_with_output_processor X F scanner I r sandbox request actor now process_output s = (Inr q, t)"
  shows "\<exists>res. sandbox request = Inr res \<and> validate_sandbox_result res = Inr ()
    \<and> sx_run_id res = r_id r \<and> sx_cleanup res = CleanupSucceeded \<and> process_output res = Inr ()
    \<and> bm_get (st_runs t) (r_id r) = Some q \<and> is_terminal (r_status q)
    \<and> r_status q = fst (terminal_outcome (sx_termination res) (sx_exit_code res))
    \<and> (r_status q = Succeeded \<longleftrightarrow> sx_termination res = TermExited \<and> sx_exit_code res = Some 0)
    \<and> (sx_termination res = TermExited \<longrightarrow>
         (\<exists>batch. scan X F scanner (ci_artifacts I) (r_id r) (mount_path (sr_output_directory request))
             (sx_output_paths res) (ci_completed_at I) = Inr batch
           \<and> artifacts_of t (r_id r) = artifacts_of s (r_id r) @ batch))"
proof -
  from assms(2) obtain u q1 v q2 where
    pre: "(if r_status r = Queued then transition X (ci_planning I) (r_id r) (r_revision r) Planning None actor now
       else ret r) s = (Inr q1, u)"
    and run: "transition X (ci_running I) (r_id q1) (r_revision q1) Running None actor now u = (Inr q2, v)"
    and rest: "run_in_sandbox X F scanner I q2 sandbox request actor process_output v = (Inr q, t)"
    by (auto simp: execute_unfold res_simps split: if_splits)
  have p: "r_id q1 = r_id r" "st_artifacts u = st_artifacts s" "reachable X u"
    using pre transition_effect [OF _ assms(1)] assms(1) by (auto simp: ret_def split: if_splits)
  from transition_effect [OF run p(3)] p have v: "r_id q2 = r_id r" "st_artifacts v = st_artifacts s" "reachable X v"
    by simp_all
  from rest obtain res where res: "sandbox request = Inr res" "accept_sandbox_result (r_id q2) res = Inr res"
    "process_output res = Inr ()" and fin: "finish_running X F scanner I q2 request res actor v = (Inr q, t)"
    by (auto simp: run_in_sandbox_def process_output_or_fail_def res_simps accept_sandbox_result_def split: if_splits)
  have "validate_sandbox_result res = Inr ()" "sx_run_id res = r_id r" "sx_cleanup res = CleanupSucceeded"
    using res(2) v(1) by (auto simp: accept_sandbox_result_def res_simps split: if_splits)
  with finish_effect [OF fin v(3)] res(1,3) v terminal_outcome_terminal terminal_outcome_succeeded
  show ?thesis by (auto simp: artifacts_of_def simp del: terminal_outcome.simps)
qed

end
