(* ===== verification/System_Witnesses.thy ===== *)
theory System_Witnesses
  imports Samples Action_Executor Orchestrator
begin

text \<open>
  Concrete runs of the execution boundary, the artifact scanner and the orchestrator on the sample
  history: the sample action is executed once and recovered after a lost audit write, a two byte file is
  scanned, and the sample run is taken through a sandbox.
\<close>

section \<open>The execution boundary\<close>

definition sample_claim :: action_claim where
  "sample_claim = claim_of sample_action actor0 5"

definition sample_claimed :: claimed_action where
  "sample_claimed = \<lparr>ca_action = sample_action, ca_claim = sample_claim\<rparr>"

definition claimed_receipt :: execution_receipt where
  "claimed_receipt = expected_receipt sample_claimed"

definition event8 where
  "event8 = mk_event (UuidV7 17) 8 EvActionExecuted 6
     (det_md (DetActionExecution action0 (ac_parameter_hash sample_action))) (after event7)"

definition executed :: state where
  "executed = consumed\<lparr>st_audits := [(run0, [event1, event2, event3, event4, event5, event6, event7, event8])]\<rparr>"

lemma sample_action_sel [simp]: "ac_id sample_action = action0" "ac_run_id sample_action = run0"
  by (simp_all add: sample_action_def)

lemma sample_claim_stored: "bm_get (st_action_claims consumed) action0 = Some sample_claim"
  by (simp add: consumed_def sample_claim_def)

lemma verify_sample: "verify_claimed sample_ext sample_action sample_claim consumed = (Inr sample_claimed, consumed)"
proof -
  have "parameters_match_hash sample_ext sample_action"
    using sample_matches by (simp add: binding_matches_def)
  then show ?thesis
    by (simp add: verify_claimed_def get_action_claim_def op_defs sample_claim_stored sample_claimed_def)
      (simp add: sample_claim_def claim_of_def)
qed

theorem claimed_action_was_approved_witness:
  "\<exists>p a. bm_get (st_approvals consumed) p = Some a \<and> ap_status a = Consumed \<and> ap_action_id a = action0"
  using claimed_action_was_approved [OF sample_reachable(6) verify_sample] by auto

lemma reconcile_claimed_sample:
  "reconcile_action_execution sample_ext (UuidV7 17) claimed_receipt (act_at 6) consumed = (Inr True, executed)"
  by (simp add: reconcile_action_execution_def reject_unbound_leased_write_def verify_execution_claim_def
    execution_receipt_was_audited_def eval_simps consumed_def approved_def proposed_def awaiting_def executed_def
    claimed_receipt_def expected_receipt_def sample_claimed_def sample_claim_def claim_of_def
    with_action_execution_def event8_def event7_def event6_def event5_def event4_def event3_def event2_def event1_def)

lemma execute_sample:
  "execute_with_audit sample_ext mock_execute (UuidV7 17) sample_claimed actor0 6 ([], consumed)
    = (Inr claimed_receipt, ([(action0, claimed_receipt)], executed))"
proof -
  have "mock_execute sample_claimed [] = (Inr (Performed claimed_receipt), [(action0, claimed_receipt)])"
    by (simp add: mock_execute_iff Let_def claimed_receipt_def expected_receipt_def sample_claimed_def
      sample_claim_def claim_of_def)
  with reconcile_claimed_sample show ?thesis
    by (simp add: execute_with_audit_def bnd_def on_fst_def on_snd_def ret_def claimed_receipt_def act_at_def)
qed

theorem action_takes_effect_once_witness:
  "\<exists>e w. execute_with_audit sample_ext mock_execute (UuidV7 18) sample_claimed actor0 9
     ([(action0, claimed_receipt)], executed) = (Inl e, w)"
  using action_takes_effect_once [OF sample_reachable(6) sample_ext_hypotheses(3) execute_sample rtranclp.rtrancl_refl refl]
  by blast

lemma lost_audit:
  "\<exists>e. execute_with_audit sample_ext mock_execute (UuidV7 17) sample_claimed actor0 1 ([], consumed)
    = (Inl e, ([(action0, claimed_receipt)], consumed))"
proof -
  have "mock_execute sample_claimed [] = (Inr (Performed claimed_receipt), [(action0, claimed_receipt)])"
    by (simp add: mock_execute_iff Let_def claimed_receipt_def expected_receipt_def sample_claimed_def
      sample_claim_def claim_of_def)
  moreover have "\<exists>e. reconcile_action_execution sample_ext (UuidV7 17) claimed_receipt (act_at 1) consumed = (Inl e, consumed)"
    by (simp add: reconcile_action_execution_def reject_unbound_leased_write_def verify_execution_claim_def
      execution_receipt_was_audited_def eval_simps consumed_def approved_def proposed_def awaiting_def
      claimed_receipt_def expected_receipt_def sample_claimed_def sample_claim_def claim_of_def
      event7_def event6_def event5_def event4_def event3_def event2_def event1_def)
  ultimately show ?thesis
    by (auto simp: execute_with_audit_def bnd_def on_fst_def on_snd_def claimed_receipt_def act_at_def)
qed

theorem audit_failure_is_recoverable_witness:
  "execute_with_audit sample_ext mock_execute (UuidV7 17) sample_claimed actor0 6
     ([(action0, claimed_receipt)], consumed) = (Inr claimed_receipt, ([(action0, claimed_receipt)], executed))"
proof -
  have p: "mock_execute sample_claimed [] = (Inr (Performed claimed_receipt), [(action0, claimed_receipt)])"
    by (simp add: mock_execute_iff Let_def claimed_receipt_def expected_receipt_def sample_claimed_def
      sample_claim_def claim_of_def)
  obtain e where l: "execute_with_audit sample_ext mock_execute (UuidV7 17) sample_claimed actor0 1 ([], consumed)
      = (Inl e, ([(action0, claimed_receipt)], consumed))" using lost_audit by blast
  show ?thesis
    using audit_failure_is_recoverable [OF sample_reachable(6) p _ l rtranclp.rtrancl_refl]
      reconcile_claimed_sample by (simp add: claimed_receipt_def act_at_def)
qed

section \<open>The scanner\<close>

definition sample_file :: open_file where
  "sample_file = \<lparr>of_before = Some (True, 2), of_read = (\<lambda>n. Some (if n = 0 then ''hi'' else [])), of_after = Some 2\<rparr>"

definition sample_view :: scan_view where
  "sample_view = \<lparr>canonicalize = Some, is_dir = (\<lambda>_. True), is_symlink = (\<lambda>_. Some False),
     open_path = (\<lambda>_. Some sample_file)\<rparr>"

definition sample_scanner :: artifact_scanner where
  "sample_scanner = \<lparr>as_max_bytes = 10\<rparr>"

definition sample_artifact :: "artifact_id \<Rightarrow> artifact" where
  "sample_artifact aid = \<lparr>ar_schema_version = SchemaVersion, ar_id = aid, ar_run_id = run0,
     ar_path = RelPath ''a.csv'', ar_media_type = media_type ''/out/a.csv'',
     ar_size_bytes = ArtifactSizeBytes 2, ar_sha256 = sha256_bytes sample_ext ''hi'', ar_created_at = 7\<rparr>"

lemma sample_loop: "hash_loop 10 (of_read sample_file) 0 0 [] = Inr (2, ''hi'')"
proof -
  have "hash_loop 10 (of_read sample_file) (Suc 0) 2 ''hi'' = Inr (2, ''hi'')"
    by (subst hash_loop.simps) (simp add: sample_file_def)
  then show ?thesis
    by (subst hash_loop.simps) (simp add: sample_file_def u64_of_len_def checked_add_def)
qed

lemma sample_file_sel: "of_before sample_file = Some (True, 2)" "of_after sample_file = Some 2"
  by (simp_all add: sample_file_def)

lemma sample_scan_one:
  "scan_one sample_ext sample_view sample_scanner aid run0 ''/out'' (RelPath ''a.csv'') 7 = Inr (sample_artifact aid)"
proof -
  have "parse_digest (digest_str (sha256_bytes sample_ext ''hi'')) = Inr (sha256_bytes sample_ext ''hi'')"
    using sha256_bytes_valid [OF sample_ext_hypotheses(1), of "''hi''"]
    by (simp add: parse_digest_def valid_sha256_digest_def)
  then show ?thesis
    by (simp add: scan_one_def Let_def sample_view_def sample_scanner_def reject_symlink_components_def
      path_join_def starts_with_def ends_with_def path_starts_with_def path_eq_def path_components_def
      suffix_to_prefix sample_file_sel sample_loop new_artifact_size_def default_max_artifact_bytes_def
      sample_artifact_def)
qed

lemma sample_root: "trusted_root sample_view ''/out'' = Inr ''/out''"
  by (simp add: trusted_root_def sample_view_def)

theorem scan_is_exact_witness:
  "\<exists>as. scan sample_ext sample_view sample_scanner (\<lambda>_. UuidV7 50) run0 ''/out'' [RelPath ''a.csv''] 7 = Inr as
    \<and> map ar_path as = [RelPath ''a.csv'']"
proof -
  have "scan sample_ext sample_view sample_scanner (\<lambda>_. UuidV7 50) run0 ''/out'' [RelPath ''a.csv''] 7
      = Inr [sample_artifact (UuidV7 50)]"
    by (simp add: scan_def sample_root sample_scan_one)
  with scan_is_exact [OF this] show ?thesis by (intro exI [of _ "[sample_artifact (UuidV7 50)]"]) simp
qed

theorem hashing_reads_are_bounded_witness:
  "hash_loop 10 (\<lambda>n. if n = 5 then None else Some ''x'') 0 0 []
    = hash_loop 10 (\<lambda>n. if n = 5 \<or> n = 99 then None else Some ''x'') 0 0 []"
  by (rule hashing_reads_are_bounded) simp

theorem verification_detects_drift_witness:
  "verify_artifact sample_ext sample_view sample_scanner (UuidV7 51) ''/out'' (sample_artifact (UuidV7 50)) = Inr ()"
  using verification_detects_drift [OF sample_scan_one sample_root] by blast

section \<open>The orchestrator\<close>

definition sample_inputs :: call_inputs where
  "sample_inputs = \<lparr>ci_planning = UuidV7 60, ci_running = UuidV7 61, ci_failure = UuidV7 62,
     ci_terminal = UuidV7 63, ci_artifacts = (\<lambda>_. UuidV7 64), ci_artifact_events = (\<lambda>_. UuidV7 65),
     ci_sandbox_failed_at = 2, ci_output_failed_at = 2, ci_completed_at = 2\<rparr>"

definition sample_sandbox_request :: sandbox_request where
  "sample_sandbox_request = \<lparr>sr_schema_version = SchemaVersion, sr_run_id = run0,
     sr_image = DigestPinnedImageRef ''sha256:0'',
     sr_command = \<lparr>sc_program = ''/bin/true'', sc_arguments = [], sc_environment = [], sc_stdin = []\<rparr>,
     sr_user = \<lparr>su_uid = 1000, su_gid = 1000\<rparr>, sr_network = NetDisabled,
     sr_input_directory = ApprovedMountDirectory ''/in'', sr_output_directory = ApprovedMountDirectory ''/out'',
     sr_limits = \<lparr>sl_cpu_millis = 1000, sl_memory_bytes = 1048576, sl_pid_limit = 10,
       sl_timeout_seconds = 10, sl_max_output_bytes = 1000\<rparr>\<rparr>"

definition sample_result :: sandbox_result where
  "sample_result = \<lparr>sx_schema_version = SchemaVersion, sx_run_id = run0, sx_sandbox_id = ''box'',
     sx_termination = TermExited, sx_exit_code = Some 0, sx_stdout = [], sx_stderr = [],
     sx_truncated = False, sx_started_at = 1, sx_completed_at = 2, sx_output_paths = [],
     sx_cleanup = CleanupSucceeded\<rparr>"

lemma created_ready: "ready created sample_run 1100 1"
  by (simp add: ready_def created_def empty_state_def event1_def)

abbreviation sample_execution :: "(openwork_error + run) \<times> state" where
  "sample_execution \<equiv> execute_with_output_processor sample_ext sample_view sample_scanner sample_inputs
     sample_run (\<lambda>_. Inr sample_result) sample_sandbox_request actor0 1 (\<lambda>_. Inr ()) created"

theorem execution_always_ends_witness:
  "ends_in sample_execution run0"
proof -
  have "r_id sample_run = sr_run_id sample_sandbox_request" by (simp add: sample_sandbox_request_def)
  moreover have "1 \<le> ci_sandbox_failed_at sample_inputs" "1 \<le> ci_output_failed_at sample_inputs"
    "1 \<le> ci_completed_at sample_inputs" by (simp_all add: sample_inputs_def)
  ultimately show ?thesis
    using execution_always_ends [OF created_ready, of sample_sandbox_request sample_inputs] by simp
qed

lemma sample_execution_ok: "\<exists>q t. sample_execution = (Inr q, t)"
  by (simp add: execute_with_output_processor_def transition_def transition_run_def Let_def eval_simps
    created_def event1_def sample_inputs_def sample_sandbox_request_def sample_result_def
    accept_sandbox_result_def validate_sandbox_result_def max_sandbox_output_bytes_def
    process_output_or_fail_def inspect_err_def finish_running_def orchestrator_record_artifacts_def
    scan_def sample_root record_artifacts_def validate_artifact_batch_def reject_unbound_leased_write_def
    duplicate_path_def extend_artifacts_def)

theorem success_is_earned_witness:
  "\<exists>q t. sample_execution = (Inr q, t) \<and> r_status q = Succeeded"
proof -
  obtain q t where "sample_execution = (Inr q, t)" using sample_execution_ok by blast
  with success_is_earned [OF sample_reachable(1) this] show ?thesis by (auto simp: sample_result_def)
qed

end
