(* ===== verification/Policy.thy ===== *)
theory Policy
  imports Contract_Properties
begin

text \<open>
  The policy crate (\<^verbatim>\<open>crates/openwork-policy/src\<close>): the versioned configuration and its safety
  validation (\<^verbatim>\<open>config.rs\<close>), the deterministic evaluator (\<^verbatim>\<open>engine.rs\<close>) and the gateway in front of
  it (\<^verbatim>\<open>gateway.rs\<close>). The YAML reader is outside the repository: it is a parameter that returns the
  document with the entries of its mappings in order, duplicates included; rejecting duplicates and a
  null where a mapping is optional is the crate's own code and is modelled.
\<close>

section \<open>Configuration\<close>

datatype configured_decision = CfgAllow | CfgDeny | CfgApproval

record resource_rules =
  rr_exact :: "(string, configured_decision) btree_map"
  rr_default :: configured_decision

record action_rule =
  ru_risk :: risk_level
  ru_decision :: configured_decision
  ru_resources :: "resource_rules option"

record policy_config =
  pc_version :: u32
  pc_unknown :: configured_decision
  pc_actions :: "(string, action_rule) btree_map"

datatype raw_resources =
    RawAbsent
  | RawNull
  | RawRules "(string \<times> configured_decision) list" configured_decision

record raw_policy =
  rp_version :: u32
  rp_unknown :: configured_decision
  rp_actions :: "(string \<times> risk_level \<times> configured_decision \<times> raw_resources) list"

definition policy_config_version :: u32 where
  "policy_config_version = 1"

definition max_policy_bytes :: nat where
  "max_policy_bytes = 1024 * 1024"

definition config_error :: "string \<Rightarrow> openwork_error" where
  "config_error msg = new_error ConfigInvalid msg"

fun unique_string_map :: "(string \<times> 'v) list \<Rightarrow> (string, 'v) btree_map \<Rightarrow> (string, 'v) btree_map option" where
  \<comment> \<open>the visitor's loop: a key that was there before is an error\<close>
  "unique_string_map [] values = Some values"
| "unique_string_map ((key, v) # entries) values =
     (if bm_contains values key then None
      else unique_string_map entries (bm_insert key v values))"

fun decode_resources :: "raw_resources \<Rightarrow> resource_rules option option" where
  "decode_resources RawAbsent = Some None"
| "decode_resources RawNull = None"
| "decode_resources (RawRules entries default_decision) =
     map_option (\<lambda>exact. Some \<lparr>rr_exact = exact, rr_default = default_decision\<rparr>)
       (unique_string_map entries [])"

fun decode_rules ::
    "(string \<times> risk_level \<times> configured_decision \<times> raw_resources) list \<Rightarrow> (string \<times> action_rule) list option" where
  "decode_rules [] = Some []"
| "decode_rules ((name, risk, decision, resources) # entries) =
     Option.bind (decode_resources resources) (\<lambda>rules.
     map_option (\<lambda>rest. (name, \<lparr>ru_risk = risk, ru_decision = decision, ru_resources = rules\<rparr>) # rest)
       (decode_rules entries))"

definition decode_policy :: "raw_policy \<Rightarrow> policy_config option" where
  "decode_policy raw =
     Option.bind (decode_rules (rp_actions raw)) (\<lambda>rules.
     map_option (\<lambda>actions. \<lparr>pc_version = rp_version raw, pc_unknown = rp_unknown raw, pc_actions = actions\<rparr>)
       (unique_string_map rules []))"

fun safe_decision :: "risk_level \<Rightarrow> configured_decision \<Rightarrow> bool" where
  "safe_decision Read _ = True"
| "safe_decision LocalWrite _ = True"
| "safe_decision InternalMutation decision = (decision \<noteq> CfgAllow)"
| "safe_decision ExternalEffect decision = (decision \<noteq> CfgAllow)"
| "safe_decision DestructiveOrFinancial decision = (decision = CfgDeny)"

definition valid_action_name :: "string \<Rightarrow> bool" where
  "valid_action_name name =
     (case name of
        [] \<Rightarrow> False
      | first # rest \<Rightarrow>
          length name \<le> 128 \<and> is_ascii_lowercase first \<and>
          list_all (\<lambda>c. is_ascii_lowercase c \<or> is_ascii_digit c \<or> c \<in> set ''._-'') rest)"

definition rule_is_safe :: "action_rule \<Rightarrow> bool" where
  "rule_is_safe rule =
     (safe_decision (ru_risk rule) (ru_decision rule) \<and>
      (case ru_resources rule of
         None \<Rightarrow> True
       | Some resources \<Rightarrow>
           safe_decision (ru_risk rule) (rr_default resources) \<and>
           list_all (safe_decision (ru_risk rule)) (bm_values (rr_exact resources))))"

definition resources_are_valid :: "action_rule \<Rightarrow> bool" where
  "resources_are_valid rule =
     (case ru_resources rule of
        None \<Rightarrow> True
      | Some resources \<Rightarrow>
          list_all (\<lambda>resource. \<not> blank resource \<and> length resource \<le> 2048) (map fst (rr_exact resources)))"

definition validate_policy :: "policy_config \<Rightarrow> unit result" where
  "validate_policy config =
     (if pc_version config \<noteq> policy_config_version \<or> pc_unknown config \<noteq> CfgDeny
         \<or> list_ex (\<lambda>(name, rule). \<not> valid_action_name name \<or> \<not> rule_is_safe rule
              \<or> \<not> resources_are_valid rule) (pc_actions config)
      then Inl (config_error ''policy configuration violates M1 safety invariants'')
      else Inr ())"

definition policy_from_yaml :: "(string \<Rightarrow> raw_policy option) \<Rightarrow> string \<Rightarrow> policy_config result" where
  "policy_from_yaml yaml input =
     (if length input > max_policy_bytes
      then Inl (config_error ''policy configuration exceeds the 1 MiB limit'')
      else
        res_bind (ok_or (Option.bind (yaml input) decode_policy) (config_error ''policy YAML is invalid''))
          (\<lambda>config. res_bind (validate_policy config) (\<lambda>_. Inr config)))"

section \<open>The evaluator\<close>

type_synonym resource_matcher = "string \<Rightarrow> string \<Rightarrow> bool"

definition exact_resource_matcher :: resource_matcher where
  "exact_resource_matcher configured requested = (configured = requested)"

fun decision_of :: "configured_decision \<Rightarrow> policy_decision" where
  "decision_of CfgAllow = Allow"
| "decision_of CfgDeny = Deny"
| "decision_of CfgApproval = RequireApproval"

definition evaluation ::
    "action_request \<Rightarrow> policy_decision \<Rightarrow> risk_level \<Rightarrow> string \<Rightarrow> string \<Rightarrow> timestamp \<Rightarrow> policy_evaluation" where
  "evaluation request decision risk rule_id reason_code evaluated_at =
     \<lparr>pe_schema_version = SchemaVersion, pe_run_id = ac_run_id request, pe_action_id = ac_id request,
      pe_parameter_hash = ac_parameter_hash request, pe_decision = decision, pe_effective_risk = risk,
      pe_policy_version = ''yaml-v1'', pe_rule_id = rule_id, pe_reason_code = reason_code,
      pe_evaluated_at = evaluated_at\<rparr>"

definition select_rule ::
    "ext \<Rightarrow> resource_matcher \<Rightarrow> action_rule \<Rightarrow> action_request \<Rightarrow> configured_decision \<times> string \<times> string" where
  \<comment> \<open>the decision, the rule identifier and the reason code\<close>
  "select_rule X matcher rule request =
     (case ru_resources rule of
        None \<Rightarrow> (ru_decision rule, ''action:'' @ ac_action request @ '':default'', ''action_rule_match'')
      | Some resources \<Rightarrow>
          (case find (\<lambda>(configured, _). matcher configured (ac_resource request)) (rr_exact resources) of
             None \<Rightarrow>
               (rr_default resources, ''action:'' @ ac_action request @ '':resource-default'',
                ''resource_default_match'')
           | Some (resource, decision) \<Rightarrow>
               (decision,
                ''action:'' @ ac_action request @ '':resource-exact:'' @ digest_str (sha256_bytes X resource),
                ''resource_exact_match'')))"

definition evaluate_at ::
    "ext \<Rightarrow> policy_config \<Rightarrow> resource_matcher \<Rightarrow> action_request \<Rightarrow> timestamp \<Rightarrow> policy_evaluation" where
  "evaluate_at X config matcher request evaluated_at =
     (case bm_get (pc_actions config) (ac_action request) of
        None \<Rightarrow>
          evaluation request Deny DestructiveOrFinancial ''default:unknown'' ''unknown_action_denied''
            evaluated_at
      | Some rule \<Rightarrow>
          if \<not> parameters_match_hash X request
          then evaluation request Deny (ru_risk rule) ''contract:binding_mismatch''
            ''action_binding_mismatch'' evaluated_at
          else
            (let (configured, rule_id, reason) = select_rule X matcher rule request
             in evaluation request (decision_of configured) (ru_risk rule) rule_id reason evaluated_at))"

section \<open>The gateway\<close>

text \<open>
  The contract of the trait \<^verbatim>\<open>ActionPolicy\<close> as its clients use it: an evaluation names the request it
  is about, and a request whose parameters do not hash to what it claims is never let through.
\<close>

locale action_policy =
  fixes evaluate :: "action_request \<Rightarrow> policy_evaluation"
    and intact :: "action_request \<Rightarrow> bool"
  assumes bound: "pe_run_id (evaluate q) = ac_run_id q \<and> pe_action_id (evaluate q) = ac_id q
      \<and> pe_parameter_hash (evaluate q) = ac_parameter_hash q"
    and tampered: "\<not> intact q \<Longrightarrow> pe_decision (evaluate q) = Deny"
begin

lemma passed_is_intact: "pe_decision (evaluate q) \<noteq> Deny \<Longrightarrow> intact q"
  using tampered by blast

lemma same_evaluation_same_request:
  "evaluate q = evaluate q' \<Longrightarrow> ac_run_id q = ac_run_id q' \<and> ac_id q = ac_id q'
     \<and> ac_parameter_hash q = ac_parameter_hash q'"
  using bound by metis

end

definition gateway_decide :: "(action_request \<Rightarrow> policy_evaluation) \<Rightarrow> action_request \<Rightarrow> policy_evaluation" where
  \<comment> \<open>\<^verbatim>\<open>ActionGateway::decide\<close>: the policy's answer, and no execution\<close>
  "gateway_decide evaluate request = evaluate request"

lemma evaluate_at_bound:
  "pe_run_id (evaluate_at X config m q now) = ac_run_id q \<and> pe_action_id (evaluate_at X config m q now) = ac_id q
     \<and> pe_parameter_hash (evaluate_at X config m q now) = ac_parameter_hash q"
  by (simp add: evaluate_at_def evaluation_def split: option.splits prod.splits)

lemma evaluate_at_tampered:
  "\<not> parameters_match_hash X q \<Longrightarrow> pe_decision (evaluate_at X config m q now) = Deny"
  by (simp add: evaluate_at_def evaluation_def split: option.splits)

interpretation engine: action_policy "gateway_decide (\<lambda>q. evaluate_at X config m q now)" "parameters_match_hash X"
  for X config m now
  by unfold_locales (simp_all add: gateway_decide_def evaluate_at_bound evaluate_at_tampered)

section \<open>Properties\<close>

lemma unique_string_map_ok:
  assumes "unique_string_map es m = Some n"
  shows "bm_get n = bm_get m ++ map_of es \<and> (bm_ordered m \<longrightarrow> bm_ordered n)
    \<and> distinct (map fst es) \<and> dom (bm_get m) \<inter> fst ` set es = {}"
  using assms
proof (induction es m rule: unique_string_map.induct)
  case (2 key v es m)
  then have k: "\<not> bm_contains m key" and u: "unique_string_map es (bm_insert key v m) = Some n"
    by (auto split: if_splits)
  have d: "dom ((bm_get m)(key \<mapsto> v)) = insert key (dom (bm_get m))" by simp
  from "2.IH" [OF k u] have IH: "bm_get n = (bm_get m)(key \<mapsto> v) ++ map_of es"
    "bm_ordered (bm_insert key v m) \<longrightarrow> bm_ordered n" "distinct (map fst es)"
    "insert key (dom (bm_get m)) \<inter> fst ` set es = {}"
    unfolding bm_get_insert d by blast+
  have "key \<notin> fst ` set es" using IH(4) by blast
  with IH(1) have "bm_get n = bm_get m ++ map_of ((key, v) # es)"
    by (auto simp: fun_eq_iff map_add_def map_of_eq_None_iff split: option.splits)
  moreover have "distinct (map fst ((key, v) # es))" "dom (bm_get m) \<inter> fst ` set ((key, v) # es) = {}"
    using IH(3,4) k by auto
  ultimately show ?case using IH(2) bm_insert_ordered [of m key v] by blast
qed simp

lemma from_yaml_valid:
  "policy_from_yaml yaml input = Inr config \<Longrightarrow> validate_policy config = Inr ()"
  by (auto simp: policy_from_yaml_def res_simps split: if_splits)

lemma valid_rule:
  assumes "validate_policy config = Inr ()" and "bm_get (pc_actions config) name = Some rule"
  shows "valid_action_name name \<and> rule_is_safe rule \<and> resources_are_valid rule"
  using assms map_of_SomeD [OF assms(2)]
  by (auto simp: validate_policy_def list_ex_iff split: if_splits)

lemma select_rule_safe:
  assumes "rule_is_safe rule"
  shows "safe_decision (ru_risk rule) (fst (select_rule X m rule q))"
proof (cases "ru_resources rule")
  case None
  with assms show ?thesis by (simp add: rule_is_safe_def select_rule_def)
next
  case (Some rs)
  show ?thesis
  proof (cases "find (\<lambda>(configured, _). m configured (ac_resource q)) (rr_exact rs)")
    case None
    with Some assms show ?thesis by (simp add: rule_is_safe_def select_rule_def)
  next
    case f: (Some p)
    then have "snd p \<in> set (bm_values (rr_exact rs))"
      by (force simp: find_Some_iff bm_values_def in_set_conv_nth)
    with Some f assms show ?thesis
      by (auto simp: rule_is_safe_def select_rule_def list_all_iff split: prod.splits)
  qed
qed

lemma allowed_is_configured:
  assumes "policy_from_yaml yaml input = Inr config" and "pe_decision (evaluate_at X config m q now) = Allow"
  shows "\<exists>rule. bm_get (pc_actions config) (ac_action q) = Some rule \<and> ru_risk rule \<in> {Read, LocalWrite}"
proof (cases "bm_get (pc_actions config) (ac_action q)")
  case None
  with assms(2) show ?thesis by (simp add: evaluate_at_def evaluation_def)
next
  case (Some rule)
  have "safe_decision (ru_risk rule) (fst (select_rule X m rule q))"
    using valid_rule [OF from_yaml_valid [OF assms(1)] Some] by (intro select_rule_safe) simp
  with Some assms(2) show ?thesis
    by (cases "ru_risk rule"; cases "fst (select_rule X m rule q)")
      (auto simp: evaluate_at_def evaluation_def split: prod.splits if_splits)
qed

text \<open>
  C19. The policy fails closed: with any configuration that was accepted and any resource matcher, an
  action is allowed only if it is configured, its parameters hash to what it claims and its configured
  risk is reading or a local write; a destructive or financial action, an unknown action and an action
  whose parameters do not hash to what it claims are always denied, and every decision carries the risk
  of the configuration.
\<close>

theorem policy_fails_closed:
  assumes "policy_from_yaml yaml input = Inr config"
  shows "(pe_decision (evaluate_at X config m q now) = Allow \<longrightarrow> parameters_match_hash X q \<and>
      pe_effective_risk (evaluate_at X config m q now) \<in> {Read, LocalWrite} \<and>
      (\<exists>rule. bm_get (pc_actions config) (ac_action q) = Some rule \<and> ru_risk rule \<in> {Read, LocalWrite}))
    \<and> (pe_effective_risk (evaluate_at X config m q now) = DestructiveOrFinancial \<longrightarrow>
         pe_decision (evaluate_at X config m q now) = Deny)
    \<and> (bm_get (pc_actions config) (ac_action q) = None \<longrightarrow> pe_decision (evaluate_at X config m q now) = Deny)
    \<and> (\<not> parameters_match_hash X q \<longrightarrow> pe_decision (evaluate_at X config m q now) = Deny)
    \<and> (\<forall>rule. bm_get (pc_actions config) (ac_action q) = Some rule \<longrightarrow>
         pe_effective_risk (evaluate_at X config m q now) = ru_risk rule)"
proof (cases "bm_get (pc_actions config) (ac_action q)")
  case None
  then show ?thesis by (simp add: evaluate_at_def evaluation_def)
next
  case (Some rule)
  have "safe_decision (ru_risk rule) (fst (select_rule X m rule q))"
    using valid_rule [OF from_yaml_valid [OF assms] Some] by (intro select_rule_safe) simp
  with Some show ?thesis
    by (cases "ru_risk rule"; cases "fst (select_rule X m rule q)")
      (auto simp: evaluate_at_def evaluation_def split: prod.splits)
qed

text \<open>The decision of the configuration, read off its tables.\<close>

definition specified_decision :: "policy_config \<Rightarrow> string \<Rightarrow> string \<Rightarrow> configured_decision" where
  "specified_decision config action resource =
     (case bm_get (pc_actions config) action of
        None \<Rightarrow> CfgDeny
      | Some rule \<Rightarrow>
          (case ru_resources rule of
             None \<Rightarrow> ru_decision rule
           | Some rs \<Rightarrow> (case bm_get (rr_exact rs) resource of None \<Rightarrow> rr_default rs | Some d \<Rightarrow> d)))"

text \<open>
  The search of the evaluator is a table lookup: with the exact matcher an intact request gets
  exactly the decision its action and resource have in the tables of the configuration, the resource
  entry first, then the default of the action, denial when the action is unknown; and a tampered
  request is denied.
\<close>

theorem evaluation_is_lookup:
  "pe_decision (evaluate_at X config exact_resource_matcher q now) =
     (if parameters_match_hash X q then decision_of (specified_decision config (ac_action q) (ac_resource q))
      else Deny)"
proof -
  have "find (\<lambda>(k, _). exact_resource_matcher k r) es = map_option (\<lambda>v. (r, v)) (bm_get es r)"
    for r and es :: "(string \<times> configured_decision) list"
    by (induction es) (auto simp: exact_resource_matcher_def)
  then show ?thesis
    by (auto simp: evaluate_at_def evaluation_def select_rule_def specified_decision_def
      split: option.splits prod.splits)
qed

text \<open>
  Decoding keeps every rule of the document and nothing else: an accepted configuration has each
  action name once, with the rule the document gives it, whatever the order, and no document with a
  repeated name or resource is accepted.
\<close>

theorem accepted_policy_is_the_document:
  assumes "policy_from_yaml yaml input = Inr config"
  shows "\<exists>raw rules. yaml input = Some raw \<and> decode_rules (rp_actions raw) = Some rules
    \<and> distinct (map fst (rp_actions raw)) \<and> bm_get (pc_actions config) = map_of rules
    \<and> bm_ordered (pc_actions config)
    \<and> (\<forall>(name, risk, decision, resources) \<in> set (rp_actions raw). case resources of
         RawNull \<Rightarrow> False
       | RawAbsent \<Rightarrow> bm_get (pc_actions config) name =
           Some \<lparr>ru_risk = risk, ru_decision = decision, ru_resources = None\<rparr>
       | RawRules entries d \<Rightarrow> distinct (map fst entries) \<and> (\<exists>exact. bm_get exact = map_of entries \<and>
           bm_get (pc_actions config) name = Some \<lparr>ru_risk = risk, ru_decision = decision,
             ru_resources = Some \<lparr>rr_exact = exact, rr_default = d\<rparr>\<rparr>))"
proof -
  from assms obtain raw rules where y: "yaml input = Some raw" "decode_rules (rp_actions raw) = Some rules"
    and u: "unique_string_map rules [] = Some (pc_actions config)"
    by (auto simp: policy_from_yaml_def decode_policy_def res_simps bind_eq_Some_conv split: if_splits)
  from unique_string_map_ok [OF u] have m: "bm_get (pc_actions config) = map_of rules" "distinct (map fst rules)"
    "bm_ordered (pc_actions config)" by simp_all
  have d: "map fst rules = map fst raws \<and> (\<forall>(name, risk, decision, resources) \<in> set raws.
      \<exists>rs. decode_resources resources = Some rs
        \<and> (name, \<lparr>ru_risk = risk, ru_decision = decision, ru_resources = rs\<rparr>) \<in> set rules)"
    if "decode_rules raws = Some rules" for raws rules
    using that
  proof (induction raws arbitrary: rules rule: decode_rules.induct)
    case (2 name risk decision resources entries)
    then show ?case by (fastforce simp: bind_eq_Some_conv)
  qed simp
  have "\<forall>(name, risk, decision, resources) \<in> set (rp_actions raw). \<exists>rs. decode_resources resources = Some rs
      \<and> bm_get (pc_actions config) name = Some \<lparr>ru_risk = risk, ru_decision = decision, ru_resources = rs\<rparr>"
    using d [OF y(2)] m(1,2) by fastforce
  moreover have "case resources of RawNull \<Rightarrow> False | RawAbsent \<Rightarrow> rs = None
      | RawRules entries dd \<Rightarrow> distinct (map fst entries) \<and>
          (\<exists>exact. bm_get exact = map_of entries \<and> rs = Some \<lparr>rr_exact = exact, rr_default = dd\<rparr>)"
    if "decode_resources resources = Some rs" for resources rs
    using that by (cases resources) (auto dest!: unique_string_map_ok)
  ultimately show ?thesis
    using y m d [OF y(2)] by (intro exI [of _ raw] exI [of _ rules]) (fastforce split: raw_resources.splits)
qed

end
