(* ===== verification/Sandbox.thy ===== *)
theory Sandbox
  imports Artifact_Scan
begin

text \<open>
  The container sandbox (\<^verbatim>\<open>crates/openwork-sandbox/src\<close>): the command lines of the two engines
  (\<^verbatim>\<open>engine.rs\<close>), mounts, the environment file and the collection of outputs (\<^verbatim>\<open>filesystem.rs\<close>), the
  capture budget of the command runner (\<^verbatim>\<open>cli.rs\<close>) and the life of one container from creation to
  removal with its monitor, cancellation and registry (\<^verbatim>\<open>lib.rs\<close>).

  What the container engine, the file system and the clock answer is a record of functions; an engine
  call may depend on everything done before it. Effects are recorded in a trace. Destructors run at the
  end of their scope, as in the source. Other threads may cancel or clean up between two rounds of the
  monitor, which holds the cancellation lock for a whole round.
\<close>

section \<open>Text\<close>

fun utf8_len :: "string \<Rightarrow> nat option" where
  \<comment> \<open>the length of the well-formed UTF-8 sequence at the head of the text\<close>
  "utf8_len [] = None"
| "utf8_len (a # s) =
     (let cont = (\<lambda>c. 0x80 \<le> byte c \<and> byte c \<le> 0xBF)
      in if byte a < 0x80 then Some 1
         else if 0xC2 \<le> byte a \<and> byte a \<le> 0xDF
         then (case s of b # _ \<Rightarrow> if cont b then Some 2 else None | _ \<Rightarrow> None)
         else if 0xE0 \<le> byte a \<and> byte a \<le> 0xEF
         then (case s of
                 b # c # _ \<Rightarrow>
                   if cont b \<and> cont c \<and> (byte a = 0xE0 \<longrightarrow> 0xA0 \<le> byte b)
                      \<and> (byte a = 0xED \<longrightarrow> byte b \<le> 0x9F)
                   then Some 3 else None
               | _ \<Rightarrow> None)
         else if 0xF0 \<le> byte a \<and> byte a \<le> 0xF4
         then (case s of
                 b # c # d # _ \<Rightarrow>
                   if cont b \<and> cont c \<and> cont d \<and> (byte a = 0xF0 \<longrightarrow> 0x90 \<le> byte b)
                      \<and> (byte a = 0xF4 \<longrightarrow> byte b \<le> 0x8F)
                   then Some 4 else None
               | _ \<Rightarrow> None)
         else None)"

lemma utf8_len_pos: "utf8_len s = Some n \<Longrightarrow> 0 < n \<and> s \<noteq> []"
  by (cases s) (auto simp: Let_def split: if_splits list.splits)

function valid_utf8 :: "string \<Rightarrow> bool" where
  "valid_utf8 s =
     (if s = [] then True
      else (case utf8_len s of None \<Rightarrow> False | Some n \<Rightarrow> valid_utf8 (drop n s)))"
  by pat_completeness auto
termination
  by (relation "measure length") (auto dest: utf8_len_pos)

declare valid_utf8.simps [simp del]

fun trim_end :: "string \<Rightarrow> string" where
  "trim_end s = (if blank s then [] else case s of [] \<Rightarrow> [] | c # r \<Rightarrow> c # trim_end r)"

declare trim_end.simps [simp del]

definition trim :: "string \<Rightarrow> string" where
  "trim s = trim_end (trim_start s)"

definition digit_char :: "nat \<Rightarrow> char" where
  "digit_char n = char_of (48 + n)"

fun decimal :: "nat \<Rightarrow> string" where
  \<comment> \<open>\<^verbatim>\<open>to_string\<close> of an unsigned integer\<close>
  "decimal n = (if n < 10 then [digit_char n] else decimal (n div 10) @ [digit_char (n mod 10)])"

declare decimal.simps [simp del]

definition sandbox_error :: "error_code \<Rightarrow> string \<Rightarrow> openwork_error" where
  "sandbox_error c msg = new_error c msg"

section \<open>Engines\<close>

datatype container_engine = Docker | Podman

datatype capability_support = Supported | HostDependent

record engine_capabilities =
  ec_hardened_create :: capability_support
  ec_resource_limits :: capability_support
  ec_stdin_attachment :: capability_support

fun engine_capabilities_of :: "container_engine \<Rightarrow> engine_capabilities" where
  "engine_capabilities_of Docker =
     \<lparr>ec_hardened_create = Supported, ec_resource_limits = Supported, ec_stdin_attachment = Supported\<rparr>"
| "engine_capabilities_of Podman =
     \<lparr>ec_hardened_create = Supported, ec_resource_limits = HostDependent, ec_stdin_attachment = Supported\<rparr>"

fun health_arguments :: "container_engine \<Rightarrow> string list" where
  "health_arguments Docker = [''version'', ''--format'', ''{{.Server.Version}}'']"
| "health_arguments Podman = [''info'', ''--format'', ''{{.Version.Version}}'']"

fun unavailable_message :: "container_engine \<Rightarrow> string" where
  "unavailable_message Docker = ''Docker daemon is unavailable''"
| "unavailable_message Podman = ''Podman engine is unavailable''"

fun remove_failure_code :: "container_engine \<Rightarrow> string" where
  "remove_failure_code Docker = ''docker.remove_failed''"
| "remove_failure_code Podman = ''podman.remove_failed''"

definition engine_create_arguments :: "string list" where
  "engine_create_arguments = [''create'', ''--read-only'']"

definition start_arguments :: "string \<Rightarrow> string list" where
  "start_arguments cid = [''start'', cid]"

definition attach_arguments :: "string \<Rightarrow> string list" where
  "attach_arguments cid = [''attach'', ''--sig-proxy=false'', cid]"

definition inspect_arguments :: "string \<Rightarrow> string list" where
  "inspect_arguments cid = [''inspect'', ''--format'', ''{{json .State}}'', cid]"

definition logs_arguments :: "string \<Rightarrow> string list" where
  "logs_arguments cid = [''logs'', cid]"

definition kill_arguments :: "string \<Rightarrow> string list" where
  "kill_arguments cid = [''kill'', cid]"

definition remove_arguments :: "string \<Rightarrow> string list" where
  "remove_arguments cid = [''rm'', ''--force'', cid]"

section \<open>The capture budget\<close>

record cli_output =
  co_success :: bool
  co_stdout :: string
  co_stderr :: string
  co_truncated :: bool

record capture =
  cb_remaining :: nat
  cb_truncated :: bool
  cb_stdout :: string
  cb_stderr :: string

definition new_capture :: "u64 \<Rightarrow> capture" where
  "new_capture limit = \<lparr>cb_remaining = unat limit, cb_truncated = False, cb_stdout = [], cb_stderr = []\<rparr>"

definition capture_chunk :: "bool \<Rightarrow> string \<Rightarrow> capture \<Rightarrow> capture" where
  \<comment> \<open>one round of a reader thread; the flag says whether it reads standard output\<close>
  "capture_chunk from_stdout chunk b =
     (let kept = min (length chunk) (cb_remaining b);
          b = b\<lparr>cb_remaining := cb_remaining b - kept, cb_truncated := cb_truncated b \<or> kept < length chunk\<rparr>
      in if from_stdout then b\<lparr>cb_stdout := cb_stdout b @ take kept chunk\<rparr>
         else b\<lparr>cb_stderr := cb_stderr b @ take kept chunk\<rparr>)"

definition capture_all :: "u64 \<Rightarrow> (bool \<times> string) list \<Rightarrow> capture" where
  \<comment> \<open>the two readers share one budget; the list is the order in which they took its lock\<close>
  "capture_all limit chunks = fold (\<lambda>(out, chunk). capture_chunk out chunk) chunks (new_capture limit)"

definition new_cli :: "string \<Rightarrow> container_engine \<Rightarrow> string result" where
  "new_cli executable program =
     (if \<not> starts_with executable ''/''
      then Inl (sandbox_error InvalidArguments
        (case program of Docker \<Rightarrow> ''Docker executable must be an absolute path''
         | Podman \<Rightarrow> ''Podman executable must be an absolute path''))
      else Inr executable)"

text \<open>
  One call of \<^verbatim>\<open>SystemDockerCli::run\<close> (\<^verbatim>\<open>SystemPodmanCli\<close> delegates to it): what the operating system
  answers is a record; the wait loop polls every ten milliseconds until the child has ended or the
  timeout has passed, and takes the number of polls it may still make. Waiting for a killed child and
  joining a reader may block: the kernel need not reap the child, and a reader ends only when every
  process that holds its pipe has closed it. A call that blocks has no value.
\<close>

datatype wait_poll = WaitExited bool | WaitRunning | WaitError

datatype reader_end = ReaderDone | ReaderPanicked | ReaderFailed | ReaderBlocked

record cli_process =
  cp_spawned :: bool
  cp_pipes :: bool
  cp_wait :: "nat \<Rightarrow> wait_poll"
  cp_elapsed :: "nat \<Rightarrow> bool"  \<comment> \<open>whether the timeout had passed after the n-th poll\<close>
  cp_reaped :: bool  \<comment> \<open>whether \<^verbatim>\<open>wait\<close> returns once the child was killed\<close>
  cp_chunks :: "(bool \<times> string) list"
  cp_stdout_end :: reader_end
  cp_stderr_end :: reader_end

fun start_error :: "container_engine \<Rightarrow> string" where
  "start_error Docker = ''Docker CLI could not start''"
| "start_error Podman = ''Podman CLI could not start''"

fun status_error :: "container_engine \<Rightarrow> string" where
  "status_error Docker = ''Docker CLI status failed''"
| "status_error Podman = ''Podman CLI status failed''"

fun timeout_error :: "container_engine \<Rightarrow> string" where
  "timeout_error Docker = ''Docker CLI invocation timed out''"
| "timeout_error Podman = ''Podman CLI invocation timed out''"

fun join_reader :: "reader_end \<Rightarrow> string \<Rightarrow> string result option" where
  "join_reader ReaderDone retained = Some (Inr retained)"
| "join_reader ReaderPanicked retained = Some (Inl (sandbox_error Internal ''Container output reader panicked''))"
| "join_reader ReaderFailed retained = Some (Inl (sandbox_error Io ''Container output could not be read''))"
| "join_reader ReaderBlocked retained = None"

definition stop_child :: "cli_process \<Rightarrow> openwork_error \<Rightarrow> 'a result option" where
  \<comment> \<open>kill, wait, join both readers and drop what they kept\<close>
  "stop_child P err =
     (if cp_reaped P \<and> join_reader (cp_stdout_end P) [] \<noteq> None \<and> join_reader (cp_stderr_end P) [] \<noteq> None
      then Some (Inl err) else None)"

fun wait_loop :: "container_engine \<Rightarrow> cli_process \<Rightarrow> nat \<Rightarrow> nat \<Rightarrow> bool result option" where
  "wait_loop program P 0 n = None"
| "wait_loop program P (Suc polls) n =
     (case cp_wait P n of
        WaitExited success \<Rightarrow> Some (Inr success)
      | WaitError \<Rightarrow> stop_child P (sandbox_error ExecutionFailed (status_error program))
      | WaitRunning \<Rightarrow>
          if cp_elapsed P n then stop_child P (sandbox_error RunTimedOut (timeout_error program))
          else wait_loop program P polls (Suc n))"

definition system_cli_run :: "container_engine \<Rightarrow> u64 \<Rightarrow> cli_process \<Rightarrow> nat \<Rightarrow> cli_output result option" where
  "system_cli_run program max_output_bytes P polls =
     (if \<not> cp_spawned P
      then Some (Inl (sandbox_error SandboxUnavailable (start_error program)))
      else if \<not> cp_pipes P
      then
        (if cp_reaped P
         then Some (Inl (sandbox_error Internal ''Container engine output pipes were unavailable''))
         else None)
      else
        (case wait_loop program P polls 0 of
           None \<Rightarrow> None
         | Some (Inl err) \<Rightarrow> Some (Inl err)
         | Some (Inr success) \<Rightarrow>
             let budget = capture_all max_output_bytes (cp_chunks P)
             in case join_reader (cp_stdout_end P) (cb_stdout budget) of
                  None \<Rightarrow> None
                | Some (Inl err) \<Rightarrow> Some (Inl err)
                | Some (Inr stdout) \<Rightarrow>
                    (case join_reader (cp_stderr_end P) (cb_stderr budget) of
                       None \<Rightarrow> None
                     | Some (Inl err) \<Rightarrow> Some (Inl err)
                     | Some (Inr stderr) \<Rightarrow>
                         Some (Inr \<lparr>co_success = success, co_stdout = stdout, co_stderr = stderr,
                                    co_truncated = cb_truncated budget\<rparr>))))"

section \<open>Mounts, environment and outputs\<close>

record dir_meta =
  dm_symlink :: bool
  dm_dir :: bool
  dm_file :: bool

definition validate_mount :: "(string \<Rightarrow> dir_meta option) \<Rightarrow> string \<Rightarrow> unit result" where
  "validate_mount metadata path =
     res_bind (ok_or (metadata path) (sandbox_error InvalidArguments ''sandbox mount is unavailable'')) (\<lambda>m.
     if dm_symlink m \<or> \<not> dm_dir m
     then Inl (sandbox_error InvalidArguments ''sandbox mount must be a real directory'')
     else Inr ())"

definition mount_argument :: "string \<Rightarrow> string \<Rightarrow> bool \<Rightarrow> string result" where
  "mount_argument source target read_only =
     (if \<not> valid_utf8 source
      then Inl (sandbox_error InvalidArguments ''sandbox mount path is not UTF-8'')
      else if CHR '','' \<in> set source
      then Inl (sandbox_error InvalidArguments ''sandbox mount path contains an unsupported delimiter'')
      else Inr (''type=bind,src='' @ source @ '',dst='' @ target @ (if read_only then '',readonly'' else [])))"

fun environment_text :: "(string \<times> string) list \<Rightarrow> string \<Rightarrow> string result" where
  \<comment> \<open>the loop of \<^verbatim>\<open>write_environment\<close>; the second argument is what the file holds\<close>
  "environment_text [] written = Inr written"
| "environment_text ((key, v) # entries) written =
     (if CHR 0x0D \<in> set v \<or> CHR 0x0A \<in> set v
      then Inl (sandbox_error InvalidArguments ''container environment contains an unsupported newline'')
      else environment_text entries (written @ key @ ''='' @ v @ [CHR 0x0A]))"

definition parse_container_id :: "string \<Rightarrow> string result" where
  "parse_container_id bytes =
     (let cid = trim bytes
      in if length cid = 64 \<and> list_all is_lower_hex cid then Inr cid
         else Inl (sandbox_error ExecutionFailed ''Docker did not return a valid container ID''))"

definition strip_root :: "string \<Rightarrow> string \<Rightarrow> string option" where
  \<comment> \<open>\<^verbatim>\<open>path.strip_prefix(root)\<close>, with the rest joined by slashes\<close>
  "strip_root root path =
     (if path_starts_with path root
      then Some (join ''/'' (drop (length (path_components root)) (path_components path)))
      else None)"

record tree_view =
  tv_read_dir :: "string \<Rightarrow> string option list option"  \<comment> \<open>entry names, \<open>None\<close> for an unreadable entry\<close>
  tv_metadata :: "string \<Rightarrow> dir_meta option"

definition tree_error :: "string \<Rightarrow> openwork_error" where
  "tree_error msg = sandbox_error ArtifactInvalid msg"

fun collect_entries ::
    "tree_view \<Rightarrow> string \<Rightarrow> string \<Rightarrow> string option list \<Rightarrow> string list \<Rightarrow> rel_path list \<Rightarrow> nat
      \<Rightarrow> (string list \<times> rel_path list \<times> nat) result" where
  \<comment> \<open>the entries of one directory; the stack of directories has its top at the head\<close>
  "collect_entries V root directory [] dirs out seen = Inr (dirs, out, seen)"
| "collect_entries V root directory (entry # entries) dirs out seen =
     (if seen + 1 > 4096 then Inl (tree_error ''sandbox output tree is too large'')
      else
        res_bind (ok_or entry (tree_error ''output entry is invalid'')) (\<lambda>name.
        let path = path_join directory name
        in res_bind (ok_or (tv_metadata V path) (tree_error ''output metadata is invalid'')) (\<lambda>m.
           if dm_symlink m \<or> (\<not> dm_dir m \<and> \<not> dm_file m)
           then Inl (tree_error ''output contains a symlink or special file'')
           else if dm_dir m
           then collect_entries V root directory entries (path # dirs) out (seen + 1)
           else if length out \<ge> 1024 then Inl (tree_error ''sandbox produced too many files'')
           else
             res_bind (ok_or (strip_root root path) (tree_error ''sandbox output escaped its root'')) (\<lambda>relative.
             if \<not> valid_utf8 relative then Inl (tree_error ''output path is not UTF-8'')
             else
               res_bind (parse_rel_path relative) (\<lambda>portable.
               collect_entries V root directory entries dirs (out @ [portable]) (seen + 1))))))"

lemma collect_entries_bounds:
  assumes "collect_entries V root d entries dirs out seen = Inr (dirs', out', seen')"
  shows "seen' \<le> max seen 4096 \<and> seen \<le> seen' \<and> length dirs' + seen \<le> length dirs + seen'
    \<and> (length out \<le> 1024 \<longrightarrow> length out' \<le> 1024)"
  using assms
proof (induction entries arbitrary: dirs out seen)
  case (Cons entry entries)
  then show ?case
    by (fastforce simp: res_simps Let_def split: if_splits)
qed simp

function collect_dirs ::
    "tree_view \<Rightarrow> string \<Rightarrow> string list \<Rightarrow> rel_path list \<Rightarrow> nat \<Rightarrow> rel_path list result" where
  "collect_dirs V root dirs out seen =
     (case dirs of
        [] \<Rightarrow> Inr out
      | directory # rest \<Rightarrow>
          (case tv_read_dir V directory of
             None \<Rightarrow> Inl (tree_error ''output cannot be scanned'')
           | Some entries \<Rightarrow>
               (case collect_entries V root directory entries rest out seen of
                  Inl e \<Rightarrow> Inl e
                | Inr (dirs', out', seen') \<Rightarrow> collect_dirs V root dirs' out' seen')))"
  by pat_completeness auto

termination
  by (relation "measure (\<lambda>(V, root, dirs, out, seen). 2 * (4096 - seen) + length dirs)")
    (auto dest!: collect_entries_bounds)

declare collect_dirs.simps [simp del]

definition collect_output_paths :: "tree_view \<Rightarrow> string \<Rightarrow> rel_path list result" where
  "collect_output_paths V root =
     res_bind (collect_dirs V root [root] [] 0) (\<lambda>out. Inr (sort_key path_str out))"

section \<open>State and environment\<close>

datatype effect =
    CliRun "string list"
  | MakeDir string
  | WriteFile string string
  | RemoveTree string

datatype engine_health = NotChecked | Available | Unavailable

record sandbox_state =
  sb_trace :: "effect list"
  sb_active :: "(string, string) btree_map"  \<comment> \<open>run key to the container of its \<^verbatim>\<open>ActiveContainer\<close>\<close>
  sb_confirmed :: "string list"  \<comment> \<open>containers whose \<^verbatim>\<open>cancellation_confirmed\<close> flag is set\<close>
  sb_health :: engine_health
  sb_cleaned :: bool  \<comment> \<open>\<^verbatim>\<open>ContainerGuard::cleaned\<close> of the execution in progress\<close>
  sb_closed :: bool  \<comment> \<open>whether its temporary directory was consumed by \<^verbatim>\<open>close\<close>\<close>

type_synonym 'a sandbox_op = "(sandbox_state, openwork_error, 'a) op"

datatype mkdir_answer = DirCreated | DirExists | DirFailed

datatype attachment_poll = PollOutput bool | PollError | PollDisconnected | PollEmpty

datatype other_call = OtherCancel run_id | OtherCleanup run_id

record sandbox_env =
  se_engine :: container_engine
  se_cli :: "effect list \<Rightarrow> string list \<Rightarrow> cli_output result"  \<comment> \<open>\<^verbatim>\<open>DockerCli::run\<close> after what was done so far\<close>
  se_json :: "string \<Rightarrow> json option"  \<comment> \<open>\<^verbatim>\<open>serde_json::from_slice\<close>\<close>
  se_temporary_root :: string
  se_temporary_name :: "nat \<Rightarrow> string"  \<comment> \<open>\<^verbatim>\<open>openwork-{pid}-{sequence}\<close> of the n-th attempt\<close>
  se_mkdir :: "nat \<Rightarrow> mkdir_answer"
  se_private_ok :: bool
  se_runtime_dir_ok :: bool
  se_runtime_mode_ok :: bool
  se_env_open_ok :: bool
  se_env_mode_ok :: bool
  se_env_write_ok :: bool
  se_cidfile :: "string option"
  se_tree :: tree_view
  se_remove_ok :: bool
  se_expired :: "nat \<Rightarrow> bool"  \<comment> \<open>whether the deadline has passed in the n-th round\<close>
  se_attachment :: "nat \<Rightarrow> attachment_poll"
  se_others :: "nat \<Rightarrow> other_call list"  \<comment> \<open>calls of other threads before the n-th round\<close>
  se_started_at :: timestamp
  se_completed_at :: timestamp

definition emit :: "effect \<Rightarrow> unit sandbox_op" where
  "emit e = modify (\<lambda>s. s\<lparr>sb_trace := sb_trace s @ [e]\<rparr>)"

definition invoke :: "sandbox_env \<Rightarrow> string list \<Rightarrow> cli_output sandbox_op" where
  "invoke E args =
     bnd (gets sb_trace) (\<lambda>trace.
     bnd (emit (CliRun args)) (\<lambda>_.
     lift_res (se_cli E trace args)))"

definition invoke_succeeds :: "sandbox_env \<Rightarrow> string list \<Rightarrow> bool sandbox_op" where
  \<comment> \<open>\<^verbatim>\<open>invoke(..).is_ok_and(|output| output.success)\<close>\<close>
  "invoke_succeeds E args s =
     (case invoke E args s of
        (Inl _, t) \<Rightarrow> (Inr False, t)
      | (Inr output, t) \<Rightarrow> (Inr (co_success output), t))"

section \<open>Cancellation, cleanup and health\<close>

definition run_key :: "ext \<Rightarrow> run_id \<Rightarrow> string" where
  "run_key X rid = trim_chars [CHR 0x22] (json_to_string X (JString (to_hyphenated X rid)))"

definition guard_cleanup :: "sandbox_env \<Rightarrow> string \<Rightarrow> cleanup_status sandbox_op" where
  "guard_cleanup E cid =
     bnd (best_effort (invoke E (kill_arguments cid))) (\<lambda>_.
     bnd (invoke_succeeds E (remove_arguments cid)) (\<lambda>removed.
     ret (if removed then CleanupSucceeded else CleanupFailed (remove_failure_code (se_engine E)))))"

definition cancel :: "ext \<Rightarrow> sandbox_env \<Rightarrow> run_id \<Rightarrow> unit sandbox_op" where
  "cancel X E rid =
     bnd (lookup (\<lambda>s. bm_get (sb_active s) (run_key X rid))
       (sandbox_error RunCancelled ''run has no active sandbox'')) (\<lambda>cid.
     bnd (gets (\<lambda>s. cid \<in> set (sb_confirmed s))) (\<lambda>confirmed.
     if confirmed then ret ()
     else
       bnd (invoke E (kill_arguments cid)) (\<lambda>output.
       if co_success output
       then modify (\<lambda>s. s\<lparr>sb_confirmed := cid # sb_confirmed s\<rparr>)
       else fail_with (sandbox_error ExecutionFailed ''active sandbox could not be cancelled''))))"

definition sandbox_cleanup :: "ext \<Rightarrow> sandbox_env \<Rightarrow> run_id \<Rightarrow> unit sandbox_op" where
  "sandbox_cleanup X E rid =
     bnd (lookup (\<lambda>s. bm_get (sb_active s) (run_key X rid))
       (sandbox_error ExecutionFailed ''run has no active sandbox'')) (\<lambda>cid.
     bnd (modify (\<lambda>s. s\<lparr>sb_active := bm_remove (run_key X rid) (sb_active s)\<rparr>)) (\<lambda>_.
     bnd (guard_cleanup E cid) (\<lambda>status.
     case status of
       CleanupSucceeded \<Rightarrow> ret ()
     | CleanupFailed _ \<Rightarrow>
         \<comment> \<open>the guard is dropped uncleaned and tries once more\<close>
         bnd (best_effort (guard_cleanup E cid)) (\<lambda>_.
         fail_with (sandbox_error ExecutionFailed ''active sandbox cleanup failed'')))))"

definition health :: "sandbox_env \<Rightarrow> unit sandbox_op" where
  "health E s =
     (case invoke E (health_arguments (se_engine E)) s of
        (Inr output, t) \<Rightarrow>
          if co_success output \<and> co_stdout output \<noteq> []
          then (Inr (), t\<lparr>sb_health := Available\<rparr>)
          else (Inl (sandbox_error SandboxUnavailable (unavailable_message (se_engine E))),
                t\<lparr>sb_health := Unavailable\<rparr>)
      | (Inl e, t) \<Rightarrow> (Inl e, t\<lparr>sb_health := Unavailable\<rparr>))"

section \<open>The monitor\<close>

record container_state =
  ct_running :: bool
  ct_oom_killed :: bool
  ct_exit_code :: i32

fun json_get :: "json \<Rightarrow> string \<Rightarrow> json option" where
  "json_get (JObject es) key = map_of es key"
| "json_get _ key = None"

fun json_as_bool :: "json \<Rightarrow> bool option" where
  "json_as_bool (JBool b) = Some b"
| "json_as_bool _ = None"

fun json_as_i64 :: "json \<Rightarrow> int option" where
  "json_as_i64 (JNumber (PosInt w)) = (if unat w < 2 ^ 63 then Some (int (unat w)) else None)"
| "json_as_i64 (JNumber (NegInt i)) = Some i"
| "json_as_i64 _ = None"

definition i32_of :: "int \<Rightarrow> i32 option" where
  "i32_of n = (if - (2 ^ 31) \<le> n \<and> n < 2 ^ 31 then Some n else None)"

definition state_bool :: "json \<Rightarrow> string \<Rightarrow> bool result" where
  "state_bool v key =
     ok_or (Option.bind (json_get v key) json_as_bool)
       (sandbox_error ExecutionFailed ''Docker state was incomplete'')"

definition container_state_of :: "sandbox_env \<Rightarrow> string \<Rightarrow> container_state result" where
  \<comment> \<open>the decoding half of \<^verbatim>\<open>inspect\<close>\<close>
  "container_state_of E bytes =
     res_bind (ok_or (se_json E bytes)
       (sandbox_error ExecutionFailed ''Container engine returned invalid state'')) (\<lambda>v.
     res_bind (state_bool v ''Running'') (\<lambda>running.
     res_bind (state_bool v ''OOMKilled'') (\<lambda>oom_killed.
     res_bind (ok_or (Option.bind (Option.bind (json_get v ''ExitCode'') json_as_i64) i32_of)
       (sandbox_error ExecutionFailed ''Container state omitted exit code'')) (\<lambda>status.
     Inr \<lparr>ct_running = running, ct_oom_killed = oom_killed, ct_exit_code = status\<rparr>))))"

definition inspect :: "sandbox_env \<Rightarrow> string \<Rightarrow> container_state sandbox_op" where
  "inspect E cid =
     bnd (invoke E (inspect_arguments cid)) (\<lambda>output.
     if \<not> co_success output
     then fail_with (sandbox_error ExecutionFailed ''Container inspection failed'')
     else lift_res (container_state_of E (co_stdout output)))"

fun other_threads :: "ext \<Rightarrow> sandbox_env \<Rightarrow> other_call list \<Rightarrow> sandbox_state \<Rightarrow> sandbox_state" where
  "other_threads X E [] s = s"
| "other_threads X E (OtherCancel rid # calls) s = other_threads X E calls (snd (cancel X E rid s))"
| "other_threads X E (OtherCleanup rid # calls) s = other_threads X E calls (snd (sandbox_cleanup X E rid s))"

definition poll_attachment :: "attachment_poll \<Rightarrow> bool \<Rightarrow> bool" where
  "poll_attachment poll failed =
     (case poll of
        PollOutput success \<Rightarrow> failed \<or> \<not> success
      | PollError \<Rightarrow> True
      | PollDisconnected \<Rightarrow> True
      | PollEmpty \<Rightarrow> failed)"

text \<open>
  One round with the lock held: either a verdict, or the container goes on and the flag of the
  attachment is carried to the next round.
\<close>

definition monitor_round ::
    "sandbox_env \<Rightarrow> string \<Rightarrow> bool \<Rightarrow> nat \<Rightarrow> bool \<Rightarrow> sandbox_state
      \<Rightarrow> ((termination_kind \<times> i32 option) + bool) \<times> sandbox_state" where
  "monitor_round E cid attached n failed s =
     (if cid \<in> set (sb_confirmed s) then (Inl (TermCancelled, None), s)
      else if se_expired E n
      then (case invoke_succeeds E (kill_arguments cid) s of
              (Inr True, t) \<Rightarrow> (Inl (TermTimedOut, None), t)
            | (_, t) \<Rightarrow> (Inl (TermFailed, None), t))
      else
        (let failed = (if attached then poll_attachment (se_attachment E n) failed else failed)
         in case inspect E cid s of
              (Inr st, t) \<Rightarrow>
                if ct_running st \<and> failed
                then (Inl (TermFailed, None), snd (invoke E (kill_arguments cid) t))
                else if ct_running st then (Inr failed, t)
                else if ct_oom_killed st then (Inl (TermOutOfMemory, None), t)
                else (Inl (TermExited, Some (ct_exit_code st)), t)
            | (Inl _, t) \<Rightarrow> (Inl (TermFailed, None), snd (invoke E (kill_arguments cid) t))))"

fun monitor_container ::
    "ext \<Rightarrow> sandbox_env \<Rightarrow> string \<Rightarrow> bool \<Rightarrow> nat \<Rightarrow> nat \<Rightarrow> bool \<Rightarrow> sandbox_state
      \<Rightarrow> ((termination_kind \<times> i32 option) \<times> sandbox_state) option" where
  \<comment> \<open>the first number is the rounds it may still take, the second the round it is in\<close>
  "monitor_container X E cid attached 0 n failed s = None"
| "monitor_container X E cid attached (Suc fuel) n failed s =
     (case monitor_round E cid attached n failed (other_threads X E (se_others E n) s) of
        (Inl verdict, t) \<Rightarrow> Some (verdict, t)
      | (Inr failed', t) \<Rightarrow> monitor_container X E cid attached fuel (Suc n) failed' t)"

section \<open>One execution\<close>

definition create_arguments :: "sandbox_request \<Rightarrow> string \<Rightarrow> string \<Rightarrow> string \<Rightarrow> string list result" where
  \<comment> \<open>the paths are those of the runtime directory, the container id file and the environment file\<close>
  "create_arguments request runtime_path cidfile environment_file =
     (let limits = sr_limits request;
          quota = min (unat (sl_cpu_millis limits) * 100) (2 ^ 64 - 1);
          network = (case sr_network request of NetDisabled \<Rightarrow> ''none'' | NetRestricted name \<Rightarrow> network_str name)
      in res_bind (mount_argument (mount_path (sr_input_directory request)) ''/workspace/input'' True) (\<lambda>input.
         res_bind (mount_argument (mount_path (sr_output_directory request)) ''/workspace/output'' False) (\<lambda>output.
         res_bind (mount_argument runtime_path ''/workspace/tmp'' False) (\<lambda>temporary.
         Inr (engine_create_arguments @
              [''--network'', network, ''--cap-drop'', ''ALL'', ''--security-opt'', ''no-new-privileges'',
               ''--user'', decimal (unat (su_uid (sr_user request))) @ '':'' @ decimal (unat (su_gid (sr_user request))),
               ''--cpu-period'', ''100000'', ''--cpu-quota'', decimal quota,
               ''--memory'', decimal (unat (sl_memory_bytes limits)),
               ''--pids-limit'', decimal (unat (sl_pid_limit limits)),
               ''--workdir'', ''/workspace'', ''--cidfile'', cidfile, ''--env-file'', environment_file,
               ''--mount'', input, ''--mount'', output, ''--mount'', temporary,
               ''--tmpfs'', ''/tmp:rw,noexec,nosuid,nodev,size=67108864''] @
              (if sc_stdin (sr_command request) \<noteq> [] then [''-i''] else []) @
              [image_str (sr_image request), sc_program (sr_command request)] @
              sc_arguments (sr_command request))))))"

fun allocate_directory :: "sandbox_env \<Rightarrow> nat \<Rightarrow> nat \<Rightarrow> string sandbox_op" where
  \<comment> \<open>the 32 attempts of \<^verbatim>\<open>OwnedTemporaryDirectory::create\<close>\<close>
  "allocate_directory E 0 n =
     fail_with (sandbox_error Io ''backend temporary directory allocation was exhausted'')"
| "allocate_directory E (Suc attempts) n =
     (let path = path_join (se_temporary_root E) (se_temporary_name E n)
      in case se_mkdir E n of
           DirCreated \<Rightarrow>
             bnd (emit (MakeDir path)) (\<lambda>_.
             bnd (check (\<lambda>_. se_private_ok E) (sandbox_error Io ''temporary permissions failed'')) (\<lambda>_.
             bnd (check (\<lambda>_. se_runtime_dir_ok E)
               (sandbox_error Io ''runtime temporary directory creation failed'')) (\<lambda>_.
             bnd (emit (MakeDir (path_join path ''runtime''))) (\<lambda>_.
             bnd (check (\<lambda>_. se_runtime_mode_ok E) (sandbox_error Io ''runtime permissions failed'')) (\<lambda>_.
             ret path)))))
         | DirExists \<Rightarrow> allocate_directory E attempts (Suc n)
         | DirFailed \<Rightarrow>
             fail_with (sandbox_error Io ''backend temporary directory could not be created''))"

definition create_temporary :: "sandbox_env \<Rightarrow> string sandbox_op" where
  "create_temporary E =
     bnd (lift_res (validate_mount (tv_metadata (se_tree E)) (se_temporary_root E))) (\<lambda>_.
     allocate_directory E 32 0)"

definition write_environment :: "sandbox_env \<Rightarrow> string \<Rightarrow> (string, string) btree_map \<Rightarrow> string sandbox_op" where
  "write_environment E directory environment =
     (let path = path_join directory ''container.env''
      in bnd (check (\<lambda>_. se_env_open_ok E) (sandbox_error Io ''container environment file failed'')) (\<lambda>_.
         bnd (check (\<lambda>_. se_env_mode_ok E) (sandbox_error Io ''environment permissions failed'')) (\<lambda>_.
         bnd (lift_res (environment_text environment [])) (\<lambda>text.
         bnd (check (\<lambda>_. se_env_write_ok E) (sandbox_error Io ''container environment file failed'')) (\<lambda>_.
         bnd (emit (WriteFile path text)) (\<lambda>_.
         ret path))))))"

definition read_container_id :: "sandbox_env \<Rightarrow> string result" where
  "read_container_id E =
     res_bind (ok_or (se_cidfile E) (sandbox_error ExecutionFailed ''Docker container ID was unavailable''))
       parse_container_id"

definition close_temporary :: "sandbox_env \<Rightarrow> string \<Rightarrow> unit sandbox_op" where
  \<comment> \<open>\<^verbatim>\<open>close\<close> consumes the value: when the removal fails its destructor tries once more\<close>
  "close_temporary E path =
     bnd (modify (\<lambda>s. s\<lparr>sb_closed := True\<rparr>)) (\<lambda>_.
     bnd (emit (RemoveTree path)) (\<lambda>_.
     if se_remove_ok E then ret ()
     else
       bnd (emit (RemoveTree path)) (\<lambda>_.
       fail_with (sandbox_error Io ''backend temporary directory cleanup failed''))))"

fun combine_cleanup :: "cleanup_status \<Rightarrow> unit result \<Rightarrow> cleanup_status" where
  "combine_cleanup CleanupSucceeded (Inr _) = CleanupSucceeded"
| "combine_cleanup (CleanupFailed c) _ = CleanupFailed c"
| "combine_cleanup CleanupSucceeded (Inl _) = CleanupFailed ''temporary.remove_failed''"

definition decode_output :: "string \<Rightarrow> string \<times> bool" where
  "decode_output bytes = (if valid_utf8 bytes then (bytes, False) else ([], True))"

text \<open>Destructors: the temporary directory, the container guard and the registration.\<close>

definition with_temporary :: "string \<Rightarrow> 'a sandbox_op \<Rightarrow> 'a sandbox_op" where
  "with_temporary path m s =
     (case m (s\<lparr>sb_closed := False\<rparr>) of
        (r, t) \<Rightarrow> (r, if sb_closed t then t else snd (emit (RemoveTree path) t)))"

definition with_guard :: "sandbox_env \<Rightarrow> string \<Rightarrow> 'a sandbox_op \<Rightarrow> 'a sandbox_op" where
  "with_guard E cid m s =
     (case m (s\<lparr>sb_cleaned := False\<rparr>) of
        (r, t) \<Rightarrow> (r, if sb_cleaned t then t else snd (guard_cleanup E cid t)))"

text \<open>
  A registration carries a fresh \<^verbatim>\<open>ActiveContainer\<close> whose confirmation is not set.
\<close>

definition with_registration :: "string \<Rightarrow> string \<Rightarrow> 'a sandbox_op \<Rightarrow> 'a sandbox_op" where
  "with_registration key cid m s =
     (if bm_contains (sb_active s) key
      then (Inl (sandbox_error InvalidStateTransition ''run already has an active sandbox''), s)
      else
        (case m (s\<lparr>sb_active := bm_insert key cid (sb_active s),
                    sb_confirmed := removeAll cid (sb_confirmed s)\<rparr>) of
           (r, t) \<Rightarrow> (r, t\<lparr>sb_active := bm_remove key (sb_active t)\<rparr>)))"

definition run_container ::
    "ext \<Rightarrow> sandbox_env \<Rightarrow> nat \<Rightarrow> string \<Rightarrow> sandbox_request \<Rightarrow> (termination_kind \<times> i32 option) option sandbox_op" where
  \<comment> \<open>\<open>None\<close> when the monitor is still going after the given number of rounds\<close>
  "run_container X E rounds cid request =
     bnd (invoke E (start_arguments cid)) (\<lambda>start.
     if \<not> co_success start then ret (Some (TermFailed, None))
     else
       let attached = (sc_stdin (sr_command request) \<noteq> [])
       in bnd (if attached then emit (CliRun (attach_arguments cid)) else ret ()) (\<lambda>_ s.
          case monitor_container X E cid attached rounds 0 False s of
            None \<Rightarrow> (Inr None, s)
          | Some (verdict, t) \<Rightarrow> (Inr (Some verdict), t)))"

definition fetch_logs :: "sandbox_env \<Rightarrow> string \<Rightarrow> cli_output sandbox_op" where
  "fetch_logs E cid s =
     (case invoke E (logs_arguments cid) s of
        (Inr output, t) \<Rightarrow> (Inr output, t)
      | (Inl _, t) \<Rightarrow> (Inr \<lparr>co_success = False, co_stdout = [], co_stderr = [], co_truncated = False\<rparr>, t))"

definition finish_container ::
    "sandbox_env \<Rightarrow> string \<Rightarrow> string \<Rightarrow> sandbox_request \<Rightarrow> termination_kind \<times> i32 option
      \<Rightarrow> sandbox_result sandbox_op" where
  \<comment> \<open>what follows the monitor\<close>
  "finish_container E cid directory request verdict =
     bnd (fetch_logs E cid) (\<lambda>logs.
     bnd (guard_cleanup E cid) (\<lambda>status.
     bnd (modify (\<lambda>s. s\<lparr>sb_cleaned := (status = CleanupSucceeded)\<rparr>)) (\<lambda>_.
     let outputs = collect_output_paths (se_tree E) (mount_path (sr_output_directory request));
         verdict = (case outputs of Inr _ \<Rightarrow> verdict | Inl _ \<Rightarrow> (TermFailed, None));
         paths = (case outputs of Inr ps \<Rightarrow> ps | Inl _ \<Rightarrow> [])
     in bnd (\<lambda>s. case close_temporary E directory s of (r, t) \<Rightarrow> (Inr r, t)) (\<lambda>closed.
        let status = combine_cleanup status closed;
            verdict = (if fst verdict = TermCancelled \<and> status \<noteq> CleanupSucceeded
                       then (TermFailed, None) else verdict);
            (stdout, stdout_invalid) = decode_output (co_stdout logs);
            (stderr, stderr_invalid) = decode_output (co_stderr logs);
            res = \<lparr>sx_schema_version = SchemaVersion, sx_run_id = sr_run_id request, sx_sandbox_id = cid,
                   sx_termination = fst verdict, sx_exit_code = snd verdict, sx_stdout = stdout,
                   sx_stderr = stderr,
                   sx_truncated = co_truncated logs \<or> stdout_invalid \<or> stderr_invalid,
                   sx_started_at = se_started_at E, sx_completed_at = se_completed_at E,
                   sx_output_paths = paths, sx_cleanup = status\<rparr>
        in bnd (lift_res (validate_sandbox_result res)) (\<lambda>_. ret res)))))"

definition guarded_execution ::
    "ext \<Rightarrow> sandbox_env \<Rightarrow> nat \<Rightarrow> string \<Rightarrow> string \<Rightarrow> sandbox_request \<Rightarrow> cli_output result
      \<Rightarrow> sandbox_result option sandbox_op" where
  \<comment> \<open>what the container guard protects\<close>
  "guarded_execution X E rounds cid directory request created =
     bnd (lift_res created) (\<lambda>output.
     if \<not> co_success output
     then fail_with (sandbox_error ExecutionFailed ''Container creation failed'')
     else
       with_registration (run_key X (sr_run_id request)) cid
         (bnd (run_container X E rounds cid request) (\<lambda>verdict.
          case verdict of
            None \<Rightarrow> ret None
          | Some v \<Rightarrow> bnd (finish_container E cid directory request v) (\<lambda>res. ret (Some res)))))"

definition execute_inner ::
    "ext \<Rightarrow> sandbox_env \<Rightarrow> nat \<Rightarrow> sandbox_request \<Rightarrow> sandbox_result option sandbox_op" where
  "execute_inner X E rounds request =
     bnd (lift_res (validate_mount (tv_metadata (se_tree E)) (mount_path (sr_input_directory request)))) (\<lambda>_.
     bnd (lift_res (validate_mount (tv_metadata (se_tree E)) (mount_path (sr_output_directory request)))) (\<lambda>_.
     bnd (create_temporary E) (\<lambda>directory.
     with_temporary directory
       (bnd (write_environment E directory (sc_environment (sr_command request))) (\<lambda>environment_file.
        bnd (lift_res (create_arguments request (path_join directory ''runtime'')
          (path_join directory ''container.id'') environment_file)) (\<lambda>args.
        bnd (\<lambda>s. case invoke E args s of (r, t) \<Rightarrow> (Inr r, t)) (\<lambda>created.
        case read_container_id E of
          Inl e \<Rightarrow> fail_with (case created of Inl e' \<Rightarrow> e' | Inr _ \<Rightarrow> e)
        | Inr cid \<Rightarrow> with_guard E cid (guarded_execution X E rounds cid directory request created))))))))"

end
