(* ===== verification/Sandbox_Limits.thy ===== *)
theory Sandbox_Limits
  imports Sandbox
begin

text \<open>
  The static limits of the sandbox: the options every container is created with, the environment file,
  the outputs collected from the output directory, and the budget and timeout of one engine command.
\<close>

section \<open>Engine commands\<close>

definition captured :: "bool \<Rightarrow> (bool \<times> string) list \<Rightarrow> string" where
  \<comment> \<open>everything one of the two streams delivered\<close>
  "captured from_stdout chunks = concat (map snd (filter (\<lambda>c. fst c = from_stdout) chunks))"

definition delivered :: "(bool \<times> string) list \<Rightarrow> nat" where
  "delivered chunks = sum_list (map (length \<circ> snd) chunks)"

definition captured_from :: "capture \<Rightarrow> (bool \<times> string) list \<Rightarrow> capture \<Rightarrow> bool" where
  \<comment> \<open>what the budget holds after it was offered the chunks\<close>
  "captured_from b chunks b' =
     (length (cb_stdout b') + length (cb_stderr b') + cb_remaining b'
        = length (cb_stdout b) + length (cb_stderr b) + cb_remaining b
      \<and> (cb_truncated b' \<longleftrightarrow> cb_truncated b \<or> cb_remaining b < delivered chunks)
      \<and> prefix (cb_stdout b') (cb_stdout b @ captured True chunks)
      \<and> prefix (cb_stderr b') (cb_stderr b @ captured False chunks)
      \<and> (cb_remaining b < delivered chunks
         \<or> (cb_stdout b' = cb_stdout b @ captured True chunks \<and> cb_stderr b' = cb_stderr b @ captured False chunks)))"

lemma capture_chunk_fields:
  "cb_remaining (capture_chunk out chunk b) = cb_remaining b - length chunk"
  "cb_truncated (capture_chunk out chunk b) \<longleftrightarrow> cb_truncated b \<or> cb_remaining b < length chunk"
  "cb_stdout (capture_chunk out chunk b) = cb_stdout b @ (if out then take (cb_remaining b) chunk else [])"
  "cb_stderr (capture_chunk out chunk b) = cb_stderr b @ (if out then [] else take (cb_remaining b) chunk)"
  by (auto simp: capture_chunk_def Let_def min_def)

lemma captured_simps [simp]:
  "captured out [] = []"
  "captured out (c # chunks) = (if fst c = out then snd c else []) @ captured out chunks"
  "delivered [] = 0"
  "delivered (c # chunks) = length (snd c) + delivered chunks"
  by (auto simp: captured_def delivered_def)

lemma prefix_take: "prefix (take n ys) (ys @ zs)"
  by (metis prefix_order.trans prefixI take_is_prefix)

lemma capture_full:
  "cb_remaining b = 0 \<Longrightarrow> b' = fold (\<lambda>(out, chunk). capture_chunk out chunk) chunks b \<Longrightarrow>
     cb_remaining b' = 0 \<and> cb_stdout b' = cb_stdout b \<and> cb_stderr b' = cb_stderr b
     \<and> (cb_truncated b' \<longleftrightarrow> cb_truncated b \<or> 0 < delivered chunks)"
  by (induction chunks arbitrary: b) (auto simp: capture_chunk_fields)

lemma capture_fold: "captured_from b chunks (fold (\<lambda>(out, chunk). capture_chunk out chunk) chunks b)"
proof (induction chunks arbitrary: b)
  case (Cons c chunks)
  obtain out chunk where c: "c = (out, chunk)" by (cases c)
  let ?b = "capture_chunk out chunk b"
  show ?case
  proof (cases "length chunk \<le> cb_remaining b")
    case True
    then show ?thesis
      using Cons.IH [of ?b]
      by (cases out) (auto simp: c captured_from_def capture_chunk_fields)
  next
    case False
    then have "cb_remaining ?b = 0" by (simp add: capture_chunk_fields)
    from capture_full [OF this refl, of chunks] False show ?thesis
      by (auto simp: c captured_from_def capture_chunk_fields prefix_take)
  qed
qed (simp add: captured_from_def)

definition releases :: "cli_process \<Rightarrow> bool" where
  \<comment> \<open>a killed child is reaped, and no process keeps a pipe of the call open\<close>
  "releases P = (cp_reaped P \<and> cp_stdout_end P \<noteq> ReaderBlocked \<and> cp_stderr_end P \<noteq> ReaderBlocked)"

lemma join_reader_cases:
  "join_reader e x = Some (Inr y) \<longleftrightarrow> e = ReaderDone \<and> y = x"
  "join_reader e x = None \<longleftrightarrow> e = ReaderBlocked"
  by (cases e; auto)+

lemma stop_child_ends: "releases P \<Longrightarrow> stop_child P err = Some (Inl err)"
  by (simp add: stop_child_def releases_def join_reader_cases)

lemma wait_loop_ends:
  "releases P \<Longrightarrow> cp_elapsed P (m + k) \<Longrightarrow> \<exists>r. wait_loop program P (Suc k) m = Some r"
proof (induction k arbitrary: m)
  case (Suc k)
  then show ?case using Suc.IH [of "Suc m"] by (auto simp: stop_child_ends split: wait_poll.splits)
qed (auto simp: stop_child_ends split: wait_poll.splits)

lemma system_cli_run_ends:
  assumes "releases P" and "cp_elapsed P n"
  shows "\<exists>r. system_cli_run program limit P (Suc n) = Some r"
proof -
  obtain w where "wait_loop program P (Suc n) 0 = Some w"
    using wait_loop_ends [OF assms(1), of 0 n program] assms(2) by auto
  then show ?thesis
    using assms(1)
    by (auto simp del: wait_loop.simps simp: system_cli_run_def Let_def releases_def join_reader_cases
        split: option.splits sum.splits)
qed

lemma system_cli_run_output:
  assumes "system_cli_run program limit P polls = Some (Inr out)"
  shows "co_stdout out = cb_stdout (capture_all limit (cp_chunks P)) \<and> co_stderr out = cb_stderr (capture_all limit (cp_chunks P))
    \<and> co_truncated out = cb_truncated (capture_all limit (cp_chunks P))"
  using assms
  by (auto simp: system_cli_run_def Let_def join_reader_cases split: if_splits option.splits sum.splits)

text \<open>
  C26. One engine command is bounded in memory and, unless the operating system keeps it waiting, in
  time. Whatever a call hands out of the two streams together is no longer than the limit, a prefix of
  what each stream delivered, complete unless it is marked as truncated, and marked exactly when more
  was delivered than the limit allows. And if a killed child is reaped and no process keeps the output
  pipes open, the call returns once the timeout has passed after poll \<open>n\<close>.
\<close>

theorem cli_call_is_bounded:
  "(system_cli_run program limit P polls = Some (Inr out) \<longrightarrow>
       length (co_stdout out) + length (co_stderr out) \<le> unat limit
       \<and> prefix (co_stdout out) (captured True (cp_chunks P))
       \<and> prefix (co_stderr out) (captured False (cp_chunks P))
       \<and> (co_truncated out \<longleftrightarrow> unat limit < delivered (cp_chunks P))
       \<and> (co_truncated out \<or> co_stdout out = captured True (cp_chunks P)
            \<and> co_stderr out = captured False (cp_chunks P)))
   \<and> (cp_reaped P \<and> cp_stdout_end P \<noteq> ReaderBlocked \<and> cp_stderr_end P \<noteq> ReaderBlocked \<and> cp_elapsed P n \<longrightarrow>
       (\<exists>r. system_cli_run program limit P (Suc n) = Some r))"
proof -
  have b: "captured_from (new_capture limit) (cp_chunks P) (capture_all limit (cp_chunks P))"
    unfolding capture_all_def by (rule capture_fold)
  show ?thesis
    using b system_cli_run_output [of program limit P polls out] system_cli_run_ends [of P n program limit]
    by (auto simp: captured_from_def new_capture_def releases_def)
qed

text \<open>The timeout does not bound a call whose output pipe a descendant of the child keeps open.\<close>

lemma held_pipe_blocks:
  assumes "cp_spawned P" and "cp_pipes P" and "cp_stdout_end P = ReaderBlocked"
  shows "system_cli_run program limit P polls = None"
proof -
  have "wait_loop program P polls n \<noteq> Some (Inl err)" for n err
    by (induction polls arbitrary: n) (auto simp: stop_child_def assms(3) split: wait_poll.splits)
  then show ?thesis using assms by (auto simp: system_cli_run_def Let_def split: option.splits sum.splits)
qed

section \<open>Hardening of the created container\<close>

text \<open>
  How the engine reads the arguments of its \<^verbatim>\<open>create\<close> command: \<^verbatim>\<open>--read-only\<close> and \<^verbatim>\<open>-i\<close> stand alone, any
  other word with a leading dash is an option and takes the next word, and the first word without a
  dash is the image, followed by the command the container runs.
\<close>

fun read_options :: "string list \<Rightarrow> (string \<times> string) list \<times> string list" where
  "read_options (a # v # rest) =
     (if a = ''--read-only'' \<or> a = ''-i''
      then (case read_options (v # rest) of (opts, cmd) \<Rightarrow> ((a, []) # opts, cmd))
      else if starts_with a ''-''
      then (case read_options rest of (opts, cmd) \<Rightarrow> ((a, v) # opts, cmd))
      else ([], a # v # rest))"
| "read_options rest = ([], rest)"

definition option_values :: "(string \<times> string) list \<Rightarrow> string \<Rightarrow> string list" where
  "option_values opts key = map snd (filter (\<lambda>p. fst p = key) opts)"

definition read_decimal :: "string \<Rightarrow> nat" where
  "read_decimal s = foldl (\<lambda>n c. 10 * n + (of_char c - 48)) 0 s"

lemma read_decimal_decimal [simp]: "read_decimal (decimal n) = n"
proof (induction n rule: decimal.induct)
  case (1 n)
  have d: "of_char (digit_char k) - 48 = k" if "k < 10" for k :: nat
    using that by (simp add: digit_char_def of_char_of)
  show ?case
  proof (cases "n < 10")
    case True
    then show ?thesis by (subst decimal.simps) (simp add: read_decimal_def d)
  next
    case False
    with 1 d [of "n mod 10"] show ?thesis by (subst decimal.simps) (simp add: read_decimal_def)
  qed
qed

lemma mount_fields:
  assumes "mount_argument source target ro = Inr m" and "CHR '','' \<notin> set target"
  shows "split_on CHR '','' m
    = [''type=bind'', ''src='' @ source, ''dst='' @ target] @ (if ro then [''readonly''] else [])"
proof -
  from assms have n: "CHR '','' \<notin> set source"
    and m: "m = ''type=bind'' @ CHR '','' # (''src='' @ source) @ CHR '','' # (''dst='' @ target)
      @ (if ro then CHR '','' # ''readonly'' else [])"
    by (auto simp: mount_argument_def split: if_splits)
  have "split_on CHR '','' ((''dst='' @ target) @ (if ro then CHR '','' # ''readonly'' else []))
      = (''dst='' @ target) # (if ro then [''readonly''] else [])"
    using split_on_append [of "CHR '',''" "''dst='' @ target" "''readonly''"]
      split_on_single [of "CHR '',''" "''dst='' @ target"] assms(2) by auto
  then show ?thesis
    using n assms(2) split_on_single [of "CHR '',''" "''src='' @ source"] unfolding m split_on_append by simp
qed

lemma read_options_pairs:
  "list_all (\<lambda>(k, v). starts_with k ''-'' \<and> k \<noteq> ''--read-only'' \<and> k \<noteq> ''-i'') ps \<Longrightarrow>
   read_options (concat (map (\<lambda>(k, v). [k, v]) ps) @ rest) = (ps @ fst (read_options rest), snd (read_options rest))"
  by (induction ps) (auto split: prod.splits)

lemma read_options_command: "\<not> starts_with a ''-'' \<Longrightarrow> read_options (a # v # rest) = ([], a # v # rest)"
  by (auto simp: starts_with_def)

definition create_options :: "sandbox_request \<Rightarrow> string \<Rightarrow> string \<Rightarrow> string \<Rightarrow> string \<Rightarrow> string \<Rightarrow> (string \<times> string) list" where
  \<comment> \<open>the pairs that \<^verbatim>\<open>push_pair\<close> adds\<close>
  "create_options request cidfile environment_file input output temporary =
     [(''--network'', case sr_network request of NetDisabled \<Rightarrow> ''none'' | NetRestricted name \<Rightarrow> network_str name),
      (''--cap-drop'', ''ALL''), (''--security-opt'', ''no-new-privileges''),
      (''--user'', decimal (unat (su_uid (sr_user request))) @ '':'' @ decimal (unat (su_gid (sr_user request)))),
      (''--cpu-period'', ''100000''),
      (''--cpu-quota'', decimal (min (unat (sl_cpu_millis (sr_limits request)) * 100) (2 ^ 64 - 1))),
      (''--memory'', decimal (unat (sl_memory_bytes (sr_limits request)))),
      (''--pids-limit'', decimal (unat (sl_pid_limit (sr_limits request)))),
      (''--workdir'', ''/workspace''), (''--cidfile'', cidfile), (''--env-file'', environment_file),
      (''--mount'', input), (''--mount'', output), (''--mount'', temporary),
      (''--tmpfs'', ''/tmp:rw,noexec,nosuid,nodev,size=67108864'')]"

lemma create_arguments_shape:
  assumes "create_arguments request runtime_path cidfile environment_file = Inr args"
  shows "\<exists>input output temporary.
    mount_argument (mount_path (sr_input_directory request)) ''/workspace/input'' True = Inr input
    \<and> mount_argument (mount_path (sr_output_directory request)) ''/workspace/output'' False = Inr output
    \<and> mount_argument runtime_path ''/workspace/tmp'' False = Inr temporary
    \<and> args = ''create'' # ''--read-only''
        # concat (map (\<lambda>(k, v). [k, v]) (create_options request cidfile environment_file input output temporary))
        @ (if sc_stdin (sr_command request) \<noteq> [] then [''-i''] else [])
        @ image_str (sr_image request) # sc_program (sr_command request) # sc_arguments (sr_command request)"
  using assms
  by (clarsimp simp: create_arguments_def engine_create_arguments_def create_options_def Let_def res_simps)

lemma create_options_read:
  assumes "\<not> starts_with img ''-''"
  shows "read_options (''--read-only'' # concat (map (\<lambda>(k, v). [k, v]) (create_options request c e i out t))
      @ (if stdin then [''-i''] else []) @ img # program # arguments)
    = ((''--read-only'', []) # create_options request c e i out t @ (if stdin then [(''-i'', [])] else []),
       img # program # arguments)"
proof -
  let ?ps = "create_options request c e i out t"
  let ?rest = "(if stdin then [''-i''] else []) @ img # program # arguments"
  have "read_options ?rest = (if stdin then [(''-i'', [])] else [], img # program # arguments)"
    using read_options_command [OF assms, of program arguments] by simp
  moreover have "list_all (\<lambda>(k, v). starts_with k ''-'' \<and> k \<noteq> ''--read-only'' \<and> k \<noteq> ''-i'') ?ps"
    by (simp add: create_options_def starts_with_def)
  moreover obtain k v more where "concat (map (\<lambda>(k, v). [k, v]) ?ps) @ ?rest = k # v # more"
    by (simp add: create_options_def)
  ultimately show ?thesis
    using read_options_pairs [of ?ps ?rest] by simp
qed

definition safe_options :: "string list" where
  "safe_options =
     [''--read-only'', ''--network'', ''--cap-drop'', ''--security-opt'', ''--user'', ''--cpu-period'',
      ''--cpu-quota'', ''--memory'', ''--pids-limit'', ''--workdir'', ''--cidfile'', ''--env-file'', ''--mount'',
      ''--tmpfs'', ''-i'']"

lemma create_options_safe: "fst ` set (create_options request c e i out t) \<subseteq> set safe_options"
  by (simp add: create_options_def safe_options_def)

lemma option_values_append: "option_values (xs @ ys) key = option_values xs key @ option_values ys key"
  by (simp add: option_values_def)

lemma create_options_values:
  fixes request c e i out t
  defines "v \<equiv> option_values (create_options request c e i out t)"
  shows "v ''--cap-drop'' = [''ALL'']" "v ''--security-opt'' = [''no-new-privileges'']"
    "v ''--network'' = [case sr_network request of NetDisabled \<Rightarrow> ''none'' | NetRestricted n \<Rightarrow> network_str n]"
    "v ''--memory'' = [decimal (unat (sl_memory_bytes (sr_limits request)))]"
    "v ''--pids-limit'' = [decimal (unat (sl_pid_limit (sr_limits request)))]"
    "v ''--mount'' = [i, out, t]"
  by (simp_all add: v_def create_options_def option_values_def)

text \<open>
  C17. Every container is created hardened, and nothing in the request can add an option: for a request
  with a pinned image the engine reads the command line as options from a fixed list, the image and
  the requested command. The root file system is read-only, all capabilities are dropped, privileges
  cannot be gained, the network is off unless the request names one, memory and process limits are the
  requested ones, and there are exactly three mounts, whose fields no path can extend, the input one
  being read-only.
\<close>

theorem container_is_hardened:
  assumes "create_arguments request runtime_path cidfile environment_file = Inr args"
    and "is_digest_pinned_image (image_str (sr_image request))"
  shows "\<exists>rest opts. args = ''create'' # rest
    \<and> read_options rest = (opts, image_str (sr_image request) # sc_program (sr_command request)
        # sc_arguments (sr_command request))
    \<and> fst ` set opts \<subseteq> set safe_options \<and> (''--read-only'', []) \<in> set opts
    \<and> option_values opts ''--cap-drop'' = [''ALL''] \<and> option_values opts ''--security-opt'' = [''no-new-privileges'']
    \<and> option_values opts ''--network'' = [case sr_network request of NetDisabled \<Rightarrow> ''none'' | NetRestricted n \<Rightarrow> network_str n]
    \<and> map read_decimal (option_values opts ''--memory'') = [unat (sl_memory_bytes (sr_limits request))]
    \<and> map read_decimal (option_values opts ''--pids-limit'') = [unat (sl_pid_limit (sr_limits request))]
    \<and> map (split_on CHR '','') (option_values opts ''--mount'') =
        [[''type=bind'', ''src='' @ mount_path (sr_input_directory request), ''dst=/workspace/input'', ''readonly''],
         [''type=bind'', ''src='' @ mount_path (sr_output_directory request), ''dst=/workspace/output''],
         [''type=bind'', ''src='' @ runtime_path, ''dst=/workspace/tmp'']]"
proof -
  let ?in = "sc_stdin (sr_command request) \<noteq> []"
  from create_arguments_shape [OF assms(1)] obtain i out t where
    m: "mount_argument (mount_path (sr_input_directory request)) ''/workspace/input'' True = Inr i"
      "mount_argument (mount_path (sr_output_directory request)) ''/workspace/output'' False = Inr out"
      "mount_argument runtime_path ''/workspace/tmp'' False = Inr t"
    and args: "args = ''create'' # ''--read-only''
        # concat (map (\<lambda>(k, v). [k, v]) (create_options request cidfile environment_file i out t))
        @ (if ?in then [''-i''] else [])
        @ image_str (sr_image request) # sc_program (sr_command request) # sc_arguments (sr_command request)"
    by blast
  let ?ps = "create_options request cidfile environment_file i out t"
  let ?opts = "(''--read-only'', []) # ?ps @ (if ?in then [(''-i'', [])] else [])"
  have vals: "option_values ?opts key = option_values ?ps key"
    if "key \<in> {''--cap-drop'', ''--security-opt'', ''--network'', ''--memory'', ''--pids-limit'', ''--mount''}" for key
    using that by (auto simp: option_values_def)
  have "\<not> starts_with (image_str (sr_image request)) ''-''"
    using assms(2) unfolding is_digest_pinned_image_def by meson
  note r = create_options_read [OF this, of request cidfile environment_file i out t ?in
    "sc_program (sr_command request)" "sc_arguments (sr_command request)"]
  have safe: "fst ` set ?opts \<subseteq> set safe_options"
    using create_options_safe [of request cidfile environment_file i out t] by (auto simp: safe_options_def)
  have f: "split_on CHR '','' i = [''type=bind'', ''src='' @ mount_path (sr_input_directory request),
        ''dst=/workspace/input'', ''readonly'']"
      "split_on CHR '','' out = [''type=bind'', ''src='' @ mount_path (sr_output_directory request), ''dst=/workspace/output'']"
      "split_on CHR '','' t = [''type=bind'', ''src='' @ runtime_path, ''dst=/workspace/tmp'']"
    using mount_fields [OF m(1)] mount_fields [OF m(2)] mount_fields [OF m(3)] by simp_all
  show ?thesis
    by (intro exI [of _ "tl args"] exI [of _ ?opts] conjI)
      (simp_all only: args list.sel r safe vals insert_iff simp_thms create_options_values list.map
        read_decimal_decimal f, simp_all)
qed

section \<open>The environment file\<close>

fun split_assignment :: "string \<Rightarrow> string \<times> string" where
  "split_assignment [] = ([], [])"
| "split_assignment (c # s) =
     (if c = CHR ''='' then ([], s) else (case split_assignment s of (k, v) \<Rightarrow> (c # k, v)))"

definition read_environment :: "string \<Rightarrow> (string \<times> string) list" where
  \<comment> \<open>how the engine reads the file: one assignment a line, split at its first equals sign\<close>
  "read_environment text = map split_assignment (butlast (split_on CHR 0x0A text))"

lemma split_assignment_key: "CHR ''='' \<notin> set k \<Longrightarrow> split_assignment (k @ CHR ''='' # v) = (k, v)"
  by (induction k) auto

lemma environment_text_shape:
  assumes "environment_text env written = Inr text"
  shows "text = written @ concat (map (\<lambda>(k, v). k @ ''='' @ v @ [CHR 0x0A]) env)
    \<and> (\<forall>(k, v) \<in> set env. CHR 0x0A \<notin> set v)"
  using assms
  by (induction env written rule: environment_text.induct) (auto split: if_splits)

lemma environment_name_chars:
  assumes "valid_environment_name k" and "c \<in> set k"
  shows "c \<noteq> CHR ''='' \<and> c \<noteq> CHR 0x0A"
proof -
  have "is_ascii_uppercase c \<or> is_ascii_digit c \<or> c = CHR ''_''"
    using assms by (cases k) (auto simp: valid_environment_name_def list_all_iff split: if_splits)
  then show ?thesis by (auto simp: is_ascii_uppercase_def is_ascii_digit_def byte_def)
qed

lemma environment_lines:
  assumes "\<forall>(k, v) \<in> set env. CHR 0x0A \<notin> set v \<and> valid_environment_name k"
  shows "butlast (split_on CHR 0x0A (concat (map (\<lambda>(k, v). k @ ''='' @ v @ [CHR 0x0A]) env)))
      = map (\<lambda>(k, v). k @ ''='' @ v) env"
  using assms
proof (induction env)
  case (Cons e env)
  obtain k v where e: "e = (k, v)" by (cases e)
  let ?line = "k @ ''='' @ v"
  have "CHR 0x0A \<notin> set ?line" using Cons.prems environment_name_chars by (auto simp: e)
  then have "split_on CHR 0x0A (?line @ CHR 0x0A # r) = ?line # split_on CHR 0x0A r" for r
    unfolding split_on_append by (simp add: split_on_single)
  with Cons show ?case by (simp add: e)
qed simp

text \<open>
  The environment file carries exactly the environment: whenever the file is written for a command
  whose names passed the contract, reading it line by line gives back the same names and values in the
  same order, so no value can smuggle in another variable.
\<close>

theorem environment_file_roundtrip:
  assumes "environment_text env [] = Inr text"
    and "list_all (\<lambda>(k, v). valid_environment_name k) env"
  shows "read_environment text = env"
proof -
  have ok: "\<forall>(k, v) \<in> set env. CHR 0x0A \<notin> set v \<and> valid_environment_name k"
    using assms environment_text_shape by (fastforce simp: list_all_iff)
  then have "\<forall>(k, v) \<in> set env. split_assignment (k @ ''='' @ v) = (k, v)"
    using environment_name_chars by (force simp: split_assignment_key)
  with environment_lines [OF ok] environment_text_shape [OF assms(1)] show ?thesis
    by (force simp: read_environment_def intro!: map_idI)
qed

section \<open>Collected outputs\<close>

definition directory_at :: "tree_view \<Rightarrow> string \<Rightarrow> bool" where
  "directory_at V p = (case tv_metadata V p of None \<Rightarrow> False | Some m \<Rightarrow> \<not> dm_symlink m \<and> dm_dir m)"

definition regular_at :: "tree_view \<Rightarrow> string \<Rightarrow> bool" where
  "regular_at V p = (case tv_metadata V p of None \<Rightarrow> False | Some m \<Rightarrow> \<not> dm_symlink m \<and> \<not> dm_dir m \<and> dm_file m)"

definition entry_paths :: "tree_view \<Rightarrow> string \<Rightarrow> string list" where
  "entry_paths V d =
     (case tv_read_dir V d of None \<Rightarrow> [] | Some entries \<Rightarrow> map (\<lambda>e. path_join d (the e)) entries)"

inductive in_tree :: "tree_view \<Rightarrow> string \<Rightarrow> string \<Rightarrow> bool" for V where
  here: "in_tree V d d"
| down: "d' \<in> set (entry_paths V d) \<Longrightarrow> directory_at V d' \<Longrightarrow> in_tree V d' e \<Longrightarrow> in_tree V d e"

lemma in_tree_set:
  "{e. in_tree V d e} = insert d (\<Union>d' \<in> {p \<in> set (entry_paths V d). directory_at V p}. {e. in_tree V d' e})"
  by (auto intro: in_tree.intros elim: in_tree.cases)

lemma collect_entries_ok:
  assumes "collect_entries V root d entries dirs out seen = Inr (dirs', out', seen')"
  shows "dirs' = rev (filter (directory_at V) (map (\<lambda>e. path_join d (the e)) entries)) @ dirs
    \<and> (\<exists>new. out' = out @ new
         \<and> map (\<lambda>q. Some (path_str q)) new = map (strip_root root) (filter (regular_at V) (map (\<lambda>e. path_join d (the e)) entries))
         \<and> (\<forall>p \<in> set new. parse_rel_path (path_str p) = Inr p))
    \<and> (\<forall>p \<in> set (map (\<lambda>e. path_join d (the e)) entries). directory_at V p \<or> regular_at V p)"
  using assms
proof (induction entries arbitrary: dirs out seen)
  case (Cons entry entries)
  from Cons.prems obtain name m where e: "entry = Some name"
    and m: "tv_metadata V (path_join d name) = Some m" "\<not> dm_symlink m" "dm_dir m \<or> dm_file m"
    by (auto simp: res_simps Let_def split: if_splits)
  show ?case
  proof (cases "dm_dir m")
    case True
    with Cons.prems e m have
      "collect_entries V root d entries (path_join d name # dirs) out (seen + 1) = Inr (dirs', out', seen')"
      by (auto simp: res_simps Let_def split: if_splits)
    from Cons.IH [OF this] True m e show ?thesis by (auto simp: directory_at_def regular_at_def)
  next
    case False
    with Cons.prems e m obtain rel p where
      r: "strip_root root (path_join d name) = Some rel" "parse_rel_path rel = Inr p"
      and rest: "collect_entries V root d entries dirs (out @ [p]) (seen + 1) = Inr (dirs', out', seen')"
      by (auto simp: res_simps Let_def split: if_splits)
    from Cons.IH [OF rest] obtain new where
      "out' = out @ p # new" "dirs' = rev (filter (directory_at V) (map (\<lambda>e. path_join d (the e)) entries)) @ dirs"
      "map (\<lambda>q. Some (path_str q)) new = map (strip_root root) (filter (regular_at V) (map (\<lambda>e. path_join d (the e)) entries))"
      "\<forall>p \<in> set new. parse_rel_path (path_str p) = Inr p"
      "\<forall>p \<in> set (map (\<lambda>e. path_join d (the e)) entries). directory_at V p \<or> regular_at V p" by auto
    moreover have "\<not> directory_at V (path_join d name)" "regular_at V (path_join d name)"
      using False m by (auto simp: directory_at_def regular_at_def)
    ultimately show ?thesis
      using e r rel_path_text [OF r(2)] by (intro conjI exI [of _ "p # new"]) auto
  qed
qed simp

definition tree_below :: "tree_view \<Rightarrow> string set \<Rightarrow> string set" where
  "tree_below V ds = (\<Union>d0 \<in> ds. {d. in_tree V d0 d})"

definition tree_files :: "tree_view \<Rightarrow> string \<Rightarrow> string set \<Rightarrow> string option set" where
  \<comment> \<open>the regular files below some directories, relative to the root\<close>
  "tree_files V root ds =
     (\<Union>d \<in> tree_below V ds. strip_root root ` {p \<in> set (entry_paths V d). regular_at V p})"

definition tree_plain :: "tree_view \<Rightarrow> string set \<Rightarrow> bool" where
  \<comment> \<open>no symbolic link and no special file below the directories\<close>
  "tree_plain V ds =
     (\<forall>d \<in> tree_below V ds. \<forall>p \<in> set (entry_paths V d). directory_at V p \<or> regular_at V p)"

lemma tree_below_step:
  "tree_below V (insert d ds) = insert d (tree_below V ({p \<in> set (entry_paths V d). directory_at V p} \<union> ds))"
  unfolding tree_below_def UN_insert in_tree_set [of V d] UN_Un by simp

lemma tree_files_step:
  "tree_files V root (insert d ds)
     = strip_root root ` {p \<in> set (entry_paths V d). regular_at V p}
       \<union> tree_files V root ({p \<in> set (entry_paths V d). directory_at V p} \<union> ds)"
  unfolding tree_files_def tree_below_step UN_insert by (rule refl)

lemma tree_plain_step:
  "tree_plain V (insert d ds)
     \<longleftrightarrow> (\<forall>p \<in> set (entry_paths V d). directory_at V p \<or> regular_at V p)
       \<and> tree_plain V ({p \<in> set (entry_paths V d). directory_at V p} \<union> ds)"
  unfolding tree_plain_def tree_below_step ball_simps by (rule refl)

lemma collect_dirs_ok:
  assumes "collect_dirs V root dirs out seen = Inr res"
  shows "(\<lambda>q. Some (path_str q)) ` set res = (\<lambda>q. Some (path_str q)) ` set out \<union> tree_files V root (set dirs)
    \<and> tree_plain V (set dirs) \<and> (length out \<le> 1024 \<longrightarrow> length res \<le> 1024)
    \<and> ((\<forall>p \<in> set out. parse_rel_path (path_str p) = Inr p) \<longrightarrow> (\<forall>p \<in> set res. parse_rel_path (path_str p) = Inr p))"
  using assms
proof (induction V root dirs out seen rule: collect_dirs.induct)
  case (1 V root dirs out seen)
  show ?case
  proof (cases dirs)
    case Nil
    with "1.prems" show ?thesis
      by (subst (asm) collect_dirs.simps) (simp add: tree_files_def tree_plain_def tree_below_def)
  next
    case (Cons d rest)
    with "1.prems" obtain entries dirs' out' seen' where e: "tv_read_dir V d = Some entries"
      and c: "collect_entries V root d entries rest out seen = Inr (dirs', out', seen')"
      and r: "collect_dirs V root dirs' out' seen' = Inr res"
      by (subst (asm) collect_dirs.simps) (auto split: option.splits sum.splits)
    note IH = "1.IH" [OF Cons e c refl refl r]
    have ps: "map (\<lambda>e. path_join d (the e)) entries = entry_paths V d" by (simp add: entry_paths_def e)
    from collect_entries_ok [OF c, unfolded ps] obtain new where
      k: "dirs' = rev (filter (directory_at V) (entry_paths V d)) @ rest" "out' = out @ new"
        "map (\<lambda>q. Some (path_str q)) new = map (strip_root root) (filter (regular_at V) (entry_paths V d))"
        "\<forall>p \<in> set new. parse_rel_path (path_str p) = Inr p"
        "\<forall>p \<in> set (entry_paths V d). directory_at V p \<or> regular_at V p" by blast
    have "(\<lambda>q. Some (path_str q)) ` set new = strip_root root ` {p \<in> set (entry_paths V d). regular_at V p}"
      using arg_cong [OF k(3), of set] by simp
    moreover have "set dirs' = {p \<in> set (entry_paths V d). directory_at V p} \<union> set rest" using k(1) by auto
    moreover have "length out \<le> 1024 \<longrightarrow> length out' \<le> 1024" using collect_entries_bounds [OF c] by blast
    ultimately show ?thesis
      using IH k(2,4,5) tree_files_step [of V root d "set rest"] tree_plain_step [of V d "set rest"]
      by (simp add: Cons image_Un Un_assoc ball_Un)
  qed
qed

text \<open>
  The collected outputs are exactly the files of the output tree: when the collection succeeds, it
  lists the path of every regular file below the output directory relative to it and of nothing else,
  each one a valid artifact path, in order and at most 1024 of them; and the tree then holds no
  symbolic link and no special file at any depth.
\<close>

theorem collected_outputs_are_exact:
  assumes "collect_output_paths V root = Inr paths"
  shows "(\<lambda>q. Some (path_str q)) ` set paths = tree_files V root {root} \<and> tree_plain V {root}
    \<and> sorted (map path_str paths) \<and> length paths \<le> 1024
    \<and> (\<forall>p \<in> set paths. parse_rel_path (path_str p) = Inr p)"
proof -
  from assms obtain out where "collect_dirs V root [root] [] 0 = Inr out" and p: "paths = sort_key path_str out"
    by (auto simp: collect_output_paths_def res_simps)
  from collect_dirs_ok [OF this(1)] show ?thesis by (simp add: p)
qed

end
