(* ===== verification/Sandbox_Properties.thy ===== *)
theory Sandbox_Properties
  imports Sandbox
begin

text \<open>
  What the sandbox guarantees: the hardening of every container it creates, the removal of container
  and temporary directory on every path, the meaning of a cancelled result, the end of the monitor at
  its deadline, and the bounds of outputs and captured text.
\<close>

section \<open>Traces only grow\<close>

definition after_trace :: "effect list \<Rightarrow> sandbox_state \<Rightarrow> bool" where
  "after_trace tr s = prefix tr (sb_trace s)"

definition did :: "effect list \<Rightarrow> effect \<Rightarrow> sandbox_state \<Rightarrow> bool" where
  \<comment> \<open>the effect happened after the given trace\<close>
  "did tr e s = (prefix tr (sb_trace s) \<and> e \<in> set (drop (length tr) (sb_trace s)))"

text \<open>A predicate of the trace and of nothing else, which later effects do not undo.\<close>

definition monotone_trace :: "(sandbox_state \<Rightarrow> bool) \<Rightarrow> bool" where
  "monotone_trace P = (\<forall>s t. P s \<longrightarrow> prefix (sb_trace s) (sb_trace t) \<longrightarrow> P t)"

lemma monotone_after: "monotone_trace (after_trace tr)"
  by (auto simp: monotone_trace_def after_trace_def intro: prefix_order.trans)

lemma monotone_did: "monotone_trace (did tr e)"
  by (auto simp: monotone_trace_def did_def elim!: prefixE)

lemma did_after: "did tr e s \<Longrightarrow> after_trace tr s"
  by (simp add: did_def after_trace_def)

lemma did_append: "after_trace tr s \<Longrightarrow> sb_trace t = sb_trace s @ [e] @ xs \<Longrightarrow> did tr e t"
  by (auto simp: did_def after_trace_def elim!: prefixE)

text \<open>Every operation extends the trace; the flags of an execution change only where it sets them.\<close>

definition extends :: "'a sandbox_op \<Rightarrow> bool" where
  "extends m = (\<forall>s. prefix (sb_trace s) (sb_trace (snd (m s))) \<and> sb_cleaned (snd (m s)) = sb_cleaned s
     \<and> sb_closed (snd (m s)) = sb_closed s)"

named_theorems extends_intros "operations that extend the trace and keep the flags"

lemma extendsD:
  assumes "extends m" and "m s = (r, t)"
  shows "prefix (sb_trace s) (sb_trace t)" "sb_cleaned t = sb_cleaned s" "sb_closed t = sb_closed s"
  using assms unfolding extends_def by (metis snd_conv)+

lemma extends_reading: "reading m \<Longrightarrow> extends m"
  by (simp add: extends_def reading_def)

lemma extends_base [extends_intros]:
  "extends (ret x)" "extends (fail_with e)" "extends (lift_res r)" "extends (gets h)" "extends (check p e)"
  "extends (lookup f e)"
  by (simp_all add: extends_reading reading_base)

lemma extends_emit [extends_intros]: "extends (emit e)"
  by (simp add: extends_def emit_def modify_def)

lemma extends_bnd [extends_intros]: "extends m \<Longrightarrow> (\<And>x. extends (f x)) \<Longrightarrow> extends (bnd m f)"
  unfolding extends_def
proof (intro allI)
  fix s
  assume m: "\<forall>s. prefix (sb_trace s) (sb_trace (snd (m s))) \<and> sb_cleaned (snd (m s)) = sb_cleaned s
      \<and> sb_closed (snd (m s)) = sb_closed s"
    and f: "\<And>x. \<forall>s. prefix (sb_trace s) (sb_trace (snd (f x s))) \<and> sb_cleaned (snd (f x s)) = sb_cleaned s
      \<and> sb_closed (snd (f x s)) = sb_closed s"
  obtain r t where "m s = (r, t)" by (metis surj_pair)
  with m f show "prefix (sb_trace s) (sb_trace (snd (bnd m f s))) \<and> sb_cleaned (snd (bnd m f s)) = sb_cleaned s
      \<and> sb_closed (snd (bnd m f s)) = sb_closed s"
    by (cases r) (auto simp: bnd_def intro: prefix_order.trans dest: spec [of _ s] split: prod.splits)
qed

lemma extends_invoke [extends_intros]: "extends (invoke E args)"
  unfolding invoke_def by (intro extends_intros)

lemma extends_map:
  assumes "extends m" and "\<And>s. snd (n s) = snd (m s)"
  shows "extends n"
  using assms by (simp add: extends_def)

lemma extends_wrappers [extends_intros]:
  "extends (invoke_succeeds E args)" "extends (fetch_logs E cid)" "extends (best_effort (invoke E args))"
  by (rule extends_map [OF extends_invoke [of E args]], simp add: invoke_succeeds_def split: prod.splits sum.splits)
    (rule extends_map [OF extends_invoke [of E "logs_arguments cid"]], simp add: fetch_logs_def split: prod.splits sum.splits,
     rule extends_map [OF extends_invoke [of E args]], simp add: best_effort_def)

lemma extends_guard_cleanup [extends_intros]: "extends (guard_cleanup E cid)"
  unfolding guard_cleanup_def by (intro extends_intros)

lemma extends_update:
  assumes "\<And>s. sb_trace (k s) = sb_trace s \<and> sb_cleaned (k s) = sb_cleaned s \<and> sb_closed (k s) = sb_closed s"
  shows "extends (modify k)"
  using assms by (simp add: extends_def modify_def)

lemma extends_cancel: "extends (cancel X E rid)"
  unfolding cancel_def
  by (intro extends_intros) (auto intro!: extends_intros extends_update)

lemma extends_best_effort: "extends m \<Longrightarrow> extends (best_effort m)"
  by (simp add: extends_def best_effort_def)

lemma extends_cleanup: "extends (sandbox_cleanup X E rid)"
  unfolding sandbox_cleanup_def
  by (intro extends_intros) (auto intro!: extends_intros extends_update extends_best_effort split: cleanup_status.splits)

lemma other_threads_extend:
  "prefix (sb_trace s) (sb_trace (other_threads X E calls s)) \<and> sb_cleaned (other_threads X E calls s) = sb_cleaned s
     \<and> sb_closed (other_threads X E calls s) = sb_closed s"
proof (induction calls arbitrary: s)
  case (Cons c calls)
  show ?case
  proof (cases c)
    case (OtherCancel rid)
    then show ?thesis
      using Cons [of "snd (cancel X E rid s)"] extends_cancel [of X E rid]
      by (auto simp: extends_def intro: prefix_order.trans)
  next
    case (OtherCleanup rid)
    then show ?thesis
      using Cons [of "snd (sandbox_cleanup X E rid s)"] extends_cleanup [of X E rid]
      by (auto simp: extends_def intro: prefix_order.trans)
  qed
qed simp

lemma extends_inspect [extends_intros]: "extends (inspect E cid)"
  unfolding inspect_def by (intro extends_intros) (auto intro!: extends_intros)

section \<open>The monitor\<close>

lemma monitor_round_extend:
  assumes "monitor_round E cid attached n failed s = (v, t)"
  shows "prefix (sb_trace s) (sb_trace t) \<and> sb_cleaned t = sb_cleaned s \<and> sb_closed t = sb_closed s"
proof -
  have k: "prefix (sb_trace u) (sb_trace (snd (invoke E args u))) \<and> sb_cleaned (snd (invoke E args u)) = sb_cleaned u
      \<and> sb_closed (snd (invoke E args u)) = sb_closed u" for u args
    using extends_invoke [of E args] by (simp add: extends_def)
  have i: "prefix (sb_trace s) (sb_trace (snd (inspect E cid s))) \<and> sb_cleaned (snd (inspect E cid s)) = sb_cleaned s
      \<and> sb_closed (snd (inspect E cid s)) = sb_closed s"
    using extends_inspect [of E cid] by (simp add: extends_def)
  have w: "snd (invoke_succeeds E args s) = snd (invoke E args s)" for args
    by (simp add: invoke_succeeds_def split: prod.splits sum.splits)
  show ?thesis
    using assms k [of s "kill_arguments cid"] k [of "snd (inspect E cid s)" "kill_arguments cid"] i w [of "kill_arguments cid"]
    by (auto simp: monitor_round_def Let_def intro: prefix_order.trans split: if_splits prod.splits sum.splits bool.splits)
qed

lemma monitor_extend:
  assumes "monitor_container X E cid attached fuel n failed s = Some (v, t)"
  shows "prefix (sb_trace s) (sb_trace t) \<and> sb_cleaned t = sb_cleaned s \<and> sb_closed t = sb_closed s"
  using assms
proof (induction fuel arbitrary: n failed s)
  case (Suc fuel)
  let ?s = "other_threads X E (se_others E n) s"
  obtain w u where m: "monitor_round E cid attached n failed ?s = (w, u)" by (metis surj_pair)
  note 1 = monitor_round_extend [OF m] and 2 = other_threads_extend [of s X E "se_others E n"]
  show ?case
  proof (cases w)
    case (Inl verdict)
    with Suc.prems m 1 2 show ?thesis by (auto intro: prefix_order.trans)
  next
    case (Inr failed')
    with Suc.prems m have "monitor_container X E cid attached fuel (Suc n) failed' u = Some (v, t)" by simp
    from Suc.IH [OF this] 1 2 show ?thesis by (auto intro: prefix_order.trans)
  qed
qed simp

lemma extends_run_container [extends_intros]: "extends (run_container X E rounds cid request)"
proof -
  have "extends (\<lambda>s. case monitor_container X E cid attached rounds 0 False s of
      None \<Rightarrow> (Inr None, s) | Some (verdict, t) \<Rightarrow> (Inr (Some verdict), t))" for attached
    by (auto simp: extends_def dest: monitor_extend split: option.splits)
  then show ?thesis
    unfolding run_container_def Let_def by (intro extends_intros) (auto intro!: extends_intros)
qed

text \<open>
  C18. The monitor ends by its deadline: if the deadline has passed in round \<open>n\<close>, the monitor returns a
  verdict within \<open>n + 1\<close> rounds, whatever the engine answers and the other threads do.
\<close>

theorem monitor_ends_by_deadline:
  assumes "se_expired E n"
  shows "\<exists>v t. monitor_container X E cid attached (Suc n) 0 failed s = Some (v, t)"
proof -
  have "\<exists>v t. monitor_container X E cid attached (Suc k) m failed s = Some (v, t)" if "se_expired E (m + k)"
    for k m failed s
    using that
  proof (induction k arbitrary: m failed s)
    case 0
    then show ?case
      by (auto simp: monitor_round_def split: prod.splits sum.splits bool.splits)
  next
    case (Suc k)
    let ?s = "other_threads X E (se_others E m) s"
    obtain w u where m: "monitor_round E cid attached m failed ?s = (w, u)" by (metis surj_pair)
    show ?case
    proof (cases w)
      case (Inr failed')
      with Suc.IH [of "Suc m" failed' u] Suc.prems m show ?thesis by simp
    qed (use m in simp)
  qed
  from this [of 0 n] assms show ?thesis by simp
qed

section \<open>Removal\<close>

definition no_cli :: "effect list \<Rightarrow> bool" where
  "no_cli xs = (\<forall>args. CliRun args \<notin> set xs)"

lemma invoke_did:
  assumes "invoke E args s = (r, t)" and "after_trace tr s"
  shows "did tr (CliRun args) t"
  using assms(1) did_append [OF assms(2), of t "CliRun args" "[]"]
  by (auto simp: invoke_def emit_def res_simps bnd_def op_defs)

lemma did_later: "did tr e s \<Longrightarrow> prefix (sb_trace s) (sb_trace t) \<Longrightarrow> did tr e t"
  using monotone_did unfolding monotone_trace_def by blast

lemma after_later: "after_trace tr s \<Longrightarrow> prefix (sb_trace s) (sb_trace t) \<Longrightarrow> after_trace tr t"
  using monotone_after unfolding monotone_trace_def by blast

lemma guard_cleanup_did:
  assumes "guard_cleanup E cid s = (r, t)" and "after_trace tr s"
  shows "did tr (CliRun (remove_arguments cid)) t"
proof -
  obtain r1 u where u: "invoke E (kill_arguments cid) s = (r1, u)" by (metis surj_pair)
  obtain r2 v where v: "invoke E (remove_arguments cid) u = (r2, v)" by (metis surj_pair)
  have "after_trace tr u" by (rule after_later [OF assms(2) extendsD(1) [OF extends_invoke u]])
  moreover have "t = v"
    using assms(1) u v
    by (auto simp: guard_cleanup_def bnd_def best_effort_def invoke_succeeds_def ret_def split: sum.splits)
  ultimately show ?thesis using invoke_did [OF v] by simp
qed

lemma close_did:
  assumes "close_temporary E d s = (r, t)" and "after_trace tr s"
  shows "did tr (RemoveTree d) t \<and> sb_closed t \<and> prefix (sb_trace s) (sb_trace t) \<and> sb_cleaned t = sb_cleaned s"
  using assms(1) did_append [OF assms(2), of t "RemoveTree d" "[]"] did_append [OF assms(2), of t "RemoveTree d" "[RemoveTree d]"]
  by (auto simp: close_temporary_def emit_def bnd_def op_defs split: if_splits)

lemma finish_did:
  assumes "finish_container E cid d request v s = (r, t)" and "after_trace tr s"
  shows "did tr (CliRun (remove_arguments cid)) t \<and> did tr (RemoveTree d) t \<and> sb_closed t"
proof -
  have "\<exists>logs u. fetch_logs E cid s = (Inr logs, u)"
    by (auto simp: fetch_logs_def split: prod.split sum.split)
  then obtain logs u where u: "fetch_logs E cid s = (Inr logs, u)" by blast
  have "\<exists>st w. guard_cleanup E cid u = (Inr st, w)"
    by (auto simp: guard_cleanup_def bnd_def best_effort_def invoke_succeeds_def ret_def split: prod.split sum.split)
  then obtain st w where w: "guard_cleanup E cid u = (Inr st, w)" by blast
  let ?w = "w\<lparr>sb_cleaned := (st = CleanupSucceeded)\<rparr>"
  obtain c x where c: "close_temporary E d ?w = (c, x)" by (metis surj_pair)
  have "t = x"
    using assms(1) u w c
    by (auto simp: finish_container_def Let_def bnd_def modify_def lift_res_def ret_def case_prod_unfold split: sum.splits)
  moreover have "did tr (CliRun (remove_arguments cid)) ?w"
    using guard_cleanup_did [OF w after_later [OF assms(2) extendsD(1) [OF extends_wrappers(2) u]]]
    by (simp add: did_def)
  ultimately show ?thesis using close_did [OF c did_after] did_later by blast
qed

lemma registration_trace:
  assumes "with_registration key cid m s = (r, t)"
  shows "(t = s \<and> \<not> is_ok r) \<or> (\<exists>u. m (s\<lparr>sb_active := bm_insert key cid (sb_active s), sb_confirmed := removeAll cid (sb_confirmed s)\<rparr>) = (r, u)
    \<and> t = u\<lparr>sb_active := bm_remove key (sb_active u)\<rparr>)"
  using assms by (auto simp: with_registration_def split: if_splits prod.splits)

lemma guarded_did:
  assumes "guarded_execution X E rounds cid d request created s = (r, t)" and "after_trace tr s"
    and "\<not> sb_cleaned s" and "\<not> sb_closed s"
  shows "after_trace tr t \<and> (sb_cleaned t \<longrightarrow> did tr (CliRun (remove_arguments cid)) t)
    \<and> (sb_closed t \<longrightarrow> did tr (RemoveTree d) t)"
proof -
  let ?body = "bnd (run_container X E rounds cid request) (\<lambda>verdict. case verdict of
      None \<Rightarrow> ret None | Some v \<Rightarrow> bnd (finish_container E cid d request v) (\<lambda>res. ret (Some res)))"
  have body: "after_trace tr u \<and> (sb_cleaned u \<longrightarrow> did tr (CliRun (remove_arguments cid)) u)
      \<and> (sb_closed u \<longrightarrow> did tr (RemoveTree d) u)"
    if b: "?body s' = (q, u)" "after_trace tr s'" "\<not> sb_cleaned s'" "\<not> sb_closed s'" for s' q u
  proof -
    obtain q1 v where v: "run_container X E rounds cid request s' = (q1, v)" by (metis surj_pair)
    note x = extendsD [OF extends_run_container v]
    have a: "after_trace tr v" by (rule after_later [OF b(2) x(1)])
    show ?thesis
    proof (cases "\<exists>verdict. q1 = Inr (Some verdict)")
      case True
      then obtain verdict where "q1 = Inr (Some verdict)" by blast
      with b(1) v obtain q2 where "finish_container E cid d request verdict v = (q2, u)"
        by (auto simp: bnd_def ret_def split: prod.splits sum.splits)
      from finish_did [OF this a] did_after show ?thesis by blast
    next
      case False
      with b(1) v have "u = v" by (auto simp: bnd_def ret_def split: sum.splits option.splits)
      with a x b show ?thesis by simp
    qed
  qed
  show ?thesis
  proof (cases "\<exists>out. created = Inr out \<and> co_success out")
    case True
    then have "with_registration (run_key X (sr_run_id request)) cid ?body s = (r, t)"
      using assms(1) by (auto simp: guarded_execution_def bnd_def lift_res_def)
    from registration_trace [OF this] show ?thesis
    proof
      assume "t = s \<and> \<not> is_ok r"
      with assms show ?thesis by simp
    next
      let ?s = "s\<lparr>sb_active := bm_insert (run_key X (sr_run_id request)) cid (sb_active s),
          sb_confirmed := removeAll cid (sb_confirmed s)\<rparr>"
      assume "\<exists>u. ?body ?s = (r, u) \<and> t = u\<lparr>sb_active := bm_remove (run_key X (sr_run_id request)) (sb_active u)\<rparr>"
      then obtain u where u: "?body ?s = (r, u)"
        and t: "t = u\<lparr>sb_active := bm_remove (run_key X (sr_run_id request)) (sb_active u)\<rparr>" by blast
      have "after_trace tr ?s" "\<not> sb_cleaned ?s" "\<not> sb_closed ?s" using assms(2-4) by (simp_all add: after_trace_def)
      from body [OF u this] show ?thesis by (simp add: t did_def after_trace_def)
    qed
  next
    case False
    with assms(1) have "t = s"
      by (auto simp: guarded_execution_def bnd_def lift_res_def fail_with_def split: sum.splits if_splits)
    with assms show ?thesis by simp
  qed
qed

lemma with_guard_did:
  assumes "with_guard E cid (guarded_execution X E rounds cid d request created) s = (r, t)"
    and "after_trace tr s" and "\<not> sb_closed s"
  shows "did tr (CliRun (remove_arguments cid)) t \<and> (sb_closed t \<longrightarrow> did tr (RemoveTree d) t)"
proof -
  let ?s = "s\<lparr>sb_cleaned := False\<rparr>"
  obtain q u where u: "guarded_execution X E rounds cid d request created ?s = (q, u)" by (metis surj_pair)
  have "after_trace tr ?s" "\<not> sb_closed ?s" using assms(2,3) by (simp_all add: after_trace_def)
  note g = guarded_did [OF u this(1) _ this(2), simplified]
  show ?thesis
  proof (cases "sb_cleaned u")
    case True
    with assms(1) u g show ?thesis by (auto simp: with_guard_def)
  next
    case False
    obtain q' v where v: "guard_cleanup E cid u = (q', v)" by (metis surj_pair)
    with assms(1) u False have "t = v" by (auto simp: with_guard_def)
    with guard_cleanup_did [OF v] extendsD [OF extends_guard_cleanup v] g did_later show ?thesis by auto
  qed
qed

definition setup_allowed :: "sandbox_env \<Rightarrow> bool" where
  \<comment> \<open>the operating system lets a new directory be prepared\<close>
  "setup_allowed E = (se_private_ok E \<and> se_runtime_dir_ok E \<and> se_runtime_mode_ok E)"

definition made :: "sandbox_env \<Rightarrow> string result \<Rightarrow> effect list \<Rightarrow> bool" where
  \<comment> \<open>what the creation of a temporary directory did\<close>
  "made E r xs =
     (no_cli xs \<and> (case r of
        Inl _ \<Rightarrow> setup_allowed E \<longrightarrow> xs = []
      | Inr d \<Rightarrow> xs = [MakeDir d, MakeDir (path_join d ''runtime'')]))"

lemma allocate_trace:
  assumes "allocate_directory E k n s = (r, t)"
  shows "\<exists>xs. sb_trace t = sb_trace s @ xs \<and> made E r xs \<and> sb_active t = sb_active s"
  using assms
proof (induction k arbitrary: n)
  case (Suc k)
  show ?case
  proof (cases "se_mkdir E n")
    case DirCreated
    with Suc.prems show ?thesis
      by (auto simp: Let_def emit_def bnd_def op_defs ensure_def no_cli_def made_def setup_allowed_def split: if_splits)
  qed (use Suc in \<open>auto simp: Let_def fail_with_def no_cli_def made_def\<close>)
qed (auto simp: fail_with_def no_cli_def made_def)

lemma create_temporary_trace:
  assumes "create_temporary E s = (r, t)"
  shows "\<exists>xs. sb_trace t = sb_trace s @ xs \<and> made E r xs \<and> sb_active t = sb_active s"
proof (cases "validate_mount (tv_metadata (se_tree E)) (se_temporary_root E)")
  case (Inl e)
  with assms show ?thesis by (auto simp: create_temporary_def bnd_def lift_res_def no_cli_def made_def)
next
  case (Inr u)
  with assms have "allocate_directory E 32 0 s = (r, t)" by (auto simp: create_temporary_def bnd_def lift_res_def)
  then show ?thesis by (rule allocate_trace)
qed

lemma write_environment_trace:
  assumes "write_environment E d env s = (r, t)"
  shows "\<exists>xs. sb_trace t = sb_trace s @ xs \<and> no_cli xs \<and> sb_closed t = sb_closed s \<and> sb_active t = sb_active s"
  using assms
  by (auto simp: write_environment_def Let_def emit_def bnd_def op_defs ensure_def no_cli_def
    split: if_splits sum.splits)

text \<open>What an execution does inside its temporary directory.\<close>

abbreviation container_body ::
    "ext \<Rightarrow> sandbox_env \<Rightarrow> nat \<Rightarrow> sandbox_request \<Rightarrow> string \<Rightarrow> sandbox_result option sandbox_op" where
  "container_body X E rounds request directory \<equiv>
     bnd (write_environment E directory (sc_environment (sr_command request))) (\<lambda>environment_file.
     bnd (lift_res (create_arguments request (path_join directory ''runtime'')
       (path_join directory ''container.id'') environment_file)) (\<lambda>args.
     bnd (\<lambda>s. case invoke E args s of (r, t) \<Rightarrow> (Inr r, t)) (\<lambda>created.
     case read_container_id E of
       Inl e \<Rightarrow> fail_with (case created of Inl e' \<Rightarrow> e' | Inr _ \<Rightarrow> e)
     | Inr cid \<Rightarrow> with_guard E cid (guarded_execution X E rounds cid directory request created))))"

lemma execute_inner_stages:
  assumes "execute_inner X E rounds request s = (r, t)"
  shows "t = s \<and> \<not> is_ok r \<or> (\<exists>e. create_temporary E s = (Inl e, t) \<and> r = Inl e)
    \<or> (\<exists>d u. create_temporary E s = (Inr d, u)
         \<and> with_temporary d (container_body X E rounds request d) u = (r, t))"
  using assms by (auto simp: execute_inner_def bnd_def lift_res_def split: sum.splits prod.splits)

lemma container_body_stages:
  assumes "container_body X E rounds request d u = (r, v)"
  shows "(\<exists>w. write_environment E d (sc_environment (sr_command request)) u = (w, v) \<and> \<not> is_ok r)
    \<or> (\<exists>f w args created x. write_environment E d (sc_environment (sr_command request)) u = (Inr f, w)
        \<and> create_arguments request (path_join d ''runtime'') (path_join d ''container.id'') f = Inr args
        \<and> invoke E args w = (created, x)
        \<and> (case read_container_id E of
             Inl _ \<Rightarrow> v = x \<and> \<not> is_ok r
           | Inr cid \<Rightarrow> with_guard E cid (guarded_execution X E rounds cid d request created) x = (r, v)))"
  using assms by (auto simp: bnd_def lift_res_def fail_with_def split: sum.splits prod.splits)

lemma create_arguments_create: "create_arguments request p c f = Inr args \<Longrightarrow> \<exists>more. args = ''create'' # more"
  by (auto simp: create_arguments_def Let_def engine_create_arguments_def res_simps)

lemma container_body_did:
  assumes "container_body X E rounds request d u = (r, v)" and "\<not> sb_closed u"
  shows "(\<exists>zs. sb_trace v = sb_trace u @ zs \<and> no_cli zs \<and> \<not> sb_closed v \<and> \<not> is_ok r)
    \<or> (\<exists>zs args post. sb_trace v = sb_trace u @ zs @ [CliRun (''create'' # args)] @ post \<and> no_cli zs
        \<and> (is_ok r \<longrightarrow> is_ok (read_container_id E))
        \<and> (sb_closed v \<longrightarrow> RemoveTree d \<in> set post)
        \<and> (\<forall>cid. read_container_id E = Inr cid \<longrightarrow> CliRun (remove_arguments cid) \<in> set post))"
  using container_body_stages [OF assms(1)]
proof (elim disjE exE conjE)
  fix w assume "write_environment E d (sc_environment (sr_command request)) u = (w, v)" and "\<not> is_ok r"
  from write_environment_trace [OF this(1)] this(2) assms(2) show ?thesis by auto
next
  fix f w args created x
  assume wr: "write_environment E d (sc_environment (sr_command request)) u = (Inr f, w)"
    and ca: "create_arguments request (path_join d ''runtime'') (path_join d ''container.id'') f = Inr args"
    and iv: "invoke E args w = (created, x)"
    and fin: "case read_container_id E of Inl _ \<Rightarrow> v = x \<and> \<not> is_ok r
      | Inr cid \<Rightarrow> with_guard E cid (guarded_execution X E rounds cid d request created) x = (r, v)"
  obtain more where more: "args = ''create'' # more" using create_arguments_create [OF ca] by blast
  obtain zs where zs: "sb_trace w = sb_trace u @ zs" "no_cli zs" "\<not> sb_closed w"
    using write_environment_trace [OF wr] assms(2) by auto
  have x: "sb_trace x = sb_trace w @ [CliRun args]" "\<not> sb_closed x"
    using iv zs(3) by (auto simp: invoke_def emit_def bnd_def op_defs)
  have "\<exists>post. sb_trace v = sb_trace x @ post \<and> (sb_closed v \<longrightarrow> RemoveTree d \<in> set post)
      \<and> (\<forall>cid. read_container_id E = Inr cid \<longrightarrow> CliRun (remove_arguments cid) \<in> set post)"
  proof (cases "read_container_id E")
    case (Inr cid)
    with fin have g: "with_guard E cid (guarded_execution X E rounds cid d request created) x = (r, v)" by simp
    have "after_trace (sb_trace x) x" by (simp add: after_trace_def)
    from with_guard_did [OF g this x(2)] Inr show ?thesis by (auto simp: did_def elim!: prefixE)
  qed (use fin x in auto)
  moreover have "is_ok r \<longrightarrow> is_ok (read_container_id E)"
    using fin by (cases "read_container_id E") (simp_all add: is_ok_iff)
  ultimately obtain post where "sb_trace v = sb_trace u @ zs @ [CliRun (''create'' # more)] @ post"
    "sb_closed v \<longrightarrow> RemoveTree d \<in> set post" "is_ok r \<longrightarrow> is_ok (read_container_id E)"
    "\<forall>cid. read_container_id E = Inr cid \<longrightarrow> CliRun (remove_arguments cid) \<in> set post"
    using x(1) zs(1) more by auto
  with zs(2) show ?thesis by blast
qed

text \<open>
  C16. A container and its directory do not outlive the execution. Whenever an execution returns,
  whatever the engine answered, one of two things happened. Either it failed before it owned a
  directory, without any engine command; then it made no directory at all, unless the operating system
  refused to prepare the one it had made. Or it made one directory, with the runtime directory in it,
  and removed it afterwards on every path; then either it failed without any engine command, or a create
  command was its first one, and after it came the removal of the directory and, if the engine left a
  readable container identifier, the forced removal of that container; without one the execution
  reports a failure.
\<close>

theorem container_always_removed:
  assumes "execute_inner X E rounds request s = (r, t)"
  shows "\<exists>xs. sb_trace t = sb_trace s @ xs \<and>
    ((\<not> is_ok r \<and> no_cli xs \<and> (se_private_ok E \<and> se_runtime_dir_ok E \<and> se_runtime_mode_ok E \<longrightarrow> xs = [])) \<or>
     (\<exists>d post. xs = [MakeDir d, MakeDir (path_join d ''runtime'')] @ post \<and> RemoveTree d \<in> set post \<and>
        (\<not> is_ok r \<and> no_cli post \<or>
         (\<exists>pre args more. post = pre @ [CliRun (''create'' # args)] @ more \<and> no_cli pre \<and> RemoveTree d \<in> set more
            \<and> (\<forall>cid. read_container_id E = Inr cid \<longrightarrow> CliRun (remove_arguments cid) \<in> set more)
            \<and> (is_ok r \<longrightarrow> is_ok (read_container_id E))))))"
proof -
  from execute_inner_stages [OF assms] show ?thesis
  proof (elim disjE exE conjE)
    assume "t = s" "\<not> is_ok r"
    then show ?thesis by (simp add: no_cli_def)
  next
    fix e assume "create_temporary E s = (Inl e, t)" "r = Inl e"
    from create_temporary_trace [OF this(1)] this(2) show ?thesis by (auto simp: made_def setup_allowed_def is_ok_iff)
  next
    fix d u assume c: "create_temporary E s = (Inr d, u)"
      and "with_temporary d (container_body X E rounds request d) u = (r, t)"
    then obtain v where b: "container_body X E rounds request d (u\<lparr>sb_closed := False\<rparr>) = (r, v)"
      and t: "sb_trace t = (if sb_closed v then sb_trace v else sb_trace v @ [RemoveTree d])"
      by (auto simp: with_temporary_def emit_def modify_def split: prod.splits if_splits)
    have u: "sb_trace u = sb_trace s @ [MakeDir d, MakeDir (path_join d ''runtime'')]"
      using create_temporary_trace [OF c] by (auto simp: made_def)
    have "\<not> sb_closed (u\<lparr>sb_closed := False\<rparr>)" by simp
    from container_body_did [OF b this] show ?thesis
    proof (elim disjE exE conjE)
      fix zs assume "sb_trace v = sb_trace (u\<lparr>sb_closed := False\<rparr>) @ zs" "no_cli zs" "\<not> sb_closed v" "\<not> is_ok r"
      with u t show ?thesis
        by (intro exI [of _ "[MakeDir d, MakeDir (path_join d ''runtime'')] @ zs @ [RemoveTree d]"]) (simp add: no_cli_def)
    next
      fix zs args post
      assume v: "sb_trace v = sb_trace (u\<lparr>sb_closed := False\<rparr>) @ zs @ [CliRun (''create'' # args)] @ post" and zs: "no_cli zs"
        and p: "is_ok r \<longrightarrow> is_ok (read_container_id E)" "sb_closed v \<longrightarrow> RemoveTree d \<in> set post"
          "\<forall>cid. read_container_id E = Inr cid \<longrightarrow> CliRun (remove_arguments cid) \<in> set post"
      define more where "more = post @ (if sb_closed v then [] else [RemoveTree d])"
      let ?post = "zs @ [CliRun (''create'' # args)] @ more"
      have "sb_trace t = sb_trace s @ [MakeDir d, MakeDir (path_join d ''runtime'')] @ ?post"
        using u t v by (simp add: more_def)
      moreover have "RemoveTree d \<in> set more" "\<forall>cid. read_container_id E = Inr cid \<longrightarrow> CliRun (remove_arguments cid) \<in> set more"
        using p by (simp_all add: more_def)
      ultimately show ?thesis
        using zs p(1) by (intro exI [of _ "[MakeDir d, MakeDir (path_join d ''runtime'')] @ ?post"]) (simp, blast)
    qed
  qed
qed

end
