(* ===== verification/Sandbox_Verdicts.thy ===== *)
theory Sandbox_Verdicts
  imports Sandbox_Properties
begin

text \<open>
  What a result of the sandbox says about the container: every way an execution can end is backed by an
  answer the engine gave during that execution, also when other threads cancel or clean up runs while
  the monitor waits.
\<close>

section \<open>Answers of the engine\<close>

definition engine_said ::
    "sandbox_env \<Rightarrow> effect list \<Rightarrow> sandbox_state \<Rightarrow> string list \<Rightarrow> (string \<Rightarrow> bool) \<Rightarrow> bool" where
  \<comment> \<open>after the given trace the engine reported success for a command, with such an output\<close>
  "engine_said E base s args P =
     (\<exists>tr out. prefix base tr \<and> prefix (tr @ [CliRun args]) (sb_trace s) \<and> se_cli E tr args = Inr out
        \<and> co_success out \<and> P (co_stdout out))"

lemma said_later: "engine_said E base s args P \<Longrightarrow> prefix (sb_trace s) (sb_trace t) \<Longrightarrow> engine_said E base t args P"
  unfolding engine_said_def by (meson prefix_order.trans)

lemma invoke_said:
  assumes "invoke E args s = (Inr out, t)" and "co_success out" and "P (co_stdout out)" and "after_trace base s"
  shows "engine_said E base t args P"
  using assms unfolding engine_said_def after_trace_def
  by (intro exI [of _ "sb_trace s"] exI [of _ out])
    (auto simp: invoke_def emit_def bnd_def op_defs)

lemma kill_said:
  assumes "invoke_succeeds E args s = (Inr True, t)" and "after_trace base s"
  shows "engine_said E base t args (\<lambda>_. True)"
  using assms(1) invoke_said [OF _ _ TrueI assms(2)]
  by (auto simp: invoke_succeeds_def split: prod.splits sum.splits)

section \<open>Confirmed cancellations\<close>

definition confirmed_ok :: "sandbox_env \<Rightarrow> effect list \<Rightarrow> string \<Rightarrow> sandbox_state \<Rightarrow> bool" where
  "confirmed_ok E base cid s =
     (after_trace base s
      \<and> (cid \<in> set (sb_confirmed s) \<longrightarrow> engine_said E base s (kill_arguments cid) (\<lambda>_. True)))"

lemma confirmed_later:
  assumes "confirmed_ok E base cid s" and "prefix (sb_trace s) (sb_trace t)" and "sb_confirmed t = sb_confirmed s"
  shows "confirmed_ok E base cid t"
  using assms said_later after_later unfolding confirmed_ok_def by metis

lemma confirmed_invoke [preserves_intros]: "preserves (confirmed_ok E base cid) (invoke E args)"
  unfolding preserves_def
  by (auto simp: invoke_def emit_def bnd_def op_defs elim!: confirmed_later)

lemma confirmed_invoke_succeeds [preserves_intros]: "preserves (confirmed_ok E base cid) (invoke_succeeds E args)"
  unfolding preserves_def
proof (intro allI impI)
  fix s r t assume "confirmed_ok E base cid s" "invoke_succeeds E args s = (r, t)"
  then show "confirmed_ok E base cid t"
    using preservesD [OF confirmed_invoke] by (auto simp: invoke_succeeds_def split: prod.splits sum.splits)
qed

lemma confirmed_guard_cleanup [preserves_intros]: "preserves (confirmed_ok E base cid) (guard_cleanup E c)"
  unfolding guard_cleanup_def by (intro preserves_intros)

lemma confirmed_inspect [preserves_intros]: "preserves (confirmed_ok E base cid) (inspect E c)"
  unfolding inspect_def by (intro preserves_intros)

lemma confirmed_sandbox_cleanup: "preserves (confirmed_ok E base cid) (sandbox_cleanup X E rid)"
  unfolding sandbox_cleanup_def
  by (intro preserves_intros preserves_modify)
    (auto intro!: preserves_intros simp: confirmed_ok_def after_trace_def engine_said_def split: cleanup_status.splits)

lemma confirmed_cancel: "preserves (confirmed_ok E base cid) (cancel X E rid)"
  unfolding preserves_def
proof (intro allI impI)
  fix s r t assume inv: "confirmed_ok E base cid s" and "cancel X E rid s = (r, t)"
  then consider "t = s"
    | c out u where "invoke E (kill_arguments c) s = (Inr out, u)" "co_success out"
        "t = u\<lparr>sb_confirmed := c # sb_confirmed u\<rparr>"
    | c q where "invoke E (kill_arguments c) s = (q, t)"
    by (fastforce simp: cancel_def bnd_def op_defs split: if_splits sum.splits option.splits prod.splits)
  then show "confirmed_ok E base cid t"
  proof cases
    case (2 c out u)
    then have "confirmed_ok E base cid u" "engine_said E base u (kill_arguments c) (\<lambda>_. True)"
      using preservesD [OF confirmed_invoke 2(1) inv] invoke_said [OF 2(1,2) TrueI, of base] inv
      by (auto simp: confirmed_ok_def)
    with 2(3) show ?thesis by (auto simp: confirmed_ok_def after_trace_def engine_said_def)
  qed (use inv preservesD [OF confirmed_invoke] in auto)
qed

lemma confirmed_others: "confirmed_ok E base cid s \<Longrightarrow> confirmed_ok E base cid (other_threads X E calls s)"
proof (induction calls arbitrary: s)
  case (Cons c calls)
  then show ?case
    using preservesD [OF confirmed_cancel prod.collapse [symmetric]]
      preservesD [OF confirmed_sandbox_cleanup prod.collapse [symmetric]]
    by (cases c) (metis other_threads.simps(2), metis other_threads.simps(3))
qed simp

section \<open>Verdicts\<close>

fun verdict_earned :: "sandbox_env \<Rightarrow> effect list \<Rightarrow> string \<Rightarrow> sandbox_state \<Rightarrow> termination_kind \<times> i32 option \<Rightarrow> bool" where
  "verdict_earned E base cid s (TermCancelled, c) =
     (c = None \<and> engine_said E base s (kill_arguments cid) (\<lambda>_. True))"
| "verdict_earned E base cid s (TermTimedOut, c) =
     (c = None \<and> (\<exists>n. se_expired E n) \<and> engine_said E base s (kill_arguments cid) (\<lambda>_. True))"
| "verdict_earned E base cid s (TermExited, c) =
     (\<exists>k. c = Some k \<and> engine_said E base s (inspect_arguments cid)
        (\<lambda>bytes. container_state_of E bytes = Inr \<lparr>ct_running = False, ct_oom_killed = False, ct_exit_code = k\<rparr>))"
| "verdict_earned E base cid s (TermOutOfMemory, c) =
     (c = None \<and> engine_said E base s (inspect_arguments cid)
        (\<lambda>bytes. \<exists>k. container_state_of E bytes = Inr \<lparr>ct_running = False, ct_oom_killed = True, ct_exit_code = k\<rparr>))"
| "verdict_earned E base cid s (TermFailed, c) = (c = None)"

lemma verdict_later:
  assumes "verdict_earned E base cid s v" and "prefix (sb_trace s) (sb_trace t)"
  shows "verdict_earned E base cid t v"
proof -
  obtain k c where v: "v = (k, c)" by (cases v)
  have l: "engine_said E base s args P \<Longrightarrow> engine_said E base t args P" for args P
    by (rule said_later [OF _ assms(2)])
  show ?thesis
  proof (cases k)
    case TermExited
    with assms(1) obtain n where c: "c = Some n" and "engine_said E base s (inspect_arguments cid)
        (\<lambda>bytes. container_state_of E bytes = Inr \<lparr>ct_running = False, ct_oom_killed = False, ct_exit_code = n\<rparr>)"
      by (auto simp: v)
    from l [OF this(2)] c TermExited show ?thesis by (simp add: v)
  qed (use assms(1) l in \<open>simp_all add: v\<close>)
qed

lemma inspect_said:
  assumes "inspect E cid s = (Inr st, t)" and "after_trace base s"
  shows "engine_said E base t (inspect_arguments cid) (\<lambda>bytes. container_state_of E bytes = Inr st)"
proof -
  from assms(1) obtain out where i: "invoke E (inspect_arguments cid) s = (Inr out, t)" "co_success out"
    and st: "container_state_of E (co_stdout out) = Inr st"
    by (auto simp: inspect_def res_simps split: if_splits)
  show ?thesis by (rule invoke_said [OF i _ assms(2)]) (rule st)
qed

lemma monitor_round_earned:
  assumes "monitor_round E cid attached n failed s = (v, t)" and "confirmed_ok E base cid s"
  shows "confirmed_ok E base cid t \<and> (\<forall>verdict. v = Inl verdict \<longrightarrow> verdict_earned E base cid t verdict)"
proof -
  let ?kill = "kill_arguments cid"
  have a: "after_trace base s" using assms(2) by (simp add: confirmed_ok_def)
  show ?thesis
  proof (cases "cid \<in> set (sb_confirmed s)")
    case True
    with assms show ?thesis by (auto simp: monitor_round_def confirmed_ok_def)
  next
    case running: False
    show ?thesis
    proof (cases "se_expired E n")
      case True
      obtain b u where k: "invoke_succeeds E ?kill s = (b, u)" by (metis surj_pair)
      have "confirmed_ok E base cid u" by (rule preservesD [OF confirmed_invoke_succeeds k assms(2)])
      moreover have "b = Inr True \<longrightarrow> engine_said E base u ?kill (\<lambda>_. True)" using kill_said k a by auto
      ultimately show ?thesis
        using assms(1) running True k by (auto simp: monitor_round_def split: sum.splits bool.splits)
    next
      case False
      obtain q u where i: "inspect E cid s = (q, u)" by (metis surj_pair)
      have u: "confirmed_ok E base cid u" by (rule preservesD [OF confirmed_inspect i assms(2)])
      then have w: "confirmed_ok E base cid (snd (invoke E ?kill u))"
        using preservesD [OF confirmed_invoke prod.collapse [symmetric]] by blast
      have said: "engine_said E base u (inspect_arguments cid) (\<lambda>bytes. container_state_of E bytes = Inr st)"
        if "q = Inr st" for st using inspect_said [OF _ a] i that by blast
      show ?thesis
      proof (cases q)
        case (Inl e)
        with assms(1) running False i w show ?thesis by (auto simp: monitor_round_def Let_def)
      next
        case (Inr st)
        have "engine_said E base u (inspect_arguments cid) (\<lambda>bytes. container_state_of E bytes = Inr
            \<lparr>ct_running = ct_running st, ct_oom_killed = ct_oom_killed st, ct_exit_code = ct_exit_code st\<rparr>)"
          using said [OF Inr] by (cases st) simp
        moreover from this have "engine_said E base u (inspect_arguments cid) (\<lambda>bytes. \<exists>k. container_state_of E bytes = Inr
            \<lparr>ct_running = ct_running st, ct_oom_killed = ct_oom_killed st, ct_exit_code = k\<rparr>)"
          unfolding engine_said_def by blast
        ultimately show ?thesis
          using assms(1) running False i Inr u w
          by (auto simp: monitor_round_def Let_def split: if_splits)
      qed
    qed
  qed
qed

lemma monitor_earned:
  assumes "monitor_container X E cid attached fuel n failed s = Some (v, t)" and "confirmed_ok E base cid s"
  shows "verdict_earned E base cid t v"
  using assms
proof (induction fuel arbitrary: n failed s)
  case (Suc fuel)
  let ?s = "other_threads X E (se_others E n) s"
  obtain w u where m: "monitor_round E cid attached n failed ?s = (w, u)" by (metis surj_pair)
  note r = monitor_round_earned [OF m confirmed_others [OF Suc.prems(2)]]
  show ?case
  proof (cases w)
    case (Inl verdict)
    with Suc.prems(1) m r show ?thesis by auto
  next
    case (Inr failed')
    with Suc.prems(1) m have "monitor_container X E cid attached fuel (Suc n) failed' u = Some (v, t)" by simp
    from Suc.IH [OF this] r show ?thesis by blast
  qed
qed simp

lemma run_container_earned:
  assumes "run_container X E rounds cid request s = (Inr (Some v), t)" and "confirmed_ok E base cid s"
  shows "verdict_earned E base cid t v"
proof -
  obtain r u where u: "invoke E (start_arguments cid) s = (r, u)" by (metis surj_pair)
  have c: "confirmed_ok E base cid u" by (rule preservesD [OF confirmed_invoke u assms(2)])
  then have e: "confirmed_ok E base cid (u\<lparr>sb_trace := sb_trace u @ xs\<rparr>)" for xs
    by (rule confirmed_later) simp_all
  show ?thesis
    using assms(1) u c e monitor_earned
    by (fastforce simp: run_container_def bnd_def emit_def op_defs Let_def
      split: sum.splits if_splits option.splits prod.splits)
qed

lemma finish_earned:
  assumes "finish_container E cid d request v s = (Inr res, t)" and "verdict_earned E base cid s v"
    and "after_trace base s"
  shows "sx_sandbox_id res = cid \<and> verdict_earned E base cid t (sx_termination res, sx_exit_code res)
    \<and> (sx_cleanup res = CleanupSucceeded \<longrightarrow> engine_said E base t (remove_arguments cid) (\<lambda>_. True))
    \<and> (sx_termination res = TermCancelled \<longrightarrow> sx_cleanup res = CleanupSucceeded)"
proof -
  have "\<exists>logs u. fetch_logs E cid s = (Inr logs, u)"
    by (auto simp: fetch_logs_def split: prod.split sum.split)
  then obtain logs u where u: "fetch_logs E cid s = (Inr logs, u)" by blast
  obtain q1 k where k: "invoke E (kill_arguments cid) u = (q1, k)" by (metis surj_pair)
  have "\<exists>b w. invoke_succeeds E (remove_arguments cid) k = (Inr b, w)"
    by (auto simp: invoke_succeeds_def split: prod.split sum.split)
  then obtain b w where rm: "invoke_succeeds E (remove_arguments cid) k = (Inr b, w)" by blast
  define st where "st = (if b then CleanupSucceeded else CleanupFailed (remove_failure_code (se_engine E)))"
  have w: "guard_cleanup E cid u = (Inr st, w)"
    using k rm by (simp add: guard_cleanup_def bnd_def best_effort_def ret_def st_def)
  let ?w = "w\<lparr>sb_cleaned := (st = CleanupSucceeded)\<rparr>"
  obtain c x where c: "close_temporary E d ?w = (c, x)" by (metis surj_pair)
  have t: "t = x"
    using assms(1) u w c
    by (auto simp: finish_container_def Let_def bnd_def modify_def lift_res_def ret_def case_prod_unfold split: sum.splits)
  have su: "prefix (sb_trace s) (sb_trace u)" by (rule extendsD(1) [OF extends_wrappers(2) u])
  have uk: "prefix (sb_trace u) (sb_trace k)" by (rule extendsD(1) [OF extends_invoke k])
  have uw: "prefix (sb_trace u) (sb_trace w)" by (rule extendsD(1) [OF extends_guard_cleanup w])
  have "after_trace base ?w" using assms(3) su uw unfolding after_trace_def by (auto intro: prefix_order.trans)
  from close_did [OF c this] have wt: "prefix (sb_trace w) (sb_trace t)" by (simp add: t)
  have st: "prefix (sb_trace s) (sb_trace t)" using su uw wt by (meson prefix_order.trans)
  have "after_trace base k" using assms(3) su uk after_later by blast
  then have rmd: "b \<longrightarrow> engine_said E base t (remove_arguments cid) (\<lambda>_. True)"
    using kill_said [of E "remove_arguments cid" k w base] rm said_later [OF _ wt] by auto
  have v: "verdict_earned E base cid t v" by (rule verdict_later [OF assms(2) st])
  have comb: "combine_cleanup st c = CleanupSucceeded \<Longrightarrow> b" by (cases b; cases c) (simp_all add: st_def)
  show ?thesis
    using assms(1) u w c v rmd comb
    by (cases "collect_output_paths (se_tree E) (mount_path (sr_output_directory request))")
      (auto simp: finish_container_def Let_def bnd_def modify_def lift_res_def ret_def case_prod_unfold
        split: sum.splits if_splits)
qed

lemma with_guard_result:
  "with_guard E cid m s = (r, t) \<Longrightarrow>
     \<exists>u. m (s\<lparr>sb_cleaned := False\<rparr>) = (r, u) \<and> prefix (sb_trace u) (sb_trace t)"
  using extends_guard_cleanup [of E cid]
  by (auto simp: with_guard_def extends_def split: prod.splits if_splits)

lemma with_temporary_result:
  "with_temporary d m s = (r, t) \<Longrightarrow>
     \<exists>u. m (s\<lparr>sb_closed := False\<rparr>) = (r, u) \<and> prefix (sb_trace u) (sb_trace t)"
  by (auto simp: with_temporary_def emit_def modify_def split: prod.splits if_splits)

lemma guarded_result:
  assumes "guarded_execution X E rounds cid d request created s = (Inr (Some res), t)"
  shows "\<exists>s' v u z. sb_trace s' = sb_trace s \<and> cid \<notin> set (sb_confirmed s')
    \<and> run_container X E rounds cid request s' = (Inr (Some v), u)
    \<and> finish_container E cid d request v u = (Inr res, z) \<and> sb_trace t = sb_trace z"
proof -
  let ?body = "bnd (run_container X E rounds cid request) (\<lambda>verdict. case verdict of
      None \<Rightarrow> ret None | Some v \<Rightarrow> bnd (finish_container E cid d request v) (\<lambda>res. ret (Some res)))"
  from assms have "with_registration (run_key X (sr_run_id request)) cid ?body s = (Inr (Some res), t)"
    by (auto simp: guarded_execution_def bnd_def lift_res_def fail_with_def split: sum.splits if_splits)
  from registration_trace [OF this] obtain u where
    "?body (s\<lparr>sb_active := bm_insert (run_key X (sr_run_id request)) cid (sb_active s),
       sb_confirmed := removeAll cid (sb_confirmed s)\<rparr>) = (Inr (Some res), u)"
    and "t = u\<lparr>sb_active := bm_remove (run_key X (sr_run_id request)) (sb_active u)\<rparr>" by auto
  then show ?thesis
    by (intro exI [of _ "s\<lparr>sb_active := bm_insert (run_key X (sr_run_id request)) cid (sb_active s),
       sb_confirmed := removeAll cid (sb_confirmed s)\<rparr>"])
      (auto simp: res_simps split: option.splits)
qed

lemma result_parts:
  assumes "execute_inner X E rounds request s = (Inr (Some res), t)"
  shows "\<exists>cid d s' v u z. read_container_id E = Inr cid \<and> after_trace (sb_trace s) s'
    \<and> cid \<notin> set (sb_confirmed s') \<and> run_container X E rounds cid request s' = (Inr (Some v), u)
    \<and> finish_container E cid d request v u = (Inr res, z) \<and> prefix (sb_trace z) (sb_trace t)"
proof -
  obtain d u where c: "create_temporary E s = (Inr d, u)"
    and "with_temporary d (container_body X E rounds request d) u = (Inr (Some res), t)"
    using execute_inner_stages [OF assms] by auto
  from with_temporary_result [OF this(2)] obtain x where
    "container_body X E rounds request d (u\<lparr>sb_closed := False\<rparr>) = (Inr (Some res), x)"
    and xt: "prefix (sb_trace x) (sb_trace t)" by blast
  from container_body_stages [OF this(1)] obtain f v args created w cid where
    wr: "write_environment E d (sc_environment (sr_command request)) (u\<lparr>sb_closed := False\<rparr>) = (Inr f, v)"
    and iv: "invoke E args v = (created, w)" and rc: "read_container_id E = Inr cid"
    and g: "with_guard E cid (guarded_execution X E rounds cid d request created) w = (Inr (Some res), x)"
    by (cases "read_container_id E") auto
  from with_guard_result [OF g] obtain y where
    y: "guarded_execution X E rounds cid d request created (w\<lparr>sb_cleaned := False\<rparr>) = (Inr (Some res), y)"
      "prefix (sb_trace y) (sb_trace x)" by blast
  have "after_trace (sb_trace s) w"
    using create_temporary_trace [OF c] write_environment_trace [OF wr] extendsD(1) [OF extends_invoke iv]
    by (auto simp: after_trace_def elim!: prefixE)
  with guarded_result [OF y(1)] rc y(2) xt show ?thesis
    by (auto simp: after_trace_def) (metis prefix_order.trans)
qed

text \<open>
  C15. Every verdict is earned: when an execution returns a result, its container identifier is the one
  the engine wrote, and its termination is backed by a successful answer of the engine during this
  execution. A cancelled or timed-out result means a kill succeeded, and a cancelled one in addition
  that the container and the temporary directory were removed; an exit status is the one reported for
  a container that no longer ran and was not killed for memory, and an out-of-memory result was
  reported as such. A successful cleanup status means that the forced removal succeeded.
\<close>

theorem verdict_is_earned:
  assumes "execute_inner X E rounds request s = (Inr (Some res), t)"
  shows "read_container_id E = Inr (sx_sandbox_id res)
    \<and> verdict_earned E (sb_trace s) (sx_sandbox_id res) t (sx_termination res, sx_exit_code res)
    \<and> (sx_cleanup res = CleanupSucceeded \<longrightarrow>
         engine_said E (sb_trace s) t (remove_arguments (sx_sandbox_id res)) (\<lambda>_. True))
    \<and> (sx_termination res = TermCancelled \<longrightarrow> sx_cleanup res = CleanupSucceeded)"
proof -
  from result_parts [OF assms] obtain cid d s' v u z where
    cid: "read_container_id E = Inr cid" "after_trace (sb_trace s) s'" "cid \<notin> set (sb_confirmed s')"
    and run: "run_container X E rounds cid request s' = (Inr (Some v), u)"
    and fin: "finish_container E cid d request v u = (Inr res, z)" and zt: "prefix (sb_trace z) (sb_trace t)"
    by blast
  have "confirmed_ok E (sb_trace s) cid s'" using cid(2,3) by (simp add: confirmed_ok_def)
  from run_container_earned [OF run this] have "verdict_earned E (sb_trace s) cid u v" .
  moreover have "after_trace (sb_trace s) u"
    by (rule after_later [OF cid(2) extendsD(1) [OF extends_run_container run]])
  ultimately have "sx_sandbox_id res = cid"
    and e: "verdict_earned E (sb_trace s) cid z (sx_termination res, sx_exit_code res)"
      "sx_cleanup res = CleanupSucceeded \<longrightarrow> engine_said E (sb_trace s) z (remove_arguments cid) (\<lambda>_. True)"
      "sx_termination res = TermCancelled \<longrightarrow> sx_cleanup res = CleanupSucceeded"
    using finish_earned [OF fin] by blast+
  with verdict_later [OF e(1) zt] said_later [OF _ zt] cid(1) show ?thesis by blast
qed

end
