(* ===== verification/Backend_Witnesses.thy ===== *)
theory Backend_Witnesses
  imports System_Witnesses Policy Sandbox_Limits Sandbox_Verdicts
begin

text \<open>
  Concrete inputs for the properties of the policy and of the sandbox: a policy with one rule, an engine
  that answers every command and reports a container that has exited with status zero, an output tree
  with one file, and a command that never ends before its timeout.
\<close>

section \<open>Policy\<close>

definition sample_rule :: action_rule where
  "sample_rule = \<lparr>ru_risk = Read, ru_decision = CfgAllow,
     ru_resources = Some \<lparr>rr_exact = [(''res'', CfgDeny)], rr_default = CfgAllow\<rparr>\<rparr>"

definition sample_yaml :: "string \<Rightarrow> raw_policy option" where
  "sample_yaml input = (if input = ''doc''
     then Some \<lparr>rp_version = 1, rp_unknown = CfgDeny,
       rp_actions = [(''act'', Read, CfgAllow, RawRules [(''res'', CfgDeny)] CfgAllow)]\<rparr>
     else None)"

definition sample_policy :: policy_config where
  "sample_policy = \<lparr>pc_version = 1, pc_unknown = CfgDeny, pc_actions = [(''act'', sample_rule)]\<rparr>"

lemma sample_policy_accepted: "policy_from_yaml sample_yaml ''doc'' = Inr sample_policy"
  by (simp add: policy_from_yaml_def sample_yaml_def decode_policy_def validate_policy_def policy_config_version_def
    max_policy_bytes_def sample_policy_def sample_rule_def valid_action_name_def rule_is_safe_def
    resources_are_valid_def bm_values_def ascii_defs not_blank graphic_def)

theorem policy_fails_closed_witness:
  "policy_from_yaml sample_yaml ''doc'' = Inr sample_policy
   \<and> pe_effective_risk (evaluate_at sample_ext sample_policy exact_resource_matcher sample_action 3) = Read"
proof -
  have "bm_get (pc_actions sample_policy) (ac_action sample_action) = Some sample_rule"
    by (simp add: sample_policy_def sample_action_def)
  moreover note policy_fails_closed [OF sample_policy_accepted, of sample_ext exact_resource_matcher sample_action 3]
  ultimately have "pe_effective_risk (evaluate_at sample_ext sample_policy exact_resource_matcher sample_action 3)
      = ru_risk sample_rule" by blast
  then show ?thesis using sample_policy_accepted by (simp add: sample_rule_def)
qed

theorem accepted_policy_is_the_document_witness:
  "\<exists>raw rules. sample_yaml ''doc'' = Some raw \<and> decode_rules (rp_actions raw) = Some rules
    \<and> bm_get (pc_actions sample_policy) = map_of rules"
  using accepted_policy_is_the_document [OF sample_policy_accepted] by blast

section \<open>Sandbox\<close>

definition sample_cid :: string where
  "sample_cid = replicate 64 (CHR ''a'')"

lemma trim_hex: "list_all is_lower_hex s \<Longrightarrow> trim s = s"
proof -
  assume s: "list_all is_lower_hex s"
  have "trim_end t = t" if "list_all is_lower_hex t" for t
    using that
  proof (induction t)
    case (Cons c t)
    then have "\<not> blank (c # t)" by (intro not_blank) (auto simp: graphic_def ascii_defs)
    with Cons show ?case by (subst trim_end.simps) simp
  qed (simp add: trim_end.simps)
  moreover have "trim_start s = s"
    using s by (subst trim_start.simps, cases s) (auto simp: graphic_ws graphic_def ascii_defs)
  ultimately show ?thesis using s by (simp add: trim_def)
qed

lemma sample_container_id: "parse_container_id sample_cid = Inr sample_cid"
proof -
  have "list_all is_lower_hex sample_cid" by (simp add: sample_cid_def list_all_iff ascii_defs)
  then show ?thesis by (simp add: parse_container_id_def trim_hex) (simp add: sample_cid_def)
qed

definition sample_tree :: tree_view where
  "sample_tree = \<lparr>tv_read_dir = (\<lambda>d. Some (if d = ''/out'' then [Some ''a.txt''] else [])),
     tv_metadata = (\<lambda>p. Some \<lparr>dm_symlink = False, dm_dir = (p \<noteq> ''/out/a.txt''), dm_file = (p = ''/out/a.txt'')\<rparr>)\<rparr>"

definition sample_env :: sandbox_env where
  "sample_env = \<lparr>se_engine = Docker,
     se_cli = (\<lambda>_ _. Inr \<lparr>co_success = True, co_stdout = [], co_stderr = [], co_truncated = False\<rparr>),
     se_json = (\<lambda>_. Some (JObject [(''Running'', JBool False), (''OOMKilled'', JBool False),
       (''ExitCode'', JNumber (PosInt 0))])),
     se_temporary_root = ''/tmp'', se_temporary_name = (\<lambda>_. ''box''), se_mkdir = (\<lambda>_. DirCreated),
     se_private_ok = True, se_runtime_dir_ok = True, se_runtime_mode_ok = True, se_env_open_ok = True,
     se_env_mode_ok = True, se_env_write_ok = True, se_cidfile = Some sample_cid, se_tree = sample_tree,
     se_remove_ok = True, se_expired = (\<lambda>n. 3 \<le> n), se_attachment = (\<lambda>_. PollEmpty), se_others = (\<lambda>_. []),
     se_started_at = 1, se_completed_at = 2\<rparr>"

definition sample_sandbox :: sandbox_state where
  "sample_sandbox = \<lparr>sb_trace = [], sb_active = [], sb_confirmed = [], sb_health = NotChecked, sb_cleaned = False,
     sb_closed = False\<rparr>"

lemma sample_env_sel [simp]:
  "se_tree sample_env = sample_tree" "se_remove_ok sample_env" "se_others sample_env n = []"
  "se_expired sample_env n \<longleftrightarrow> 3 \<le> n" "se_started_at sample_env = 1" "se_completed_at sample_env = 2"
  "se_cidfile sample_env = Some sample_cid" "se_temporary_root sample_env = ''/tmp''"
  "se_temporary_name sample_env n = ''box''" "se_mkdir sample_env n = DirCreated" "se_private_ok sample_env"
  "se_runtime_dir_ok sample_env" "se_runtime_mode_ok sample_env" "se_env_open_ok sample_env"
  "se_env_mode_ok sample_env" "se_env_write_ok sample_env"
  "se_json sample_env b = Some (JObject [(''Running'', JBool False), (''OOMKilled'', JBool False),
     (''ExitCode'', JNumber (PosInt 0))])"
  by (simp_all add: sample_env_def)

theorem monitor_ends_by_deadline_witness:
  "\<exists>v t. monitor_container sample_ext sample_env sample_cid False 4 0 False sample_sandbox = Some (v, t)"
  using monitor_ends_by_deadline [of sample_env 3 sample_ext sample_cid False False sample_sandbox]
  by (simp del: monitor_container.simps)

definition sample_box :: sandbox_request where
  "sample_box = sample_sandbox_request\<lparr>sr_image := DigestPinnedImageRef (''sha256:'' @ replicate 64 (CHR ''a''))\<rparr>"

lemma sample_box_sel [simp]:
  "sr_run_id sample_box = run0" "mount_path (sr_input_directory sample_box) = ''/in''"
  "mount_path (sr_output_directory sample_box) = ''/out''" "sc_stdin (sr_command sample_box) = []"
  "sc_environment (sr_command sample_box) = []"
  by (simp_all add: sample_box_def sample_sandbox_request_def)

lemmas path_eval = path_join_def starts_with_def ends_with_def suffix_to_prefix

lemma sample_outputs: "collect_output_paths sample_tree ''/out'' = Inr [RelPath ''a.txt'']"
  by (simp add: collect_output_paths_def collect_dirs.simps sample_tree_def path_eval
    strip_root_def path_starts_with_def path_components_def valid_utf8.simps parse_rel_path_def is_portable_byte_def
    ascii_defs ok_or_def Let_def)

theorem collected_outputs_are_exact_witness:
  "tree_files sample_tree ''/out'' {''/out''} = {Some ''a.txt''} \<and> tree_plain sample_tree {''/out''}"
  using collected_outputs_are_exact [OF sample_outputs] by simp

abbreviation sample_answer :: cli_output where
  "sample_answer \<equiv> \<lparr>co_success = True, co_stdout = [], co_stderr = [], co_truncated = False\<rparr>"

lemma sample_invoke: "invoke sample_env args s = (Inr sample_answer, s\<lparr>sb_trace := sb_trace s @ [CliRun args]\<rparr>)"
  by (simp add: invoke_def emit_def bnd_def op_defs sample_env_def)

lemma sample_mount: "validate_mount (tv_metadata sample_tree) p = Inr ()" if "p \<noteq> ''/out/a.txt''"
  using that by (simp add: validate_mount_def sample_tree_def ok_or_def)

lemma sample_temporary:
  "create_temporary sample_env sample_sandbox
    = (Inr ''/tmp/box'', sample_sandbox\<lparr>sb_trace := [MakeDir ''/tmp/box'', MakeDir ''/tmp/box/runtime'']\<rparr>)"
proof -
  have "allocate_directory sample_env (Suc k) 0 sample_sandbox
      = (Inr ''/tmp/box'', sample_sandbox\<lparr>sb_trace := [MakeDir ''/tmp/box'', MakeDir ''/tmp/box/runtime'']\<rparr>)" for k
    by (simp add: path_eval emit_def op_defs ensure_def sample_sandbox_def Let_def)
  from this [of 31] show ?thesis by (simp add: create_temporary_def sample_mount op_defs)
qed

lemma sample_arguments:
  "\<exists>args. create_arguments sample_box ''/tmp/box/runtime'' ''/tmp/box/container.id'' ''/tmp/box/container.env'' = Inr args"
  by (simp add: create_arguments_def mount_argument_def valid_utf8.simps byte_def sample_box_def
    sample_sandbox_request_def Let_def)

lemma sample_guarded:
  assumes "sb_active s = []"
  shows "\<exists>res t. with_guard sample_env sample_cid
      (guarded_execution sample_ext sample_env 1 sample_cid d sample_box (Inr sample_answer)) s = (Inr (Some res), t)
    \<and> sx_termination res = TermExited"
  using assms
  by (simp add: with_guard_def guarded_execution_def with_registration_def run_container_def
    monitor_round_def sample_invoke inspect_def container_state_of_def state_bool_def i32_of_def
    finish_container_def fetch_logs_def guard_cleanup_def invoke_succeeds_def best_effort_def close_temporary_def
    emit_def decode_output_def valid_utf8.simps sample_outputs validate_sandbox_result_def sample_cid_def
    op_defs ok_or_def Let_def)

lemma sample_box_runs:
  "\<exists>res t. execute_inner sample_ext sample_env 1 sample_box sample_sandbox = (Inr (Some res), t)
     \<and> sx_termination res = TermExited"
proof -
  obtain args where a: "create_arguments sample_box ''/tmp/box/runtime'' ''/tmp/box/container.id'' ''/tmp/box/container.env''
      = Inr args" using sample_arguments by blast
  let ?s = "sample_sandbox\<lparr>sb_trace := [MakeDir ''/tmp/box'', MakeDir ''/tmp/box/runtime'',
      WriteFile ''/tmp/box/container.env'' [], CliRun args]\<rparr>"
  from sample_guarded [of "?s" "''/tmp/box''"] obtain res t where
    g: "with_guard sample_env sample_cid
      (guarded_execution sample_ext sample_env 1 sample_cid ''/tmp/box'' sample_box (Inr sample_answer)) ?s = (Inr (Some res), t)"
    "sx_termination res = TermExited" by (auto simp: sample_sandbox_def)
  have f: "sample_sandbox\<lparr>sb_trace := tr, sb_closed := False\<rparr> = sample_sandbox\<lparr>sb_trace := tr\<rparr>" for tr
    by (simp add: sample_sandbox_def)
  from g show ?thesis
    by (simp add: execute_inner_def sample_mount sample_temporary with_temporary_def write_environment_def
      a sample_invoke read_container_id_def sample_container_id path_eval emit_def op_defs ok_or_def ensure_def Let_def f)
qed

theorem verdict_is_earned_witness:
  "\<exists>res t. execute_inner sample_ext sample_env 1 sample_box sample_sandbox = (Inr (Some res), t)
     \<and> (\<exists>k. sx_exit_code res = Some k) \<and> sx_sandbox_id res = sample_cid"
proof -
  obtain res t where e: "execute_inner sample_ext sample_env 1 sample_box sample_sandbox = (Inr (Some res), t)"
    "sx_termination res = TermExited" using sample_box_runs by blast
  from verdict_is_earned [OF e(1)] e show ?thesis
    by (auto simp: read_container_id_def ok_or_def sample_container_id)
qed

theorem container_always_removed_witness:
  "\<exists>res t d. execute_inner sample_ext sample_env 1 sample_box sample_sandbox = (Inr (Some res), t)
     \<and> MakeDir d \<in> set (sb_trace t) \<and> RemoveTree d \<in> set (sb_trace t)
     \<and> CliRun (remove_arguments sample_cid) \<in> set (sb_trace t)"
proof -
  obtain res t where e: "execute_inner sample_ext sample_env 1 sample_box sample_sandbox = (Inr (Some res), t)"
    using sample_box_runs by blast
  from container_always_removed [OF e] have "\<exists>d. MakeDir d \<in> set (sb_trace t) \<and> RemoveTree d \<in> set (sb_trace t)
      \<and> CliRun (remove_arguments sample_cid) \<in> set (sb_trace t)"
    by (fastforce simp: is_ok_iff sample_sandbox_def read_container_id_def ok_or_def sample_container_id)
  with e show ?thesis by blast
qed

text \<open>
  A directory whose permissions cannot be set is left behind: the value that owns it, and whose
  destructor would remove it, does not exist yet.
\<close>

lemma unprepared_directory_stays:
  "execute_inner sample_ext (sample_env\<lparr>se_private_ok := False\<rparr>) 1 sample_box sample_sandbox =
     (Inl (sandbox_error Io ''temporary permissions failed''), sample_sandbox\<lparr>sb_trace := [MakeDir ''/tmp/box'']\<rparr>)"
proof -
  have "allocate_directory (sample_env\<lparr>se_private_ok := False\<rparr>) (Suc k) 0 sample_sandbox =
      (Inl (sandbox_error Io ''temporary permissions failed''), sample_sandbox\<lparr>sb_trace := [MakeDir ''/tmp/box'']\<rparr>)" for k
    by (simp add: path_eval emit_def op_defs ensure_def sample_sandbox_def Let_def)
  from this [of 31] show ?thesis by (simp add: execute_inner_def create_temporary_def sample_mount op_defs)
qed

theorem container_is_hardened_witness:
  "\<exists>args rest opts. create_arguments sample_box ''/tmp/box/runtime'' ''/tmp/box/container.id'' ''/tmp/box/container.env'' = Inr args
     \<and> args = ''create'' # rest \<and> read_options rest = (opts, [image_str (sr_image sample_box), ''/bin/true''])
     \<and> option_values opts ''--network'' = [''none'']"
proof -
  obtain args where a: "create_arguments sample_box ''/tmp/box/runtime'' ''/tmp/box/container.id'' ''/tmp/box/container.env''
      = Inr args" using sample_arguments by blast
  have "is_digest_pinned_image (image_str (sr_image sample_box))"
    by (simp add: sample_box_def is_digest_pinned_image_def starts_with_def strip_prefix_def
      valid_sha256_digest_def list_all_iff list_ex_iff ascii_defs)
  from container_is_hardened [OF a this] a show ?thesis
    by (simp add: sample_box_def sample_sandbox_request_def) blast
qed

definition sample_environment_text :: string where
  "sample_environment_text = ''A=1=2'' @ CHR 0x0A # ''B_C='' @ [CHR 0x0A]"

theorem environment_file_roundtrip_witness:
  "environment_text [(''A'', ''1=2''), (''B_C'', [])] [] = Inr sample_environment_text \<and>
   read_environment sample_environment_text = [(''A'', ''1=2''), (''B_C'', [])]"
proof -
  have t: "environment_text [(''A'', ''1=2''), (''B_C'', [])] [] = Inr sample_environment_text"
    by (simp add: sample_environment_text_def)
  have "list_all (\<lambda>(k, v). valid_environment_name k) [(''A'', ''1=2''), (''B_C'', [])]"
    by (simp add: valid_environment_name_def ascii_defs)
  with environment_file_roundtrip [OF t] t show ?thesis by blast
qed

definition sample_process :: cli_process where
  \<comment> \<open>exits in its second poll, after more output than the limit\<close>
  "sample_process = \<lparr>cp_spawned = True, cp_pipes = True,
     cp_wait = (\<lambda>n. if n = 0 then WaitRunning else WaitExited True), cp_elapsed = (\<lambda>n. 2 \<le> n), cp_reaped = True,
     cp_chunks = [(True, ''abc''), (False, ''d'')], cp_stdout_end = ReaderDone, cp_stderr_end = ReaderDone\<rparr>"

lemma sample_process_sel:
  "cp_spawned sample_process" "cp_pipes sample_process" "cp_reaped sample_process" "cp_stdout_end sample_process = ReaderDone"
  "cp_stderr_end sample_process = ReaderDone" "cp_chunks sample_process = [(True, ''abc''), (False, ''d'')]"
  by (simp_all add: sample_process_def)

theorem cli_call_is_bounded_witness:
  "\<exists>out. system_cli_run Podman 2 sample_process 3 = Some (Inr out) \<and> co_stdout out = ''ab'' \<and> co_truncated out
     \<and> length (co_stdout out) + length (co_stderr out) \<le> 2 \<and> unat (2 :: u64) < delivered (cp_chunks sample_process)"
proof -
  let ?out = "\<lparr>co_success = True, co_stdout = ''ab'', co_stderr = [], co_truncated = True\<rparr>"
  have "cp_elapsed sample_process 2" by (simp add: sample_process_def)
  with cli_call_is_bounded [of Podman 2 sample_process 3 ?out 2]
  have r: "\<exists>r. system_cli_run Podman 2 sample_process 3 = Some r"
    by (simp del: wait_loop.simps add: sample_process_sel)
  have w: "wait_loop Podman sample_process 3 0 = Some (Inr True)"
    by (simp add: numeral_3_eq_3 sample_process_def)
  have o: "system_cli_run Podman 2 sample_process 3 = Some (Inr ?out)"
    using w by (simp del: wait_loop.simps add: system_cli_run_def sample_process_sel capture_all_def capture_chunk_def
      new_capture_def Let_def)
  with cli_call_is_bounded [of Podman 2 sample_process 3 ?out 2] r show ?thesis by auto
qed

end
