(* ===== verification/Runtime_Tasks.thy ===== *)
theory Runtime_Tasks
  imports Sandbox Store_State
begin

text \<open>
  Provider tasks (\<^verbatim>\<open>crates/openwork-runtime/src/task\<close>): preparing the shell-free invocation of the four
  providers, and decoding what a provider wrote into bounded, redacted runtime events. The raw JSON
  reader is a parameter that returns the document with its entries in order, duplicates included, and
  whether anything but white space follows; the strict visitor that rejects duplicate keys is the
  crate's own and is modelled. The clock is a function of the sequence number of the event it stamps.
\<close>

section \<open>Bounds\<close>

definition max_provider_line_bytes :: nat where
  "max_provider_line_bytes = 64 * 1024"

definition max_runtime_event_bytes :: nat where
  "max_runtime_event_bytes = 16 * 1024"

definition max_runtime_events :: u64 where
  "max_runtime_events = 4096"

definition max_runtime_prompt_bytes :: nat where
  "max_runtime_prompt_bytes = 1024 * 1024"

definition runtime_error :: "string \<Rightarrow> openwork_error" where
  "runtime_error msg = new_error ExecutionFailed msg"

definition usize_add :: "nat \<Rightarrow> nat \<Rightarrow> nat option" where
  \<comment> \<open>\<^verbatim>\<open>checked_add\<close> of lengths\<close>
  "usize_add a b = (if a + b < 2 ^ 64 then Some (a + b) else None)"

definition validate_line :: "string \<Rightarrow> unit result" where
  "validate_line line =
     (if line = [] \<or> length line > max_provider_line_bytes
      then Inl (runtime_error ''provider output line is empty or oversized'')
      else Inr ())"

definition bounded_redacted_text :: "string \<Rightarrow> string result" where
  "bounded_redacted_text s =
     (let t = redact_text s
      in if length t > max_runtime_event_bytes
         then Inl (runtime_error ''provider event text exceeds the event limit'') else Inr t)"

definition bounded_redacted_value :: "ext \<Rightarrow> json \<Rightarrow> json result" where
  "bounded_redacted_value X v =
     (let t = redact_json v
      in if length (json_to_string X t) > max_runtime_event_bytes
         then Inl (runtime_error ''provider event value exceeds the event limit'') else Inr t)"

definition metadata_from_untrusted :: "ext \<Rightarrow> json \<Rightarrow> redacted_metadata result" where
  "metadata_from_untrusted X v =
     (case v of
        JObject entries \<Rightarrow>
          let metadata = from_untrusted entries
          in if length (json_to_string X (JObject (as_map metadata))) > max_runtime_event_bytes
             then Inl (runtime_error ''provider metadata exceeds the event limit'')
             else Inr metadata
      | _ \<Rightarrow> Inl (runtime_error ''provider metadata must be an object''))"

definition empty_metadata :: redacted_metadata where
  "empty_metadata = from_untrusted []"

definition payload_bytes :: "ext \<Rightarrow> event_payload \<Rightarrow> nat option" where
  "payload_bytes X payload =
     (case payload of
        PStarted \<Rightarrow> Some 0
      | PCancelled \<Rightarrow> Some 0
      | PStdout chunk _ \<Rightarrow> Some (length chunk)
      | PStderr chunk _ \<Rightarrow> Some (length chunk)
      | PMessage content \<Rightarrow> Some (length content)
      | PToolCall name parameters \<Rightarrow> usize_add (length name) (length (json_to_string X parameters))
      | PArtifact relative_path \<Rightarrow> Some (length relative_path)
      | PCompleted _ \<Rightarrow> Some 4
      | PFailed machine_code text \<Rightarrow> usize_add (length machine_code) (length text))"

definition ensure_event_bounds :: "ext \<Rightarrow> event_payload \<Rightarrow> redacted_metadata \<Rightarrow> unit result" where
  "ensure_event_bounds X payload metadata =
     res_bind (ok_or (payload_bytes X payload) (runtime_error ''runtime event size overflowed'')) (\<lambda>bytes.
     res_bind (ok_or (Option.bind (usize_add bytes (length (json_to_string X (JObject (as_map metadata)))))
         (\<lambda>n. usize_add n 512)) (runtime_error ''runtime event size overflowed'')) (\<lambda>estimated.
     if estimated > max_runtime_event_bytes
     then Inl (runtime_error ''runtime event exceeds the event limit'') else Inr ()))"

section \<open>Strict JSON lines\<close>

fun strict_value :: "json \<Rightarrow> json option"
  and strict_values :: "json list \<Rightarrow> json list option"
  and strict_entries :: "(string \<times> json) list \<Rightarrow> (string, json) btree_map \<Rightarrow> (string, json) btree_map option" where
  "strict_value (JArray vs) = map_option JArray (strict_values vs)"
| "strict_value (JObject es) = map_option JObject (strict_entries es [])"
| "strict_value v = Some v"
| "strict_values [] = Some []"
| "strict_values (v # vs) =
     Option.bind (strict_value v) (\<lambda>w. map_option ((#) w) (strict_values vs))"
| "strict_entries [] seen = Some seen"
| "strict_entries ((key, v) # es) seen =
     (if bm_contains seen key then None
      else Option.bind (strict_value v) (\<lambda>w. strict_entries es (bm_insert key w seen)))"

type_synonym json_reader = "string \<Rightarrow> (json \<times> bool) option"

definition parse_json_line :: "json_reader \<Rightarrow> string \<Rightarrow> json result" where
  "parse_json_line raw line =
     res_bind (validate_line line) (\<lambda>_.
     case raw line of
       None \<Rightarrow> Inl (runtime_error ''provider emitted malformed JSONL'')
     | Some (document, finished) \<Rightarrow>
         res_bind (ok_or (strict_value document) (runtime_error ''provider emitted malformed JSONL'')) (\<lambda>v.
         if finished then Inr v else Inl (runtime_error ''provider JSONL has trailing data'')))"

fun json_pointer :: "json \<Rightarrow> string list \<Rightarrow> json option" where
  "json_pointer v [] = Some v"
| "json_pointer v (key # keys) = Option.bind (json_get v key) (\<lambda>w. json_pointer w keys)"

fun json_as_array :: "json \<Rightarrow> json list option" where
  "json_as_array (JArray vs) = Some vs"
| "json_as_array _ = None"

definition get_str :: "json \<Rightarrow> string \<Rightarrow> string option" where
  \<comment> \<open>\<^verbatim>\<open>value.get(key).and_then(Value::as_str)\<close>\<close>
  "get_str v key = Option.bind (json_get v key) json_as_str"

definition get_bool :: "json \<Rightarrow> string \<Rightarrow> bool option" where
  "get_bool v key = Option.bind (json_get v key) json_as_bool"

definition get_or_null :: "json \<Rightarrow> string \<Rightarrow> json" where
  \<comment> \<open>an absent member becomes null in \<^verbatim>\<open>json!\<close> and in \<^verbatim>\<open>unwrap_or(&Value::Null)\<close>\<close>
  "get_or_null v key = (case json_get v key of None \<Rightarrow> JNull | Some w \<Rightarrow> w)"

section \<open>The event factory\<close>

record event_factory =
  ef_run_id :: run_id
  ef_next_sequence :: u64
  ef_terminal :: bool

type_synonym 'a factory_op = "(event_factory, openwork_error, 'a) op"

record decode_env =
  de_ext :: ext
  de_raw :: json_reader
  de_clock :: "u64 \<Rightarrow> timestamp"

definition new_factory :: "run_id \<Rightarrow> event_factory" where
  "new_factory rid = \<lparr>ef_run_id = rid, ef_next_sequence = 1, ef_terminal = False\<rparr>"

definition factory_event :: "decode_env \<Rightarrow> event_payload \<Rightarrow> redacted_metadata \<Rightarrow> runtime_event factory_op" where
  "factory_event D payload metadata =
     bnd (check (\<lambda>f. \<not> (ef_terminal f \<or> ef_next_sequence f > max_runtime_events))
       (runtime_error ''runtime event stream is terminal or exhausted'')) (\<lambda>_.
     bnd (lift_res (ensure_event_bounds (de_ext D) payload metadata)) (\<lambda>_.
     bnd (gets ef_run_id) (\<lambda>rid.
     bnd (gets ef_next_sequence) (\<lambda>sequence.
     bnd (lift_res (ok_or (checked_add sequence 1) (runtime_error ''runtime event sequence overflowed''))) (\<lambda>next.
     bnd (modify (\<lambda>f. f\<lparr>ef_next_sequence := next\<rparr>)) (\<lambda>_.
     ret \<lparr>re_schema_version = SchemaVersion, re_run_id = rid, re_sequence = sequence,
          re_timestamp = de_clock D sequence, re_payload = payload, re_vendor_metadata = metadata\<rparr>))))))"

definition factory_fail :: "decode_env \<Rightarrow> string \<Rightarrow> string \<Rightarrow> redacted_metadata \<Rightarrow> runtime_event factory_op" where
  "factory_fail D machine_code text metadata =
     bnd (lift_res (bounded_redacted_text text)) (\<lambda>t.
     bnd (factory_event D (PFailed machine_code t) metadata) (\<lambda>event.
     bnd (modify (\<lambda>f. f\<lparr>ef_terminal := True\<rparr>)) (\<lambda>_.
     ret event)))"

definition factory_stderr :: "decode_env \<Rightarrow> string \<Rightarrow> runtime_event factory_op" where
  "factory_stderr D line =
     bnd (lift_res (validate_line line)) (\<lambda>_.
     if \<not> valid_utf8 line then fail_with (runtime_error ''provider stderr is not valid UTF-8'')
     else
       bnd (lift_res (bounded_redacted_text line)) (\<lambda>chunk.
       factory_event D (PStderr chunk False) empty_metadata))"

definition factory_finish :: "decode_env \<Rightarrow> i32 \<Rightarrow> runtime_event option factory_op" where
  "factory_finish D status =
     bnd (gets ef_terminal) (\<lambda>terminal.
     if terminal then ret None
     else
       bnd (if status = 0 then factory_event D (PCompleted status) empty_metadata
            else factory_fail D ''provider_exit_nonzero'' ''provider process exited unsuccessfully'' empty_metadata)
         (\<lambda>event.
       bnd (modify (\<lambda>f. f\<lparr>ef_terminal := True\<rparr>)) (\<lambda>_.
       ret (Some event))))"

fun op_map :: "('a \<Rightarrow> ('s, 'e, 'b) op) \<Rightarrow> 'a list \<Rightarrow> ('s, 'e, 'b list) op" where
  \<comment> \<open>\<^verbatim>\<open>iter().map(..).collect()\<close> into a \<^verbatim>\<open>Result\<close>\<close>
  "op_map h [] = ret []"
| "op_map h (x # xs) = bnd (h x) (\<lambda>y. bnd (op_map h xs) (\<lambda>ys. ret (y # ys)))"

definition one :: "('s, 'e, 'a) op \<Rightarrow> ('s, 'e, 'a list) op" where
  \<comment> \<open>\<^verbatim>\<open>Ok(vec![e?])\<close>\<close>
  "one m = bnd m (\<lambda>x. ret [x])"

definition vendor_message :: "decode_env \<Rightarrow> string \<Rightarrow> json \<Rightarrow> string \<Rightarrow> runtime_event factory_op" where
  \<comment> \<open>a fixed message with the \<^verbatim>\<open>unknown_metadata\<close> of Claude and Codex\<close>
  "vendor_message D text v event_type =
     bnd (lift_res (metadata_from_untrusted (de_ext D)
       (JObject [(''provider_event_type'', JString event_type), (''vendor_payload'', v)]))) (\<lambda>metadata.
     factory_event D (PMessage text) metadata)"

section \<open>Claude\<close>

definition claude_metadata :: "decode_env \<Rightarrow> json \<Rightarrow> redacted_metadata result" where
  "claude_metadata D v = metadata_from_untrusted (de_ext D)
     (JObject [(''provider_event_type'', get_or_null v ''type''),
       (''provider_event_subtype'', get_or_null v ''subtype''), (''is_error'', get_or_null v ''is_error'')])"

definition claude_block :: "decode_env \<Rightarrow> json \<Rightarrow> runtime_event factory_op" where
  "claude_block D block =
     (if get_str block ''type'' = Some ''text''
      then
        bnd (lift_res (ok_or (get_str block ''text'') (runtime_error ''Claude text block omitted text''))) (\<lambda>text.
        bnd (lift_res (bounded_redacted_text text)) (\<lambda>content.
        factory_event D (PMessage content) empty_metadata))
      else if get_str block ''type'' = Some ''tool_use''
      then
        bnd (lift_res (ok_or (get_str block ''name'')
          (runtime_error ''Claude tool event omitted the tool name''))) (\<lambda>name.
        if name = [] \<or> length name > 256 then fail_with (runtime_error ''Claude tool name is invalid'')
        else
          bnd (lift_res (bounded_redacted_text name)) (\<lambda>name.
          bnd (lift_res (bounded_redacted_value (de_ext D) (get_or_null block ''input''))) (\<lambda>parameters.
          factory_event D (PToolCall name parameters) empty_metadata)))
      else vendor_message D ''Claude vendor content block omitted'' block ''assistant.content.unknown'')"

definition claude_assistant :: "decode_env \<Rightarrow> json \<Rightarrow> runtime_event list factory_op" where
  "claude_assistant D v =
     bnd (lift_res (ok_or (Option.bind (json_pointer v [''message'', ''content'']) json_as_array)
       (runtime_error ''Claude assistant event omitted content''))) (\<lambda>content.
     if length content > 128 then fail_with (runtime_error ''Claude assistant event has too many blocks'')
     else op_map (claude_block D) content)"

definition claude_decode :: "decode_env \<Rightarrow> string \<Rightarrow> runtime_event list factory_op" where
  "claude_decode D line =
     bnd (lift_res (parse_json_line (de_raw D) line)) (\<lambda>v.
     bnd (lift_res (ok_or (get_str v ''type'') (runtime_error ''Claude event omitted its type''))) (\<lambda>event_type.
     if event_type = ''system'' \<and> get_str v ''subtype'' = Some ''init''
     then one (bnd (lift_res (claude_metadata D v)) (factory_event D PStarted))
     else if event_type = ''assistant'' then claude_assistant D v
     else if event_type = ''result'' \<and> get_bool v ''is_error'' = Some True
     then
       one (bnd (lift_res (claude_metadata D v))
         (factory_fail D ''claude_result_error''
           (case get_str v ''result'' of None \<Rightarrow> ''Claude reported a provider failure'' | Some t \<Rightarrow> t)))
     else if event_type = ''result''
     then one (bnd (lift_res (claude_metadata D v)) (factory_event D (PMessage ''Claude provider result received'')))
     else one (vendor_message D ''Claude vendor event omitted'' v event_type)))"

section \<open>Codex\<close>

definition codex_metadata :: "decode_env \<Rightarrow> json \<Rightarrow> redacted_metadata result" where
  "codex_metadata D v = metadata_from_untrusted (de_ext D)
     (JObject [(''provider_event_type'', get_or_null v ''type''), (''thread_id'', get_or_null v ''thread_id'')])"

definition codex_item :: "decode_env \<Rightarrow> json \<Rightarrow> runtime_event list factory_op" where
  "codex_item D v =
     bnd (lift_res (ok_or (json_get v ''item'') (runtime_error ''Codex item event omitted its item''))) (\<lambda>item.
     bnd (lift_res (ok_or (get_str item ''type'') (runtime_error ''Codex item omitted its type''))) (\<lambda>item_type.
     if item_type = ''agent_message''
     then
       one (bnd (lift_res (ok_or (get_str item ''text'') (runtime_error ''Codex agent message omitted text''))) (\<lambda>text.
         bnd (lift_res (bounded_redacted_text text)) (\<lambda>content.
         factory_event D (PMessage content) empty_metadata)))
     else if item_type \<in> {''command_execution'', ''file_change'', ''mcp_tool_call'', ''web_search''}
     then
       one (bnd (lift_res (bounded_redacted_value (de_ext D) item)) (\<lambda>parameters.
         factory_event D (PToolCall item_type parameters) empty_metadata))
     else one (vendor_message D ''Codex vendor item omitted'' item item_type)))"

definition codex_decode :: "decode_env \<Rightarrow> string \<Rightarrow> runtime_event list factory_op" where
  "codex_decode D line =
     bnd (lift_res (parse_json_line (de_raw D) line)) (\<lambda>v.
     bnd (lift_res (ok_or (get_str v ''type'') (runtime_error ''Codex event omitted its type''))) (\<lambda>event_type.
     if event_type = ''thread.started''
     then one (bnd (lift_res (codex_metadata D v)) (factory_event D PStarted))
     else if event_type = ''item.completed'' then codex_item D v
     else if event_type = ''error'' \<or> event_type = ''turn.failed''
     then
       (let found = (case json_get v ''message'' of None \<Rightarrow> json_pointer v [''error'', ''message''] | Some w \<Rightarrow> Some w);
            text = (case Option.bind found json_as_str of None \<Rightarrow> ''Codex reported a provider failure'' | Some t \<Rightarrow> t)
        in one (bnd (lift_res (codex_metadata D v)) (factory_fail D ''codex_provider_error'' text)))
     else if event_type = ''turn.completed''
     then one (bnd (lift_res (codex_metadata D v)) (factory_event D (PMessage ''Codex provider turn completed'')))
     else one (vendor_message D ''Codex vendor event omitted'' v event_type)))"

section \<open>OpenCode\<close>

definition opencode_metadata :: "decode_env \<Rightarrow> json \<Rightarrow> redacted_metadata result" where
  "opencode_metadata D v = metadata_from_untrusted (de_ext D)
     (JObject [(''provider_event_type'', get_or_null v ''type''), (''session_id'', get_or_null v ''sessionID'')])"

definition opencode_part :: "decode_env \<Rightarrow> json \<Rightarrow> runtime_event list factory_op" where
  "opencode_part D v =
     bnd (lift_res (ok_or
       (case json_pointer v [''properties'', ''part''] of None \<Rightarrow> json_get v ''part'' | Some p \<Rightarrow> Some p)
       (runtime_error ''OpenCode part event omitted its part''))) (\<lambda>part.
     if get_str part ''type'' = Some ''text''
     then
       bnd (lift_res (ok_or
         (Option.bind (case json_get part ''text'' of None \<Rightarrow> json_get part ''content'' | Some t \<Rightarrow> Some t) json_as_str)
         (runtime_error ''OpenCode text part omitted content''))) (\<lambda>text.
       one (bnd (lift_res (bounded_redacted_text text)) (\<lambda>content.
         bnd (lift_res (opencode_metadata D v)) (factory_event D (PMessage content)))))
     else if get_str part ''type'' = Some ''tool''
     then
       one (bnd (lift_res (bounded_redacted_value (de_ext D) part)) (\<lambda>parameters.
         bnd (lift_res (opencode_metadata D v)) (factory_event D (PToolCall ''opencode.tool'' parameters))))
     else ret [])"

definition opencode_decode :: "decode_env \<Rightarrow> string \<Rightarrow> runtime_event list factory_op" where
  "opencode_decode D line =
     bnd (lift_res (parse_json_line (de_raw D) line)) (\<lambda>v.
     bnd (lift_res (ok_or (get_str v ''type'') (runtime_error ''OpenCode event omitted its type''))) (\<lambda>event_type.
     if event_type = ''session.created'' \<or> event_type = ''session.status''
     then one (bnd (lift_res (opencode_metadata D v)) (factory_event D PStarted))
     else if event_type = ''message.part.updated'' then opencode_part D v
     else if event_type = ''tool_use''
     then
       (let name = (case Option.bind (json_pointer v [''part'', ''tool'']) json_as_str of
                      None \<Rightarrow> ''opencode.tool'' | Some t \<Rightarrow> t)
        in one (bnd (lift_res (bounded_redacted_value (de_ext D) (get_or_null v ''part''))) (\<lambda>parameters.
             bnd (lift_res (opencode_metadata D v)) (factory_event D (PToolCall name parameters)))))
     else if event_type = ''session.error'' \<or> event_type = ''error''
     then
       (let found = (case json_pointer v [''properties'', ''error'', ''message''] of
                       None \<Rightarrow> json_get v ''message'' | Some w \<Rightarrow> Some w);
            text = (case Option.bind found json_as_str of None \<Rightarrow> ''OpenCode reported a provider failure'' | Some t \<Rightarrow> t)
        in one (bnd (lift_res (opencode_metadata D v)) (factory_fail D ''opencode_provider_error'' text)))
     else ret []))"

section \<open>Pi\<close>

definition pi_metadata :: "decode_env \<Rightarrow> json \<Rightarrow> redacted_metadata result" where
  "pi_metadata D v = metadata_from_untrusted (de_ext D)
     (JObject [(''provider_event_type'', get_or_null v ''type''), (''command'', get_or_null v ''command'')])"

definition pi_decode :: "decode_env \<Rightarrow> string \<Rightarrow> runtime_event list factory_op" where
  "pi_decode D line =
     bnd (lift_res (parse_json_line (de_raw D) line)) (\<lambda>v.
     bnd (lift_res (ok_or (get_str v ''type'') (runtime_error ''Pi event omitted its type''))) (\<lambda>event_type.
     if event_type \<in> {''session'', ''agent_start'', ''turn_start''}
     then one (bnd (lift_res (pi_metadata D v)) (factory_event D PStarted))
     else if event_type = ''message_update''
     then
       bnd (lift_res (ok_or (json_get v ''assistantMessageEvent'')
         (runtime_error ''Pi message update omitted assistant event''))) (\<lambda>update.
       if get_str update ''type'' = Some ''text_delta''
       then
         bnd (lift_res (ok_or (get_str update ''delta'') (runtime_error ''Pi text delta omitted text''))) (\<lambda>text.
         one (bnd (lift_res (bounded_redacted_text text)) (\<lambda>content.
           bnd (lift_res (pi_metadata D v)) (factory_event D (PMessage content)))))
       else ret [])
     else if event_type = ''tool_execution_start''
     then
       bnd (lift_res (ok_or (get_str v ''toolName'') (runtime_error ''Pi tool event omitted name''))) (\<lambda>name.
       one (bnd (lift_res (bounded_redacted_text name)) (\<lambda>name.
         bnd (lift_res (bounded_redacted_value (de_ext D) (get_or_null v ''args''))) (\<lambda>parameters.
         bnd (lift_res (pi_metadata D v)) (factory_event D (PToolCall name parameters))))))
     else if event_type = ''response'' \<and> get_bool v ''success'' = Some False
     then
       one (bnd (lift_res (pi_metadata D v)) (factory_fail D ''pi_rpc_rejected''
         (case get_str v ''error'' of None \<Rightarrow> ''Pi rejected the RPC command'' | Some t \<Rightarrow> t)))
     else if event_type = ''error''
     then
       one (bnd (lift_res (pi_metadata D v)) (factory_fail D ''pi_provider_error''
         (case get_str v ''message'' of None \<Rightarrow> ''Pi reported a provider failure'' | Some t \<Rightarrow> t)))
     else ret []))"

section \<open>Adapters\<close>

datatype provider = Claude | Codex | OpenCode | Pi

fun runtime_id :: "provider \<Rightarrow> string" where
  "runtime_id Claude = ''claude-code''"
| "runtime_id Codex = ''codex''"
| "runtime_id OpenCode = ''opencode''"
| "runtime_id Pi = ''pi''"

record runtime_invocation =
  ri_command :: sandbox_command
  ri_working_directory :: working_directory
  ri_stdin :: string

definition validate_task :: "ext \<Rightarrow> runtime_task \<Rightarrow> string \<Rightarrow> unit result" where
  "validate_task X task provider =
     res_bind (validate_runtime_task X task) (\<lambda>_.
     if rt_runtime task \<noteq> provider \<or> length (rt_prompt task) > max_runtime_prompt_bytes
     then Inl (runtime_error ''runtime task does not match the provider or size limit'')
     else if list_ex (\<lambda>c. c \<noteq> ''filesystem.read'' \<and> c \<noteq> ''filesystem.write'') (rt_capabilities task)
     then Inl (runtime_error ''runtime task requests an unsupported capability'')
     else if \<not> list_ex (\<lambda>c. c = ''filesystem.read'') (rt_capabilities task)
     then Inl (runtime_error ''provider tasks require the filesystem.read capability'')
     else Inr ())"

definition can_write :: "runtime_task \<Rightarrow> bool" where
  "can_write task = list_ex (\<lambda>c. c = ''filesystem.write'') (rt_capabilities task)"

definition claude_arguments :: "runtime_task \<Rightarrow> string list" where
  "claude_arguments task =
     [''--safe-mode'', ''--print'', ''--output-format'', ''stream-json'', ''--verbose'',
      ''--no-session-persistence'', ''--no-chrome'', ''--disable-slash-commands'', ''--strict-mcp-config'',
      ''--tools'', if can_write task then ''Read,Write,Edit,Glob,Grep'' else ''Read,Glob,Grep'',
      ''--permission-mode'', if can_write task then ''acceptEdits'' else ''dontAsk'',
      ''Use the task supplied on standard input. Keep all file access inside the working directory.'']"

definition codex_arguments :: "runtime_task \<Rightarrow> string list" where
  "codex_arguments task =
     [''exec'', ''--json'', ''--ephemeral'', ''--ignore-user-config'', ''--ignore-rules'', ''--strict-config'',
      ''--sandbox'', if can_write task then ''workspace-write'' else ''read-only'',
      ''--cd'', workdir_str (rt_working_directory task), ''--skip-git-repo-check'', ''-'']"

definition opencode_arguments :: "string list" where
  "opencode_arguments = [''run'', ''--format'', ''json'']"

definition pi_arguments :: "string list" where
  "pi_arguments = [''--mode'', ''rpc'', ''--no-session'']"

fun provider_arguments :: "provider \<Rightarrow> runtime_task \<Rightarrow> string list" where
  "provider_arguments Claude task = claude_arguments task"
| "provider_arguments Codex task = codex_arguments task"
| "provider_arguments OpenCode task = opencode_arguments"
| "provider_arguments Pi task = pi_arguments"

definition pi_stdin :: "ext \<Rightarrow> runtime_task \<Rightarrow> string" where
  "pi_stdin X task =
     json_to_string X (JObject (bm_of_list [(''id'', JString ''openwork-task''), (''type'', JString ''prompt''),
       (''message'', JString (rt_prompt task))])) @ [CHR 0x0A]"

fun provider_stdin :: "ext \<Rightarrow> provider \<Rightarrow> runtime_task \<Rightarrow> string" where
  "provider_stdin X Pi task = pi_stdin X task"
| "provider_stdin X _ task = rt_prompt task"

definition prepare :: "ext \<Rightarrow> provider \<Rightarrow> string \<Rightarrow> runtime_task \<Rightarrow> runtime_invocation result" where
  "prepare X p container_executable task =
     res_bind (validate_task X task (runtime_id p)) (\<lambda>_.
     res_bind (new_command container_executable (provider_arguments p task) []) (\<lambda>command.
     Inr \<lparr>ri_command = command, ri_working_directory = rt_working_directory task,
          ri_stdin = provider_stdin X p task\<rparr>))"

definition into_sandbox_request ::
    "runtime_invocation \<Rightarrow> run_id \<Rightarrow> image_ref \<Rightarrow> sandbox_user \<Rightarrow> mount_dir \<Rightarrow> mount_dir \<Rightarrow> sandbox_limits
      \<Rightarrow> sandbox_request result" where
  "into_sandbox_request invocation rid img user input_directory output_directory limits =
     res_bind
       (if ri_stdin invocation \<noteq> []
        then command_with_stdin (sc_program (ri_command invocation)) (sc_arguments (ri_command invocation))
          (sc_environment (ri_command invocation)) (ri_stdin invocation)
        else Inr (ri_command invocation)) (\<lambda>command.
     new_sandbox_request rid img command user input_directory output_directory limits)"

section \<open>Decoding a sandbox result\<close>

text \<open>The trait \<^verbatim>\<open>RuntimeEventDecoder\<close>: a state and its three methods.\<close>

record 'd event_decoder =
  dc_stdout :: "string \<Rightarrow> ('d, openwork_error, runtime_event list) op"
  dc_stderr :: "string \<Rightarrow> ('d, openwork_error, runtime_event) op"
  dc_finish :: "i32 \<Rightarrow> ('d, openwork_error, runtime_event option) op"

fun provider_decode :: "decode_env \<Rightarrow> provider \<Rightarrow> string \<Rightarrow> runtime_event list factory_op" where
  "provider_decode D Claude = claude_decode D"
| "provider_decode D Codex = codex_decode D"
| "provider_decode D OpenCode = opencode_decode D"
| "provider_decode D Pi = pi_decode D"

definition provider_decoder :: "decode_env \<Rightarrow> provider \<Rightarrow> event_factory event_decoder" where
  "provider_decoder D p =
     \<lparr>dc_stdout = provider_decode D p, dc_stderr = factory_stderr D, dc_finish = factory_finish D\<rparr>"

datatype event_source = FromStdout | FromStderr | FromFinish

fun is_terminal_payload :: "event_payload \<Rightarrow> bool" where
  "is_terminal_payload (PCompleted _) = True"
| "is_terminal_payload (PFailed _ _) = True"
| "is_terminal_payload PCancelled = True"
| "is_terminal_payload _ = False"

definition is_terminal_event :: "runtime_event \<Rightarrow> bool" where
  "is_terminal_event e = is_terminal_payload (re_payload e)"

fun source_valid :: "event_source \<Rightarrow> event_payload \<Rightarrow> i32 option \<Rightarrow> bool" where
  "source_valid FromStdout payload _ = (case payload of PCompleted _ \<Rightarrow> False | PCancelled \<Rightarrow> False | _ \<Rightarrow> True)"
| "source_valid FromStderr payload _ = (case payload of PStderr _ _ \<Rightarrow> True | _ \<Rightarrow> False)"
| "source_valid FromFinish (PCompleted status) (Some observed) = (observed = 0 \<and> status = observed)"
| "source_valid FromFinish (PFailed _ _) (Some observed) = (observed \<noteq> 0)"
| "source_valid FromFinish _ _ = False"

definition append_decoded_event ::
    "ext \<Rightarrow> sandbox_result \<Rightarrow> event_source \<Rightarrow> runtime_event list \<Rightarrow> runtime_event \<Rightarrow> runtime_event list result" where
  "append_decoded_event X res source events event =
     (if events \<noteq> [] \<and> is_terminal_event (last events)
      then Inl (runtime_error ''runtime decoder emitted data after termination'')
      else
        res_bind (ok_or (Option.bind (u64_of_len (length events)) (\<lambda>n. checked_add n 1))
          (runtime_error ''runtime event sequence overflowed'')) (\<lambda>expected_sequence.
        if re_schema_version event \<noteq> SchemaVersion \<or> re_run_id event \<noteq> sx_run_id res
           \<or> re_sequence event \<noteq> expected_sequence \<or> re_sequence event > max_runtime_events
        then Inl (runtime_error ''runtime decoder emitted an invalid event envelope'')
        else
          res_bind (ensure_event_bounds X (re_payload event) (re_vendor_metadata event)) (\<lambda>_.
          if \<not> source_valid source (re_payload event) (sx_exit_code res)
          then Inl (runtime_error ''runtime decoder emitted an event from an invalid source'')
          else Inr (events @ [event]))))"

fun append_all ::
    "ext \<Rightarrow> sandbox_result \<Rightarrow> event_source \<Rightarrow> runtime_event list \<Rightarrow> runtime_event list \<Rightarrow> runtime_event list result" where
  "append_all X res source events [] = Inr events"
| "append_all X res source events (e # es) =
     res_bind (append_decoded_event X res source events e) (\<lambda>events. append_all X res source events es)"

definition str_lines :: "string \<Rightarrow> string list" where
  \<comment> \<open>\<^verbatim>\<open>str::lines\<close>: a line ends in a line feed, before which one carriage return is dropped\<close>
  "str_lines s =
     (let pieces = split_on CHR 0x0A s;
          strip = (\<lambda>l. if l \<noteq> [] \<and> last l = CHR 0x0D then butlast l else l)
      in map strip (butlast pieces) @ (if last pieces = [] then [] else [last pieces]))"

fun decode_stdout_lines ::
    "ext \<Rightarrow> 'd event_decoder \<Rightarrow> sandbox_result \<Rightarrow> runtime_event list \<Rightarrow> string list
      \<Rightarrow> ('d, openwork_error, runtime_event list) op" where
  "decode_stdout_lines X C res events [] = ret events"
| "decode_stdout_lines X C res events (line # lines) =
     bnd (dc_stdout C line) (\<lambda>new.
     bnd (lift_res (append_all X res FromStdout events new)) (\<lambda>events.
     decode_stdout_lines X C res events lines))"

fun decode_stderr_lines ::
    "ext \<Rightarrow> 'd event_decoder \<Rightarrow> sandbox_result \<Rightarrow> runtime_event list \<Rightarrow> string list
      \<Rightarrow> ('d, openwork_error, runtime_event list) op" where
  "decode_stderr_lines X C res events [] = ret events"
| "decode_stderr_lines X C res events (line # lines) =
     bnd (dc_stderr C line) (\<lambda>new.
     bnd (lift_res (append_decoded_event X res FromStderr events new)) (\<lambda>events.
     decode_stderr_lines X C res events lines))"

definition decode_end ::
    "ext \<Rightarrow> 'd event_decoder \<Rightarrow> sandbox_result \<Rightarrow> runtime_event list \<Rightarrow> ('d, openwork_error, runtime_event list) op" where
  \<comment> \<open>only an exited sandbox is finalized\<close>
  "decode_end X C res events =
     (if sx_termination res = TermExited
      then
        bnd (lift_res (ok_or (sx_exit_code res) (runtime_error ''exited sandbox omitted its exit code''))) (\<lambda>status.
        bnd (dc_finish C status) (\<lambda>final.
        case final of
          Some event \<Rightarrow> lift_res (append_decoded_event X res FromFinish events event)
        | None \<Rightarrow>
            if events \<noteq> [] \<and> is_terminal_event (last events) then ret events
            else fail_with (runtime_error ''runtime decoder omitted its terminal exit event'')))
      else ret events)"

definition decode_sandbox_result ::
    "ext \<Rightarrow> 'd event_decoder \<Rightarrow> sandbox_result \<Rightarrow> ('d, openwork_error, runtime_event list) op" where
  "decode_sandbox_result X C res =
     bnd (lift_res (validate_sandbox_result res)) (\<lambda>_.
     if sx_cleanup res \<noteq> CleanupSucceeded then fail_with (runtime_error ''sandbox cleanup failed'')
     else if sx_truncated res then fail_with (runtime_error ''sandbox output was truncated'')
     else
       bnd (decode_stdout_lines X C res [] (str_lines (sx_stdout res))) (\<lambda>events.
       bnd (decode_stderr_lines X C res events (str_lines (sx_stderr res))) (\<lambda>events.
       decode_end X C res events)))"

end
