(* ===== verification/Worker.thy ===== *)
theory Worker
  imports Store_Trace Artifact_Scan Runtime_Tasks
begin

text \<open>
  The single-run worker (\<^verbatim>\<open>crates/openwork-worker/src/lib.rs\<close>): it takes one claimed run through the
  sandbox under its lease. The traits the worker is generic in are records of their methods: the lease
  store over a state of any type, with the queue repository as its instance, and the sandbox backend,
  whose thread is seen through the channel the supervisor reads once per heartbeat. Clock readings are
  numbered in the order they are taken. Other users of the store may run any calls between two calls of
  the worker.
\<close>

section \<open>Tasks and runtime selection\<close>

datatype one_time_prompt = OneTimePrompt (take_prompt: string)

record worker_task_spec =
  wt_runtime :: string
  wt_prompt_sha256 :: digest
  wt_working_directory :: working_directory
  wt_timeout_seconds :: u64
  wt_capabilities :: "string list"

definition auto_runtime_id :: string where
  "auto_runtime_id = ''auto''"

definition worker_error :: "string \<Rightarrow> openwork_error" where
  "worker_error msg = new_error ExecutionFailed msg"

record runtime_executable_config =
  rx_claude_code :: "string option"
  rx_codex :: "string option"
  rx_opencode :: "string option"
  rx_pi :: "string option"

definition available_in_auto_order :: "runtime_executable_config \<Rightarrow> string list" where
  "available_in_auto_order c =
     map fst (filter snd
       [(runtime_id Codex, rx_codex c \<noteq> None), (runtime_id Claude, rx_claude_code c \<noteq> None),
        (runtime_id OpenCode, rx_opencode c \<noteq> None), (runtime_id Pi, rx_pi c \<noteq> None)])"

record runtime_selection =
  rs_requested_runtime :: string
  rs_selected_runtime :: string
  rs_rationale :: string

definition select_runtime :: "string \<Rightarrow> runtime_executable_config \<Rightarrow> runtime_selection result" where
  "select_runtime requested c =
     (if requested = auto_runtime_id
      then
        (case available_in_auto_order c of
           [] \<Rightarrow> Inl (worker_error ''Auto runtime has no configured in-container provider'')
         | selected # _ \<Rightarrow>
             Inr \<lparr>rs_requested_runtime = auto_runtime_id, rs_selected_runtime = selected,
                  rs_rationale = ''auto priority: codex, claude-code, opencode, pi''\<rparr>)
      else
        res_bind
          (if requested = runtime_id Codex then Inr (rx_codex c \<noteq> None)
           else if requested = runtime_id Claude then Inr (rx_claude_code c \<noteq> None)
           else if requested = runtime_id OpenCode then Inr (rx_opencode c \<noteq> None)
           else if requested = runtime_id Pi then Inr (rx_pi c \<noteq> None)
           else Inl (worker_error ''claimed runtime is not supported by the worker'')) (\<lambda>available.
        if \<not> available then Inl (worker_error ''claimed runtime is not configured for this worker'')
        else Inr \<lparr>rs_requested_runtime = requested, rs_selected_runtime = requested,
                  rs_rationale = ''explicit runtime selection''\<rparr>))"

record task_adapter =
  ta_provider :: provider
  ta_container_executable :: string

record worker_runtime_router =
  wr_configured :: runtime_executable_config
  wr_adapters :: "(string, task_adapter) btree_map"

definition insert_adapter ::
    "provider \<Rightarrow> string option \<Rightarrow> (string, task_adapter) btree_map \<Rightarrow> (string, task_adapter) btree_map" where
  \<comment> \<open>one \<^verbatim>\<open>if let Some(executable)\<close> of the constructor\<close>
  "insert_adapter p executable adapters =
     (case executable of
        None \<Rightarrow> adapters
      | Some exe \<Rightarrow> bm_insert (runtime_id p) \<lparr>ta_provider = p, ta_container_executable = exe\<rparr> adapters)"

definition new_router :: "runtime_executable_config \<Rightarrow> worker_runtime_router" where
  "new_router c =
     \<lparr>wr_configured = c,
      wr_adapters = insert_adapter Pi (rx_pi c) (insert_adapter OpenCode (rx_opencode c)
        (insert_adapter Claude (rx_claude_code c) (insert_adapter Codex (rx_codex c) [])))\<rparr>"

definition resolve_task_spec ::
    "worker_runtime_router \<Rightarrow> run_lease \<Rightarrow> worker_task_spec \<Rightarrow> (runtime_selection \<times> worker_task_spec) result" where
  "resolve_task_spec router lease spec =
     (if wt_runtime spec \<noteq> r_runtime (ls_run lease)
      then Inl (worker_error ''task spec runtime does not match claimed run'')
      else
        res_bind (select_runtime (r_runtime (ls_run lease)) (wr_configured router)) (\<lambda>selection.
        Inr (selection, spec\<lparr>wt_runtime := rs_selected_runtime selection\<rparr>)))"

definition router_adapter :: "worker_runtime_router \<Rightarrow> runtime_selection \<Rightarrow> task_adapter result" where
  "router_adapter router selection =
     ok_or (bm_get (wr_adapters router) (rs_selected_runtime selection))
       (worker_error ''selected runtime adapter is unavailable'')"

definition is_supported_runtime :: "string \<Rightarrow> bool" where
  "is_supported_runtime runtime =
     (runtime \<in> {runtime_id Codex, runtime_id Claude, runtime_id OpenCode, runtime_id Pi})"

definition build_task ::
    "ext \<Rightarrow> run_lease \<Rightarrow> worker_task_spec \<Rightarrow> one_time_prompt \<Rightarrow> runtime_task result" where
  "build_task X lease spec prompt =
     (let task = \<lparr>rt_schema_version = SchemaVersion, rt_run_id = r_id (ls_run lease), rt_runtime = wt_runtime spec,
                  rt_prompt = take_prompt prompt, rt_prompt_hash = wt_prompt_sha256 spec,
                  rt_working_directory = wt_working_directory spec,
                  rt_timeout_seconds = wt_timeout_seconds spec, rt_capabilities = wt_capabilities spec\<rparr>
      in res_bind (validate_runtime_task X task) (\<lambda>_.
         let runtime_matches = (rt_runtime task = r_runtime (ls_run lease)
               \<or> r_runtime (ls_run lease) = auto_runtime_id \<and> is_supported_runtime (rt_runtime task))
         in if rt_prompt_hash task \<noteq> r_prompt_sha256 (ls_run lease) \<or> \<not> runtime_matches
            then Inl (worker_error ''one-time prompt hash or runtime does not match claimed run'')
            else Inr task))"

record worker_environment =
  we_image :: image_ref
  we_user :: sandbox_user
  we_input_directory :: mount_dir
  we_output_directory :: mount_dir
  we_limits :: sandbox_limits
  we_network :: network_policy
  we_artifact_output_root :: string
  we_max_artifact_bytes :: u64

definition validate_environment :: "run_lease \<Rightarrow> worker_environment \<Rightarrow> unit result" where
  "validate_environment lease environment =
     (if \<not> path_eq (mount_path (we_input_directory environment)) (r_workspace (ls_run lease))
         \<or> \<not> path_eq (we_artifact_output_root environment) (mount_path (we_output_directory environment))
      then Inl (worker_error ''worker environment does not match the claimed workspace or output mount'')
      else Inr ())"

section \<open>The lease store\<close>

text \<open>The trait \<^verbatim>\<open>WorkerLeaseStore\<close>. A duration of the standard library is its nanoseconds.\<close>

record 's lease_store =
  lo_heartbeat :: "run_lease \<Rightarrow> timestamp \<Rightarrow> nat \<Rightarrow> ('s, openwork_error, run_lease) op"
  lo_transition :: "run_lease \<Rightarrow> u64 \<Rightarrow> run_status \<Rightarrow> timestamp \<Rightarrow> ('s, openwork_error, run_lease) op"
  lo_record_artifacts :: "run_lease \<Rightarrow> u64 \<Rightarrow> artifact list \<Rightarrow> timestamp \<Rightarrow> ('s, openwork_error, unit) op"
  lo_append_runtime_audit ::
    "run_lease \<Rightarrow> u64 \<Rightarrow> audit_event_type \<Rightarrow> timestamp \<Rightarrow> ('s, openwork_error, unit) op"
  lo_complete :: "run_lease \<Rightarrow> u64 \<Rightarrow> run_status \<Rightarrow> string option \<Rightarrow> timestamp \<Rightarrow> ('s, openwork_error, run) op"
  lo_cancel_requested :: "run_lease \<Rightarrow> timestamp \<Rightarrow> ('s, openwork_error, bool) op"
  lo_confirm_cancel :: "run_lease \<Rightarrow> timestamp \<Rightarrow> cancellation_evidence \<Rightarrow> ('s, openwork_error, run) op"

text \<open>
  The store as several processes share it: before the call with number \<open>n\<close> the others have made the
  calls \<open>so_others n\<close>, and the call draws its identifiers from its own supply.
\<close>

record shared_store =
  sh_state :: state
  sh_calls :: nat

record store_surroundings =
  so_event_id :: "nat \<Rightarrow> audit_event_id"
  so_artifact_event_id :: "nat \<Rightarrow> nat \<Rightarrow> audit_event_id"
  so_others :: "nat \<Rightarrow> store_call list"

definition shared :: "ext \<Rightarrow> store_surroundings \<Rightarrow> (nat \<Rightarrow> 'a store_op) \<Rightarrow> (shared_store, openwork_error, 'a) op" where
  "shared X U m sh =
     (let (r, t) = m (sh_calls sh) (run_calls X (so_others U (sh_calls sh)) (sh_state sh))
      in (r, \<lparr>sh_state = t, sh_calls = Suc (sh_calls sh)\<rparr>))"

definition duration_try_from :: "nat \<Rightarrow> int result" where
  \<comment> \<open>seconds beyond an \<^verbatim>\<open>i64\<close> do not convert\<close>
  "duration_try_from d =
     (if d div 1000000000 < 2 ^ 63 then Inr (int d) else Inl (worker_error ''invalid lease ttl''))"

definition queue_lease_store :: "ext \<Rightarrow> store_surroundings \<Rightarrow> shared_store lease_store" where
  "queue_lease_store X U =
     \<lparr>lo_heartbeat = (\<lambda>lease now ttl. bnd (lift_res (duration_try_from ttl)) (\<lambda>ttl.
        shared X U (\<lambda>n. heartbeat_lease X lease now ttl))),
      lo_transition = (\<lambda>lease revision nxt now.
        shared X U (\<lambda>n. transition_leased_run X (so_event_id U n) lease revision nxt now)),
      lo_record_artifacts = (\<lambda>lease revision batch now.
        shared X U (\<lambda>n. record_leased_artifacts X (so_artifact_event_id U n) lease revision batch now)),
      lo_append_runtime_audit = (\<lambda>lease revision event_type now.
        bnd (shared X U (\<lambda>n. append_leased_runtime_audit X (so_event_id U n) lease revision event_type now)) (\<lambda>_. ret ())),
      lo_complete = (\<lambda>lease revision nxt reason now.
        shared X U (\<lambda>n. complete_leased_run X (so_event_id U n) lease revision nxt reason now)),
      lo_cancel_requested = (\<lambda>lease now. shared X U (\<lambda>n. lease_cancel_requested lease now)),
      lo_confirm_cancel = (\<lambda>lease now evidence.
        shared X U (\<lambda>n. confirm_cancel X (so_event_id U n) lease now evidence))\<rparr>"

section \<open>The worker\<close>

datatype received = Delivered "sandbox_result result" | Waiting | ThreadPanicked

text \<open>
  The backend: what the channel of its thread yields in a round of the supervisor, given the round in
  which cancellation was requested, if any.
\<close>

record sandbox_backend =
  sb_health :: "unit result"
  sb_receive :: "sandbox_request \<Rightarrow> nat \<Rightarrow> nat option \<Rightarrow> received"
  sb_cancel :: "run_id \<Rightarrow> nat \<Rightarrow> unit result"

datatype start_disposition = StartRun | StartAwaitingApproval

record supervisor_config =
  sv_heartbeat_interval :: nat
  sv_lease_ttl :: nat

definition default_supervisor :: supervisor_config where
  "default_supervisor = \<lparr>sv_heartbeat_interval = 5 * 1000000000, sv_lease_ttl = 30 * 1000000000\<rparr>"

datatype worker_outcome = OutAwaitingApproval run | OutCompleted run

record 's single_run_worker =
  wk_store :: "'s lease_store"
  wk_sandbox :: sandbox_backend
  wk_adapter :: task_adapter
  wk_supervisor :: supervisor_config

definition new_worker :: "'s lease_store \<Rightarrow> sandbox_backend \<Rightarrow> task_adapter \<Rightarrow> 's single_run_worker" where
  "new_worker store sandbox adapter =
     \<lparr>wk_store = store, wk_sandbox = sandbox, wk_adapter = adapter, wk_supervisor = default_supervisor\<rparr>"

definition with_supervisor :: "'s single_run_worker \<Rightarrow> supervisor_config \<Rightarrow> 's single_run_worker result" where
  "with_supervisor W supervisor =
     (if sv_heartbeat_interval supervisor = 0 \<or> sv_lease_ttl supervisor = 0
         \<or> sv_heartbeat_interval supervisor \<ge> sv_lease_ttl supervisor
      then Inl (worker_error ''worker heartbeat interval must be positive and shorter than lease TTL'')
      else Inr (W\<lparr>wk_supervisor := supervisor\<rparr>))"

record worker_ambient =
  am_decode :: decode_env
  am_files :: scan_view
  am_clock :: "nat \<Rightarrow> timestamp"
  am_artifact_ids :: "nat \<Rightarrow> artifact_id"

record 's worker_state =
  ws_store :: 's
  ws_reads :: nat

type_synonym ('s, 'a) worker_op = "('s worker_state, openwork_error, 'a) op"

definition now_utc :: "worker_ambient \<Rightarrow> ('s, timestamp) worker_op" where
  "now_utc A w = (Inr (am_clock A (ws_reads w)), w\<lparr>ws_reads := Suc (ws_reads w)\<rparr>)"

definition on_store :: "('s, openwork_error, 'a) op \<Rightarrow> ('s, 'a) worker_op" where
  "on_store m w = (let (r, t) = m (ws_store w) in (r, w\<lparr>ws_store := t\<rparr>))"

definition lease_revision :: "run_lease \<Rightarrow> u64" where
  "lease_revision lease = r_revision (ls_run lease)"

definition complete_run ::
    "'s single_run_worker \<Rightarrow> run_lease \<Rightarrow> run_status \<Rightarrow> string option \<Rightarrow> timestamp \<Rightarrow> ('s, worker_outcome) worker_op" where
  \<comment> \<open>\<^verbatim>\<open>self.store.complete(..).map(WorkerOutcome::Completed)\<close>\<close>
  "complete_run W lease nxt reason now =
     bnd (on_store (lo_complete (wk_store W) lease (lease_revision lease) nxt reason now)) (\<lambda>r. ret (OutCompleted r))"

definition fail_closed ::
    "'s single_run_worker \<Rightarrow> run_lease \<Rightarrow> string \<Rightarrow> timestamp \<Rightarrow> ('s, worker_outcome) worker_op" where
  "fail_closed W lease reason now = complete_run W lease Failed (Some reason) now"

definition fail_after_error ::
    "'s single_run_worker \<Rightarrow> run_lease \<Rightarrow> openwork_error \<Rightarrow> timestamp \<Rightarrow> ('s, worker_outcome) worker_op" where
  "fail_after_error W lease primary now =
     bnd (fail_closed W lease ''worker execution failed closed'' now) (\<lambda>_. fail_with primary)"

definition audit ::
    "worker_ambient \<Rightarrow> 's single_run_worker \<Rightarrow> run_lease \<Rightarrow> audit_event_type \<Rightarrow> ('s, unit) worker_op" where
  "audit A W lease event_type =
     bnd (now_utc A) (\<lambda>now.
     on_store (lo_append_runtime_audit (wk_store W) lease (lease_revision lease) event_type now))"

definition fail_now ::
    "worker_ambient \<Rightarrow> 's single_run_worker \<Rightarrow> run_lease \<Rightarrow> openwork_error \<Rightarrow> ('s, worker_outcome) worker_op" where
  \<comment> \<open>\<^verbatim>\<open>self.fail_after_error(lease, error, UtcTimestamp::now())\<close>\<close>
  "fail_now A W lease error = bnd (now_utc A) (fail_after_error W lease error)"

section \<open>Supervision\<close>

definition supervise_beat ::
    "worker_ambient \<Rightarrow> 's single_run_worker \<Rightarrow> run_lease \<Rightarrow> openwork_error option \<Rightarrow> 's worker_state
      \<Rightarrow> (run_lease \<times> openwork_error option) \<times> 's worker_state" where
  "supervise_beat A W lease primary w =
     (if primary = None
      then
        (case bnd (now_utc A) (\<lambda>now.
            on_store (lo_heartbeat (wk_store W) lease now (sv_lease_ttl (wk_supervisor W)))) w of
           (Inr refreshed, w) \<Rightarrow> ((refreshed, None), w)
         | (Inl error, w) \<Rightarrow> ((lease, Some error), w))
      else ((lease, primary), w))"

definition supervise_cancel ::
    "'s single_run_worker \<Rightarrow> nat \<Rightarrow> nat option \<Rightarrow> run_lease \<Rightarrow> openwork_error option
      \<Rightarrow> nat option \<times> openwork_error option" where
  \<comment> \<open>\<^verbatim>\<open>cancel_sent\<close> as the round in which it was set\<close>
  "supervise_cancel W round sent lease primary =
     (if sent = None \<and> (primary \<noteq> None \<or> ls_cancel_requested lease)
      then (Some round,
            case sb_cancel (wk_sandbox W) (r_id (ls_run lease)) round of
              Inl error \<Rightarrow> if primary = None then Some error else primary
            | Inr _ \<Rightarrow> primary)
      else (sent, primary))"

partial_function (option) supervise ::
    "worker_ambient \<Rightarrow> 's single_run_worker \<Rightarrow> sandbox_request \<Rightarrow> nat \<Rightarrow> nat option \<Rightarrow> run_lease
      \<Rightarrow> openwork_error option \<Rightarrow> 's worker_state
      \<Rightarrow> ((openwork_error + run_lease \<times> sandbox_result) \<times> 's worker_state) option" where
  \<comment> \<open>a panic of the backend's thread is passed on by \<^verbatim>\<open>thread::scope\<close>: no value is returned\<close>
  "supervise A W request round sent lease primary w =
     (case sb_receive (wk_sandbox W) request round sent of
        Delivered out \<Rightarrow>
          Some (case primary of
                  Some error \<Rightarrow> Inl error
                | None \<Rightarrow> res_bind out (\<lambda>res. Inr (lease, res)), w)
      | ThreadPanicked \<Rightarrow> None
      | Waiting \<Rightarrow>
          (case supervise_beat A W lease primary w of
             ((lease, primary), w) \<Rightarrow>
               (case supervise_cancel W round sent lease primary of
                  (sent, primary) \<Rightarrow> supervise A W request (Suc round) sent lease primary w)))"

definition execute_with_cancellation ::
    "worker_ambient \<Rightarrow> 's single_run_worker \<Rightarrow> run_lease \<Rightarrow> sandbox_request \<Rightarrow> 's worker_state
      \<Rightarrow> ((openwork_error + run_lease \<times> sandbox_result) \<times> 's worker_state) option" where
  "execute_with_cancellation A W lease request w = supervise A W request 0 None lease None w"

section \<open>Completion\<close>

definition complete_failed ::
    "worker_ambient \<Rightarrow> 's single_run_worker \<Rightarrow> run_lease \<Rightarrow> ('s, worker_outcome) worker_op" where
  "complete_failed A W lease =
     bnd (audit A W lease EvSandboxDestroyed) (\<lambda>_.
     bnd (now_utc A) (complete_run W lease Failed (Some ''sandbox did not complete successfully'')))"

fun audit_each ::
    "worker_ambient \<Rightarrow> 's single_run_worker \<Rightarrow> run_lease \<Rightarrow> runtime_event list \<Rightarrow> ('s, unit) worker_op" where
  "audit_each A W lease [] = ret ()"
| "audit_each A W lease (event # events) =
     bnd (audit A W lease (if is_terminal_payload (re_payload event) then EvRuntimeCompleted else EvRuntimeOutput)) (\<lambda>_.
     audit_each A W lease events)"

definition events_succeeded :: "runtime_event list \<Rightarrow> bool" where
  "events_succeeded events = (events \<noteq> [] \<and> re_payload (last events) = PCompleted 0)"

definition store_outputs ::
    "worker_ambient \<Rightarrow> 's single_run_worker \<Rightarrow> run_lease \<Rightarrow> artifact list \<Rightarrow> ('s, worker_outcome) worker_op" where
  \<comment> \<open>the end of \<^verbatim>\<open>finish_exited\<close>, from the recording of the artifacts\<close>
  "store_outputs A W lease batch =
     bnd (now_utc A) (\<lambda>now. \<lambda>w.
     (case on_store (lo_record_artifacts (wk_store W) lease (lease_revision lease) batch now) w of
        (Inl error, w) \<Rightarrow> fail_now A W lease error w
      | (Inr _, w) \<Rightarrow>
          bnd (audit A W lease EvSandboxDestroyed) (\<lambda>_.
          bnd (now_utc A) (complete_run W lease Succeeded None)) w))"

definition finish_exited ::
    "worker_ambient \<Rightarrow> 's single_run_worker \<Rightarrow> run_lease \<Rightarrow> sandbox_result \<Rightarrow> worker_environment
      \<Rightarrow> ('s, worker_outcome) worker_op" where
  "finish_exited A W lease res environment =
     (case fst (decode_sandbox_result (de_ext (am_decode A))
         (provider_decoder (am_decode A) (ta_provider (wk_adapter W))) res (new_factory (r_id (ls_run lease)))) of
        Inl error \<Rightarrow> fail_now A W lease error
      | Inr events \<Rightarrow>
          bnd (audit_each A W lease events) (\<lambda>_.
          if \<not> events_succeeded events then complete_failed A W lease
          else
            (case new_scanner (we_max_artifact_bytes environment) of
               Inl error \<Rightarrow> fail_now A W lease error
             | Inr scanner \<Rightarrow>
                 bnd (now_utc A) (\<lambda>now.
                 case scan (de_ext (am_decode A)) (am_files A) scanner (am_artifact_ids A) (r_id (ls_run lease))
                     (we_artifact_output_root environment) (sx_output_paths res) now of
                   Inl error \<Rightarrow> fail_now A W lease error
                 | Inr batch \<Rightarrow> store_outputs A W lease batch))))"

definition finish_cancelled ::
    "worker_ambient \<Rightarrow> 's single_run_worker \<Rightarrow> run_lease \<Rightarrow> sandbox_result \<Rightarrow> ('s, worker_outcome) worker_op" where
  \<comment> \<open>the branch of \<^verbatim>\<open>finish\<close> for a run with a cancellation request\<close>
  "finish_cancelled A W lease res =
     (if sx_termination res = TermCancelled
      then
        (case verify_cancellation lease res of
           Inr evidence \<Rightarrow>
             bnd (now_utc A) (\<lambda>now.
             bnd (on_store (lo_confirm_cancel (wk_store W) lease now evidence)) (\<lambda>r. ret (OutCompleted r)))
         | Inl error \<Rightarrow> fail_now A W lease error)
      else bnd (now_utc A) (fail_closed W lease ''cancellation requested without proven sandbox disposal''))"

definition finish_terminated ::
    "worker_ambient \<Rightarrow> 's single_run_worker \<Rightarrow> run_lease \<Rightarrow> sandbox_result \<Rightarrow> worker_environment
      \<Rightarrow> ('s, worker_outcome) worker_op" where
  \<comment> \<open>the rest of \<^verbatim>\<open>finish\<close>\<close>
  "finish_terminated A W lease res environment =
     (let end_as = (\<lambda>terminal.
            bnd (audit A W lease EvSandboxDestroyed) (\<lambda>_.
            bnd (now_utc A) (complete_run W lease terminal (Some ''sandbox did not complete successfully''))))
      in case sx_termination res of
           TermCancelled \<Rightarrow>
             bnd (now_utc A) (fail_closed W lease ''sandbox cancelled without durable cancellation intent'')
         | TermTimedOut \<Rightarrow> end_as TimedOut
         | TermOutOfMemory \<Rightarrow> end_as Failed
         | TermFailed \<Rightarrow> end_as Failed
         | TermExited \<Rightarrow> finish_exited A W lease res environment)"

definition finish ::
    "worker_ambient \<Rightarrow> 's single_run_worker \<Rightarrow> run_lease \<Rightarrow> sandbox_result \<Rightarrow> worker_environment
      \<Rightarrow> ('s, worker_outcome) worker_op" where
  "finish A W lease res environment =
     bnd (now_utc A) (\<lambda>now.
     case validate_sandbox_result res of
       Inl error \<Rightarrow> fail_after_error W lease error now
     | Inr _ \<Rightarrow>
         if sx_run_id res \<noteq> r_id (ls_run lease)
         then fail_closed W lease ''sandbox returned a result for another run'' now
         else
           bnd (audit A W lease EvSandboxCreated) (\<lambda>_.
           bnd (audit A W lease EvRuntimeStarted) (\<lambda>_.
           bnd (on_store (lo_cancel_requested (wk_store W) lease now)) (\<lambda>requested.
           if requested then finish_cancelled A W lease res
           else finish_terminated A W lease res environment))))"

section \<open>Execution\<close>

definition early :: "('s, worker_outcome) worker_op \<Rightarrow> ('s, worker_outcome + 'b) worker_op" where
  \<comment> \<open>a \<^verbatim>\<open>return\<close> before the sandbox runs\<close>
  "early m = bnd m (\<lambda>x. ret (Inl x))"

definition start_running ::
    "worker_ambient \<Rightarrow> 's single_run_worker \<Rightarrow> run_lease \<Rightarrow> runtime_task \<Rightarrow> worker_environment \<Rightarrow> timestamp
      \<Rightarrow> ('s, worker_outcome + run_lease \<times> sandbox_request \<times> timestamp) worker_op" where
  \<comment> \<open>\<^verbatim>\<open>execute\<close> from the transition to running up to the sandbox call\<close>
  "start_running A W planning task environment now =
     bnd (on_store (lo_transition (wk_store W) planning (lease_revision planning) Running now)) (\<lambda>running.
     bnd (on_store (lo_cancel_requested (wk_store W) running now)) (\<lambda>requested.
     if requested then early (fail_closed W running ''cancellation requested before sandbox execution'' now)
     else
       case res_bind (sb_health (wk_sandbox W)) (\<lambda>_.
            res_bind (prepare (de_ext (am_decode A)) (ta_provider (wk_adapter W)) (ta_container_executable (wk_adapter W)) task)
              (\<lambda>invocation.
            into_sandbox_request invocation (r_id (ls_run running)) (we_image environment) (we_user environment)
              (we_input_directory environment) (we_output_directory environment) (we_limits environment))) of
         Inl error \<Rightarrow> early (fail_after_error W running error now)
       | Inr request \<Rightarrow> ret (Inr (running, with_network request (we_network environment), now))))"

definition start ::
    "worker_ambient \<Rightarrow> 's single_run_worker \<Rightarrow> run_lease \<Rightarrow> worker_task_spec \<Rightarrow> one_time_prompt
      \<Rightarrow> worker_environment \<Rightarrow> start_disposition
      \<Rightarrow> ('s, worker_outcome + run_lease \<times> sandbox_request \<times> timestamp) worker_op" where
  "start A W lease spec prompt environment disposition =
     (case res_bind (build_task (de_ext (am_decode A)) lease spec prompt) (\<lambda>task.
           res_bind (validate_environment lease environment) (\<lambda>_. Inr task)) of
        Inl error \<Rightarrow> early (fail_now A W lease error)
      | Inr task \<Rightarrow>
          bnd (now_utc A) (\<lambda>now.
          if r_status (ls_run lease) \<noteq> Planning
          then early (fail_closed W lease ''claimed run is not in planning'' now)
          else
            bnd (on_store (lo_cancel_requested (wk_store W) lease now)) (\<lambda>requested.
            if requested then early (fail_closed W lease ''cancellation requested before sandbox execution'' now)
            else if disposition = StartAwaitingApproval
            then
              early (bnd (on_store (lo_transition (wk_store W) lease (lease_revision lease) AwaitingApproval now))
                (\<lambda>awaiting. ret (OutAwaitingApproval (ls_run awaiting))))
            else start_running A W lease task environment now)))"

definition execute_run ::
    "worker_ambient \<Rightarrow> 's single_run_worker \<Rightarrow> run_lease \<Rightarrow> worker_task_spec \<Rightarrow> one_time_prompt
      \<Rightarrow> worker_environment \<Rightarrow> start_disposition \<Rightarrow> 's worker_state
      \<Rightarrow> ((openwork_error + worker_outcome) \<times> 's worker_state) option" where
  \<comment> \<open>\<^verbatim>\<open>SingleRunWorker::execute\<close>\<close>
  "execute_run A W lease spec prompt environment disposition w =
     (case start A W lease spec prompt environment disposition w of
        (Inl error, w) \<Rightarrow> Some (Inl error, w)
      | (Inr (Inl done_early), w) \<Rightarrow> Some (Inr done_early, w)
      | (Inr (Inr (running, request, now)), w) \<Rightarrow>
          map_option (\<lambda>(out, w).
            case out of
              Inl error \<Rightarrow> fail_after_error W running error now w
            | Inr (lease, res) \<Rightarrow> finish A W lease res environment w)
            (execute_with_cancellation A W running request w))"

end
