(* ===== verification/Runtime_Properties.thy ===== *)
theory Runtime_Properties
  imports Runtime_Tasks
begin

text \<open>
  What decoding guarantees: the stream it returns is well formed for any decoder, the checks that make
  it so never reject an event of the four providers, what the providers emit is redacted, and the
  prompt never reaches a command line.
\<close>

section \<open>Any decoder\<close>

definition stream_ok :: "ext \<Rightarrow> sandbox_result \<Rightarrow> runtime_event list \<Rightarrow> bool" where
  "stream_ok X res events =
     (map (unat \<circ> re_sequence) events = [1..<Suc (length events)] \<and> length events \<le> 4096
      \<and> (\<forall>e \<in> set events. re_run_id e = sx_run_id res
           \<and> ensure_event_bounds X (re_payload e) (re_vendor_metadata e) = Inr ())
      \<and> (\<forall>e \<in> set (butlast events). \<not> is_terminal_event e))"

definition unfinished :: "runtime_event list \<Rightarrow> bool" where
  \<comment> \<open>no event that only the end of the process may produce\<close>
  "unfinished events = (\<forall>e \<in> set events. (\<forall>c. re_payload e \<noteq> PCompleted c) \<and> re_payload e \<noteq> PCancelled)"

lemma append_decoded_ok:
  assumes "append_decoded_event X res source events e = Inr events'" and "stream_ok X res events"
  shows "events' = events @ [e] \<and> stream_ok X res events' \<and> source_valid source (re_payload e) (sx_exit_code res)"
proof -
  from assms(1) obtain n where nt: "events = [] \<or> \<not> is_terminal_event (last events)"
    and n: "Option.bind (u64_of_len (length events)) (\<lambda>n. checked_add n 1) = Some n"
    and e: "re_run_id e = sx_run_id res" "re_sequence e = n" "\<not> re_sequence e > max_runtime_events"
      "ensure_event_bounds X (re_payload e) (re_vendor_metadata e) = Inr ()"
      "source_valid source (re_payload e) (sx_exit_code res)" "events' = events @ [e]"
    by (auto simp: append_decoded_event_def res_simps split: if_splits)
  have u: "unat n = Suc (length events)"
    using n by (auto simp: bind_eq_Some_conv dest!: unat_checked_add unat_u64_of_len)
  have "\<forall>x \<in> set events. \<not> is_terminal_event x"
    using assms(2) nt by (cases events rule: rev_cases) (auto simp: stream_ok_def)
  moreover have "Suc (length events) \<le> 4096"
    using e(2,3) u by (simp add: max_runtime_events_def word_less_nat_alt)
  ultimately show ?thesis
    using assms(2) e u by (auto simp: stream_ok_def)
qed

lemma append_all_ok:
  assumes "append_all X res FromStdout events new = Inr events'" and "stream_ok X res events" and "unfinished events"
  shows "events' = events @ new \<and> stream_ok X res events' \<and> unfinished events'"
  using assms
proof (induction new arbitrary: events)
  case (Cons e new)
  then obtain ev where a: "append_decoded_event X res FromStdout events e = Inr ev"
    and r: "append_all X res FromStdout ev new = Inr events'" by (auto simp: res_simps)
  note ok = append_decoded_ok [OF a Cons.prems(2)]
  then have "unfinished ev" using Cons.prems(3) by (auto simp: unfinished_def split: event_payload.splits)
  with Cons.IH [OF r] ok show ?case by auto
qed simp

lemma decode_stdout_ok:
  assumes "decode_stdout_lines X C res events lines d = (Inr events', d')" and "stream_ok X res events"
    and "unfinished events"
  shows "stream_ok X res events' \<and> unfinished events'"
  using assms
proof (induction lines arbitrary: events d)
  case (Cons l lines)
  then show ?case by (auto simp: res_simps dest!: append_all_ok)
qed (auto simp: res_simps)

lemma decode_stderr_ok:
  assumes "decode_stderr_lines X C res events lines d = (Inr events', d')" and "stream_ok X res events"
    and "unfinished events"
  shows "stream_ok X res events' \<and> unfinished events'"
  using assms
proof (induction lines arbitrary: events d)
  case (Cons l lines)
  then obtain e d1 ev where "append_decoded_event X res FromStderr events e = Inr ev"
    and r: "decode_stderr_lines X C res ev lines d1 = (Inr events', d')" by (auto simp: res_simps)
  note ok = append_decoded_ok [OF this(1) Cons.prems(2)]
  then have "unfinished ev" using Cons.prems(3) by (auto simp: unfinished_def split: event_payload.splits)
  with Cons.IH [OF r] ok show ?case by auto
qed (auto simp: res_simps)

lemma source_finish:
  "source_valid FromFinish payload status \<Longrightarrow>
     (payload = PCompleted 0 \<and> status = Some 0) \<or> (\<exists>c t. payload = PFailed c t \<and> status \<noteq> None \<and> status \<noteq> Some 0)"
  by (cases "(FromFinish, payload, status)" rule: source_valid.cases) auto

lemma decode_end_ok:
  assumes "decode_end X C res events d = (Inr events', d')" and "stream_ok X res events" and "unfinished events"
  shows "stream_ok X res events' \<and> (\<forall>e \<in> set events'. re_payload e \<noteq> PCancelled)
    \<and> (sx_termination res = TermExited \<longrightarrow> events' \<noteq> [] \<and> is_terminal_event (last events'))
    \<and> (\<forall>e \<in> set events'. \<forall>c. re_payload e = PCompleted c \<longrightarrow>
         c = 0 \<and> sx_termination res = TermExited \<and> sx_exit_code res = Some 0)"
proof (cases "sx_termination res = TermExited")
  case False
  with assms show ?thesis by (auto simp: decode_end_def res_simps unfinished_def)
next
  case True
  with assms(1) obtain final where "(\<exists>event. final = Some event \<and> append_decoded_event X res FromFinish events event = Inr events')
      \<or> (final = None \<and> events' = events \<and> events \<noteq> [] \<and> is_terminal_event (last events))"
    by (auto simp: decode_end_def res_simps split: option.splits if_splits)
  then show ?thesis
  proof (elim disjE exE conjE)
    fix event assume "append_decoded_event X res FromFinish events event = Inr events'"
    note ok = append_decoded_ok [OF this assms(2)]
    with source_finish [of "re_payload event" "sx_exit_code res"] assms(3) True show ?thesis
      by (auto simp: unfinished_def is_terminal_event_def)
  qed (use assms(2,3) in \<open>auto simp: unfinished_def\<close>)
qed

lemma decoded_stream_facts:
  assumes "decode_sandbox_result X C res d = (Inr events, d')"
  shows "stream_ok X res events \<and> (\<forall>e \<in> set events. re_payload e \<noteq> PCancelled)
    \<and> (sx_termination res = TermExited \<longrightarrow> events \<noteq> [] \<and> is_terminal_event (last events))
    \<and> (\<forall>e \<in> set events. \<forall>c. re_payload e = PCompleted c \<longrightarrow>
         c = 0 \<and> sx_termination res = TermExited \<and> sx_exit_code res = Some 0)"
proof -
  from assms obtain ev1 d1 ev2 d2 where
    o: "decode_stdout_lines X C res [] (str_lines (sx_stdout res)) d = (Inr ev1, d1)"
    and e: "decode_stderr_lines X C res ev1 (str_lines (sx_stderr res)) d1 = (Inr ev2, d2)"
    and f: "decode_end X C res ev2 d2 = (Inr events, d')"
    by (auto simp: decode_sandbox_result_def res_simps split: if_splits)
  have "stream_ok X res []" "unfinished []" by (simp_all add: stream_ok_def unfinished_def)
  from decode_end_ok [OF f] decode_stderr_ok [OF e] decode_stdout_ok [OF o this] show ?thesis by blast
qed

text \<open>
  C29. Whatever decoder is used, the decoded stream is sound: its events are numbered from one without a
  gap, belong to the run, keep the size limit and number at most 4096, only the last may be terminal,
  the stream of an exited sandbox ends in a terminal event, and completion is reported only when the
  sandbox itself exited with status zero. No provider output can claim success or cancellation.
\<close>

theorem decoded_stream_is_sound:
  assumes "decode_sandbox_result X C res d = (Inr events, d')"
  shows "stream_ok X res events \<and> (\<forall>e \<in> set events. re_payload e \<noteq> PCancelled)
    \<and> (sx_termination res = TermExited \<longrightarrow> events \<noteq> [] \<and> is_terminal_event (last events))
    \<and> (\<forall>e \<in> set events. \<forall>c. re_payload e = PCompleted c \<longrightarrow>
         c = 0 \<and> sx_termination res = TermExited \<and> sx_exit_code res = Some 0)"
  using decoded_stream_facts [OF assms] .

section \<open>What the factory emits\<close>

definition settled_text :: "string \<Rightarrow> bool" where
  \<comment> \<open>redacted, and within the limit of an event\<close>
  "settled_text s = (redact_text s = s \<and> length s \<le> max_runtime_event_bytes)"

fun redacted_payload :: "bool \<Rightarrow> event_payload \<Rightarrow> bool" where
  \<comment> \<open>the flag asks for redacted tool names too\<close>
  "redacted_payload names (PStdout chunk _) = settled_text chunk"
| "redacted_payload names (PStderr chunk _) = settled_text chunk"
| "redacted_payload names (PMessage content) = settled_text content"
| "redacted_payload names (PToolCall name parameters) =
     ((names \<longrightarrow> settled_text name) \<and> secret_free parameters)"
| "redacted_payload names (PFailed _ text) = settled_text text"
| "redacted_payload names _ = True"

definition clean_metadata :: "redacted_metadata \<Rightarrow> bool" where
  "clean_metadata m = secret_free (JObject (as_map m))"

definition redacted_event :: "bool \<Rightarrow> runtime_event \<Rightarrow> bool" where
  "redacted_event names e =
     (redacted_payload names (re_payload e) \<and> clean_metadata (re_vendor_metadata e))"

definition emitted :: "ext \<Rightarrow> event_factory \<Rightarrow> runtime_event \<Rightarrow> event_factory \<Rightarrow> bool" where
  \<comment> \<open>one event of an open factory\<close>
  "emitted X f e g =
     (\<not> ef_terminal f \<and> ef_next_sequence f \<le> max_runtime_events \<and> re_schema_version e = SchemaVersion
      \<and> re_run_id e = ef_run_id f \<and> re_sequence e = ef_next_sequence f
      \<and> ensure_event_bounds X (re_payload e) (re_vendor_metadata e) = Inr ()
      \<and> g = f\<lparr>ef_next_sequence := ef_next_sequence f + 1, ef_terminal := is_terminal_event e\<rparr>)"

fun emitted_all :: "ext \<Rightarrow> event_factory \<Rightarrow> runtime_event list \<Rightarrow> event_factory \<Rightarrow> bool" where
  "emitted_all X f [] g = (g = f)"
| "emitted_all X f (e # es) g = (\<exists>h. emitted X f e h \<and> emitted_all X h es g)"

lemma emitted_all_append: "emitted_all X f es g \<Longrightarrow> emitted_all X g ds h \<Longrightarrow> emitted_all X f (es @ ds) h"
  by (induction es arbitrary: f) auto

lemma factory_event_ok:
  assumes "factory_event D payload metadata f = (Inr e, g)"
  shows "re_payload e = payload \<and> re_vendor_metadata e = metadata
    \<and> (is_terminal_payload payload \<or> emitted (de_ext D) f e g)
    \<and> emitted (de_ext D) f e (g\<lparr>ef_terminal := is_terminal_payload payload\<rparr>)"
proof -
  from assms obtain nxt where f: "\<not> ef_terminal f" "\<not> ef_next_sequence f > max_runtime_events"
    "ensure_event_bounds (de_ext D) payload metadata = Inr ()" "checked_add (ef_next_sequence f) 1 = Some nxt"
    "g = f\<lparr>ef_next_sequence := nxt\<rparr>"
    and e: "e = \<lparr>re_schema_version = SchemaVersion, re_run_id = ef_run_id f, re_sequence = ef_next_sequence f,
      re_timestamp = de_clock D (ef_next_sequence f), re_payload = payload, re_vendor_metadata = metadata\<rparr>"
    by (auto simp: factory_event_def res_simps)
  then have "nxt = ef_next_sequence f + 1" by (auto simp: checked_add_def split: if_splits)
  with f e show ?thesis by (cases f) (auto simp: emitted_def is_terminal_event_def not_less)
qed

text \<open>Operations that emit redacted events of a stream that has not completed.\<close>

definition good_event :: "bool \<Rightarrow> runtime_event \<Rightarrow> bool" where
  "good_event names e =
     (redacted_event names e \<and> (\<forall>c. re_payload e \<noteq> PCompleted c) \<and> re_payload e \<noteq> PCancelled)"

definition emits_one :: "ext \<Rightarrow> bool \<Rightarrow> runtime_event factory_op \<Rightarrow> bool" where
  "emits_one X names m = (\<forall>f e g. m f = (Inr e, g) \<longrightarrow> emitted X f e g \<and> good_event names e)"

definition emits :: "ext \<Rightarrow> bool \<Rightarrow> runtime_event list factory_op \<Rightarrow> bool" where
  "emits X names m =
     (\<forall>f es g. m f = (Inr es, g) \<longrightarrow> emitted_all X f es g \<and> (\<forall>e \<in> set es. good_event names e))"

named_theorems emits_intros "rules that show an operation emits redacted events"

lemma emits_base [emits_intros]:
  "emits X names (ret [])" "emits X names (fail_with err)" "emits_one X names (fail_with err)"
  by (auto simp: emits_def emits_one_def res_simps)

lemma emits_lift [emits_intros]:
  "(\<And>x. r = Inr x \<Longrightarrow> emits X names (g x)) \<Longrightarrow> emits X names (bnd (lift_res r) g)"
  "(\<And>x. r = Inr x \<Longrightarrow> emits_one X names (h x)) \<Longrightarrow> emits_one X names (bnd (lift_res r) h)"
  by (auto simp: emits_def emits_one_def res_simps)

lemma emits_if [emits_intros]:
  "(c \<Longrightarrow> emits X names m) \<Longrightarrow> (\<not> c \<Longrightarrow> emits X names n) \<Longrightarrow> emits X names (if c then m else n)"
  "(c \<Longrightarrow> emits_one X names p) \<Longrightarrow> (\<not> c \<Longrightarrow> emits_one X names q) \<Longrightarrow> emits_one X names (if c then p else q)"
  by auto

lemma emits_single [emits_intros]: "emits_one X names m \<Longrightarrow> emits X names (one m)"
  by (auto simp: emits_def emits_one_def one_def res_simps)

lemma emits_op_map [emits_intros]: "(\<And>x. emits_one X names (h x)) \<Longrightarrow> emits X names (op_map h xs)"
proof (induction xs)
  case (Cons x xs)
  then show ?case
    unfolding emits_def emits_one_def
    by (clarsimp simp: res_simps) (metis Cons.IH Cons.prems emits_def emits_one_def)
qed (simp add: emits_intros)

lemma emits_event:
  assumes "\<not> is_terminal_payload payload" and "redacted_payload names payload"
    and "clean_metadata metadata"
  shows "emits_one (de_ext D) names (factory_event D payload metadata)"
  using assms factory_event_ok [of D payload metadata]
  by (fastforce simp: emits_one_def good_event_def redacted_event_def)

lemma bounded_text_redacted: "bounded_redacted_text s = Inr t \<Longrightarrow> settled_text t"
  by (auto simp: bounded_redacted_text_def settled_text_def Let_def split: if_splits)

lemma bounded_value_redacted: "bounded_redacted_value X v = Inr w \<Longrightarrow> secret_free w"
  by (auto simp: bounded_redacted_value_def Let_def secret_free_redact_json split: if_splits)

lemma metadata_redacted: "metadata_from_untrusted X v = Inr m \<Longrightarrow> clean_metadata m"
  unfolding clean_metadata_def
  by (auto simp del: secret_free.simps simp: metadata_from_untrusted_def Let_def from_untrusted_secret_free split: json.splits if_splits)

lemma empty_metadata_redacted: "clean_metadata empty_metadata"
  unfolding clean_metadata_def empty_metadata_def by (rule from_untrusted_secret_free)

lemma emits_fail:
  assumes "clean_metadata metadata"
  shows "emits_one (de_ext D) names (factory_fail D c text metadata)"
  unfolding emits_one_def
proof (intro allI impI)
  fix f e g assume "factory_fail D c text metadata f = (Inr e, g)"
  then obtain t h where t: "bounded_redacted_text text = Inr t"
    and h: "factory_event D (PFailed c t) metadata f = (Inr e, h)" and g: "g = h\<lparr>ef_terminal := True\<rparr>"
    by (auto simp: factory_fail_def res_simps)
  from factory_event_ok [OF h] g bounded_text_redacted [OF t] assms show "emitted (de_ext D) f e g \<and> good_event names e"
    by (simp add: good_event_def redacted_event_def)
qed

lemma short_text: "redact_text s = s \<Longrightarrow> length s \<le> 64 \<Longrightarrow> settled_text s"
  by (simp add: settled_text_def max_runtime_event_bytes_def)

lemma fixed_texts_redacted:
  "settled_text ''Claude vendor content block omitted''" "settled_text ''Claude vendor event omitted''"
  "settled_text ''Claude provider result received''" "settled_text ''Codex vendor item omitted''"
  "settled_text ''Codex vendor event omitted''" "settled_text ''Codex provider turn completed''"
  by (rule short_text, code_simp, simp)+

lemma fixed_names_redacted:
  "settled_text ''opencode.tool''"
  "n \<in> {''command_execution'', ''file_change'', ''mcp_tool_call'', ''web_search''} \<Longrightarrow> settled_text n"
proof -
  show "settled_text ''opencode.tool''" by (rule short_text, code_simp, simp)
  have "settled_text ''command_execution''" "settled_text ''file_change''"
    "settled_text ''mcp_tool_call''" "settled_text ''web_search''" by (rule short_text, code_simp, simp)+
  then show "n \<in> {''command_execution'', ''file_change'', ''mcp_tool_call'', ''web_search''} \<Longrightarrow> settled_text n"
    by auto
qed

lemmas redaction_facts = bounded_text_redacted bounded_value_redacted metadata_redacted empty_metadata_redacted
  fixed_texts_redacted fixed_names_redacted

lemma emits_vendor:
  "settled_text text \<Longrightarrow> emits_one (de_ext D) names (vendor_message D text v ty)"
  unfolding vendor_message_def
  by (intro emits_intros emits_event) (auto simp: redaction_facts)

lemma emits_claude: "emits (de_ext D) True (claude_decode D line)"
  unfolding claude_decode_def claude_assistant_def claude_block_def claude_metadata_def
  by (intro emits_intros emits_event emits_fail emits_vendor) (auto simp: redaction_facts)

lemma emits_codex: "emits (de_ext D) True (codex_decode D line)"
  unfolding codex_decode_def codex_item_def codex_metadata_def Let_def
  by (intro emits_intros emits_event emits_fail emits_vendor) (auto simp: redaction_facts)

lemma emits_opencode: "emits (de_ext D) False (opencode_decode D line)"
  unfolding opencode_decode_def opencode_part_def opencode_metadata_def Let_def
  by (intro emits_intros emits_event emits_fail emits_vendor) (auto simp: redaction_facts)

lemma emits_pi: "emits (de_ext D) True (pi_decode D line)"
  unfolding pi_decode_def pi_metadata_def Let_def
  by (intro emits_intros emits_event emits_fail emits_vendor) (auto simp: redaction_facts)

lemma emits_provider: "emits (de_ext D) (p \<noteq> OpenCode) (provider_decode D p line)"
  using emits_claude emits_codex emits_opencode emits_pi by (cases p) simp_all

lemma emits_stderr: "emits_one (de_ext D) names (factory_stderr D line)"
  unfolding factory_stderr_def
  by (intro emits_intros emits_event) (auto simp: redaction_facts)

section \<open>Redaction\<close>

lemma append_decoded_set: "append_decoded_event X res source events e = Inr events' \<Longrightarrow> events' = events @ [e]"
  by (auto simp: append_decoded_event_def res_simps split: if_splits)

lemma append_all_set: "append_all X res source events new = Inr events' \<Longrightarrow> events' = events @ new"
  by (induction new arbitrary: events) (fastforce simp: res_simps dest!: append_decoded_set)+

lemma provider_stdout_redacted:
  assumes "decode_stdout_lines X (provider_decoder D p) res events lines f = (Inr events', g)"
    and "\<forall>e \<in> set events. redacted_event (p \<noteq> OpenCode) e"
  shows "\<forall>e \<in> set events'. redacted_event (p \<noteq> OpenCode) e"
  using assms
proof (induction lines arbitrary: events f)
  case (Cons l lines)
  then obtain new f' ev where d: "provider_decode D p l f = (Inr new, f')"
    and a: "append_all X res FromStdout events new = Inr ev"
    and r: "decode_stdout_lines X (provider_decoder D p) res ev lines f' = (Inr events', g)"
    by (auto simp: res_simps provider_decoder_def)
  have "\<forall>e \<in> set new. redacted_event (p \<noteq> OpenCode) e"
    using emits_provider [of D p l] d unfolding emits_def good_event_def by blast
  with Cons.IH [OF r] append_all_set [OF a] Cons.prems(2) show ?case by auto
qed (auto simp: res_simps)

lemma provider_stderr_redacted:
  assumes "decode_stderr_lines X (provider_decoder D p) res events lines f = (Inr events', g)"
    and "\<forall>e \<in> set events. redacted_event names e"
  shows "\<forall>e \<in> set events'. redacted_event names e"
  using assms
proof (induction lines arbitrary: events f)
  case (Cons l lines)
  then obtain e f' ev where d: "factory_stderr D l f = (Inr e, f')"
    and a: "append_decoded_event X res FromStderr events e = Inr ev"
    and r: "decode_stderr_lines X (provider_decoder D p) res ev lines f' = (Inr events', g)"
    by (auto simp: res_simps provider_decoder_def)
  have "redacted_event names e"
    using emits_stderr [of D names l] d unfolding emits_one_def good_event_def by blast
  with Cons.IH [OF r] append_decoded_set [OF a] Cons.prems(2) show ?case by auto
qed (auto simp: res_simps)

lemma factory_finish_ok:
  assumes "factory_finish D st f = (Inr r, g)"
  shows "(r = None \<and> ef_terminal f \<and> g = f)
    \<or> (\<exists>e. r = Some e \<and> emitted (de_ext D) f e g \<and> source_valid FromFinish (re_payload e) (Some st)
         \<and> redacted_event names e)"
proof (cases "ef_terminal f")
  case True
  with assms show ?thesis by (auto simp: factory_finish_def res_simps)
next
  case False
  show ?thesis
  proof (cases "st = 0")
    case True
    with assms False obtain e h where "r = Some e" and h: "factory_event D (PCompleted st) empty_metadata f = (Inr e, h)"
      and "g = h\<lparr>ef_terminal := True\<rparr>"
      by (auto simp: factory_finish_def res_simps)
    with factory_event_ok [OF h] empty_metadata_redacted True show ?thesis
      by (auto simp: redacted_event_def)
  next
    case nz: False
    with assms False obtain e h where "r = Some e"
      and h: "factory_fail D ''provider_exit_nonzero'' ''provider process exited unsuccessfully'' empty_metadata f = (Inr e, h)"
      and g: "g = h\<lparr>ef_terminal := True\<rparr>"
      by (auto simp: factory_finish_def res_simps)
    moreover from h obtain c t where p: "re_payload e = PFailed c t"
      by (auto simp: factory_fail_def factory_event_def res_simps)
    moreover have "emitted (de_ext D) f e h \<and> good_event names e"
      using emits_fail [OF empty_metadata_redacted, of D names] h unfolding emits_one_def by blast
    moreover from this p have "h\<lparr>ef_terminal := True\<rparr> = h" by (auto simp: emitted_def is_terminal_event_def)
    ultimately show ?thesis using nz by (auto simp: good_event_def)
  qed
qed

text \<open>
  C30. Nothing unredacted comes out of a provider's stream: every message, error text and standard error
  line of a decoded event is redacted text of at most the length an event may have, every tool parameter
  and all vendor metadata are free of secrets, and the tool names are redacted and bounded as well, with
  one exception: OpenCode's names are taken as they are.
\<close>

theorem decoded_events_are_redacted:
  assumes "decode_sandbox_result X (provider_decoder D p) res f = (Inr events, g)" and "e \<in> set events"
  shows "redacted_event (p \<noteq> OpenCode) e"
proof -
  let ?C = "provider_decoder D p" and ?n = "p \<noteq> OpenCode"
  from assms(1) obtain ev1 f1 ev2 f2 where
    o: "decode_stdout_lines X ?C res [] (str_lines (sx_stdout res)) f = (Inr ev1, f1)"
    and s: "decode_stderr_lines X ?C res ev1 (str_lines (sx_stderr res)) f1 = (Inr ev2, f2)"
    and t: "decode_end X ?C res ev2 f2 = (Inr events, g)"
    by (auto simp: decode_sandbox_result_def res_simps split: if_splits)
  have r: "\<forall>e \<in> set ev2. redacted_event ?n e"
    by (rule provider_stderr_redacted [OF s provider_stdout_redacted [OF o]]) simp
  have "\<exists>new. events = ev2 @ new \<and> (\<forall>e \<in> set new. redacted_event ?n e)"
  proof (cases "sx_termination res = TermExited")
    case True
    with t obtain st final f3 where fin: "factory_finish D st f2 = (Inr final, f3)"
      and ev: "final = None \<and> events = ev2
        \<or> (\<exists>x. final = Some x \<and> append_decoded_event X res FromFinish ev2 x = Inr events)"
      unfolding decode_end_def provider_decoder_def
      by (fastforce simp: res_simps split: option.splits if_splits)
    from factory_finish_ok [OF fin, of ?n] ev show ?thesis by (auto dest!: append_decoded_set)
  qed (use t in \<open>auto simp: decode_end_def res_simps\<close>)
  with r assms(2) show ?thesis by auto
qed

section \<open>Honest decoders\<close>

text \<open>
  The interface between a decoder and \<^verbatim>\<open>decode_sandbox_result\<close>: a decoder keeps count of what it
  emitted. For such a decoder the checks of the envelope never fail, and decoding is just the
  concatenation of what its methods return.
\<close>

definition acceptable :: "ext \<Rightarrow> run_id \<Rightarrow> runtime_event list \<Rightarrow> runtime_event \<Rightarrow> bool" where
  "acceptable X rid events e =
     ((events = [] \<or> \<not> is_terminal_event (last events)) \<and> re_schema_version e = SchemaVersion
      \<and> re_run_id e = rid \<and> unat (re_sequence e) = Suc (length events)
      \<and> re_sequence e \<le> max_runtime_events
      \<and> ensure_event_bounds X (re_payload e) (re_vendor_metadata e) = Inr ())"

fun acceptable_all :: "ext \<Rightarrow> run_id \<Rightarrow> runtime_event list \<Rightarrow> runtime_event list \<Rightarrow> bool" where
  "acceptable_all X rid events [] = True"
| "acceptable_all X rid events (e # es) =
     (acceptable X rid events e \<and> source_valid FromStdout (re_payload e) None
      \<and> acceptable_all X rid (events @ [e]) es)"

lemma append_acceptable:
  assumes "acceptable X (sx_run_id res) events e" and "source_valid source (re_payload e) (sx_exit_code res)"
  shows "append_decoded_event X res source events e = Inr (events @ [e])"
proof -
  have u: "unat (re_sequence e) = Suc (length events)" using assms(1) by (simp add: acceptable_def)
  have "unat (re_sequence e) < 2 ^ LENGTH(64)" by (rule unsigned_less)
  with u have b: "Suc (length events) < 2 ^ 64" by simp
  then have "Option.bind (u64_of_len (length events)) (\<lambda>n. checked_add n 1) = Some (of_nat (length events) + 1)"
    by (simp add: u64_of_len_def checked_add_def unat_of_nat)
  moreover have "of_nat (length events) + 1 = re_sequence e"
    using u b by (simp add: word_unat_eq_iff unat_of_nat unat_word_ariths)
  ultimately show ?thesis
    using assms by (auto simp: append_decoded_event_def acceptable_def ok_or_def not_less)
qed

lemma append_all_acceptable:
  "acceptable_all X (sx_run_id res) events es \<Longrightarrow> append_all X res FromStdout events es = Inr (events @ es)"
  by (induction es arbitrary: events) (simp_all add: append_acceptable)

definition decode_plain :: "'d event_decoder \<Rightarrow> sandbox_result \<Rightarrow> ('d, openwork_error, runtime_event list) op" where
  \<comment> \<open>decoding without a single check on the events\<close>
  "decode_plain C res =
     bnd (lift_res (validate_sandbox_result res)) (\<lambda>_.
     if sx_cleanup res \<noteq> CleanupSucceeded then fail_with (runtime_error ''sandbox cleanup failed'')
     else if sx_truncated res then fail_with (runtime_error ''sandbox output was truncated'')
     else
       bnd (op_map (dc_stdout C) (str_lines (sx_stdout res))) (\<lambda>outs.
       bnd (op_map (dc_stderr C) (str_lines (sx_stderr res))) (\<lambda>errs.
       if sx_termination res = TermExited
       then
         bnd (lift_res (ok_or (sx_exit_code res) (runtime_error ''exited sandbox omitted its exit code''))) (\<lambda>status.
         bnd (dc_finish C status) (\<lambda>final.
         ret (concat outs @ errs @ (case final of None \<Rightarrow> [] | Some e \<Rightarrow> [e]))))
       else ret (concat outs @ errs))))"

locale honest_decoder =
  fixes C :: "'d event_decoder"
    and X :: ext
    and counts :: "run_id \<Rightarrow> runtime_event list \<Rightarrow> 'd \<Rightarrow> bool"
  assumes out: "counts rid events d \<Longrightarrow> dc_stdout C line d = (Inr es, d') \<Longrightarrow>
      acceptable_all X rid events es \<and> counts rid (events @ es) d'"
    and err: "counts rid events d \<Longrightarrow> dc_stderr C line d = (Inr e, d') \<Longrightarrow>
      acceptable X rid events e \<and> source_valid FromStderr (re_payload e) None \<and> counts rid (events @ [e]) d'"
    and fin: "counts rid events d \<Longrightarrow> dc_finish C status d = (Inr final, d') \<Longrightarrow>
      (case final of
         None \<Rightarrow> events \<noteq> [] \<and> is_terminal_event (last events)
       | Some e \<Rightarrow> acceptable X rid events e \<and> source_valid FromFinish (re_payload e) (Some status))"
begin

lemma stdout_plain:
  "counts (sx_run_id res) events d \<Longrightarrow>
   decode_stdout_lines X C res events lines d = bnd (op_map (dc_stdout C) lines) (\<lambda>outs. ret (events @ concat outs)) d
   \<and> (\<forall>outs d'. op_map (dc_stdout C) lines d = (Inr outs, d') \<longrightarrow> counts (sx_run_id res) (events @ concat outs) d')"
proof (induction lines arbitrary: events d)
  case (Cons l lines)
  obtain r d1 where l: "dc_stdout C l d = (r, d1)" by (metis surj_pair)
  show ?case
  proof (cases r)
    case (Inr es)
    note o = out [OF Cons.prems l [unfolded Inr]]
    from Cons.IH [OF conjunct2 [OF o]] show ?thesis
      using l Inr append_all_acceptable [OF conjunct1 [OF o]]
      by (auto simp: bnd_def ret_def lift_res_def split: sum.splits prod.splits)
  qed (use l in \<open>simp add: bnd_def\<close>)
qed (simp add: bnd_def ret_def)

lemma stderr_plain:
  "counts (sx_run_id res) events d \<Longrightarrow>
   decode_stderr_lines X C res events lines d = bnd (op_map (dc_stderr C) lines) (\<lambda>errs. ret (events @ errs)) d
   \<and> (\<forall>errs d'. op_map (dc_stderr C) lines d = (Inr errs, d') \<longrightarrow> counts (sx_run_id res) (events @ errs) d')"
proof (induction lines arbitrary: events d)
  case (Cons l lines)
  obtain r d1 where l: "dc_stderr C l d = (r, d1)" by (metis surj_pair)
  show ?case
  proof (cases r)
    case (Inr e)
    note o = err [OF Cons.prems l [unfolded Inr]]
    from Cons.IH o have IH: "decode_stderr_lines X C res (events @ [e]) lines d1
        = bnd (op_map (dc_stderr C) lines) (\<lambda>errs. ret ((events @ [e]) @ errs)) d1
      \<and> (\<forall>errs d'. op_map (dc_stderr C) lines d1 = (Inr errs, d') \<longrightarrow> counts (sx_run_id res) ((events @ [e]) @ errs) d')"
      by blast
    have "append_decoded_event X res FromStderr events e = Inr (events @ [e])"
      using o by (intro append_acceptable) (auto split: event_payload.splits)
    with IH l Inr show ?thesis by (auto simp: bnd_def ret_def lift_res_def split: sum.splits prod.splits)
  qed (use l in \<open>simp add: bnd_def\<close>)
qed (simp add: bnd_def ret_def)

lemma end_plain:
  assumes "counts (sx_run_id res) events d"
  shows "decode_end X C res events d =
    (if sx_termination res = TermExited
     then bnd (lift_res (ok_or (sx_exit_code res) (runtime_error ''exited sandbox omitted its exit code''))) (\<lambda>status.
       bnd (dc_finish C status) (\<lambda>final. ret (events @ (case final of None \<Rightarrow> [] | Some e \<Rightarrow> [e])))) d
     else ret events d)"
proof (cases "sx_termination res = TermExited \<and> sx_exit_code res \<noteq> None")
  case True
  then obtain st where st: "sx_exit_code res = Some st" by auto
  obtain r d1 where l: "dc_finish C st d = (r, d1)" by (metis surj_pair)
  show ?thesis
  proof (cases r)
    case (Inr final)
    from fin [OF assms l [unfolded Inr]] l Inr True st append_acceptable [of X res events _ FromFinish] show ?thesis
      by (cases final) (auto simp: decode_end_def bnd_def ret_def lift_res_def ok_or_def)
  qed (use l True st in \<open>simp add: decode_end_def bnd_def lift_res_def ok_or_def\<close>)
qed (auto simp: decode_end_def bnd_def lift_res_def ok_or_def)

lemma decode_is_plain:
  assumes "counts (sx_run_id res) [] d"
  shows "decode_sandbox_result X C res d = decode_plain C res d"
proof -
  let ?out = "op_map (dc_stdout C) (str_lines (sx_stdout res))"
    and ?err = "op_map (dc_stderr C) (str_lines (sx_stderr res))"
  obtain ro d1 where o: "?out d = (ro, d1)" by (metis surj_pair)
  obtain re d2 where e: "?err d1 = (re, d2)" by (metis surj_pair)
  note so = stdout_plain [OF assms, of "str_lines (sx_stdout res)"]
  show ?thesis
  proof (cases ro)
    case (Inl x)
    with o so show ?thesis by (simp add: decode_sandbox_result_def decode_plain_def bnd_def lift_res_def split: sum.split)
  next
    case (Inr outs)
    with o so have co: "counts (sx_run_id res) (concat outs) d1"
      and do: "decode_stdout_lines X C res [] (str_lines (sx_stdout res)) d = (Inr (concat outs), d1)"
      by (auto simp: bnd_def ret_def)
    note se = stderr_plain [OF co, of "str_lines (sx_stderr res)"]
    show ?thesis
    proof (cases re)
      case x: (Inl x)
      with o e do se Inr show ?thesis
        by (simp add: decode_sandbox_result_def decode_plain_def bnd_def lift_res_def split: sum.split)
    next
      case y: (Inr errs)
      with e se have "counts (sx_run_id res) (concat outs @ errs) d2"
        and de: "decode_stderr_lines X C res (concat outs) (str_lines (sx_stderr res)) d1 = (Inr (concat outs @ errs), d2)"
        by (auto simp: bnd_def ret_def)
      from end_plain [OF this(1)] o e do de Inr y show ?thesis
        by (auto simp: decode_sandbox_result_def decode_plain_def bnd_def lift_res_def split: sum.split)
    qed
  qed
qed

end

definition factory_counts :: "run_id \<Rightarrow> runtime_event list \<Rightarrow> event_factory \<Rightarrow> bool" where
  "factory_counts rid events f =
     (ef_run_id f = rid \<and> unat (ef_next_sequence f) = Suc (length events)
      \<and> (ef_terminal f \<longleftrightarrow> events \<noteq> [] \<and> is_terminal_event (last events)))"

lemma emitted_counts:
  assumes "emitted X f e g" and "factory_counts rid events f"
  shows "acceptable X rid events e \<and> factory_counts rid (events @ [e]) g"
proof -
  have "unat (ef_next_sequence f + 1) = Suc (unat (ef_next_sequence f))"
    using assms(1) by (auto simp: emitted_def max_runtime_events_def word_le_nat_alt unat_word_ariths)
  with assms show ?thesis by (auto simp: emitted_def acceptable_def factory_counts_def)
qed

lemma emitted_all_counts:
  assumes "emitted_all X f es g" and "factory_counts rid events f" and "\<forall>e \<in> set es. good_event names e"
  shows "acceptable_all X rid events es \<and> factory_counts rid (events @ es) g"
  using assms
proof (induction es arbitrary: f events)
  case (Cons e es)
  then obtain h where h: "emitted X f e h" "emitted_all X h es g" by auto
  note c = emitted_counts [OF h(1) Cons.prems(2)]
  have "source_valid FromStdout (re_payload e) None"
    using Cons.prems(3) by (auto simp: good_event_def split: event_payload.splits)
  with Cons.IH [OF h(2) conjunct2 [OF c]] c Cons.prems(3) show ?case by simp
qed simp

interpretation provider: honest_decoder "provider_decoder D p" "de_ext D" factory_counts for D p
proof unfold_locales
  fix rid events f line es g
  assume c: "factory_counts rid events f" and "dc_stdout (provider_decoder D p) line f = (Inr es, g)"
  then show "acceptable_all (de_ext D) rid events es \<and> factory_counts rid (events @ es) g"
    using emits_provider [of D p line] emitted_all_counts [OF _ c]
    unfolding emits_def provider_decoder_def by (simp, blast)
next
  fix rid events f line e g
  assume c: "factory_counts rid events f" and s: "dc_stderr (provider_decoder D p) line f = (Inr e, g)"
  then have "emitted (de_ext D) f e g"
    using emits_stderr [of D True line] unfolding emits_one_def provider_decoder_def by simp
  moreover have "source_valid FromStderr (re_payload e) None"
    using s by (auto simp: provider_decoder_def factory_stderr_def factory_event_def res_simps split: if_splits)
  ultimately show "acceptable (de_ext D) rid events e \<and> source_valid FromStderr (re_payload e) None
      \<and> factory_counts rid (events @ [e]) g"
    using emitted_counts [OF _ c] by blast
next
  fix rid events f status final g
  assume c: "factory_counts rid events f" and "dc_finish (provider_decoder D p) status f = (Inr final, g)"
  then show "case final of None \<Rightarrow> events \<noteq> [] \<and> is_terminal_event (last events)
      | Some e \<Rightarrow> acceptable (de_ext D) rid events e \<and> source_valid FromFinish (re_payload e) (Some status)"
    using factory_finish_ok [of D status f final g True] emitted_counts [OF _ c]
    by (auto simp: provider_decoder_def factory_counts_def)
qed

text \<open>
  C31. The envelope checks never reject a provider of the crate: with a fresh decoder of any of the four
  providers, decoding returns exactly what the decoder's own methods return for the lines of standard
  output, then of standard error, then for the exit status, with the same errors and the same final
  state, and nothing it emits is lost or refused.
\<close>

theorem decoding_is_concatenation:
  "decode_sandbox_result (de_ext D) (provider_decoder D p) res (new_factory (sx_run_id res))
     = decode_plain (provider_decoder D p) res (new_factory (sx_run_id res))"
  by (rule provider.decode_is_plain) (simp add: factory_counts_def new_factory_def)

section \<open>Prompts\<close>

text \<open>
  C32. A prompt reaches the provider on standard input only: for tasks that differ in nothing but the
  prompt and its digest, the program, its arguments and its empty environment are the same, and the
  program is the configured executable of the container; what was prepared on standard input is what
  the sandbox request carries.
\<close>

theorem prompt_stays_off_the_command_line:
  assumes "prepare X p exe task = Inr first"
    and "prepare X p exe (task\<lparr>rt_prompt := other, rt_prompt_hash := h\<rparr>) = Inr second"
    and "into_sandbox_request first rid img user input_directory output_directory limits = Inr request"
  shows "ri_command first = ri_command second \<and> sc_program (sr_command request) = exe
    \<and> sc_arguments (sr_command request) = sc_arguments (ri_command second)
    \<and> sc_environment (sr_command request) = [] \<and> sc_stdin (sr_command request) = ri_stdin first
    \<and> rt_prompt_hash task = sha256_bytes X (rt_prompt task)"
proof -
  have args: "provider_arguments p (task\<lparr>rt_prompt := other, rt_prompt_hash := h\<rparr>) = provider_arguments p task"
    by (cases p) (simp_all add: claude_arguments_def codex_arguments_def can_write_def)
  have cmd: "c = \<lparr>sc_program = prog, sc_arguments = as, sc_environment = env, sc_stdin = i\<rparr>"
    if "command_with_stdin prog as env i = Inr c" for prog as env i c
    using that by (auto simp: command_with_stdin_def Let_def split: if_splits)
  from assms(1) have "validate_task X task (runtime_id p) = Inr ()"
    and c: "new_command exe (provider_arguments p task) [] = Inr (ri_command first)"
    by (auto simp: prepare_def res_simps)
  then have "rt_prompt_hash task = sha256_bytes X (rt_prompt task)"
    by (auto simp: validate_task_def validate_runtime_task_def prompt_matches_hash_def Let_def res_simps split: if_splits)
  moreover from assms(2) c args have "ri_command second = ri_command first" by (auto simp: prepare_def res_simps)
  moreover have "ri_command first = \<lparr>sc_program = exe, sc_arguments = provider_arguments p task, sc_environment = [],
      sc_stdin = []\<rparr>" using cmd c by (simp add: new_command_def)
  ultimately show ?thesis
    using assms(3)
    by (auto simp: into_sandbox_request_def new_sandbox_request_def res_simps dest!: cmd split: if_splits)
qed

end
