(* ===== verification/Worker_Properties.thy ===== *)
theory Worker_Properties
  imports Worker Runtime_Properties
begin

text \<open>
  What a worker call guarantees, proved against the contract of its lease store: a locale states what
  each method promises, the worker's theorems follow from it, and the queue repository, shared with
  other processes that may make any calls in between, satisfies it.
\<close>

section \<open>The contract of a lease store\<close>

definition kept ::
    "('s \<Rightarrow> bool) \<Rightarrow> ('s \<Rightarrow> run_id \<Rightarrow> artifact list) \<Rightarrow> (run_id \<Rightarrow> artifact list) \<Rightarrow> 's \<Rightarrow> bool" where
  \<comment> \<open>a good state that still records the given artifacts\<close>
  "kept good recorded L s = (good s \<and> (\<forall>rid. prefix (L rid) (recorded s rid)))"

definition success_evidence ::
    "worker_ambient \<Rightarrow> run_id \<Rightarrow> worker_environment \<Rightarrow> sandbox_result \<Rightarrow> artifact list \<Rightarrow> bool" where
  "success_evidence A rid environment res recorded =
     (sx_termination res = TermExited \<and> sx_exit_code res = Some 0 \<and> sx_cleanup res = CleanupSucceeded
      \<and> \<not> sx_truncated res
      \<and> (\<exists>scanner now batch earlier later. new_scanner (we_max_artifact_bytes environment) = Inr scanner
           \<and> scan (de_ext (am_decode A)) (am_files A) scanner (am_artifact_ids A) rid
               (we_artifact_output_root environment) (sx_output_paths res) now = Inr batch
           \<and> recorded = earlier @ batch @ later))"

definition requested_for :: "worker_ambient \<Rightarrow> task_adapter \<Rightarrow> run_lease \<Rightarrow> one_time_prompt \<Rightarrow> worker_environment \<Rightarrow> sandbox_request \<Rightarrow> bool" where
  "requested_for A adapter lease prompt environment request =
     (\<exists>task invocation plain. rt_prompt task = take_prompt prompt
        \<and> sha256_bytes (de_ext (am_decode A)) (take_prompt prompt) = r_prompt_sha256 (ls_run lease)
        \<and> prepare (de_ext (am_decode A)) (ta_provider adapter) (ta_container_executable adapter) task = Inr invocation
        \<and> into_sandbox_request invocation (r_id (ls_run lease)) (we_image environment) (we_user environment)
            (we_input_directory environment) (we_output_directory environment) (we_limits environment) = Inr plain
        \<and> request = with_network plain (we_network environment))"

lemma preserves_on_store [preserves_intros]:
  "preserves P m \<Longrightarrow> preserves (\<lambda>w. P (ws_store w)) (on_store m)"
  by (fastforce simp: preserves_def on_store_def split: prod.splits)

lemma preserves_now [preserves_intros]: "preserves (\<lambda>w. P (ws_store w)) (now_utc A)"
  by (simp add: preserves_def now_utc_def)

lemma on_store_iff [res_simps]:
  "(on_store m w = (r, v)) = (\<exists>t. m (ws_store w) = (r, t) \<and> v = w\<lparr>ws_store := t\<rparr>)"
  by (auto simp: on_store_def split: prod.splits)

lemma now_utc_iff [res_simps]:
  "(now_utc A w = (r, v)) = (r = Inr (am_clock A (ws_reads w)) \<and> v = w\<lparr>ws_reads := Suc (ws_reads w)\<rparr>)"
  by (auto simp: now_utc_def)

definition beats_keep :: "worker_ambient \<Rightarrow> 's single_run_worker \<Rightarrow> (run_lease \<Rightarrow> 's worker_state \<Rightarrow> bool) \<Rightarrow> bool" where
  "beats_keep A W I =
     (\<forall>lease primary w. I lease w \<longrightarrow>
        (case supervise_beat A W lease primary w of ((lease', _), w') \<Rightarrow> I lease' w'))"

lemma supervise_inv:
  assumes "supervise A W request round sent lease primary w = Some (Inr (l, res), v)"
    and "beats_keep A W I" and "I lease w"
  shows "I l v \<and> (\<exists>round sent. sb_receive (wk_sandbox W) request round sent = Delivered (Inr res))"
proof -
  define P where "P A W request (round :: nat) (sent :: nat option) lease (primary :: openwork_error option) w y =
    (fst y = (Inr (l, res) :: openwork_error + run_lease \<times> sandbox_result) \<longrightarrow> beats_keep A W I \<longrightarrow> I lease w \<longrightarrow>
      I l (snd y) \<and> (\<exists>round sent. sb_receive (wk_sandbox W) request round sent = Delivered (Inr res)))"
    for A W request round sent lease primary w y
  have "P A W request round sent lease primary w (Inr (l, res), v)"
  proof (rule supervise.raw_induct [where P = P, OF _ assms(1)])
    fix f A W request round sent lease primary w y
    assume IH: "\<And>A W request round sent lease primary w y.
        f A W request round sent lease primary w = Some y \<Longrightarrow> P A W request round sent lease primary w y"
      and body: "(case sb_receive (wk_sandbox W) request round sent of
        Delivered out \<Rightarrow>
          Some (case primary of None \<Rightarrow> res_bind out (\<lambda>res. Inr (lease, res)) | Some error \<Rightarrow> Inl error, w)
      | Waiting \<Rightarrow>
          case supervise_beat A W lease primary w of
            ((lease, primary), w) \<Rightarrow> case supervise_cancel W round sent lease primary of
              (sent, primary) \<Rightarrow> f A W request (Suc round) sent lease primary w
      | ThreadPanicked \<Rightarrow> None) = Some y"
    show "P A W request round sent lease primary w y"
    proof (cases "sb_receive (wk_sandbox W) request round sent")
      case (Delivered out)
      with body have "y = (case primary of Some e \<Rightarrow> Inl e | None \<Rightarrow> res_bind out (\<lambda>res. Inr (lease, res)), w)" by simp
      with Delivered show ?thesis unfolding P_def by (cases primary) (auto simp: res_simps)
    next
      case Waiting
      obtain l1 p1 w1 where b: "supervise_beat A W lease primary w = ((l1, p1), w1)" by (metis surj_pair)
      obtain s1 p2 where c: "supervise_cancel W round sent l1 p1 = (s1, p2)" by (metis surj_pair)
      from body Waiting b c have "f A W request (Suc round) s1 l1 p2 w1 = Some y" by simp
      from IH [OF this] have IH1: "P A W request (Suc round) s1 l1 p2 w1 y" .
      have "I l1 w1" if "I lease w" "beats_keep A W I"
      proof -
        from that have "case supervise_beat A W lease primary w of ((lease', _), w') \<Rightarrow> I lease' w'"
          by (simp add: beats_keep_def)
        with b show ?thesis by simp
      qed
      with IH1 show ?thesis unfolding P_def by blast
    qed (use body in simp)
  qed
  with assms(2,3) show ?thesis by (simp add: P_def)
qed

locale lease_contract =
  fixes W :: "'s single_run_worker"
    and good :: "'s \<Rightarrow> bool"
    and recorded :: "'s \<Rightarrow> run_id \<Rightarrow> artifact list"
    and stored :: "'s \<Rightarrow> run_id \<Rightarrow> run option"
    and asked :: "'s \<Rightarrow> run_id \<Rightarrow> bool"
  assumes calls:
      "preserves (kept good recorded L) (lo_heartbeat (wk_store W) lease now ttl)"
      "preserves (kept good recorded L) (lo_transition (wk_store W) lease rv nxt now)"
      "preserves (kept good recorded L) (lo_record_artifacts (wk_store W) lease rv batch now)"
      "preserves (kept good recorded L) (lo_append_runtime_audit (wk_store W) lease rv ty now)"
      "preserves (kept good recorded L) (lo_complete (wk_store W) lease rv nxt why now)"
      "preserves (kept good recorded L) (lo_cancel_requested (wk_store W) lease now)"
      "preserves (kept good recorded L) (lo_confirm_cancel (wk_store W) lease now ev)"
    and heartbeat: "good s \<Longrightarrow> lo_heartbeat (wk_store W) lease now ttl s = (Inr l, t) \<Longrightarrow>
      r_id (ls_run l) = r_id (ls_run lease)"
    and transition: "good s \<Longrightarrow> lo_transition (wk_store W) lease rv nxt now s = (Inr l, t) \<Longrightarrow>
      r_id (ls_run l) = r_id (ls_run lease) \<and> r_status (ls_run l) = nxt
      \<and> stored t (r_id (ls_run lease)) = Some (ls_run l)"
    and record_batch: "good s \<Longrightarrow> lo_record_artifacts (wk_store W) lease rv batch now s = (Inr u, t) \<Longrightarrow>
      suffix batch (recorded t (r_id (ls_run lease)))"
    and complete: "good s \<Longrightarrow> lo_complete (wk_store W) lease rv nxt why now s = (Inr r, t) \<Longrightarrow>
      r_status r = nxt \<and> stored t (r_id (ls_run lease)) = Some r"
    and cancel_asked: "good s \<Longrightarrow> lo_cancel_requested (wk_store W) lease now s = (Inr True, t) \<Longrightarrow>
      asked t (r_id (ls_run lease))"
    and confirm: "good s \<Longrightarrow> lo_confirm_cancel (wk_store W) lease now ev s = (Inr r, t) \<Longrightarrow>
      r_status r = Cancelled \<and> stored t (r_id (ls_run lease)) = Some r"
begin

abbreviation safe :: "(run_id \<Rightarrow> artifact list) \<Rightarrow> 's worker_state \<Rightarrow> bool" where
  "safe L w \<equiv> kept good recorded L (ws_store w)"

lemma store_calls_safe:
  "preserves (safe L) (complete_run W lease nxt why now)"
  "preserves (safe L) (audit A W lease ty)"
  "preserves (safe L) (audit_each A W lease events)"
proof -
  show "preserves (safe L) (complete_run W lease nxt why now)"
    unfolding complete_run_def by (intro preserves_intros calls)
  show a: "preserves (safe L) (audit A W lease ty)" for ty
    unfolding audit_def by (intro preserves_intros calls)
  show "preserves (safe L) (audit_each A W lease events)"
    by (induction events) (simp_all add: a preserves_intros)
qed

definition ended :: "'s worker_state \<Rightarrow> run_id \<Rightarrow> run_status \<Rightarrow> worker_outcome \<Rightarrow> bool" where
  "ended w rid st out = (\<exists>r. out = OutCompleted r \<and> r_status r = st \<and> stored (ws_store w) rid = Some r)"

lemma complete_run_ended:
  "complete_run W lease nxt why now w = (Inr out, v) \<Longrightarrow> good (ws_store w) \<Longrightarrow> ended v (r_id (ls_run lease)) nxt out"
  by (auto simp: complete_run_def ended_def res_simps dest: complete)

lemma fail_closed_ended:
  "fail_closed W lease why now w = (Inr out, v) \<Longrightarrow> good (ws_store w) \<Longrightarrow> ended v (r_id (ls_run lease)) Failed out"
  unfolding fail_closed_def by (rule complete_run_ended)

lemma failing_never_ok:
  "fail_after_error W lease e now w \<noteq> (Inr out, v)" "fail_now A W lease e w \<noteq> (Inr out, v)"
  by (auto simp: fail_after_error_def fail_now_def res_simps)

lemma audit_good: "audit A W lease ty w = (r, v) \<Longrightarrow> good (ws_store w) \<Longrightarrow> good (ws_store v)"
  using preservesD [OF store_calls_safe(2), of A lease ty w r v "\<lambda>_. []"] by (simp add: kept_def)

lemma audits_good: "audit_each A W lease events w = (r, v) \<Longrightarrow> good (ws_store w) \<Longrightarrow> good (ws_store v)"
  using preservesD [OF store_calls_safe(3), of A lease events w r v "\<lambda>_. []"] by (simp add: kept_def)

lemma store_good:
  "lo_heartbeat (wk_store W) lease now ttl s = (x1, t) \<Longrightarrow> good s \<Longrightarrow> good t"
  "lo_transition (wk_store W) lease rv nxt now s = (x2, t) \<Longrightarrow> good s \<Longrightarrow> good t"
  "lo_record_artifacts (wk_store W) lease rv batch now s = (x3, t) \<Longrightarrow> good s \<Longrightarrow> good t"
  "lo_cancel_requested (wk_store W) lease now s = (x4, t) \<Longrightarrow> good s \<Longrightarrow> good t"
  using preservesD [OF calls(1), of lease now ttl s x1 t "\<lambda>_. []"]
    preservesD [OF calls(2), of lease rv nxt now s x2 t "\<lambda>_. []"]
    preservesD [OF calls(3), of lease rv batch now s x3 t "\<lambda>_. []"]
    preservesD [OF calls(6), of lease now s x4 t "\<lambda>_. []"]
  by (simp_all add: kept_def)

lemma destroyed_then_ended:
  assumes "bnd (audit A W lease EvSandboxDestroyed) (\<lambda>_. bnd (now_utc A) (complete_run W lease nxt why)) w = (Inr out, v)"
    and "good (ws_store w)"
  shows "ended v (r_id (ls_run lease)) nxt out"
  using assms by (auto simp: res_simps dest!: audit_good intro: complete_run_ended)

lemma store_outputs_ok:
  assumes "store_outputs A W lease batch w = (Inr out, v)" and "good (ws_store w)"
  shows "ended v (r_id (ls_run lease)) Succeeded out
    \<and> (\<exists>earlier later. recorded (ws_store v) (r_id (ls_run lease)) = earlier @ batch @ later)"
proof -
  let ?rid = "r_id (ls_run lease)"
  let ?closing = "bnd (audit A W lease EvSandboxDestroyed) (\<lambda>_. bnd (now_utc A) (complete_run W lease Succeeded None))"
  from assms(1) have "(case on_store (lo_record_artifacts (wk_store W) lease (lease_revision lease) batch
      (am_clock A (ws_reads w))) (w\<lparr>ws_reads := Suc (ws_reads w)\<rparr>) of
        (Inl error, w) \<Rightarrow> fail_now A W lease error w | (Inr _, w) \<Rightarrow> ?closing w) = (Inr out, v)"
    unfolding store_outputs_def by (simp only: bnd_def now_utc_def prod.case sum.case)
  then obtain t where r: "lo_record_artifacts (wk_store W) lease (lease_revision lease) batch
      (am_clock A (ws_reads w)) (ws_store w) = (Inr (), t)"
    and e: "?closing (w\<lparr>ws_reads := Suc (ws_reads w), ws_store := t\<rparr>) = (Inr out, v)"
    by (auto simp: failing_never_ok on_store_def split: prod.splits sum.splits)
  have g: "good t" by (rule store_good(3) [OF r assms(2)])
  have "preserves (safe (recorded t)) (bnd (audit A W lease EvSandboxDestroyed) (\<lambda>_.
      bnd (now_utc A) (complete_run W lease Succeeded None)))"
    by (intro preserves_intros store_calls_safe)
  from preservesD [OF this e] g have "prefix (recorded t ?rid) (recorded (ws_store v) ?rid)"
    by (simp add: kept_def)
  moreover from record_batch [OF assms(2) r] obtain earlier where "recorded t ?rid = earlier @ batch"
    by (auto simp: suffix_def)
  ultimately have "\<exists>earlier later. recorded (ws_store v) ?rid = earlier @ batch @ later"
    by (auto simp: prefix_def)
  with destroyed_then_ended [OF e] g show ?thesis by simp
qed

lemma events_succeeded_exit:
  assumes "decode_sandbox_result X C res d = (Inr events, d')" and "events_succeeded events"
  shows "sx_termination res = TermExited \<and> sx_exit_code res = Some 0 \<and> sx_cleanup res = CleanupSucceeded
    \<and> \<not> sx_truncated res"
proof -
  have "last events \<in> set events" "re_payload (last events) = PCompleted 0"
    using assms(2) by (simp_all add: events_succeeded_def)
  with decoded_stream_facts [OF assms(1)] have "sx_termination res = TermExited" "sx_exit_code res = Some 0"
    by blast+
  moreover have "sx_cleanup res = CleanupSucceeded" "\<not> sx_truncated res"
    using assms(1) by (auto simp: decode_sandbox_result_def res_simps split: if_splits)
  ultimately show ?thesis by blast
qed

definition earned :: "worker_ambient \<Rightarrow> worker_environment \<Rightarrow> run_id \<Rightarrow> sandbox_result \<Rightarrow> worker_outcome \<Rightarrow> 's worker_state \<Rightarrow> bool" where
  "earned A environment rid res out v =
     (ended v rid Failed out
      \<or> ended v rid TimedOut out \<and> sx_termination res = TermTimedOut
      \<or> ended v rid Cancelled out \<and> sx_termination res = TermCancelled \<and> sx_cleanup res = CleanupSucceeded
          \<and> (\<exists>u. good u \<and> asked u rid)
      \<or> ended v rid Succeeded out \<and> success_evidence A rid environment res (recorded (ws_store v) rid))"

lemma finish_exited_earned:
  assumes "finish_exited A W lease res environment w = (Inr out, v)" and "good (ws_store w)"
  shows "earned A environment (r_id (ls_run lease)) res out v"
proof -
  let ?D = "am_decode A" and ?rid = "r_id (ls_run lease)"
  obtain r d where d: "decode_sandbox_result (de_ext ?D) (provider_decoder ?D (ta_provider (wk_adapter W))) res
      (new_factory ?rid) = (r, d)" by (metis surj_pair)
  with assms(1) obtain events where r: "r = Inr events"
    by (cases r) (auto simp: finish_exited_def failing_never_ok)
  with assms(1) d obtain w1 where a: "audit_each A W lease events w = (Inr (), w1)"
    and rest: "(if \<not> events_succeeded events then complete_failed A W lease
       else case new_scanner (we_max_artifact_bytes environment) of
          Inl error \<Rightarrow> fail_now A W lease error
        | Inr scanner \<Rightarrow> bnd (now_utc A) (\<lambda>now.
            case scan (de_ext ?D) (am_files A) scanner (am_artifact_ids A) ?rid
                (we_artifact_output_root environment) (sx_output_paths res) now of
              Inl error \<Rightarrow> fail_now A W lease error
            | Inr batch \<Rightarrow> store_outputs A W lease batch)) w1 = (Inr out, v)"
    by (auto simp: finish_exited_def res_simps)
  have g: "good (ws_store w1)" by (rule audits_good [OF a assms(2)])
  show ?thesis
  proof (cases "events_succeeded events")
    case False
    with rest have "complete_failed A W lease w1 = (Inr out, v)" by simp
    from destroyed_then_ended [OF this [unfolded complete_failed_def] g] show ?thesis by (simp add: earned_def)
  next
    case True
    with rest obtain scanner now batch w2 where s: "new_scanner (we_max_artifact_bytes environment) = Inr scanner"
      "scan (de_ext ?D) (am_files A) scanner (am_artifact_ids A) ?rid
         (we_artifact_output_root environment) (sx_output_paths res) now = Inr batch"
      and o: "store_outputs A W lease batch w2 = (Inr out, v)" and w2: "ws_store w2 = ws_store w1"
      by (auto simp: res_simps failing_never_ok split: sum.splits)
    from store_outputs_ok [OF o] g w2 have "ended v ?rid Succeeded out"
      "\<exists>earlier later. recorded (ws_store v) ?rid = earlier @ batch @ later" by simp_all
    with s events_succeeded_exit [OF d [unfolded r] True] show ?thesis
      unfolding earned_def success_evidence_def by blast
  qed
qed

lemma finish_cancelled_earned:
  assumes "finish_cancelled A W lease res w = (Inr out, v)" and "good (ws_store w)"
    and "asked (ws_store w) (r_id (ls_run lease))"
  shows "earned A environment (r_id (ls_run lease)) res out v"
proof (cases "sx_termination res = TermCancelled")
  case False
  with assms(1,2) have "ended v (r_id (ls_run lease)) Failed out"
    by (auto simp: finish_cancelled_def res_simps dest!: fail_closed_ended)
  then show ?thesis by (simp add: earned_def)
next
  case True
  with assms(1) obtain ev r now t where v: "verify_cancellation lease res = Inr ev"
    and c: "lo_confirm_cancel (wk_store W) lease now ev (ws_store w) = (Inr r, t)"
    and o: "out = OutCompleted r" "ws_store v = t"
    by (auto simp: finish_cancelled_def failing_never_ok res_simps split: sum.splits)
  have "sx_cleanup res = CleanupSucceeded" using v by (auto simp: verify_cancellation_def res_simps split: if_splits)
  moreover have "ended v (r_id (ls_run lease)) Cancelled out"
    using confirm [OF assms(2) c] o by (auto simp: ended_def)
  ultimately show ?thesis using assms(2,3) True unfolding earned_def by blast
qed

lemma finish_terminated_earned:
  assumes "finish_terminated A W lease res environment w = (Inr out, v)" and "good (ws_store w)"
  shows "earned A environment (r_id (ls_run lease)) res out v"
proof (cases "sx_termination res")
  case TermExited
  with assms finish_exited_earned show ?thesis by (simp add: finish_terminated_def Let_def)
next
  case TermCancelled
  with assms have "ended v (r_id (ls_run lease)) Failed out"
    by (auto simp: finish_terminated_def Let_def res_simps dest!: fail_closed_ended)
  then show ?thesis by (simp add: earned_def)
qed (use assms destroyed_then_ended in \<open>simp_all add: finish_terminated_def Let_def earned_def\<close>)

lemma worker_finish_earned:
  assumes "finish A W lease res environment w = (Inr out, v)" and "good (ws_store w)"
  shows "earned A environment (r_id (ls_run lease)) res out v \<and> validate_sandbox_result res = Inr ()"
proof -
  let ?rid = "r_id (ls_run lease)" and ?now = "am_clock A (ws_reads w)"
  have valid: "validate_sandbox_result res = Inr ()"
    using assms(1) by (cases "validate_sandbox_result res") (auto simp: finish_def res_simps failing_never_ok)
  have "earned A environment ?rid res out v"
  proof (cases "sx_run_id res = ?rid")
    case False
    with assms valid show ?thesis
      by (auto simp: finish_def res_simps earned_def dest!: fail_closed_ended)
  next
    case True
    let ?w = "w\<lparr>ws_reads := Suc (ws_reads w)\<rparr>"
    from assms(1) valid True obtain w1 w2 requested t where a: "audit A W lease EvSandboxCreated ?w = (Inr (), w1)"
        "audit A W lease EvRuntimeStarted w1 = (Inr (), w2)"
      and c: "lo_cancel_requested (wk_store W) lease ?now (ws_store w2) = (Inr requested, t)"
      and f: "(if requested then finish_cancelled A W lease res else finish_terminated A W lease res environment)
         (w2\<lparr>ws_store := t\<rparr>) = (Inr out, v)"
      by (auto simp: finish_def res_simps)
    have "good (ws_store w2)" using a assms(2) by (auto dest!: audit_good)
    then have g: "good t" and q: "requested \<Longrightarrow> asked t ?rid"
      using store_good(4) [OF c] cancel_asked [of "ws_store w2" lease ?now t] c by auto
    show ?thesis
      using f g q finish_cancelled_earned [of A lease res "w2\<lparr>ws_store := t\<rparr>" out v environment]
        finish_terminated_earned [of A lease res environment "w2\<lparr>ws_store := t\<rparr>" out v]
      by (cases requested) simp_all
  qed
  with valid show ?thesis by blast
qed

lemma beat_keeps:
  assumes "supervise_beat A W lease primary w = ((l, p), v)" and "good (ws_store w)"
  shows "good (ws_store v) \<and> r_id (ls_run l) = r_id (ls_run lease)"
proof (cases "primary = None")
  case True
  define now where "now = am_clock A (ws_reads w)"
  obtain q t where h: "lo_heartbeat (wk_store W) lease now (sv_lease_ttl (wk_supervisor W)) (ws_store w) = (q, t)"
    by (metis surj_pair)
  with assms(1) True have "v = w\<lparr>ws_reads := Suc (ws_reads w), ws_store := t\<rparr>" "l = (case q of Inl _ \<Rightarrow> lease | Inr x \<Rightarrow> x)"
    by (auto simp: supervise_beat_def bnd_def now_utc_def on_store_def now_def split: sum.splits)
  with store_good(1) [OF h assms(2)] heartbeat [OF assms(2)] h show ?thesis by (auto split: sum.splits)
qed (use assms in \<open>auto simp: supervise_beat_def\<close>)

lemma build_task_prompt:
  "build_task X lease spec prompt = Inr task \<Longrightarrow>
     rt_prompt task = take_prompt prompt \<and> sha256_bytes X (take_prompt prompt) = r_prompt_sha256 (ls_run lease)"
  by (auto simp: build_task_def Let_def validate_runtime_task_def prompt_matches_hash_def res_simps split: if_splits)

lemma early_iff [res_simps]: "(early m w = (Inr x, v)) = (\<exists>out. x = Inl out \<and> m w = (Inr out, v))"
  by (auto simp: early_def res_simps)

lemma start_running_ok:
  assumes "start_running A W lease task environment now w = (Inr x, v)" and "good (ws_store w)"
  shows "(\<exists>out. x = Inl out \<and> ended v (r_id (ls_run lease)) Failed out)
    \<or> (\<exists>running request invocation plain. x = Inr (running, request, now) \<and> good (ws_store v)
         \<and> r_id (ls_run running) = r_id (ls_run lease)
         \<and> prepare (de_ext (am_decode A)) (ta_provider (wk_adapter W)) (ta_container_executable (wk_adapter W)) task = Inr invocation
         \<and> into_sandbox_request invocation (r_id (ls_run lease)) (we_image environment) (we_user environment)
             (we_input_directory environment) (we_output_directory environment) (we_limits environment) = Inr plain
         \<and> request = with_network plain (we_network environment))"
proof -
  from assms(1) obtain running t1 requested t2 where
    t: "lo_transition (wk_store W) lease (lease_revision lease) Running now (ws_store w) = (Inr running, t1)"
    and c: "lo_cancel_requested (wk_store W) running now t1 = (Inr requested, t2)"
    and rest: "(if requested then early (fail_closed W running ''cancellation requested before sandbox execution'' now)
      else case res_bind (sb_health (wk_sandbox W)) (\<lambda>_.
            res_bind (prepare (de_ext (am_decode A)) (ta_provider (wk_adapter W)) (ta_container_executable (wk_adapter W)) task)
              (\<lambda>invocation.
            into_sandbox_request invocation (r_id (ls_run running)) (we_image environment) (we_user environment)
              (we_input_directory environment) (we_output_directory environment) (we_limits environment))) of
         Inl error \<Rightarrow> early (fail_after_error W running error now)
       | Inr request \<Rightarrow> ret (Inr (running, with_network request (we_network environment), now)))
      (w\<lparr>ws_store := t2\<rparr>) = (Inr x, v)"
    by (auto simp: start_running_def res_simps)
  have id: "r_id (ls_run running) = r_id (ls_run lease)" and g: "good t2"
    using transition [OF assms(2) t] store_good(4) [OF c] store_good(2) [OF t assms(2)] by auto
  show ?thesis
  proof (cases requested)
    case True
    with rest id g show ?thesis by (auto simp: res_simps dest!: fail_closed_ended)
  next
    case False
    with rest id g show ?thesis by (auto simp: res_simps failing_never_ok split: sum.splits)
  qed
qed

lemma start_ok:
  assumes "start A W lease spec prompt environment disposition w = (Inr x, v)" and "good (ws_store w)"
  shows "(\<exists>out. x = Inl out \<and> ended v (r_id (ls_run lease)) Failed out)
    \<or> (\<exists>r. x = Inl (OutAwaitingApproval r) \<and> r_status r = AwaitingApproval
         \<and> stored (ws_store v) (r_id (ls_run lease)) = Some r)
    \<or> (\<exists>running request now. x = Inr (running, request, now) \<and> good (ws_store v)
         \<and> r_id (ls_run running) = r_id (ls_run lease) \<and> requested_for A (wk_adapter W) lease prompt environment request)"
proof -
  let ?now = "am_clock A (ws_reads w)" and ?w = "w\<lparr>ws_reads := Suc (ws_reads w)\<rparr>"
  from assms(1) obtain task where b: "build_task (de_ext (am_decode A)) lease spec prompt = Inr task"
    and e: "validate_environment lease environment = Inr ()"
    by (cases "build_task (de_ext (am_decode A)) lease spec prompt"; cases "validate_environment lease environment")
      (auto simp: start_def res_simps failing_never_ok)
  show ?thesis
  proof (cases "r_status (ls_run lease) = Planning")
    case False
    with assms b e show ?thesis by (auto simp: start_def res_simps dest!: fail_closed_ended)
  next
    case True
    with assms(1) b e obtain requested t where
      c: "lo_cancel_requested (wk_store W) lease ?now (ws_store w) = (Inr requested, t)"
      and rest: "(if requested then early (fail_closed W lease ''cancellation requested before sandbox execution'' ?now)
            else if disposition = StartAwaitingApproval
            then early (bnd (on_store (lo_transition (wk_store W) lease (lease_revision lease) AwaitingApproval ?now))
                (\<lambda>awaiting. ret (OutAwaitingApproval (ls_run awaiting))))
            else start_running A W lease task environment ?now) (?w\<lparr>ws_store := t\<rparr>) = (Inr x, v)"
      by (auto simp: start_def res_simps)
    have g: "good t" by (rule store_good(4) [OF c assms(2)])
    consider "requested" | "\<not> requested" "disposition = StartAwaitingApproval"
      | "\<not> requested" "disposition \<noteq> StartAwaitingApproval" by blast
    then show ?thesis
    proof cases
      case 1
      with rest g show ?thesis by (auto simp: res_simps dest!: fail_closed_ended)
    next
      case 2
      with rest g show ?thesis by (auto simp: res_simps dest!: transition)
    next
      case 3
      with rest have "start_running A W lease task environment ?now (?w\<lparr>ws_store := t\<rparr>) = (Inr x, v)" by simp
      from start_running_ok [OF this] g build_task_prompt [OF b] show ?thesis
        unfolding requested_for_def by (simp, blast)
    qed
  qed
qed

lemma execute_run_ok:
  assumes "execute_run A W lease spec prompt environment disposition w = Some (Inr out, v)" and "good (ws_store w)"
  shows "ended v (r_id (ls_run lease)) Failed out
    \<or> (\<exists>r. out = OutAwaitingApproval r \<and> r_status r = AwaitingApproval
         \<and> stored (ws_store v) (r_id (ls_run lease)) = Some r)
    \<or> (\<exists>request round sent res. requested_for A (wk_adapter W) lease prompt environment request
         \<and> sb_receive (wk_sandbox W) request round sent = Delivered (Inr res) \<and> validate_sandbox_result res = Inr ()
         \<and> earned A environment (r_id (ls_run lease)) res out v)"
proof -
  obtain x w1 where x: "start A W lease spec prompt environment disposition w = (Inr x, w1)"
    using assms(1) by (auto simp: execute_run_def split: prod.splits sum.splits)
  show ?thesis
  proof (cases x)
    case (Inl y)
    with assms(1) x have "y = out" "w1 = v" by (auto simp: execute_run_def)
    with start_ok [OF x assms(2)] Inl show ?thesis by auto
  next
    case (Inr y)
    with start_ok [OF x assms(2)] obtain running request now where y: "y = (running, request, now)"
      and g: "good (ws_store w1)" and id: "r_id (ls_run running) = r_id (ls_run lease)"
      and p: "requested_for A (wk_adapter W) lease prompt environment request" by auto
    from assms(1) x Inr y obtain o2 w2 where so: "supervise A W request 0 None running None w1 = Some (o2, w2)"
      and fo: "(case o2 of Inl error \<Rightarrow> fail_after_error W running error now w2
        | Inr (l, res) \<Rightarrow> finish A W l res environment w2) = (Inr out, v)"
      by (auto simp: execute_run_def execute_with_cancellation_def)
    then obtain l res where s: "supervise A W request 0 None running None w1 = Some (Inr (l, res), w2)"
      and f: "finish A W l res environment w2 = (Inr out, v)"
      by (cases o2) (auto simp: failing_never_ok)
    have I: "(good (ws_store w2) \<and> r_id (ls_run l) = r_id (ls_run lease))
        \<and> (\<exists>round sent. sb_receive (wk_sandbox W) request round sent = Delivered (Inr res))"
      by (rule supervise_inv [OF s, where I = "\<lambda>l w. good (ws_store w) \<and> r_id (ls_run l) = r_id (ls_run lease)"])
        (use g id in \<open>auto simp: beats_keep_def split: prod.splits dest: beat_keeps\<close>)
    with worker_finish_earned [OF f] p show ?thesis by auto
  qed
qed

end

section \<open>The queue repository as a lease store\<close>

lemma shared_iff [res_simps]:
  "(shared X U m sh = (r, t)) = (\<exists>st. m (sh_calls sh) (run_calls X (so_others U (sh_calls sh)) (sh_state sh)) = (r, st)
     \<and> t = \<lparr>sh_state = st, sh_calls = Suc (sh_calls sh)\<rparr>)"
  by (auto simp: shared_def split: prod.splits)

abbreviation reached :: "ext \<Rightarrow> shared_store \<Rightarrow> bool" where
  "reached X sh \<equiv> reachable X (sh_state sh)"

abbreviation artifacts_in :: "shared_store \<Rightarrow> run_id \<Rightarrow> artifact list" where
  "artifacts_in sh \<equiv> artifacts_of (sh_state sh)"

lemma steps_keep:
  assumes "reachable X s" and "(store_step X)\<^sup>*\<^sup>* s t"
  shows "reachable X t \<and> prefix (artifacts_of s rid) (artifacts_of t rid)"
proof -
  from reachable_later [OF assms] have r: "reachable X t" and e: "succeeds s t" by simp_all
  have "prefix (artifacts_of s rid) (artifacts_of t rid)"
  proof (cases "bm_get (st_artifacts s) rid")
    case (Some l)
    obtain l' where "bm_get (st_artifacts t) rid = Some l'" "prefix l l'" by (rule later_artifacts [OF e Some])
    with Some show ?thesis by (simp add: artifacts_of_def)
  qed (simp add: artifacts_of_def)
  with r show ?thesis by simp
qed

lemma shared_keeps:
  assumes "\<And>n s r t. reachable X s \<Longrightarrow> m n s = (r, t) \<Longrightarrow> (store_step X)\<^sup>*\<^sup>* s t"
  shows "preserves (kept (reached X) artifacts_in L) (shared X U m)"
  unfolding preserves_def
proof (intro allI impI)
  fix sh r t assume k: "kept (reached X) artifacts_in L sh" and "shared X U m sh = (r, t)"
  then obtain st where m: "m (sh_calls sh) (run_calls X (so_others U (sh_calls sh)) (sh_state sh)) = (r, st)"
    and t: "t = \<lparr>sh_state = st, sh_calls = Suc (sh_calls sh)\<rparr>" by (auto simp: res_simps)
  let ?u = "run_calls X (so_others U (sh_calls sh)) (sh_state sh)"
  have u: "reachable X ?u" "(store_step X)\<^sup>*\<^sup>* (sh_state sh) ?u"
    using k by (simp_all add: kept_def run_calls_reachable run_calls_steps)
  have "(store_step X)\<^sup>*\<^sup>* (sh_state sh) st" by (rule rtranclp_trans [OF u(2) assms [OF u(1) m]])
  with steps_keep [of X "sh_state sh" st] k t show "kept (reached X) artifacts_in L t"
    by (auto simp: kept_def intro: prefix_order.trans)
qed

lemma queue_steps:
  "heartbeat_lease X lease now ttl s = (r1, t) \<Longrightarrow> (store_step X)\<^sup>*\<^sup>* s t"
  "transition_leased_run X eid lease rv nxt now s = (r2, t) \<Longrightarrow> (store_step X)\<^sup>*\<^sup>* s t"
  "record_leased_artifacts X ids lease rv batch now s = (r3, t) \<Longrightarrow> (store_step X)\<^sup>*\<^sup>* s t"
  "append_leased_runtime_audit X eid lease rv ty now s = (r4, t) \<Longrightarrow> (store_step X)\<^sup>*\<^sup>* s t"
  "complete_leased_run X eid lease rv nxt why now s = (r5, t) \<Longrightarrow> (store_step X)\<^sup>*\<^sup>* s t"
  "confirm_cancel X eid lease now ev s = (r6, t) \<Longrightarrow> (store_step X)\<^sup>*\<^sup>* s t"
  by (rule r_into_rtranclp, erule outcome_step, rule exec_call.simps)+

lemma cancel_requested_reading: "reading (lease_cancel_requested lease now)"
  unfolding lease_cancel_requested_def Let_def by (intro atomic_intros)

lemma cancel_requested_steps: "lease_cancel_requested lease now s = (r, t) \<Longrightarrow> (store_step X)\<^sup>*\<^sup>* s t"
  using readingD [OF cancel_requested_reading] by blast

lemma cancel_requested_True:
  "lease_cancel_requested lease now s = (Inr True, t) \<Longrightarrow> bm_get (st_cancel_requested t) (r_id (ls_run lease)) \<noteq> None"
  by (auto simp: lease_cancel_requested_def Let_def res_simps)

lemma lease_named:
  assumes "reachable X s" and "bm_get (st_leases s) rid = Some l"
  shows "r_id (ls_run l) = rid"
  using reachable_inv [OF assms(1)] assms(2) unfolding ledger_inv_def inv_leases_def abs_ledger_sel by blast

lemma moved_named:
  assumes "moved X (abs_ledger s) rid nxt r' au" and "reachable X s"
  shows "r_id r' = rid \<and> r_status r' = nxt"
  using assms moved_runs [OF assms(1)] store_invD(1) [OF reachable_inv [OF assms(2)]] by (metis abs_ledger_sel(1))

lemma queue_transition:
  assumes "transition_leased_run X eid lease rv nxt now s = (Inr l, t)" and "reachable X s"
  shows "r_id (ls_run l) = r_id (ls_run lease) \<and> r_status (ls_run l) = nxt
    \<and> bm_get (st_runs t) (r_id (ls_run lease)) = Some (ls_run l)"
  by (rule transition_leased_ok [OF assms(1) reachable_inv [OF assms(2)]]) (auto dest: moved_named [OF _ assms(2)])

lemma queue_complete:
  assumes "complete_leased_run X eid lease rv nxt why now s = (Inr r, t)" and "reachable X s"
  shows "r_status r = nxt \<and> bm_get (st_runs t) (r_id (ls_run lease)) = Some r"
  by (rule complete_leased_ok [OF assms(1) reachable_inv [OF assms(2)]]) (auto dest: moved_named [OF _ assms(2)])

lemma queue_confirm:
  assumes "confirm_cancel X eid lease now ev s = (Inr r, t)" and "reachable X s"
  shows "r_status r = Cancelled \<and> bm_get (st_runs t) (r_id (ls_run lease)) = Some r"
  by (rule confirm_cancel_ok [OF assms(1) reachable_inv [OF assms(2)]]) (auto dest: moved_named [OF _ assms(2)])

lemma queue_record:
  assumes "record_leased_artifacts X ids lease rv batch now s = (Inr u, t)"
  shows "suffix batch (artifacts_of t (r_id (ls_run lease)))"
  using assms readingD [OF validate_lease_reading] readingD [OF artifact_batch_reading]
  by (auto simp: record_leased_artifacts_def Let_def res_simps artifacts_of_def suffix_def split: option.splits)

interpretation queue_worker: lease_contract "W\<lparr>wk_store := queue_lease_store X U\<rparr>" "reached X" artifacts_in
  "\<lambda>sh. bm_get (st_runs (sh_state sh))" "\<lambda>sh rid. bm_contains (st_cancel_requested (sh_state sh)) rid" for W X U
proof unfold_locales
  show "preserves (kept (reached X) artifacts_in L)
      (lo_heartbeat (wk_store (W\<lparr>wk_store := queue_lease_store X U\<rparr>)) lease now ttl)" for L lease now ttl
    by (simp add: queue_lease_store_def) (intro preserves_intros shared_keeps queue_steps)
  show "preserves (kept (reached X) artifacts_in L)
      (lo_append_runtime_audit (wk_store (W\<lparr>wk_store := queue_lease_store X U\<rparr>)) lease rv ty now)" for L lease rv ty now
    by (simp add: queue_lease_store_def) (intro preserves_intros shared_keeps queue_steps)
next
  fix s lease now ttl l t
  assume "reached X s" and "lo_heartbeat (wk_store (W\<lparr>wk_store := queue_lease_store X U\<rparr>)) lease now ttl s = (Inr l, t)"
  then show "r_id (ls_run l) = r_id (ls_run lease)"
    by (auto simp: queue_lease_store_def res_simps dest!: heartbeat_ok dest: lease_named [OF run_calls_reachable])
qed (auto simp: queue_lease_store_def res_simps intro!: shared_keeps
    intro: queue_steps cancel_requested_steps queue_record dest: cancel_requested_True
    dest!: queue_transition [OF _ run_calls_reachable] queue_complete [OF _ run_calls_reachable]
      queue_confirm [OF _ run_calls_reachable])

section \<open>Properties\<close>

text \<open>
  C27. A worker reports only what happened, whatever other processes do to the store meanwhile: the run it
  returns is the stored one. It is awaiting approval, or failed, or the sandbox was really asked to run
  the prompt whose digest the run carries and delivered a valid result: timed out only when the sandbox
  timed out, cancelled only when cancellation was requested and the sandbox proved its disposal, and
  succeeded only on a clean exit with status zero after every reported output was scanned and recorded.
\<close>

theorem worker_outcome_is_earned:
  assumes "reachable X (sh_state (ws_store w))" and "wk_store W = queue_lease_store X U"
    and "execute_run A W lease spec prompt environment disposition w = Some (Inr out, v)"
  shows "\<exists>r. bm_get (st_runs (sh_state (ws_store v))) (r_id (ls_run lease)) = Some r
    \<and> (out = OutAwaitingApproval r \<and> r_status r = AwaitingApproval
       \<or> out = OutCompleted r
         \<and> (r_status r = Failed
            \<or> (\<exists>request round sent res. requested_for A (wk_adapter W) lease prompt environment request
                 \<and> sb_receive (wk_sandbox W) request round sent = Delivered (Inr res)
                 \<and> validate_sandbox_result res = Inr ()
                 \<and> (r_status r = TimedOut \<and> sx_termination res = TermTimedOut
                    \<or> r_status r = Cancelled \<and> sx_termination res = TermCancelled \<and> sx_cleanup res = CleanupSucceeded
                      \<and> (\<exists>u. reachable X u \<and> bm_contains (st_cancel_requested u) (r_id (ls_run lease)))
                    \<or> r_status r = Succeeded
                      \<and> success_evidence A (r_id (ls_run lease)) environment res
                          (artifacts_of (sh_state (ws_store v)) (r_id (ls_run lease)))))))"
proof -
  have W: "W\<lparr>wk_store := queue_lease_store X U\<rparr> = W" by (simp flip: assms(2))
  note ok = queue_worker.execute_run_ok [where W = W and X = X and U = U, unfolded W, OF assms(3,1)]
  have e: "\<exists>r. out = OutCompleted r \<and> r_status r = st \<and> bm_get (st_runs (sh_state (ws_store v))) rid = Some r"
    if "queue_worker.ended v rid st out" for rid st
    using that by (simp add: queue_worker.ended_def)
  from ok consider "queue_worker.ended v (r_id (ls_run lease)) Failed out"
    | r where "out = OutAwaitingApproval r" "r_status r = AwaitingApproval"
        "bm_get (st_runs (sh_state (ws_store v))) (r_id (ls_run lease)) = Some r"
    | request round sent res where "requested_for A (wk_adapter W) lease prompt environment request"
        "sb_receive (wk_sandbox W) request round sent = Delivered (Inr res)" "validate_sandbox_result res = Inr ()"
        "queue_worker.earned X A environment (r_id (ls_run lease)) res out v" by blast
  then show ?thesis
  proof cases
    case 1
    with e show ?thesis by blast
  next
    case 2
    then show ?thesis by blast
  next
    case 3
    from 3(4) show ?thesis unfolding queue_worker.earned_def using e 3(1-3) by (elim disjE conjE exE) blast+
  qed
qed

section \<open>Runtime selection\<close>

definition executable_of :: "runtime_executable_config \<Rightarrow> provider \<Rightarrow> string option" where
  "executable_of c p = (case p of Codex \<Rightarrow> rx_codex c | Claude \<Rightarrow> rx_claude_code c | OpenCode \<Rightarrow> rx_opencode c | Pi \<Rightarrow> rx_pi c)"

definition eligible :: "string \<Rightarrow> provider \<Rightarrow> bool" where
  \<comment> \<open>the providers a requested runtime allows\<close>
  "eligible requested p = (requested = auto_runtime_id \<or> requested = runtime_id p)"

definition preferred :: "runtime_executable_config \<Rightarrow> string \<Rightarrow> (provider \<times> string) option" where
  \<comment> \<open>the first provider in the documented order that is allowed and configured\<close>
  "preferred c requested =
     first_Some (\<lambda>p. if eligible requested p then map_option (Pair p) (executable_of c p) else None) [Codex, Claude, OpenCode, Pi]"

definition dispatch ::
    "worker_runtime_router \<Rightarrow> run_lease \<Rightarrow> worker_task_spec \<Rightarrow> (task_adapter \<times> worker_task_spec) option" where
  \<comment> \<open>selection and adapter lookup as a caller of the router makes them\<close>
  "dispatch router lease spec =
     (case res_bind (resolve_task_spec router lease spec) (\<lambda>(selection, spec).
        res_bind (router_adapter router selection) (\<lambda>adapter. Inr (adapter, spec))) of
        Inl _ \<Rightarrow> None
      | Inr r \<Rightarrow> Some r)"

text \<open>
  Selecting a runtime and looking up its adapter gives exactly the first provider, in the order Codex,
  Claude Code, OpenCode, Pi, that the claimed run's runtime allows and the worker has an executable for,
  with that executable and the task renamed to it, and nothing when the task names another runtime than
  the run or no such provider is configured: an explicit choice never falls back to another provider.
\<close>

theorem runtime_selection_is_exact:
  "dispatch (new_router c) lease spec =
     (if wt_runtime spec \<noteq> r_runtime (ls_run lease) then None
      else map_option (\<lambda>(p, exe). (\<lparr>ta_provider = p, ta_container_executable = exe\<rparr>, spec\<lparr>wt_runtime := runtime_id p\<rparr>))
        (preferred c (r_runtime (ls_run lease))))"
  by (cases "rx_codex c"; cases "rx_claude_code c"; cases "rx_opencode c"; cases "rx_pi c")
    (simp_all add: dispatch_def resolve_task_spec_def select_runtime_def available_in_auto_order_def router_adapter_def
      new_router_def insert_adapter_def preferred_def eligible_def executable_of_def auto_runtime_id_def ok_or_def)

end
