(* ===== verification/Worker_Liveness.thy ===== *)
theory Worker_Liveness
  imports Worker_Properties Orchestrator
begin

text \<open>
  A worker that nobody disturbs always brings its run to an end. The store accepts a lease while it is
  held; every write of the worker keeps it held, so that no step of the call can be refused before the
  one that ends the run.
\<close>

section \<open>A lease the store accepts\<close>

text \<open>The store accepts the lease at times from \<open>ts\<close> to \<open>until\<close>, with room for \<open>n\<close> more events.\<close>

definition held :: "state \<Rightarrow> run_lease \<Rightarrow> nat \<Rightarrow> timestamp \<Rightarrow> timestamp \<Rightarrow> bool" where
  "held s lease n ts until =
     (\<exists>stored es. bm_get (st_leases s) (r_id (ls_run lease)) = Some stored
        \<and> bm_get (st_runs s) (r_id (ls_run lease)) = Some (ls_run lease)
        \<and> ls_run stored = ls_run lease \<and> ls_token stored = ls_token lease \<and> ls_owner stored = ls_owner lease
        \<and> ls_acquired_at stored \<le> ts \<and> until < ls_expires_at stored
        \<and> r_updated_at (ls_run lease) \<le> ts \<and> unat (r_revision (ls_run lease)) + n < 2 ^ 64
        \<and> bm_get (st_audits s) (r_id (ls_run lease)) = Some es \<and> es \<noteq> []
        \<and> ev_timestamp (last es) \<le> ts \<and> length es + n < 2 ^ 64)"

abbreviation cancel_wanted :: "state \<Rightarrow> run_lease \<Rightarrow> bool" where
  "cancel_wanted s lease \<equiv> bm_contains (st_cancel_requested s) (r_id (ls_run lease))"

lemma held_less: "held s lease n ts until \<Longrightarrow> m \<le> n \<Longrightarrow> held s lease m ts until"
  unfolding held_def by force

lemma held_validates:
  assumes "held s lease n ts until" and "ts \<le> now" and "now \<le> until"
  shows "validate_memory_lease lease (r_revision (ls_run lease)) now s = (Inr (ls_run lease), s)"
  using assms by (auto simp: held_def validate_memory_lease_def ensure_memory_audit_time_def audit_backwards_def op_defs)

definition accepts :: "state \<Rightarrow> run_lease \<Rightarrow> timestamp \<Rightarrow> bool" where
  \<comment> \<open>the check of \<^verbatim>\<open>lease_cancel_requested\<close>\<close>
  "accepts s lease now =
     (\<exists>stored. bm_get (st_leases s) (r_id (ls_run lease)) = Some stored \<and> ls_token stored = ls_token lease
        \<and> ls_owner stored = ls_owner lease \<and> r_revision (ls_run stored) = r_revision (ls_run lease)
        \<and> ls_acquired_at stored \<le> now \<and> now < ls_expires_at stored)"

lemma held_accepts: "held s lease n ts until \<Longrightarrow> ts \<le> now \<Longrightarrow> now \<le> until \<Longrightarrow> accepts s lease now"
  unfolding held_def accepts_def by fastforce

lemma accepts_cancel_requested:
  "accepts s lease now \<Longrightarrow> lease_cancel_requested lease now s = (Inr (cancel_wanted s lease), s)"
  by (auto simp: accepts_def lease_cancel_requested_def Let_def op_defs)

lemma held_audit:
  assumes "held s lease (Suc n) ts until" and "ts \<le> now" and "now \<le> until" and "ensure_worker_runtime_event ty = Inr ()"
  obtains e t where "append_leased_runtime_audit X eid lease (r_revision (ls_run lease)) ty now s = (Inr e, t)"
    "held t lease n now until" "st_cancel_requested t = st_cancel_requested s" "st_leases t = st_leases s"
proof -
  let ?rid = "r_id (ls_run lease)"
  from assms(1) obtain stored es where h: "bm_get (st_leases s) ?rid = Some stored"
    "bm_get (st_runs s) ?rid = Some (ls_run lease)"
    "ls_run stored = ls_run lease" "ls_token stored = ls_token lease" "ls_owner stored = ls_owner lease"
    "ls_acquired_at stored \<le> ts" "until < ls_expires_at stored" "r_updated_at (ls_run lease) \<le> ts"
    "unat (r_revision (ls_run lease)) + Suc n < 2 ^ 64"
    and es: "bm_get (st_audits s) ?rid = Some es" "es \<noteq> []" "length es + Suc n < 2 ^ 64" unfolding held_def by blast
  obtain e where e: "build_event X eid (new_audit_append (ls_owner lease) now) ?rid (of_nat (length es) + 1) ty (last_hash es) = Inr e"
    "ev_timestamp e = now"
    using build_event_ready [of es X eid "new_audit_append (ls_owner lease) now" ?rid ty] es
    by (auto simp: new_audit_append_def)
  let ?t = "s\<lparr>st_audits := bm_insert ?rid (es @ [e]) (st_audits s)\<rparr>"
  have "append_leased_runtime_audit X eid lease (r_revision (ls_run lease)) ty now s = (Inr e, ?t)"
    using held_validates [OF assms(1-3)] es e assms(4) next_sequence_ready [of es]
    by (simp add: append_leased_runtime_audit_def Let_def op_defs push_events_def)
  moreover have "held ?t lease n now until" using h es e(2) assms(2) by (auto simp: held_def)
  ultimately show ?thesis by (rule that) simp_all
qed

lemma held_moves:
  assumes "held s lease (Suc n) ts until" and "ts \<le> now" and "now \<le> until"
    and "can_transition_to (r_status (ls_run lease)) nxt" and "bm_get (st_audits s) (r_id (ls_run lease)) = Some es"
  obtains e t where "apply_memory_transition_with_reason X eid (ls_run lease) nxt why now (ls_owner lease) ty s
      = (Inr (advanced (ls_run lease) nxt (r_revision (ls_run lease) + 1) why now), t)"
    "ev_timestamp e = now"
    "t = s\<lparr>st_audits := bm_insert (r_id (ls_run lease)) (es @ [e]) (st_audits s),
           st_runs := bm_insert (r_id (ls_run lease)) (advanced (ls_run lease) nxt (r_revision (ls_run lease) + 1) why now) (st_runs s)\<rparr>"
proof -
  let ?r = "ls_run lease" and ?rid = "r_id (ls_run lease)"
  from assms(1,5) have es: "es \<noteq> []" "ev_timestamp (last es) \<le> ts" "length es + Suc n < 2 ^ 64"
    and r: "r_updated_at ?r \<le> ts" "unat (r_revision ?r) + Suc n < 2 ^ 64"
    by (auto simp: held_def)
  obtain e where e: "build_event X eid (new_audit_append (ls_owner lease) now) ?rid (of_nat (length es) + 1) ty (last_hash es) = Inr e"
    "ev_timestamp e = now"
    using build_event_ready [of es X eid "new_audit_append (ls_owner lease) now" ?rid ty] es
    by (auto simp: new_audit_append_def)
  have c: "checked_add (r_revision ?r) 1 = Some (r_revision ?r + 1)" using r(2) by (simp add: checked_add_def)
  show ?thesis
    by (rule that [OF _ e(2) refl])
      (use es e c r assms(2,4,5) next_sequence_ready [of es] in
        \<open>simp add: apply_memory_transition_with_reason_def append_memory_audit_def audit_backwards_def Let_def op_defs
          push_events_def put_run_def\<close>)
qed

lemma held_transition:
  assumes "held s lease (Suc n) ts until" and "ts \<le> now" and "now \<le> until"
    and "can_transition_to (r_status (ls_run lease)) nxt" and "\<not> is_terminal nxt"
  obtains l t where "transition_leased_run X eid lease (r_revision (ls_run lease)) nxt now s = (Inr l, t)"
    "held t l n now until" "r_id (ls_run l) = r_id (ls_run lease)" "r_status (ls_run l) = nxt"
    "bm_get (st_runs t) (r_id (ls_run lease)) = Some (ls_run l)" "st_cancel_requested t = st_cancel_requested s"
proof -
  let ?rid = "r_id (ls_run lease)" and ?r = "advanced (ls_run lease) nxt (r_revision (ls_run lease) + 1) None now"
  from assms(1) obtain stored es where h: "bm_get (st_leases s) ?rid = Some stored"
    "ls_run stored = ls_run lease" "ls_token stored = ls_token lease" "ls_owner stored = ls_owner lease"
    "ls_acquired_at stored \<le> ts" "until < ls_expires_at stored"
    "unat (r_revision (ls_run lease)) + Suc n < 2 ^ 64"
    and es: "bm_get (st_audits s) ?rid = Some es" "es \<noteq> []" "length es + Suc n < 2 ^ 64" unfolding held_def by blast
  obtain e u where u: "apply_memory_transition_with_reason X eid (ls_run lease) nxt None now (ls_owner lease) (transition_event nxt) s
      = (Inr ?r, u)" and e: "ev_timestamp e = now"
    "u = s\<lparr>st_audits := bm_insert ?rid (es @ [e]) (st_audits s), st_runs := bm_insert ?rid ?r (st_runs s)\<rparr>"
    by (rule held_moves [OF assms(1-4) es(1)])
  let ?l = "stored\<lparr>ls_run := ?r, ls_cancel_requested := cancel_wanted s lease\<rparr>"
  let ?t = "u\<lparr>st_leases := bm_insert ?rid ?l (st_leases u)\<rparr>"
  have c: "checked_add (r_revision (ls_run lease)) 1 = Some (r_revision (ls_run lease) + 1)"
    using h by (simp add: checked_add_def)
  then have rv: "unat (r_revision (ls_run lease) + 1) = Suc (unat (r_revision (ls_run lease)))"
    using unat_checked_add by fastforce
  have "transition_leased_run X eid lease (r_revision (ls_run lease)) nxt now s = (Inr ?l, ?t)"
    using held_validates [OF assms(1-3)] u h e(2) assms(5)
    by (simp add: transition_leased_run_def apply_memory_transition_def Let_def op_defs put_lease_def)
  moreover have "held ?t ?l n now until" using h es e assms(2) rv by (auto simp: held_def)
  ultimately show ?thesis by (rule that) (simp_all add: e(2))
qed

lemma held_complete:
  assumes "held s lease (Suc n) ts until" and "ts \<le> now" and "now \<le> until"
    and "can_transition_to (r_status (ls_run lease)) nxt" and "nxt \<in> {Succeeded, Failed, TimedOut}"
    and "nxt = Succeeded \<Longrightarrow> \<not> cancel_wanted s lease"
  obtains r t where "complete_leased_run X eid lease (r_revision (ls_run lease)) nxt why now s = (Inr r, t)"
    "bm_get (st_runs t) (r_id (ls_run lease)) = Some r" "r_status r = nxt"
proof -
  let ?rid = "r_id (ls_run lease)" and ?r = "advanced (ls_run lease) nxt (r_revision (ls_run lease) + 1) why now"
  from assms(1) obtain es where es: "bm_get (st_audits s) ?rid = Some es" "es \<noteq> []" unfolding held_def by blast
  obtain e u where u: "apply_memory_transition_with_reason X eid (ls_run lease) nxt why now (ls_owner lease) (transition_event nxt) s
      = (Inr ?r, u)"
    "u = s\<lparr>st_audits := bm_insert ?rid (es @ [e]) (st_audits s), st_runs := bm_insert ?rid ?r (st_runs s)\<rparr>"
    by (rule held_moves [OF assms(1-4) es(1)])
  show ?thesis
    by (rule that [of ?r])
      (use held_validates [OF assms(1-3)] u assms(5,6) in
        \<open>auto simp: complete_leased_run_def Let_def op_defs drop_lease_def\<close>)
qed

lemma held_heartbeat:
  assumes "held s lease n ts until" and "ts \<le> now" and "now \<le> until" and "checked_lease_expiry X now ttl = Inr expires"
    and "until' < expires"
  obtains l t where "heartbeat_lease X lease now ttl s = (Inr l, t)" "held t lease n ts until'"
    "ls_run l = ls_run lease" "ls_token l = ls_token lease" "ls_owner l = ls_owner lease"
    "ls_cancel_requested l = cancel_wanted s lease" "st_cancel_requested t = st_cancel_requested s"
proof -
  let ?rid = "r_id (ls_run lease)"
  from assms(1) obtain stored where h: "bm_get (st_leases s) ?rid = Some stored" "ls_run stored = ls_run lease"
    "ls_token stored = ls_token lease" "ls_owner stored = ls_owner lease"
    unfolding held_def by blast
  let ?l = "stored\<lparr>ls_expires_at := expires, ls_cancel_requested := cancel_wanted s lease\<rparr>"
  let ?t = "s\<lparr>st_leases := bm_insert ?rid ?l (st_leases s)\<rparr>"
  have "heartbeat_lease X lease now ttl s = (Inr ?l, ?t)"
    using assms(1-4) h by (auto simp: heartbeat_lease_def held_def Let_def op_defs put_lease_def)
  moreover have "held ?t lease n ts until'" using assms(1,5) h by (auto simp: held_def)
  ultimately show ?thesis by (rule that) (use h in simp_all)
qed

lemma held_same:
  "ls_run l = ls_run lease \<Longrightarrow> ls_token l = ls_token lease \<Longrightarrow> ls_owner l = ls_owner lease \<Longrightarrow>
   held s l n ts until = held s lease n ts until"
  by (simp add: held_def)

lemma held_record:
  assumes "held s lease (n + length batch) ts until" and "ts \<le> now" and "now \<le> until"
    and "record_leased_artifacts X ids lease (r_revision (ls_run lease)) batch now s = (out, t)"
  shows "held t lease n now until \<and> st_cancel_requested t = st_cancel_requested s"
proof (cases out)
  case (Inl e)
  with assms(4) record_leased_atomic have "t = s" by blast
  with assms(1-3) show ?thesis by (force simp: held_def)
next
  case (Inr u)
  with assms(4) held_validates [OF assms(1-3)] obtain es sq new where
    es: "bm_get (st_audits s) (r_id (ls_run lease)) = Some es"
    and new: "artifact_events X ids (new_audit_append (ls_owner lease) now) (r_id (ls_run lease)) 0 sq (last_hash es) batch = Inr new"
    and t: "t = s\<lparr>st_artifacts := bm_insert (r_id (ls_run lease)) (artifacts_of s (r_id (ls_run lease)) @ batch) (st_artifacts s),
      st_audits := bm_insert (r_id (ls_run lease)) (es @ new) (st_audits s)\<rparr>"
    by (auto simp: record_leased_artifacts_def validate_artifact_batch_def extend_artifacts_def push_events_def Let_def res_simps)
  have "length new = length batch" "\<forall>e \<in> set new. ev_timestamp e = now"
    using artifact_events_ready [OF new] by (simp_all add: new_audit_append_def)
  with assms(1,2) es t show ?thesis by (auto simp: held_def last_append)
qed

lemma held_confirm:
  assumes "held s lease (Suc n) ts until" and "ts \<le> now" and "now \<le> until"
    and "can_transition_to (r_status (ls_run lease)) Cancelled" and "cancel_wanted s lease"
    and "ce_run_id ev = r_id (ls_run lease)" "ce_sandbox_id ev \<noteq> []" "ce_lease_token ev = ls_token lease" "ce_lease_owner ev = ls_owner lease"
  obtains r t where "confirm_cancel X eid lease now ev s = (Inr r, t)"
    "bm_get (st_runs t) (r_id (ls_run lease)) = Some r" "r_status r = Cancelled"
proof -
  let ?rid = "r_id (ls_run lease)" and ?r = "advanced (ls_run lease) Cancelled (r_revision (ls_run lease) + 1) None now"
  from assms(1) obtain es where es: "bm_get (st_audits s) ?rid = Some es" "es \<noteq> []" unfolding held_def by blast
  obtain e u where u: "apply_memory_transition_with_reason X eid (ls_run lease) Cancelled None now (ls_owner lease) EvCancelConfirmed s
      = (Inr ?r, u)"
    "u = s\<lparr>st_audits := bm_insert ?rid (es @ [e]) (st_audits s), st_runs := bm_insert ?rid ?r (st_runs s)\<rparr>"
    by (rule held_moves [OF assms(1-4) es(1)])
  show ?thesis
    by (rule that [of ?r])
      (use assms(1-3,5-9) u in \<open>auto simp: confirm_cancel_def apply_memory_transition_def ensure_memory_audit_time_def
        audit_backwards_def held_def Let_def op_defs drop_lease_def\<close>)
qed

section \<open>A worker nobody disturbs\<close>

definition undisturbed :: "ext \<Rightarrow> shared_store single_run_worker \<Rightarrow> bool" where
  "undisturbed X W = (\<exists>U. wk_store W = queue_lease_store X U \<and> (\<forall>n. so_others U n = []))"

definition steady :: "worker_ambient \<Rightarrow> nat \<Rightarrow> bool" where
  \<comment> \<open>the clock does not go back, and 4200 readings in a row take less than the lease lasts\<close>
  "steady A ttl =
     ((\<forall>i j. i \<le> j \<longrightarrow> am_clock A i \<le> am_clock A j)
      \<and> (\<forall>i j. j \<le> i + 4200 \<longrightarrow> am_clock A j < am_clock A i + int ttl))"

definition alive :: "worker_ambient \<Rightarrow> run_lease \<Rightarrow> nat \<Rightarrow> nat \<Rightarrow> shared_store worker_state \<Rightarrow> bool" where
  \<comment> \<open>the lease is held for the next readings of the clock\<close>
  "alive A lease n k w =
     (\<exists>ts until. held (sh_state (ws_store w)) lease n ts until \<and> ts \<le> am_clock A (ws_reads w)
        \<and> am_clock A (ws_reads w + k) \<le> until)"

abbreviation wanted :: "shared_store worker_state \<Rightarrow> run_lease \<Rightarrow> bool" where
  "wanted w lease \<equiv> cancel_wanted (sh_state (ws_store w)) lease"

definition ends :: "(openwork_error + worker_outcome) \<times> shared_store worker_state \<Rightarrow> run_id \<Rightarrow> bool" where
  "ends out rid =
     (\<exists>r. bm_get (st_runs (sh_state (ws_store (snd out)))) rid = Some r \<and> is_terminal (r_status r)
        \<and> (case fst out of Inl _ \<Rightarrow> r_status r = Failed | Inr q \<Rightarrow> q = OutCompleted r))"

lemma clock_mono: "steady A ttl \<Longrightarrow> i \<le> j \<Longrightarrow> am_clock A i \<le> am_clock A j"
  by (simp add: steady_def)

lemma alive_less: "alive A lease n k w \<Longrightarrow> m \<le> n \<Longrightarrow> j \<le> k \<Longrightarrow> steady A ttl \<Longrightarrow> alive A lease m j w"
  unfolding alive_def by (meson add_left_mono clock_mono held_less order_trans)

lemma alive_tick:
  assumes "alive A lease n (Suc k) w" and "steady A ttl"
  shows "alive A lease n k (w\<lparr>ws_reads := Suc (ws_reads w)\<rparr>)"
  using assms(1) clock_mono [OF assms(2), of "ws_reads w" "Suc (ws_reads w)"]
  unfolding alive_def by (fastforce intro: order_trans)

lemma shared_quiet:
  "\<forall>n. so_others U n = [] \<Longrightarrow> m (sh_calls (ws_store w)) (sh_state (ws_store w)) = (r, t) \<Longrightarrow>
   on_store (shared X U m) w = (r, w\<lparr>ws_store := \<lparr>sh_state = t, sh_calls = Suc (sh_calls (ws_store w))\<rparr>\<rparr>)"
  by (simp add: on_store_def shared_def)

lemma active_can_end: "r_status r \<in> {Planning, Running} \<Longrightarrow> can_transition_to (r_status r) Failed"
  by auto

lemma complete_ends:
  assumes "undisturbed X W" and "held (sh_state (ws_store w)) lease (Suc n) ts until" and "ts \<le> now" and "now \<le> until"
    and "can_transition_to (r_status (ls_run lease)) nxt" and "nxt \<in> {Succeeded, Failed, TimedOut}"
    and "nxt = Succeeded \<Longrightarrow> \<not> wanted w lease"
  shows "\<exists>r v. complete_run W lease nxt why now w = (Inr (OutCompleted r), v) \<and> r_status r = nxt
    \<and> bm_get (st_runs (sh_state (ws_store v))) (r_id (ls_run lease)) = Some r"
proof -
  obtain U where U: "wk_store W = queue_lease_store X U" "\<forall>n. so_others U n = []" using assms(1) by (auto simp: undisturbed_def)
  obtain r t where "complete_leased_run X (so_event_id U (sh_calls (ws_store w))) lease (r_revision (ls_run lease)) nxt why now
      (sh_state (ws_store w)) = (Inr r, t)" "bm_get (st_runs t) (r_id (ls_run lease)) = Some r" "r_status r = nxt"
    by (rule held_complete [OF assms(2-7)])
  with shared_quiet [OF U(2), where m = "\<lambda>n. complete_leased_run X (so_event_id U n) lease (r_revision (ls_run lease)) nxt why now"]
  show ?thesis
    by (simp add: complete_run_def U(1) queue_lease_store_def lease_revision_def bnd_def ret_def)
qed

lemma complete_now_ends:
  assumes "undisturbed X W" and "alive A lease (Suc n) k w" and "steady A ttl"
    and "can_transition_to (r_status (ls_run lease)) nxt" and "nxt \<in> {Succeeded, Failed, TimedOut}"
    and "nxt = Succeeded \<Longrightarrow> \<not> wanted w lease"
  shows "ends (bnd (now_utc A) (complete_run W lease nxt why) w) (r_id (ls_run lease))"
proof -
  let ?w = "w\<lparr>ws_reads := Suc (ws_reads w)\<rparr>"
  from assms(2) obtain ts until where h: "held (sh_state (ws_store ?w)) lease (Suc n) ts until"
    and b: "ts \<le> am_clock A (ws_reads w)" "am_clock A (ws_reads w + k) \<le> until" by (auto simp: alive_def)
  then have "am_clock A (ws_reads w) \<le> until" using clock_mono [OF assms(3), of "ws_reads w" "ws_reads w + k"] by simp
  from complete_ends [OF assms(1) h b(1) this assms(4,5), of why] assms(6) assms(5) show ?thesis
    by (auto simp: bnd_def now_utc_def ends_def is_terminal_def)
qed

lemma fail_ends:
  assumes "undisturbed X W" and "held (sh_state (ws_store w)) lease (Suc n) ts until" and "ts \<le> now" and "now \<le> until"
    and "r_status (ls_run lease) \<in> {Planning, Running}"
  shows "ends (fail_closed W lease why now w) (r_id (ls_run lease))"
    and "ends (fail_after_error W lease e now w) (r_id (ls_run lease))"
proof -
  have c: "\<exists>r v. complete_run W lease Failed (Some why) now w = (Inr (OutCompleted r), v) \<and> r_status r = Failed
      \<and> bm_get (st_runs (sh_state (ws_store v))) (r_id (ls_run lease)) = Some r" for why
    by (rule complete_ends [OF assms(1-4) active_can_end [OF assms(5)]]) simp_all
  from c [of why] show "ends (fail_closed W lease why now w) (r_id (ls_run lease))"
    by (fastforce simp: fail_closed_def ends_def is_terminal_def)
  from c [of "''worker execution failed closed''"] show "ends (fail_after_error W lease e now w) (r_id (ls_run lease))"
    by (fastforce simp: fail_closed_def fail_after_error_def ends_def is_terminal_def bnd_def fail_with_def)
qed

lemma fail_now_ends:
  assumes "undisturbed X W" and "alive A lease (Suc n) k w" and "steady A ttl" and "r_status (ls_run lease) \<in> {Planning, Running}"
  shows "ends (fail_now A W lease e w) (r_id (ls_run lease))"
    and "ends (bnd (now_utc A) (fail_closed W lease why) w) (r_id (ls_run lease))"
proof -
  let ?w = "w\<lparr>ws_reads := Suc (ws_reads w)\<rparr>"
  from assms(2) obtain ts until where h: "held (sh_state (ws_store ?w)) lease (Suc n) ts until"
    and b: "ts \<le> am_clock A (ws_reads w)" "am_clock A (ws_reads w + k) \<le> until" by (auto simp: alive_def)
  then have "am_clock A (ws_reads w) \<le> until" using clock_mono [OF assms(3), of "ws_reads w" "ws_reads w + k"] by simp
  from fail_ends [OF assms(1) h b(1) this assms(4)] show "ends (fail_now A W lease e w) (r_id (ls_run lease))"
    "ends (bnd (now_utc A) (fail_closed W lease why) w) (r_id (ls_run lease))"
    by (simp_all add: fail_now_def bnd_def now_utc_def)
qed

lemma worker_events:
  "ensure_worker_runtime_event EvSandboxDestroyed = Inr ()" "ensure_worker_runtime_event EvSandboxCreated = Inr ()"
  "ensure_worker_runtime_event EvRuntimeStarted = Inr ()"
  by (simp_all add: ensure_worker_runtime_event_def)

lemma audit_alive:
  assumes "undisturbed X W" and "alive A lease (Suc n) (Suc k) w" and "steady A ttl"
    and "ensure_worker_runtime_event ty = Inr ()"
  obtains v where "audit A W lease ty w = (Inr (), v)" "alive A lease n k v" "wanted v lease = wanted w lease"
    "st_leases (sh_state (ws_store v)) = st_leases (sh_state (ws_store w))"
proof -
  obtain U where U: "wk_store W = queue_lease_store X U" "\<forall>n. so_others U n = []" using assms(1) by (auto simp: undisturbed_def)
  let ?now = "am_clock A (ws_reads w)" and ?w = "w\<lparr>ws_reads := Suc (ws_reads w)\<rparr>"
  from assms(2) obtain ts until where h: "held (sh_state (ws_store w)) lease (Suc n) ts until"
    and b: "ts \<le> ?now" "am_clock A (ws_reads w + Suc k) \<le> until" by (auto simp: alive_def)
  have m: "?now \<le> until" "?now \<le> am_clock A (Suc (ws_reads w))"
    using b(2) clock_mono [OF assms(3), of "ws_reads w" "ws_reads w + Suc k"] clock_mono [OF assms(3), of "ws_reads w" "Suc (ws_reads w)"]
    by simp_all
  obtain e t where e: "append_leased_runtime_audit X (so_event_id U (sh_calls (ws_store w))) lease (r_revision (ls_run lease)) ty ?now
      (sh_state (ws_store w)) = (Inr e, t)" and t: "held t lease n ?now until"
      "st_cancel_requested t = st_cancel_requested (sh_state (ws_store w))" "st_leases t = st_leases (sh_state (ws_store w))"
    by (rule held_audit [OF h b(1) m(1) assms(4)])
  let ?v = "?w\<lparr>ws_store := \<lparr>sh_state = t, sh_calls = Suc (sh_calls (ws_store w))\<rparr>\<rparr>"
  have "audit A W lease ty w = (Inr (), ?v)"
    using e U(2) by (simp add: audit_def U(1) queue_lease_store_def lease_revision_def bnd_def ret_def now_utc_def on_store_def shared_def)
  moreover have "alive A lease n k ?v" unfolding alive_def using t(1) m b(2) by (intro exI [of _ ?now] exI [of _ until]) simp
  ultimately show ?thesis by (rule that) (simp_all add: t(2,3))
qed

lemma audits_alive:
  assumes "undisturbed X W" and "steady A ttl" and "alive A lease (length events + n) (length events + k) w"
  shows "\<exists>v. audit_each A W lease events w = (Inr (), v) \<and> alive A lease n k v \<and> wanted v lease = wanted w lease"
  using assms(3)
proof (induction events arbitrary: w)
  case (Cons e events)
  let ?ty = "if is_terminal_payload (re_payload e) then EvRuntimeCompleted else EvRuntimeOutput"
  have "ensure_worker_runtime_event ?ty = Inr ()" by (simp add: ensure_worker_runtime_event_def)
  with Cons.prems obtain u where u: "audit A W lease ?ty w = (Inr (), u)"
    "alive A lease (length events + n) (length events + k) u" "wanted u lease = wanted w lease"
    using audit_alive [OF assms(1) _ assms(2)] by (metis add_Suc length_Cons)
  from Cons.IH [OF u(2)] u(1,3) show ?case by (auto simp: bnd_def)
qed (simp add: ret_def)

lemma destroyed_ends:
  assumes "undisturbed X W" and "alive A lease (Suc (Suc n)) (Suc k) w" and "steady A ttl"
    and "can_transition_to (r_status (ls_run lease)) nxt" and "nxt \<in> {Succeeded, Failed, TimedOut}"
    and "nxt = Succeeded \<Longrightarrow> \<not> wanted w lease"
  shows "ends (bnd (audit A W lease EvSandboxDestroyed) (\<lambda>_. bnd (now_utc A) (complete_run W lease nxt why)) w) (r_id (ls_run lease))"
proof -
  obtain v where v: "audit A W lease EvSandboxDestroyed w = (Inr (), v)" "alive A lease (Suc n) k v" "wanted v lease = wanted w lease"
    by (rule audit_alive [OF assms(1-3) worker_events(1)])
  have "\<not> wanted v lease" if "nxt = Succeeded" using assms(6) [OF that] v(3) by simp
  from complete_now_ends [OF assms(1) v(2) assms(3-5) this, of why] v(1) show ?thesis by (simp add: bnd_def)
qed

lemma store_outputs_ends:
  assumes "undisturbed X W" and "alive A lease (Suc (Suc n) + length batch) (Suc (Suc k)) w" and "steady A ttl"
    and "r_status (ls_run lease) = Running" and "\<not> wanted w lease"
  shows "ends (store_outputs A W lease batch w) (r_id (ls_run lease))"
proof -
  obtain U where U: "wk_store W = queue_lease_store X U" "\<forall>n. so_others U n = []" using assms(1) by (auto simp: undisturbed_def)
  let ?now = "am_clock A (ws_reads w)" and ?w = "w\<lparr>ws_reads := Suc (ws_reads w)\<rparr>"
  from assms(2) obtain ts until where h: "held (sh_state (ws_store w)) lease (Suc (Suc n) + length batch) ts until"
    and b: "ts \<le> ?now" "am_clock A (ws_reads w + Suc (Suc k)) \<le> until" by (auto simp: alive_def)
  have m: "?now \<le> until" "?now \<le> am_clock A (Suc (ws_reads w))"
    using b(2) clock_mono [OF assms(3), of "ws_reads w" "ws_reads w + Suc (Suc k)"]
      clock_mono [OF assms(3), of "ws_reads w" "Suc (ws_reads w)"] by simp_all
  obtain out t where r: "record_leased_artifacts X (so_artifact_event_id U (sh_calls (ws_store w))) lease (r_revision (ls_run lease)) batch ?now
      (sh_state (ws_store w)) = (out, t)" by (metis surj_pair)
  from held_record [OF h b(1) m(1) r] have t: "held t lease (Suc (Suc n)) ?now until"
    "st_cancel_requested t = st_cancel_requested (sh_state (ws_store w))" by simp_all
  let ?v = "?w\<lparr>ws_store := \<lparr>sh_state = t, sh_calls = Suc (sh_calls (ws_store w))\<rparr>\<rparr>"
  have c: "on_store (lo_record_artifacts (wk_store W) lease (lease_revision lease) batch ?now) ?w = (out, ?v)"
    using r U(2) by (simp add: U(1) queue_lease_store_def lease_revision_def on_store_def shared_def)
  have al: "alive A lease (Suc (Suc n)) (Suc k) ?v"
    unfolding alive_def using t(1) m b(2) by (intro exI [of _ ?now] exI [of _ until]) simp
  show ?thesis
  proof (cases out)
    case (Inl e)
    have "ends (fail_now A W lease e ?v) (r_id (ls_run lease))"
      by (rule fail_now_ends(1) [OF assms(1) al assms(3)]) (simp add: assms(4))
    with c Inl show ?thesis by (simp add: store_outputs_def bnd_def now_utc_def)
  next
    case (Inr u)
    have "ends (bnd (audit A W lease EvSandboxDestroyed) (\<lambda>_. bnd (now_utc A) (complete_run W lease Succeeded None)) ?v) (r_id (ls_run lease))"
      by (rule destroyed_ends [OF assms(1) al assms(3)]) (use assms(4,5) t(2) in simp_all)
    with c Inr show ?thesis by (simp add: store_outputs_def bnd_def [of "now_utc A"] now_utc_def)
  qed
qed

lemma finish_exited_ends:
  assumes "undisturbed X W" and "alive A lease 5400 4110 w" and "steady A ttl"
    and "r_status (ls_run lease) = Running" and "\<not> wanted w lease" and "length (sx_output_paths res) \<le> 1024"
  shows "ends (finish_exited A W lease res environment w) (r_id (ls_run lease))"
proof -
  let ?D = "am_decode A" and ?rid = "r_id (ls_run lease)"
  let ?dec = "decode_sandbox_result (de_ext ?D) (provider_decoder ?D (ta_provider (wk_adapter W))) res (new_factory ?rid)"
  have act: "r_status (ls_run lease) \<in> {Planning, Running}" "can_transition_to (r_status (ls_run lease)) Failed" by (simp_all add: assms(4))
  have one: "alive A lease (Suc 0) 0 w" by (rule alive_less [OF assms(2) _ _ assms(3)]) simp_all
  show ?thesis
  proof (cases "fst ?dec")
    case (Inl e)
    with fail_now_ends(1) [OF assms(1) one assms(3) act(1)] show ?thesis by (simp add: finish_exited_def)
  next
    case (Inr events)
    then have "length events \<le> 4096"
      using decoded_stream_facts [of "de_ext ?D" "provider_decoder ?D (ta_provider (wk_adapter W))" res "new_factory ?rid" events "snd ?dec"]
      by (simp add: stream_ok_def prod_eq_iff)
    then have "alive A lease (length events + 1300) (length events + 10) w"
      by (intro alive_less [OF assms(2) _ _ assms(3)]) simp_all
    from audits_alive [OF assms(1,3) this] assms(5) obtain v where
      v: "audit_each A W lease events w = (Inr (), v)" and al: "alive A lease 1300 10 v" and nw: "\<not> wanted v lease" by auto
    have al1: "alive A lease (Suc (Suc 0)) (Suc 0) v" by (rule alive_less [OF al _ _ assms(3)]) simp_all
    show ?thesis
    proof (cases "events_succeeded events")
      case False
      with Inr v destroyed_ends [OF assms(1) al1 assms(3) act(2), of "Some ''sandbox did not complete successfully''"] show ?thesis
        by (simp add: finish_exited_def complete_failed_def bnd_def [of "audit_each A W lease events"])
    next
      case ok: True
      show ?thesis
      proof (cases "new_scanner (we_max_artifact_bytes environment)")
        case e: (Inl e)
        with Inr v ok fail_now_ends(1) [OF assms(1) al1 assms(3) act(1)] show ?thesis
          by (simp add: finish_exited_def bnd_def [of "audit_each A W lease events"])
      next
        case sc: (Inr scanner)
        let ?now = "am_clock A (ws_reads v)" and ?v = "v\<lparr>ws_reads := Suc (ws_reads v)\<rparr>"
        let ?scan = "scan (de_ext ?D) (am_files A) scanner (am_artifact_ids A) ?rid (we_artifact_output_root environment)
            (sx_output_paths res) ?now"
        have al2: "alive A lease 1300 9 ?v" by (rule alive_tick [OF _ assms(3)]) (use al in simp)
        show ?thesis
        proof (cases ?scan)
          case e: (Inl e)
          have "alive A lease (Suc 0) 0 ?v" by (rule alive_less [OF al2 _ _ assms(3)]) simp_all
          from fail_now_ends(1) [OF assms(1) this assms(3) act(1)] e Inr v ok sc show ?thesis
            by (simp add: finish_exited_def bnd_def [of "audit_each A W lease events"] bnd_def [of "now_utc A"] now_utc_def)
        next
          case b: (Inr batch)
          then have "length batch = length (sx_output_paths res)"
            using scan_paths_ok by (fastforce simp: scan_def res_simps dest: arg_cong [of _ _ length])
          then have "alive A lease (Suc (Suc 0) + length batch) (Suc (Suc 0)) ?v"
            using assms(6) by (intro alive_less [OF al2 _ _ assms(3)]) simp_all
          from store_outputs_ends [OF assms(1) this assms(3,4)] nw b Inr v ok sc show ?thesis
            by (simp add: finish_exited_def bnd_def [of "audit_each A W lease events"] bnd_def [of "now_utc A"] now_utc_def)
        qed
      qed
    qed
  qed
qed

lemma finish_terminated_ends:
  assumes "undisturbed X W" and "alive A lease 5400 4110 w" and "steady A ttl"
    and "r_status (ls_run lease) = Running" and "\<not> wanted w lease" and "length (sx_output_paths res) \<le> 1024"
  shows "ends (finish_terminated A W lease res environment w) (r_id (ls_run lease))"
proof -
  have two: "alive A lease (Suc (Suc 0)) (Suc 0) w" by (rule alive_less [OF assms(2) _ _ assms(3)]) simp_all
  have d: "ends (bnd (audit A W lease EvSandboxDestroyed) (\<lambda>_. bnd (now_utc A) (complete_run W lease nxt why)) w) (r_id (ls_run lease))"
    if "nxt \<in> {Failed, TimedOut}" for nxt why
    by (rule destroyed_ends [OF assms(1) two assms(3)]) (use that assms(4) in auto)
  show ?thesis
    using d finish_exited_ends [OF assms] fail_now_ends(2) [OF assms(1) two assms(3)] assms(4)
    by (cases "sx_termination res") (simp_all add: finish_terminated_def Let_def)
qed

lemma finish_cancelled_ends:
  assumes "undisturbed X W" and "alive A lease 5400 4110 w" and "steady A ttl"
    and "r_status (ls_run lease) = Running" and "wanted w lease"
  shows "ends (finish_cancelled A W lease res w) (r_id (ls_run lease))"
proof -
  have one: "alive A lease (Suc 0) 0 w" by (rule alive_less [OF assms(2) _ _ assms(3)]) simp_all
  have act: "r_status (ls_run lease) \<in> {Planning, Running}" by (simp add: assms(4))
  show ?thesis
  proof (cases "sx_termination res = TermCancelled \<and> is_ok (verify_cancellation lease res)")
    case False
    with fail_now_ends [OF assms(1) one assms(3) act] show ?thesis
      by (auto simp: finish_cancelled_def split: sum.splits)
  next
    case True
    then obtain ev where ev: "verify_cancellation lease res = Inr ev" by auto
    then have match: "ce_run_id ev = r_id (ls_run lease)" "ce_sandbox_id ev \<noteq> []" "ce_lease_token ev = ls_token lease"
      "ce_lease_owner ev = ls_owner lease"
      by (auto simp: verify_cancellation_def validate_sandbox_result_def Let_def res_simps split: if_splits)
    obtain U where U: "wk_store W = queue_lease_store X U" "\<forall>n. so_others U n = []" using assms(1) by (auto simp: undisturbed_def)
    let ?now = "am_clock A (ws_reads w)"
    from one obtain ts until where h: "held (sh_state (ws_store w)) lease (Suc 0) ts until" "ts \<le> ?now" "?now \<le> until"
      by (auto simp: alive_def)
    have "can_transition_to (r_status (ls_run lease)) Cancelled" by (simp add: assms(4))
    from held_confirm [OF h this assms(5) match] obtain r t where
      "confirm_cancel X (so_event_id U (sh_calls (ws_store w))) lease ?now ev (sh_state (ws_store w)) = (Inr r, t)"
      "bm_get (st_runs t) (r_id (ls_run lease)) = Some r" "r_status r = Cancelled" by metis
    with True ev U show ?thesis
      by (simp add: finish_cancelled_def bnd_def now_utc_def on_store_def shared_def queue_lease_store_def ret_def
        ends_def is_terminal_def)
  qed
qed

lemma cancel_requested_alive:
  assumes "undisturbed X W" and "accepts (sh_state (ws_store w)) lease now"
  obtains v where "on_store (lo_cancel_requested (wk_store W) lease now) w = (Inr (wanted w lease), v)"
    "sh_state (ws_store v) = sh_state (ws_store w)" "ws_reads v = ws_reads w"
proof -
  obtain U where U: "wk_store W = queue_lease_store X U" "\<forall>n. so_others U n = []" using assms(1) by (auto simp: undisturbed_def)
  show ?thesis
    by (rule that [of "w\<lparr>ws_store := \<lparr>sh_state = sh_state (ws_store w), sh_calls = Suc (sh_calls (ws_store w))\<rparr>\<rparr>"])
      (use accepts_cancel_requested [OF assms(2)] U in \<open>simp_all add: queue_lease_store_def on_store_def shared_def\<close>)
qed

lemma alive_same:
  "sh_state (ws_store v) = sh_state (ws_store w) \<Longrightarrow> ws_reads v = ws_reads w \<Longrightarrow> alive A lease n k v = alive A lease n k w"
  by (simp add: alive_def)

lemma worker_finish_ends:
  assumes "undisturbed X W" and "alive A lease 5500 4120 w" and "steady A ttl" and "r_status (ls_run lease) = Running"
  shows "ends (finish A W lease res environment w) (r_id (ls_run lease))"
proof -
  let ?now = "am_clock A (ws_reads w)" and ?w = "w\<lparr>ws_reads := Suc (ws_reads w)\<rparr>"
  from assms(2) obtain ts until where h: "held (sh_state (ws_store w)) lease 5500 ts until"
    and b: "ts \<le> ?now" "am_clock A (ws_reads w + 4120) \<le> until" by (auto simp: alive_def)
  have n: "?now \<le> until" using b(2) clock_mono [OF assms(3), of "ws_reads w" "ws_reads w + 4120"] by simp
  have acc: "accepts (sh_state (ws_store w)) lease ?now" by (rule held_accepts [OF h b(1) n])
  have h1: "held (sh_state (ws_store ?w)) lease (Suc 0) ts until" using held_less [OF h] by simp
  note fails = fail_ends [OF assms(1) h1 b(1) n]
  show ?thesis
  proof (cases "is_ok (validate_sandbox_result res) \<and> sx_run_id res = r_id (ls_run lease)")
    case False
    with fails assms(4) show ?thesis
      by (auto simp: finish_def bnd_def [of "now_utc A"] now_utc_def split: sum.splits)
  next
    case True
    then have valid: "validate_sandbox_result res = Inr ()" by auto
    then have paths: "length (sx_output_paths res) \<le> 1024"
      by (auto simp: validate_sandbox_result_def Let_def split: if_splits)
    have al: "alive A lease (Suc (Suc 5400)) (Suc (Suc 4110)) ?w"
      by (rule alive_less [OF alive_tick [OF _ assms(3)] _ _ assms(3), of _ 5500 4119]) (use assms(2) in simp_all)
    obtain w1 where w1: "audit A W lease EvSandboxCreated ?w = (Inr (), w1)" "alive A lease (Suc 5400) (Suc 4110) w1"
      "st_leases (sh_state (ws_store w1)) = st_leases (sh_state (ws_store ?w))"
      by (rule audit_alive [OF assms(1) al assms(3) worker_events(2)])
    obtain w2 where w2: "audit A W lease EvRuntimeStarted w1 = (Inr (), w2)" "alive A lease 5400 4110 w2"
      "st_leases (sh_state (ws_store w2)) = st_leases (sh_state (ws_store w1))"
      by (rule audit_alive [OF assms(1) w1(2) assms(3) worker_events(3)])
    have "accepts (sh_state (ws_store w2)) lease ?now" using acc w1(3) w2(3) by (simp add: accepts_def)
    then obtain v where v: "on_store (lo_cancel_requested (wk_store W) lease ?now) w2 = (Inr (wanted w2 lease), v)"
      "sh_state (ws_store v) = sh_state (ws_store w2)" "ws_reads v = ws_reads w2"
      by (rule cancel_requested_alive [OF assms(1)])
    have av: "alive A lease 5400 4110 v" using w2(2) alive_same [OF v(2,3)] by simp
    have "ends ((if wanted w2 lease then finish_cancelled A W lease res else finish_terminated A W lease res environment) v)
        (r_id (ls_run lease))"
      using finish_cancelled_ends [OF assms(1) av assms(3,4)] finish_terminated_ends [OF assms(1) av assms(3,4) _ paths] v(2) by simp
    with w1(1) w2(1) v(1) valid True show ?thesis
      by (simp add: finish_def bnd_def [of "now_utc A"] now_utc_def bnd_def [of "audit A W lease EvSandboxCreated"]
        bnd_def [of "audit A W lease EvRuntimeStarted"] bnd_def [of "on_store (lo_cancel_requested (wk_store W) lease ?now)"])
  qed
qed

section \<open>The whole call\<close>

definition answers :: "sandbox_backend \<Rightarrow> nat \<Rightarrow> bool" where
  \<comment> \<open>the sandbox has returned by round \<open>m\<close> without a panic\<close>
  "answers B m =
     ((\<forall>request sent. \<exists>out. sb_receive B request m sent = Delivered out)
      \<and> (\<forall>request round sent. round < m \<longrightarrow> sb_receive B request round sent \<noteq> ThreadPanicked))"

definition renewable :: "ext \<Rightarrow> worker_ambient \<Rightarrow> nat \<Rightarrow> bool" where
  \<comment> \<open>the lease can be extended at every reading of the clock\<close>
  "renewable X A ttl =
     (0 < ttl \<and> int ttl \<le> hour_nanos
      \<and> (\<forall>i. ts_checked_add X (am_clock A i) (int ttl) = Some (am_clock A i + int ttl)))"

definition same_capability :: "run_lease \<Rightarrow> run_lease \<Rightarrow> bool" where
  "same_capability l lease = (ls_run l = ls_run lease \<and> ls_token l = ls_token lease \<and> ls_owner l = ls_owner lease)"

lemma beat_alive:
  assumes "undisturbed X W" and "renewable X A (sv_lease_ttl (wk_supervisor W))" and "steady A (sv_lease_ttl (wk_supervisor W))"
    and "held (sh_state (ws_store w)) lease n ts until" and "ts \<le> am_clock A (ws_reads w)"
    and "am_clock A (ws_reads w + 4150) \<le> until" and "same_capability l lease" and "\<not> wanted w lease"
  obtains l' v until' where "supervise_beat A W l None w = ((l', None), v)" "same_capability l' lease" "\<not> ls_cancel_requested l'"
    "held (sh_state (ws_store v)) lease n ts until'" "ws_reads v = Suc (ws_reads w)" "am_clock A (ws_reads v + 4150) \<le> until'"
    "\<not> wanted v lease"
proof -
  obtain U where U: "wk_store W = queue_lease_store X U" "\<forall>n. so_others U n = []" using assms(1) by (auto simp: undisturbed_def)
  let ?now = "am_clock A (ws_reads w)" and ?ttl = "sv_lease_ttl (wk_supervisor W)"
  let ?until = "am_clock A (Suc (ws_reads w) + 4150)"
  have hl: "held (sh_state (ws_store w)) l n ts until"
    using assms(4,7) held_same [of l lease] by (simp add: same_capability_def)
  have now: "?now \<le> until" using assms(6) clock_mono [OF assms(3), of "ws_reads w" "ws_reads w + 4150"] by simp
  have x: "checked_lease_expiry X ?now (int ?ttl) = Inr (?now + int ?ttl)"
    using assms(2) by (simp add: renewable_def checked_lease_expiry_def)
  have until: "?until < ?now + int ?ttl" using assms(3) unfolding steady_def by (simp add: le_add2)
  have d: "duration_try_from ?ttl = Inr (int ?ttl)"
    using assms(2) by (simp add: renewable_def duration_try_from_def hour_nanos_def div_less_iff_less_mult)
  obtain l' t where l': "heartbeat_lease X l ?now (int ?ttl) (sh_state (ws_store w)) = (Inr l', t)" "held t l n ts ?until"
    "ls_run l' = ls_run l" "ls_token l' = ls_token l" "ls_owner l' = ls_owner l"
    "ls_cancel_requested l' = cancel_wanted (sh_state (ws_store w)) l"
    "st_cancel_requested t = st_cancel_requested (sh_state (ws_store w))"
    by (rule held_heartbeat [OF hl assms(5) now x until])
  let ?v = "w\<lparr>ws_reads := Suc (ws_reads w), ws_store := \<lparr>sh_state = t, sh_calls = Suc (sh_calls (ws_store w))\<rparr>\<rparr>"
  have "supervise_beat A W l None w = ((l', None), ?v)"
    using l'(1) U d by (simp add: supervise_beat_def bnd_def now_utc_def on_store_def shared_def queue_lease_store_def lift_res_def)
  then show ?thesis
    by (rule that) (use l' assms(7,8) held_same [of l lease] in \<open>auto simp: same_capability_def\<close>)
qed

lemma supervise_returns:
  assumes "undisturbed X W" and "renewable X A (sv_lease_ttl (wk_supervisor W))" and "steady A (sv_lease_ttl (wk_supervisor W))"
    and "answers (wk_sandbox W) (round + d)"
    and "held (sh_state (ws_store w)) lease n ts until" and "ts \<le> am_clock A (ws_reads w)"
    and "am_clock A (ws_reads w + 4150) \<le> until" and "same_capability l lease" and "\<not> wanted w lease"
  shows "\<exists>out v until'. supervise A W request round None l None w = Some (out, v)
    \<and> held (sh_state (ws_store v)) lease n ts until' \<and> ws_reads w \<le> ws_reads v
    \<and> am_clock A (ws_reads v + 4150) \<le> until' \<and> (\<forall>l' res. out = Inr (l', res) \<longrightarrow> same_capability l' lease)"
  using assms(4-9)
proof (induction d arbitrary: round w until l)
  case 0
  from 0(1) have "\<exists>out. sb_receive (wk_sandbox W) request round None = Delivered out" by (simp add: answers_def)
  then obtain out where "sb_receive (wk_sandbox W) request round None = Delivered out" ..
  then have "supervise A W request round None l None w = Some (res_bind out (\<lambda>res. Inr (l, res)), w)"
    by (simp add: supervise.simps [of A W request round])
  with 0(2-6) show ?case by (auto simp: res_simps)
next
  case (Suc d)
  show ?case
  proof (cases "sb_receive (wk_sandbox W) request round None")
    case (Delivered out)
    then have "supervise A W request round None l None w = Some (res_bind out (\<lambda>res. Inr (l, res)), w)"
      by (simp add: supervise.simps [of A W request round])
    with Suc.prems show ?thesis by (auto simp: res_simps)
  next
    case ThreadPanicked
    with Suc.prems(1) show ?thesis by (auto simp: answers_def)
  next
    case Waiting
    obtain l' v until' where b: "supervise_beat A W l None w = ((l', None), v)" "same_capability l' lease" "\<not> ls_cancel_requested l'"
      "held (sh_state (ws_store v)) lease n ts until'" "ws_reads v = Suc (ws_reads w)" "am_clock A (ws_reads v + 4150) \<le> until'"
      "\<not> wanted v lease"
      by (rule beat_alive [OF assms(1-3) Suc.prems(2-6)])
    have step: "supervise A W request round None l None w = supervise A W request (Suc round) None l' None v"
      using Waiting b(1,3) by (simp add: supervise.simps [of A W request round] supervise_cancel_def)
    have "ts \<le> am_clock A (ws_reads v)"
      using Suc.prems(3) clock_mono [OF assms(3), of "ws_reads w" "Suc (ws_reads w)"] b(5) by simp
    moreover have "answers (wk_sandbox W) (Suc round + d)" using Suc.prems(1) by simp
    ultimately have "\<exists>out u until'. supervise A W request (Suc round) None l' None v = Some (out, u)
        \<and> held (sh_state (ws_store u)) lease n ts until' \<and> ws_reads v \<le> ws_reads u
        \<and> am_clock A (ws_reads u + 4150) \<le> until' \<and> (\<forall>l' res. out = Inr (l', res) \<longrightarrow> same_capability l' lease)"
      using Suc.IH [of "Suc round" v until' l'] b(2,4,6,7) by blast
    with step b(5) show ?thesis by (metis Suc_leD)
  qed
qed

definition rests ::
    "start_disposition \<Rightarrow> (openwork_error + worker_outcome) \<times> shared_store worker_state \<Rightarrow> run_id \<Rightarrow> bool" where
  \<comment> \<open>at the end, or waiting for the approval it was started for\<close>
  "rests disposition out rid =
     (ends out rid
      \<or> disposition = StartAwaitingApproval \<and> (\<exists>r. fst out = Inr (OutAwaitingApproval r) \<and> r_status r = AwaitingApproval
           \<and> bm_get (st_runs (sh_state (ws_store (snd out)))) rid = Some r))"

definition launched :: "worker_ambient \<Rightarrow> run_lease \<Rightarrow> timestamp \<Rightarrow> run_lease \<Rightarrow> shared_store worker_state \<Rightarrow> bool" where
  "launched A lease now running w =
     (r_id (ls_run running) = r_id (ls_run lease) \<and> r_status (ls_run running) = Running \<and> \<not> wanted w running
      \<and> now \<le> am_clock A (ws_reads w)
      \<and> (\<exists>until. held (sh_state (ws_store w)) running 5500 now until \<and> am_clock A (ws_reads w + 4150) \<le> until))"

definition started_ok ::
    "start_disposition \<Rightarrow> worker_ambient \<Rightarrow> run_lease \<Rightarrow> (openwork_error + worker_outcome + run_lease \<times> sandbox_request \<times> timestamp) \<times> shared_store worker_state \<Rightarrow> bool" where
  "started_ok disposition A lease out =
     (case out of
        (Inl e, v) \<Rightarrow> rests disposition (Inl e, v) (r_id (ls_run lease))
      | (Inr (Inl x), v) \<Rightarrow> rests disposition (Inr x, v) (r_id (ls_run lease))
      | (Inr (Inr (running, request, now)), v) \<Rightarrow> launched A lease now running v)"

lemma started_early:
  "ends (m w) (r_id (ls_run lease)) \<Longrightarrow> started_ok disposition A lease (early m w)"
  by (auto simp: started_ok_def early_def rests_def bnd_def ret_def split: prod.splits sum.splits)

lemma start_running_alive:
  assumes "undisturbed X W" and "steady A ttl" and "held (sh_state (ws_store w)) lease 5600 ts until" and "ts \<le> now"
    and "am_clock A (ws_reads w + 4150) \<le> until" and "now \<le> am_clock A (ws_reads w)" and "r_status (ls_run lease) = Planning"
  shows "started_ok disposition A lease (start_running A W lease task environment now w)"
proof -
  obtain U where U: "wk_store W = queue_lease_store X U" "\<forall>n. so_others U n = []" using assms(1) by (auto simp: undisturbed_def)
  have nu: "now \<le> until" using assms(5,6) clock_mono [OF assms(2), of "ws_reads w" "ws_reads w + 4150"] by simp
  have h: "held (sh_state (ws_store w)) lease (Suc 5500) ts until" by (rule held_less [OF assms(3)]) simp
  have can: "can_transition_to (r_status (ls_run lease)) Running" "\<not> is_terminal Running" by (simp_all add: assms(7) is_terminal_def)
  obtain l t where l: "transition_leased_run X (so_event_id U (sh_calls (ws_store w))) lease (r_revision (ls_run lease)) Running now
      (sh_state (ws_store w)) = (Inr l, t)" "held t l 5500 now until" "r_id (ls_run l) = r_id (ls_run lease)" "r_status (ls_run l) = Running"
    by (rule held_transition [OF h assms(4) nu can])
  let ?w1 = "w\<lparr>ws_store := \<lparr>sh_state = t, sh_calls = Suc (sh_calls (ws_store w))\<rparr>\<rparr>"
  have t: "on_store (lo_transition (wk_store W) lease (lease_revision lease) Running now) w = (Inr l, ?w1)"
    using l(1) U by (simp add: queue_lease_store_def on_store_def shared_def lease_revision_def)
  have "accepts (sh_state (ws_store ?w1)) l now" using held_accepts [OF l(2) _ nu] by simp
  then obtain v where v: "on_store (lo_cancel_requested (wk_store W) l now) ?w1 = (Inr (wanted ?w1 l), v)"
    "sh_state (ws_store v) = t" "ws_reads v = ws_reads w"
    using cancel_requested_alive [OF assms(1), of ?w1 l now] by auto
  have hv: "held (sh_state (ws_store v)) l (Suc 5499) now until" using l(2) v(2) by simp
  note fails = fail_ends [OF assms(1) hv order_refl nu]
  show ?thesis
  proof (cases "wanted ?w1 l")
    case True
    with t v(1) started_early [of "fail_closed W l ''cancellation requested before sandbox execution'' now" v lease disposition A] fails(1) l(3,4)
    show ?thesis by (simp add: start_running_def bnd_def)
  next
    case False
    let ?req = "res_bind (sb_health (wk_sandbox W)) (\<lambda>_.
            res_bind (prepare (de_ext (am_decode A)) (ta_provider (wk_adapter W)) (ta_container_executable (wk_adapter W)) task)
              (\<lambda>invocation.
            into_sandbox_request invocation (r_id (ls_run l)) (we_image environment) (we_user environment)
              (we_input_directory environment) (we_output_directory environment) (we_limits environment)))"
    show ?thesis
    proof (cases ?req)
      case (Inl e)
      with False t v(1) started_early [of "fail_after_error W l e now" v lease disposition A] fails(2) l(3,4)
      show ?thesis by (simp add: start_running_def bnd_def)
    next
      case (Inr request)
      have "launched A lease now l v"
        unfolding launched_def using l v False assms(5,6) by auto
      with Inr False t v(1) show ?thesis by (simp add: start_running_def bnd_def ret_def started_ok_def)
    qed
  qed
qed

lemma start_alive:
  assumes "undisturbed X W" and "steady A ttl" and "held (sh_state (ws_store w)) lease 5600 ts until"
    and "ts \<le> am_clock A (ws_reads w)" and "am_clock A (ws_reads w + 4200) \<le> until" and "r_status (ls_run lease) = Planning"
  shows "started_ok disposition A lease (start A W lease spec prompt environment disposition w)"
proof -
  let ?now = "am_clock A (ws_reads w)" and ?w = "w\<lparr>ws_reads := Suc (ws_reads w)\<rparr>"
  have nu: "?now \<le> until" using assms(5) clock_mono [OF assms(2), of "ws_reads w" "ws_reads w + 4200"] by simp
  have h1: "held (sh_state (ws_store ?w)) lease (Suc 5599) ts until" using assms(3) by simp
  note fails = fail_ends [OF assms(1) h1 assms(4) nu]
  let ?task = "res_bind (build_task (de_ext (am_decode A)) lease spec prompt) (\<lambda>task.
           res_bind (validate_environment lease environment) (\<lambda>_. Inr task))"
  show ?thesis
  proof (cases ?task)
    case (Inl e)
    have "ends (fail_now A W lease e w) (r_id (ls_run lease))"
      using fails(2) assms(6) by (simp add: fail_now_def bnd_def now_utc_def)
    with started_early [of "fail_now A W lease e" w lease disposition A] Inl show ?thesis by (simp add: start_def)
  next
    case (Inr task)
    obtain v where v: "on_store (lo_cancel_requested (wk_store W) lease ?now) ?w = (Inr (wanted ?w lease), v)"
      "sh_state (ws_store v) = sh_state (ws_store ?w)" "ws_reads v = Suc (ws_reads w)"
      using cancel_requested_alive [OF assms(1), of ?w lease ?now] held_accepts [OF h1 assms(4) nu] by auto
    have hv: "held (sh_state (ws_store v)) lease 5600 ts until" using assms(3) v(2) by simp
    have unfold: "start A W lease spec prompt environment disposition w =
        (if wanted ?w lease then early (fail_closed W lease ''cancellation requested before sandbox execution'' ?now)
         else if disposition = StartAwaitingApproval
         then early (bnd (on_store (lo_transition (wk_store W) lease (lease_revision lease) AwaitingApproval ?now))
                (\<lambda>awaiting. ret (OutAwaitingApproval (ls_run awaiting))))
         else start_running A W lease task environment ?now) v"
      using Inr v(1) assms(6) by (simp add: start_def bnd_def now_utc_def)
    consider "wanted ?w lease" | "\<not> wanted ?w lease" "disposition = StartAwaitingApproval"
      | "\<not> wanted ?w lease" "disposition \<noteq> StartAwaitingApproval" by blast
    then show ?thesis
    proof cases
      case 1
      have "held (sh_state (ws_store v)) lease (Suc 5599) ts until" using hv by simp
      from fail_ends(1) [OF assms(1) this assms(4) nu] assms(6)
        started_early [of "fail_closed W lease ''cancellation requested before sandbox execution'' ?now" v lease disposition A] 1 unfold
      show ?thesis by simp
    next
      case 2
      obtain U where U: "wk_store W = queue_lease_store X U" "\<forall>n. so_others U n = []" using assms(1) by (auto simp: undisturbed_def)
      have hs: "held (sh_state (ws_store v)) lease (Suc 5599) ts until" using hv by simp
      have can: "can_transition_to (r_status (ls_run lease)) AwaitingApproval" "\<not> is_terminal AwaitingApproval"
        by (simp_all add: assms(6) is_terminal_def)
      obtain l t where "transition_leased_run X (so_event_id U (sh_calls (ws_store v))) lease (r_revision (ls_run lease)) AwaitingApproval ?now
          (sh_state (ws_store v)) = (Inr l, t)" "r_status (ls_run l) = AwaitingApproval"
        "bm_get (st_runs t) (r_id (ls_run lease)) = Some (ls_run l)"
        by (rule held_transition [OF hs assms(4) nu can])
      with 2 unfold U show ?thesis
        by (simp add: queue_lease_store_def on_store_def shared_def lease_revision_def early_def bnd_def ret_def started_ok_def rests_def)
    next
      case 3
      have "am_clock A (ws_reads v + 4150) \<le> until" "?now \<le> am_clock A (ws_reads v)"
        using assms(5) clock_mono [OF assms(2), of "Suc (ws_reads w) + 4150" "ws_reads w + 4200"]
          clock_mono [OF assms(2), of "ws_reads w" "Suc (ws_reads w)"] v(3) by simp_all
      from start_running_alive [OF assms(1,2) hv assms(4) this assms(6)] 3 unfold show ?thesis by simp
    qed
  qed
qed

lemma execute_rests:
  assumes "undisturbed X W" and "renewable X A (sv_lease_ttl (wk_supervisor W))" and "steady A (sv_lease_ttl (wk_supervisor W))"
    and "answers (wk_sandbox W) m" and "held (sh_state (ws_store w)) lease 5600 (am_clock A (ws_reads w)) (am_clock A (ws_reads w + 4200))"
    and "r_status (ls_run lease) = Planning"
  shows "\<exists>out. execute_run A W lease spec prompt environment disposition w = Some out \<and> rests disposition out (r_id (ls_run lease))"
proof -
  have st: "started_ok disposition A lease (start A W lease spec prompt environment disposition w)"
    by (rule start_alive [OF assms(1,3,5) order_refl order_refl assms(6)])
  obtain x v where x: "start A W lease spec prompt environment disposition w = (x, v)" by (metis surj_pair)
  show ?thesis
  proof (cases x)
    case (Inl e)
    with st x show ?thesis by (simp add: started_ok_def execute_run_def)
  next
    case (Inr y)
    show ?thesis
    proof (cases y)
      case early: (Inl q)
      with st x Inr show ?thesis by (simp add: started_ok_def execute_run_def)
    next
      case go: (Inr z)
      obtain running request now where z: "z = (running, request, now)" by (cases z)
      from st x Inr go z have la: "launched A lease now running v" by (simp add: started_ok_def)
      then obtain until where h: "held (sh_state (ws_store v)) running 5500 now until" "am_clock A (ws_reads v + 4150) \<le> until"
        and id: "r_id (ls_run running) = r_id (ls_run lease)" "r_status (ls_run running) = Running" "\<not> wanted v running"
        and now: "now \<le> am_clock A (ws_reads v)" by (auto simp: launched_def)
      have ans: "answers (wk_sandbox W) (0 + m)" by (simp add: assms(4))
      have same: "same_capability running running" by (simp add: same_capability_def)
      obtain out u until' where s: "supervise A W request 0 None running None v = Some (out, u)"
        and hu: "held (sh_state (ws_store u)) running 5500 now until'" "ws_reads v \<le> ws_reads u"
          "am_clock A (ws_reads u + 4150) \<le> until'" and cap: "\<forall>l' res. out = Inr (l', res) \<longrightarrow> same_capability l' running"
        using supervise_returns [OF assms(1-3) ans h(1) now h(2) same id(3), of request] by blast
      have nw: "now \<le> am_clock A (ws_reads u)" using now clock_mono [OF assms(3) hu(2)] by simp
      have nu: "now \<le> until'" using nw hu(3) clock_mono [OF assms(3), of "ws_reads u" "ws_reads u + 4150"] by simp
      show ?thesis
      proof (cases out)
        case e: (Inl e)
        have "held (sh_state (ws_store u)) running (Suc 5499) now until'" using hu(1) by simp
        from fail_ends(2) [OF assms(1) this order_refl nu] id(2) have "ends (fail_after_error W running e now u) (r_id (ls_run running))" by simp
        with e s x Inr go z id(1) show ?thesis
          by (simp add: execute_run_def execute_with_cancellation_def rests_def)
      next
        case r: (Inr lr)
        obtain l res where lr: "lr = (l, res)" by (cases lr)
        with cap r have c: "same_capability l running" by simp
        then have "held (sh_state (ws_store u)) l 5500 now until'" using hu(1) held_same [of l running] by (simp add: same_capability_def)
        then have "alive A l 5500 4120 u"
          unfolding alive_def using nw hu(3) clock_mono [OF assms(3), of "ws_reads u + 4120" "ws_reads u + 4150"]
          by (intro exI [of _ now] exI [of _ until']) simp
        from worker_finish_ends [OF assms(1) this assms(3)] c id have "ends (finish A W l res environment u) (r_id (ls_run lease))"
          by (simp add: same_capability_def)
        with r lr s x Inr go z show ?thesis by (simp add: execute_run_def execute_with_cancellation_def rests_def)
      qed
    qed
  qed
qed

text \<open>
  C28. A worker call always comes to an end: with a lease the store accepts, a clock that keeps pace with
  it, a sandbox that returns at some time without a panic and no other process at work on the store, the
  call returns and leaves the run in a terminal status or waiting for the approval it was started for; what it returns is
  the stored run, and an error means that the stored run is failed. No path leaves the run running.
\<close>

theorem worker_always_ends:
  assumes "undisturbed X W" and "renewable X A (sv_lease_ttl (wk_supervisor W))" and "steady A (sv_lease_ttl (wk_supervisor W))"
    and "answers (wk_sandbox W) m" and "held (sh_state (ws_store w)) lease 5600 (am_clock A (ws_reads w)) (am_clock A (ws_reads w + 4200))"
    and "r_status (ls_run lease) = Planning"
  shows "\<exists>out v r. execute_run A W lease spec prompt environment disposition w = Some (out, v)
    \<and> bm_get (st_runs (sh_state (ws_store v))) (r_id (ls_run lease)) = Some r
    \<and> (is_terminal (r_status r) \<or> disposition = StartAwaitingApproval \<and> r_status r = AwaitingApproval)
    \<and> (case out of Inl _ \<Rightarrow> r_status r = Failed | Inr (OutCompleted q) \<Rightarrow> q = r | Inr (OutAwaitingApproval q) \<Rightarrow> q = r)"
proof -
  obtain out where "execute_run A W lease spec prompt environment disposition w = Some out" "rests disposition out (r_id (ls_run lease))"
    using execute_rests [OF assms] by blast
  then show ?thesis
    by (cases out) (auto simp: rests_def ends_def split: sum.splits)
qed

end
