(* ===== verification/Task_Witnesses.thy ===== *)
theory Task_Witnesses
  imports System_Witnesses Worker_Liveness
begin

text \<open>
  Concrete inputs for the properties of the runtime adapters and of the worker: a line of each kind of
  provider output, and a worker that takes a claimed run through a sandbox to success.
\<close>

section \<open>Decoding\<close>

definition tool_line :: json where
  "tool_line = JObject [(''part'', JObject [(''tool'', JString ''sk-abc'')]), (''type'', JString ''tool_use'')]"

definition sample_decode :: decode_env where
  \<comment> \<open>the raw reader knows one line\<close>
  "sample_decode = \<lparr>de_ext = sample_ext, de_raw = (\<lambda>l. if l = ''t'' then Some (tool_line, True) else None),
     de_clock = (\<lambda>n. int (unat n))\<rparr>"

definition tool_result :: sandbox_result where
  "tool_result = sample_result\<lparr>sx_stdout := ''t'', sx_stderr := ''warn''\<rparr>"

lemma sample_decode_sel [simp]:
  "de_ext sample_decode = sample_ext" "de_raw sample_decode ''t'' = Some (tool_line, True)"
  "de_clock sample_decode n = int (unat n)"
  by (simp_all add: sample_decode_def)

lemma sample_printer [simp]: "json_to_string sample_ext = print_json" by (simp add: sample_ext_def)

lemma tool_texts:
  "redact_json (JObject [(''tool'', JString ''sk-abc'')]) = JObject [(''tool'', JString ''[REDACTED]'')]"
  "redact_text ''warn'' = ''warn''" "redact_text ''sk-abc'' = ''[REDACTED]''"
  "from_untrusted [(''provider_event_type'', JString ''tool_use''), (''session_id'', JNull)]
     = RedactedAuditMetadata [(''provider_event_type'', JString ''tool_use''), (''session_id'', JNull)]"
  "from_untrusted [] = RedactedAuditMetadata []" "valid_utf8 ''warn''"
  by code_simp+

definition tool_metadata :: redacted_metadata where
  "tool_metadata = RedactedAuditMetadata [(''provider_event_type'', JString ''tool_use''), (''session_id'', JNull)]"

definition tool_events :: "runtime_event list" where
  "tool_events =
     [\<lparr>re_schema_version = SchemaVersion, re_run_id = run0, re_sequence = 1, re_timestamp = 1,
       re_payload = PToolCall ''sk-abc'' (JObject [(''tool'', JString ''[REDACTED]'')]), re_vendor_metadata = tool_metadata\<rparr>,
      \<lparr>re_schema_version = SchemaVersion, re_run_id = run0, re_sequence = 2, re_timestamp = 2,
       re_payload = PStderr ''warn'' False, re_vendor_metadata = RedactedAuditMetadata []\<rparr>,
      \<lparr>re_schema_version = SchemaVersion, re_run_id = run0, re_sequence = 3, re_timestamp = 3,
       re_payload = PCompleted 0, re_vendor_metadata = RedactedAuditMetadata []\<rparr>]"

lemmas event_eval = ensure_event_bounds_def payload_bytes_def usize_add_def max_runtime_event_bytes_def
  max_runtime_events_def factory_event_def checked_add_def op_defs ensure_def unary_def print_string_def

lemma tool_line_decodes:
  "opencode_decode sample_decode ''t'' \<lparr>ef_run_id = run0, ef_next_sequence = 1, ef_terminal = False\<rparr> =
     (Inr [tool_events ! 0], \<lparr>ef_run_id = run0, ef_next_sequence = 2, ef_terminal = False\<rparr>)"
proof -
  have v: "parse_json_line (de_raw sample_decode) ''t'' = Inr tool_line"
    by (simp add: parse_json_line_def validate_line_def max_provider_line_bytes_def tool_line_def)
  have m: "opencode_metadata sample_decode tool_line = Inr tool_metadata"
    by (simp add: opencode_metadata_def metadata_from_untrusted_def tool_texts tool_metadata_def get_or_null_def
      tool_line_def max_runtime_event_bytes_def unary_def print_string_def)
  have b: "bounded_redacted_value sample_ext (JObject [(''tool'', JString ''sk-abc'')]) = Inr (JObject [(''tool'', JString ''[REDACTED]'')])"
    by (simp add: bounded_redacted_value_def tool_texts max_runtime_event_bytes_def unary_def print_string_def
      del: redact_json.simps)
  have t: "get_str tool_line ''type'' = Some ''tool_use''" "json_get tool_line ''part'' = Some (JObject [(''tool'', JString ''sk-abc'')])"
    "get_or_null tool_line ''part'' = JObject [(''tool'', JString ''sk-abc'')]"
    by (simp_all add: tool_line_def get_str_def get_or_null_def)
  show ?thesis
    by (simp add: opencode_decode_def one_def v m b t event_eval tool_events_def tool_metadata_def)
qed

lemma warn_line_decodes:
  "factory_stderr sample_decode ''warn'' \<lparr>ef_run_id = run0, ef_next_sequence = 2, ef_terminal = False\<rparr> =
     (Inr (tool_events ! 1), \<lparr>ef_run_id = run0, ef_next_sequence = 3, ef_terminal = False\<rparr>)"
  by (simp add: factory_stderr_def bounded_redacted_text_def validate_line_def max_provider_line_bytes_def tool_texts
    event_eval tool_events_def empty_metadata_def)

lemma clean_exit_decodes:
  "factory_finish sample_decode 0 \<lparr>ef_run_id = run0, ef_next_sequence = n, ef_terminal = False\<rparr> =
     (Inr (Some \<lparr>re_schema_version = SchemaVersion, re_run_id = run0, re_sequence = n, re_timestamp = int (unat n),
       re_payload = PCompleted 0, re_vendor_metadata = RedactedAuditMetadata []\<rparr>),
      \<lparr>ef_run_id = run0, ef_next_sequence = n + 1, ef_terminal = True\<rparr>)" if "n \<le> 4096"
proof -
  have "unat n \<le> 4096" using that by (simp add: word_le_nat_alt)
  with that show ?thesis by (simp add: factory_finish_def event_eval tool_texts empty_metadata_def)
qed

lemmas append_eval = append_decoded_event_def u64_of_len_def checked_add_def is_terminal_event_def ensure_event_bounds_def
  payload_bytes_def usize_add_def max_runtime_event_bytes_def max_runtime_events_def unary_def print_string_def ok_or_def

lemma tool_decodes:
  "decode_sandbox_result sample_ext (provider_decoder sample_decode OpenCode) tool_result (new_factory run0) =
     (Inr tool_events, \<lparr>ef_run_id = run0, ef_next_sequence = 4, ef_terminal = True\<rparr>)"
proof -
  have l: "str_lines ''t'' = [''t'']" "str_lines ''warn'' = [''warn'']" by code_simp+
  show ?thesis
    by (simp add: decode_sandbox_result_def tool_result_def sample_result_def validate_sandbox_result_def
      max_sandbox_output_bytes_def l provider_decoder_def new_factory_def tool_line_decodes warn_line_decodes
      clean_exit_decodes decode_end_def append_eval op_defs tool_events_def tool_metadata_def)
qed

theorem decoded_stream_is_sound_witness:
  "stream_ok sample_ext tool_result tool_events \<and> is_terminal_event (last tool_events)"
  using decoded_stream_is_sound [OF tool_decodes] by (simp add: tool_result_def sample_result_def)

theorem decoded_events_are_redacted_witness:
  "redacted_event False (tool_events ! 0)"
  using decoded_events_are_redacted [OF tool_decodes [folded sample_decode_sel(1)], of "tool_events ! 0"]
  by (simp add: tool_events_def)

text \<open>
  The tool name OpenCode reports is the one text of a decoded event that is not redacted: a token in it
  reaches the event stream, although Claude and Pi redact theirs.
\<close>

theorem opencode_tool_name_leaks:
  "\<exists>D res events f e name parameters.
     decode_sandbox_result (de_ext D) (provider_decoder D OpenCode) res (new_factory (sx_run_id res)) = (Inr events, f)
     \<and> e \<in> set events \<and> re_payload e = PToolCall name parameters \<and> redact_text name \<noteq> name"
proof -
  have "decode_sandbox_result (de_ext sample_decode) (provider_decoder sample_decode OpenCode) tool_result
      (new_factory (sx_run_id tool_result)) = (Inr tool_events, \<lparr>ef_run_id = run0, ef_next_sequence = 4, ef_terminal = True\<rparr>)"
    using tool_decodes by (simp add: tool_result_def sample_result_def)
  moreover have "tool_events ! 0 \<in> set tool_events" by (simp add: tool_events_def)
  moreover have "re_payload (tool_events ! 0) = PToolCall ''sk-abc'' (JObject [(''tool'', JString ''[REDACTED]'')])"
    by (simp add: tool_events_def)
  moreover have "redact_text ''sk-abc'' \<noteq> ''sk-abc''" by (simp add: tool_texts)
  ultimately show ?thesis by blast
qed

section \<open>Preparation\<close>

definition sample_task :: runtime_task where
  "sample_task = \<lparr>rt_schema_version = SchemaVersion, rt_run_id = run0, rt_runtime = ''opencode'', rt_prompt = ''p'',
     rt_prompt_hash = sha256_bytes sample_ext ''p'', rt_working_directory = WorkingDirectory ''/workspace/input'',
     rt_timeout_seconds = 60, rt_capabilities = [''filesystem.read'']\<rparr>"

definition sample_invocation :: "string \<Rightarrow> runtime_invocation" where
  "sample_invocation prompt =
     \<lparr>ri_command = \<lparr>sc_program = ''/opt/opencode'', sc_arguments = opencode_arguments, sc_environment = [], sc_stdin = []\<rparr>,
      ri_working_directory = WorkingDirectory ''/workspace/input'', ri_stdin = prompt\<rparr>"

lemma sample_prepared:
  "prepare sample_ext OpenCode ''/opt/opencode'' (sample_task\<lparr>rt_prompt := prompt, rt_prompt_hash := sha256_bytes sample_ext prompt\<rparr>)
     = Inr (sample_invocation prompt)" if "length prompt \<le> 1024" for prompt
proof -
  have "\<not> blank ''opencode''" "\<not> blank ''filesystem.read''" by code_simp+
  with that show ?thesis
    by (simp add: prepare_def sample_task_def sample_invocation_def validate_task_def validate_runtime_task_def
      prompt_matches_hash_def max_runtime_prompt_bytes_def new_command_def command_with_stdin_def opencode_arguments_def
      starts_with_def ends_with_def suffix_to_prefix split_on.simps max_sandbox_stdin_bytes_def Let_def)
qed

lemma sample_task_prompt: "sample_task\<lparr>rt_prompt := ''p'', rt_prompt_hash := sha256_bytes sample_ext ''p''\<rparr> = sample_task"
  by (simp add: sample_task_def)

definition sample_command :: "string \<Rightarrow> sandbox_command" where
  "sample_command prompt = \<lparr>sc_program = ''/opt/opencode'', sc_arguments = opencode_arguments, sc_environment = [], sc_stdin = prompt\<rparr>"

lemma sample_request_built:
  "into_sandbox_request (sample_invocation ''p'') run0 (sr_image sample_sandbox_request) (sr_user sample_sandbox_request)
     (ApprovedMountDirectory ''/in'') (ApprovedMountDirectory ''/out'') (sr_limits sample_sandbox_request)
   = Inr (sample_sandbox_request\<lparr>sr_command := sample_command ''p''\<rparr>)"
proof -
  have "command_with_stdin ''/opt/opencode'' opencode_arguments [] ''p'' = Inr (sample_command ''p'')"
    by (simp add: command_with_stdin_def sample_command_def opencode_arguments_def starts_with_def ends_with_def
      suffix_to_prefix split_on.simps max_sandbox_stdin_bytes_def)
  moreover have "\<not> path_eq ''/in'' ''/out''" by code_simp
  ultimately show ?thesis
    by (simp add: into_sandbox_request_def sample_invocation_def new_sandbox_request_def sample_sandbox_request_def)
qed

theorem prompt_stays_off_the_command_line_witness:
  "ri_command (sample_invocation ''p'') = ri_command (sample_invocation ''q'')
   \<and> sc_stdin (sample_command ''p'') = ''p''"
proof -
  note p = sample_prepared [of "''p''", unfolded sample_task_prompt, simplified]
  note q = sample_prepared [of "''q''", simplified]
  from prompt_stays_off_the_command_line [OF p q sample_request_built] show ?thesis
    by (simp add: sample_invocation_def)
qed

section \<open>A worker call\<close>

definition task_run :: run where
  "task_run = sample_run\<lparr>r_runtime := ''opencode'', r_workspace := ''/in''\<rparr>"

definition task_lease :: run_lease where
  "task_lease = sample_lease\<lparr>ls_run := advanced task_run Planning 1 None 1, ls_expires_at := 10001\<rparr>"

definition task_state :: state where
  "task_state = claimed\<lparr>st_runs := [(run0, ls_run task_lease)], st_leases := [(run0, task_lease)]\<rparr>"

lemma task_run_sel [simp]:
  "r_id task_run = run0" "r_status task_run = Queued" "r_revision task_run = 0" "r_created_at task_run = 0"
  "r_updated_at task_run = 0" "r_started_at task_run = None" "r_runtime task_run = ''opencode''"
  "r_workspace task_run = ''/in''" "r_prompt_sha256 task_run = sha256_bytes sample_ext ''p''"
  by (simp_all add: task_run_def sample_run_def)

lemma task_state_reached:
  "run_calls sample_ext [CallCreateRun (UuidV7 10) task_run (act_at 0), CallClaimNext (UuidV7 11) token0 actor0 1 10000] empty_state
     = task_state"
proof -
  let ?c = "created\<lparr>st_runs := [(run0, task_run)]\<rparr>"
  have "validate_new_run task_run = Inr ()"
    by (simp add: validate_new_run_def task_run_def sample_run_def not_blank graphic_def byte_def)
  then have "exec_call sample_ext (CallCreateRun (UuidV7 10) task_run (act_at 0)) empty_state = (None, ?c)"
    by (simp add: create_run_def eval_simps created_def event1_def)
  moreover have "exec_call sample_ext (CallClaimNext (UuidV7 11) token0 actor0 1 10000) ?c = (None, task_state)"
    by (simp add: claim_next_run_def queue_eval created_def claimed_def planning_def sample_lease_def task_state_def
      task_lease_def event1_def event2q_def sample_ext_def [THEN arg_cong, of ts_checked_add])
  ultimately show ?thesis by simp
qed

lemma task_state_reachable: "reachable sample_ext task_state"
  using run_calls_reachable [OF empty_reachable, of sample_ext
    "[CallCreateRun (UuidV7 10) task_run (act_at 0), CallClaimNext (UuidV7 11) token0 actor0 1 10000]"]
  unfolding task_state_reached .

definition sample_ambient :: worker_ambient where
  "sample_ambient = \<lparr>am_decode = sample_decode, am_files = sample_view, am_clock = (\<lambda>n. 2 + int n),
     am_artifact_ids = (\<lambda>_. UuidV7 64)\<rparr>"

definition around :: "store_call list \<Rightarrow> store_surroundings" where
  \<comment> \<open>others make the given calls while the sandbox runs\<close>
  "around cs = \<lparr>so_event_id = (\<lambda>n. UuidV7 (of_nat (100 + n))), so_artifact_event_id = (\<lambda>_ _. UuidV7 65),
     so_others = (\<lambda>n. if n = 3 then cs else [])\<rparr>"

abbreviation quiet :: store_surroundings where
  "quiet \<equiv> around []"

definition sample_backend :: "sandbox_result result \<Rightarrow> sandbox_backend" where
  "sample_backend out = \<lparr>sb_health = Inr (),
     sb_receive = (\<lambda>_ round _. if round = 0 then Waiting else Delivered out), sb_cancel = (\<lambda>_ _. Inr ())\<rparr>"

definition sample_worker :: "store_surroundings \<Rightarrow> sandbox_result result \<Rightarrow> shared_store single_run_worker" where
  "sample_worker U out = new_worker (queue_lease_store sample_ext U) (sample_backend out)
     \<lparr>ta_provider = OpenCode, ta_container_executable = ''/opt/opencode''\<rparr>"

definition sample_spec :: worker_task_spec where
  "sample_spec = \<lparr>wt_runtime = ''opencode'', wt_prompt_sha256 = sha256_bytes sample_ext ''p'',
     wt_working_directory = WorkingDirectory ''/workspace/input'', wt_timeout_seconds = 60,
     wt_capabilities = [''filesystem.read'']\<rparr>"

definition sample_environment :: worker_environment where
  "sample_environment = \<lparr>we_image = sr_image sample_sandbox_request, we_user = sr_user sample_sandbox_request,
     we_input_directory = ApprovedMountDirectory ''/in'', we_output_directory = ApprovedMountDirectory ''/out'',
     we_limits = sr_limits sample_sandbox_request, we_network = NetDisabled, we_artifact_output_root = ''/out'',
     we_max_artifact_bytes = 10\<rparr>"

definition task_start :: "shared_store worker_state" where
  "task_start = \<lparr>ws_store = \<lparr>sh_state = task_state, sh_calls = 0\<rparr>, ws_reads = 0\<rparr>"

abbreviation sample_work where
  "sample_work U out \<equiv> execute_run sample_ambient (sample_worker U out) task_lease sample_spec (OneTimePrompt ''p'')
     sample_environment StartRun task_start"

lemma sample_built: "build_task sample_ext task_lease sample_spec (OneTimePrompt ''p'') = Inr sample_task"
proof -
  have "\<not> blank ''opencode''" "\<not> blank ''filesystem.read''" by code_simp+
  then show ?thesis
    by (simp add: build_task_def sample_spec_def sample_task_def validate_runtime_task_def prompt_matches_hash_def
      task_lease_def sample_lease_def Let_def)
qed

lemma sample_environment_fits: "validate_environment task_lease sample_environment = Inr ()"
  by (simp add: validate_environment_def sample_environment_def task_lease_def sample_lease_def path_eq_def)

lemma task_lease_sel [simp]:
  "r_id (ls_run task_lease) = run0" "r_status (ls_run task_lease) = Planning" "r_revision (ls_run task_lease) = 1"
  by (simp_all add: task_lease_def)

lemma sample_ambient_sel [simp]:
  "am_decode sample_ambient = sample_decode" "am_files sample_ambient = sample_view" "am_clock sample_ambient n = 2 + int n"
  by (simp_all add: sample_ambient_def)

lemma sample_environment_sel [simp]:
  "we_image sample_environment = sr_image sample_sandbox_request" "we_user sample_environment = sr_user sample_sandbox_request"
  "we_input_directory sample_environment = ApprovedMountDirectory ''/in''"
  "we_output_directory sample_environment = ApprovedMountDirectory ''/out''"
  "we_limits sample_environment = sr_limits sample_sandbox_request" "we_network sample_environment = NetDisabled"
  "we_artifact_output_root sample_environment = ''/out''" "we_max_artifact_bytes sample_environment = 10"
  by (simp_all add: sample_environment_def)

lemma sample_worker_sel [simp]:
  "wk_store (sample_worker U out) = queue_lease_store sample_ext U" "ta_provider (wk_adapter (sample_worker U out)) = OpenCode"
  "ta_container_executable (wk_adapter (sample_worker U out)) = ''/opt/opencode''"
  "sb_health (wk_sandbox (sample_worker U out)) = Inr ()"
  "sb_receive (wk_sandbox (sample_worker U out)) request round sent = (if round = 0 then Waiting else Delivered out)"
  "sb_cancel (wk_sandbox (sample_worker U out)) rid round = Inr ()"
  by (simp_all add: sample_worker_def new_worker_def sample_backend_def)

lemma sample_undisturbed: "undisturbed sample_ext (sample_worker quiet out)"
  by (auto simp: undisturbed_def sample_worker_def new_worker_def around_def)

lemma sample_ttl: "sv_lease_ttl (wk_supervisor (sample_worker U out)) = 30000000000"
  by (simp add: sample_worker_def new_worker_def default_supervisor_def)

lemma sample_steady: "steady sample_ambient (sv_lease_ttl (wk_supervisor (sample_worker U out)))"
  by (simp add: steady_def sample_ttl)

lemma sample_renewable: "renewable sample_ext sample_ambient (sv_lease_ttl (wk_supervisor (sample_worker U out)))"
  by (simp add: renewable_def sample_ttl hour_nanos_def sample_ext_def)

lemma sample_answers: "answers (wk_sandbox (sample_worker U out)) 1"
  by (simp add: answers_def sample_worker_def new_worker_def sample_backend_def)

lemma task_held: "held task_state task_lease 5600 2 4202"
  by (simp add: held_def task_state_def task_lease_def sample_lease_def claimed_def event2q_def mk_event_for_def)

theorem worker_always_ends_witness:
  "\<exists>out v r. sample_work quiet (Inr sample_result) = Some (out, v)
    \<and> bm_get (st_runs (sh_state (ws_store v))) run0 = Some r \<and> (is_terminal (r_status r) \<or> r_status r = AwaitingApproval)"
proof -
  have "held (sh_state (ws_store task_start)) task_lease 5600 (am_clock sample_ambient (ws_reads task_start))
      (am_clock sample_ambient (ws_reads task_start + 4200))"
    using task_held by (simp add: task_start_def sample_ambient_def)
  from worker_always_ends [OF sample_undisturbed sample_renewable sample_steady
      sample_answers this task_lease_sel(2), of "Inr sample_result" sample_spec "OneTimePrompt ''p''" sample_environment StartRun]
  show ?thesis by (simp add: task_lease_sel) blast
qed

definition running_lease :: run_lease where
  "running_lease = task_lease\<lparr>ls_run := advanced (ls_run task_lease) Running 2 None 2\<rparr>"

definition running_state :: state where
  "running_state = task_state\<lparr>st_runs := [(run0, ls_run running_lease)], st_leases := [(run0, running_lease)],
     st_audits := [(run0, [event1, event2q, mk_event_for run0 (UuidV7 101) 3 EvRuntimeStarted 2 (det_md DetNone) (after event2q)])]\<rparr>"

lemma sample_started:
  "start sample_ambient (sample_worker (around cs) out) task_lease sample_spec (OneTimePrompt ''p'') sample_environment StartRun task_start =
     (Inr (Inr (running_lease, sample_sandbox_request\<lparr>sr_command := sample_command ''p''\<rparr>, 2)),
      \<lparr>ws_store = \<lparr>sh_state = running_state, sh_calls = 3\<rparr>, ws_reads = 1\<rparr>)"
proof -
  have a: "accepts task_state task_lease 2" by (rule held_accepts [OF task_held]) simp_all
  have t: "transition_leased_run sample_ext (UuidV7 101) task_lease 1 Running 2 task_state = (Inr running_lease, running_state)"
    by (simp add: transition_leased_run_def validate_memory_lease_def queue_eval task_state_def task_lease_def sample_lease_def
      claimed_def planning_def running_lease_def running_state_def event1_def event2q_def)
  have b: "accepts running_state running_lease 2"
    by (simp add: accepts_def running_state_def running_lease_def task_lease_def sample_lease_def)
  have n: "\<not> cancel_wanted task_state task_lease" "\<not> cancel_wanted running_state running_lease"
    by (simp_all add: task_state_def running_state_def claimed_def planning_def empty_state_def)
  have f: "r_id (ls_run running_lease) = run0" by (simp add: running_lease_def)
  have q: "(sample_sandbox_request\<lparr>sr_command := c\<rparr>)\<lparr>sr_network := NetDisabled\<rparr> = sample_sandbox_request\<lparr>sr_command := c\<rparr>" for c
    by (simp add: sample_sandbox_request_def)
  note p = sample_prepared [of "''p''", unfolded sample_task_prompt, simplified]
  show ?thesis
    using accepts_cancel_requested [OF a] accepts_cancel_requested [OF b] n
    by (simp add: start_def start_running_def sample_built sample_environment_fits f t p q sample_request_built
      queue_lease_store_def around_def task_start_def shared_def on_store_def now_utc_def bnd_def ret_def lease_revision_def
      with_network_def)
qed

lemma empty_result_decodes:
  "decode_sandbox_result sample_ext (provider_decoder sample_decode OpenCode) sample_result (new_factory run0) =
     (Inr [\<lparr>re_schema_version = SchemaVersion, re_run_id = run0, re_sequence = 1, re_timestamp = 1,
        re_payload = PCompleted 0, re_vendor_metadata = RedactedAuditMetadata []\<rparr>],
      \<lparr>ef_run_id = run0, ef_next_sequence = 2, ef_terminal = True\<rparr>)"
proof -
  have "str_lines [] = []" by code_simp
  then show ?thesis
    by (simp add: decode_sandbox_result_def sample_result_def validate_sandbox_result_def
      max_sandbox_output_bytes_def provider_decoder_def new_factory_def
      clean_exit_decodes decode_end_def append_eval op_defs)
qed

lemma record_nothing:
  assumes "held s lease (Suc n) ts until" and "ts \<le> now" and "now \<le> until"
  shows "\<exists>t. record_leased_artifacts X ids lease (r_revision (ls_run lease)) [] now s = (Inr (), t)"
proof -
  from assms(1) obtain es where "bm_get (st_audits s) (r_id (ls_run lease)) = Some es" "length es + Suc n < 2 ^ 64"
    "bm_get (st_runs s) (r_id (ls_run lease)) = Some (ls_run lease)"
    unfolding held_def by force
  then show ?thesis
    using held_validates [OF assms] next_sequence_ready [of es]
    by (auto simp: record_leased_artifacts_def validate_artifact_batch_def duplicate_path_def extend_artifacts_def push_events_def
      op_defs Let_def)
qed

lemma running_held: "held running_state running_lease 5600 2 10000"
  by (simp add: held_def running_state_def running_lease_def task_lease_def sample_lease_def mk_event_for_def)

lemma sample_finish_succeeds:
  assumes "alive sample_ambient lease 100 50 w" and "r_id (ls_run lease) = run0" and "r_status (ls_run lease) = Running"
    and "\<not> wanted w lease"
  shows "\<exists>r v. finish sample_ambient (sample_worker quiet out) lease sample_result sample_environment w = (Inr (OutCompleted r), v)"
proof -
  let ?A = sample_ambient and ?W = "sample_worker quiet out"
  note st = sample_steady [of quiet out] and un = sample_undisturbed [of out]
  have scanned: "scan sample_ext sample_view \<lparr>as_max_bytes = 10\<rparr> ids rid ''/out'' [] now = Inr []" for ids rid now
    by (simp add: scan_def sample_root)
  have scanner: "new_scanner 10 = Inr \<lparr>as_max_bytes = 10\<rparr>"
    by (simp add: new_scanner_def new_artifact_size_def default_max_artifact_bytes_def)
  let ?w = "w\<lparr>ws_reads := Suc (ws_reads w)\<rparr>" and ?now = "am_clock ?A (ws_reads w)"
  have a0: "alive ?A lease (Suc 99) (Suc 48) ?w" by (rule alive_tick [OF alive_less [OF assms(1) _ _ st] st]) simp_all
  obtain w1 where w1: "audit ?A ?W lease EvSandboxCreated ?w = (Inr (), w1)" "alive ?A lease 99 48 w1" "\<not> wanted w1 lease"
    "st_leases (sh_state (ws_store w1)) = st_leases (sh_state (ws_store ?w))"
    using audit_alive [OF un a0 st worker_events(2)] assms(4) by auto
  have a1: "alive ?A lease (Suc 98) (Suc 47) w1" using w1(2) by simp
  obtain w2 where w2: "audit ?A ?W lease EvRuntimeStarted w1 = (Inr (), w2)" "alive ?A lease 98 47 w2" "\<not> wanted w2 lease"
    "st_leases (sh_state (ws_store w2)) = st_leases (sh_state (ws_store w1))"
    using audit_alive [OF un a1 st worker_events(3)] w1(3) by auto
  from assms(1) have "accepts (sh_state (ws_store w)) lease ?now"
    unfolding alive_def using held_accepts clock_mono [OF st, of "ws_reads w" "ws_reads w + 50"] order_trans by (metis le_add1)
  with w1(4) w2(4) have "accepts (sh_state (ws_store w2)) lease ?now" by (simp add: accepts_def)
  then obtain w3 where w3: "on_store (lo_cancel_requested (wk_store ?W) lease ?now) w2 = (Inr False, w3)"
    "sh_state (ws_store w3) = sh_state (ws_store w2)" "ws_reads w3 = ws_reads w2"
    using cancel_requested_alive [OF un, of w2 lease ?now] w2(3) by auto
  have a3: "alive ?A lease (Suc 97) (Suc 46) w3" using w2(2) alive_same [OF w3(2,3)] by simp
  obtain w4 where w4: "audit ?A ?W lease EvRuntimeCompleted w3 = (Inr (), w4)" "alive ?A lease 97 46 w4" "\<not> wanted w4 lease"
    using audit_alive [OF un a3 st, of EvRuntimeCompleted] w3(2) w2(3) by (auto simp: ensure_worker_runtime_event_def)
  let ?w5 = "w4\<lparr>ws_reads := Suc (ws_reads w4)\<rparr>" and ?now5 = "am_clock ?A (Suc (ws_reads w4))"
  have a5: "alive ?A lease (Suc 96) 45 ?w5" by (rule alive_tick [OF _ st]) (use w4(2) in simp)
  then obtain ts until where h: "held (sh_state (ws_store w4)) lease (Suc 96) ts until" "ts \<le> ?now5"
    "am_clock ?A (Suc (ws_reads w4) + 45) \<le> until" by (auto simp: alive_def)
  then have h5: "?now5 \<le> until" by simp
  obtain t where t: "record_leased_artifacts sample_ext (\<lambda>_. UuidV7 65) lease (r_revision (ls_run lease)) [] ?now5 (sh_state (ws_store w4)) = (Inr (), t)"
    using record_nothing [OF h(1,2) h5] by blast
  have h0: "held (sh_state (ws_store w4)) lease (97 + length ([] :: artifact list)) ts until" using h(1) by simp
  from held_record [OF h0 h(2) h5 t] have ht: "held t lease 97 ?now5 until"
    and nt: "st_cancel_requested t = st_cancel_requested (sh_state (ws_store w4))" by simp_all
  define w6 where "w6 = w4\<lparr>ws_reads := Suc (Suc (ws_reads w4)), ws_store := \<lparr>sh_state = t, sh_calls = Suc (sh_calls (ws_store w4))\<rparr>\<rparr>"
  have r6: "on_store (lo_record_artifacts (wk_store ?W) lease (lease_revision lease) [] ?now5) (w4\<lparr>ws_reads := Suc (Suc (ws_reads w4))\<rparr>)
      = (Inr (), w6)"
    using t by (simp add: queue_lease_store_def on_store_def shared_def around_def lease_revision_def w6_def)
  have a6: "alive ?A lease (Suc 96) (Suc 43) w6"
    unfolding alive_def w6_def using ht h(3) by (intro exI [of _ ?now5] exI [of _ until]) simp
  obtain w7 where w7: "audit ?A ?W lease EvSandboxDestroyed w6 = (Inr (), w7)" "alive ?A lease 96 43 w7" "\<not> wanted w7 lease"
    using audit_alive [OF un a6 st worker_events(1)] w4(3) nt by (auto simp: w6_def)
  let ?w8 = "w7\<lparr>ws_reads := Suc (ws_reads w7)\<rparr>"
  from w7(2) obtain ts8 until8 where h8: "held (sh_state (ws_store ?w8)) lease (Suc 95) ts8 until8" "ts8 \<le> am_clock ?A (ws_reads w7)"
    "am_clock ?A (ws_reads w7) \<le> until8" by (auto simp: alive_def)
  obtain r v where "complete_run ?W lease Succeeded None (am_clock ?A (ws_reads w7)) ?w8 = (Inr (OutCompleted r), v)"
    using complete_ends [OF un h8, of Succeeded None] assms(3) w7(3) by auto
  then have "finish ?A ?W lease sample_result sample_environment w = (Inr (OutCompleted r), v)"
    using w1(1) w2(1) w3(1) w4(1) w7(1) r6 empty_result_decodes assms(2) scanned scanner
    by (simp add: finish_def sample_result_def validate_sandbox_result_def max_sandbox_output_bytes_def finish_terminated_def Let_def
      finish_exited_def events_succeeded_def store_outputs_def bnd_def now_utc_def ret_def)
  then show ?thesis by blast
qed

lemma running_lease_sel [simp]:
  "r_id (ls_run running_lease) = run0" "r_status (ls_run running_lease) = Running" "r_revision (ls_run running_lease) = 2"
  by (simp_all add: running_lease_def)

lemma sample_work_succeeds: "\<exists>r v. sample_work quiet (Inr sample_result) = Some (Inr (OutCompleted r), v)"
proof -
  let ?A = sample_ambient and ?W = "sample_worker quiet (Inr sample_result)" and ?q = "sample_sandbox_request\<lparr>sr_command := sample_command ''p''\<rparr>"
  let ?w = "\<lparr>ws_store = \<lparr>sh_state = running_state, sh_calls = 3\<rparr>, ws_reads = 1\<rparr>"
  have h: "held (sh_state (ws_store ?w)) running_lease 5600 2 10000" using running_held by simp
  have n: "\<not> wanted ?w running_lease" by (simp add: running_state_def task_state_def claimed_def planning_def empty_state_def)
  obtain l v until where b: "supervise_beat ?A ?W running_lease None ?w = ((l, None), v)" "same_capability l running_lease"
    "\<not> ls_cancel_requested l" "held (sh_state (ws_store v)) running_lease 5600 2 until" "ws_reads v = Suc (ws_reads ?w)"
    "am_clock ?A (ws_reads v + 4150) \<le> until" "\<not> wanted v running_lease"
    by (rule beat_alive [OF sample_undisturbed sample_renewable sample_steady h _ _ _ n])
      (simp_all add: same_capability_def)
  have "execute_with_cancellation ?A ?W running_lease ?q ?w = Some (Inr (l, sample_result), v)"
    using b(1,3) by (simp add: execute_with_cancellation_def supervise.simps [of _ _ _ 0] supervise.simps [of _ _ _ "Suc 0"] supervise_cancel_def)
  moreover have "alive ?A l 100 50 v"
  proof -
    from b(2,4) have "held (sh_state (ws_store v)) l 5600 2 until"
      using held_same [of l running_lease] by (simp add: same_capability_def)
    from held_less [OF this, of 100] b(5,6) show ?thesis by (force simp: alive_def)
  qed
  then obtain r u where "finish ?A ?W l sample_result sample_environment v = (Inr (OutCompleted r), u)"
    using sample_finish_succeeds [of l v "Inr sample_result"] b(2,7) by (auto simp: same_capability_def)
  ultimately show ?thesis by (simp add: execute_run_def sample_started)
qed

theorem worker_outcome_is_earned_witness:
  "\<exists>r v. sample_work quiet (Inr sample_result) = Some (Inr (OutCompleted r), v)
    \<and> bm_get (st_runs (sh_state (ws_store v))) run0 = Some r"
proof -
  obtain r v where e: "sample_work quiet (Inr sample_result) = Some (Inr (OutCompleted r), v)"
    using sample_work_succeeds by blast
  have "reachable sample_ext (sh_state (ws_store task_start))" using task_state_reachable by (simp add: task_start_def)
  from worker_outcome_is_earned [OF this sample_worker_sel(1) e] e show ?thesis by auto
qed

section \<open>A clock reading kept too long\<close>

definition cancel_while_running :: store_call where
  "cancel_while_running = CallRequestCancel (UuidV7 12) run0 actor0 3"

definition cancelling_state :: state where
  "cancelling_state = running_state\<lparr>st_cancel_requested := [(run0, 3)],
     st_leases := [(run0, running_lease\<lparr>ls_cancel_requested := True\<rparr>)],
     st_audits := [(run0, [event1, event2q, mk_event_for run0 (UuidV7 101) 3 EvRuntimeStarted 2 (det_md DetNone) (after event2q),
       mk_event_for run0 (UuidV7 12) 4 EvCancelRequested 3 (det_md DetNone)
         (after (mk_event_for run0 (UuidV7 101) 3 EvRuntimeStarted 2 (det_md DetNone) (after event2q)))])]\<rparr>"

lemma cancelling_reached: "exec_call sample_ext cancel_while_running running_state = (None, cancelling_state)"
  by (simp add: cancel_while_running_def request_cancel_def queue_eval running_state_def cancelling_state_def task_state_def
    claimed_def planning_def running_lease_def task_lease_def sample_lease_def event1_def event2q_def)

abbreviation renewed_lease :: run_lease where
  "renewed_lease \<equiv> running_lease\<lparr>ls_expires_at := 30000000003, ls_cancel_requested := True\<rparr>"

lemma cancelling_renewed:
  "heartbeat_lease sample_ext running_lease 3 30000000000 cancelling_state =
     (Inr renewed_lease, cancelling_state\<lparr>st_leases := [(run0, renewed_lease)]\<rparr>)"
  by (simp add: heartbeat_lease_def queue_eval cancelling_state_def running_state_def running_lease_def task_lease_def
    sample_lease_def sample_ext_def [THEN arg_cong, of ts_checked_add])

lemma cancelling_refuses:
  "\<exists>error. complete_leased_run sample_ext eid running_lease 2 Failed reason 2 (cancelling_state\<lparr>st_leases := [(run0, renewed_lease)]\<rparr>)
     = (Inl error, cancelling_state\<lparr>st_leases := [(run0, renewed_lease)]\<rparr>)"
  by (simp add: complete_leased_run_def validate_memory_lease_def queue_eval cancelling_state_def running_state_def running_lease_def task_lease_def
    sample_lease_def)

text \<open>
  The worker reads the clock once before it starts the sandbox and uses that reading to fail the run when
  the sandbox returns an error. When a cancellation was requested while the sandbox ran, the audit chain
  has moved past that time, the store refuses the failure, and the run stays running under its lease.
\<close>

theorem failed_sandbox_can_leave_run_running:
  "\<exists>error v. sample_work (around [cancel_while_running]) (Inl (new_error Sandbox ''engine'')) = Some (Inl error, v)
    \<and> map_option r_status (bm_get (st_runs (sh_state (ws_store v))) run0) = Some Running"
proof -
  let ?A = sample_ambient and ?W = "sample_worker (around [cancel_while_running]) (Inl (new_error Sandbox ''engine''))"
  let ?q = "sample_sandbox_request\<lparr>sr_command := sample_command ''p''\<rparr>"
  let ?w = "\<lparr>ws_store = \<lparr>sh_state = running_state, sh_calls = 3\<rparr>, ws_reads = 1\<rparr>"
  let ?v = "\<lparr>ws_store = \<lparr>sh_state = cancelling_state\<lparr>st_leases := [(run0, renewed_lease)]\<rparr>, sh_calls = 4\<rparr>, ws_reads = 2\<rparr>"
  have "supervise_beat ?A ?W running_lease None ?w = ((renewed_lease, None), ?v)"
    by (simp add: supervise_beat_def queue_lease_store_def on_store_def shared_def now_utc_def bnd_def around_def sample_ttl
      duration_try_from_def lift_res_def cancelling_reached cancelling_renewed)
  then have "execute_with_cancellation ?A ?W running_lease ?q ?w = Some (Inl (new_error Sandbox ''engine''), ?v)"
    by (simp add: execute_with_cancellation_def supervise.simps [of _ _ _ 0] supervise.simps [of _ _ _ "Suc 0"] supervise_cancel_def)
  moreover obtain error where
    "complete_leased_run sample_ext (so_event_id (around [cancel_while_running]) 4) running_lease 2 Failed
        (Some ''worker execution failed closed'') 2 (sh_state (ws_store ?v)) = (Inl error, sh_state (ws_store ?v))"
    using cancelling_refuses by auto
  then have "fail_after_error ?W running_lease (new_error Sandbox ''engine'') 2 ?v =
      (Inl error, ?v\<lparr>ws_store := (ws_store ?v)\<lparr>sh_calls := 5\<rparr>\<rparr>)"
    by (simp add: fail_after_error_def fail_closed_def complete_run_def lease_revision_def queue_lease_store_def on_store_def shared_def
      around_def bnd_def)
  ultimately show ?thesis
    by (simp add: execute_run_def sample_started cancelling_state_def running_state_def)
qed

end
