(* ===== verification/Apps.thy ===== *)
theory Apps
  imports Policy Runtime_Tasks
begin

text \<open>
  Applications and their capabilities (\<^verbatim>\<open>crates/openwork-apps/src\<close>): the manifest of a capability pack,
  the registry loaded from a directory, the gateway that authorizes one exact invocation, the credential
  broker, the provider that turns an authorization into a sandbox request, and the importer of drafts.
  The YAML and JSON Schema libraries, the environment of the process and the directory listing are
  parameters.
\<close>

section \<open>Identifiers\<close>

datatype app_id = AppId (app_str: string)
datatype capability_id = CapabilityId (cap_str: string)

instantiation app_id :: linorder
begin

definition less_eq_app_id :: "app_id \<Rightarrow> app_id \<Rightarrow> bool" where
  "less_eq_app_id a b = (app_str a \<le> app_str b)"

definition less_app_id :: "app_id \<Rightarrow> app_id \<Rightarrow> bool" where
  "less_app_id a b = (app_str a < app_str b)"

instance
  by standard (auto simp: less_eq_app_id_def less_app_id_def app_id.expand)

end

definition model_invalid :: "string \<Rightarrow> openwork_error" where
  "model_invalid msg = new_error ConfigInvalid msg"

definition portable_id_byte :: "char \<Rightarrow> bool" where
  "portable_id_byte c = (is_ascii_lowercase c \<or> is_ascii_digit c \<or> c \<in> set ''._-'')"

definition parse_portable_id :: "string \<Rightarrow> string \<Rightarrow> string result" where
  "parse_portable_id s msg =
     (case s of
        [] \<Rightarrow> Inl (model_invalid msg)
      | first # rest \<Rightarrow>
          if length s > 128 \<or> \<not> is_ascii_lowercase first \<or> \<not> list_all portable_id_byte rest
          then Inl (model_invalid msg)
          else Inr s)"

definition parse_app_id :: "string \<Rightarrow> app_id result" where
  "parse_app_id s = res_bind (parse_portable_id s ''app identifier is invalid'') (\<lambda>s. Inr (AppId s))"

definition parse_capability_id :: "string \<Rightarrow> capability_id result" where
  "parse_capability_id s = res_bind (parse_portable_id s ''capability identifier is invalid'') (\<lambda>s. Inr (CapabilityId s))"

section \<open>The model of applications\<close>

record app_metadata =
  md_id :: app_id
  md_name :: string
  md_version :: string
  md_description :: string

datatype app_provider = Mcp string | Cli string | Native string

datatype network_permission = NetworkNone | NetworkRestricted

record filesystem_permissions =
  fp_read :: "string list"
  fp_write :: "string list"

record capability_permissions =
  cp_filesystem :: filesystem_permissions
  cp_network :: network_permission
  cp_credentials :: "string list"

record capability_descriptor =
  cd_id :: capability_id
  cd_app_id :: app_id
  cd_provider :: app_provider
  cd_description :: string
  cd_input_schema :: json
  cd_risk :: risk_level
  cd_permissions :: capability_permissions

datatype app_install_status = StatusAvailable | StatusInstalled | StatusDisabled

record available_app =
  av_metadata :: app_metadata
  av_provider :: app_provider
  av_capabilities :: "capability_descriptor list"
  av_status :: app_install_status

record installed_app =
  ia_app_id :: app_id
  ia_enabled :: bool
  ia_credential_ref :: "string option"

record capability_grant =
  cg_principal :: string
  cg_app_id :: app_id
  cg_capabilities :: "capability_id list"  \<comment> \<open>a \<^verbatim>\<open>BTreeSet\<close>, asked only for membership\<close>

record capability_invocation =
  ci_actor :: actor_id
  ci_run_id :: run_id
  ci_app_id :: app_id
  ci_capability :: capability_id
  ci_resource :: string
  ci_parameters :: json
  ci_parameter_hash :: digest
  ci_action :: action_request

definition new_invocation ::
    "ext \<Rightarrow> action_id \<Rightarrow> actor_id \<Rightarrow> run_id \<Rightarrow> app_id \<Rightarrow> capability_id \<Rightarrow> string \<Rightarrow> json \<Rightarrow> capability_invocation result" where
  \<comment> \<open>the action identifier is the one \<^verbatim>\<open>ActionId::generate\<close> draws\<close>
  "new_invocation X aid actor rid app capability resource parameters =
     res_bind (new_action_request X aid rid (cap_str capability) resource parameters) (\<lambda>action.
     Inr \<lparr>ci_actor = actor, ci_run_id = rid, ci_app_id = app, ci_capability = capability,
          ci_resource = ac_resource action, ci_parameters = parameters,
          ci_parameter_hash = ac_parameter_hash action, ci_action = action\<rparr>)"

section \<open>Capability packs\<close>

definition capability_pack_api_version :: string where
  "capability_pack_api_version = ''openwork.io/v1''"

definition max_manifest_bytes :: nat where
  "max_manifest_bytes = 256 * 1024"

record manifest_capability =
  mc_id :: capability_id
  mc_description :: string
  mc_risk :: risk_level
  mc_input_schema :: json

record capability_pack =
  pk_api_version :: string
  pk_kind :: string
  pk_metadata :: app_metadata
  pk_provider :: app_provider
  pk_capabilities :: "manifest_capability list"
  pk_permissions :: capability_permissions

definition validate_pack :: "ext \<Rightarrow> capability_pack \<Rightarrow> unit result" where
  "validate_pack X pack =
     (let md = pk_metadata pack; caps = pk_capabilities pack; perms = pk_permissions pack
      in if pk_api_version pack \<noteq> capability_pack_api_version \<or> pk_kind pack \<noteq> ''CapabilityPack''
            \<or> blank (md_name md) \<or> length (md_name md) > 128
            \<or> blank (md_version md) \<or> length (md_description md) > 4096
            \<or> caps = [] \<or> length caps > 128
            \<or> list_ex (\<lambda>c. blank (mc_description c) \<or> length (mc_description c) > 4096
                \<or> length (json_to_string X (mc_input_schema c)) > 64 * 1024) caps
         then Inl (config_error ''capability pack violates v1 invariants'')
         else if \<not> adjacent_distinct (sort (map (cap_str \<circ> mc_id) caps))
         then Inl (config_error ''capability pack contains duplicate capabilities'')
         else if length (fp_read (cp_filesystem perms)) > 16 \<or> length (fp_write (cp_filesystem perms)) > 16
            \<or> length (cp_credentials perms) > 16
         then Inl (config_error ''capability pack permissions are oversized'')
         else Inr ())"

record pack_yaml =
  yaml_read :: "string \<Rightarrow> capability_pack option"
  yaml_write :: "capability_pack \<Rightarrow> string option"

definition pack_from_yaml :: "ext \<Rightarrow> pack_yaml \<Rightarrow> string \<Rightarrow> capability_pack result" where
  "pack_from_yaml X Y input =
     (if length input > max_manifest_bytes then Inl (config_error ''capability pack exceeds the 256 KiB limit'')
      else
        res_bind (ok_or (yaml_read Y input) (config_error ''capability pack YAML is invalid'')) (\<lambda>pack.
        res_bind (validate_pack X pack) (\<lambda>_. Inr pack)))"

definition into_available :: "capability_pack \<Rightarrow> available_app" where
  "into_available pack =
     \<lparr>av_metadata = pk_metadata pack, av_provider = pk_provider pack,
      av_capabilities =
        map (\<lambda>c. \<lparr>cd_id = mc_id c, cd_app_id = md_id (pk_metadata pack), cd_provider = pk_provider pack,
                  cd_description = mc_description c, cd_input_schema = mc_input_schema c, cd_risk = mc_risk c,
                  cd_permissions = pk_permissions pack\<rparr>) (pk_capabilities pack),
      av_status = StatusAvailable\<rparr>"

section \<open>The registry\<close>

definition name_extension :: "string \<Rightarrow> string option" where
  \<comment> \<open>of a file name: what follows its last dot, unless the dot is its first byte\<close>
  "name_extension name =
     (case rsplit_once ''.'' name of
        None \<Rightarrow> None
      | Some (stem, ext) \<Rightarrow> if stem = [] then None else Some ext)"

record registry_directory =
  rd_names :: "string list option"  \<comment> \<open>the names of the readable entries, if the directory can be read\<close>
  rd_text :: "string \<Rightarrow> string option"

definition registry_error :: "string \<Rightarrow> openwork_error" where
  "registry_error msg = new_error ConfigInvalid msg"

type_synonym app_registry = "(app_id, available_app) btree_map"

fun load_manifests ::
    "ext \<Rightarrow> pack_yaml \<Rightarrow> (string \<Rightarrow> string option) \<Rightarrow> string list \<Rightarrow> app_registry \<Rightarrow> app_registry result" where
  "load_manifests X Y text [] apps = Inr apps"
| "load_manifests X Y text (name # names) apps =
     res_bind (ok_or (text name) (registry_error ''app registry manifest is unreadable'')) (\<lambda>input.
     res_bind (pack_from_yaml X Y input) (\<lambda>pack.
     let app = into_available pack; aid = md_id (av_metadata app)
     in if bm_contains apps aid then Inl (registry_error ''app registry contains duplicate app identifiers'')
        else load_manifests X Y text names (bm_insert aid app apps)))"

definition registry_load :: "ext \<Rightarrow> pack_yaml \<Rightarrow> registry_directory \<Rightarrow> app_registry result" where
  "registry_load X Y D =
     res_bind (ok_or (rd_names D) (registry_error ''app registry directory is unavailable'')) (\<lambda>names.
     let paths = sort (filter (\<lambda>n. name_extension n = Some ''yaml'') names)
     in if length paths > 128 then Inl (registry_error ''app registry contains too many manifests'')
        else load_manifests X Y (rd_text D) paths [])"

definition registry_list :: "app_registry \<Rightarrow> available_app list" where
  "registry_list apps = bm_values apps"

definition registry_get :: "app_registry \<Rightarrow> app_id \<Rightarrow> available_app option" where
  "registry_get apps aid = bm_get apps aid"

section \<open>The gateway\<close>

record pending_approval =
  pa_invocation :: capability_invocation
  pa_evaluation :: policy_evaluation

record capability_authorization =
  au_invocation :: capability_invocation
  au_descriptor :: capability_descriptor
  au_credential_ref :: "string option"
  au_evaluation :: policy_evaluation

datatype authorization_result = PendingApproval pending_approval | Authorized capability_authorization

record capability_gateway =
  gw_policy :: "action_request \<Rightarrow> policy_evaluation"
  gw_apps :: app_registry
  gw_installed :: "(app_id, installed_app) btree_map"
  gw_grants :: "capability_grant list"

definition new_gateway ::
    "(action_request \<Rightarrow> policy_evaluation) \<Rightarrow> available_app list \<Rightarrow> installed_app list \<Rightarrow> capability_grant list
      \<Rightarrow> capability_gateway" where
  "new_gateway policy available installed grants =
     \<lparr>gw_policy = policy, gw_apps = bm_of_list (map (\<lambda>app. (md_id (av_metadata app), app)) available),
      gw_installed = bm_of_list (map (\<lambda>app. (ia_app_id app, app)) installed), gw_grants = grants\<rparr>"

definition policy_error :: "string \<Rightarrow> openwork_error" where
  "policy_error msg = new_error PolicyDenied msg"

definition find_exact_descriptor :: "ext \<Rightarrow> capability_gateway \<Rightarrow> capability_invocation \<Rightarrow> capability_descriptor result" where
  "find_exact_descriptor X G invocation =
     (let action = ci_action invocation
      in if \<not> parameters_match_hash X action \<or> ac_run_id action \<noteq> ci_run_id invocation
            \<or> ac_action action \<noteq> cap_str (ci_capability invocation) \<or> ac_resource action \<noteq> ci_resource invocation
            \<or> ac_parameters action \<noteq> ci_parameters invocation \<or> ac_parameter_hash action \<noteq> ci_parameter_hash invocation
         then Inl (policy_error ''capability invocation binding is invalid'')
         else
           res_bind (ok_or (bm_get (gw_apps G) (ci_app_id invocation)) (policy_error ''capability application is not registered'')) (\<lambda>app.
           if av_status app = StatusDisabled then Inl (policy_error ''capability application is disabled'')
           else ok_or (find (\<lambda>d. cd_app_id d = ci_app_id invocation \<and> cd_id d = ci_capability invocation) (av_capabilities app))
             (policy_error ''capability descriptor does not match registered app'')))"

definition require_enabled_installation :: "capability_gateway \<Rightarrow> app_id \<Rightarrow> installed_app result" where
  "require_enabled_installation G aid =
     res_bind (ok_or (bm_get (gw_installed G) aid) (policy_error ''capability application is not installed'')) (\<lambda>installed.
     if \<not> ia_enabled installed then Inl (policy_error ''capability application is disabled'') else Inr installed)"

definition require_grant :: "capability_gateway \<Rightarrow> capability_invocation \<Rightarrow> unit result" where
  "require_grant G invocation =
     (if list_ex (\<lambda>g. cg_principal g = actor_str (ci_actor invocation) \<and> cg_app_id g = ci_app_id invocation
           \<and> ci_capability invocation \<in> set (cg_capabilities g)) (gw_grants G)
      then Inr ()
      else Inl (policy_error ''principal lacks capability grant''))"

definition credential_ref_for :: "capability_descriptor \<Rightarrow> installed_app \<Rightarrow> string option" where
  "credential_ref_for descriptor installed =
     (if cp_credentials (cd_permissions descriptor) \<noteq> [] then ia_credential_ref installed else None)"

definition authorize :: "ext \<Rightarrow> capability_gateway \<Rightarrow> capability_invocation \<Rightarrow> authorization_result result" where
  "authorize X G invocation =
     res_bind (find_exact_descriptor X G invocation) (\<lambda>descriptor.
     res_bind (require_enabled_installation G (ci_app_id invocation)) (\<lambda>installed.
     res_bind (require_grant G invocation) (\<lambda>_.
     let evaluation = gw_policy G (ci_action invocation)
     in case pe_decision evaluation of
          Deny \<Rightarrow> Inl (policy_error ''capability action denied by policy'')
        | RequireApproval \<Rightarrow> Inr (PendingApproval \<lparr>pa_invocation = invocation, pa_evaluation = evaluation\<rparr>)
        | Allow \<Rightarrow>
            Inr (Authorized \<lparr>au_invocation = invocation, au_descriptor = descriptor,
              au_credential_ref = credential_ref_for descriptor installed, au_evaluation = evaluation\<rparr>))))"

section \<open>Credentials\<close>

definition credential_error :: "string \<Rightarrow> openwork_error" where
  "credential_error msg = new_error ConfigInvalid msg"

record scoped_credential =
  sk_environment_variable :: string
  sk_secret :: string

definition valid_environment_variable :: "string \<Rightarrow> bool" where
  "valid_environment_variable s =
     (case s of
        [] \<Rightarrow> False
      | first # rest \<Rightarrow>
          (is_ascii_alphabetic first \<or> first = CHR ''_'')
          \<and> list_all (\<lambda>c. is_ascii_alphanumeric c \<or> c = CHR ''_'') rest \<and> length s \<le> 128)"

definition new_scoped_credential :: "string \<Rightarrow> string \<Rightarrow> scoped_credential result" where
  "new_scoped_credential variable secret =
     (if \<not> valid_environment_variable variable \<or> secret = []
      then Inl (credential_error ''credential configuration is invalid'')
      else Inr \<lparr>sk_environment_variable = variable, sk_secret = secret\<rparr>)"

definition inject_into_provider :: "scoped_credential \<Rightarrow> (string, string) btree_map \<Rightarrow> (string, string) btree_map" where
  \<comment> \<open>on the environment of the command\<close>
  "inject_into_provider credential environment =
     bm_insert (sk_environment_variable credential) (sk_secret credential) environment"

type_synonym credential_provider = "string \<Rightarrow> scoped_credential result"

definition credential_for_provider :: "credential_provider \<Rightarrow> capability_authorization \<Rightarrow> scoped_credential result" where
  "credential_for_provider provider authorization =
     res_bind (ok_or (au_credential_ref authorization)
       (credential_error ''installed capability has no credential reference'')) provider"

definition env_credential_provider :: "(string \<Rightarrow> string option) \<Rightarrow> credential_provider" where
  "env_credential_provider env reference =
     (if \<not> valid_environment_variable reference then Inl (credential_error ''credential reference is invalid'')
      else
        res_bind (ok_or (env reference) (credential_error ''credential is not configured'')) (\<lambda>secret.
        new_scoped_credential reference secret))"

record encrypted_config =
  ec_decrypt :: "string \<Rightarrow> string result"
  ec_ciphertext_by_ref :: "(string, string) btree_map"
  ec_environment_by_ref :: "(string, string) btree_map"

definition encrypted_credential_provider :: "encrypted_config \<Rightarrow> credential_provider" where
  "encrypted_credential_provider C reference =
     res_bind (ok_or (bm_get (ec_ciphertext_by_ref C) reference) (credential_error ''credential is not configured'')) (\<lambda>ciphertext.
     res_bind (ok_or (bm_get (ec_environment_by_ref C) reference)
       (credential_error ''credential environment is not configured'')) (\<lambda>variable.
     res_bind (ec_decrypt C ciphertext) (\<lambda>secret. new_scoped_credential variable secret)))"

section \<open>The command line provider\<close>

definition provider_error :: "string \<Rightarrow> openwork_error" where
  "provider_error msg = new_error ExecutionFailed msg"

record cli_app_config =
  ca_app_id :: app_id
  ca_image :: image_ref
  ca_program :: string
  ca_fixed_arguments :: "string list"
  ca_user :: sandbox_user
  ca_limits :: sandbox_limits

definition validate_cli_app :: "cli_app_config \<Rightarrow> unit result" where
  "validate_cli_app c =
     (if \<not> starts_with (ca_program c) ''/'' \<or> length (ca_program c) > 4096 \<or> length (ca_fixed_arguments c) > 128
         \<or> list_ex (\<lambda>a. length a > 4096 \<or> CHR 0x00 \<in> set a) (ca_fixed_arguments c)
      then Inl (provider_error ''CLI App configuration is invalid'')
      else Inr ())"

type_synonym cli_apps = "(app_id, cli_app_config) btree_map"

fun insert_cli_apps :: "cli_app_config list \<Rightarrow> cli_apps \<Rightarrow> cli_apps result" where
  "insert_cli_apps [] apps = Inr apps"
| "insert_cli_apps (c # cs) apps =
     res_bind (validate_cli_app c) (\<lambda>_.
     if bm_contains apps (ca_app_id c) then Inl (provider_error ''duplicate CLI App configuration'')
     else insert_cli_apps cs (bm_insert (ca_app_id c) c apps))"

definition new_cli_provider :: "cli_app_config list \<Rightarrow> cli_apps result" where
  "new_cli_provider configs = insert_cli_apps configs []"

definition cli_prepare ::
    "ext \<Rightarrow> cli_apps \<Rightarrow> capability_authorization \<Rightarrow> mount_dir \<Rightarrow> mount_dir \<Rightarrow> sandbox_request result" where
  "cli_prepare X apps authorization input_directory output_directory =
     (let invocation = au_invocation authorization
      in case cd_provider (au_descriptor authorization) of
           Cli _ \<Rightarrow>
             res_bind (ok_or (bm_get apps (ci_app_id invocation)) (provider_error ''CLI App is not configured'')) (\<lambda>config.
             res_bind (command_with_stdin (ca_program config) (ca_fixed_arguments config) []
                 (json_to_string X (ci_parameters invocation))) (\<lambda>command.
             new_sandbox_request (ci_run_id invocation) (ca_image config) command (ca_user config) input_directory
               output_directory (ca_limits config)))
         | _ \<Rightarrow> Inl (provider_error ''capability is not routed to a CLI App''))"

section \<open>The importer\<close>

definition max_skill_bytes :: nat where
  "max_skill_bytes = 256 * 1024"

record capability_draft =
  dr_id :: capability_id
  dr_risk :: risk_level
  dr_description :: string

record import_request =
  im_app_id :: app_id
  im_name :: string
  im_version :: string
  im_description :: string
  im_capabilities :: "capability_draft list"

fun trim_end :: "string \<Rightarrow> string" where
  "trim_end [] = []"
| "trim_end (c # s) = (if blank (c # s) then [] else c # trim_end s)"

definition trim :: "string \<Rightarrow> string" where
  "trim s = trim_end (trim_start s)"

fun take_chars :: "nat \<Rightarrow> string \<Rightarrow> string" where
  \<comment> \<open>\<^verbatim>\<open>chars().take(n)\<close>: the bytes 80 to BF continue a character\<close>
  "take_chars n [] = []"
| "take_chars n (c # s) =
     (if 0x80 \<le> byte c \<and> byte c < 0xC0 then c # take_chars n s
      else (case n of 0 \<Rightarrow> [] | Suc m \<Rightarrow> c # take_chars m s))"

definition skill_summary :: "string \<Rightarrow> string" where
  "skill_summary markdown =
     (case find (\<lambda>line. line \<noteq> [] \<and> \<not> starts_with line ''#'' \<and> \<not> starts_with line ''---'') (map trim (str_lines markdown)) of
        None \<Rightarrow> []
      | Some line \<Rightarrow> line)"

definition import_error :: "string \<Rightarrow> openwork_error" where
  "import_error msg = new_error ConfigInvalid msg"

definition import_cli_anything :: "ext \<Rightarrow> pack_yaml \<Rightarrow> import_request \<Rightarrow> string \<Rightarrow> capability_pack result" where
  "import_cli_anything X Y request markdown =
     (if length markdown > max_skill_bytes then Inl (import_error ''CLI-Anything SKILL exceeds the import limit'')
      else
        (let summary = skill_summary markdown;
             draft =
               \<lparr>pk_api_version = capability_pack_api_version, pk_kind = ''CapabilityPack'',
                pk_metadata = \<lparr>md_id = im_app_id request, md_name = im_name request, md_version = im_version request,
                  md_description = im_description request\<rparr>,
                pk_provider = Cli ''cli-anything'',
                pk_capabilities =
                  map (\<lambda>c. \<lparr>mc_id = dr_id c,
                            mc_description = (if dr_description c = [] then take_chars 512 summary else dr_description c),
                            mc_risk = dr_risk c, mc_input_schema = JObject [(''type'', JString ''object'')]\<rparr>)
                    (im_capabilities request),
                pk_permissions = \<lparr>cp_filesystem = \<lparr>fp_read = [''workspace''], fp_write = [''artifacts'']\<rparr>,
                  cp_network = NetworkNone, cp_credentials = []\<rparr>\<rparr>
         in res_bind (ok_or (yaml_write Y draft) (import_error ''CLI-Anything draft could not be encoded'')) (\<lambda>encoded.
            pack_from_yaml X Y encoded)))"

end
