(* ===== verification/App_Properties.thy ===== *)
theory App_Properties
  imports Apps
begin

text \<open>
  What the applications crate promises: a loaded registry is exactly what its manifests say and well
  formed; the gateway authorizes only what the registry, the installation, a grant and an accepted
  policy agree on; an import gains nothing from the text it reads.
\<close>

section \<open>Registries\<close>

definition yaml_names :: "registry_directory \<Rightarrow> string list" where
  "yaml_names D = (case rd_names D of None \<Rightarrow> [] | Some names \<Rightarrow> filter (\<lambda>n. name_extension n = Some ''yaml'') names)"

definition app_ok :: "ext \<Rightarrow> available_app \<Rightarrow> bool" where
  "app_ok X app =
     (\<not> blank (md_name (av_metadata app)) \<and> length (md_name (av_metadata app)) \<le> 128
      \<and> \<not> blank (md_version (av_metadata app)) \<and> length (md_description (av_metadata app)) \<le> 4096
      \<and> av_capabilities app \<noteq> [] \<and> length (av_capabilities app) \<le> 128
      \<and> distinct (map cd_id (av_capabilities app)) \<and> av_status app = StatusAvailable
      \<and> (\<forall>d \<in> set (av_capabilities app).
           cd_app_id d = md_id (av_metadata app) \<and> cd_provider d = av_provider app
           \<and> \<not> blank (cd_description d) \<and> length (cd_description d) \<le> 4096
           \<and> length (json_to_string X (cd_input_schema d)) \<le> 65536
           \<and> length (fp_read (cp_filesystem (cd_permissions d))) \<le> 16
           \<and> length (fp_write (cp_filesystem (cd_permissions d))) \<le> 16
           \<and> length (cp_credentials (cd_permissions d)) \<le> 16))"

definition declares :: "ext \<Rightarrow> pack_yaml \<Rightarrow> registry_directory \<Rightarrow> string \<Rightarrow> available_app \<Rightarrow> bool" where
  \<comment> \<open>a manifest of the directory reads as the application\<close>
  "declares X Y D name app =
     (\<exists>input pack. rd_text D name = Some input \<and> length input \<le> max_manifest_bytes
        \<and> yaml_read Y input = Some pack \<and> app = into_available pack)"

lemma cap_str_inj: "inj cap_str"
  by (rule injI) (simp add: capability_id.expand)

lemma validated_app_ok: "validate_pack X pack = Inr () \<Longrightarrow> app_ok X (into_available pack)"
proof -
  assume v: "validate_pack X pack = Inr ()"
  then have "distinct (map (cap_str \<circ> mc_id) (pk_capabilities pack))"
    by (auto simp: validate_pack_def Let_def adjacent_distinct_sort simp del: sort_key_simps split: if_splits)
  then have "distinct (map mc_id (pk_capabilities pack))" by (auto simp: distinct_map dest: inj_on_imageI2)
  then have "distinct (map cd_id (av_capabilities (into_available pack)))" by (simp add: into_available_def comp_def)
  with v show ?thesis
    by (auto simp: validate_pack_def Let_def app_ok_def into_available_def list_ex_iff split: if_splits)
qed

lemma pack_read:
  "pack_from_yaml X Y input = Inr pack \<Longrightarrow>
     length input \<le> max_manifest_bytes \<and> yaml_read Y input = Some pack \<and> app_ok X (into_available pack)"
  by (auto simp: pack_from_yaml_def res_simps validated_app_ok split: if_splits)

lemma load_manifests_exact:
  assumes "load_manifests X Y (rd_text D) names apps = Inr out"
  shows "(bm_ordered apps \<longrightarrow> bm_ordered out) \<and> length out = length apps + length names
    \<and> (\<forall>k app. bm_get out k = Some app \<longrightarrow> bm_get apps k = Some app
         \<or> k = md_id (av_metadata app) \<and> app_ok X app \<and> (\<exists>n \<in> set names. declares X Y D n app))
    \<and> (\<forall>k app. bm_get apps k = Some app \<longrightarrow> bm_get out k = Some app)
    \<and> (\<forall>n \<in> set names. \<exists>app. declares X Y D n app \<and> bm_get out (md_id (av_metadata app)) = Some app)"
  using assms
proof (induction names arbitrary: apps)
  case (Cons n names)
  from Cons.prems obtain input pack where r: "rd_text D n = Some input" "pack_from_yaml X Y input = Inr pack"
    by (auto simp: res_simps)
  define app where "app = into_available pack"
  let ?k = "md_id (av_metadata app)"
  from Cons.prems r have new: "bm_get apps ?k = None"
    and go: "load_manifests X Y (rd_text D) names (bm_insert ?k app apps) = Inr out"
    by (auto simp: app_def Let_def split: if_splits)
  have d: "declares X Y D n app" and ok: "app_ok X app"
    using r pack_read [OF r(2)] by (auto simp: declares_def app_def)
  have len: "length (bm_insert ?k app apps) = Suc (length apps)"
    using new by (induction apps) (auto split: if_splits)
  note IH = Cons.IH [OF go]
  show ?case
  proof (intro conjI allI ballI impI)
    show "bm_ordered out" if "bm_ordered apps" using IH bm_insert_ordered [OF that] by blast
    show "length out = length apps + length (n # names)" using IH len by simp
    show "bm_get apps k = Some a \<or> k = md_id (av_metadata a) \<and> app_ok X a \<and> (\<exists>m \<in> set (n # names). declares X Y D m a)"
      if "bm_get out k = Some a" for k a
    proof -
      from IH that have "bm_get (bm_insert ?k app apps) k = Some a
          \<or> k = md_id (av_metadata a) \<and> app_ok X a \<and> (\<exists>m \<in> set names. declares X Y D m a)" by blast
      then show ?thesis using d ok by (auto split: if_splits)
    qed
    show "bm_get out k = Some a" if "bm_get apps k = Some a" for k a
    proof -
      from that new have "bm_get (bm_insert ?k app apps) k = Some a" by auto
      with IH show ?thesis by blast
    qed
    show "\<exists>a. declares X Y D m a \<and> bm_get out (md_id (av_metadata a)) = Some a" if "m \<in> set (n # names)" for m
    proof (cases "m = n")
      case True
      have "bm_get (bm_insert ?k app apps) ?k = Some app" by simp
      with IH have "bm_get out ?k = Some app" by blast
      with True d show ?thesis by blast
    next
      case False
      with that IH show ?thesis by auto
    qed
  qed
qed simp

lemma registry_load_exact:
  assumes "registry_load X Y D = Inr apps"
  shows "bm_ordered apps \<and> length apps = length (yaml_names D) \<and> length apps \<le> 128
    \<and> (\<forall>k app. bm_get apps k = Some app \<longrightarrow>
         k = md_id (av_metadata app) \<and> app_ok X app \<and> (\<exists>n \<in> set (yaml_names D). declares X Y D n app))
    \<and> (\<forall>n \<in> set (yaml_names D). \<exists>app. declares X Y D n app \<and> bm_get apps (md_id (av_metadata app)) = Some app)"
proof -
  from assms obtain names where n: "rd_names D = Some names" by (auto simp: registry_load_def res_simps)
  with assms have l: "load_manifests X Y (rd_text D) (sort (yaml_names D)) [] = Inr apps" and b: "length (yaml_names D) \<le> 128"
    by (auto simp: registry_load_def yaml_names_def Let_def split: if_splits)
  show ?thesis using load_manifests_exact [OF l] b by simp
qed

text \<open>
  C35. A registry that loads is exactly its directory: every YAML manifest is read, bounded and kept under
  the identifier it declares, no two manifests share one, and nothing else is registered. Every registered
  application is well formed: bounded texts, between one and 128 capabilities with distinct identifiers,
  each bound to the application, its provider and its permissions.
\<close>

theorem loaded_registry_is_well_formed:
  assumes "registry_load X Y D = Inr apps"
  shows "bm_ordered apps \<and> length apps = length (yaml_names D) \<and> length apps \<le> 128
    \<and> (\<forall>k app. bm_get apps k = Some app \<longrightarrow>
         k = md_id (av_metadata app) \<and> app_ok X app \<and> (\<exists>n \<in> set (yaml_names D). declares X Y D n app))
    \<and> (\<forall>n \<in> set (yaml_names D). \<exists>app. declares X Y D n app \<and> bm_get apps (md_id (av_metadata app)) = Some app)"
  by (rule registry_load_exact [OF assms])

section \<open>Authorization\<close>

definition backed_by_registry :: "ext \<Rightarrow> pack_yaml \<Rightarrow> registry_directory \<Rightarrow> capability_authorization \<Rightarrow> bool" where
  "backed_by_registry X Y D a =
     (\<exists>n \<in> set (yaml_names D). \<exists>app. declares X Y D n app \<and> md_id (av_metadata app) = ci_app_id (au_invocation a)
        \<and> au_descriptor a \<in> set (av_capabilities app) \<and> cd_id (au_descriptor a) = ci_capability (au_invocation a))"

definition backed_by_installation :: "installed_app list \<Rightarrow> capability_authorization \<Rightarrow> bool" where
  "backed_by_installation installed a =
     (\<exists>i \<in> set installed. ia_app_id i = ci_app_id (au_invocation a) \<and> ia_enabled i
        \<and> au_credential_ref a = (if cp_credentials (cd_permissions (au_descriptor a)) = [] then None else ia_credential_ref i))"

definition backed_by_grant :: "capability_grant list \<Rightarrow> capability_invocation \<Rightarrow> bool" where
  "backed_by_grant grants call =
     (\<exists>g \<in> set grants. cg_principal g = actor_str (ci_actor call) \<and> cg_app_id g = ci_app_id call
        \<and> ci_capability call \<in> set (cg_capabilities g))"

lemma collected_get: "bm_get (bm_of_list (map (\<lambda>x. (f x, x)) xs)) k = Some v \<Longrightarrow> v \<in> set xs \<and> f v = k"
  using bm_of_list_set [of "map (\<lambda>x. (f x, x)) xs"] by (auto dest: map_of_SomeD)

lemma registry_gateway_apps:
  assumes "registry_load X Y D = Inr apps"
  shows "gw_apps (new_gateway policy (registry_list apps) installed grants) = apps"
proof -
  note r = registry_load_exact [OF assms]
  then have d: "distinct (map fst apps)" using bm_ordered_distinct by blast
  then have "\<forall>(k, app) \<in> set apps. md_id (av_metadata app) = k" using r by auto
  then have "map (\<lambda>app. (md_id (av_metadata app), app)) (bm_values apps) = apps"
    by (auto simp: bm_values_def intro!: map_idI)
  then show ?thesis using r by (simp add: new_gateway_def registry_list_def bm_of_list_id)
qed

lemma authorized_facts:
  assumes "authorize X G call = Inr (Authorized a)"
  obtains app i where "au_invocation a = call" "bm_get (gw_apps G) (ci_app_id call) = Some app"
    "au_descriptor a \<in> set (av_capabilities app)" "cd_id (au_descriptor a) = ci_capability call"
    "bm_get (gw_installed G) (ci_app_id call) = Some i" "ia_enabled i" "au_credential_ref a = credential_ref_for (au_descriptor a) i"
    "backed_by_grant (gw_grants G) call" "pe_decision (gw_policy G (ci_action call)) = Allow"
    "parameters_match_hash X (ci_action call)" "ac_run_id (ci_action call) = ci_run_id call"
    "ac_action (ci_action call) = cap_str (ci_capability call)" "ac_resource (ci_action call) = ci_resource call"
    "ac_parameters (ci_action call) = ci_parameters call" "ac_parameter_hash (ci_action call) = ci_parameter_hash call"
proof -
  from assms obtain d i where f: "find_exact_descriptor X G call = Inr d" "require_enabled_installation G (ci_app_id call) = Inr i"
    "require_grant G call = Inr ()" "pe_decision (gw_policy G (ci_action call)) = Allow"
    and a: "a = \<lparr>au_invocation = call, au_descriptor = d, au_credential_ref = credential_ref_for d i,
      au_evaluation = gw_policy G (ci_action call)\<rparr>"
    by (cases "pe_decision (gw_policy G (ci_action call))") (auto simp: authorize_def res_simps Let_def)
  from f(1) obtain app where "bm_get (gw_apps G) (ci_app_id call) = Some app" "d \<in> set (av_capabilities app)" "cd_id d = ci_capability call"
    "parameters_match_hash X (ci_action call)" "ac_run_id (ci_action call) = ci_run_id call"
    "ac_action (ci_action call) = cap_str (ci_capability call)" "ac_resource (ci_action call) = ci_resource call"
    "ac_parameters (ci_action call) = ci_parameters call" "ac_parameter_hash (ci_action call) = ci_parameter_hash call"
    by (auto simp: find_exact_descriptor_def res_simps Let_def find_Some_iff split: if_splits)
  moreover from f(2) have "bm_get (gw_installed G) (ci_app_id call) = Some i" "ia_enabled i"
    by (auto simp: require_enabled_installation_def res_simps split: if_splits)
  moreover from f(3) have "backed_by_grant (gw_grants G) call"
    by (auto simp: require_grant_def backed_by_grant_def list_ex_iff split: if_splits)
  ultimately show ?thesis using f(4) a that by simp
qed

text \<open>
  C34. Under a registry loaded from its directory and an accepted policy, the gateway authorizes an
  invocation for execution without approval only if a manifest declares exactly this capability of this
  application, the application is installed and enabled, the actor was granted the capability, the policy
  has a rule for it of the risk reading or local writing, and the digest it carries is that of this run,
  capability, resource and parameters. A credential is selected only when the capability asks for one.
\<close>

theorem authorization_is_backed:
  assumes "registry_load X Y D = Inr apps" and "policy_from_yaml yaml input = Inr config"
    and "authorize X (new_gateway (\<lambda>q. evaluate_at X config matcher q now) (registry_list apps) installed grants) call
      = Inr (Authorized a)"
  shows "au_invocation a = call \<and> backed_by_registry X Y D a \<and> backed_by_installation installed a
    \<and> backed_by_grant grants call
    \<and> (\<exists>rule. bm_get (pc_actions config) (cap_str (ci_capability call)) = Some rule \<and> ru_risk rule \<in> {Read, LocalWrite})
    \<and> action_parameter_hash X (ci_run_id call) (ac_id (ci_action call)) (cap_str (ci_capability call)) (ci_resource call)
        (ci_parameters call) = Inr (ci_parameter_hash call)"
proof -
  let ?G = "new_gateway (\<lambda>q. evaluate_at X config matcher q now) (registry_list apps) installed grants"
  obtain app i where f: "au_invocation a = call" "bm_get (gw_apps ?G) (ci_app_id call) = Some app"
    "au_descriptor a \<in> set (av_capabilities app)" "cd_id (au_descriptor a) = ci_capability call"
    "bm_get (gw_installed ?G) (ci_app_id call) = Some i" "ia_enabled i" "au_credential_ref a = credential_ref_for (au_descriptor a) i"
    "backed_by_grant (gw_grants ?G) call" "pe_decision (gw_policy ?G (ci_action call)) = Allow"
    "parameters_match_hash X (ci_action call)" "ac_run_id (ci_action call) = ci_run_id call"
    "ac_action (ci_action call) = cap_str (ci_capability call)" "ac_resource (ci_action call) = ci_resource call"
    "ac_parameters (ci_action call) = ci_parameters call" "ac_parameter_hash (ci_action call) = ci_parameter_hash call"
    by (rule authorized_facts [OF assms(3)])
  have "bm_get apps (ci_app_id call) = Some app" using f(2) registry_gateway_apps [OF assms(1)] by simp
  then obtain n where "ci_app_id call = md_id (av_metadata app)" "n \<in> set (yaml_names D)" "declares X Y D n app"
    using registry_load_exact [OF assms(1)] by blast
  with f(1,3,4) have "backed_by_registry X Y D a" unfolding backed_by_registry_def by (intro bexI [of _ n] exI [of _ app]) simp_all
  moreover have "i \<in> set installed" "ia_app_id i = ci_app_id call"
    using collected_get [of ia_app_id installed "ci_app_id call" i] f(5) [unfolded new_gateway_def capability_gateway.simps] by blast+
  with f(1,6,7) have "backed_by_installation installed a"
    unfolding backed_by_installation_def by (intro bexI [of _ i]) (simp_all add: credential_ref_for_def)
  moreover have "backed_by_grant grants call" using f(8) by (simp add: new_gateway_def)
  moreover have "\<exists>rule. bm_get (pc_actions config) (cap_str (ci_capability call)) = Some rule \<and> ru_risk rule \<in> {Read, LocalWrite}"
    using allowed_is_configured [OF assms(2), of X matcher "ci_action call" now] f(9,12) by (simp add: new_gateway_def)
  moreover have "action_parameter_hash X (ci_run_id call) (ac_id (ci_action call)) (cap_str (ci_capability call)) (ci_resource call)
      (ci_parameters call) = Inr (ci_parameter_hash call)"
    using f(10-15) by (simp add: parameters_match_hash_def split: sum.splits)
  ultimately show ?thesis using f(1) by blast
qed

section \<open>Imports\<close>

definition yaml_roundtrip :: "pack_yaml \<Rightarrow> bool" where
  \<comment> \<open>what is written reads back as itself\<close>
  "yaml_roundtrip Y = (\<forall>pack text. yaml_write Y pack = Some text \<longrightarrow> yaml_read Y text = Some pack)"

lemma imported_draft:
  assumes "yaml_roundtrip Y" and "import_cli_anything X Y request markdown = Inr p"
  shows "pk_provider p = Cli ''cli-anything'' \<and> md_id (pk_metadata p) = im_app_id request
    \<and> pk_permissions p = \<lparr>cp_filesystem = \<lparr>fp_read = [''workspace''], fp_write = [''artifacts'']\<rparr>,
        cp_network = NetworkNone, cp_credentials = []\<rparr>
    \<and> pk_capabilities p = map (\<lambda>c. \<lparr>mc_id = dr_id c,
        mc_description = (if dr_description c = [] then take_chars 512 (skill_summary markdown) else dr_description c),
        mc_risk = dr_risk c, mc_input_schema = JObject [(''type'', JString ''object'')]\<rparr>) (im_capabilities request)
    \<and> validate_pack X p = Inr ()"
  using assms by (auto simp: import_cli_anything_def pack_from_yaml_def yaml_roundtrip_def Let_def res_simps split: if_splits)

text \<open>
  The text a draft is imported from can only fill in missing descriptions: whatever it says, the
  capabilities and their risks are those of the request, the pack may read the workspace and write
  artifacts and nothing else, has no network and no credentials, and two texts give packs that differ
  at most in the descriptions the request left empty.
\<close>

theorem import_gains_nothing:
  assumes "yaml_roundtrip Y" and "import_cli_anything X Y request markdown = Inr p"
    and "import_cli_anything X Y request other = Inr q"
  shows "map mc_id (pk_capabilities p) = map dr_id (im_capabilities request)
    \<and> map mc_risk (pk_capabilities p) = map dr_risk (im_capabilities request)
    \<and> cp_network (pk_permissions p) = NetworkNone \<and> cp_credentials (pk_permissions p) = []
    \<and> fp_read (cp_filesystem (pk_permissions p)) = [''workspace'']
    \<and> fp_write (cp_filesystem (pk_permissions p)) = [''artifacts'']
    \<and> pk_provider p = pk_provider q \<and> pk_permissions p = pk_permissions q
    \<and> app_ok X (into_available p)
    \<and> (\<forall>i < length (im_capabilities request). dr_description (im_capabilities request ! i) \<noteq> [] \<longrightarrow>
         pk_capabilities p ! i = pk_capabilities q ! i)"
proof -
  note p = imported_draft [OF assms(1,2)] and q = imported_draft [OF assms(1,3)]
  have "app_ok X (into_available p)" using p validated_app_ok by blast
  moreover have "\<forall>i < length (im_capabilities request). dr_description (im_capabilities request ! i) \<noteq> [] \<longrightarrow>
      pk_capabilities p ! i = pk_capabilities q ! i" using p q by simp
  ultimately show ?thesis using p q by (simp add: comp_def)
qed

section \<open>Sandbox requests\<close>

lemma cli_request_is_fixed:
  \<comment> \<open>the parameters of an invocation reach the sandbox on standard input only\<close>
  assumes "cli_prepare X apps a input_directory output_directory = Inr request"
  obtains config where "bm_get apps (ci_app_id (au_invocation a)) = Some config"
    "sr_command request = \<lparr>sc_program = ca_program config, sc_arguments = ca_fixed_arguments config, sc_environment = [],
       sc_stdin = json_to_string X (ci_parameters (au_invocation a))\<rparr>"
    "sr_image request = ca_image config" "sr_network request = NetDisabled" "sr_run_id request = ci_run_id (au_invocation a)"
  using assms
  by (auto simp: cli_prepare_def res_simps Let_def command_with_stdin_def new_sandbox_request_def
      split: app_provider.splits if_splits intro!: that)

end
