(* ===== verification/App_Witnesses.thy ===== *)
theory App_Witnesses
  imports Backend_Witnesses App_Properties
begin

text \<open>
  Concrete inputs for the properties of the applications crate: a directory with one manifest, an
  installed application with a grant under a policy that allows it, and two imports of the same request.
\<close>

section \<open>A registry\<close>

definition demo_permissions :: capability_permissions where
  "demo_permissions = \<lparr>cp_filesystem = \<lparr>fp_read = [''workspace''], fp_write = [''artifacts'']\<rparr>,
     cp_network = NetworkNone, cp_credentials = []\<rparr>"

definition demo_pack :: capability_pack where
  "demo_pack = \<lparr>pk_api_version = ''openwork.io/v1'', pk_kind = ''CapabilityPack'',
     pk_metadata = \<lparr>md_id = AppId ''demo'', md_name = ''Demo'', md_version = ''1'', md_description = ''''\<rparr>,
     pk_provider = Cli ''demo'',
     pk_capabilities = [\<lparr>mc_id = CapabilityId ''act'', mc_description = ''Act'', mc_risk = Read, mc_input_schema = JNull\<rparr>],
     pk_permissions = demo_permissions\<rparr>"

definition demo_yaml :: pack_yaml where
  "demo_yaml = \<lparr>yaml_read = (\<lambda>t. if t = ''doc'' then Some demo_pack else None), yaml_write = (\<lambda>_. None)\<rparr>"

definition demo_directory :: registry_directory where
  "demo_directory = \<lparr>rd_names = Some [''demo.yaml'', ''notes''], rd_text = (\<lambda>n. if n = ''demo.yaml'' then Some ''doc'' else None)\<rparr>"

definition demo_app :: available_app where
  "demo_app = into_available demo_pack"

lemma demo_valid: "validate_pack sample_ext demo_pack = Inr ()"
  by (simp add: validate_pack_def Let_def demo_pack_def capability_pack_api_version_def demo_permissions_def
    sample_ext_def not_blank graphic_def byte_def)

lemma demo_names: "yaml_names demo_directory = [''demo.yaml'']"
  unfolding yaml_names_def demo_directory_def by code_simp

lemma demo_loads: "registry_load sample_ext demo_yaml demo_directory = Inr [(AppId ''demo'', demo_app)]"
proof -
  have "filter (\<lambda>n. name_extension n = Some ''yaml'') [''demo.yaml'', ''notes''] = [''demo.yaml'']" by code_simp
  then show ?thesis
    using demo_valid
    by (simp add: registry_load_def demo_directory_def demo_yaml_def pack_from_yaml_def max_manifest_bytes_def Let_def
      demo_app_def into_available_def) (simp add: demo_pack_def)
qed

theorem loaded_registry_is_well_formed_witness:
  "registry_load sample_ext demo_yaml demo_directory = Inr [(AppId ''demo'', demo_app)]
   \<and> length [(AppId ''demo'', demo_app)] = length (yaml_names demo_directory) \<and> app_ok sample_ext demo_app"
proof -
  have "bm_get [(AppId ''demo'', demo_app)] (AppId ''demo'') = Some demo_app" by simp
  with loaded_registry_is_well_formed [OF demo_loads] demo_loads show ?thesis by blast
qed

section \<open>An authorization\<close>

definition demo_invocation :: capability_invocation where
  "demo_invocation = \<lparr>ci_actor = actor0, ci_run_id = run0, ci_app_id = AppId ''demo'', ci_capability = CapabilityId ''act'',
     ci_resource = ''res'', ci_parameters = JNull, ci_parameter_hash = ac_parameter_hash sample_action, ci_action = sample_action\<rparr>"

definition demo_policy_yaml :: "string \<Rightarrow> raw_policy option" where
  "demo_policy_yaml input =
     Some \<lparr>rp_version = 1, rp_unknown = CfgDeny, rp_actions = [(''act'', Read, CfgAllow, RawAbsent)]\<rparr>"

definition demo_policy :: policy_config where
  "demo_policy = \<lparr>pc_version = 1, pc_unknown = CfgDeny,
     pc_actions = [(''act'', \<lparr>ru_risk = Read, ru_decision = CfgAllow, ru_resources = None\<rparr>)]\<rparr>"

lemma demo_policy_accepted: "policy_from_yaml demo_policy_yaml ''doc'' = Inr demo_policy"
  by (simp add: policy_from_yaml_def demo_policy_yaml_def decode_policy_def validate_policy_def policy_config_version_def
    max_policy_bytes_def demo_policy_def valid_action_name_def rule_is_safe_def resources_are_valid_def bm_values_def ascii_defs)

abbreviation demo_evaluation :: policy_evaluation where
  "demo_evaluation \<equiv> evaluate_at sample_ext demo_policy exact_resource_matcher sample_action 3"

abbreviation demo_installed :: "installed_app list" where
  "demo_installed \<equiv> [\<lparr>ia_app_id = AppId ''demo'', ia_enabled = True, ia_credential_ref = None\<rparr>]"

abbreviation demo_grants :: "capability_grant list" where
  "demo_grants \<equiv> [\<lparr>cg_principal = ''ops'', cg_app_id = AppId ''demo'', cg_capabilities = [CapabilityId ''act'']\<rparr>]"

abbreviation demo_gateway :: capability_gateway where
  "demo_gateway \<equiv> new_gateway (\<lambda>q. evaluate_at sample_ext demo_policy exact_resource_matcher q 3)
     (registry_list [(AppId ''demo'', demo_app)]) demo_installed demo_grants"

definition demo_authorization :: capability_authorization where
  "demo_authorization = \<lparr>au_invocation = demo_invocation, au_descriptor = hd (av_capabilities demo_app),
     au_credential_ref = None, au_evaluation = demo_evaluation\<rparr>"

lemma sample_intact: "parameters_match_hash sample_ext sample_action"
  by (simp add: parameters_match_hash_def sample_action_def sample_hash)

lemma demo_allowed: "pe_decision demo_evaluation = Allow"
  using sample_intact
  by (simp add: evaluate_at_def demo_policy_def select_rule_def evaluation_def sample_action_def)

lemma demo_action_sel:
  "ac_run_id sample_action = run0" "ac_action sample_action = ''act''" "ac_resource sample_action = ''res''"
  "ac_parameters sample_action = JNull"
  by (simp_all add: sample_action_def)

lemma demo_authorized: "authorize sample_ext demo_gateway demo_invocation = Inr (Authorized demo_authorization)"
  using sample_intact demo_allowed
  by (simp add: authorize_def find_exact_descriptor_def Let_def new_gateway_def registry_list_def bm_values_def
    demo_invocation_def require_enabled_installation_def require_grant_def credential_ref_for_def demo_authorization_def
    demo_app_def into_available_def demo_pack_def demo_permissions_def actor0_def bm_of_list_def demo_action_sel)

theorem authorization_is_backed_witness:
  "authorize sample_ext demo_gateway demo_invocation = Inr (Authorized demo_authorization)
   \<and> backed_by_registry sample_ext demo_yaml demo_directory demo_authorization
   \<and> backed_by_grant demo_grants demo_invocation"
  using authorization_is_backed [OF demo_loads demo_policy_accepted demo_authorized] demo_authorized by blast

section \<open>Two imports\<close>

definition demo_request :: import_request where
  "demo_request = \<lparr>im_app_id = AppId ''demo'', im_name = ''Demo'', im_version = ''1'', im_description = '''',
     im_capabilities = [\<lparr>dr_id = CapabilityId ''act'', dr_risk = Read, dr_description = ''Act''\<rparr>,
       \<lparr>dr_id = CapabilityId ''see'', dr_risk = Read, dr_description = ''''\<rparr>]\<rparr>"

definition demo_draft :: "string \<Rightarrow> capability_pack" where
  "demo_draft text = \<lparr>pk_api_version = ''openwork.io/v1'', pk_kind = ''CapabilityPack'',
     pk_metadata = \<lparr>md_id = AppId ''demo'', md_name = ''Demo'', md_version = ''1'', md_description = ''''\<rparr>,
     pk_provider = Cli ''cli-anything'',
     pk_capabilities =
       [\<lparr>mc_id = CapabilityId ''act'', mc_description = ''Act'', mc_risk = Read, mc_input_schema = JObject [(''type'', JString ''object'')]\<rparr>,
        \<lparr>mc_id = CapabilityId ''see'', mc_description = text, mc_risk = Read, mc_input_schema = JObject [(''type'', JString ''object'')]\<rparr>],
     pk_permissions = demo_permissions\<rparr>"

definition draft_yaml :: pack_yaml where
  \<comment> \<open>the two drafts are written as the texts they took from the documents\<close>
  "draft_yaml = \<lparr>yaml_read = (\<lambda>t. Some (demo_draft t)),
     yaml_write = (\<lambda>p. if p = demo_draft ''See'' then Some ''See'' else if p = demo_draft ''Look'' then Some ''Look'' else None)\<rparr>"

lemma draft_yaml_roundtrip: "yaml_roundtrip draft_yaml"
  by (auto simp: yaml_roundtrip_def draft_yaml_def)

lemma summaries_read: "skill_summary (''# T'' @ [CHR 0x0A] @ ''See'') = ''See''" "skill_summary ''Look'' = ''Look''"
  by code_simp+

lemma draft_valid: "text \<in> {''See'', ''Look''} \<Longrightarrow> validate_pack sample_ext (demo_draft text) = Inr ()"
  by (auto simp: validate_pack_def Let_def demo_draft_def capability_pack_api_version_def demo_permissions_def
    sample_ext_def not_blank graphic_def byte_def print_string_def unary_def)

lemma draft_imports:
  "import_cli_anything sample_ext draft_yaml demo_request (''# T'' @ [CHR 0x0A] @ ''See'') = Inr (demo_draft ''See'')"
  "import_cli_anything sample_ext draft_yaml demo_request ''Look'' = Inr (demo_draft ''Look'')"
proof -
  have d: "\<lparr>pk_api_version = capability_pack_api_version, pk_kind = ''CapabilityPack'',
     pk_metadata = \<lparr>md_id = im_app_id demo_request, md_name = im_name demo_request, md_version = im_version demo_request,
       md_description = im_description demo_request\<rparr>,
     pk_provider = Cli ''cli-anything'',
     pk_capabilities = map (\<lambda>c. \<lparr>mc_id = dr_id c,
         mc_description = (if dr_description c = [] then take_chars 512 body else dr_description c),
         mc_risk = dr_risk c, mc_input_schema = JObject [(''type'', JString ''object'')]\<rparr>) (im_capabilities demo_request),
     pk_permissions = \<lparr>cp_filesystem = \<lparr>fp_read = [''workspace''], fp_write = [''artifacts'']\<rparr>,
       cp_network = NetworkNone, cp_credentials = []\<rparr>\<rparr> = demo_draft (take_chars 512 body)" for body
    by (simp add: demo_draft_def demo_request_def demo_permissions_def capability_pack_api_version_def)
  have t: "take_chars 512 ''See'' = ''See''" "take_chars 512 ''Look'' = ''Look''" by code_simp+
  show "import_cli_anything sample_ext draft_yaml demo_request (''# T'' @ [CHR 0x0A] @ ''See'') = Inr (demo_draft ''See'')"
    unfolding import_cli_anything_def summaries_read Let_def d t
    by (simp add: draft_yaml_def pack_from_yaml_def max_manifest_bytes_def max_skill_bytes_def draft_valid)
  show "import_cli_anything sample_ext draft_yaml demo_request ''Look'' = Inr (demo_draft ''Look'')"
    unfolding import_cli_anything_def summaries_read Let_def d t
    by (simp add: draft_yaml_def pack_from_yaml_def max_manifest_bytes_def max_skill_bytes_def draft_valid)
qed

theorem import_gains_nothing_witness:
  "import_cli_anything sample_ext draft_yaml demo_request ''Look'' = Inr (demo_draft ''Look'')
   \<and> map mc_risk (pk_capabilities (demo_draft ''See'')) = [Read, Read]
   \<and> pk_capabilities (demo_draft ''See'') ! 0 = pk_capabilities (demo_draft ''Look'') ! 0
   \<and> app_ok sample_ext (into_available (demo_draft ''See''))"
  using import_gains_nothing [OF draft_yaml_roundtrip draft_imports] draft_imports(2)
  by (auto simp: demo_request_def)

end
