(* ===== verification/Connectors.thy ===== *)
theory Connectors
  imports Apps Action_Executor
begin

text \<open>
  The connector runtime of the control plane (\<^verbatim>\<open>crates/openwork-control-api/src/connector_runtime.rs\<close>):
  connector definitions from the environment, the fixed mapping from capabilities to tools, one session
  with a connector process per request, and the cache of discovered tools. The process at the other end
  of the pipes is a parameter: whether it starts, whether a message can be written, and the lines that
  arrive before the deadline after the messages sent so far.
\<close>

section \<open>Definitions from the environment\<close>

definition github_image :: string where
  "github_image = ''ghcr.io/github/github-mcp-server@sha256:1817b57d43916532dc002bdc5f344d639bd9fb54a9148d42168458f7c3280567''"

definition lark_package :: string where
  "lark_package = ''@larksuiteoapi/lark-mcp@0.5.1''"

definition lark_read_tools :: string where
  "lark_read_tools = ''im.v1.chat.search,im.v1.message.list,bitable.v1.appTableRecord.search,docx.v1.document.rawContent,wiki.v1.node.search,wiki.v2.space.getNode''"

definition max_message_bytes :: nat where "max_message_bytes = 8 * 1024 * 1024"
definition max_tools :: nat where "max_tools = 512"
definition max_tool_name_bytes :: nat where "max_tool_name_bytes = 256"
definition max_tool_text_bytes :: nat where "max_tool_text_bytes = 4 * 1024"
definition max_call_result_bytes :: nat where "max_call_result_bytes = 256 * 1024"

record process_config =
  pr_executable :: string
  pr_args :: "string list"
  pr_environment :: "(string, string) btree_map"
  pr_timeout :: nat  \<comment> \<open>nanoseconds\<close>

record connector_definition =
  co_id :: string
  co_name :: string
  co_process :: "process_config option"

datatype config_failure = ConfigError string

type_synonym environment = "string \<Rightarrow> string option"

definition optional_nonempty_env :: "environment \<Rightarrow> string \<Rightarrow> string option" where
  "optional_nonempty_env env name = (case env name of None \<Rightarrow> None | Some v \<Rightarrow> if v = [] then None else Some v)"

definition absolute_executable :: "environment \<Rightarrow> string \<Rightarrow> string \<Rightarrow> config_failure + string" where
  "absolute_executable env name fallback =
     (let v = (case env name of None \<Rightarrow> fallback | Some v \<Rightarrow> v)
      in if \<not> starts_with v ''/'' then Inl (ConfigError name) else Inr v)"

definition github_process :: "environment \<Rightarrow> string \<Rightarrow> config_failure + process_config" where
  \<comment> \<open>the closure of \<^verbatim>\<open>github_from_env\<close>\<close>
  "github_process env token =
     res_bind (absolute_executable env ''OPENWORK_GITHUB_MCP_DOCKER_BIN'' ''/usr/local/bin/docker'') (\<lambda>executable.
     let base = bm_of_list [(''GITHUB_PERSONAL_ACCESS_TOKEN'', token),
           (''GITHUB_TOOLSETS'', ''repos,issues,pull_requests,actions,users'')];
         environment = (case optional_nonempty_env env ''OPENWORK_DOCKER_HOST'' of
             None \<Rightarrow> base | Some host \<Rightarrow> bm_insert ''DOCKER_HOST'' host base);
         keys = filter (\<lambda>k. k \<noteq> ''DOCKER_HOST'') (map fst environment)
     in Inr \<lparr>pr_executable = executable,
             pr_args = [''run'', ''-i'', ''--rm''] @ concat (map (\<lambda>k. [''-e'', k]) keys) @ [github_image],
             pr_environment = environment, pr_timeout = 20 * 1000000000\<rparr>)"

definition github_from_env :: "environment \<Rightarrow> config_failure + connector_definition" where
  "github_from_env env =
     res_bind (case optional_nonempty_env env ''OPENWORK_GITHUB_TOKEN'' of
                 None \<Rightarrow> Inr None
               | Some token \<Rightarrow> res_bind (github_process env token) (\<lambda>p. Inr (Some p))) (\<lambda>process.
     Inr \<lparr>co_id = ''github'', co_name = ''GitHub'', co_process = process\<rparr>)"

definition lark_process :: "environment \<Rightarrow> string \<Rightarrow> string \<Rightarrow> config_failure + process_config" where
  \<comment> \<open>the branch of \<^verbatim>\<open>lark_from_env\<close> with both values set\<close>
  "lark_process env app secret =
     res_bind (absolute_executable env ''OPENWORK_LARK_MCP_NPX_BIN'' ''/usr/local/bin/npx'') (\<lambda>executable.
     let domain = (case optional_nonempty_env env ''OPENWORK_LARK_DOMAIN'' of
             None \<Rightarrow> ''https://open.feishu.cn'' | Some d \<Rightarrow> d);
         base = bm_of_list [(''APP_ID'', app), (''APP_SECRET'', secret), (''LARK_TOOLS'', lark_read_tools),
           (''LARK_DOMAIN'', domain), (''LARK_TOKEN_MODE'', ''tenant_access_token''),
           (''PATH'', ''/opt/homebrew/bin:/usr/local/bin:/usr/bin:/bin'')];
         environment = (case optional_nonempty_env env ''HOME'' of None \<Rightarrow> base | Some home \<Rightarrow> bm_insert ''HOME'' home base)
     in Inr \<lparr>pr_executable = executable,
             pr_args = [''-y'', lark_package, ''mcp'', ''--token-mode'', ''tenant_access_token''],
             pr_environment = environment, pr_timeout = 30 * 1000000000\<rparr>)"

definition lark_from_env :: "environment \<Rightarrow> config_failure + connector_definition" where
  "lark_from_env env =
     res_bind (case (optional_nonempty_env env ''OPENWORK_LARK_APP_ID'', optional_nonempty_env env ''OPENWORK_LARK_APP_SECRET'') of
                 (None, None) \<Rightarrow> Inr None
               | (Some app, Some secret) \<Rightarrow> res_bind (lark_process env app secret) (\<lambda>p. Inr (Some p))
               | _ \<Rightarrow> Inl (ConfigError ''OPENWORK_LARK_APP_ID and OPENWORK_LARK_APP_SECRET must be set together'')) (\<lambda>process.
     Inr \<lparr>co_id = ''lark'', co_name = ''Feishu / Lark'', co_process = process\<rparr>)"

definition connectors_from_env :: "environment \<Rightarrow> config_failure + connector_definition list" where
  "connectors_from_env env =
     res_bind (github_from_env env) (\<lambda>github. res_bind (lark_from_env env) (\<lambda>lark. Inr [github, lark]))"

section \<open>One session with a connector process\<close>

datatype mcp_error = McpSpawn | McpIo | McpTimeout | McpProtocol | McpOutputLimit

fun mcp_code :: "mcp_error \<Rightarrow> string" where
  "mcp_code McpSpawn = ''connector_spawn_failed''"
| "mcp_code McpIo = ''connector_io_failed''"
| "mcp_code McpTimeout = ''connector_timeout''"
| "mcp_code McpProtocol = ''connector_protocol_error''"
| "mcp_code McpOutputLimit = ''connector_output_limit''"

datatype line_event = Line string | ReadFailure

record mcp_peer =
  mp_spawns :: "process_config \<Rightarrow> bool"
  mp_accepts :: "json list \<Rightarrow> bool"  \<comment> \<open>the last of the messages can be written and flushed\<close>
  mp_lines :: "json list \<Rightarrow> line_event list"  \<comment> \<open>what arrives once the last of the messages is sent\<close>
  mp_closed :: "json list \<Rightarrow> bool"  \<comment> \<open>the output ends before the deadline\<close>
  mp_json :: "string \<Rightarrow> json option"  \<comment> \<open>\<^verbatim>\<open>serde_json::from_str\<close>\<close>
  mp_version :: string  \<comment> \<open>the version the crate was built with\<close>

record mcp_session =
  mq_sent :: "json list"
  mq_pending :: "line_event list"

type_synonym 'a mcp_op = "(mcp_session, mcp_error, 'a) op"

definition send_json :: "mcp_peer \<Rightarrow> json \<Rightarrow> unit mcp_op" where
  \<comment> \<open>a message whose writing or flushing fails counts as sent, since it may have reached the process\<close>
  "send_json P v s =
     (let sent = mq_sent s @ [v]
      in if mp_accepts P sent then (Inr (), s\<lparr>mq_sent := sent, mq_pending := mq_pending s @ mp_lines P sent\<rparr>)
         else (Inl McpIo, s\<lparr>mq_sent := sent\<rparr>))"

fun json_as_u64 :: "json \<Rightarrow> u64 option" where
  "json_as_u64 (JNumber (PosInt n)) = Some n"
| "json_as_u64 _ = None"

fun receive_lines :: "mcp_peer \<Rightarrow> u64 \<Rightarrow> bool \<Rightarrow> line_event list \<Rightarrow> (mcp_error + json) \<times> line_event list" where
  "receive_lines P expected closed [] = (Inl (if closed then McpIo else McpTimeout), [])"
| "receive_lines P expected closed (ReadFailure # es) = (Inl McpIo, es)"
| "receive_lines P expected closed (Line l # es) =
     (if length l > max_message_bytes then (Inl McpOutputLimit, es)
      else
        (case mp_json P l of
           None \<Rightarrow> (Inl McpProtocol, es)
         | Some v \<Rightarrow>
             if Option.bind (json_get v ''id'') json_as_u64 = Some expected then (Inr v, es)
             else receive_lines P expected closed es))"

definition receive_response :: "mcp_peer \<Rightarrow> u64 \<Rightarrow> json mcp_op" where
  "receive_response P expected s =
     (let (r, es) = receive_lines P expected (mp_closed P (mq_sent s)) (mq_pending s) in (r, s\<lparr>mq_pending := es\<rparr>))"

record connector_tool =
  ct_id :: string
  ct_name :: string
  ct_title :: "string option"
  ct_description :: "string option"
  ct_read_only :: bool
  ct_input_schema_sha256 :: string

definition bounded_optional_text :: "json option \<Rightarrow> mcp_error + string option" where
  "bounded_optional_text v =
     (case Option.bind v json_as_str of
        None \<Rightarrow> Inr None
      | Some text \<Rightarrow> if length text > max_tool_text_bytes then Inl McpOutputLimit else Inr (Some text))"

definition parse_tool :: "ext \<Rightarrow> json \<Rightarrow> mcp_error + connector_tool" where
  \<comment> \<open>the closure of \<^verbatim>\<open>parse_tools\<close>\<close>
  "parse_tool X tool =
     res_bind (ok_or (get_str tool ''name'') McpProtocol) (\<lambda>name.
     if name = [] \<or> length name > max_tool_name_bytes then Inl McpOutputLimit
     else
       res_bind (bounded_optional_text (json_get tool ''title'')) (\<lambda>title.
       res_bind (bounded_optional_text (json_get tool ''description'')) (\<lambda>description.
       let schema = (case json_get tool ''inputSchema'' of None \<Rightarrow> JObject [] | Some v \<Rightarrow> v)
       in Inr \<lparr>ct_id = name, ct_name = name, ct_title = title, ct_description = description,
               ct_read_only =
                 (case Option.bind (json_pointer tool [''annotations'', ''readOnlyHint'']) json_as_bool of
                    None \<Rightarrow> False | Some b \<Rightarrow> b),
               ct_input_schema_sha256 = digest_str (sha256_bytes X (json_to_string X schema))\<rparr>)))"

definition parse_tools :: "ext \<Rightarrow> json \<Rightarrow> mcp_error + connector_tool list" where
  "parse_tools X response =
     res_bind (ok_or (Option.bind (json_pointer response [''result'', ''tools'']) json_as_array) McpProtocol) (\<lambda>tools.
     if length tools > max_tools then Inl McpOutputLimit else res_map (parse_tool X) tools)"

definition initialize_message :: "mcp_peer \<Rightarrow> json" where
  "initialize_message P =
     JObject [(''id'', JNumber (PosInt 1)), (''jsonrpc'', JString ''2.0''), (''method'', JString ''initialize''),
       (''params'', JObject [(''capabilities'', JObject []),
          (''clientInfo'', JObject [(''name'', JString ''openwork-control''), (''version'', JString (mp_version P))]),
          (''protocolVersion'', JString ''2025-06-18'')])]"

definition initialized_message :: json where
  "initialized_message = JObject [(''jsonrpc'', JString ''2.0''), (''method'', JString ''notifications/initialized'')]"

definition list_message :: json where
  "list_message =
     JObject [(''id'', JNumber (PosInt 2)), (''jsonrpc'', JString ''2.0''), (''method'', JString ''tools/list''),
       (''params'', JObject [])]"

definition call_message :: "string \<Rightarrow> json \<Rightarrow> json" where
  "call_message tool arguments =
     JObject [(''id'', JNumber (PosInt 3)), (''jsonrpc'', JString ''2.0''), (''method'', JString ''tools/call''),
       (''params'', JObject [(''arguments'', arguments), (''name'', JString tool)])]"

definition exchange :: "ext \<Rightarrow> mcp_peer \<Rightarrow> connector_tool list mcp_op" where
  \<comment> \<open>also the first part of \<^verbatim>\<open>call_exchange\<close>\<close>
  "exchange X P =
     bnd (send_json P (initialize_message P)) (\<lambda>_.
     bnd (receive_response P 1) (\<lambda>initialize.
     if json_get initialize ''result'' = None then fail_with McpProtocol
     else
       bnd (send_json P initialized_message) (\<lambda>_.
       bnd (send_json P list_message) (\<lambda>_.
       bnd (receive_response P 2) (\<lambda>response.
       lift_res (parse_tools X response))))))"

definition validated_call_result :: "json \<Rightarrow> mcp_error + json" where
  "validated_call_result output =
     (if json_get output ''error'' \<noteq> None then Inl McpProtocol
      else
        res_bind (ok_or (json_get output ''result'') McpProtocol) (\<lambda>res.
        case json_get res ''isError'' of
          None \<Rightarrow> Inr res
        | Some (JBool False) \<Rightarrow> Inr res
        | Some _ \<Rightarrow> Inl McpProtocol))"

definition call_exchange :: "ext \<Rightarrow> mcp_peer \<Rightarrow> string \<Rightarrow> json \<Rightarrow> bool \<Rightarrow> json mcp_op" where
  "call_exchange X P expected_tool parameters require_read_only =
     bnd (exchange X P) (\<lambda>tools.
     bnd (lift_res (ok_or (find (\<lambda>t. ct_name t = expected_tool) tools) McpProtocol)) (\<lambda>tool.
     if require_read_only \<and> \<not> ct_read_only tool then fail_with McpProtocol
     else if length (json_to_string X parameters) > 64 * 1024 then fail_with McpOutputLimit
     else
       bnd (send_json P (call_message expected_tool parameters)) (\<lambda>_.
       bnd (receive_response P 3) (\<lambda>output.
       if length (json_to_string X output) > max_call_result_bytes then fail_with McpOutputLimit
       else lift_res (validated_call_result output)))))"

definition new_session :: mcp_session where
  "new_session = \<lparr>mq_sent = [], mq_pending = []\<rparr>"

definition in_process :: "mcp_peer \<Rightarrow> process_config \<Rightarrow> 'a mcp_op \<Rightarrow> (mcp_error + 'a) \<times> json list" where
  \<comment> \<open>spawn, run the exchange, kill the process; the second component is what was written to it\<close>
  "in_process P config m =
     (if \<not> starts_with (pr_executable config) ''/'' \<or> \<not> mp_spawns P config then (Inl McpSpawn, [])
      else (let (r, s) = m new_session in (r, mq_sent s)))"

definition discover_tools :: "ext \<Rightarrow> mcp_peer \<Rightarrow> process_config \<Rightarrow> mcp_error + connector_tool list" where
  "discover_tools X P config = fst (in_process P config (exchange X P))"

definition call_tool :: "ext \<Rightarrow> mcp_peer \<Rightarrow> process_config \<Rightarrow> string \<Rightarrow> json \<Rightarrow> bool \<Rightarrow> (mcp_error + json) \<times> json list" where
  "call_tool X P config tool parameters require_read_only =
     in_process P config (call_exchange X P tool parameters require_read_only)"

section \<open>Capabilities\<close>

record github_capability_mapping =
  gm_tool :: string
  gm_read_only :: bool
  gm_fixed_method :: "string option"

definition github_mapping :: "string \<Rightarrow> github_capability_mapping option" where
  "github_mapping capability =
     map_option (\<lambda>(tool, read_only, fixed). \<lparr>gm_tool = tool, gm_read_only = read_only, gm_fixed_method = fixed\<rparr>)
       (map_of [(''github.repository.read'', (''search_repositories'', True, None)),
         (''github.file.read'', (''get_file_contents'', True, None)),
         (''github.issue.read'', (''list_issues'', True, None)),
         (''github.actions.read'', (''actions_list'', True, Some ''list_workflow_runs'')),
         (''github.pull_request.read'', (''list_pull_requests'', True, None)),
         (''github.issue.create'', (''issue_write'', False, Some ''create''))] capability)"

datatype call_error = CapabilityNotMapped | InvalidParameters | CallNotConfigured | CallUnavailable

definition github_arguments :: "github_capability_mapping \<Rightarrow> json \<Rightarrow> call_error + json" where
  "github_arguments mapping parameters =
     (case parameters of
        JObject arguments \<Rightarrow>
          (case gm_fixed_method mapping of
             None \<Rightarrow> Inr (JObject arguments)
           | Some fixed \<Rightarrow>
               if (case bm_get arguments ''method'' of None \<Rightarrow> False | Some v \<Rightarrow> json_as_str v \<noteq> Some fixed)
               then Inl InvalidParameters
               else Inr (JObject (bm_insert ''method'' (JString fixed) arguments)))
      | _ \<Rightarrow> Inl InvalidParameters)"

record cache_entry =
  ce_created_at :: nat  \<comment> \<open>an \<^verbatim>\<open>Instant\<close> in nanoseconds\<close>
  ce_ttl :: nat
  ce_result :: "mcp_error + connector_tool list"

type_synonym tool_cache = "(string, cache_entry) btree_map"

record connector_registry =
  cr_entries :: "(string, connector_definition) btree_map"
  cr_success_ttl :: nat
  cr_failure_ttl :: nat

definition new_connectors :: "connector_definition list \<Rightarrow> connector_registry" where
  "new_connectors definitions =
     \<lparr>cr_entries = bm_of_list (map (\<lambda>d. (co_id d, d)) definitions),
      cr_success_ttl = 60 * 1000000000, cr_failure_ttl = 15 * 1000000000\<rparr>"

definition no_connectors :: connector_registry where
  "no_connectors = new_connectors []"

definition call_capability ::
    "ext \<Rightarrow> mcp_peer \<Rightarrow> connector_registry \<Rightarrow> string \<Rightarrow> json \<Rightarrow> (call_error + json) \<times> json list" where
  \<comment> \<open>the second component is what was written to the connector process\<close>
  "call_capability X P R capability parameters =
     (case res_bind (ok_or (github_mapping capability) CapabilityNotMapped) (\<lambda>mapping.
           res_bind (github_arguments mapping parameters) (\<lambda>arguments.
           res_bind (ok_or (bm_get (cr_entries R) ''github'') CallUnavailable) (\<lambda>entry.
           res_bind (ok_or (co_process entry) CallNotConfigured) (\<lambda>process. Inr (mapping, arguments, process))))) of
        Inl e \<Rightarrow> (Inl e, [])
      | Inr (mapping, arguments, process) \<Rightarrow>
          (let (r, sent) = call_tool X P process (gm_tool mapping) arguments (gm_read_only mapping)
           in (map_err (\<lambda>_. CallUnavailable) r, sent)))"

definition execute_claimed_github_capability ::
    "ext \<Rightarrow> mcp_peer \<Rightarrow> connector_registry \<Rightarrow> claimed_action \<Rightarrow> (call_error + json) \<times> json list" where
  "execute_claimed_github_capability X P R claimed =
     (if ac_action (ca_action claimed) \<noteq> ''github.issue.create'' then (Inl CapabilityNotMapped, [])
      else call_capability X P R (ac_action (ca_action claimed)) (ac_parameters (ca_action claimed)))"

section \<open>Discovery\<close>

datatype lookup_error = LookupNotFound | LookupNotConfigured | LookupUnavailable

definition fresh_entry :: "nat \<Rightarrow> tool_cache \<Rightarrow> string \<Rightarrow> cache_entry option" where
  \<comment> \<open>\<^verbatim>\<open>duration_since\<close> is zero for an instant in the future\<close>
  "fresh_entry now cache cid =
     (case bm_get cache cid of
        None \<Rightarrow> None
      | Some e \<Rightarrow> if now - ce_created_at e < ce_ttl e then Some e else None)"

definition connector_tools ::
    "ext \<Rightarrow> mcp_peer \<Rightarrow> connector_registry \<Rightarrow> string \<Rightarrow> nat \<Rightarrow> (tool_cache, lookup_error, connector_tool list) op" where
  "connector_tools X P R cid now cache =
     (case res_bind (ok_or (bm_get (cr_entries R) cid) LookupNotFound) (\<lambda>entry.
           ok_or (co_process entry) LookupNotConfigured) of
        Inl e \<Rightarrow> (Inl e, cache)
      | Inr process \<Rightarrow>
          (case fresh_entry now cache cid of
             Some e \<Rightarrow> (map_err (\<lambda>_. LookupUnavailable) (ce_result e), cache)
           | None \<Rightarrow>
               (let found = discover_tools X P process;
                    ttl = (if is_ok found then cr_success_ttl R else cr_failure_ttl R)
                in (map_err (\<lambda>_. LookupUnavailable) found,
                    bm_insert cid \<lparr>ce_created_at = now, ce_ttl = ttl, ce_result = found\<rparr> cache))))"

datatype connector_status = ConnNotConfigured | ConnReady | ConnUnavailable | ConnUnknown

record connector_summary =
  sm_id :: string
  sm_name :: string
  sm_status :: connector_status
  sm_tool_count :: "nat option"
  sm_last_error :: "string option"

definition summarize :: "tool_cache \<Rightarrow> connector_definition \<Rightarrow> connector_summary" where
  "summarize cache entry =
     (if co_process entry = None
      then \<lparr>sm_id = co_id entry, sm_name = co_name entry, sm_status = ConnNotConfigured, sm_tool_count = None, sm_last_error = None\<rparr>
      else
        (let cached = bm_get cache (co_id entry)
         in \<lparr>sm_id = co_id entry, sm_name = co_name entry,
             sm_status = (case cached of
                 None \<Rightarrow> ConnUnknown | Some c \<Rightarrow> if is_ok (ce_result c) then ConnReady else ConnUnavailable),
             sm_tool_count = (case cached of
                 None \<Rightarrow> None | Some c \<Rightarrow> (case ce_result c of Inl _ \<Rightarrow> None | Inr tools \<Rightarrow> Some (length tools))),
             sm_last_error = (case cached of
                 None \<Rightarrow> None | Some c \<Rightarrow> (case ce_result c of Inl e \<Rightarrow> Some (mcp_code e) | Inr _ \<Rightarrow> None))\<rparr>))"

definition summaries :: "connector_registry \<Rightarrow> tool_cache \<Rightarrow> connector_summary list" where
  "summaries R cache = map (summarize cache) (bm_values (cr_entries R))"

end
