(* ===== verification/Prompt_Delivery.thy ===== *)
theory Prompt_Delivery
  imports Store_Trace
begin

text \<open>
  The hand-over of prompts from the control plane to its worker
  (\<^verbatim>\<open>crates/openwork-control-api/src/lib.rs\<close>, \<^verbatim>\<open>InMemoryPromptDelivery\<close>): a bounded map from runs to
  prompts that are taken once, only with the digest the run carries and only before they expire. The
  lock of the map makes each operation atomic; its poisoning is not modelled, nor is the clearing of
  memory.
\<close>

section \<open>Operations\<close>

datatype prompt_error = CapacityExceeded | DuplicateRun | DigestMismatch | PromptUnavailable

record stored_prompt =
  sp_digest :: digest
  sp_expires_at :: timestamp
  sp_bytes :: string

type_synonym prompt_entries = "(run_id, stored_prompt) btree_map"

record prompt_delivery =
  pd_capacity :: nat
  pd_max_bytes :: nat
  pd_ttl :: nat  \<comment> \<open>nanoseconds\<close>

definition production_delivery :: prompt_delivery where
  "production_delivery = \<lparr>pd_capacity = 128, pd_max_bytes = 256 * 1024, pd_ttl = 24 * 3600 * 1000000000\<rparr>"

definition digest_matches :: "digest \<Rightarrow> digest \<Rightarrow> bool" where
  "digest_matches left right = (digest_str left = digest_str right)"

definition expiry :: "ext \<Rightarrow> timestamp \<Rightarrow> nat \<Rightarrow> timestamp option" where
  \<comment> \<open>through the printed form; instants the printer cannot represent do not occur\<close>
  "expiry X now ttl =
     (case parse_timestamp X (rfc3339_format X (now + int ttl)) of Inl _ \<Rightarrow> None | Inr t \<Rightarrow> Some t)"

definition purge_expired_locked :: "timestamp \<Rightarrow> prompt_entries \<Rightarrow> prompt_entries" where
  "purge_expired_locked now entries = filter (\<lambda>(_, entry). sp_expires_at entry > now) entries"

type_synonym 'a prompt_op = "(prompt_entries, prompt_error, 'a) op"

definition register_prompt ::
    "ext \<Rightarrow> prompt_delivery \<Rightarrow> run_id \<Rightarrow> digest \<Rightarrow> string \<Rightarrow> timestamp \<Rightarrow> unit prompt_op" where
  "register_prompt X P rid expected bytes now entries =
     (if pd_capacity P = 0 \<or> length bytes > pd_max_bytes P then (Inl CapacityExceeded, entries)
      else if \<not> digest_matches (sha256_bytes X bytes) expected then (Inl DigestMismatch, entries)
      else
        (case expiry X now (pd_ttl P) of
           None \<Rightarrow> (Inl PromptUnavailable, entries)
         | Some expires_at \<Rightarrow>
             (let entries = purge_expired_locked now entries
              in if bm_contains entries rid then (Inl DuplicateRun, entries)
                 else if length entries \<ge> pd_capacity P then (Inl CapacityExceeded, entries)
                 else (Inr (),
                   bm_insert rid \<lparr>sp_digest = expected, sp_expires_at = expires_at, sp_bytes = bytes\<rparr> entries))))"

definition take_prompt :: "run_id \<Rightarrow> digest \<Rightarrow> timestamp \<Rightarrow> string prompt_op" where
  "take_prompt rid expected now entries =
     (let entries = purge_expired_locked now entries
      in case bm_get entries rid of
           None \<Rightarrow> (Inl PromptUnavailable, entries)
         | Some entry \<Rightarrow>
             if \<not> digest_matches (sp_digest entry) expected then (Inl DigestMismatch, entries)
             else (Inr (sp_bytes entry), bm_remove rid entries))"

definition purge_expired :: "timestamp \<Rightarrow> nat prompt_op" where
  "purge_expired now entries =
     (let kept = purge_expired_locked now entries in (Inr (length entries - length kept), kept))"

section \<open>The invariant of the map\<close>

definition prompts_ok :: "ext \<Rightarrow> prompt_delivery \<Rightarrow> prompt_entries \<Rightarrow> bool" where
  "prompts_ok X P entries =
     (bm_ordered entries \<and> length entries \<le> pd_capacity P
      \<and> (\<forall>rid e. bm_get entries rid = Some e \<longrightarrow>
           sp_digest e = sha256_bytes X (sp_bytes e) \<and> length (sp_bytes e) \<le> pd_max_bytes P))"

lemma prompts_ok_empty: "prompts_ok X P []"
  by (simp add: prompts_ok_def)

lemma filtered_get: "distinct (map fst m) \<Longrightarrow> bm_get (filter (\<lambda>(k, v). Q v) m) k = (case bm_get m k of None \<Rightarrow> None | Some v \<Rightarrow> if Q v then Some v else None)"
  by (induction m) (auto split: option.splits simp: map_of_eq_None_iff rev_image_eqI dest!: map_of_SomeD)

lemma filtered_ordered: "bm_ordered m \<Longrightarrow> bm_ordered (filter Q m)"
  by (induction m) (auto simp: bm_ordered_def)

lemma purge_ok:
  assumes "prompts_ok X P entries"
  shows "prompts_ok X P (purge_expired_locked now entries)"
    and "bm_get (purge_expired_locked now entries) rid =
      (case bm_get entries rid of None \<Rightarrow> None | Some e \<Rightarrow> if sp_expires_at e > now then Some e else None)"
proof -
  have d: "distinct (map fst entries)" using assms bm_ordered_distinct by (auto simp: prompts_ok_def)
  show g: "bm_get (purge_expired_locked now entries) rid =
      (case bm_get entries rid of None \<Rightarrow> None | Some e \<Rightarrow> if sp_expires_at e > now then Some e else None)" for rid
    unfolding purge_expired_locked_def using filtered_get [OF d, of "\<lambda>e. now < sp_expires_at e" rid] by simp
  have "length (purge_expired_locked now entries) \<le> length entries"
    by (simp add: purge_expired_locked_def)
  with assms show "prompts_ok X P (purge_expired_locked now entries)"
    unfolding prompts_ok_def g using filtered_ordered [of entries]
    by (auto simp: purge_expired_locked_def intro: order_trans [OF length_filter_le] split: option.splits if_splits)
qed

lemma digest_matches_iff [simp]: "digest_matches a b = (a = b)"
  by (cases a; cases b) (simp add: digest_matches_def)

lemma bm_insert_length: "bm_get m k = None \<Longrightarrow> length (bm_insert k v m) = Suc (length m)"
  by (induction m) (auto split: if_splits)

lemma register_prompt_ok:
  assumes "prompts_ok X P entries" and "register_prompt X P rid expected bytes now entries = (r, t)"
  shows "prompts_ok X P t"
    and "bm_get t q = Some e \<Longrightarrow> bm_get entries q = Some e \<or> r = Inr () \<and> q = rid \<and> sp_bytes e = bytes \<and> expected = sha256_bytes X bytes"
    and "r = Inr () \<Longrightarrow> \<exists>e. bm_get t rid = Some e \<and> sp_bytes e = bytes \<and> sp_digest e = expected"
proof -
  note pu = purge_ok [OF assms(1), of now]
  define kept where "kept = purge_expired_locked now entries"
  have "t = entries \<and> r \<noteq> Inr () \<or> t = kept \<and> r \<noteq> Inr () \<or>
    (\<exists>expires_at. r = Inr () \<and> t = bm_insert rid \<lparr>sp_digest = expected, sp_expires_at = expires_at, sp_bytes = bytes\<rparr> kept
       \<and> expected = sha256_bytes X bytes \<and> length bytes \<le> pd_max_bytes P \<and> bm_get kept rid = None \<and> length kept < pd_capacity P)"
  proof (cases "pd_capacity P = 0 \<or> length bytes > pd_max_bytes P \<or> expected \<noteq> sha256_bytes X bytes \<or> expiry X now (pd_ttl P) = None")
    case True
    then have "t = entries \<and> r \<noteq> Inr ()" using assms(2) by (elim disjE) (auto simp: register_prompt_def split: if_splits)
    then show ?thesis by blast
  next
    case False
    then obtain expires_at where "expiry X now (pd_ttl P) = Some expires_at" by blast
    with False assms(2) show ?thesis
      by (cases "bm_get kept rid"; cases "length kept < pd_capacity P") (auto simp: register_prompt_def Let_def kept_def)
  qed
  then consider "t = entries" "r \<noteq> Inr ()" | "t = kept" "r \<noteq> Inr ()"
    | expires_at where "r = Inr ()" "t = bm_insert rid \<lparr>sp_digest = expected, sp_expires_at = expires_at, sp_bytes = bytes\<rparr> kept"
        "expected = sha256_bytes X bytes" "length bytes \<le> pd_max_bytes P" "bm_get kept rid = None" "length kept < pd_capacity P"
    by blast
  note cases = this
  have k: "prompts_ok X P kept" "\<And>q e. bm_get kept q = Some e \<Longrightarrow> bm_get entries q = Some e"
    using pu by (auto simp: kept_def split: option.splits if_splits)
  show "prompts_ok X P t"
  proof (cases rule: cases)
    case (3 expires_at)
    then show ?thesis
      using k(1) bm_insert_ordered bm_insert_length [OF 3(5)] by (auto simp: prompts_ok_def)
  qed (use assms(1) k(1) in simp_all)
  show "bm_get t q = Some e \<Longrightarrow> bm_get entries q = Some e \<or> r = Inr () \<and> q = rid \<and> sp_bytes e = bytes \<and> expected = sha256_bytes X bytes"
    by (cases rule: cases) (auto simp: k(2) split: if_splits)
  show "r = Inr () \<Longrightarrow> \<exists>e. bm_get t rid = Some e \<and> sp_bytes e = bytes \<and> sp_digest e = expected"
    by (cases rule: cases) auto
qed

lemma take_prompt_ok:
  assumes "prompts_ok X P entries" and "take_prompt rid expected now entries = (r, t)"
  shows "prompts_ok X P t"
    and "bm_get t q = Some e \<Longrightarrow> bm_get entries q = Some e"
    and "r = Inr bytes \<Longrightarrow> bm_get t rid = None \<and> sha256_bytes X bytes = expected
      \<and> (\<exists>e. bm_get entries rid = Some e \<and> sp_bytes e = bytes \<and> now < sp_expires_at e)"
proof -
  note pu = purge_ok [OF assms(1), of now]
  define kept where "kept = purge_expired_locked now entries"
  have k: "prompts_ok X P kept" "\<And>q e. bm_get kept q = Some e \<Longrightarrow> bm_get entries q = Some e \<and> now < sp_expires_at e"
    using pu by (auto simp: kept_def split: option.splits if_splits)
  have t: "t = kept \<or> t = bm_remove rid kept" "r = Inr bytes \<Longrightarrow> \<exists>e. bm_get kept rid = Some e \<and> sp_bytes e = bytes \<and> sp_digest e = expected \<and> t = bm_remove rid kept" for bytes
    using assms(2) by (auto simp: take_prompt_def Let_def kept_def split: option.splits if_splits)
  have "length (bm_remove rid kept) \<le> length kept" by (simp add: bm_remove_def)
  then have "prompts_ok X P (bm_remove rid kept)"
    using k(1) bm_remove_ordered by (auto simp: prompts_ok_def split: if_splits intro: order_trans)
  with t(1) k(1) show "prompts_ok X P t" by blast
  show "bm_get t q = Some e \<Longrightarrow> bm_get entries q = Some e" using t(1) k(2) by (auto split: if_splits)
  show "r = Inr bytes \<Longrightarrow> bm_get t rid = None \<and> sha256_bytes X bytes = expected
      \<and> (\<exists>e. bm_get entries rid = Some e \<and> sp_bytes e = bytes \<and> now < sp_expires_at e)"
    using t(2) [of bytes] k by (fastforce simp: prompts_ok_def)
qed

end
