(* ===== verification/Control_Api.thy ===== *)
theory Control_Api
  imports Connectors Prompt_Delivery Orchestrator
begin

text \<open>
  The handlers of the control plane (\<^verbatim>\<open>crates/openwork-control-api/src/lib.rs\<close>). The state is what the
  handlers share: the execution store, the prompts waiting for the worker, the installed applications,
  the settings, and the two tables the capability handlers keep beside the store. The database behind
  the store may refuse any statement or lose the answer of one it carried out. The calls made to
  connector processes are kept as a trace. Clock readings and identifiers are numbered within a request.
\<close>

section \<open>Errors\<close>

datatype status_code = Unauthorized | NotFound | Unprocessable | StatusConflict | ServiceUnavailable | InternalError

datatype api_error = ApiError (api_status: status_code) (api_code: string)

definition unauthorized :: api_error where "unauthorized = ApiError Unauthorized ''unauthorized''"
definition not_found :: "string \<Rightarrow> api_error" where "not_found c = ApiError NotFound c"
definition invalid :: "string \<Rightarrow> api_error" where "invalid c = ApiError Unprocessable c"
definition conflict :: "string \<Rightarrow> api_error" where "conflict c = ApiError StatusConflict c"
definition unavailable :: "string \<Rightarrow> api_error" where "unavailable c = ApiError ServiceUnavailable c"
definition internal :: api_error where "internal = ApiError InternalError ''internal_error''"

section \<open>State\<close>

record admin_settings =
  se_default_runtime :: string
  se_max_upload_bytes :: nat

definition max_upload_bytes :: nat where
  "max_upload_bytes = 8 * 1024 * 1024"

definition default_settings :: admin_settings where
  "default_settings = \<lparr>se_default_runtime = ''auto'', se_max_upload_bytes = max_upload_bytes\<rparr>"

record capability_action_row =
  rw_action_id :: uuid
  rw_approval_id :: uuid
  rw_run_id :: uuid
  rw_app_id :: string
  rw_capability_id :: string
  rw_resource :: string
  rw_parameters :: json
  rw_parameter_hash :: string
  rw_actor_id :: string

datatype execution_state = Started | PerformedState string | UncertainState

record capability_execution_row =
  xr_parameter_hash :: string
  xr_state :: execution_state

datatype call_origin = DirectCall string | ApprovedCall action_id

record api_state =
  api_store :: state
  api_prompts :: prompt_entries
  api_installed :: "(string, installed_app) btree_map"
  api_settings :: admin_settings
  api_actions :: "capability_action_row list"
  api_executions :: "(uuid, capability_execution_row) btree_map"
  api_worker_ready :: bool
  api_cache :: tool_cache
  api_calls :: "(call_origin \<times> json list) list"  \<comment> \<open>what was written to connector processes, and for whom\<close>

type_synonym 'a api_op = "(api_state, api_error, 'a) op"

datatype link_state = LinkMissing | LinkUnreadable | LinkSymlink | LinkFile | LinkOther

record api_files =
  af_view :: fs_view
  af_link :: "string \<Rightarrow> link_state"
  af_create_dir :: "string \<Rightarrow> bool"
  af_copy :: "string \<Rightarrow> string \<Rightarrow> bool"

record api_context =
  cx_ext :: ext
  cx_token_hash :: string
  cx_actor_id :: string
  cx_workspace_root :: string
  cx_runtimes :: "string list"
  cx_connectors :: connector_registry
  cx_apps :: app_registry
  cx_prompts :: prompt_delivery
  cx_schema :: "json \<Rightarrow> (json \<Rightarrow> bool) option"  \<comment> \<open>\<^verbatim>\<open>jsonschema::validator_for\<close>\<close>
  cx_jsonb :: "json \<Rightarrow> json option"  \<comment> \<open>a value as the database column gives it back\<close>

datatype fate = Carried | Refused string | Lost string

record request_env =
  rq_clock :: "nat \<Rightarrow> timestamp"
  rq_uuid :: "nat \<Rightarrow> uuid"
  rq_fate :: "nat \<Rightarrow> fate"
  rq_peer :: mcp_peer
  rq_files :: api_files

section \<open>The database\<close>

definition storage_error :: "string \<Rightarrow> openwork_error" where
  "storage_error msg = new_error Internal msg"

definition with_fate :: "fate \<Rightarrow> (string \<Rightarrow> 'e) \<Rightarrow> ('s, 'e, 'a) op \<Rightarrow> ('s, 'e, 'a) op" where
  "with_fate f err m s =
     (case f of
        Carried \<Rightarrow> m s
      | Refused msg \<Rightarrow> (Inl (err msg), s)
      | Lost msg \<Rightarrow> (Inl (err msg), snd (m s)))"

definition map_error :: "('e \<Rightarrow> 'f) \<Rightarrow> ('s, 'e, 'a) op \<Rightarrow> ('s, 'f, 'a) op" where
  "map_error g m s = (case m s of (Inl e, t) \<Rightarrow> (Inl (g e), t) | (Inr x, t) \<Rightarrow> (Inr x, t))"

definition match_result :: "('s, 'd, 'a) op \<Rightarrow> ('s, 'e, 'b) op \<Rightarrow> ('a \<Rightarrow> ('s, 'e, 'b) op) \<Rightarrow> ('s, 'e, 'b) op" where
  \<comment> \<open>a branch on whether the first operation failed\<close>
  "match_result m failed ok s = (case m s of (Inl _, t) \<Rightarrow> failed t | (Inr x, t) \<Rightarrow> ok x t)"

definition on_api_store :: "'a store_op \<Rightarrow> (api_state, openwork_error, 'a) op" where
  "on_api_store m s = (let (r, t) = m (api_store s) in (r, s\<lparr>api_store := t\<rparr>))"

definition in_store :: "fate \<Rightarrow> (openwork_error \<Rightarrow> api_error) \<Rightarrow> 'a store_op \<Rightarrow> 'a api_op" where
  \<comment> \<open>a call of the execution store and what its error becomes\<close>
  "in_store f g m = map_error g (with_fate f storage_error (on_api_store m))"

definition in_sql :: "fate \<Rightarrow> 'a api_op \<Rightarrow> 'a api_op" where
  "in_sql f m = with_fate f (\<lambda>_. internal) m"

definition char_count :: "string \<Rightarrow> nat" where
  "char_count s = length (filter (\<lambda>c. \<not> (0x80 \<le> byte c \<and> byte c < 0xC0)) s)"

definition row_admissible :: "capability_action_row list \<Rightarrow> state \<Rightarrow> capability_action_row \<Rightarrow> bool" where
  \<comment> \<open>the constraints of the table\<close>
  "row_admissible rows st row =
     (\<not> list_ex (\<lambda>r. rw_action_id r = rw_action_id row \<or> rw_approval_id r = rw_approval_id row) rows
      \<and> bm_contains (st_approvals st) (UuidV7 (rw_approval_id row)) \<and> bm_contains (st_runs st) (UuidV7 (rw_run_id row))
      \<and> char_count (rw_app_id row) \<in> {1..128} \<and> char_count (rw_capability_id row) \<in> {1..128}
      \<and> char_count (rw_resource row) \<in> {1..2048} \<and> char_count (rw_actor_id row) \<in> {1..256}
      \<and> (case rw_parameters row of JObject _ \<Rightarrow> True | _ \<Rightarrow> False)
      \<and> valid_sha256_digest (rw_parameter_hash row))"

definition insert_action_row :: "(json \<Rightarrow> json option) \<Rightarrow> capability_action_row \<Rightarrow> unit api_op" where
  "insert_action_row jsonb row s =
     (case jsonb (rw_parameters row) of
        None \<Rightarrow> (Inl internal, s)
      | Some stored \<Rightarrow>
          let row = row\<lparr>rw_parameters := stored\<rparr>
          in if row_admissible (api_actions s) (api_store s) row
             then (Inr (), s\<lparr>api_actions := api_actions s @ [row]\<rparr>)
             else (Inl internal, s))"

definition find_action_row :: "uuid \<Rightarrow> capability_action_row option api_op" where
  "find_action_row approval = gets (\<lambda>s. find (\<lambda>r. rw_approval_id r = approval) (api_actions s))"

definition insert_execution :: "uuid \<Rightarrow> string \<Rightarrow> bool api_op" where
  \<comment> \<open>\<^verbatim>\<open>ON CONFLICT DO NOTHING\<close>: whether a row was inserted\<close>
  "insert_execution aid hash s =
     (if bm_contains (api_executions s) aid then (Inr False, s)
      else (Inr True, s\<lparr>api_executions :=
        bm_insert aid \<lparr>xr_parameter_hash = hash, xr_state = Started\<rparr> (api_executions s)\<rparr>))"

definition update_started :: "uuid \<Rightarrow> execution_state \<Rightarrow> bool api_op" where
  "update_started aid new s =
     (case bm_get (api_executions s) aid of
        Some row \<Rightarrow>
          if xr_state row = Started
          then (Inr True, s\<lparr>api_executions := bm_insert aid (row\<lparr>xr_state := new\<rparr>) (api_executions s)\<rparr>)
          else (Inr False, s)
      | None \<Rightarrow> (Inr False, s))"

section \<open>Authentication\<close>

definition authenticate :: "api_context \<Rightarrow> string option \<Rightarrow> api_error + string" where
  \<comment> \<open>the header as text, the authenticated actor\<close>
  "authenticate C header =
     res_bind (ok_or (Option.bind header (\<lambda>v. strip_prefix v ''Bearer '')) unauthorized) (\<lambda>supplied.
     if sha256_digest (cx_ext C) supplied \<noteq> cx_token_hash C then Inl unauthorized else Inr (cx_actor_id C))"

section \<open>Applications\<close>

definition registered_app :: "api_context \<Rightarrow> string \<Rightarrow> api_error + available_app" where
  "registered_app C aid =
     res_bind (map_err (\<lambda>_. invalid ''invalid_app_id'') (parse_app_id aid)) (\<lambda>app.
     ok_or (registry_get (cx_apps C) app) (not_found ''app_not_found''))"

definition app_response :: "api_state \<Rightarrow> available_app \<Rightarrow> available_app \<times> bool \<times> bool" where
  "app_response s app =
     (let installed = bm_get (api_installed s) (app_str (md_id (av_metadata app)))
      in (app, installed \<noteq> None, (case installed of None \<Rightarrow> False | Some i \<Rightarrow> ia_enabled i)))"

definition list_apps :: "api_context \<Rightarrow> (available_app \<times> bool \<times> bool) list api_op" where
  "list_apps C = gets (\<lambda>s. map (app_response s) (registry_list (cx_apps C)))"

definition get_app :: "api_context \<Rightarrow> string \<Rightarrow> (available_app \<times> bool \<times> bool) api_op" where
  "get_app C aid = bnd (lift_res (registered_app C aid)) (\<lambda>app. gets (\<lambda>s. app_response s app))"

definition list_app_capabilities :: "api_context \<Rightarrow> string \<Rightarrow> capability_descriptor list api_op" where
  "list_app_capabilities C aid = bnd (lift_res (registered_app C aid)) (\<lambda>app. ret (av_capabilities app))"

definition install_app :: "api_context \<Rightarrow> string \<Rightarrow> (app_id \<times> bool \<times> bool) api_op" where
  \<comment> \<open>an installed application is left as it is; the answer says enabled all the same\<close>
  "install_app C aid =
     bnd (lift_res (registered_app C aid)) (\<lambda>app.
     let key = app_str (md_id (av_metadata app))
     in bnd (modify (\<lambda>s. if bm_contains (api_installed s) key then s
           else s\<lparr>api_installed := bm_insert key
             \<lparr>ia_app_id = md_id (av_metadata app), ia_enabled = True, ia_credential_ref = None\<rparr> (api_installed s)\<rparr>)) (\<lambda>_.
        ret (md_id (av_metadata app), True, True)))"

definition set_app_enabled :: "api_context \<Rightarrow> string \<Rightarrow> bool \<Rightarrow> (app_id \<times> bool \<times> bool) api_op" where
  "set_app_enabled C aid enabled =
     bnd (lift_res (registered_app C aid)) (\<lambda>app.
     let key = app_str (md_id (av_metadata app))
     in bnd (lookup (\<lambda>s. bm_get (api_installed s) key) (conflict ''app_not_installed'')) (\<lambda>item.
        bnd (modify (\<lambda>s. s\<lparr>api_installed := bm_insert key (item\<lparr>ia_enabled := enabled\<rparr>) (api_installed s)\<rparr>)) (\<lambda>_.
        ret (md_id (av_metadata app), True, enabled))))"

definition get_admin_settings :: "admin_settings api_op" where
  "get_admin_settings = gets api_settings"

definition update_admin_settings :: "string \<Rightarrow> admin_settings api_op" where
  "update_admin_settings runtime =
     (if runtime \<notin> {''auto'', ''claude-code'', ''codex'', ''opencode'', ''pi''}
      then fail_with (invalid ''invalid_default_runtime'')
      else
        bnd (modify (\<lambda>s. s\<lparr>api_settings := (api_settings s)\<lparr>se_default_runtime := runtime\<rparr>\<rparr>)) (\<lambda>_. gets api_settings))"

record runtime_status =
  ru_id :: string
  ru_configured :: bool
  ru_worker_ready :: bool

definition list_admin_runtimes :: "api_context \<Rightarrow> runtime_status list api_op" where
  "list_admin_runtimes C = gets (\<lambda>s.
     map (\<lambda>rid. let configured = (rid = ''auto'' \<and> cx_runtimes C \<noteq> [] \<or> rid \<in> set (cx_runtimes C))
       in \<lparr>ru_id = rid, ru_configured = configured, ru_worker_ready = api_worker_ready s \<and> configured\<rparr>)
     [''auto'', ''claude-code'', ''codex'', ''opencode'', ''pi''])"

section \<open>Invoking a capability\<close>

record invoke_request =
  iv_resource :: string
  iv_parameters :: json

definition validate_capability_parameters :: "api_context \<Rightarrow> capability_descriptor \<Rightarrow> json \<Rightarrow> api_error + unit" where
  "validate_capability_parameters C descriptor parameters =
     res_bind (ok_or (cx_schema C (cd_input_schema descriptor)) internal) (\<lambda>validator.
     if \<not> validator parameters then Inl (invalid ''invalid_capability_parameters'') else Inr ())"

definition text_field :: "(string \<times> json) list \<Rightarrow> string \<Rightarrow> string option" where
  "text_field entries key = Option.bind (bm_get entries key) json_as_str"

definition validate_github_issue_create :: "json \<Rightarrow> api_error + unit" where
  "validate_github_issue_create parameters =
     (case parameters of
        JObject entries \<Rightarrow>
          (let longer = (\<lambda>key bound. case text_field entries key of None \<Rightarrow> False | Some v \<Rightarrow> length v > bound)
           in if list_ex (\<lambda>(key, _). key \<notin> {''owner'', ''repo'', ''title'', ''body''}) entries
                 \<or> \<not> list_all (\<lambda>key. case text_field entries key of None \<Rightarrow> False | Some v \<Rightarrow> \<not> blank v)
                     [''owner'', ''repo'', ''title'', ''body'']
                 \<or> longer ''owner'' 128 \<or> longer ''repo'' 128 \<or> longer ''title'' 256 \<or> longer ''body'' 16384
              then Inl (invalid ''invalid_capability_parameters'')
              else Inr ())
      | _ \<Rightarrow> Inl (invalid ''invalid_capability_parameters''))"

definition timestamp_from_offset :: "ext \<Rightarrow> timestamp \<Rightarrow> api_error + timestamp" where
  "timestamp_from_offset X t = map_err (\<lambda>_. internal) (parse_timestamp X (rfc3339_format X t))"

definition parse_uuid :: "ext \<Rightarrow> 'k uuid_v7 \<Rightarrow> api_error + uuid" where
  \<comment> \<open>\<^verbatim>\<open>Uuid::parse_str(&id.to_string())\<close>\<close>
  "parse_uuid X i = ok_or (uuid_parse_str X (to_hyphenated X i)) internal"

definition capability_approval ::
    "ext \<Rightarrow> request_env \<Rightarrow> actor_id \<Rightarrow> string \<Rightarrow> run \<Rightarrow> action_request \<Rightarrow> api_error + approval_request" where
  \<comment> \<open>the approval the handler builds\<close>
  "capability_approval X E actor capability awaiting action =
     res_bind (timestamp_from_offset X (rq_clock E 3)) (\<lambda>created_at.
     res_bind (timestamp_from_offset X (rq_clock E 3 + 3600 * 1000000000)) (\<lambda>expires_at.
     Inr \<lparr>ap_schema_version = SchemaVersion, ap_id = UuidV7 (rq_uuid E 5), ap_run_id = r_id awaiting,
          ap_action_id = ac_id action, ap_parameter_hash = ac_parameter_hash action, ap_requested_by = actor,
          ap_request_reason = capability @ '' requires explicit external-effect approval'',
          ap_created_at = created_at, ap_expires_at = expires_at, ap_status = Pending, ap_revision = 0,
          ap_decision = None, ap_consumed_at = None\<rparr>))"

definition record_capability_action ::
    "api_context \<Rightarrow> request_env \<Rightarrow> actor_id \<Rightarrow> string \<Rightarrow> string \<Rightarrow> action_request \<Rightarrow> approval_request \<Rightarrow> unit api_op" where
  \<comment> \<open>the insertion into \<^verbatim>\<open>capability_actions\<close>\<close>
  "record_capability_action C E actor app capability action approval =
     bnd (lift_res (parse_uuid (cx_ext C) (ac_id action))) (\<lambda>aid.
     bnd (lift_res (parse_uuid (cx_ext C) (ap_id approval))) (\<lambda>pid.
     bnd (lift_res (parse_uuid (cx_ext C) (ac_run_id action))) (\<lambda>rid.
     in_sql (rq_fate E 4) (insert_action_row (cx_jsonb C)
       \<lparr>rw_action_id = aid, rw_approval_id = pid, rw_run_id = rid, rw_app_id = app, rw_capability_id = capability,
        rw_resource = ac_resource action, rw_parameters = ac_parameters action,
        rw_parameter_hash = digest_str (ac_parameter_hash action), rw_actor_id = actor_str actor\<rparr>))))"

definition create_capability_approval ::
    "api_context \<Rightarrow> request_env \<Rightarrow> actor_id \<Rightarrow> string \<Rightarrow> string \<Rightarrow> string \<Rightarrow> json \<Rightarrow> approval_request api_op" where
  "create_capability_approval C E actor app capability resource parameters =
     (let X = cx_ext C
      in bnd (lift_res (map_err (\<lambda>_. internal) (new_scanner default_max_artifact_bytes))) (\<lambda>_.
         bnd (in_store (rq_fate E 0) (\<lambda>_. internal)
           (orchestrator_create_run X (af_view (rq_files E)) (UuidV7 (rq_uuid E 0)) (UuidV7 (rq_uuid E 1)) ''capability:github''
             (cx_workspace_root C) actor ''governed capability invocation'' (rq_clock E 0))) (\<lambda>r.
         bnd (in_store (rq_fate E 1) (\<lambda>_. conflict ''capability_run_transition_rejected'')
           (transition_run X (UuidV7 (rq_uuid E 2)) (r_id r) (r_revision r) Planning None (new_audit_append actor (rq_clock E 1)))) (\<lambda>planning.
         bnd (in_store (rq_fate E 2) (\<lambda>_. conflict ''capability_run_transition_rejected'')
           (transition_run X (UuidV7 (rq_uuid E 3)) (r_id planning) (r_revision planning) AwaitingApproval None
             (new_audit_append actor (rq_clock E 2)))) (\<lambda>awaiting.
         bnd (lift_res (map_err (\<lambda>_. invalid ''invalid_capability_parameters'')
           (new_action_request X (UuidV7 (rq_uuid E 4)) (r_id awaiting) capability resource parameters))) (\<lambda>action.
         bnd (lift_res (capability_approval X E actor capability awaiting action)) (\<lambda>approval.
         bnd (in_store (rq_fate E 3) (\<lambda>_. conflict ''capability_approval_rejected'')
           (create_approval X (UuidV7 (rq_uuid E 6)) approval actor (ap_created_at approval))) (\<lambda>approval.
         bnd (record_capability_action C E actor app capability action approval) (\<lambda>_.
         ret approval)))))))))"

datatype invoke_response = ApprovalRequired app_id capability_id risk_level approval_request | Completed app_id capability_id json

definition call_failure :: "call_error \<Rightarrow> api_error" where
  "call_failure e =
     (case e of
        CapabilityNotMapped \<Rightarrow> not_found ''capability_not_mapped''
      | InvalidParameters \<Rightarrow> invalid ''invalid_capability_parameters''
      | CallNotConfigured \<Rightarrow> unavailable ''connector_not_configured''
      | CallUnavailable \<Rightarrow> unavailable ''connector_unavailable'')"

definition trace_call :: "call_origin \<Rightarrow> ('e + 'a) \<times> json list \<Rightarrow> (api_state, 'e, 'a) op" where
  "trace_call origin out s = (fst out, s\<lparr>api_calls := api_calls s @ [(origin, snd out)]\<rparr>)"

definition dispatch_direct ::
    "api_context \<Rightarrow> request_env \<Rightarrow> capability_id \<Rightarrow> json \<Rightarrow> json api_op" where
  \<comment> \<open>the end of \<^verbatim>\<open>invoke_capability\<close>, without approval\<close>
  "dispatch_direct C E capability parameters =
     map_error call_failure (trace_call (DirectCall (cap_str capability))
       (call_capability (cx_ext C) (rq_peer E) (cx_connectors C) (cap_str capability) parameters))"

definition checked_invocation ::
    "api_context \<Rightarrow> string \<Rightarrow> string \<Rightarrow> invoke_request \<Rightarrow> api_error + available_app \<times> capability_descriptor \<times> string" where
  \<comment> \<open>the checks of \<^verbatim>\<open>invoke_capability\<close> up to the connector\<close>
  "checked_invocation C aid capability request =
     res_bind (registered_app C aid) (\<lambda>app.
     res_bind (ok_or (find (\<lambda>d. cap_str (cd_id d) = capability) (av_capabilities app)) (not_found ''capability_not_found'')) (\<lambda>descriptor.
     if iv_resource request = [] \<or> length (iv_resource request) > 2048
        \<or> length (json_to_string (cx_ext C) (iv_parameters request)) > 64 * 1024
     then Inl (invalid ''invalid_capability_invocation'')
     else
       res_bind (validate_capability_parameters C descriptor (iv_parameters request)) (\<lambda>_.
       case cd_provider descriptor of
         Mcp connector \<Rightarrow> Inr (app, descriptor, connector)
       | _ \<Rightarrow> Inl (unavailable ''capability_dispatch_unavailable''))))"

definition needs_approval :: "risk_level \<Rightarrow> bool" where
  "needs_approval risk = (risk \<in> {ExternalEffect, DestructiveOrFinancial})"

definition invoke_capability :: "api_context \<Rightarrow> request_env \<Rightarrow> string \<Rightarrow> string \<Rightarrow> invoke_request \<Rightarrow> invoke_response api_op" where
  "invoke_capability C E aid capability request =
     bnd (lift_res (checked_invocation C aid capability request)) (\<lambda>(app, descriptor, connector).
     let app_key = app_str (md_id (av_metadata app)); cap = cd_id descriptor
     in bnd (check (\<lambda>s. case bm_get (api_installed s) app_key of None \<Rightarrow> False | Some i \<Rightarrow> ia_enabled i)
          (conflict ''app_not_enabled'')) (\<lambda>_.
        if needs_approval (cd_risk descriptor)
        then
          if cap_str cap \<noteq> ''github.issue.create'' \<or> connector \<noteq> ''github''
          then fail_with (unavailable ''capability_dispatch_unavailable'')
          else
            bnd (lift_res (validate_github_issue_create (iv_parameters request))) (\<lambda>_.
            bnd (lift_res (map_err (\<lambda>_. internal) (parse_actor_id (cx_actor_id C)))) (\<lambda>actor.
            bnd (create_capability_approval C E actor app_key (cap_str cap) (iv_resource request) (iv_parameters request)) (\<lambda>approval.
            ret (ApprovalRequired (md_id (av_metadata app)) cap (cd_risk descriptor) approval))))
        else if connector \<noteq> ''github'' then fail_with (unavailable ''capability_dispatch_unavailable'')
        else
          bnd (dispatch_direct C E cap (iv_parameters request)) (\<lambda>output.
          ret (Completed (md_id (av_metadata app)) cap output))))"

section \<open>Executing an approved capability\<close>

definition validate_execution_id :: "ext \<Rightarrow> uuid \<Rightarrow> api_error + uuid" where
  "validate_execution_id X u = (if uuid_version_num X u = 7 then Inr u else Inl (invalid ''invalid_execution_id''))"

definition parse_execution_id :: "ext \<Rightarrow> uuid \<Rightarrow> api_error + 'k uuid_v7" where
  \<comment> \<open>as \<^verbatim>\<open>parse_approval_id\<close> and the handlers of runs do\<close>
  "parse_execution_id X u =
     res_bind (validate_execution_id X u) (\<lambda>u.
     map_err (\<lambda>_. invalid ''invalid_execution_id'') (parse_id X (uuid_hyphenated X u)))"

definition revision_of :: "int \<Rightarrow> api_error + u64" where
  \<comment> \<open>\<^verbatim>\<open>u64::try_from\<close> of an \<^verbatim>\<open>i64\<close>\<close>
  "revision_of i = (if i < 0 then Inl (invalid ''invalid_revision'') else Inr (word_of_int i))"

record prepared_execution =
  pe_row :: capability_action_row
  pe_claimed :: claimed_action
  pe_prepared_action :: action_id
  pe_prepared_run :: run_id
  pe_actor :: actor_id

definition rebuild_action :: "ext \<Rightarrow> capability_action_row \<Rightarrow> api_error + action_request" where
  \<comment> \<open>the action of a row, checked against the digest stored with it\<close>
  "rebuild_action X row =
     res_bind (validate_github_issue_create (rw_parameters row)) (\<lambda>_.
     res_bind (map_err (\<lambda>_. internal) (parse_id X (uuid_hyphenated X (rw_action_id row)))) (\<lambda>aid.
     res_bind (map_err (\<lambda>_. internal) (parse_id X (uuid_hyphenated X (rw_run_id row)))) (\<lambda>rid.
     res_bind (map_err (\<lambda>_. internal)
       (new_action_request X aid rid (rw_capability_id row) (rw_resource row) (rw_parameters row))) (\<lambda>action.
     if digest_str (ac_parameter_hash action) \<noteq> rw_parameter_hash row
     then Inl (conflict ''capability_action_binding_mismatch'')
     else Inr action))))"

type_synonym loaded_execution = "approval_id \<times> capability_action_row \<times> action_request \<times> approval_request \<times> actor_id"

definition load_capability_execution ::
    "api_context \<Rightarrow> request_env \<Rightarrow> uuid \<Rightarrow> u64 \<Rightarrow> string
      \<Rightarrow> loaded_execution api_op" where
  \<comment> \<open>\<^verbatim>\<open>prepare_capability_execution\<close> up to the status of the approval\<close>
  "load_capability_execution C E approval_uuid expected_revision actor =
     (let X = cx_ext C
      in bnd (lift_res (parse_execution_id X approval_uuid)) (\<lambda>pid.
         bnd (in_sql (rq_fate E 0) (find_action_row approval_uuid)) (\<lambda>found.
         bnd (lift_res (ok_or found (not_found ''capability_action_not_found''))) (\<lambda>row.
         if rw_capability_id row \<noteq> ''github.issue.create'' then fail_with (conflict ''capability_action_not_executable'')
         else
           bnd (check (\<lambda>s. case bm_get (api_installed s) (rw_app_id row) of None \<Rightarrow> False | Some i \<Rightarrow> ia_enabled i)
             (conflict ''app_not_enabled'')) (\<lambda>_.
           bnd (lift_res (rebuild_action X row)) (\<lambda>action.
           bnd (in_store (rq_fate E 1) (\<lambda>_. internal) (get_approval pid)) (\<lambda>approval.
           bnd (lift_res (ok_or approval (not_found ''approval_not_found''))) (\<lambda>approval.
           if ap_revision approval \<noteq> expected_revision then fail_with (conflict ''approval_execution_rejected'')
           else
             bnd (lift_res (map_err (\<lambda>_. internal) (parse_actor_id actor))) (\<lambda>trusted.
             ret (pid, row, action, approval, trusted))))))))))"

definition claim_capability_execution ::
    "api_context \<Rightarrow> request_env \<Rightarrow> u64 \<Rightarrow> loaded_execution \<Rightarrow> prepared_execution api_op" where
  \<comment> \<open>the rest of \<^verbatim>\<open>prepare_capability_execution\<close>\<close>
  "claim_capability_execution C E expected_revision loaded =
     (let X = cx_ext C; (pid, row, action, approval, trusted) = loaded; rejected = conflict ''approval_execution_rejected''
      in bnd (case ap_status approval of
                Approved \<Rightarrow>
                  bnd (in_store (rq_fate E 2) (\<lambda>_. rejected)
                    (consume_approval X (UuidV7 (rq_uuid E 0)) (UuidV7 (rq_uuid E 1)) pid expected_revision action
                      trusted (rq_clock E 0))) (\<lambda>consumption. ret (cn_action_claim consumption))
              | Consumed \<Rightarrow>
                  bnd (in_store (rq_fate E 2) (\<lambda>_. internal) (get_action_claim (ac_id action))) (\<lambda>claim.
                  lift_res (ok_or claim rejected))
              | _ \<Rightarrow> fail_with rejected) (\<lambda>claim.
         bnd (in_store (rq_fate E 3) (\<lambda>_. rejected) (verify_claimed X action claim)) (\<lambda>claimed.
         ret \<lparr>pe_row = row, pe_claimed = claimed, pe_prepared_action = ac_id action, pe_prepared_run = ac_run_id action,
              pe_actor = trusted\<rparr>)))"

definition prepare_capability_execution ::
    "api_context \<Rightarrow> request_env \<Rightarrow> uuid \<Rightarrow> u64 \<Rightarrow> string \<Rightarrow> prepared_execution api_op" where
  "prepare_capability_execution C E approval_uuid expected_revision actor =
     bnd (load_capability_execution C E approval_uuid expected_revision actor) (claim_capability_execution C E expected_revision)"

definition reserve_capability_execution :: "request_env \<Rightarrow> capability_action_row \<Rightarrow> unit api_op" where
  "reserve_capability_execution E row =
     bnd (in_sql (rq_fate E 4) (insert_execution (rw_action_id row) (rw_parameter_hash row))) (\<lambda>inserted.
     if \<not> inserted then fail_with (conflict ''capability_action_already_executed'') else ret ())"

definition mark_capability_execution_uncertain :: "request_env \<Rightarrow> uuid \<Rightarrow> unit api_op" where
  "mark_capability_execution_uncertain E aid = best_effort (in_sql (rq_fate E 5) (update_started aid UncertainState))"

definition fail_capability_run :: "api_context \<Rightarrow> request_env \<Rightarrow> run_id \<Rightarrow> actor_id \<Rightarrow> unit api_op" where
  "fail_capability_run C E rid actor =
     best_effort
       (bnd (in_store (rq_fate E 6) (\<lambda>_. internal) (get_run rid)) (\<lambda>found.
        case found of
          None \<Rightarrow> ret ()
        | Some r \<Rightarrow>
            bnd (in_store (rq_fate E 7) (\<lambda>_. internal)
              (transition_run (cx_ext C) (UuidV7 (rq_uuid E 2)) rid (r_revision r) Failed
                (Some ''external capability execution uncertain'') (new_audit_append actor (rq_clock E 1)))) (\<lambda>_. ret ())))"

definition perform_capability :: "api_context \<Rightarrow> request_env \<Rightarrow> prepared_execution \<Rightarrow> json api_op" where
  \<comment> \<open>the connector call of \<^verbatim>\<open>execute_approved_capability\<close> and what follows when it fails\<close>
  "perform_capability C E prepared =
     match_result
       (trace_call (ApprovedCall (pe_prepared_action prepared))
         (execute_claimed_github_capability (cx_ext C) (rq_peer E) (cx_connectors C) (pe_claimed prepared)))
       (bnd (mark_capability_execution_uncertain E (rw_action_id (pe_row prepared))) (\<lambda>_.
        bnd (fail_capability_run C E (pe_prepared_run prepared) (pe_actor prepared)) (\<lambda>_.
        fail_with (unavailable ''connector_execution_uncertain''))))
       ret"

definition action_parameter_hash_from_store :: "request_env \<Rightarrow> action_id \<Rightarrow> digest api_op" where
  "action_parameter_hash_from_store E aid =
     bnd (in_store (rq_fate E 8) (\<lambda>_. internal) (get_action_claim aid)) (\<lambda>claim.
     lift_res (ok_or (map_option cl_parameter_hash claim) (conflict ''approval_execution_rejected'')))"

definition finalize_capability_execution :: "api_context \<Rightarrow> request_env \<Rightarrow> prepared_execution \<Rightarrow> json \<Rightarrow> run api_op" where
  "finalize_capability_execution C E prepared output =
     (let X = cx_ext C; rid = pe_prepared_run prepared; actor = pe_actor prepared;
          performed = digest_str (sha256_bytes X (json_to_string X output))
      in bnd (in_sql (rq_fate E 5) (update_started (rw_action_id (pe_row prepared)) (PerformedState performed))) (\<lambda>updated.
         if \<not> updated then bnd (fail_capability_run C E rid actor) (\<lambda>_. fail_with internal)
         else
           bnd (action_parameter_hash_from_store E (pe_prepared_action prepared)) (\<lambda>hash.
           bnd (in_store (rq_fate E 9) (\<lambda>_. internal)
             (reconcile_action_execution X (UuidV7 (rq_uuid E 3))
               \<lparr>rc_run_id = rid, rc_action_id = pe_prepared_action prepared, rc_parameter_hash = hash\<rparr>
               (new_audit_append actor (rq_clock E 2)))) (\<lambda>appended.
           if \<not> appended then fail_with (conflict ''capability_action_already_reconciled'')
           else
             bnd (in_store (rq_fate E 10) (\<lambda>_. internal) (get_run rid)) (\<lambda>found.
             bnd (lift_res (ok_or found (not_found ''run_not_found''))) (\<lambda>running.
             in_store (rq_fate E 11) (\<lambda>_. internal)
               (transition_run X (UuidV7 (rq_uuid E 4)) rid (r_revision running) Succeeded None
                 (new_audit_append actor (rq_clock E 3)))))))))"

definition execute_approved_capability ::
    "api_context \<Rightarrow> request_env \<Rightarrow> string \<Rightarrow> uuid \<Rightarrow> int \<Rightarrow> (run \<times> action_id \<times> json) api_op" where
  "execute_approved_capability C E actor approval_uuid expected_revision =
     bnd (lift_res (revision_of expected_revision)) (\<lambda>revision.
     bnd (prepare_capability_execution C E approval_uuid revision actor) (\<lambda>prepared.
     bnd (reserve_capability_execution E (pe_row prepared)) (\<lambda>_.
     bnd (perform_capability C E prepared) (\<lambda>output.
     bnd (finalize_capability_execution C E prepared output) (\<lambda>r.
     ret (r, pe_prepared_action prepared, output))))))"

section \<open>Approvals\<close>

definition api_get_approval :: "api_context \<Rightarrow> request_env \<Rightarrow> uuid \<Rightarrow> approval_request api_op" where
  "api_get_approval C E u =
     bnd (lift_res (parse_execution_id (cx_ext C) u)) (\<lambda>pid.
     bnd (in_store (rq_fate E 0) (\<lambda>_. internal) (get_approval pid)) (\<lambda>found.
     lift_res (ok_or found (not_found ''approval_not_found''))))"

record decision_body =
  db_expected_revision :: int
  db_reason :: "string option"

definition api_decide_approval ::
    "api_context \<Rightarrow> request_env \<Rightarrow> string \<Rightarrow> uuid \<Rightarrow> decision_body \<Rightarrow> approval_decision \<Rightarrow> approval_request api_op" where
  "api_decide_approval C E actor u body decision =
     bnd (lift_res (parse_execution_id (cx_ext C) u)) (\<lambda>pid.
     bnd (lift_res (revision_of (db_expected_revision body))) (\<lambda>revision.
     if (case db_reason body of None \<Rightarrow> False | Some reason \<Rightarrow> length reason > 2048) \<or> actor = []
     then fail_with (invalid ''invalid_decision_request'')
     else
       bnd (in_store (rq_fate E 0) (\<lambda>_. internal) (get_approval pid)) (\<lambda>found.
       if found = None then fail_with (not_found ''approval_not_found'')
       else
         bnd (lift_res (map_err (\<lambda>_. internal) (parse_actor_id actor))) (\<lambda>trusted.
         in_store (rq_fate E 1) (\<lambda>_. conflict ''approval_decision_rejected'')
           (decide_approval (cx_ext C) (UuidV7 (rq_uuid E 0)) pid revision decision trusted (db_reason body) (rq_clock E 0))))))"

section \<open>Runs\<close>

record create_run_request =
  rr_runtime :: string
  rr_workspace :: string
  rr_prompt :: string
  rr_file_ids :: "string list"

definition split_once :: "char \<Rightarrow> string \<Rightarrow> (string \<times> string) option" where
  "split_once c s =
     (case dropWhile (\<lambda>x. x \<noteq> c) s of [] \<Rightarrow> None | _ # rest \<Rightarrow> Some (takeWhile (\<lambda>x. x \<noteq> c) s, rest))"

definition portable_name :: "string \<Rightarrow> bool" where
  "portable_name name =
     (name \<noteq> [] \<and> length name \<le> 128 \<and> \<not> starts_with name ''.''
      \<and> list_all (\<lambda>c. is_ascii_alphanumeric c \<or> c \<in> set ''._-'') name)"

definition valid_file_id :: "string \<Rightarrow> bool" where
  "valid_file_id i =
     (case split_once CHR ''-'' i of
        None \<Rightarrow> False
      | Some (digest, name) \<Rightarrow> length digest = 64 \<and> list_all is_lower_hex digest \<and> portable_name name)"

definition validate_create_run :: "create_run_request \<Rightarrow> api_error + unit" where
  "validate_create_run request =
     (let workspace = rr_workspace request
      in if rr_runtime request \<notin> {''auto'', ''codex'', ''claude-code'', ''opencode'', ''pi''} \<or> rr_prompt request = []
            \<or> length (rr_prompt request) > 256 * 1024 \<or> length (rr_file_ids request) > 16
            \<or> list_ex (\<lambda>i. \<not> valid_file_id i) (rr_file_ids request)
         then Inl (invalid ''invalid_run_request'')
         else if workspace = [] \<or> length workspace > 256 \<or> starts_with workspace ''/'' \<or> CHR 0x5C \<in> set workspace
            \<or> \<not> list_all (\<lambda>c. is_ascii_alphanumeric c \<or> c \<in> set ''._-/'') workspace
            \<or> list_ex (\<lambda>segment. segment = [] \<or> segment = ''.'' \<or> segment = ''..'') (split_on CHR ''/'' workspace)
         then Inl (invalid ''invalid_workspace_id'')
         else Inr ())"

definition resolve_workspace :: "fs_view \<Rightarrow> string \<Rightarrow> string \<Rightarrow> api_error + string" where
  "resolve_workspace F root workspace =
     res_bind (ok_or (canonicalize F (path_join root workspace)) (invalid ''workspace_unavailable'')) (\<lambda>candidate.
     if path_eq candidate root \<or> \<not> path_starts_with candidate root \<or> \<not> is_dir F candidate
     then Inl (invalid ''invalid_workspace_id'')
     else Inr candidate)"

definition uploads_dir :: "string \<Rightarrow> string" where
  "uploads_dir root = path_join (path_join root ''.openwork'') ''uploads''"

definition reject_symlink_if_present :: "api_files \<Rightarrow> string \<Rightarrow> api_error + unit" where
  "reject_symlink_if_present A path =
     (case af_link A path of
        LinkSymlink \<Rightarrow> Inl (invalid ''invalid_workspace_id'')
      | LinkUnreadable \<Rightarrow> Inl internal
      | _ \<Rightarrow> Inr ())"

definition safe_workspace_input_directory :: "api_files \<Rightarrow> string \<Rightarrow> api_error + string" where
  "safe_workspace_input_directory A workspace =
     (let openwork = path_join workspace ''.openwork''; inputs = path_join openwork ''inputs''
      in res_bind (reject_symlink_if_present A openwork) (\<lambda>_.
         res_bind (ensure (af_create_dir A openwork) internal) (\<lambda>_.
         res_bind (reject_symlink_if_present A inputs) (\<lambda>_.
         res_bind (ensure (af_create_dir A inputs) internal) (\<lambda>_.
         res_bind (ok_or (canonicalize (af_view A) inputs) internal) (\<lambda>canonical.
         if \<not> path_starts_with canonical workspace then Inl (invalid ''invalid_workspace_id'') else Inr canonical))))))"

fun copy_selected :: "api_files \<Rightarrow> string \<Rightarrow> string \<Rightarrow> string list \<Rightarrow> string list \<Rightarrow> api_error + string list" where
  \<comment> \<open>the loop of \<^verbatim>\<open>materialize_selected_files\<close>; the fourth argument holds the identifiers seen\<close>
  "copy_selected A source_root destination seen [] = Inr []"
| "copy_selected A source_root destination seen (i # is) =
     (if i \<in> set seen then Inl (invalid ''duplicate_file_id'')
      else
        (let source = path_join source_root i
         in case af_link A source of
              LinkMissing \<Rightarrow> Inl (invalid ''file_unavailable'')
            | LinkUnreadable \<Rightarrow> Inl (invalid ''file_unavailable'')
            | kind \<Rightarrow>
                if \<not> path_starts_with source source_root \<or> kind \<noteq> LinkFile then Inl (invalid ''file_unavailable'')
                else
                  res_bind (ensure (af_copy A source (path_join destination i)) internal) (\<lambda>_.
                  res_bind (copy_selected A source_root destination (i # seen) is) (\<lambda>paths.
                  Inr ((''.openwork/inputs/'' @ i) # paths)))))"

definition materialize_selected_files :: "api_files \<Rightarrow> string \<Rightarrow> string \<Rightarrow> string list \<Rightarrow> api_error + string list" where
  "materialize_selected_files A workspace_root workspace ids =
     (if ids = [] then Inr []
      else
        res_bind (ok_or (canonicalize (af_view A) (uploads_dir workspace_root)) (invalid ''file_unavailable'')) (\<lambda>source_root.
        res_bind (safe_workspace_input_directory A workspace) (\<lambda>destination.
        copy_selected A source_root destination [] ids)))"

definition prompt_with_files :: "string \<Rightarrow> string list \<Rightarrow> string" where
  "prompt_with_files prompt paths =
     (if paths = [] then prompt
      else prompt @ [CHR 0x0A, CHR 0x0A] @ ''OpenWork input files (read-only sandbox paths):'' @ [CHR 0x0A]
        @ concat (map (\<lambda>path. ''- /workspace/input/'' @ path @ [CHR 0x0A]) paths))"

definition worker_accepts :: "api_context \<Rightarrow> api_state \<Rightarrow> string \<Rightarrow> bool" where
  "worker_accepts C s runtime =
     (api_worker_ready s \<and> \<not> (runtime = ''auto'' \<and> cx_runtimes C = [])
      \<and> \<not> (runtime \<noteq> ''auto'' \<and> runtime \<notin> set (cx_runtimes C)))"

definition on_prompts :: "'a prompt_op \<Rightarrow> (api_state, prompt_error, 'a) op" where
  "on_prompts m s = (let (r, t) = m (api_prompts s) in (r, s\<lparr>api_prompts := t\<rparr>))"

definition create_and_publish ::
    "api_context \<Rightarrow> request_env \<Rightarrow> string \<Rightarrow> string \<Rightarrow> actor_id \<Rightarrow> string \<Rightarrow> run api_op" where
  \<comment> \<open>the section of \<^verbatim>\<open>create_run\<close> under the creation gate\<close>
  "create_and_publish C E runtime workspace actor prompt =
     bnd (in_store (rq_fate E 0) (\<lambda>_. internal)
       (orchestrator_create_run (cx_ext C) (af_view (rq_files E)) (UuidV7 (rq_uuid E 0)) (UuidV7 (rq_uuid E 1)) runtime workspace
         actor prompt (rq_clock E 0))) (\<lambda>r.
     match_result
       (on_prompts (register_prompt (cx_ext C) (cx_prompts C) (r_id r) (r_prompt_sha256 r) prompt (rq_clock E 1)))
       (bnd (best_effort (in_store (rq_fate E 1) (\<lambda>_. internal)
         (request_cancel (cx_ext C) (UuidV7 (rq_uuid E 2)) (r_id r) actor (rq_clock E 2)))) (\<lambda>_. fail_with internal))
       (\<lambda>_. ret r))"

definition api_create_run :: "api_context \<Rightarrow> request_env \<Rightarrow> string \<Rightarrow> create_run_request \<Rightarrow> run api_op" where
  "api_create_run C E actor request =
     bnd (lift_res (validate_create_run request)) (\<lambda>_.
     bnd (lift_res (resolve_workspace (af_view (rq_files E)) (cx_workspace_root C) (rr_workspace request))) (\<lambda>workspace.
     bnd (check (\<lambda>s. worker_accepts C s (rr_runtime request)) (unavailable ''runtime_worker_unavailable'')) (\<lambda>_.
     bnd (lift_res (materialize_selected_files (rq_files E) (cx_workspace_root C) workspace (rr_file_ids request))) (\<lambda>paths.
     bnd (lift_res (map_err (\<lambda>_. internal) (parse_actor_id actor))) (\<lambda>trusted.
     bnd (lift_res (map_err (\<lambda>_. internal) (new_scanner default_max_artifact_bytes))) (\<lambda>_.
     create_and_publish C E (rr_runtime request) workspace trusted (prompt_with_files (rr_prompt request) paths)))))))"

definition api_get_run :: "api_context \<Rightarrow> request_env \<Rightarrow> uuid \<Rightarrow> run api_op" where
  "api_get_run C E u =
     bnd (lift_res (parse_execution_id (cx_ext C) u)) (\<lambda>rid.
     bnd (in_store (rq_fate E 0) (\<lambda>_. internal) (get_run rid)) (\<lambda>found.
     lift_res (ok_or found (not_found ''run_not_found''))))"

datatype cancellation_outcome = CancellationCancelled | CancellationAccepted | CancellationAlready | CancellationTerminal
datatype cancellation_error = CancellationNotFound | CancellationConflict | CancellationInternal

definition coordinate_cancel ::
    "api_context \<Rightarrow> request_env \<Rightarrow> run_id \<Rightarrow> actor_id \<Rightarrow> timestamp \<Rightarrow> (api_state, cancellation_error, cancellation_outcome) op" where
  \<comment> \<open>\<^verbatim>\<open>DurableCancellationCoordinator::request_cancel\<close>\<close>
  "coordinate_cancel C E rid actor now =
     bnd (map_error (\<lambda>_. CancellationInternal) (with_fate (rq_fate E 0) storage_error (on_api_store (get_run rid)))) (\<lambda>found.
     bnd (lift_res (ok_or found CancellationNotFound)) (\<lambda>_.
     bnd (map_error (\<lambda>e. if code e = InvalidStateTransition then CancellationConflict else CancellationInternal)
       (with_fate (rq_fate E 1) storage_error (on_api_store (request_cancel (cx_ext C) (UuidV7 (rq_uuid E 0)) rid actor now)))) (\<lambda>out.
     ret (case out of
            CancelDone \<Rightarrow> CancellationCancelled
          | CancelRequested \<Rightarrow> CancellationAccepted
          | CancelAlreadyTerminal st \<Rightarrow> if st = Cancelled then CancellationAlready else CancellationTerminal))))"

definition api_cancel_run :: "api_context \<Rightarrow> request_env \<Rightarrow> string \<Rightarrow> uuid \<Rightarrow> bool api_op" where
  \<comment> \<open>whether the cancellation is confirmed\<close>
  "api_cancel_run C E actor u =
     bnd (lift_res (parse_execution_id (cx_ext C) u)) (\<lambda>rid.
     bnd (lift_res (map_err (\<lambda>_. internal) (parse_actor_id actor))) (\<lambda>trusted.
     bnd (map_error (\<lambda>e. case e of
              CancellationNotFound \<Rightarrow> not_found ''run_not_found''
            | CancellationConflict \<Rightarrow> conflict ''run_cancellation_conflict''
            | CancellationInternal \<Rightarrow> internal) (coordinate_cancel C E rid trusted (rq_clock E 0))) (\<lambda>out.
     case out of
       CancellationCancelled \<Rightarrow> ret True
     | CancellationAlready \<Rightarrow> ret True
     | CancellationAccepted \<Rightarrow> ret False
     | CancellationTerminal \<Rightarrow> fail_with (conflict ''run_already_terminal''))))"

definition list_artifacts :: "api_context \<Rightarrow> request_env \<Rightarrow> uuid \<Rightarrow> artifact list api_op" where
  "list_artifacts C E u =
     bnd (lift_res (parse_execution_id (cx_ext C) u)) (\<lambda>rid. in_store (rq_fate E 0) (\<lambda>_. internal) (artifacts rid))"

definition list_events :: "api_context \<Rightarrow> request_env \<Rightarrow> uuid \<Rightarrow> audit_event list api_op" where
  "list_events C E u =
     bnd (lift_res (parse_execution_id (cx_ext C) u)) (\<lambda>rid. in_store (rq_fate E 0) (\<lambda>_. internal) (audit_events rid))"

definition list_connector_tools :: "api_context \<Rightarrow> request_env \<Rightarrow> string \<Rightarrow> nat \<Rightarrow> connector_tool list api_op" where
  "list_connector_tools C E cid now s =
     (let (r, cache) = connector_tools (cx_ext C) (rq_peer E) (cx_connectors C) cid now (api_cache s)
      in (map_err (\<lambda>e. case e of
              LookupNotFound \<Rightarrow> not_found ''connector_not_found''
            | LookupNotConfigured \<Rightarrow> unavailable ''connector_not_configured''
            | LookupUnavailable \<Rightarrow> unavailable ''connector_unavailable'') r, s\<lparr>api_cache := cache\<rparr>))"

definition list_connectors :: "api_context \<Rightarrow> connector_summary list api_op" where
  "list_connectors C = gets (\<lambda>s. summaries (cx_connectors C) (api_cache s))"

section \<open>The worker's claim\<close>

definition claim_with_prompt ::
    "api_context \<Rightarrow> request_env \<Rightarrow> actor_id \<Rightarrow> lease_token \<Rightarrow> (api_state, openwork_error, (run_lease \<times> string) option) op" where
  \<comment> \<open>\<^verbatim>\<open>worker_runtime.rs\<close>, under the creation gate\<close>
  "claim_with_prompt C E owner token =
     (let now = rq_clock E 0; X = cx_ext C
      in bnd (with_fate (rq_fate E 0) storage_error (on_api_store
           (claim_next_run X (UuidV7 (rq_uuid E 0)) token owner now (30 * 1000000000)))) (\<lambda>claimed.
         case claimed of
           None \<Rightarrow> bnd (modify (\<lambda>s. snd (on_prompts (purge_expired now) s))) (\<lambda>_. ret None)
         | Some lease \<Rightarrow>
             match_result (on_prompts (take_prompt (r_id (ls_run lease)) (r_prompt_sha256 (ls_run lease)) now))
               (bnd (with_fate (rq_fate E 1) storage_error (on_api_store
                   (complete_leased_run X (UuidV7 (rq_uuid E 1)) lease (r_revision (ls_run lease)) Failed
                     (Some ''sensitive run input is unavailable'') (rq_clock E 1)))) (\<lambda>_. ret None))
               (\<lambda>prompt. ret (Some (lease, prompt)))))"

end
