(* ===== verification/Control_Frame.thy ===== *)
theory Control_Frame
  imports Control_Api App_Properties
begin

text \<open>
  The control plane as a system of interleaving requests: what a session with a connector writes, the
  step relation of requests and executions under way, and the contract under which a predicate of the
  shared state survives every handler.
\<close>

section \<open>What a session writes\<close>

lemma send_json_sent: "send_json P v s = (r, t) \<Longrightarrow> mq_sent t = mq_sent s \<or> mq_sent t = mq_sent s @ [v]"
  by (auto simp: send_json_def Let_def split: if_splits)

lemma receive_response_sent: "receive_response P n s = (r, t) \<Longrightarrow> mq_sent t = mq_sent s"
  by (auto simp: receive_response_def split: prod.splits)

lemma writes_send [preserves_intros]: "v \<in> V \<Longrightarrow> preserves (\<lambda>s. set (mq_sent s) \<subseteq> W \<union> V) (send_json P v)"
  unfolding preserves_def by (auto dest!: send_json_sent)

lemma writes_receive [preserves_intros]: "preserves (\<lambda>s. set (mq_sent s) \<subseteq> W \<union> V) (receive_response P n)"
  unfolding preserves_def using receive_response_sent by metis

lemma exchange_writes:
  "preserves (\<lambda>s. set (mq_sent s) \<subseteq> W \<union> V) (exchange X P)"
  if "{initialize_message P, initialized_message, list_message} \<subseteq> V"
  using that unfolding exchange_def by (intro preserves_intros) auto

lemma call_exchange_writes:
  "preserves (\<lambda>s. set (mq_sent s) \<subseteq> W \<union> V) (call_exchange X P tool parameters ro)"
  if "{initialize_message P, initialized_message, list_message, call_message tool parameters} \<subseteq> V"
  using that unfolding call_exchange_def by (intro preserves_intros exchange_writes) auto

lemma call_message_inject:
  "call_message t a = call_message u b \<longleftrightarrow> t = u \<and> a = b"
  "call_message t a \<noteq> initialize_message P" "call_message t a \<noteq> initialized_message" "call_message t a \<noteq> list_message"
  by (auto simp: call_message_def initialize_message_def initialized_message_def list_message_def)

lemma call_tool_writes:
  assumes "call_tool X P config tool parameters ro = (r, sent)" and "call_message t a \<in> set sent"
  shows "t = tool \<and> a = parameters"
proof -
  let ?V = "{initialize_message P, initialized_message, list_message, call_message tool parameters}"
  from assms obtain s where s: "call_exchange X P tool parameters ro new_session = (r, s)" "sent = mq_sent s"
    by (auto simp: call_tool_def in_process_def split: if_splits prod.splits)
  have "preserves (\<lambda>s. set (mq_sent s) \<subseteq> {} \<union> ?V) (call_exchange X P tool parameters ro)"
    by (rule call_exchange_writes) simp
  from preservesD [OF this s(1)] s(2) have "set sent \<subseteq> ?V" by (simp add: new_session_def)
  with assms(2) have "call_message t a \<in> ?V" by (rule subsetD [rotated])
  then show ?thesis using call_message_inject by simp
qed

text \<open>A session asks for a tool at most once.\<close>

definition is_tool_call :: "json \<Rightarrow> bool" where
  "is_tool_call m = (get_str m ''method'' = Some ''tools/call'')"

definition tool_calls :: "json list \<Rightarrow> nat" where
  "tool_calls sent = length (filter is_tool_call sent)"

lemma tool_call_messages [simp]:
  "\<not> is_tool_call (initialize_message P)" "\<not> is_tool_call initialized_message" "\<not> is_tool_call list_message"
  "is_tool_call (call_message t a)"
  by (simp_all add: is_tool_call_def get_str_def initialize_message_def initialized_message_def list_message_def call_message_def)

lemma tool_calls_append [simp]: "tool_calls (sent @ [m]) = tool_calls sent + (if is_tool_call m then 1 else 0)"
  by (simp add: tool_calls_def)

lemma calls_send [preserves_intros]: "\<not> is_tool_call v \<Longrightarrow> preserves (\<lambda>s. tool_calls (mq_sent s) = n) (send_json P v)"
  unfolding preserves_def by (auto dest!: send_json_sent)

lemma calls_receive [preserves_intros]: "preserves (\<lambda>s. tool_calls (mq_sent s) = n) (receive_response P k)"
  unfolding preserves_def using receive_response_sent by metis

lemma exchange_calls: "preserves (\<lambda>s. tool_calls (mq_sent s) = n) (exchange X P)"
  unfolding exchange_def by (intro preserves_intros) auto

lemma call_exchange_calls:
  assumes "call_exchange X P tool parameters ro s = (r, t)"
  shows "tool_calls (mq_sent t) \<le> Suc (tool_calls (mq_sent s))"
proof -
  obtain q u where u: "exchange X P s = (q, u)" by fastforce
  have "mq_sent t = mq_sent u \<or> mq_sent t = mq_sent u @ [call_message tool parameters]"
    using assms u
    by (auto simp: call_exchange_def bnd_def lift_res_def fail_with_def split: prod.splits sum.splits if_splits
        dest!: send_json_sent receive_response_sent)
  moreover have "tool_calls (mq_sent u) = tool_calls (mq_sent s)" by (rule preservesD [OF exchange_calls u refl])
  ultimately show ?thesis by auto
qed

lemma call_capability_calls: "call_capability X P R capability parameters = (r, sent) \<Longrightarrow> tool_calls sent \<le> 1"
  by (auto simp: call_capability_def call_tool_def in_process_def new_session_def tool_calls_def res_simps
      split: sum.splits prod.splits if_splits dest!: call_exchange_calls)

text \<open>The mapping from capabilities to tools, and what a call of a capability can write.\<close>

definition mapped_call :: "string \<Rightarrow> json \<Rightarrow> string \<Rightarrow> json \<Rightarrow> bool" where
  "mapped_call capability parameters tool arguments =
     (\<exists>m. github_mapping capability = Some m \<and> gm_tool m = tool \<and> github_arguments m parameters = Inr arguments)"

lemma call_capability_writes:
  assumes "call_capability X P R capability parameters = (r, sent)" and "call_message t a \<in> set sent"
  shows "mapped_call capability parameters t a"
proof -
  from assms obtain m args process e where m: "github_mapping capability = Some m" "github_arguments m parameters = Inr args"
    and c: "call_tool X P process (gm_tool m) args (gm_read_only m) = (e, sent)"
    by (auto simp: call_capability_def res_simps split: sum.splits prod.splits)
  from call_tool_writes [OF c assms(2)] m show ?thesis by (simp add: mapped_call_def)
qed

lemma mapped_write: "mapped_call capability parameters ''issue_write'' a \<Longrightarrow> capability = ''github.issue.create''"
  by (auto simp: mapped_call_def github_mapping_def split: if_splits)

lemma mapped_arguments:
  assumes "mapped_call ''github.issue.create'' parameters t a"
  obtains entries where "parameters = JObject entries" "a = JObject (bm_insert ''method'' (JString ''create'') entries)"
  using assms by (auto simp: mapped_call_def github_mapping_def github_arguments_def split: json.splits if_splits)

lemma mapped_create: "mapped_call ''github.issue.create'' parameters t a \<Longrightarrow> t = ''issue_write''"
  by (auto simp: mapped_call_def github_mapping_def)

section \<open>Requests that interleave\<close>

text \<open>
  The requests that change the state. The execution of an approved capability waits for the database and
  the connector between its phases, so it is a flight that other requests overtake; every other request
  is one step, as are the calls the worker and other processes make to the store.
\<close>

datatype api_request =
    ReqInstall string
  | ReqEnable string bool
  | ReqSettings string
  | ReqInvoke request_env string string invoke_request
  | ReqDecide request_env string uuid decision_body approval_decision
  | ReqCreateRun request_env string create_run_request
  | ReqCancel request_env string uuid
  | ReqTools request_env string nat
  | ReqClaim request_env actor_id lease_token
  | ReqReady bool
  | ReqOther store_call

fun serve :: "api_context \<Rightarrow> api_request \<Rightarrow> api_state \<Rightarrow> api_state" where
  "serve C (ReqInstall aid) s = snd (install_app C aid s)"
| "serve C (ReqEnable aid enabled) s = snd (set_app_enabled C aid enabled s)"
| "serve C (ReqSettings runtime) s = snd (update_admin_settings runtime s)"
| "serve C (ReqInvoke E aid capability request) s = snd (invoke_capability C E aid capability request s)"
| "serve C (ReqDecide E actor u body decision) s = snd (api_decide_approval C E actor u body decision s)"
| "serve C (ReqCreateRun E actor request) s = snd (api_create_run C E actor request s)"
| "serve C (ReqCancel E actor u) s = snd (api_cancel_run C E actor u s)"
| "serve C (ReqTools E cid now) s = snd (list_connector_tools C E cid now s)"
| "serve C (ReqClaim E owner token) s = snd (claim_with_prompt C E owner token s)"
| "serve C (ReqReady up) s = s\<lparr>api_worker_ready := up\<rparr>"
| "serve C (ReqOther call) s = s\<lparr>api_store := snd (exec_call (cx_ext C) call (api_store s))\<rparr>"

datatype flight =
    LoadedFlight request_env u64 loaded_execution
  | PreparedFlight request_env prepared_execution
  | ReservedFlight request_env prepared_execution
  | PerformedFlight request_env prepared_execution json

definition continue_as :: "('a \<Rightarrow> flight) \<Rightarrow> (api_error + 'a) \<times> api_state \<Rightarrow> flight option \<times> api_state" where
  "continue_as k out = (case fst out of Inl _ \<Rightarrow> None | Inr x \<Rightarrow> Some (k x), snd out)"

fun advance :: "api_context \<Rightarrow> flight \<Rightarrow> api_state \<Rightarrow> flight option \<times> api_state" where
  "advance C (LoadedFlight E revision loaded) s =
     continue_as (PreparedFlight E) (claim_capability_execution C E revision loaded s)"
| "advance C (PreparedFlight E prepared) s =
     continue_as (\<lambda>_. ReservedFlight E prepared) (reserve_capability_execution E (pe_row prepared) s)"
| "advance C (ReservedFlight E prepared) s =
     continue_as (PerformedFlight E prepared) (perform_capability C E prepared s)"
| "advance C (PerformedFlight E prepared output) s =
     (None, snd (finalize_capability_execution C E prepared output s))"

record system =
  sys_api :: api_state
  sys_flights :: "flight list"

inductive api_step :: "api_context \<Rightarrow> system \<Rightarrow> system \<Rightarrow> bool" for C where
  request: "api_step C \<lparr>sys_api = s, sys_flights = fs\<rparr> \<lparr>sys_api = serve C q s, sys_flights = fs\<rparr>"
| execute: "load_capability_execution C E u revision actor s = (Inr loaded, t) \<Longrightarrow>
    api_step C \<lparr>sys_api = s, sys_flights = fs\<rparr> \<lparr>sys_api = t, sys_flights = LoadedFlight E revision loaded # fs\<rparr>"
| flight: "advance C f s = (g, t) \<Longrightarrow>
    api_step C \<lparr>sys_api = s, sys_flights = ps @ f # qs\<rparr>
      \<lparr>sys_api = t, sys_flights = ps @ (case g of None \<Rightarrow> [] | Some g \<Rightarrow> [g]) @ qs\<rparr>"

inductive_cases api_step_elim: "api_step C a b"

definition initial_api :: api_state where
  "initial_api = \<lparr>api_store = empty_state, api_prompts = [], api_installed = [], api_settings = default_settings,
     api_actions = [], api_executions = [], api_worker_ready = False, api_cache = [], api_calls = []\<rparr>"

definition api_reachable :: "api_context \<Rightarrow> system \<Rightarrow> bool" where
  "api_reachable C sys = (api_step C)\<^sup>*\<^sup>* \<lparr>sys_api = initial_api, sys_flights = []\<rparr> sys"

section \<open>What handlers keep\<close>

definition stepping :: "ext \<Rightarrow> 'a store_op \<Rightarrow> bool" where
  "stepping X m = (\<forall>s r t. m s = (r, t) \<longrightarrow> (store_step X)\<^sup>*\<^sup>* s t)"

lemma stepping_call: "exec_call X c = outcome m \<Longrightarrow> stepping X m"
  unfolding stepping_def using outcome_step by (metis r_into_rtranclp)

lemma stepping_reading: "reading m \<Longrightarrow> stepping X m"
  unfolding stepping_def reading_def by (metis rtranclp.rtrancl_refl snd_conv)

lemma stepping_calls [preserves_intros]:
  "stepping X (transition_run X eid rid rv nxt why entry)"
  "stepping X (consume_approval X eid eid' p rv act actor now)"
  "stepping X (claim_next_run X eid token owner now ttl)"
  "stepping X (reconcile_action_execution X eid rc entry)"
  "stepping X (create_run X eid r entry)"
  "stepping X (create_approval X eid q actor now)"
  "stepping X (decide_approval X eid p rv dec actor why now)"
  "stepping X (request_cancel X eid rid actor now)"
  "stepping X (complete_leased_run X eid lease rv nxt why now)"
  by (rule stepping_call, rule exec_call.simps)+

lemma stepping_reads [preserves_intros]:
  "stepping X (get_run rid)" "stepping X (get_approval p)" "stepping X (get_action_claim a)"
  "stepping X (verify_claimed X' action claim)"
  by (rule stepping_reading, auto simp: get_run_def get_approval_def get_action_claim_def verify_claimed_def reading_def
      op_defs split: if_splits)+

lemma stepping_orchestrator [preserves_intros]: "stepping X (orchestrator_create_run X F rid eid runtime workspace actor prompt now)"
  unfolding orchestrator_create_run_def
  using stepping_calls(5) [of X eid _ "new_audit_append actor now"]
  by (auto simp: stepping_def op_defs ok_or_def split: option.splits)

lemma preserves_fate [preserves_intros]: "preserves P m \<Longrightarrow> preserves P (with_fate f err m)"
  unfolding preserves_def with_fate_def by (auto split: fate.splits) (metis prod.collapse)

lemma preserves_map_error [preserves_intros]: "preserves P m \<Longrightarrow> preserves P (map_error g m)"
  unfolding preserves_def map_error_def by (auto split: prod.splits sum.splits)

lemma preserves_match [preserves_intros]:
  assumes m: "preserves P m" and h: "preserves P h" and k: "\<And>x. preserves P (k x)"
  shows "preserves P (match_result m h k)"
  unfolding preserves_def [of P "match_result m h k"]
proof (intro allI impI)
  fix s r t
  assume s: "P s" and e: "match_result m h k s = (r, t)"
  obtain q u where q: "m s = (q, u)" by (cases "m s")
  have u: "P u" by (rule preservesD [OF m q s])
  show "P t"
  proof (cases q)
    case (Inl d)
    with e q have "h u = (r, t)" by (simp add: match_result_def)
    then show ?thesis by (rule preservesD [OF h _ u])
  next
    case (Inr x)
    with e q have "k x u = (r, t)" by (simp add: match_result_def)
    then show ?thesis by (rule preservesD [OF k _ u])
  qed
qed

lemma preserves_lifted [preserves_intros]:
  "(\<And>x. r = Inr x \<Longrightarrow> preserves P (f x)) \<Longrightarrow> preserves P (bnd (lift_res r) f)"
  unfolding preserves_def by (cases r) (auto simp: op_defs)

lemma preserves_in_sql [preserves_intros]: "preserves P m \<Longrightarrow> preserves P (in_sql f m)"
  unfolding in_sql_def by (rule preserves_fate)

lemma preserves_result: "preserves P m \<Longrightarrow> P s \<Longrightarrow> P (snd (m s))"
  using preservesD [of P m s "fst (m s)" "snd (m s)"] by simp

definition issue_create_needs_approval :: "api_context \<Rightarrow> bool" where
  \<comment> \<open>the manifests declare the capability with an external effect\<close>
  "issue_create_needs_approval C =
     (\<forall>(k, app) \<in> set (cx_apps C). \<forall>d \<in> set (av_capabilities app).
        cap_str (cd_id d) = ''github.issue.create'' \<longrightarrow> needs_approval (cd_risk d))"

lemma checked_descriptor:
  "checked_invocation C aid capability request = Inr (app, d, connector) \<Longrightarrow> \<exists>k. (k, app) \<in> set (cx_apps C) \<and> d \<in> set (av_capabilities app)"
  by (auto simp: checked_invocation_def registered_app_def registry_get_def res_simps find_Some_iff
      split: if_splits app_provider.splits dest: map_of_SomeD)

inductive prompt_step :: "ext \<Rightarrow> prompt_delivery \<Rightarrow> prompt_entries \<Rightarrow> prompt_entries \<Rightarrow> bool" for X D where
  registers: "register_prompt X D rid expected bytes now es = (r, es') \<Longrightarrow> prompt_step X D es es'"
| takes: "take_prompt rid expected now es = (r, es') \<Longrightarrow> prompt_step X D es es'"
| purges: "purge_expired now es = (r, es') \<Longrightarrow> prompt_step X D es es'"

inductive_cases prompt_step_elim: "prompt_step X D es es'"

text \<open>
  What a predicate has to bear for every handler to keep it: steps of the store and of the prompts, more
  reservations, sessions opened without approval, and any change of the rest. The sessions of approved
  actions are left to the flights.
\<close>

locale handler_frame =
  fixes C :: api_context and P :: "api_state \<Rightarrow> bool"
  assumes store_moves: "P s \<Longrightarrow> (store_step (cx_ext C))\<^sup>*\<^sup>* (api_store s) st \<Longrightarrow> P (s\<lparr>api_store := st\<rparr>)"
    and prompts_move: "P s \<Longrightarrow> prompt_step (cx_ext C) (cx_prompts C) (api_prompts s) es \<Longrightarrow> P (s\<lparr>api_prompts := es\<rparr>)"
    and executions_grow: "P s \<Longrightarrow> \<forall>u. bm_contains (api_executions s) u \<longrightarrow> bm_contains xs u \<Longrightarrow> P (s\<lparr>api_executions := xs\<rparr>)"
    and direct_call: "P s \<Longrightarrow> issue_create_needs_approval C \<longrightarrow> cap \<noteq> ''github.issue.create'' \<Longrightarrow>
      P (s\<lparr>api_calls := api_calls s
        @ [(DirectCall cap, snd (call_capability (cx_ext C) peer (cx_connectors C) cap parameters))]\<rparr>)"
    and installed_free: "P s \<Longrightarrow> P (s\<lparr>api_installed := i\<rparr>)"
    and settings_free: "P s \<Longrightarrow> P (s\<lparr>api_settings := se\<rparr>)"
    and actions_free: "P s \<Longrightarrow> P (s\<lparr>api_actions := rows\<rparr>)"
    and cache_free: "P s \<Longrightarrow> P (s\<lparr>api_cache := ca\<rparr>)"
    and ready_free: "P s \<Longrightarrow> P (s\<lparr>api_worker_ready := w\<rparr>)"
begin

lemma keeps_store [preserves_intros]: "stepping (cx_ext C) m \<Longrightarrow> preserves P (on_api_store m)"
  unfolding preserves_def on_api_store_def stepping_def using store_moves by (auto split: prod.splits)

lemma keeps_in_store [preserves_intros]: "stepping (cx_ext C) m \<Longrightarrow> preserves P (in_store f g m)"
  unfolding in_store_def by (intro preserves_intros)

lemma keeps_prompts [preserves_intros]:
  "preserves P (on_prompts (register_prompt (cx_ext C) (cx_prompts C) rid expected bytes now))"
  "preserves P (on_prompts (take_prompt rid expected now))"
  "preserves P (on_prompts (purge_expired now))"
  unfolding preserves_def on_prompts_def
  by (auto split: prod.splits intro: prompts_move prompt_step.intros)

lemma keeps_rows [preserves_intros]:
  "preserves P (insert_action_row jsonb row)" "preserves P (find_action_row u)"
  "preserves P (insert_execution u hash)" "preserves P (update_started u st)"
  unfolding preserves_def insert_action_row_def find_action_row_def insert_execution_def update_started_def
  by (auto simp: Let_def op_defs actions_free split: option.splits if_splits intro!: executions_grow)

lemma keeps_create_approval: "preserves P (create_capability_approval C E actor app capability resource parameters)"
  unfolding create_capability_approval_def Let_def record_capability_action_def by (intro preserves_intros)

lemma keeps_direct:
  "issue_create_needs_approval C \<longrightarrow> cap_str cap \<noteq> ''github.issue.create'' \<Longrightarrow> preserves P (dispatch_direct C E cap parameters)"
  unfolding dispatch_direct_def
  by (intro preserves_map_error) (auto simp: preserves_def trace_call_def intro: direct_call)

lemma keeps_invoke: "preserves P (invoke_capability C E aid capability request)"
  unfolding invoke_capability_def
proof (rule preserves_lifted)
  fix x
  assume x: "checked_invocation C aid capability request = Inr x"
  obtain app d connector where xs: "x = (app, d, connector)" by (cases x)
  from checked_descriptor [OF x [unfolded xs]]
  have c: "\<not> needs_approval (cd_risk d) \<Longrightarrow> issue_create_needs_approval C \<longrightarrow> cap_str (cd_id d) \<noteq> ''github.issue.create''"
    unfolding issue_create_needs_approval_def by blast
  show "preserves P (case x of (app, descriptor, connector) \<Rightarrow>
      let app_key = app_str (md_id (av_metadata app)); cap = cd_id descriptor
      in bnd (check (\<lambda>s. case bm_get (api_installed s) app_key of None \<Rightarrow> False | Some i \<Rightarrow> ia_enabled i)
          (conflict ''app_not_enabled'')) (\<lambda>_.
        if needs_approval (cd_risk descriptor)
        then
          if cap_str cap \<noteq> ''github.issue.create'' \<or> connector \<noteq> ''github''
          then fail_with (unavailable ''capability_dispatch_unavailable'')
          else
            bnd (lift_res (validate_github_issue_create (iv_parameters request))) (\<lambda>_.
            bnd (lift_res (map_err (\<lambda>_. internal) (parse_actor_id (cx_actor_id C)))) (\<lambda>actor.
            bnd (create_capability_approval C E actor app_key (cap_str cap) (iv_resource request) (iv_parameters request)) (\<lambda>approval.
            ret (ApprovalRequired (md_id (av_metadata app)) cap (cd_risk descriptor) approval))))
        else if connector \<noteq> ''github'' then fail_with (unavailable ''capability_dispatch_unavailable'')
        else
          bnd (dispatch_direct C E cap (iv_parameters request)) (\<lambda>output.
          ret (Completed (md_id (av_metadata app)) cap output))))"
    unfolding xs prod.case Let_def by (intro preserves_intros keeps_create_approval keeps_direct c)
qed

lemma keeps_applications:
  "preserves P (install_app C aid)" "preserves P (set_app_enabled C aid enabled)" "preserves P (update_admin_settings runtime)"
  unfolding install_app_def set_app_enabled_def update_admin_settings_def Let_def
  by (intro preserves_intros preserves_modify; simp add: installed_free settings_free)+

lemma keeps_decide: "preserves P (api_decide_approval C E actor u body decision)"
  unfolding api_decide_approval_def by (intro preserves_intros)

lemma keeps_cancel: "preserves P (api_cancel_run C E actor u)"
  unfolding api_cancel_run_def coordinate_cancel_def
  by (intro preserves_intros) (auto intro: preserves_intros split: cancellation_outcome.splits)

lemma keeps_publish: "preserves P (create_and_publish C E runtime workspace actor prompt)"
  unfolding create_and_publish_def by (intro preserves_intros)

lemma keeps_claim: "preserves P (claim_with_prompt C E owner token)"
  unfolding claim_with_prompt_def Let_def
  by (intro preserves_intros preserves_case_option preserves_modify preserves_result [OF keeps_prompts(3)])

lemma keeps_create_run: "preserves P (api_create_run C E actor request)"
  unfolding api_create_run_def by (intro preserves_intros keeps_publish)

lemma keeps_tools: "preserves P (list_connector_tools C E cid now)"
  unfolding preserves_def list_connector_tools_def by (auto split: prod.splits intro: cache_free)

lemma keeps_other: "P s \<Longrightarrow> P (s\<lparr>api_store := snd (exec_call (cx_ext C) call (api_store s))\<rparr>)"
  by (rule store_moves, assumption, rule r_into_rtranclp)
    (rule store_step.call [of _ call _ "fst (exec_call (cx_ext C) call (api_store s))"], simp)

lemma serve_keeps: "P s \<Longrightarrow> P (serve C q s)"
  by (cases q) (simp_all add: preserves_result keeps_applications keeps_invoke keeps_decide keeps_create_run keeps_cancel
      keeps_tools keeps_claim keeps_other ready_free)

lemma keeps_fail_run [preserves_intros]: "preserves P (fail_capability_run C E rid actor)"
  unfolding fail_capability_run_def by (intro preserves_intros preserves_case_option)

lemma keeps_load: "preserves P (load_capability_execution C E u revision actor)"
  unfolding load_capability_execution_def Let_def by (intro preserves_intros)

lemma keeps_claim_execution: "preserves P (claim_capability_execution C E revision loaded)"
  unfolding claim_capability_execution_def Let_def
  by (cases loaded) (auto intro!: preserves_intros split: approval_status.splits)

lemma keeps_reserve: "preserves P (reserve_capability_execution E row)"
  unfolding reserve_capability_execution_def by (intro preserves_intros)

lemma keeps_uncertain [preserves_intros]: "preserves P (mark_capability_execution_uncertain E u)"
  unfolding mark_capability_execution_uncertain_def by (intro preserves_intros)

lemma keeps_finalize: "preserves P (finalize_capability_execution C E prepared output)"
  unfolding finalize_capability_execution_def action_parameter_hash_from_store_def Let_def by (intro preserves_intros)

lemma keeps_performed:
  assumes "perform_capability C E p s = (r, t)"
    and "P (s\<lparr>api_calls := api_calls s @ [(ApprovedCall (pe_prepared_action p),
      snd (execute_claimed_github_capability (cx_ext C) (rq_peer E) (cx_connectors C) (pe_claimed p)))]\<rparr>)"
  shows "P t"
proof (cases "fst (execute_claimed_github_capability (cx_ext C) (rq_peer E) (cx_connectors C) (pe_claimed p))")
  case (Inl e)
  have "preserves P (bnd (mark_capability_execution_uncertain E (rw_action_id (pe_row p))) (\<lambda>_.
      bnd (fail_capability_run C E (pe_prepared_run p) (pe_actor p)) (\<lambda>_.
      fail_with (unavailable ''connector_execution_uncertain'')) :: json api_op))"
    by (intro preserves_intros)
  from preservesD [OF this _ assms(2)] assms(1) Inl show ?thesis
    by (simp add: perform_capability_def match_result_def trace_call_def)
next
  case (Inr x)
  with assms show ?thesis by (simp add: perform_capability_def match_result_def trace_call_def ret_def)
qed

end

end
