(* ===== verification/Control_Properties.thy ===== *)
theory Control_Properties
  imports Control_Frame
begin

text \<open>
  What the control plane promises about effects outside the system: a connector is asked to write only
  on behalf of an action whose approval was consumed for exactly these parameters, and at most once,
  however requests and other users of the store interleave.
\<close>

section \<open>What requests leave alone\<close>

definition direct_ok :: "call_origin \<Rightarrow> json list \<Rightarrow> bool" where
  \<comment> \<open>a call without approval names a tool of a capability that only reads\<close>
  "direct_ok origin sent =
     (\<exists>capability parameters. origin = DirectCall capability \<and> capability \<noteq> ''github.issue.create''
        \<and> (\<forall>t a. call_message t a \<in> set sent \<longrightarrow> mapped_call capability parameters t a))"

definition kept :: "ext \<Rightarrow> api_state \<Rightarrow> api_state \<Rightarrow> bool" where
  "kept X s t =
     ((store_step X)\<^sup>*\<^sup>* (api_store s) (api_store t)
      \<and> (\<forall>u. bm_contains (api_executions s) u \<longrightarrow> bm_contains (api_executions t) u)
      \<and> (\<exists>new. api_calls t = api_calls s @ new \<and> (\<forall>(origin, sent) \<in> set new. direct_ok origin sent)))"

lemma kept_refl: "kept X s s"
  by (simp add: kept_def)

lemma kept_frame:
  assumes "issue_create_needs_approval C"
  shows "handler_frame C (kept (cx_ext C) s0)"
proof
  fix s cap peer parameters
  assume k: "kept (cx_ext C) s0 s" and "issue_create_needs_approval C \<longrightarrow> cap \<noteq> ''github.issue.create''"
  with assms have "cap \<noteq> ''github.issue.create''" by blast
  then have "direct_ok (DirectCall cap) (snd (call_capability (cx_ext C) peer (cx_connectors C) cap parameters))"
    unfolding direct_ok_def using call_capability_writes [OF prod.collapse [symmetric]] by blast
  with k show "kept (cx_ext C) s0 (s\<lparr>api_calls := api_calls s
      @ [(DirectCall cap, snd (call_capability (cx_ext C) peer (cx_connectors C) cap parameters))]\<rparr>)"
    by (auto simp: kept_def)
qed (auto simp: kept_def)

section \<open>The invariant\<close>

definition uuid_roundtrip :: "ext \<Rightarrow> bool" where
  \<comment> \<open>a printed identifier reads back as itself\<close>
  "uuid_roundtrip X = (\<forall>u. uuid_parse_str X (uuid_hyphenated X u) = Some u)"

definition claimed_ok :: "ext \<Rightarrow> state \<Rightarrow> action_id \<Rightarrow> claimed_action \<Rightarrow> bool" where
  "claimed_ok X st a c =
     (ac_id (ca_action c) = a \<and> parameters_match_hash X (ca_action c)
      \<and> ac_run_id (ca_action c) = cl_run_id (ca_claim c) \<and> ac_parameter_hash (ca_action c) = cl_parameter_hash (ca_claim c)
      \<and> bm_get (st_action_claims st) a = Some (ca_claim c))"

definition prepared_ok :: "ext \<Rightarrow> state \<Rightarrow> prepared_execution \<Rightarrow> bool" where
  "prepared_ok X st p =
     (pe_prepared_action p = UuidV7 (rw_action_id (pe_row p)) \<and> claimed_ok X st (pe_prepared_action p) (pe_claimed p))"

fun flight_ok :: "ext \<Rightarrow> state \<Rightarrow> flight \<Rightarrow> bool" where
  "flight_ok X st (LoadedFlight _ _ (_, row, action, _, _)) = (ac_id action = UuidV7 (rw_action_id row))"
| "flight_ok X st (PreparedFlight _ p) = prepared_ok X st p"
| "flight_ok X st (ReservedFlight _ p) = prepared_ok X st p"
| "flight_ok X st (PerformedFlight _ p _) = prepared_ok X st p"

definition call_ok :: "ext \<Rightarrow> state \<Rightarrow> call_origin \<Rightarrow> json list \<Rightarrow> bool" where
  "call_ok X st origin sent =
     (direct_ok origin sent
      \<or> (\<exists>a c. origin = ApprovedCall a \<and> claimed_ok X st a c \<and> tool_calls sent \<le> 1
           \<and> (\<forall>t args. call_message t args \<in> set sent \<longrightarrow>
                ac_action (ca_action c) = ''github.issue.create''
                \<and> mapped_call ''github.issue.create'' (ac_parameters (ca_action c)) t args)))"

fun reserves :: "action_id \<Rightarrow> flight \<Rightarrow> bool" where
  "reserves a (ReservedFlight _ p) = (pe_prepared_action p = a)"
| "reserves a _ = False"

definition approved_calls :: "action_id \<Rightarrow> api_state \<Rightarrow> nat" where
  "approved_calls a s = length (filter (\<lambda>(origin, _). origin = ApprovedCall a) (api_calls s))"

definition approved_requests :: "action_id \<Rightarrow> api_state \<Rightarrow> nat" where
  \<comment> \<open>how often a connector was asked for a tool on behalf of an approved action, over all sessions\<close>
  "approved_requests a s = tool_calls (concat (map snd (filter (\<lambda>(origin, _). origin = ApprovedCall a) (api_calls s))))"

lemma approved_requests_once:
  assumes "approved_calls a s \<le> 1" and "\<forall>(origin, sent) \<in> set (api_calls s). origin = ApprovedCall a \<longrightarrow> tool_calls sent \<le> 1"
  shows "approved_requests a s \<le> 1"
proof -
  let ?cs = "filter (\<lambda>(origin, _). origin = ApprovedCall a) (api_calls s)"
  from assms(1) have "length ?cs \<le> 1" by (simp add: approved_calls_def)
  then consider "?cs = []" | c where "?cs = [c]" by (cases ?cs) auto
  then show ?thesis
  proof cases
    case (2 c)
    then have "c \<in> set ?cs" by simp
    with assms(2) have "tool_calls (snd c) \<le> 1" by auto
    with 2 show ?thesis by (simp add: approved_requests_def)
  qed (simp add: approved_requests_def tool_calls_def)
qed

definition sys_inv :: "api_context \<Rightarrow> system \<Rightarrow> bool" where
  "sys_inv C sys =
     (let s = sys_api sys; fs = sys_flights sys
      in reachable (cx_ext C) (api_store s)
         \<and> (\<forall>a. length (filter (reserves a) fs) + approved_calls a s \<le> (if bm_contains (api_executions s) (uuid_of a) then 1 else 0))
         \<and> (\<forall>f \<in> set fs. flight_ok (cx_ext C) (api_store s) f)
         \<and> (\<forall>(origin, sent) \<in> set (api_calls s). call_ok (cx_ext C) (api_store s) origin sent))"

lemma later_claimed_ok: "succeeds st st' \<Longrightarrow> claimed_ok X st a c \<Longrightarrow> claimed_ok X st' a c"
  by (auto simp: claimed_ok_def intro: later_claim)

lemma later_flight_ok: "succeeds st st' \<Longrightarrow> flight_ok X st f \<Longrightarrow> flight_ok X st' f"
  by (cases f) (auto simp: prepared_ok_def later_claimed_ok elim: flight_ok.elims)

lemma later_call_ok: "succeeds st st' \<Longrightarrow> call_ok X st origin sent \<Longrightarrow> call_ok X st' origin sent"
  unfolding call_ok_def using later_claimed_ok by blast

lemma kept_inv:
  assumes "sys_inv C \<lparr>sys_api = s, sys_flights = fs\<rparr>" and "kept (cx_ext C) s t"
  shows "sys_inv C \<lparr>sys_api = t, sys_flights = fs\<rparr>"
    and "succeeds (api_store s) (api_store t)"
proof -
  let ?X = "cx_ext C"
  from assms(1) have r: "reachable ?X (api_store s)" by (simp add: sys_inv_def)
  from assms(2) obtain new where k: "(store_step ?X)\<^sup>*\<^sup>* (api_store s) (api_store t)"
    "\<forall>u. bm_contains (api_executions s) u \<longrightarrow> bm_contains (api_executions t) u"
    "api_calls t = api_calls s @ new" "\<forall>(origin, sent) \<in> set new. direct_ok origin sent"
    unfolding kept_def by blast
  show su: "succeeds (api_store s) (api_store t)" using reachable_later [OF r k(1)] by blast
  have "approved_calls a t = approved_calls a s" for a
    using k(4) by (auto simp: approved_calls_def k(3) direct_ok_def filter_empty_conv)
  moreover have "length (filter (reserves a) fs) + approved_calls a s \<le> (if bm_contains (api_executions t) (uuid_of a) then 1 else 0)" for a
  proof -
    from assms(1) have "length (filter (reserves a) fs) + approved_calls a s \<le> (if bm_contains (api_executions s) (uuid_of a) then 1 else 0)"
      by (simp add: sys_inv_def Let_def)
    moreover have "\<dots> \<le> (if bm_contains (api_executions t) (uuid_of a) then 1 else 0 :: nat)" using k(2) by simp
    ultimately show ?thesis by (rule order_trans)
  qed
  moreover have "\<forall>f \<in> set fs. flight_ok ?X (api_store t) f"
    using assms(1) later_flight_ok [OF su] by (simp add: sys_inv_def Let_def)
  moreover have "\<forall>(origin, sent) \<in> set (api_calls t). call_ok ?X (api_store t) origin sent"
  proof -
    have "\<forall>(origin, sent) \<in> set (api_calls s). call_ok ?X (api_store t) origin sent"
      using assms(1) later_call_ok [OF su] by (auto simp: sys_inv_def Let_def)
    moreover have "\<forall>(origin, sent) \<in> set new. call_ok ?X (api_store t) origin sent" using k(4) by (auto simp: call_ok_def)
    ultimately show ?thesis unfolding k(3) by auto
  qed
  ultimately show "sys_inv C \<lparr>sys_api = t, sys_flights = fs\<rparr>"
    using reachable_later [OF r k(1)] by (simp add: sys_inv_def Let_def)
qed

section \<open>The phases of an execution\<close>

lemma in_store_ok: "in_store f g m s = (Inr x, t) \<Longrightarrow> m (api_store s) = (Inr x, api_store t)"
  by (auto simp: in_store_def map_error_def with_fate_def on_api_store_def split: fate.splits prod.splits sum.splits)

lemma loaded_ok:
  assumes "uuid_roundtrip (cx_ext C)" and "load_capability_execution C E u revision actor s = (Inr loaded, t)"
  shows "flight_ok (cx_ext C) st (LoadedFlight E revision loaded)"
proof -
  obtain pid row action approval trusted where l: "loaded = (pid, row, action, approval, trusted)" by (cases loaded)
  from assms(2) l have "rebuild_action (cx_ext C) row = Inr action"
    by (auto simp: load_capability_execution_def Let_def res_simps split: if_splits)
  then have "ac_id action = UuidV7 (rw_action_id row)"
    using assms(1)
    by (auto simp: rebuild_action_def res_simps new_action_request_def parse_id_def uuid_roundtrip_def map_err_def
        split: if_splits sum.splits)
  then show ?thesis by (simp add: l)
qed

lemma claimed_prepared_ok:
  assumes "claim_capability_execution C E revision (pid, row, action, approval, trusted) s = (Inr p, t)"
    and "ac_id action = UuidV7 (rw_action_id row)"
  shows "prepared_ok (cx_ext C) (api_store t) p"
proof -
  from assms(1) obtain claim u claimed where v: "in_store (rq_fate E 3) (\<lambda>_. conflict ''approval_execution_rejected'')
      (verify_claimed (cx_ext C) action claim) u = (Inr claimed, t)"
    and p: "p = \<lparr>pe_row = row, pe_claimed = claimed, pe_prepared_action = ac_id action, pe_prepared_run = ac_run_id action, pe_actor = trusted\<rparr>"
    by (auto simp: claim_capability_execution_def Let_def res_simps)
  from in_store_ok [OF v] have "claimed = \<lparr>ca_action = action, ca_claim = claim\<rparr>" "claimed_ok (cx_ext C) (api_store t) (ac_id action) claimed"
    by (auto simp: verify_claimed_def get_action_claim_def claimed_ok_def res_simps split: if_splits)
  with assms(2) p show ?thesis by (simp add: prepared_ok_def)
qed

lemma reserved_new:
  assumes "reserve_capability_execution E row s = (r, t)"
  shows "api_store t = api_store s \<and> api_calls t = api_calls s
    \<and> (r = Inr () \<longrightarrow> \<not> bm_contains (api_executions s) (rw_action_id row) \<and> bm_contains (api_executions t) (rw_action_id row))"
  using assms
  by (cases "rq_fate E 4") (auto simp: reserve_capability_execution_def in_sql_def with_fate_def insert_execution_def op_defs
      split: if_splits)

lemma performed_calls:
  assumes "issue_create_needs_approval C" and "perform_capability C E p s = (r, t)"
  obtains sent where "kept (cx_ext C) (s\<lparr>api_calls := api_calls s @ [(ApprovedCall (pe_prepared_action p), sent)]\<rparr>) t"
    "tool_calls sent \<le> 1"
    "\<And>tool args. call_message tool args \<in> set sent \<Longrightarrow> ac_action (ca_action (pe_claimed p)) = ''github.issue.create''
       \<and> mapped_call ''github.issue.create'' (ac_parameters (ca_action (pe_claimed p))) tool args"
proof -
  let ?X = "cx_ext C"
  let ?out = "execute_claimed_github_capability ?X (rq_peer E) (cx_connectors C) (pe_claimed p)"
  have "ac_action (ca_action (pe_claimed p)) = ''github.issue.create''
       \<and> mapped_call ''github.issue.create'' (ac_parameters (ca_action (pe_claimed p))) tool args"
    if "call_message tool args \<in> set (snd ?out)" for tool args
  proof (cases "ac_action (ca_action (pe_claimed p)) = ''github.issue.create''")
    case True
    then have "call_capability ?X (rq_peer E) (cx_connectors C) ''github.issue.create'' (ac_parameters (ca_action (pe_claimed p))) = (fst ?out, snd ?out)"
      by (simp add: execute_claimed_github_capability_def)
    from call_capability_writes [OF this that] True show ?thesis by blast
  next
    case False
    with that show ?thesis by (simp add: execute_claimed_github_capability_def)
  qed
  moreover have "tool_calls (snd ?out) \<le> 1"
    using call_capability_calls [OF prod.collapse [symmetric]]
    by (auto simp: execute_claimed_github_capability_def tool_calls_def)
  ultimately show ?thesis
    using handler_frame.keeps_performed [OF kept_frame [OF assms(1)] assms(2) kept_refl] that by blast
qed

definition slots :: "api_state \<Rightarrow> action_id \<Rightarrow> nat" where
  "slots s a = (if bm_contains (api_executions s) (uuid_of a) then 1 else 0)"

lemma sys_inv_iff:
  "sys_inv C \<lparr>sys_api = s, sys_flights = fs\<rparr> \<longleftrightarrow> reachable (cx_ext C) (api_store s)
     \<and> (\<forall>a. length (filter (reserves a) fs) + approved_calls a s \<le> slots s a)
     \<and> (\<forall>f \<in> set fs. flight_ok (cx_ext C) (api_store s) f)
     \<and> (\<forall>(origin, sent) \<in> set (api_calls s). call_ok (cx_ext C) (api_store s) origin sent)"
  by (simp add: sys_inv_def Let_def slots_def)

lemma inv_flights:
  assumes "sys_inv C \<lparr>sys_api = s, sys_flights = fs\<rparr>" and "\<forall>g \<in> set gs. flight_ok (cx_ext C) (api_store s) g"
    and "\<And>a. length (filter (reserves a) gs) \<le> length (filter (reserves a) fs)"
  shows "sys_inv C \<lparr>sys_api = s, sys_flights = gs\<rparr>"
proof -
  have "length (filter (reserves a) gs) + approved_calls a s \<le> slots s a" for a
  proof -
    have "length (filter (reserves a) fs) + approved_calls a s \<le> slots s a" using assms(1) unfolding sys_inv_iff by blast
    with assms(3) [of a] show ?thesis by linarith
  qed
  with assms(1,2) show ?thesis unfolding sys_inv_iff by blast
qed

lemma inv_drop:
  assumes "sys_inv C \<lparr>sys_api = s, sys_flights = ps @ f # qs\<rparr>"
  shows "sys_inv C \<lparr>sys_api = s, sys_flights = ps @ qs\<rparr>"
proof (rule inv_flights [OF assms])
  show "\<forall>g \<in> set (ps @ qs). flight_ok (cx_ext C) (api_store s) g" using assms unfolding sys_inv_iff by simp
qed simp

lemma inv_replace:
  assumes "sys_inv C \<lparr>sys_api = s, sys_flights = ps @ f # qs\<rparr>" and "flight_ok (cx_ext C) (api_store s) g"
    and "\<And>a. \<not> reserves a g"
  shows "sys_inv C \<lparr>sys_api = s, sys_flights = ps @ g # qs\<rparr>"
proof (rule inv_flights [OF assms(1)])
  show "\<forall>g \<in> set (ps @ g # qs). flight_ok (cx_ext C) (api_store s) g" using assms(1,2) unfolding sys_inv_iff by simp
qed (use assms(3) in simp)

lemma flight_step_inv:
  assumes c: "issue_create_needs_approval C" and "sys_inv C \<lparr>sys_api = s, sys_flights = ps @ f # qs\<rparr>" and "advance C f s = (g, t)"
  shows "sys_inv C \<lparr>sys_api = t, sys_flights = ps @ (case g of None \<Rightarrow> [] | Some g \<Rightarrow> [g]) @ qs\<rparr>"
proof (cases f)
  case (LoadedFlight E revision loaded)
  obtain pid row action approval trusted where l: "loaded = (pid, row, action, approval, trusted)" by (cases loaded)
  obtain r where r: "claim_capability_execution C E revision loaded s = (r, t)"
    and g: "g = (case r of Inl _ \<Rightarrow> None | Inr p \<Rightarrow> Some (PreparedFlight E p))"
    using assms(3) LoadedFlight by (auto simp: continue_as_def prod_eq_iff)
  have k: "kept (cx_ext C) s t" by (rule preservesD [OF handler_frame.keeps_claim_execution [OF kept_frame [OF c]] r kept_refl])
  note i = kept_inv(1) [OF assms(2) k]
  show ?thesis
  proof (cases r)
    case (Inr p)
    have "ac_id action = UuidV7 (rw_action_id row)" using assms(2) LoadedFlight l by (simp add: sys_inv_def)
    from claimed_prepared_ok [OF r [unfolded l Inr] this] inv_replace [OF i, of "PreparedFlight E p"] Inr g
    show ?thesis by simp
  qed (use inv_drop [OF i] g in simp)
next
  case (PreparedFlight E p)
  obtain r where r: "reserve_capability_execution E (pe_row p) s = (r, t)"
    and g: "g = (case r of Inl _ \<Rightarrow> None | Inr _ \<Rightarrow> Some (ReservedFlight E p))"
    using assms(3) PreparedFlight by (auto simp: continue_as_def prod_eq_iff)
  note n = reserved_new [OF r]
  note i = kept_inv(1) [OF assms(2) preservesD [OF handler_frame.keeps_reserve [OF kept_frame [OF c]] r kept_refl]]
  show ?thesis
  proof (cases r)
    case (Inr x)
    have ok: "prepared_ok (cx_ext C) (api_store t) p" using i PreparedFlight by (simp add: sys_inv_def)
    have "length (filter (reserves a) (ps @ ReservedFlight E p # qs)) + approved_calls a t \<le> slots t a" for a
    proof (cases "a = pe_prepared_action p")
      case True
      then have u: "uuid_of a = rw_action_id (pe_row p)" using ok by (simp add: prepared_ok_def)
      with n Inr have z: "slots s a = 0" "slots t a = 1" by (simp_all add: slots_def)
      have "length (filter (reserves a) (ps @ f # qs)) + approved_calls a s \<le> slots s a" using assms(2) unfolding sys_inv_iff by blast
      with z n True PreparedFlight show ?thesis by (simp add: approved_calls_def)
    next
      case False
      have "length (filter (reserves a) (ps @ f # qs)) + approved_calls a t \<le> slots t a" using i unfolding sys_inv_iff by blast
      with False PreparedFlight show ?thesis by simp
    qed
    moreover have "\<forall>g \<in> set (ps @ ReservedFlight E p # qs). flight_ok (cx_ext C) (api_store t) g"
      using i ok unfolding sys_inv_iff by simp
    ultimately have "sys_inv C \<lparr>sys_api = t, sys_flights = ps @ ReservedFlight E p # qs\<rparr>" using i unfolding sys_inv_iff by blast
    with g Inr show ?thesis by simp
  qed (use inv_drop [OF i] g in simp)
next
  case (ReservedFlight E p)
  obtain r where r: "perform_capability C E p s = (r, t)"
    and g: "g = (case r of Inl _ \<Rightarrow> None | Inr out \<Rightarrow> Some (PerformedFlight E p out))"
    using assms(3) ReservedFlight by (auto simp: continue_as_def prod_eq_iff)
  let ?a = "pe_prepared_action p"
  obtain sent where k: "kept (cx_ext C) (s\<lparr>api_calls := api_calls s @ [(ApprovedCall ?a, sent)]\<rparr>) t"
    and n: "tool_calls sent \<le> 1"
    and w: "\<And>tool args. call_message tool args \<in> set sent \<Longrightarrow> ac_action (ca_action (pe_claimed p)) = ''github.issue.create''
       \<and> mapped_call ''github.issue.create'' (ac_parameters (ca_action (pe_claimed p))) tool args"
    by (rule performed_calls [OF c r]) blast
  let ?s = "s\<lparr>api_calls := api_calls s @ [(ApprovedCall ?a, sent)]\<rparr>"
  have ok: "prepared_ok (cx_ext C) (api_store s) p" using assms(2) ReservedFlight by (simp add: sys_inv_def)
  have co: "call_ok (cx_ext C) (api_store s) (ApprovedCall ?a) sent"
    unfolding call_ok_def using ok n w by (auto simp: prepared_ok_def)
  have "length (filter (reserves a) (ps @ qs)) + approved_calls a ?s \<le> length (filter (reserves a) (ps @ f # qs)) + approved_calls a s" for a
    using ReservedFlight by (simp add: approved_calls_def)
  moreover have "length (filter (reserves a) (ps @ f # qs)) + approved_calls a s \<le> slots ?s a" for a
    using assms(2) unfolding sys_inv_iff by (simp add: slots_def)
  ultimately have b: "length (filter (reserves a) (ps @ qs)) + approved_calls a ?s \<le> slots ?s a" for a using order_trans by blast
  have "sys_inv C \<lparr>sys_api = ?s, sys_flights = ps @ qs\<rparr>"
    unfolding sys_inv_iff using assms(2) b co unfolding sys_inv_iff by simp
  note i = kept_inv(1) [OF this k] and su = kept_inv(2) [OF this k]
  have okt: "prepared_ok (cx_ext C) (api_store t) p"
    using ok later_claimed_ok [OF su, of "cx_ext C" ?a "pe_claimed p"] by (auto simp: prepared_ok_def)
  show ?thesis
  proof (cases r)
    case (Inr out)
    have "sys_inv C \<lparr>sys_api = t, sys_flights = ps @ PerformedFlight E p out # qs\<rparr>"
      using i okt unfolding sys_inv_iff by simp
    with Inr g show ?thesis by simp
  qed (use i g in simp)
next
  case (PerformedFlight E p out)
  with assms(3) have t: "g = None" "finalize_capability_execution C E p out s = (fst (finalize_capability_execution C E p out s), t)"
    by (auto simp: prod_eq_iff)
  from inv_drop [OF kept_inv(1) [OF assms(2) preservesD [OF handler_frame.keeps_finalize [OF kept_frame [OF c]] t(2) kept_refl]]] t(1) show ?thesis by simp
qed

section \<open>Every reachable system\<close>

lemma step_inv:
  assumes "uuid_roundtrip (cx_ext C)" and "issue_create_needs_approval C" and "api_step C a b" and "sys_inv C a"
  shows "sys_inv C b"
  using assms(3)
proof cases
  case (request s fs q)
  from kept_inv(1) [OF _ handler_frame.serve_keeps [OF kept_frame [OF assms(2)] kept_refl], of s fs q] assms(4) request show ?thesis by simp
next
  case (execute E u revision actor s loaded t fs)
  from kept_inv(1) [OF assms(4) [unfolded execute(1)] preservesD [OF handler_frame.keeps_load [OF kept_frame [OF assms(2)]] execute(3) kept_refl]]
  have "sys_inv C \<lparr>sys_api = t, sys_flights = fs\<rparr>" .
  with loaded_ok [OF assms(1) execute(3)] show ?thesis unfolding execute(2) sys_inv_iff by simp
next
  case (flight f s g t ps qs)
  from flight_step_inv [OF assms(2,4) [unfolded flight(1)] flight(3)] show ?thesis unfolding flight(2) .
qed

lemma initial_inv: "sys_inv C \<lparr>sys_api = initial_api, sys_flights = []\<rparr>"
  unfolding sys_inv_iff by (simp add: initial_api_def reachable_def approved_calls_def)

lemma reachable_sys_inv:
  assumes "uuid_roundtrip (cx_ext C)" and "issue_create_needs_approval C" and "api_reachable C sys"
  shows "sys_inv C sys"
  using assms(3) unfolding api_reachable_def
  by (induction rule: rtranclp_induct) (blast intro: initial_inv step_inv [OF assms(1,2)])+

lemma claim_is_approved:
  assumes "reachable X st" and "bm_get (st_action_claims st) a = Some claim"
  obtains p ap where "bm_get (st_approvals st) p = Some ap" "claim_for claim ap" "cl_action_id claim = a"
proof -
  have "inv_approvals (bm_get (st_runs st)) (bm_get (st_approvals st)) (bm_get (st_approval_windows st)) (bm_get (st_action_claims st))"
    using reachable_inv [OF assms(1)] by (simp add: ledger_inv_def)
  from inv_approvalsD(4,5) [OF this assms(2)] that show ?thesis by blast
qed

text \<open>
  C3. A connector is asked to write at most once per action and only as approved: in every state the
  control plane reaches, under any interleaving of requests with the phases of executions under way and
  with other users of the store, at most one request for a tool was written on behalf of an approved
  action, over all sessions together; and a session that asked for the tool creating an issue was opened
  for an action with a durable claim, whose parameters have the hash a consumed approval of the same run
  and action records, and the arguments it sent are these parameters with the method fixed to creation.
  This holds when the identifiers of the store print and read back and the registered manifest gives the
  capability that creates issues a risk that needs approval.
\<close>

theorem external_write_is_approved_once:
  assumes "uuid_roundtrip (cx_ext C)" and "issue_create_needs_approval C" and "api_reachable C sys"
  shows "approved_requests a (sys_api sys) \<le> 1
    \<and> ((origin, sent) \<in> set (api_calls (sys_api sys)) \<and> call_message ''issue_write'' arguments \<in> set sent \<longrightarrow>
        (\<exists>action p approval entries.
           origin = ApprovedCall (ac_id action) \<and> parameters_match_hash (cx_ext C) action
           \<and> ac_parameters action = JObject entries \<and> arguments = JObject (bm_insert ''method'' (JString ''create'') entries)
           \<and> bm_get (st_approvals (api_store (sys_api sys))) p = Some approval \<and> ap_status approval = Consumed
           \<and> ap_action_id approval = ac_id action \<and> ap_run_id approval = ac_run_id action
           \<and> ap_parameter_hash approval = ac_parameter_hash action))"
proof (intro conjI impI)
  obtain s fs where sys: "sys = \<lparr>sys_api = s, sys_flights = fs\<rparr>" by (cases sys)
  note i = reachable_sys_inv [OF assms, unfolded sys sys_inv_iff]
  have "length (filter (reserves a) fs) + approved_calls a s \<le> slots s a" using i by blast
  then have "approved_calls a s \<le> 1" by (simp add: slots_def split: if_splits)
  moreover have "\<forall>(origin, sent) \<in> set (api_calls s). origin = ApprovedCall a \<longrightarrow> tool_calls sent \<le> 1"
    using i by (fastforce simp: call_ok_def direct_ok_def)
  ultimately show "approved_requests a (sys_api sys) \<le> 1" using approved_requests_once sys by simp
  assume c: "(origin, sent) \<in> set (api_calls (sys_api sys)) \<and> call_message ''issue_write'' arguments \<in> set sent"
  then have "call_ok (cx_ext C) (api_store s) origin sent" using i sys by auto
  then obtain b d where d: "origin = ApprovedCall b" "claimed_ok (cx_ext C) (api_store s) b d"
    "mapped_call ''github.issue.create'' (ac_parameters (ca_action d)) ''issue_write'' arguments"
    unfolding call_ok_def direct_ok_def using c mapped_write by metis
  obtain entries where e: "ac_parameters (ca_action d) = JObject entries"
    "arguments = JObject (bm_insert ''method'' (JString ''create'') entries)"
    using mapped_arguments [OF d(3)] by blast
  obtain p ap where "bm_get (st_approvals (api_store s)) p = Some ap" "claim_for (ca_claim d) ap" "cl_action_id (ca_claim d) = b"
    using i d(2) claim_is_approved by (metis claimed_ok_def)
  with d(1,2) e show "\<exists>action p approval entries.
           origin = ApprovedCall (ac_id action) \<and> parameters_match_hash (cx_ext C) action
           \<and> ac_parameters action = JObject entries \<and> arguments = JObject (bm_insert ''method'' (JString ''create'') entries)
           \<and> bm_get (st_approvals (api_store (sys_api sys))) p = Some approval \<and> ap_status approval = Consumed
           \<and> ap_action_id approval = ac_id action \<and> ap_run_id approval = ac_run_id action
           \<and> ap_parameter_hash approval = ac_parameter_hash action"
    unfolding claimed_ok_def claim_for_def sys by (metis system.select_convs(1))
qed

end
