(* ===== verification/Control_Runs.thy ===== *)
theory Control_Runs
  imports Control_Properties
begin

text \<open>
  Runs and prompts in the control plane: a prompt waits in bounded memory for the worker, is handed out
  with the run it was submitted for and only once; and what a successful or failed submission leaves
  behind. The handler that executes an approved capability is shown to be a path of the step relation.
\<close>

section \<open>Invariants of every reachable system\<close>

locale system_frame = handler_frame +
  assumes approved_call: "P s \<Longrightarrow> P (s\<lparr>api_calls := api_calls s @ [(ApprovedCall a, sent)]\<rparr>)"
begin

lemma advance_keeps:
  assumes "P s" and "advance C f s = (g, t)"
  shows "P t"
proof (cases f)
  case (LoadedFlight E revision loaded)
  with assms preserves_result [OF keeps_claim_execution [of E revision loaded] assms(1)] show ?thesis by (auto simp: continue_as_def)
next
  case (PreparedFlight E p)
  with assms preserves_result [OF keeps_reserve] show ?thesis by (auto simp: continue_as_def)
next
  case (ReservedFlight E p)
  with assms(2) have "perform_capability C E p s = (fst (perform_capability C E p s), t)"
    by (auto simp: continue_as_def prod_eq_iff)
  then show ?thesis by (rule keeps_performed) (rule approved_call [OF assms(1)])
next
  case (PerformedFlight E p out)
  with assms preserves_result [OF keeps_finalize] show ?thesis by auto
qed

lemma step_keeps: "api_step C x y \<Longrightarrow> P (sys_api x) \<Longrightarrow> P (sys_api y)"
proof (induction rule: api_step.induct)
  case (request s fs q)
  then show ?case using serve_keeps by simp
next
  case (execute E u revision actor s loaded t fs)
  then show ?case using preservesD [OF keeps_load execute(1)] by simp
next
  case (flight f s g t ps qs)
  then show ?case using advance_keeps by simp
qed

lemma paths_keep: "(api_step C)\<^sup>*\<^sup>* x y \<Longrightarrow> P (sys_api x) \<Longrightarrow> P (sys_api y)"
  by (induction rule: rtranclp_induct) (auto intro: step_keeps)

end

lemma prompt_step_ok: "prompt_step X D es es' \<Longrightarrow> prompts_ok X D es \<Longrightarrow> prompts_ok X D es'"
  by (erule prompt_step_elim) (auto simp: purge_expired_def Let_def intro: register_prompt_ok(1) take_prompt_ok(1) purge_ok(1))

interpretation prompts: system_frame C "\<lambda>s. prompts_ok (cx_ext C) (cx_prompts C) (api_prompts s)" for C
  by unfold_locales (auto intro: prompt_step_ok)

interpretation later: system_frame C "\<lambda>s. (store_step (cx_ext C))\<^sup>*\<^sup>* st (api_store s)" for C st
  by unfold_locales auto

lemma reachable_api:
  assumes "api_reachable C sys"
  shows "prompts_ok (cx_ext C) (cx_prompts C) (api_prompts (sys_api sys))" and "reachable (cx_ext C) (api_store (sys_api sys))"
  using assms prompts.paths_keep [of C _ sys] later.paths_keep [of C _ sys empty_state]
  by (auto simp: api_reachable_def reachable_def initial_api_def prompts_ok_empty)

section \<open>Delivery of prompts\<close>

lemma match_result_iff:
  "match_result m h k s = (r, t) \<longleftrightarrow>
     (\<exists>e u. m s = (Inl e, u) \<and> h u = (r, t)) \<or> (\<exists>x u. m s = (Inr x, u) \<and> k x u = (r, t))"
  by (cases "m s"; cases "fst (m s)") (auto simp: match_result_def)

lemma claimed_with_prompt:
  assumes "claim_with_prompt C E owner token s = (Inr (Some (lease, prompt)), t)"
    and "prompts_ok (cx_ext C) (cx_prompts C) (api_prompts s)"
  shows "claim_next_run (cx_ext C) (UuidV7 (rq_uuid E 0)) token owner (rq_clock E 0) (30 * 1000000000) (api_store s)
      = (Inr (Some lease), api_store t)"
    and "bm_get (api_prompts t) (r_id (ls_run lease)) = None"
    and "sha256_bytes (cx_ext C) prompt = r_prompt_sha256 (ls_run lease)"
    and "length prompt \<le> pd_max_bytes (cx_prompts C)"
proof -
  let ?X = "cx_ext C" and ?now = "rq_clock E 0"
  from assms(1) obtain u where u: "with_fate (rq_fate E 0) storage_error
      (on_api_store (claim_next_run ?X (UuidV7 (rq_uuid E 0)) token owner ?now (30 * 1000000000))) s = (Inr (Some lease), u)"
    and t: "on_prompts (take_prompt (r_id (ls_run lease)) (r_prompt_sha256 (ls_run lease)) ?now) u = (Inr prompt, t)"
    by (auto simp: claim_with_prompt_def Let_def res_simps match_result_iff split: option.splits)
  from u have c: "claim_next_run ?X (UuidV7 (rq_uuid E 0)) token owner ?now (30 * 1000000000) (api_store s) = (Inr (Some lease), api_store u)"
    "api_prompts u = api_prompts s"
    by (auto simp: with_fate_def on_api_store_def split: fate.splits prod.splits)
  from t have p: "take_prompt (r_id (ls_run lease)) (r_prompt_sha256 (ls_run lease)) ?now (api_prompts s) = (Inr prompt, api_prompts t)"
    "api_store t = api_store u"
    by (auto simp: on_prompts_def c(2) split: prod.splits)
  from take_prompt_ok(3) [OF assms(2) p(1)] obtain e where
    e: "bm_get (api_prompts t) (r_id (ls_run lease)) = None" "sha256_bytes ?X prompt = r_prompt_sha256 (ls_run lease)"
    "bm_get (api_prompts s) (r_id (ls_run lease)) = Some e" "sp_bytes e = prompt" by blast
  with assms(2) show "bm_get (api_prompts t) (r_id (ls_run lease)) = None" "sha256_bytes ?X prompt = r_prompt_sha256 (ls_run lease)"
    "length prompt \<le> pd_max_bytes (cx_prompts C)" by (auto simp: prompts_ok_def)
  from c(1) p(2) show "claim_next_run ?X (UuidV7 (rq_uuid E 0)) token owner ?now (30 * 1000000000) (api_store s)
      = (Inr (Some lease), api_store t)" by simp
qed

text \<open>
  C7. A prompt reaches a worker once and unaltered. In every state the control plane reaches, it holds no
  more prompts than its capacity, each within the size limit and under its own digest. When a claim then
  hands a prompt to the worker, the prompt has the digest the claimed run carries and is no longer held;
  and whatever requests, executions and other users of the store do afterwards, no later claim hands out
  a prompt for the same run.
\<close>

theorem prompt_delivered_once:
  assumes "api_reachable C sys"
  shows "length (api_prompts (sys_api sys)) \<le> pd_capacity (cx_prompts C)
    \<and> (\<forall>rid entry. bm_get (api_prompts (sys_api sys)) rid = Some entry \<longrightarrow>
         length (sp_bytes entry) \<le> pd_max_bytes (cx_prompts C) \<and> sp_digest entry = sha256_bytes (cx_ext C) (sp_bytes entry))
    \<and> (claim_with_prompt C E owner token (sys_api sys) = (Inr (Some (lease, prompt)), s) \<longrightarrow>
         sha256_bytes (cx_ext C) prompt = r_prompt_sha256 (ls_run lease)
         \<and> bm_get (api_prompts s) (r_id (ls_run lease)) = None
         \<and> (\<forall>sys' E' owner' token' lease' prompt' t.
              (api_step C)\<^sup>*\<^sup>* \<lparr>sys_api = s, sys_flights = sys_flights sys\<rparr> sys' \<longrightarrow>
              claim_with_prompt C E' owner' token' (sys_api sys') = (Inr (Some (lease', prompt')), t) \<longrightarrow>
              r_id (ls_run lease') \<noteq> r_id (ls_run lease)))"
proof (intro conjI impI allI)
  note r = reachable_api [OF assms]
  show "length (api_prompts (sys_api sys)) \<le> pd_capacity (cx_prompts C)" using r(1) by (simp add: prompts_ok_def)
  show "length (sp_bytes entry) \<le> pd_max_bytes (cx_prompts C)" "sp_digest entry = sha256_bytes (cx_ext C) (sp_bytes entry)"
    if "bm_get (api_prompts (sys_api sys)) rid = Some entry" for rid entry
    using r(1) that by (auto simp: prompts_ok_def)
  assume first: "claim_with_prompt C E owner token (sys_api sys) = (Inr (Some (lease, prompt)), s)"
  note c = claimed_with_prompt [OF first r(1)]
  show "sha256_bytes (cx_ext C) prompt = r_prompt_sha256 (ls_run lease)" by (rule c(3))
  show "bm_get (api_prompts s) (r_id (ls_run lease)) = None" by (rule c(2))
  fix sys' E' owner' token' lease' prompt' t
  assume path: "(api_step C)\<^sup>*\<^sup>* \<lparr>sys_api = s, sys_flights = sys_flights sys\<rparr> sys'"
    and again: "claim_with_prompt C E' owner' token' (sys_api sys') = (Inr (Some (lease', prompt')), t)"
  have "prompts_ok (cx_ext C) (cx_prompts C) (api_prompts s)"
    by (rule preservesD [OF prompts.keeps_claim first]) (rule r(1))
  then have "prompts_ok (cx_ext C) (cx_prompts C) (api_prompts (sys_api sys'))"
    using prompts.paths_keep [OF path] by simp
  note c' = claimed_with_prompt(1) [OF again this]
  have "(store_step (cx_ext C))\<^sup>*\<^sup>* (api_store s) (api_store (sys_api sys'))"
    using later.paths_keep [OF path, of "api_store s"] by simp
  from not_claimed_again [OF r(2) c(1) this c'] show "r_id (ls_run lease') \<noteq> r_id (ls_run lease)" by blast
qed

section \<open>Submission of runs\<close>

lemma orchestrator_created:
  assumes "orchestrator_create_run X F rid eid runtime workspace actor prompt now s = (Inr r, t)"
  shows "r_id r = rid \<and> r_status r = Queued \<and> r_revision r = 0 \<and> r_runtime r = runtime \<and> r_actor_id r = actor
    \<and> r_prompt_sha256 r = sha256_bytes X prompt \<and> canonicalize F workspace = Some (r_workspace r)
    \<and> bm_get (st_runs s) rid = None \<and> bm_get (st_runs t) rid = Some r"
  using assms by (auto simp: orchestrator_create_run_def create_run_def res_simps split: if_splits)

definition listed_files :: "string list \<Rightarrow> string" where
  \<comment> \<open>what a prompt says about its input files\<close>
  "listed_files ids =
     (if ids = [] then []
      else [CHR 0x0A, CHR 0x0A] @ ''OpenWork input files (read-only sandbox paths):'' @ [CHR 0x0A]
        @ concat (map (\<lambda>i. ''- /workspace/input/.openwork/inputs/'' @ i @ [CHR 0x0A]) ids))"

definition files_copied :: "api_files \<Rightarrow> string \<Rightarrow> string \<Rightarrow> string list \<Rightarrow> bool" where
  \<comment> \<open>each file is a regular file of the upload directory and was copied to a directory in the workspace\<close>
  "files_copied A root workspace ids =
     (\<exists>uploads inputs. canonicalize (af_view A) (path_join (path_join root ''.openwork'') ''uploads'') = Some uploads
        \<and> prefix (path_components workspace) (path_components inputs)
        \<and> (\<forall>i \<in> set ids. af_link A (path_join uploads i) = LinkFile
              \<and> prefix (path_components uploads) (path_components (path_join uploads i))
              \<and> af_copy A (path_join uploads i) (path_join inputs i)))"

lemma copy_selected_ok:
  "copy_selected A source destination seen ids = Inr paths \<Longrightarrow>
   distinct ids \<and> set ids \<inter> set seen = {} \<and> paths = map (\<lambda>i. ''.openwork/inputs/'' @ i) ids
   \<and> (\<forall>i \<in> set ids. af_link A (path_join source i) = LinkFile
        \<and> prefix (path_components source) (path_components (path_join source i))
        \<and> af_copy A (path_join source i) (path_join destination i))"
proof (induction ids arbitrary: seen paths)
  case (Cons i ids)
  from Cons.prems obtain rest where "i \<notin> set seen" "af_link A (path_join source i) = LinkFile"
    "path_starts_with (path_join source i) source" "af_copy A (path_join source i) (path_join destination i)"
    "copy_selected A source destination (i # seen) ids = Inr rest" "paths = (''.openwork/inputs/'' @ i) # rest"
    by (auto simp: Let_def res_simps split: if_splits link_state.splits)
  with Cons.IH [of "i # seen" rest] show ?case by (auto simp: path_starts_with_def)
qed simp

lemma materialized_ok:
  assumes "materialize_selected_files A root workspace ids = Inr paths"
  shows "distinct ids \<and> prompt_with_files prompt paths = prompt @ listed_files ids
    \<and> (ids \<noteq> [] \<longrightarrow> files_copied A root workspace ids)"
proof (cases "ids = []")
  case False
  with assms obtain uploads inputs where u: "canonicalize (af_view A) (uploads_dir root) = Some uploads"
    "safe_workspace_input_directory A workspace = Inr inputs" "copy_selected A uploads inputs [] ids = Inr paths"
    by (auto simp: materialize_selected_files_def res_simps)
  have i: "prefix (path_components workspace) (path_components inputs)"
    using u(2) by (auto simp: safe_workspace_input_directory_def Let_def res_simps path_starts_with_def split: if_splits)
  note c = copy_selected_ok [OF u(3)]
  then have "prompt_with_files prompt paths = prompt @ listed_files ids"
    using False by (simp add: prompt_with_files_def listed_files_def comp_def)
  with False u(1) i c show ?thesis by (auto simp: files_copied_def uploads_dir_def)
qed (use assms in \<open>simp add: materialize_selected_files_def prompt_with_files_def listed_files_def\<close>)

text \<open>
  C33. An accepted submission is complete: when the request to create a run succeeds, the worker is up
  and offers the runtime asked for, which is a known one; the workspace is an existing directory strictly
  below the workspace root; the selected files are regular files of the upload directory, each named
  once and copied below the workspace; a new queued run of the authenticated actor for that workspace
  is stored; and the prompt, followed by the list of the selected files under the paths the sandbox
  shows them at, waits for the worker under its own digest, which is the one the run carries.
\<close>

theorem created_run_waits_with_its_prompt:
  assumes "api_create_run C E actor request s = (Inr r, t)" and "prompts_ok (cx_ext C) (cx_prompts C) (api_prompts s)"
  shows "\<exists>workspace entry.
      api_worker_ready s \<and> rr_runtime request \<in> {''auto'', ''codex'', ''claude-code'', ''opencode'', ''pi''}
      \<and> (if rr_runtime request = ''auto'' then cx_runtimes C \<noteq> [] else rr_runtime request \<in> set (cx_runtimes C))
      \<and> canonicalize (af_view (rq_files E)) (path_join (cx_workspace_root C) (rr_workspace request)) = Some workspace
      \<and> strict_prefix (path_components (cx_workspace_root C)) (path_components workspace) \<and> is_dir (af_view (rq_files E)) workspace
      \<and> canonicalize (af_view (rq_files E)) workspace = Some (r_workspace r)
      \<and> distinct (rr_file_ids request)
      \<and> (rr_file_ids request \<noteq> [] \<longrightarrow> files_copied (rq_files E) (cx_workspace_root C) workspace (rr_file_ids request))
      \<and> bm_get (st_runs (api_store s)) (r_id r) = None \<and> bm_get (st_runs (api_store t)) (r_id r) = Some r
      \<and> r_status r = Queued \<and> actor_str (r_actor_id r) = actor \<and> r_runtime r = rr_runtime request
      \<and> bm_get (api_prompts t) (r_id r) = Some entry \<and> sp_bytes entry = rr_prompt request @ listed_files (rr_file_ids request)
      \<and> sp_digest entry = r_prompt_sha256 r \<and> r_prompt_sha256 r = sha256_bytes (cx_ext C) (sp_bytes entry)"
proof -
  let ?F = "af_view (rq_files E)" and ?root = "cx_workspace_root C"
  from assms(1) obtain workspace paths trusted where
    v: "validate_create_run request = Inr ()" "resolve_workspace ?F ?root (rr_workspace request) = Inr workspace"
    "worker_accepts C s (rr_runtime request)"
    "materialize_selected_files (rq_files E) ?root workspace (rr_file_ids request) = Inr paths"
    "parse_actor_id actor = Inr trusted"
    and p: "create_and_publish C E (rr_runtime request) workspace trusted (prompt_with_files (rr_prompt request) paths) s = (Inr r, t)"
    by (auto simp: api_create_run_def res_simps map_err_def split: sum.splits)
  let ?prompt = "prompt_with_files (rr_prompt request) paths"
  from p obtain u where u: "in_store (rq_fate E 0) (\<lambda>_. internal) (orchestrator_create_run (cx_ext C) ?F (UuidV7 (rq_uuid E 0))
        (UuidV7 (rq_uuid E 1)) (rr_runtime request) workspace trusted ?prompt (rq_clock E 0)) s = (Inr r, u)"
    and g: "on_prompts (register_prompt (cx_ext C) (cx_prompts C) (r_id r) (r_prompt_sha256 r) ?prompt (rq_clock E 1)) u = (Inr (), t)"
    by (auto simp: create_and_publish_def res_simps match_result_iff)
  note o = orchestrator_created [OF in_store_ok [OF u]]
  from u have "api_prompts u = api_prompts s"
    by (auto simp: in_store_def map_error_def with_fate_def on_api_store_def split: fate.splits prod.splits sum.splits)
  with g have r: "register_prompt (cx_ext C) (cx_prompts C) (r_id r) (r_prompt_sha256 r) ?prompt (rq_clock E 1) (api_prompts s)
      = (Inr (), api_prompts t)" "api_store t = api_store u"
    by (auto simp: on_prompts_def split: prod.splits)
  from register_prompt_ok(3) [OF assms(2) r(1)] obtain entry where
    e: "bm_get (api_prompts t) (r_id r) = Some entry" "sp_bytes entry = ?prompt" "sp_digest entry = r_prompt_sha256 r" by blast
  have w: "canonicalize ?F (path_join ?root (rr_workspace request)) = Some workspace"
    "strict_prefix (path_components ?root) (path_components workspace)" "is_dir ?F workspace"
    using v(2) by (auto simp: resolve_workspace_def res_simps path_starts_with_def path_eq_def strict_prefix_def split: if_splits)
  have "rr_runtime request \<in> {''auto'', ''codex'', ''claude-code'', ''opencode'', ''pi''}"
    using v(1) by (simp add: validate_create_run_def Let_def split: if_splits)
  moreover have "api_worker_ready s" "if rr_runtime request = ''auto'' then cx_runtimes C \<noteq> [] else rr_runtime request \<in> set (cx_runtimes C)"
    using v(3) by (auto simp: worker_accepts_def)
  moreover have "actor_str trusted = actor" using v(5) by (auto simp: parse_actor_id_def split: if_splits)
  ultimately show ?thesis
    using w e o r(2) materialized_ok [OF v(4), of "rr_prompt request"] by (intro exI [of _ workspace] exI [of _ entry]) simp
qed

section \<open>The handler as a path of steps\<close>

lemma load_changes_nothing: "load_capability_execution C E u revision actor s = (r, t) \<Longrightarrow> t = s"
proof -
  have "preserves (\<lambda>x. x = s) (load_capability_execution C E u revision actor)"
    unfolding load_capability_execution_def Let_def in_store_def find_action_row_def get_approval_def
    by (intro preserves_intros) (auto simp: preserves_def on_api_store_def op_defs)
  then show "load_capability_execution C E u revision actor s = (r, t) \<Longrightarrow> t = s" by (rule preservesD) simp_all
qed

lemma flight_steps:
  assumes "advance C f s = (g, t)"
  shows "api_step C \<lparr>sys_api = s, sys_flights = f # fs\<rparr>
      \<lparr>sys_api = t, sys_flights = (case g of None \<Rightarrow> [] | Some g \<Rightarrow> [g]) @ fs\<rparr>"
  using api_step.flight [OF assms, of "[]" fs] by simp

lemma phase_path:
  assumes "advance C f s = continue_as k (m s)" and "bnd m n s = (r, t)"
    and "\<And>x u. n x u = (r, t) \<Longrightarrow> (api_step C)\<^sup>*\<^sup>* \<lparr>sys_api = u, sys_flights = k x # fs\<rparr> \<lparr>sys_api = t, sys_flights = fs\<rparr>"
  shows "(api_step C)\<^sup>*\<^sup>* \<lparr>sys_api = s, sys_flights = f # fs\<rparr> \<lparr>sys_api = t, sys_flights = fs\<rparr>"
proof (cases "fst (m s)")
  case (Inl e)
  with assms(1,2) have "advance C f s = (None, t)" by (auto simp: continue_as_def bnd_def split: prod.splits)
  from flight_steps [OF this, of fs] show ?thesis by (simp add: r_into_rtranclp)
next
  case (Inr x)
  with assms(1,2) have "advance C f s = (Some (k x), snd (m s))" "n x (snd (m s)) = (r, t)"
    by (auto simp: continue_as_def bnd_def split: prod.splits)
  from flight_steps [OF this(1), of fs] assms(3) [OF this(2)] show ?thesis by (simp add: converse_rtranclp_into_rtranclp)
qed

text \<open>A request that executes an approved capability with nothing in between is a path of the step relation.\<close>

lemma execution_is_a_path:
  assumes "execute_approved_capability C E actor u expected s = (r, t)"
  shows "(api_step C)\<^sup>*\<^sup>* \<lparr>sys_api = s, sys_flights = fs\<rparr> \<lparr>sys_api = t, sys_flights = fs\<rparr>"
proof -
  define perform where "perform = (\<lambda>p. bnd (perform_capability C E p) (\<lambda>output.
      bnd (finalize_capability_execution C E p output) (\<lambda>r. ret (r, pe_prepared_action p, output))))"
  define reserve where "reserve = (\<lambda>p. bnd (reserve_capability_execution E (pe_row p)) (\<lambda>_. perform p))"
  have finish: "(api_step C)\<^sup>*\<^sup>* \<lparr>sys_api = v, sys_flights = PerformedFlight E p x # fs\<rparr> \<lparr>sys_api = t, sys_flights = fs\<rparr>"
    if "bnd (finalize_capability_execution C E p x) (\<lambda>r. ret (r, pe_prepared_action p, x)) v = (r, t)" for p x v
  proof -
    from that have "advance C (PerformedFlight E p x) v = (None, t)" by (auto simp: bnd_def ret_def split: prod.splits sum.splits)
    from flight_steps [OF this, of fs] show ?thesis by (simp add: r_into_rtranclp)
  qed
  have performs: "(api_step C)\<^sup>*\<^sup>* \<lparr>sys_api = v, sys_flights = ReservedFlight E p # fs\<rparr> \<lparr>sys_api = t, sys_flights = fs\<rparr>"
    if "perform p v = (r, t)" for p v
    using that [unfolded perform_def] finish by (rule phase_path [OF advance.simps(3)])
  have reserves: "(api_step C)\<^sup>*\<^sup>* \<lparr>sys_api = v, sys_flights = PreparedFlight E p # fs\<rparr> \<lparr>sys_api = t, sys_flights = fs\<rparr>"
    if "reserve p v = (r, t)" for p v
    using that [unfolded reserve_def] performs by (rule phase_path [OF advance.simps(2)])
  have claims: "(api_step C)\<^sup>*\<^sup>* \<lparr>sys_api = v, sys_flights = LoadedFlight E revision loaded # fs\<rparr> \<lparr>sys_api = t, sys_flights = fs\<rparr>"
    if "bnd (claim_capability_execution C E revision loaded) reserve v = (r, t)" for revision loaded v
    using that reserves by (rule phase_path [OF advance.simps(1)])
  show ?thesis
  proof (cases "revision_of expected")
    case (Inl e)
    with assms show ?thesis by (simp add: execute_approved_capability_def op_defs)
  next
    case (Inr revision)
    obtain l v where l: "load_capability_execution C E u revision actor s = (l, v)" by fastforce
    with load_changes_nothing have v: "v = s" by blast
    from assms Inr have e: "bnd (bnd (load_capability_execution C E u revision actor) (claim_capability_execution C E revision)) reserve s = (r, t)"
      by (simp add: execute_approved_capability_def prepare_capability_execution_def reserve_def perform_def op_defs)
    show ?thesis
    proof (cases l)
      case (Inl d)
      with e l v show ?thesis by (simp add: bnd_def)
    next
      case (Inr loaded)
      with e l v have "bnd (claim_capability_execution C E revision loaded) reserve s = (r, t)" by (simp add: bnd_def)
      from api_step.execute [OF l [unfolded Inr v], of fs] claims [OF this] show ?thesis by (rule converse_rtranclp_into_rtranclp)
    qed
  qed
qed

end
