(* ===== verification/Control_Witnesses.thy ===== *)
theory Control_Witnesses
  imports Samples Control_Runs
begin

text \<open>
  Concrete histories of the control plane: two runs submitted and claimed with their prompts, and an
  external action invoked, approved, reserved and performed by a connector that answers every message.
\<close>

section \<open>The surroundings\<close>

definition control_ext :: ext where
  \<comment> \<open>the clock has two printable instants\<close>
  "control_ext = sample_ext\<lparr>rfc3339_format := (\<lambda>t. if t < 1000 then ''aZ'' else ''bZ''),
     rfc3339_parse := (\<lambda>s. if s = ''aZ'' then Some 30 else Some 2000)\<rparr>"

definition answering_peer :: mcp_peer where
  "answering_peer = \<lparr>mp_spawns = (\<lambda>_. True), mp_accepts = (\<lambda>_. True),
     mp_lines = (\<lambda>sent. if length sent = 1 then [Line ''1''] else if length sent = 3 then [Line ''2'']
       else if length sent = 4 then [Line ''3''] else []),
     mp_closed = (\<lambda>_. False),
     mp_json = (\<lambda>l. if l = ''1'' then Some (JObject [(''id'', JNumber (PosInt 1)), (''result'', JObject [])])
       else if l = ''2'' then Some (JObject [(''id'', JNumber (PosInt 2)),
         (''result'', JObject [(''tools'', JArray [JObject [(''name'', JString ''issue_write'')]])])])
       else Some (JObject [(''id'', JNumber (PosInt 3)), (''result'', JObject [])])),
     mp_version = ''1''\<rparr>"

definition plain_files :: api_files where
  "plain_files = \<lparr>af_view = \<lparr>canonicalize = Some, is_dir = (\<lambda>_. True)\<rparr>, af_link = (\<lambda>_. LinkFile),
     af_create_dir = (\<lambda>_. True), af_copy = (\<lambda>_ _. True)\<rparr>"

definition request_at :: "timestamp \<Rightarrow> uuid \<Rightarrow> request_env" where
  "request_at t base = \<lparr>rq_clock = (\<lambda>_. t), rq_uuid = (\<lambda>i. base + of_nat i), rq_fate = (\<lambda>_. Carried),
     rq_peer = answering_peer, rq_files = plain_files\<rparr>"

definition github_app :: available_app where
  "github_app = \<lparr>av_metadata = \<lparr>md_id = AppId ''github'', md_name = ''GitHub'', md_version = ''1'', md_description = ''''\<rparr>,
     av_provider = Mcp ''github'',
     av_capabilities = [\<lparr>cd_id = CapabilityId ''github.issue.create'', cd_app_id = AppId ''github'', cd_provider = Mcp ''github'',
       cd_description = ''Create'', cd_input_schema = JNull, cd_risk = ExternalEffect,
       cd_permissions = \<lparr>cp_filesystem = \<lparr>fp_read = [], fp_write = []\<rparr>, cp_network = NetworkRestricted, cp_credentials = []\<rparr>\<rparr>],
     av_status = StatusAvailable\<rparr>"

definition sample_context :: api_context where
  "sample_context = \<lparr>cx_ext = control_ext, cx_token_hash = '''', cx_actor_id = ''ops'', cx_workspace_root = ''/r'',
     cx_runtimes = [''codex''],
     cx_connectors = new_connectors [\<lparr>co_id = ''github'', co_name = ''GitHub'',
       co_process = Some \<lparr>pr_executable = ''/d'', pr_args = [], pr_environment = [], pr_timeout = 1\<rparr>\<rparr>],
     cx_apps = [(AppId ''github'', github_app)],
     cx_prompts = \<lparr>pd_capacity = 2, pd_max_bytes = 10, pd_ttl = 5000\<rparr>,
     cx_schema = (\<lambda>_. Some (\<lambda>_. True)), cx_jsonb = Some\<rparr>"

lemma context_sel [simp]:
  "cx_ext sample_context = control_ext" "cx_actor_id sample_context = ''ops''" "cx_workspace_root sample_context = ''/r''"
  "cx_runtimes sample_context = [''codex'']" "cx_apps sample_context = [(AppId ''github'', github_app)]"
  "cx_prompts sample_context = \<lparr>pd_capacity = 2, pd_max_bytes = 10, pd_ttl = 5000\<rparr>"
  "cx_schema sample_context s = Some (\<lambda>_. True)" "cx_jsonb sample_context v = Some v"
  by (simp_all add: sample_context_def)

lemma request_sel [simp]:
  "rq_clock (request_at t b) i = t" "rq_uuid (request_at t b) i = b + of_nat i" "rq_fate (request_at t b) i = Carried"
  "rq_peer (request_at t b) = answering_peer" "rq_files (request_at t b) = plain_files"
  by (simp_all add: request_at_def)

lemma context_hypotheses: "uuid_roundtrip (cx_ext sample_context)" "issue_create_needs_approval sample_context"
proof -
  show "uuid_roundtrip (cx_ext sample_context)"
    by (simp add: uuid_roundtrip_def control_ext_def sample_ext_def print_uuid_def)
  show "issue_create_needs_approval sample_context"
    by (simp add: issue_create_needs_approval_def github_app_def needs_approval_def)
qed

lemma carried [simp]: "with_fate Carried err m = m"
  by (simp add: with_fate_def fun_eq_iff)

lemma carried_calls [simp]: "in_sql Carried m = m" "in_store Carried g n = map_error g (on_api_store n)"
  by (simp_all add: in_sql_def in_store_def)

lemma on_api_store_eval:
  "m (api_store s) = (Inr x, st) \<Longrightarrow> map_error g (on_api_store m) s = (Inr x, s\<lparr>api_store := st\<rparr>)"
  "m (api_store s) = (Inr x, st) \<Longrightarrow> on_api_store m s = (Inr x, s\<lparr>api_store := st\<rparr>)"
  by (simp_all add: on_api_store_def map_error_def)

definition control_event ::
    "audit_event_id \<Rightarrow> run_id \<Rightarrow> u64 \<Rightarrow> audit_event_type \<Rightarrow> timestamp \<Rightarrow> redacted_metadata \<Rightarrow> digest option \<Rightarrow> audit_event" where
  "control_event eid rid sq ty t md prev =
     \<lparr>ev_schema_version = SchemaVersion, ev_id = eid, ev_run_id = rid, ev_sequence = sq,
      ev_event_type = ty, ev_actor = actor0, ev_timestamp = t, ev_metadata = md, ev_previous_hash = prev,
      ev_event_hash = audit_event_hash control_ext eid rid sq ty actor0 t md prev\<rparr>"

lemma new_control_event [simp]:
  "new_audit_event control_ext eid rid 1 ty actor0 t md None = Inr (control_event eid rid 1 ty t md None)"
  "1 < sq \<Longrightarrow> new_audit_event control_ext eid rid sq ty actor0 t md (Some h) = Inr (control_event eid rid sq ty t md (Some h))"
  by (auto simp: new_audit_event_def validate_audit_position_def control_event_def)

lemma control_event_sel [simp]:
  "ev_timestamp (control_event eid rid sq ty t md prev) = t" "ev_sequence (control_event eid rid sq ty t md prev) = sq"
  by (simp_all add: control_event_def)

definition control_details :: "audit_details \<Rightarrow> redacted_metadata" where
  "control_details d = from_untrusted (details_metadata control_ext d)"

lemmas control_eval = outcome_def op_defs ensure_def ok_or_def put_run_def push_events_def build_event_def new_audit_append_def
  with_run_status_def next_sequence_def u64_of_len_def checked_add_def audit_backwards_def last_hash_def empty_state_def
  control_details_def Let_def

section \<open>Two runs\<close>

definition submission :: create_run_request where
  "submission = \<lparr>rr_runtime = ''codex'', rr_workspace = ''w'', rr_prompt = ''p'', rr_file_ids = []\<rparr>"

definition submitted_run :: "uuid \<Rightarrow> run" where
  "submitted_run u = \<lparr>r_schema_version = SchemaVersion, r_id = UuidV7 u, r_runtime = ''codex'', r_workspace = ''/r/w'',
     r_status = Queued, r_revision = 0, r_actor_id = actor0, r_prompt_sha256 = sha256_bytes control_ext ''p'',
     r_created_at = 20, r_updated_at = 20, r_started_at = None, r_completed_at = None, r_terminal_reason = None\<rparr>"

definition waiting_prompt :: stored_prompt where
  "waiting_prompt = \<lparr>sp_digest = sha256_bytes control_ext ''p'', sp_expires_at = 2000, sp_bytes = ''p''\<rparr>"

abbreviation created_event :: "uuid \<Rightarrow> audit_event" where
  "created_event u \<equiv> control_event (UuidV7 (u + 1)) (UuidV7 u) 1 EvRunCreated 20 (control_details DetNone) None"

definition worker_up :: api_state where
  "worker_up = serve sample_context (ReqReady True) initial_api"

lemma submitted_sel [simp]:
  "r_id (submitted_run u) = UuidV7 u" "r_status (submitted_run u) = Queued" "r_revision (submitted_run u) = 0"
  "r_created_at (submitted_run u) = 20" "r_updated_at (submitted_run u) = 20"
  "r_prompt_sha256 (submitted_run u) = sha256_bytes control_ext ''p''"
  by (simp_all add: submitted_run_def)

lemma submission_checks:
  "validate_create_run submission = Inr ()" "resolve_workspace (af_view plain_files) ''/r'' ''w'' = Inr ''/r/w''"
  "materialize_selected_files plain_files ''/r'' ''/r/w'' [] = Inr []" "parse_actor_id ''ops'' = Inr actor0"
  "new_scanner default_max_artifact_bytes = Inr \<lparr>as_max_bytes = default_max_artifact_bytes\<rparr>"
  "\<not> blank ''codex''" "validate_new_run (submitted_run u) = Inr ()"
proof -
  have "split_on CHR ''/'' ''w'' = [''w'']" by code_simp
  then show "validate_create_run submission = Inr ()"
    by (simp add: validate_create_run_def submission_def Let_def starts_with_def ascii_defs byte_def)
  have j: "path_join ''/r'' ''w'' = ''/r/w''" "\<not> path_eq ''/r/w'' ''/r''" "path_starts_with ''/r/w'' ''/r''" by code_simp+
  then show "resolve_workspace (af_view plain_files) ''/r'' ''w'' = Inr ''/r/w''" by (simp add: resolve_workspace_def plain_files_def)
  show "materialize_selected_files plain_files ''/r'' ''/r/w'' [] = Inr []" by (simp add: materialize_selected_files_def)
  show "parse_actor_id ''ops'' = Inr actor0" unfolding actor0_def by code_simp
  show "new_scanner default_max_artifact_bytes = Inr \<lparr>as_max_bytes = default_max_artifact_bytes\<rparr>"
    by (simp add: new_scanner_def new_artifact_size_def default_max_artifact_bytes_def)
  show "\<not> blank ''codex''" by (simp add: not_blank graphic_def byte_def)
  show "validate_new_run (submitted_run u) = Inr ()"
    by (simp add: validate_new_run_def submitted_run_def not_blank graphic_def byte_def)
qed

lemma submission_sel [simp]:
  "rr_runtime submission = ''codex''" "rr_workspace submission = ''w''" "rr_prompt submission = ''p''" "rr_file_ids submission = []"
  by (simp_all add: submission_def)

lemma submitted_stored:
  assumes "bm_get (st_runs st) (UuidV7 u) = None"
  shows "orchestrator_create_run control_ext (af_view plain_files) (UuidV7 u) (UuidV7 (u + 1)) ''codex'' ''/r/w'' actor0 ''p'' 20 st =
     (Inr (submitted_run u), st\<lparr>st_audits := bm_insert (UuidV7 u) [created_event u] (st_audits st),
        st_runs := bm_insert (UuidV7 u) (submitted_run u) (st_runs st)\<rparr>)"
proof -
  have "orchestrator_create_run control_ext (af_view plain_files) (UuidV7 u) (UuidV7 (u + 1)) ''codex'' ''/r/w'' actor0 ''p'' 20 =
      create_run control_ext (UuidV7 (u + 1)) (submitted_run u) (new_audit_append actor0 20)"
    by (simp add: orchestrator_create_run_def submission_checks(6) plain_files_def submitted_run_def fun_eq_iff op_defs)
  with assms show ?thesis by (simp add: create_run_def control_eval submission_checks(7))
qed

definition unexpired :: "prompt_entries \<Rightarrow> bool" where
  "unexpired es = (\<forall>(k, e) \<in> set es. sp_expires_at e = 2000)"

lemma prompt_registered:
  assumes "length es < 2" and "unexpired es" and "bm_get es (UuidV7 u) = None"
  shows "register_prompt control_ext (cx_prompts sample_context) (UuidV7 u) (sha256_bytes control_ext ''p'') ''p'' 20 es =
     (Inr (), bm_insert (UuidV7 u) waiting_prompt es)"
proof -
  have "expiry control_ext 20 5000 = Some 2000"
    by (simp add: expiry_def control_ext_def parse_timestamp_def ends_with_def suffix_def)
  moreover have "purge_expired_locked 20 es = es"
    using assms(2) by (auto simp: unexpired_def purge_expired_locked_def filter_id_conv)
  ultimately show ?thesis using assms(1,3) by (simp add: register_prompt_def waiting_prompt_def)
qed

lemma accepted_submission:
  assumes "api_worker_ready s" and "bm_get (st_runs (api_store s)) (UuidV7 u) = None"
    and "length (api_prompts s) < 2" and "unexpired (api_prompts s)" and "bm_get (api_prompts s) (UuidV7 u) = None"
  shows "api_create_run sample_context (request_at 20 u) ''ops'' submission s =
    (Inr (submitted_run u), s\<lparr>
       api_store := (api_store s)\<lparr>st_audits := bm_insert (UuidV7 u) [created_event u] (st_audits (api_store s)),
         st_runs := bm_insert (UuidV7 u) (submitted_run u) (st_runs (api_store s))\<rparr>,
       api_prompts := bm_insert (UuidV7 u) waiting_prompt (api_prompts s)\<rparr>)"
proof -
  have "prompt_with_files ''p'' [] = ''p''" by (simp add: prompt_with_files_def)
  moreover have "worker_accepts sample_context s ''codex''" using assms(1) by (simp add: worker_accepts_def)
  ultimately show ?thesis
    using submission_checks(1-5) submitted_stored [OF assms(2)] prompt_registered [OF assms(3-5)]
    by (simp add: api_create_run_def create_and_publish_def op_defs ensure_def on_api_store_def map_error_def map_err_def
      match_result_def on_prompts_def)
qed

definition claimed_run :: "uuid \<Rightarrow> run" where
  "claimed_run u = advanced (submitted_run u) Planning 1 None 25"

definition claimed_lease :: "uuid \<Rightarrow> lease_token \<Rightarrow> run_lease" where
  "claimed_lease u token = \<lparr>ls_run = claimed_run u, ls_token = token, ls_owner = actor0, ls_acquired_at = 25,
     ls_expires_at = 25 + 30000000000, ls_cancel_requested = False\<rparr>"

abbreviation claimed_event :: "uuid \<Rightarrow> audit_event_id \<Rightarrow> audit_event" where
  "claimed_event u eid \<equiv> control_event eid (UuidV7 u) 2 EvRuntimeSelected 25 (control_details DetNone)
     (Some (ev_event_hash (created_event u)))"

text \<open>A store with one queued run, after other runs were claimed.\<close>

definition one_queued :: "api_state \<Rightarrow> uuid \<Rightarrow> bool" where
  "one_queued s u = (bm_get (st_runs (api_store s)) (UuidV7 u) = Some (submitted_run u)
     \<and> claim_candidates (api_store s) = [(UuidV7 u, submitted_run u)]
     \<and> bm_get (st_audits (api_store s)) (UuidV7 u) = Some [created_event u]
     \<and> bm_get (api_prompts s) (UuidV7 u) = Some waiting_prompt \<and> unexpired (api_prompts s))"

definition claims_waiting :: "api_state \<Rightarrow> uuid \<Rightarrow> uuid \<Rightarrow> lease_token \<Rightarrow> api_state" where
  "claims_waiting s u e token = s\<lparr>
     api_store := (api_store s)\<lparr>st_runs := bm_insert (UuidV7 u) (claimed_run u) (st_runs (api_store s)),
       st_audits := bm_insert (UuidV7 u) [created_event u, claimed_event u (UuidV7 e)] (st_audits (api_store s)),
       st_leases := bm_insert (UuidV7 u) (claimed_lease u token) (st_leases (api_store s))\<rparr>,
     api_prompts := bm_remove (UuidV7 u) (api_prompts s)\<rparr>"

lemma claims_one:
  assumes "one_queued s u"
  shows "claim_with_prompt sample_context (request_at 25 e) actor0 token s =
    (Inr (Some (claimed_lease u token, ''p'')), claims_waiting s u e token)"
proof -
  have x: "ts_checked_add control_ext t d = Some (t + d)" for t d by (simp add: control_ext_def sample_ext_def)
  have c: "claim_next_run control_ext (UuidV7 e) token actor0 25 30000000000 (api_store s) =
    (Inr (Some (claimed_lease u token)), api_store (claims_waiting s u e token))"
    using assms
    by (simp add: one_queued_def claim_next_run_def checked_lease_expiry_def hour_nanos_def x
      apply_memory_transition_def apply_memory_transition_with_reason_def append_memory_audit_def put_lease_def
      claimed_lease_def claimed_run_def claims_waiting_def control_eval)
  have "purge_expired_locked 25 (api_prompts s) = api_prompts s"
    using assms by (auto simp: one_queued_def unexpired_def purge_expired_locked_def filter_id_conv)
  then have "take_prompt (UuidV7 u) (sha256_bytes control_ext ''p'') 25 (api_prompts s) = (Inr ''p'', bm_remove (UuidV7 u) (api_prompts s))"
    using assms by (simp add: one_queued_def take_prompt_def waiting_prompt_def)
  with c show ?thesis
    by (simp add: claim_with_prompt_def Let_def op_defs on_api_store_def match_result_def on_prompts_def claimed_lease_def
      claimed_run_def) (simp add: claims_waiting_def)
qed

definition first_waiting :: api_state where
  "first_waiting = serve sample_context (ReqCreateRun (request_at 20 100) ''ops'' submission) worker_up"

definition first_claimed :: api_state where
  "first_claimed = claims_waiting first_waiting 100 110 (LeaseToken 1)"

definition second_waiting :: api_state where
  "second_waiting = serve sample_context (ReqCreateRun (request_at 20 200) ''ops'' submission) first_claimed"

lemma first_submitted:
  "api_create_run sample_context (request_at 20 100) ''ops'' submission worker_up = (Inr (submitted_run 100), first_waiting)"
  using accepted_submission [of worker_up 100]
  by (simp add: first_waiting_def worker_up_def initial_api_def empty_state_def unexpired_def)

lemma first_queued: "one_queued first_waiting 100"
  using accepted_submission [of worker_up 100]
  by (simp add: first_waiting_def worker_up_def initial_api_def empty_state_def unexpired_def one_queued_def claim_candidates_def
    waiting_prompt_def)

lemma second_queued: "one_queued second_waiting 200"
proof -
  have w: "first_waiting = worker_up\<lparr>
       api_store := empty_state\<lparr>st_audits := [(UuidV7 100, [created_event 100])], st_runs := [(UuidV7 100, submitted_run 100)]\<rparr>,
       api_prompts := [(UuidV7 100, waiting_prompt)]\<rparr>"
    using accepted_submission [of worker_up 100]
    by (simp add: first_waiting_def worker_up_def initial_api_def empty_state_def unexpired_def)
  have c: "first_claimed = worker_up\<lparr>
       api_store := empty_state\<lparr>st_runs := [(UuidV7 100, claimed_run 100)],
         st_audits := [(UuidV7 100, [created_event 100, claimed_event 100 (UuidV7 110)])],
         st_leases := [(UuidV7 100, claimed_lease 100 (LeaseToken 1))]\<rparr>,
       api_prompts := []\<rparr>"
    unfolding first_claimed_def claims_waiting_def w by (simp add: bm_remove_def empty_state_def)
  have "api_create_run sample_context (request_at 20 200) ''ops'' submission first_claimed =
    (Inr (submitted_run 200), first_claimed\<lparr>
       api_store := (api_store first_claimed)\<lparr>st_audits := bm_insert (UuidV7 200) [created_event 200] (st_audits (api_store first_claimed)),
         st_runs := bm_insert (UuidV7 200) (submitted_run 200) (st_runs (api_store first_claimed))\<rparr>,
       api_prompts := bm_insert (UuidV7 200) waiting_prompt (api_prompts first_claimed)\<rparr>)"
    by (rule accepted_submission)
      (simp_all add: c worker_up_def initial_api_def unexpired_def)
  then show ?thesis
    by (simp add: second_waiting_def c worker_up_def initial_api_def empty_state_def unexpired_def one_queued_def
      claim_candidates_def waiting_prompt_def claimed_run_def less_uuid_v7_def)
qed

lemma first_reachable: "api_reachable sample_context \<lparr>sys_api = first_waiting, sys_flights = []\<rparr>"
proof -
  have "api_step sample_context \<lparr>sys_api = initial_api, sys_flights = []\<rparr> \<lparr>sys_api = worker_up, sys_flights = []\<rparr>"
    unfolding worker_up_def by (rule api_step.request)
  moreover have "api_step sample_context \<lparr>sys_api = worker_up, sys_flights = []\<rparr> \<lparr>sys_api = first_waiting, sys_flights = []\<rparr>"
    unfolding first_waiting_def by (rule api_step.request)
  ultimately show ?thesis unfolding api_reachable_def by (meson rtranclp.intros)
qed

theorem prompt_delivered_once_witness:
  "length (api_prompts first_waiting) \<le> pd_capacity (cx_prompts sample_context)
   \<and> sha256_bytes control_ext ''p'' = r_prompt_sha256 (ls_run (claimed_lease 100 (LeaseToken 1)))
   \<and> bm_get (api_prompts first_claimed) (r_id (ls_run (claimed_lease 100 (LeaseToken 1)))) = None
   \<and> r_id (ls_run (claimed_lease 200 (LeaseToken 2))) \<noteq> r_id (ls_run (claimed_lease 100 (LeaseToken 1)))"
proof -
  have "api_step sample_context \<lparr>sys_api = first_claimed, sys_flights = []\<rparr> \<lparr>sys_api = second_waiting, sys_flights = []\<rparr>"
    unfolding second_waiting_def by (rule api_step.request)
  then have "(api_step sample_context)\<^sup>*\<^sup>*
      \<lparr>sys_api = claims_waiting first_waiting 100 110 (LeaseToken 1), sys_flights = []\<rparr> \<lparr>sys_api = second_waiting, sys_flights = []\<rparr>"
    unfolding first_claimed_def by (simp add: r_into_rtranclp)
  with prompt_delivered_once [OF first_reachable, of "request_at 25 110" actor0 "LeaseToken 1" "claimed_lease 100 (LeaseToken 1)" "''p''"
      "claims_waiting first_waiting 100 110 (LeaseToken 1)"]
    claims_one [OF first_queued, of 110 "LeaseToken 1"] claims_one [OF second_queued, of 210 "LeaseToken 2"]
  show ?thesis by (simp add: first_claimed_def context_sel(1)) (metis system.select_convs(1))
qed

theorem created_run_waits_with_its_prompt_witness:
  "\<exists>entry. r_status (submitted_run 100) = Queued \<and> bm_get (api_prompts first_waiting) (r_id (submitted_run 100)) = Some entry
   \<and> sp_digest entry = r_prompt_sha256 (submitted_run 100) \<and> sp_bytes entry = rr_prompt submission @ listed_files (rr_file_ids submission)"
proof -
  have "prompts_ok (cx_ext sample_context) (cx_prompts sample_context) (api_prompts worker_up)"
    by (simp add: worker_up_def initial_api_def prompts_ok_empty)
  from created_run_waits_with_its_prompt [OF first_submitted this] show ?thesis by blast
qed

end
