(* ===== verification/Effect_Witnesses.thy ===== *)
theory Effect_Witnesses
  imports Control_Witnesses
begin

text \<open>
  An external action from its invocation to the connector: the application is installed, the invocation
  is answered with a pending approval, the approval is decided, and the execution loads the recorded
  action, consumes the approval, reserves the action and has the connector create the issue.
\<close>

section \<open>The action and its approval\<close>

definition issue_parameters :: json where
  "issue_parameters = JObject [(''body'', JString ''b''), (''owner'', JString ''o''), (''repo'', JString ''r''), (''title'', JString ''t'')]"

definition zero_hash :: digest where
  "zero_hash = sha256_bytes control_ext []"

lemma control_hash: "sha256_bytes control_ext s = zero_hash"
  by (simp add: zero_hash_def sha256_bytes_def control_ext_def sample_ext_def)

definition issue_action :: action_request where
  "issue_action = \<lparr>ac_schema_version = SchemaVersion, ac_id = UuidV7 304, ac_run_id = UuidV7 300,
     ac_action = ''github.issue.create'', ac_resource = ''res'', ac_parameters = issue_parameters, ac_parameter_hash = zero_hash\<rparr>"

definition issue_reason :: string where
  "issue_reason = ''github.issue.create requires explicit external-effect approval''"

definition issue_approval :: approval_request where
  "issue_approval = \<lparr>ap_schema_version = SchemaVersion, ap_id = UuidV7 305, ap_run_id = UuidV7 300,
     ap_action_id = UuidV7 304, ap_parameter_hash = zero_hash, ap_requested_by = actor0, ap_request_reason = issue_reason,
     ap_created_at = 30, ap_expires_at = 2000, ap_status = Pending, ap_revision = 0, ap_decision = None, ap_consumed_at = None\<rparr>"

definition issue_approved :: approval_request where
  "issue_approved = issue_approval\<lparr>ap_status := Approved, ap_revision := 1,
     ap_decision := Some \<lparr>dr_decision = DecisionApproved, dr_actor = actor0, dr_reason = None, dr_decided_at = 40\<rparr>\<rparr>"

definition capability_run :: run where
  "capability_run = \<lparr>r_schema_version = SchemaVersion, r_id = UuidV7 300, r_runtime = ''capability:github'', r_workspace = ''/r'',
     r_status = Queued, r_revision = 0, r_actor_id = actor0, r_prompt_sha256 = zero_hash,
     r_created_at = 20, r_updated_at = 20, r_started_at = None, r_completed_at = None, r_terminal_reason = None\<rparr>"

definition planning_run :: run where
  "planning_run = advanced capability_run Planning 1 None 20"

definition waiting_run :: run where
  "waiting_run = advanced planning_run AwaitingApproval 2 None 20"

lemma capability_run_sel [simp]:
  "r_id capability_run = UuidV7 300" "r_status capability_run = Queued" "r_revision capability_run = 0"
  "r_created_at capability_run = 20" "r_updated_at capability_run = 20"
  by (simp_all add: capability_run_def)

definition approval_details :: "approval_request \<Rightarrow> redacted_metadata" where
  "approval_details a = from_untrusted (approval_metadata control_ext a)"

lemma issue_texts: "redact_text issue_reason = issue_reason" "\<not> blank issue_reason" "\<not> 2048 < length issue_reason"
proof -
  show "redact_text issue_reason = issue_reason" unfolding issue_reason_def by code_simp
  show "\<not> blank issue_reason" by (simp add: issue_reason_def not_blank graphic_def byte_def)
  show "\<not> 2048 < length issue_reason" by (simp add: issue_reason_def)
qed

lemma issue_hash: "action_parameter_hash control_ext (UuidV7 300) (UuidV7 304) ''github.issue.create'' ''res'' issue_parameters = Inr zero_hash"
proof -
  have "length (json_to_string control_ext (action_binding control_ext (UuidV7 300) (UuidV7 304) ''github.issue.create'' ''res'' issue_parameters))
      \<le> max_action_parameter_bytes"
    by (simp add: action_binding_def control_ext_def sample_ext_def to_hyphenated_def print_uuid_def print_string_def unary_def
      max_action_parameter_bytes_def issue_parameters_def bm_of_list_def)
  then show ?thesis
    by (simp add: action_parameter_hash_def Let_def control_hash issue_parameters_def max_action_parameter_depth_def)
qed

lemma issue_requested: "new_action_request control_ext (UuidV7 304) (UuidV7 300) ''github.issue.create'' ''res'' issue_parameters = Inr issue_action"
proof -
  have "\<not> blank ''github.issue.create''" "\<not> blank ''res''" by (simp_all add: not_blank graphic_def byte_def)
  then show ?thesis by (simp add: new_action_request_def issue_hash issue_action_def)
qed

lemma issue_valid: "validate_github_issue_create issue_parameters = Inr ()"
proof -
  have "\<not> blank ''o''" "\<not> blank ''r''" "\<not> blank ''t''" "\<not> blank ''b''" by (simp_all add: not_blank graphic_def byte_def)
  then show ?thesis by (simp add: validate_github_issue_create_def issue_parameters_def text_field_def Let_def)
qed

lemma issue_intact: "parameters_match_hash control_ext issue_action"
  by (simp add: parameters_match_hash_def issue_action_def issue_hash)

section \<open>The store\<close>

definition event_a where "event_a = control_event (UuidV7 301) (UuidV7 300) 1 EvRunCreated 20 (control_details DetNone) None"
definition event_b where
  "event_b = control_event (UuidV7 302) (UuidV7 300) 2 EvRuntimeSelected 20 (control_details (DetRunStatus Planning)) (Some (ev_event_hash event_a))"
definition event_c where
  "event_c = control_event (UuidV7 303) (UuidV7 300) 3 EvActionRequested 20 (control_details (DetRunStatus AwaitingApproval)) (Some (ev_event_hash event_b))"
definition event_d where
  "event_d = control_event (UuidV7 306) (UuidV7 300) 4 EvApprovalRequested 30 (approval_details issue_approval) (Some (ev_event_hash event_c))"
definition event_e where
  "event_e = control_event (UuidV7 310) (UuidV7 300) 5 EvApprovalApproved 40 (approval_details issue_approved) (Some (ev_event_hash event_d))"
definition event_f where
  "event_f = control_event (UuidV7 320) (UuidV7 300) 6 EvApprovalConsumed 50 (approval_details (consumed_as issue_approved 2 50))
     (Some (ev_event_hash event_e))"
definition event_g where
  "event_g = control_event (UuidV7 321) (UuidV7 300) 7 EvRuntimeStarted 50 (control_details (DetRunStatus Running)) (Some (ev_event_hash event_f))"

lemma event_times [simp]:
  "ev_timestamp event_a = 20" "ev_timestamp event_b = 20" "ev_timestamp event_c = 20" "ev_timestamp event_d = 30"
  "ev_timestamp event_e = 40" "ev_timestamp event_f = 50"
  by (simp_all add: event_a_def event_b_def event_c_def event_d_def event_e_def event_f_def)

definition store_a :: state where
  "store_a = empty_state\<lparr>st_runs := [(UuidV7 300, capability_run)], st_audits := [(UuidV7 300, [event_a])]\<rparr>"
definition store_b :: state where
  "store_b = empty_state\<lparr>st_runs := [(UuidV7 300, planning_run)], st_audits := [(UuidV7 300, [event_a, event_b])]\<rparr>"
definition store_c :: state where
  "store_c = empty_state\<lparr>st_runs := [(UuidV7 300, waiting_run)], st_audits := [(UuidV7 300, [event_a, event_b, event_c])]\<rparr>"
definition store_d :: state where
  "store_d = store_c\<lparr>st_approvals := [(UuidV7 305, issue_approval)], st_approval_windows := [(UuidV7 305, 2)],
     st_audits := [(UuidV7 300, [event_a, event_b, event_c, event_d])]\<rparr>"
definition store_e :: state where
  "store_e = store_d\<lparr>st_approvals := [(UuidV7 305, issue_approved)],
     st_audits := [(UuidV7 300, [event_a, event_b, event_c, event_d, event_e])]\<rparr>"
definition issue_claim :: action_claim where
  "issue_claim = claim_of issue_action actor0 50"
definition store_f :: state where
  "store_f = store_e\<lparr>st_approvals := [(UuidV7 305, consumed_as issue_approved 2 50)],
     st_runs := [(UuidV7 300, advanced waiting_run Running 3 None 50)],
     st_audits := [(UuidV7 300, [event_a, event_b, event_c, event_d, event_e, event_f, event_g])],
     st_action_claims := [(UuidV7 304, issue_claim)]\<rparr>"

lemma run_created:
  "orchestrator_create_run control_ext (af_view plain_files) (UuidV7 300) (UuidV7 301) ''capability:github'' ''/r'' actor0
     ''governed capability invocation'' 20 empty_state = (Inr capability_run, store_a)"
proof -
  have "\<not> blank ''capability:github''" by (simp add: not_blank graphic_def byte_def)
  then have "orchestrator_create_run control_ext (af_view plain_files) (UuidV7 300) (UuidV7 301) ''capability:github'' ''/r'' actor0
     ''governed capability invocation'' 20 = create_run control_ext (UuidV7 301) capability_run (new_audit_append actor0 20)"
    by (simp add: orchestrator_create_run_def plain_files_def capability_run_def control_hash fun_eq_iff op_defs)
  moreover have "validate_new_run capability_run = Inr ()"
    by (simp add: validate_new_run_def capability_run_def not_blank graphic_def byte_def)
  ultimately show ?thesis by (simp add: create_run_def control_eval store_a_def event_a_def)
qed

lemma run_planned:
  "transition_run control_ext (UuidV7 302) (UuidV7 300) 0 Planning None (new_audit_append actor0 20) store_a = (Inr planning_run, store_b)"
  by (simp add: transition_run_def control_eval store_a_def store_b_def planning_run_def event_b_def)

lemma run_waits:
  "transition_run control_ext (UuidV7 303) (UuidV7 300) 1 AwaitingApproval None (new_audit_append actor0 20) store_b = (Inr waiting_run, store_c)"
  by (simp add: transition_run_def control_eval store_b_def store_c_def planning_run_def waiting_run_def event_c_def)

lemmas approval_steps = control_eval approval_event_def approval_window_run_def approval_exists_def put_approval_def commit_approval_def
  bm_values_def next_revision_def is_expired_at_def validate_approval_def approval_state_valid_def decided_as_def
  max_approval_ttl_seconds_def approval_details_def issue_texts

lemma approval_created:
  "create_approval control_ext (UuidV7 306) issue_approval actor0 30 store_c = (Inr issue_approval, store_d)"
  by (simp add: create_approval_def approval_steps issue_approval_def store_c_def store_d_def waiting_run_def planning_run_def event_d_def)

lemma approval_decided:
  "decide_approval control_ext (UuidV7 310) (UuidV7 305) 0 DecisionApproved actor0 None 40 store_d = (Inr issue_approved, store_e)"
  by (simp add: decide_approval_def approval_steps issue_approval_def issue_approved_def store_c_def store_d_def store_e_def
    waiting_run_def planning_run_def event_e_def)

lemma approval_consumed:
  "consume_approval control_ext (UuidV7 320) (UuidV7 321) (UuidV7 305) 1 issue_action actor0 50 store_e =
     (Inr \<lparr>cn_approval = consumed_as issue_approved 2 50, cn_action_claim = issue_claim\<rparr>, store_f)"
proof -
  have m: "binding_matches control_ext issue_approved issue_action"
    using issue_intact by (simp add: binding_matches_def issue_action_def issue_approved_def issue_approval_def)
  then have "can_consume_at control_ext issue_approved issue_action 1 50 = Inr ()"
    by (simp add: can_consume_at_def approval_steps issue_approved_def issue_approval_def)
  with m show ?thesis
    by (simp add: consume_approval_def commit_consumption_def approval_steps store_c_def store_d_def store_e_def store_f_def
      waiting_run_def planning_run_def consumed_as_def issue_claim_def claim_of_def issue_approved_def issue_approval_def
      issue_action_def event_f_def event_g_def)
qed

section \<open>The requests\<close>

definition github_installed :: installed_app where
  "github_installed = \<lparr>ia_app_id = AppId ''github'', ia_enabled = True, ia_credential_ref = None\<rparr>"

definition installed :: api_state where
  "installed = initial_api\<lparr>api_installed := [(''github'', github_installed)]\<rparr>"

definition issue_row :: capability_action_row where
  "issue_row = \<lparr>rw_action_id = 304, rw_approval_id = 305, rw_run_id = 300, rw_app_id = ''github'',
     rw_capability_id = ''github.issue.create'', rw_resource = ''res'', rw_parameters = issue_parameters,
     rw_parameter_hash = digest_str zero_hash, rw_actor_id = ''ops''\<rparr>"

definition invoked :: api_state where
  "invoked = installed\<lparr>api_store := store_d, api_actions := [issue_row]\<rparr>"

definition decided :: api_state where
  "decided = invoked\<lparr>api_store := store_e\<rparr>"

definition invocation :: invoke_request where
  "invocation = \<lparr>iv_resource = ''res'', iv_parameters = issue_parameters\<rparr>"

lemma github_id: "parse_app_id ''github'' = Inr (AppId ''github'')"
  by code_simp

lemma control_ids: "uuid_parse_str control_ext (uuid_hyphenated control_ext u) = Some u" "uuid_version_num control_ext u = 7"
  by (simp_all add: control_ext_def sample_ext_def print_uuid_def)

lemma control_parse [simp]:
  "parse_uuid control_ext (UuidV7 u) = Inr u" "parse_id control_ext (uuid_hyphenated control_ext u) = Inr (UuidV7 u)"
  "parse_execution_id control_ext u = Inr (UuidV7 u)"
  by (simp_all add: parse_uuid_def to_hyphenated_def parse_id_def parse_execution_id_def validate_execution_id_def map_err_def control_ids)

lemma app_installs: "serve sample_context (ReqInstall ''github'') initial_api = installed"
  by (simp add: install_app_def registered_app_def github_id registry_get_def op_defs map_err_def Let_def github_app_def
    installed_def github_installed_def initial_api_def)

lemma issue_approval_built:
  "capability_approval control_ext (request_at 20 300) actor0 ''github.issue.create'' waiting_run issue_action = Inr issue_approval"
proof -
  have "timestamp_from_offset control_ext 20 = Inr 30" "timestamp_from_offset control_ext (20 + 3600 * 1000000000) = Inr 2000"
    by (simp_all add: timestamp_from_offset_def parse_timestamp_def control_ext_def ends_with_def suffix_def map_err_def)
  then show ?thesis
    by (simp add: capability_approval_def issue_approval_def issue_reason_def issue_action_def waiting_run_def planning_run_def)
qed

lemma row_accepted: "row_admissible [] store_d issue_row"
proof -
  have "valid_sha256_digest (digest_str zero_hash)" unfolding zero_hash_def control_ext_def sample_ext_def by code_simp
  moreover have "char_count ''github'' = 6" "char_count ''github.issue.create'' = 19" "char_count ''res'' = 3" "char_count ''ops'' = 3"
    by code_simp+
  ultimately show ?thesis
    by (simp add: row_admissible_def issue_row_def store_c_def store_d_def issue_parameters_def)
qed

lemma approval_requested:
  "create_capability_approval sample_context (request_at 20 300) actor0 ''github'' ''github.issue.create'' ''res'' issue_parameters installed =
     (Inr issue_approval, invoked)"
proof -
  have e: "api_store installed = empty_state" "api_actions installed = []" by (simp_all add: installed_def initial_api_def)
  have r: "r_id planning_run = UuidV7 300" "r_id waiting_run = UuidV7 300" "r_revision planning_run = 1"
    by (simp_all add: planning_run_def waiting_run_def)
  have a: "ac_id issue_action = UuidV7 304" "ac_run_id issue_action = UuidV7 300" "ap_id issue_approval = UuidV7 305"
    "ac_resource issue_action = ''res''" "ac_parameters issue_action = issue_parameters" "ac_parameter_hash issue_action = zero_hash"
    "ap_created_at issue_approval = 30"
    by (simp_all add: issue_action_def issue_approval_def)
  have w: "insert_action_row (cx_jsonb sample_context) issue_row (installed\<lparr>api_store := store_d\<rparr>) = (Inr (), invoked)"
    using row_accepted by (simp add: insert_action_row_def e invoked_def Let_def issue_row_def)
  have "record_capability_action sample_context (request_at 20 300) actor0 ''github'' ''github.issue.create'' issue_action issue_approval
      (installed\<lparr>api_store := store_d\<rparr>) = (Inr (), invoked)"
    using w by (simp add: record_capability_action_def a op_defs issue_row_def actor0_def)
  then show ?thesis
    using run_created run_planned run_waits approval_created issue_requested issue_approval_built submission_checks(5)
    by (simp add: create_capability_approval_def Let_def op_defs on_api_store_def map_error_def map_err_def e r a)
qed

lemma invoked_by_request:
  "serve sample_context (ReqInvoke (request_at 20 300) ''github'' ''github.issue.create'' invocation) installed = invoked"
proof -
  have l: "length (json_to_string control_ext issue_parameters) \<le> 64 * 1024"
    by (simp add: control_ext_def sample_ext_def issue_parameters_def print_string_def unary_def)
  have c: "checked_invocation sample_context ''github'' ''github.issue.create'' invocation =
      Inr (github_app, hd (av_capabilities github_app), ''github'')"
    using l by (simp add: checked_invocation_def registered_app_def github_id registry_get_def map_err_def invocation_def
      validate_capability_parameters_def github_app_def)
  have i: "iv_resource invocation = ''res''" "iv_parameters invocation = issue_parameters"
    "bm_get (api_installed installed) ''github'' = Some github_installed" "ia_enabled github_installed"
    by (simp_all add: invocation_def installed_def github_installed_def)
  have g: "cd_id (hd (av_capabilities github_app)) = CapabilityId ''github.issue.create''" "needs_approval (cd_risk (hd (av_capabilities github_app)))"
    "app_str (md_id (av_metadata github_app)) = ''github''"
    by (simp_all add: github_app_def needs_approval_def)
  show ?thesis
    using approval_requested issue_valid submission_checks(4)
    by (simp add: invoke_capability_def c g i op_defs Let_def ensure_def map_err_def)
qed

lemma decided_by_request:
  "serve sample_context (ReqDecide (request_at 40 310) ''ops'' 305 \<lparr>db_expected_revision = 0, db_reason = None\<rparr> DecisionApproved) invoked = decided"
proof -
  have "get_approval (UuidV7 305) store_d = (Inr (Some issue_approval), store_d)"
    by (simp add: get_approval_def op_defs store_d_def)
  moreover have "api_store invoked = store_d" by (simp add: invoked_def)
  ultimately show ?thesis
    using approval_decided submission_checks(4)
    by (simp add: api_decide_approval_def op_defs on_api_store_def map_error_def map_err_def revision_of_def decided_def)
qed

definition issue_loaded :: loaded_execution where
  "issue_loaded = (UuidV7 305, issue_row, issue_action, issue_approved, actor0)"

definition issue_prepared :: prepared_execution where
  "issue_prepared = \<lparr>pe_row = issue_row, pe_claimed = \<lparr>ca_action = issue_action, ca_claim = issue_claim\<rparr>,
     pe_prepared_action = UuidV7 304, pe_prepared_run = UuidV7 300, pe_actor = actor0\<rparr>"

definition consumed_api :: api_state where
  "consumed_api = decided\<lparr>api_store := store_f\<rparr>"

definition reserved_api :: api_state where
  "reserved_api = consumed_api\<lparr>api_executions := [(304, \<lparr>xr_parameter_hash = digest_str zero_hash, xr_state = Started\<rparr>)]\<rparr>"

definition issue_arguments :: json where
  "issue_arguments = JObject [(''body'', JString ''b''), (''method'', JString ''create''), (''owner'', JString ''o''),
     (''repo'', JString ''r''), (''title'', JString ''t'')]"

definition issue_messages :: "json list" where
  "issue_messages = [initialize_message answering_peer, initialized_message, list_message, call_message ''issue_write'' issue_arguments]"

definition performed_api :: api_state where
  "performed_api = reserved_api\<lparr>api_calls := [(ApprovedCall (UuidV7 304), issue_messages)]\<rparr>"

lemma issue_row_sel [simp]:
  "rw_action_id issue_row = 304" "rw_approval_id issue_row = 305" "rw_run_id issue_row = 300" "rw_app_id issue_row = ''github''"
  "rw_capability_id issue_row = ''github.issue.create''" "rw_resource issue_row = ''res''" "rw_parameters issue_row = issue_parameters"
  "rw_parameter_hash issue_row = digest_str zero_hash"
  by (simp_all add: issue_row_def)

lemma issue_loads:
  "load_capability_execution sample_context (request_at 50 320) 305 1 ''ops'' decided = (Inr issue_loaded, decided)"
proof -
  have d: "api_actions decided = [issue_row]" "bm_get (api_installed decided) ''github'' = Some github_installed"
    "ia_enabled github_installed" "api_store decided = store_e"
    by (simp_all add: decided_def invoked_def installed_def github_installed_def)
  have r: "rebuild_action control_ext issue_row = Inr issue_action"
    by (simp add: rebuild_action_def issue_valid issue_requested map_err_def) (simp add: issue_action_def)
  have g: "get_approval (UuidV7 305) store_e = (Inr (Some issue_approved), store_e)" "ap_revision issue_approved = 1"
    by (simp_all add: get_approval_def op_defs store_e_def issue_approved_def)
  have f: "find_action_row 305 decided = (Inr (Some issue_row), decided)" by (simp add: find_action_row_def op_defs d)
  have u: "decided\<lparr>api_store := store_e\<rparr> = decided" by (simp add: decided_def)
  show ?thesis
    using d r g u f submission_checks(4)
    by (simp add: load_capability_execution_def Let_def op_defs ensure_def on_api_store_def map_error_def map_err_def issue_loaded_def)
qed

lemma issue_claims:
  "claim_capability_execution sample_context (request_at 50 320) 1 issue_loaded decided = (Inr issue_prepared, consumed_api)"
proof -
  have a: "ap_status issue_approved = Approved" "ap_id issue_approved = UuidV7 305" "ac_id issue_action = UuidV7 304" "ac_run_id issue_action = UuidV7 300"
    by (simp_all add: issue_approved_def issue_approval_def issue_action_def)
  have v: "verify_claimed control_ext issue_action issue_claim store_f = (Inr \<lparr>ca_action = issue_action, ca_claim = issue_claim\<rparr>, store_f)"
    using issue_intact by (simp add: verify_claimed_def get_action_claim_def issue_claim_def claim_of_def op_defs store_f_def a)
  have s: "api_store decided = store_e" by (simp add: decided_def)
  show ?thesis
    using approval_consumed v
    by (simp add: claim_capability_execution_def Let_def issue_loaded_def a s op_defs on_api_store_def map_error_def issue_prepared_def
      consumed_api_def)
qed

lemma issue_reserves: "reserve_capability_execution (request_at 50 320) issue_row consumed_api = (Inr (), reserved_api)"
proof -
  have "api_executions consumed_api = []" by (simp add: consumed_api_def decided_def invoked_def installed_def initial_api_def)
  then show ?thesis by (simp add: reserve_capability_execution_def insert_execution_def op_defs reserved_api_def)
qed

lemma peer_sel:
  "mp_spawns answering_peer c" "mp_accepts answering_peer sent" "\<not> mp_closed answering_peer sent"
  "mp_json answering_peer ''1'' = Some (JObject [(''id'', JNumber (PosInt 1)), (''result'', JObject [])])"
  "mp_json answering_peer ''2'' = Some (JObject [(''id'', JNumber (PosInt 2)),
     (''result'', JObject [(''tools'', JArray [JObject [(''name'', JString ''issue_write'')]])])])"
  "mp_json answering_peer ''3'' = Some (JObject [(''id'', JNumber (PosInt 3)), (''result'', JObject [])])"
  "mp_lines answering_peer sent = (if length sent = 1 then [Line ''1''] else if length sent = 3 then [Line ''2'']
     else if length sent = 4 then [Line ''3''] else [])"
  by (simp_all add: answering_peer_def)

lemma issue_written:
  "execute_claimed_github_capability control_ext answering_peer (cx_connectors sample_context) (pe_claimed issue_prepared) =
     (Inr (JObject []), issue_messages)"
proof -
  have m: "github_mapping ''github.issue.create'' = Some \<lparr>gm_tool = ''issue_write'', gm_read_only = False, gm_fixed_method = Some ''create''\<rparr>"
    by (simp add: github_mapping_def)
  have a: "github_arguments \<lparr>gm_tool = ''issue_write'', gm_read_only = False, gm_fixed_method = Some ''create''\<rparr> issue_parameters = Inr issue_arguments"
    by (simp add: github_arguments_def issue_parameters_def issue_arguments_def)
  have p: "bm_get (cr_entries (cx_connectors sample_context)) ''github'' = Some \<lparr>co_id = ''github'', co_name = ''GitHub'',
       co_process = Some \<lparr>pr_executable = ''/d'', pr_args = [], pr_environment = [], pr_timeout = 1\<rparr>\<rparr>"
    by (simp add: sample_context_def new_connectors_def bm_of_list_def)
  have t: "parse_tools control_ext (JObject [(''id'', JNumber (PosInt 2)),
     (''result'', JObject [(''tools'', JArray [JObject [(''name'', JString ''issue_write'')]])])]) =
     Inr [\<lparr>ct_id = ''issue_write'', ct_name = ''issue_write'', ct_title = None, ct_description = None, ct_read_only = False,
       ct_input_schema_sha256 = digest_str zero_hash\<rparr>]"
    by (simp add: parse_tools_def parse_tool_def max_tools_def max_tool_name_bytes_def bounded_optional_text_def
      get_str_def control_hash Let_def)
  have l: "length (json_to_string control_ext issue_arguments) \<le> 65536"
    "length (json_to_string control_ext (JObject [(''id'', JNumber (PosInt 3)), (''result'', JObject [])])) \<le> max_call_result_bytes"
    by (simp_all add: control_ext_def sample_ext_def issue_arguments_def print_string_def unary_def max_call_result_bytes_def)
  have "exchange control_ext answering_peer new_session = (Inr [\<lparr>ct_id = ''issue_write'', ct_name = ''issue_write'', ct_title = None,
       ct_description = None, ct_read_only = False, ct_input_schema_sha256 = digest_str zero_hash\<rparr>],
     \<lparr>mq_sent = [initialize_message answering_peer, initialized_message, list_message], mq_pending = []\<rparr>)"
    by (simp add: exchange_def new_session_def op_defs send_json_def receive_response_def peer_sel max_message_bytes_def t Let_def)
  then have "call_exchange control_ext answering_peer ''issue_write'' issue_arguments False new_session =
     (Inr (JObject []), \<lparr>mq_sent = issue_messages, mq_pending = []\<rparr>)"
    using l by (simp add: call_exchange_def op_defs send_json_def receive_response_def peer_sel max_message_bytes_def Let_def
      validated_call_result_def issue_messages_def)
  then show ?thesis
    using m a p
    by (simp add: execute_claimed_github_capability_def issue_prepared_def issue_action_def call_capability_def call_tool_def
      in_process_def starts_with_def peer_sel map_err_def)
qed

lemma issue_performs: "perform_capability sample_context (request_at 50 320) issue_prepared reserved_api = (Inr (JObject []), performed_api)"
proof -
  have "api_calls reserved_api = []" "pe_prepared_action issue_prepared = UuidV7 304"
    by (simp_all add: reserved_api_def consumed_api_def decided_def invoked_def installed_def initial_api_def issue_prepared_def)
  with issue_written show ?thesis
    by (simp add: perform_capability_def trace_call_def match_result_def op_defs performed_api_def)
qed

section \<open>The system\<close>

definition performed_system :: system where
  "performed_system = \<lparr>sys_api = performed_api, sys_flights = [PerformedFlight (request_at 50 320) issue_prepared (JObject [])]\<rparr>"

lemma performed_reachable: "api_reachable sample_context performed_system"
proof -
  let ?E = "request_at 50 320" and ?S = "api_step sample_context"
  have "?S \<lparr>sys_api = initial_api, sys_flights = []\<rparr> \<lparr>sys_api = installed, sys_flights = []\<rparr>"
    by (rule api_step.request [of sample_context initial_api "[]" "ReqInstall ''github''", unfolded app_installs])
  moreover have "?S \<lparr>sys_api = installed, sys_flights = []\<rparr> \<lparr>sys_api = invoked, sys_flights = []\<rparr>"
    by (rule api_step.request [of sample_context installed "[]" "ReqInvoke (request_at 20 300) ''github'' ''github.issue.create'' invocation",
          unfolded invoked_by_request])
  moreover have "?S \<lparr>sys_api = invoked, sys_flights = []\<rparr> \<lparr>sys_api = decided, sys_flights = []\<rparr>"
    by (rule api_step.request [of sample_context invoked "[]" "ReqDecide (request_at 40 310) ''ops'' 305
          \<lparr>db_expected_revision = 0, db_reason = None\<rparr> DecisionApproved", unfolded decided_by_request])
  moreover have "?S \<lparr>sys_api = decided, sys_flights = []\<rparr> \<lparr>sys_api = decided, sys_flights = [LoadedFlight ?E 1 issue_loaded]\<rparr>"
    by (rule api_step.execute [OF issue_loads])
  moreover have "?S \<lparr>sys_api = decided, sys_flights = [LoadedFlight ?E 1 issue_loaded]\<rparr>
      \<lparr>sys_api = consumed_api, sys_flights = [PreparedFlight ?E issue_prepared]\<rparr>"
    using flight_steps [of sample_context "LoadedFlight ?E 1 issue_loaded" decided "Some (PreparedFlight ?E issue_prepared)" consumed_api "[]"]
    by (simp add: continue_as_def issue_claims)
  moreover have "?S \<lparr>sys_api = consumed_api, sys_flights = [PreparedFlight ?E issue_prepared]\<rparr>
      \<lparr>sys_api = reserved_api, sys_flights = [ReservedFlight ?E issue_prepared]\<rparr>"
    using flight_steps [of sample_context "PreparedFlight ?E issue_prepared" consumed_api "Some (ReservedFlight ?E issue_prepared)" reserved_api "[]"]
    by (simp add: continue_as_def issue_reserves issue_prepared_def [THEN arg_cong, of pe_row])
  moreover have "?S \<lparr>sys_api = reserved_api, sys_flights = [ReservedFlight ?E issue_prepared]\<rparr> performed_system"
    using flight_steps [of sample_context "ReservedFlight ?E issue_prepared" reserved_api
        "Some (PerformedFlight ?E issue_prepared (JObject []))" performed_api "[]"]
    by (simp add: continue_as_def issue_performs performed_system_def)
  ultimately show ?thesis unfolding api_reachable_def by (meson rtranclp.intros)
qed

theorem external_write_is_approved_once_witness:
  "approved_requests (UuidV7 304) (sys_api performed_system) = 1
   \<and> (\<exists>action p approval entries. UuidV7 304 = ac_id action \<and> parameters_match_hash control_ext action
        \<and> ac_parameters action = JObject entries \<and> issue_arguments = JObject (bm_insert ''method'' (JString ''create'') entries)
        \<and> bm_get (st_approvals (api_store (sys_api performed_system))) p = Some approval \<and> ap_status approval = Consumed
        \<and> ap_action_id approval = ac_id action)"
proof -
  have "(ApprovedCall (UuidV7 304), issue_messages) \<in> set (api_calls (sys_api performed_system))
      \<and> call_message ''issue_write'' issue_arguments \<in> set issue_messages"
    by (simp add: performed_system_def performed_api_def issue_messages_def)
  moreover have "approved_requests (UuidV7 304) (sys_api performed_system) = 1"
    by (simp add: approved_requests_def tool_calls_def performed_system_def performed_api_def issue_messages_def)
  ultimately show ?thesis
    using external_write_is_approved_once [OF context_hypotheses performed_reachable, of "UuidV7 304" "ApprovedCall (UuidV7 304)"
        issue_messages issue_arguments]
    unfolding context_sel(1) call_origin.inject by metis
qed

end
