(* ===== verification/Host_Files.thy ===== *)
theory Host_Files
  imports Sandbox
begin

text \<open>
  The part of Rust's \<^verbatim>\<open>std::path\<close> and \<^verbatim>\<open>std::fs\<close> that the installer and the downloader use, on a
  tree of files. A path is its list of components, so equality and \<^verbatim>\<open>parent\<close> are those of
  \<^verbatim>\<open>Path\<close>; symbolic links and dot-dot components are not followed. Every call that the operating
  system may refuse is logged, and whether it is refused may depend on all calls before it. The lemmas
  show which nodes each call may change and that the tree stays well-formed.
\<close>

section \<open>Paths\<close>

datatype path_buf = Path_buf (path_absolute: bool) (path_parts: "string list")

instantiation path_buf :: linorder
begin

definition less_eq_path_buf :: "path_buf \<Rightarrow> path_buf \<Rightarrow> bool" where
  "less_eq_path_buf p q =
     ((path_absolute p, path_parts p) \<le> (path_absolute q, path_parts q))"

definition less_path_buf :: "path_buf \<Rightarrow> path_buf \<Rightarrow> bool" where
  "less_path_buf p q =
     ((path_absolute p, path_parts p) < (path_absolute q, path_parts q))"

instance
  by standard (auto simp: less_eq_path_buf_def less_path_buf_def path_buf.expand
    intro: order.trans simp del: less_eq_prod_simp less_prod_simp)

end

definition path_parent :: "path_buf \<Rightarrow> path_buf option" where
  \<comment> \<open>the root and the empty path have no parent\<close>
  "path_parent p =
     (if path_parts p = [] then None
      else Some (Path_buf (path_absolute p) (butlast (path_parts p))))"

definition path_join :: "path_buf \<Rightarrow> path_buf \<Rightarrow> path_buf" where
  \<comment> \<open>an absolute second path replaces the first\<close>
  "path_join p q =
     (if path_absolute q then q else Path_buf (path_absolute p) (path_parts p @ path_parts q))"

definition path_display :: "path_buf \<Rightarrow> string" where
  "path_display p = (if path_absolute p then ''/'' else []) @ join ''/'' (path_parts p)"

definition trail :: "path_buf \<Rightarrow> path_buf list" where
  \<comment> \<open>the path and its ancestors below the root or the current directory, topmost first\<close>
  "trail p = map (\<lambda>n. Path_buf (path_absolute p) (take n (path_parts p)))
               [1..<Suc (length (path_parts p))]"

lemma path_parent_shorter: "path_parent p = Some q \<Longrightarrow> length (path_parts q) < length (path_parts p)"
  by (auto simp: path_parent_def split: if_splits)

lemma path_parent_neq: "path_parent p = Some q \<Longrightarrow> q \<noteq> p"
  using path_parent_shorter by fastforce

lemma trail_snoc:
  "trail (Path_buf a (cs @ [c])) = trail (Path_buf a cs) @ [Path_buf a (cs @ [c])]"
  by (auto simp: trail_def)

lemma trail_Nil [simp]: "trail (Path_buf a []) = []"
  by (simp add: trail_def)

lemma trail_components: "q \<in> set (trail p) \<Longrightarrow> path_parts q \<noteq> []"
  by (auto simp: trail_def)

lemma trail_parent:
  "path_parent p = Some q \<Longrightarrow> trail p = trail q @ [p]"
  by (cases p, cases "path_parts p" rule: rev_cases) (auto simp: path_parent_def trail_snoc)

lemma trail_self: "path_parts p \<noteq> [] \<Longrightarrow> p \<in> set (trail p)"
  using trail_parent [of p] by (auto simp: path_parent_def)

section \<open>The host\<close>

datatype io_kind = NotFound | AlreadyExists | NotADirectory | DirectoryNotEmpty | OtherKind

record io_error =
  io_kind :: io_kind
  io_text :: string

datatype node = Directory_node | File_node string

datatype host_call =
    Make_dir path_buf
  | Remove_dir path_buf
  | Remove_file path_buf
  | Open_temporary path_buf
  | Write_temporary nat
  | Sync_temporary
  | Persist path_buf
  | Sync_dir path_buf
  | Read_token
  | Http_get string
  | Run_program path_buf "string list"

record host =
  files :: "(path_buf, node) btree_map"
  calls :: "host_call list"

record host_env =
  refuses :: "host_call list \<Rightarrow> host_call \<Rightarrow> io_error option"
    \<comment> \<open>the answer of the operating system to a call after the calls before it\<close>
  token :: "host_call list \<Rightarrow> bool"
    \<comment> \<open>what a reading of the cancellation token gives\<close>

abbreviation node_in :: "(path_buf, node) btree_map \<Rightarrow> path_buf \<Rightarrow> node option" where
  "node_in fs \<equiv> bm_get fs"

definition node_at :: "(path_buf, node) btree_map \<Rightarrow> path_buf \<Rightarrow> node option" where
  \<comment> \<open>the root always exists; the empty path names nothing\<close>
  "node_at fs p =
     (if path_parts p = [] then (if path_absolute p then Some Directory_node else None)
      else node_in fs p)"

definition path_exists :: "(path_buf, node) btree_map \<Rightarrow> path_buf \<Rightarrow> bool" where
  "path_exists fs p = (node_at fs p \<noteq> None)"

definition path_is_dir :: "(path_buf, node) btree_map \<Rightarrow> path_buf \<Rightarrow> bool" where
  "path_is_dir fs p = (node_at fs p = Some Directory_node)"

definition log_call :: "host_call \<Rightarrow> host \<Rightarrow> host" where
  "log_call c s = s\<lparr>calls := calls s @ [c]\<rparr>"

definition sys :: "host_env \<Rightarrow> host_call \<Rightarrow> (host, io_error, unit) op \<Rightarrow> (host, io_error, unit) op" where
  "sys env c act s =
     (case refuses env (calls s) c of
        Some e \<Rightarrow> (Inl e, log_call c s)
      | None \<Rightarrow> act (log_call c s))"

definition set_node :: "path_buf \<Rightarrow> node \<Rightarrow> host \<Rightarrow> host" where
  "set_node p n s = s\<lparr>files := bm_insert p n (files s)\<rparr>"

definition drop_node :: "path_buf \<Rightarrow> host \<Rightarrow> host" where
  "drop_node p s = s\<lparr>files := bm_remove p (files s)\<rparr>"

definition os_error :: "io_kind \<Rightarrow> io_error" where
  "os_error k = \<lparr>io_kind = k, io_text =
     (case k of
        NotFound \<Rightarrow> ''No such file or directory (os error 2)''
      | AlreadyExists \<Rightarrow> ''File exists (os error 17)''
      | NotADirectory \<Rightarrow> ''Not a directory (os error 20)''
      | DirectoryNotEmpty \<Rightarrow> ''Directory not empty (os error 39)''
      | OtherKind \<Rightarrow> ''Is a directory (os error 21)'')\<rparr>"

definition add_node :: "path_buf \<Rightarrow> node \<Rightarrow> (host, io_error, unit) op" where
  \<comment> \<open>a new entry needs a directory to stand in and must not exist\<close>
  "add_node p n s =
     (if path_exists (files s) p then (Inl (os_error AlreadyExists), s)
      else case path_parent p of
        None \<Rightarrow> (Inl (os_error NotFound), s)
      | Some q \<Rightarrow>
          if path_parts q = [] \<or> node_in (files s) q = Some Directory_node
          then (Inr (), set_node p n s)
          else (Inl (os_error (if node_in (files s) q = None then NotFound else NotADirectory)), s))"

definition has_child :: "(path_buf, node) btree_map \<Rightarrow> path_buf \<Rightarrow> bool" where
  "has_child fs p = list_ex (\<lambda>(q, _). path_parent q = Some p) fs"

definition make_dir :: "host_env \<Rightarrow> path_buf \<Rightarrow> (host, io_error, unit) op" where
  "make_dir env p = sys env (Make_dir p) (add_node p Directory_node)"

definition remove_file :: "host_env \<Rightarrow> path_buf \<Rightarrow> (host, io_error, unit) op" where
  "remove_file env p = sys env (Remove_file p) (\<lambda>s.
     case node_at (files s) p of
       None \<Rightarrow> (Inl (os_error NotFound), s)
     | Some Directory_node \<Rightarrow> (Inl (os_error OtherKind), s)
     | Some (File_node _) \<Rightarrow> (Inr (), drop_node p s))"

definition remove_dir :: "host_env \<Rightarrow> path_buf \<Rightarrow> (host, io_error, unit) op" where
  "remove_dir env p = sys env (Remove_dir p) (\<lambda>s.
     case node_at (files s) p of
       None \<Rightarrow> (Inl (os_error NotFound), s)
     | Some (File_node _) \<Rightarrow> (Inl (os_error NotADirectory), s)
     | Some Directory_node \<Rightarrow>
         if path_parts p = [] \<or> has_child (files s) p then (Inl (os_error DirectoryNotEmpty), s)
         else (Inr (), drop_node p s))"

fun make_dirs :: "host_env \<Rightarrow> path_buf list \<Rightarrow> (host, io_error, unit) op" where
  "make_dirs env [] = ret ()"
| "make_dirs env (p # ps) =
     bnd (\<lambda>s. if path_is_dir (files s) p then (Inr (), s) else make_dir env p s)
       (\<lambda>_. make_dirs env ps)"

definition create_dir_all :: "host_env \<Rightarrow> path_buf \<Rightarrow> (host, io_error, unit) op" where
  \<comment> \<open>\<^verbatim>\<open>fs::create_dir_all\<close>: an error may leave some of the parents created\<close>
  "create_dir_all env p = make_dirs env (trail p)"

definition is_cancelled :: "host_env \<Rightarrow> (host, 'e, bool) op" where
  "is_cancelled env s = (Inr (token env (calls s)), log_call Read_token s)"

section \<open>Well-formed trees\<close>

definition tidy :: "(path_buf, node) btree_map \<Rightarrow> bool" where
  \<comment> \<open>every entry stands in a directory\<close>
  "tidy fs = list_all (\<lambda>(p, _).
     case path_parent p of
       None \<Rightarrow> False
     | Some q \<Rightarrow> path_parts q = [] \<or> node_in fs q = Some Directory_node) fs"

definition stands :: "(path_buf \<Rightarrow> node option) \<Rightarrow> path_buf \<Rightarrow> bool" where
  "stands m p = (\<exists>q. path_parent p = Some q \<and> (path_parts q = [] \<or> m q = Some Directory_node))"

lemma node_in_iff: "(\<exists>n. (p, n) \<in> set fs) = (node_in fs p \<noteq> None)"
  by (metis (no_types, lifting) fst_conv image_iff map_of_eq_None_iff surj_pair)

lemma tidy_iff: "tidy fs = (\<forall>p. node_in fs p \<noteq> None \<longrightarrow> stands (node_in fs) p)"
proof -
  have "tidy fs = (\<forall>p n. (p, n) \<in> set fs \<longrightarrow> stands (node_in fs) p)"
    by (auto simp: tidy_def stands_def list_all_iff split: option.splits)
  also have "\<dots> = (\<forall>p. node_in fs p \<noteq> None \<longrightarrow> stands (node_in fs) p)"
    using node_in_iff [of _ fs] by blast
  finally show ?thesis .
qed

lemma has_child_iff: "has_child fs p = (\<exists>q. node_in fs q \<noteq> None \<and> path_parent q = Some p)"
proof -
  have "has_child fs p = (\<exists>q n. (q, n) \<in> set fs \<and> path_parent q = Some p)"
    by (auto simp: has_child_def list_ex_iff)
  then show ?thesis using node_in_iff [of _ fs] by blast
qed

lemma tidy_components: "tidy fs \<Longrightarrow> node_in fs p = Some n \<Longrightarrow> path_parts p \<noteq> []"
  by (auto simp: tidy_iff stands_def path_parent_def split: if_splits)

lemma tidy_parent:
  "tidy fs \<Longrightarrow> node_in fs p \<noteq> None \<Longrightarrow> path_parent p = Some q \<Longrightarrow> path_parts q \<noteq> [] \<Longrightarrow>
   node_in fs q = Some Directory_node"
  by (auto simp: tidy_iff stands_def)

lemma tidy_no_child:
  assumes "tidy fs" and "node_in fs p \<noteq> Some Directory_node" and "path_parts p \<noteq> []"
  shows "\<not> has_child fs p"
  using assms tidy_parent [of fs _ p] by (auto simp: has_child_iff)

lemma stands_mono: "stands m p \<Longrightarrow> (\<And>q n. m q = Some n \<Longrightarrow> m' q = Some n) \<Longrightarrow> stands m' p"
  by (auto simp: stands_def)

lemma tidy_insert:
  assumes "tidy fs" and "stands (node_in fs) p" and "node_in fs p = None"
  shows "tidy (bm_insert p n fs)"
proof -
  have "stands ((node_in fs)(p \<mapsto> n)) q" if "stands (node_in fs) q" for q
    using that assms(3) by (elim stands_mono) auto
  with assms(1,2) show ?thesis by (auto simp: tidy_iff)
qed

lemma tidy_remove:
  assumes "tidy fs" and "\<not> has_child fs p"
  shows "tidy (bm_remove p fs)"
  unfolding tidy_iff
proof (intro allI impI)
  fix q assume q: "node_in (bm_remove p fs) q \<noteq> None"
  then have q: "node_in fs q \<noteq> None" by (auto split: if_splits)
  with assms(1) obtain h where h: "path_parent q = Some h" "path_parts h = [] \<or> node_in fs h = Some Directory_node"
    unfolding tidy_iff stands_def by blast
  with assms(2) q have "h \<noteq> p" unfolding has_child_iff by blast
  with h show "stands (node_in (bm_remove p fs)) q" by (auto simp: stands_def)
qed

lemma tidy_cong: "node_in fs = node_in gs \<Longrightarrow> tidy fs = tidy gs"
  by (simp add: tidy_iff)

section \<open>What a call may change\<close>

definition grows :: "path_buf set \<Rightarrow> host \<Rightarrow> host \<Rightarrow> bool" where
  \<comment> \<open>nothing that existed changed, and what is new lies among the given paths\<close>
  "grows A s t = (tidy (files t) \<and>
     (\<forall>q. node_in (files t) q = node_in (files s) q \<or> node_in (files s) q = None \<and> q \<in> A))"

lemma grows_refl: "tidy (files s) \<Longrightarrow> grows A s s"
  by (simp add: grows_def)

lemma grows_tidy: "grows A s t \<Longrightarrow> tidy (files t)"
  by (simp add: grows_def)

lemma grows_trans: "grows A s t \<Longrightarrow> grows B t u \<Longrightarrow> grows (A \<union> B) s u"
  unfolding grows_def by (metis UnCI)

lemma grows_mono: "grows A s t \<Longrightarrow> A \<subseteq> B \<Longrightarrow> grows B s t"
  by (auto simp: grows_def)

lemma grows_keeps: "grows A s t \<Longrightarrow> node_in (files s) q = Some n \<Longrightarrow> node_in (files t) q = Some n"
  by (metis grows_def option.distinct(1))

lemma grows_same: "tidy (files s) \<Longrightarrow> files t = files s \<Longrightarrow> grows A s t"
  by (simp add: grows_def)

lemma files_log_call [simp]: "files (log_call c s) = files s"
  by (simp add: log_call_def)

lemma files_set_node [simp]: "files (set_node p n s) = bm_insert p n (files s)"
  by (simp add: set_node_def)

lemma files_drop_node [simp]: "files (drop_node p s) = bm_remove p (files s)"
  by (simp add: drop_node_def)

lemma add_node_cases:
  assumes "add_node p n s = (r, t)"
  obtains (added) "r = Inr ()" "t = set_node p n s" "node_in (files s) p = None" "stands (node_in (files s)) p"
      "path_parts p \<noteq> []"
  | (failed) e where "r = Inl e" "t = s"
  using assms
  by (auto simp: add_node_def stands_def path_exists_def node_at_def path_parent_def split: option.splits if_splits)

lemma sys_cases:
  assumes "sys env c act s = (r, t)"
  obtains (refused) e where "refuses env (calls s) c = Some e" "r = Inl e" "t = log_call c s"
  | (performed) "refuses env (calls s) c = None" "act (log_call c s) = (r, t)"
  using assms by (auto simp: sys_def split: option.splits)

lemma make_dir_cases:
  assumes "make_dir env p s = (r, t)"
  obtains (added) "r = Inr ()" "files t = bm_insert p Directory_node (files s)" "node_in (files s) p = None"
      "stands (node_in (files s)) p" "path_parts p \<noteq> []"
  | (failed) e where "r = Inl e" "files t = files s"
  using assms unfolding make_dir_def
  by (elim sys_cases) (auto elim!: add_node_cases)

lemma make_dir_grows: "make_dir env p s = (r, t) \<Longrightarrow> tidy (files s) \<Longrightarrow> grows {p} s t"
  by (erule make_dir_cases) (auto simp: grows_def tidy_insert)

lemma make_dirs_grows:
  "make_dirs env ps s = (r, t) \<Longrightarrow> tidy (files s) \<Longrightarrow> grows (set ps) s t"
proof (induction ps arbitrary: s)
  case (Cons p ps)
  let ?first = "\<lambda>s. if path_is_dir (files s) p then (Inr (), s) else make_dir env p s"
  obtain r1 u where u: "?first s = (r1, u)" by fastforce
  then have g: "grows {p} s u"
    using Cons.prems(2) by (auto split: if_splits intro: make_dir_grows grows_refl)
  show ?case
  proof (cases r1)
    case (Inl e)
    with Cons.prems(1) u g show ?thesis by (auto simp: bnd_def intro: grows_mono)
  next
    case (Inr x)
    with Cons.prems(1) u have "make_dirs env ps u = (r, t)" by (simp add: bnd_def)
    with Cons.IH g grows_tidy have "grows (set ps) u t" by blast
    with g show ?thesis using grows_trans by fastforce
  qed
qed (auto simp: ret_def intro: grows_refl)

lemma create_dir_all_grows:
  "create_dir_all env p s = (r, t) \<Longrightarrow> tidy (files s) \<Longrightarrow> grows (set (trail p)) s t"
  unfolding create_dir_all_def by (rule make_dirs_grows)

lemma tidy_trail:
  "tidy fs \<Longrightarrow> node_in fs p = Some Directory_node \<Longrightarrow> q \<in> set (trail p) \<Longrightarrow> node_in fs q = Some Directory_node"
proof (induction "length (path_parts p)" arbitrary: p rule: less_induct)
  case less
  show ?case
  proof (cases "path_parent p")
    case None
    then show ?thesis using less.prems tidy_components by (fastforce simp: path_parent_def split: if_splits)
  next
    case (Some h)
    show ?thesis
    proof (cases "q = p \<or> path_parts h = []")
      case True
      then show ?thesis using less.prems trail_parent [OF Some] by (cases h) auto
    next
      case False
      then show ?thesis
        using less.hyps [OF path_parent_shorter [OF Some]] less.prems tidy_parent [of fs p h] trail_parent [OF Some] Some by auto
    qed
  qed
qed

lemma make_dirs_existing:
  "(\<And>q. q \<in> set ps \<Longrightarrow> path_is_dir (files s) q) \<Longrightarrow> make_dirs env ps s = (Inr (), s)"
  by (induction ps) (simp_all add: ret_def bnd_def)

lemma create_dir_all_existing:
  assumes "tidy (files s)" and "path_parts p = [] \<or> node_in (files s) p = Some Directory_node"
  shows "create_dir_all env p s = (Inr (), s)"
  unfolding create_dir_all_def
proof (rule make_dirs_existing)
  fix q assume q: "q \<in> set (trail p)"
  with assms tidy_trail have "node_in (files s) q = Some Directory_node" by (cases p) auto
  then show "path_is_dir (files s) q"
    using tidy_components [OF assms(1)] by (simp add: path_is_dir_def node_at_def)
qed

end
