(* ===== verification/Downloads.thy ===== *)
theory Downloads
  imports Host_Files
begin

text \<open>
  The downloader of the runtime crate (\<^verbatim>\<open>crates/openwork-runtime/src/system_downloader.rs\<close> and the
  requests and receipts of \<^verbatim>\<open>lib.rs\<close>): the network policy, redirects, streaming to a temporary file
  under the byte limit, verification of the digest and publication without overwriting. The URL parser
  and what the HTTPS client is answered are parameters. A stream may go on for ever: the loop ends
  because every chunk counts against the limit.
\<close>

section \<open>Requests and the network policy\<close>

record download_request =
  dl_url :: string
  dl_destination :: path_buf
  dl_expected_sha256 :: "string option"
  dl_timeout_millis :: u64

record download_receipt =
  dr_bytes_written :: u64
  dr_observed_sha256 :: string
  dr_verified :: bool

record url =
  \<comment> \<open>what \<^verbatim>\<open>reqwest::Url\<close> tells of a parsed address\<close>
  url_text :: string
  url_scheme :: string
  url_username :: string
  url_password :: "string option"
  url_host :: "string option"

record download_policy =
  allowed_hosts :: "string list"
  max_bytes :: u64
  max_redirects :: nat

definition default_max_download_bytes :: u64 where
  "default_max_download_bytes = 64 * 1024 * 1024"

definition buffer_bytes :: nat where
  "buffer_bytes = 64 * 1024"

definition official_runtime_sources :: download_policy where
  "official_runtime_sources =
     \<lparr>allowed_hosts = [''chatgpt.com'', ''claude.ai''], max_bytes = default_max_download_bytes,
      max_redirects = 3\<rparr>"

definition new_download_policy :: "string list \<Rightarrow> u64 \<Rightarrow> nat \<Rightarrow> download_policy" where
  "new_download_policy hosts limit redirects =
     \<lparr>allowed_hosts = map to_ascii_lowercase hosts, max_bytes = limit, max_redirects = redirects\<rparr>"

definition download_error :: "string \<Rightarrow> string \<Rightarrow> openwork_error" where
  "download_error msg hint = with_remediation (new_error InstallFailed msg) hint"

definition validate_url :: "download_policy \<Rightarrow> url \<Rightarrow> unit result" where
  "validate_url policy u =
     (if url_scheme u \<noteq> ''https'' then
        Inl (download_error ''runtime downloads require HTTPS''
          ''Use an upstream-owned HTTPS installer URL.'')
      else if url_username u \<noteq> [] \<or> url_password u \<noteq> None then
        Inl (download_error ''runtime download URLs must not contain credentials''
          ''Remove user information from the installer URL.'')
      else let host = to_ascii_lowercase (case url_host u of None \<Rightarrow> [] | Some h \<Rightarrow> h)
        in if host \<notin> set (allowed_hosts policy) then
             Inl (download_error (''runtime download host `'' @ host @ ''` is not allowlisted'')
               ''Review the upstream source and add its exact host to DownloadPolicy.'')
           else Inr ())"

definition validate_redirect :: "download_policy \<Rightarrow> nat \<Rightarrow> url \<Rightarrow> unit result" where
  "validate_redirect policy previous_urls u =
     (if max_redirects policy < previous_urls then
        Inl (download_error ''runtime download exceeded the redirect limit''
          ''Use the final reviewed upstream HTTPS installer URL.'')
      else validate_url policy u)"

section \<open>The downloader\<close>

record http_answer =
  \<comment> \<open>what the client meets on one request: the redirects it is sent to, whether the last address
    answers at all and with a successful status, the announced length, and the readings of the body\<close>
  ha_redirects :: "url list"
  ha_connected :: bool
  ha_successful :: bool
  ha_content_length :: "u64 option"
  ha_read :: "nat \<Rightarrow> string option"
    \<comment> \<open>the n-th reading: an error, or the bytes it gives; none at the end of the body\<close>

record downloader =
  dw_policy :: download_policy
  dw_parse_url :: "string \<Rightarrow> url option"
  dw_answer :: "host_call list \<Rightarrow> url \<Rightarrow> u64 \<Rightarrow> http_answer"

definition validate_expected_digest :: "string option \<Rightarrow> string option result" where
  "validate_expected_digest val =
     (case val of
        None \<Rightarrow> Inr None
      | Some digest \<Rightarrow>
          let normalized = to_ascii_lowercase (trim digest)
          in if length normalized = 64 \<and> list_all is_lower_hex normalized then Inr (Some normalized)
             else Inl (download_error ''expected SHA-256 digest is invalid''
               ''Provide exactly 64 hexadecimal characters from the official release.''))"

definition cancelled_error :: openwork_error where
  "cancelled_error =
     download_error ''runtime download was cancelled'' ''Retry the install when ready.''"

definition existing_destination_error :: "path_buf \<Rightarrow> openwork_error" where
  "existing_destination_error destination =
     download_error (''refusing to overwrite existing download `'' @ path_display destination @ ''`'')
       ''Remove the stale managed download after reviewing it, then retry.''"

definition size_limit_error :: openwork_error where
  "size_limit_error =
     download_error ''runtime download exceeds the configured size limit''
       ''Review the upstream artifact and increase the explicit policy limit if valid.''"

definition download_io_error :: "io_error \<Rightarrow> openwork_error" where
  "download_io_error e =
     download_error (''runtime download filesystem operation failed: '' @ io_text e)
       ''Check free space and permissions for the managed cache directory.''"

definition on_error :: "('e \<Rightarrow> 'f) \<Rightarrow> ('s, 'e, 'a) op \<Rightarrow> ('s, 'f, 'a) op" where
  \<comment> \<open>\<^verbatim>\<open>op.map_err(g)\<close>\<close>
  "on_error g m s = (case m s of (r, t) \<Rightarrow> (map_err g r, t))"

definition validate_request ::
  "downloader \<Rightarrow> download_request \<Rightarrow> (path_buf, node) btree_map \<Rightarrow> (url \<times> string option \<times> path_buf) result" where
  "validate_request D request fs =
     res_bind (ok_or (dw_parse_url D (dl_url request))
         (download_error ''runtime download URL is invalid'' ''Use a complete upstream HTTPS URL.''))
       (\<lambda>u. res_bind (validate_url (dw_policy D) u) (\<lambda>_.
        res_bind (validate_expected_digest (dl_expected_sha256 request)) (\<lambda>expected.
        res_bind (ensure (\<not> path_exists fs (dl_destination request))
            (existing_destination_error (dl_destination request))) (\<lambda>_.
        res_bind (ok_or (path_parent (dl_destination request))
            (download_error ''download destination has no parent directory''
              ''Choose a managed cache destination.''))
          (\<lambda>parent. Inr (u, expected, parent))))))"

fun follow_redirects :: "download_policy \<Rightarrow> nat \<Rightarrow> url list \<Rightarrow> host \<Rightarrow> bool \<times> host" where
  \<comment> \<open>the redirect policy given to the client, asked before each further address is contacted\<close>
  "follow_redirects policy previous [] s = (True, s)"
| "follow_redirects policy previous (u # us) s =
     (case validate_redirect policy previous u of
        Inl _ \<Rightarrow> (False, s)
      | Inr _ \<Rightarrow> follow_redirects policy (Suc previous) us (log_call (Http_get (url_text u)) s))"

definition send_request :: "downloader \<Rightarrow> url \<Rightarrow> u64 \<Rightarrow> (host, openwork_error, http_answer) op" where
  "send_request D u timeout_millis s =
     (let answer = dw_answer D (calls s) u timeout_millis in
      case follow_redirects (dw_policy D) 1 (ha_redirects answer) (log_call (Http_get (url_text u)) s) of
        (followed, t) \<Rightarrow>
          if \<not> followed \<or> \<not> ha_connected answer then
            (Inl (download_error ''runtime download request failed''
               ''Check network access, TLS trust, and the upstream service status.''), t)
          else if \<not> ha_successful answer then
            (Inl (download_error ''runtime download returned an unsuccessful HTTP status''
               ''Check the official upstream installer URL.''), t)
          else if (case ha_content_length answer of None \<Rightarrow> False | Some n \<Rightarrow> max_bytes (dw_policy D) < n)
          then (Inl size_limit_error, t)
          else (Inr answer, t))"

definition open_temporary :: "host_env \<Rightarrow> path_buf \<Rightarrow> (host, io_error, unit) op" where
  \<comment> \<open>a temporary file disappears by itself unless it is persisted\<close>
  "open_temporary env parent = sys env (Open_temporary parent) (ret ())"

lemma chunk_length: "unat (of_nat (length (take buffer_bytes bytes)) :: u64) = length (take buffer_bytes bytes)"
  by (simp add: buffer_bytes_def unat_of_nat min_def)

function stream_loop ::
  "host_env \<Rightarrow> u64 \<Rightarrow> (nat \<Rightarrow> string option) \<Rightarrow> nat \<Rightarrow> u64 \<Rightarrow> string \<Rightarrow> host \<Rightarrow> (u64 \<times> string) result \<times> host" where
  \<comment> \<open>the bytes written so far are what the hasher has seen\<close>
  "stream_loop env limit body i written content s =
     (if token env (calls s) then (Inl cancelled_error, log_call Read_token s)
      else case body i of
        None \<Rightarrow> (Inl (download_error ''runtime download stream failed''
                   ''Retry after checking network stability.''), log_call Read_token s)
      | Some bytes \<Rightarrow>
          let chunk = take buffer_bytes bytes in
          if chunk = [] then (Inr (written, content), log_call Read_token s)
          else case checked_add written (of_nat (length chunk)) of
            None \<Rightarrow> (Inl (download_error ''runtime download size overflow'' ''Abort the install.''),
                       log_call Read_token s)
          | Some bytes_written \<Rightarrow>
              if limit < bytes_written then (Inl size_limit_error, log_call Read_token s)
              else case sys env (Write_temporary (length chunk)) (ret ()) (log_call Read_token s) of
                (Inl e, t) \<Rightarrow> (Inl (download_io_error e), t)
              | (Inr _, t) \<Rightarrow>
                  stream_loop env limit body (Suc i) bytes_written (content @ chunk) t)"
  by pat_completeness auto
termination
proof (relation "measure (\<lambda>(env, limit, body, i, written, content, s). Suc (unat limit) - unat written)", goal_cases)
  case (2 env limit body i written content s bytes chunk bytes_written r t u)
  from 2(5) have "unat bytes_written = unat written + length chunk"
    using unat_checked_add chunk_length [of bytes] 2(3) by metis
  moreover have "0 < length chunk" using 2(4) by simp
  moreover have "unat bytes_written \<le> unat limit" using 2(6) by (simp add: word_le_nat_alt not_less)
  ultimately show ?case by (simp del: length_greater_0_conv)
qed simp

declare stream_loop.simps [simp del]

definition encode_hex :: "string \<Rightarrow> string" where
  "encode_hex bytes = concat (map hex_byte bytes)"

definition stream_to_temporary ::
  "host_env \<Rightarrow> ext \<Rightarrow> downloader \<Rightarrow> http_answer \<Rightarrow> path_buf \<Rightarrow> (host, openwork_error, u64 \<times> string \<times> string) op" where
  "stream_to_temporary env X D answer parent =
     bnd (on_error download_io_error (open_temporary env parent)) (\<lambda>_.
     bnd (stream_loop env (max_bytes (dw_policy D)) (ha_read answer) 0 0 []) (\<lambda>(bytes_written, content).
     bnd (on_error download_io_error (sys env Sync_temporary (ret ()))) (\<lambda>_.
     ret (bytes_written, content, encode_hex (sha256_digest X content)))))"

definition persist_noclobber :: "host_env \<Rightarrow> path_buf \<Rightarrow> string \<Rightarrow> (host, io_error, unit) op" where
  "persist_noclobber env p content = sys env (Persist p) (add_node p (File_node content))"

definition sync_parent :: "host_env \<Rightarrow> path_buf \<Rightarrow> (host, io_error, unit) op" where
  "sync_parent env parent = sys env (Sync_dir parent) (ret ())"

definition store_download ::
  "host_env \<Rightarrow> ext \<Rightarrow> downloader \<Rightarrow> download_request \<Rightarrow> string option \<Rightarrow> path_buf \<Rightarrow> http_answer \<Rightarrow>
   (host, openwork_error, download_receipt) op" where
  \<comment> \<open>\<^verbatim>\<open>download\<close> from the response on\<close>
  "store_download env X D request expected parent answer =
     bnd (stream_to_temporary env X D answer parent) (\<lambda>(bytes_written, content, observed).
     bnd (lift_res (ensure (\<not> (expected \<noteq> None \<and> expected \<noteq> Some observed))
         (download_error ''runtime download SHA-256 verification failed''
           ''Discard the artifact and verify the checksum against the official release.''))) (\<lambda>_.
     bnd (on_error (\<lambda>_. download_error
           (''refusing to overwrite existing download `'' @ path_display (dl_destination request) @ ''`'')
           ''Review the destination and retry with an unused managed path.'')
         (persist_noclobber env (dl_destination request) content)) (\<lambda>_.
     bnd (on_error download_io_error (sync_parent env parent)) (\<lambda>_.
     ret \<lparr>dr_bytes_written = bytes_written, dr_observed_sha256 = observed,
          dr_verified = (expected = Some observed)\<rparr>))))"

definition receive_download ::
  "host_env \<Rightarrow> ext \<Rightarrow> downloader \<Rightarrow> download_request \<Rightarrow> url \<Rightarrow> string option \<Rightarrow> path_buf \<Rightarrow>
   (host, openwork_error, download_receipt) op" where
  \<comment> \<open>\<^verbatim>\<open>download\<close> once the request is validated\<close>
  "receive_download env X D request u expected parent =
     bnd (on_error download_io_error (create_dir_all env parent)) (\<lambda>_.
     bnd (send_request D u (dl_timeout_millis request))
       (store_download env X D request expected parent))"

definition system_download ::
  "host_env \<Rightarrow> ext \<Rightarrow> downloader \<Rightarrow> download_request \<Rightarrow> (host, openwork_error, download_receipt) op" where
  "system_download env X D request =
     bnd (is_cancelled env) (\<lambda>cancelled.
     bnd (lift_res (ensure (\<not> cancelled) cancelled_error)) (\<lambda>_.
     bnd (asks (\<lambda>s. validate_request D request (files s))) (\<lambda>(u, expected, parent).
     receive_download env X D request u expected parent)))"

section \<open>What the downloader touches\<close>

lemma on_error_iff [res_simps]:
  "(on_error g m s = (Inr x, t)) = (m s = (Inr x, t))"
  "(on_error g m s = (Inl e, t)) = (\<exists>e'. m s = (Inl e', t) \<and> e = g e')"
  by (auto simp: on_error_def map_err_def split: prod.splits sum.splits)

lemma preserves_on_error [preserves_intros]: "preserves P m \<Longrightarrow> preserves P (on_error g m)"
  by (auto simp: preserves_def on_error_def split: prod.splits)

lemma preserves_split [preserves_intros]:
  "(\<And>a b. preserves P (f a b)) \<Longrightarrow> preserves P (case x of (a, b) \<Rightarrow> f a b)"
  by (cases x) simp

text \<open>An operation that leaves the tree alone and one that adds nodes among the given paths keep what grew before.\<close>

definition quiet :: "(host, 'e, 'a) op \<Rightarrow> bool" where
  "quiet m = (\<forall>s. files (snd (m s)) = files s)"

lemma quiet_preserves: "quiet m \<Longrightarrow> preserves (\<lambda>t. grows A s (t :: host)) m"
  by (auto simp: quiet_def preserves_def grows_def) (metis snd_conv)+

lemma growing_preserves:
  assumes "\<And>s r t. m s = (r, t) \<Longrightarrow> tidy (files s) \<Longrightarrow> grows B s t" and "B \<subseteq> A"
  shows "preserves (\<lambda>t. grows A s0 t) m"
  unfolding preserves_def
proof (intro allI impI)
  fix s r t assume s: "grows A s0 s" and "m s = (r, t)"
  with assms(1) grows_tidy have "grows B s t" by blast
  from grows_trans [OF s this] show "grows A s0 t" using assms(2) by (simp add: Un_absorb2)
qed

lemma sys_quiet: "quiet (sys env c (ret ()))"
  by (auto simp: quiet_def sys_def ret_def split: option.splits)

lemma is_cancelled_quiet: "quiet (is_cancelled env)"
  by (simp add: quiet_def is_cancelled_def)

lemma follow_redirects_files: "follow_redirects policy n us s = (b, t) \<Longrightarrow> files t = files s"
  by (induction policy n us s rule: follow_redirects.induct) (auto split: sum.splits)

lemma send_request_quiet: "quiet (send_request D u n)"
  by (auto simp: quiet_def send_request_def Let_def split: prod.splits dest: follow_redirects_files)

fun contacted :: "host_call list \<Rightarrow> string list" where
  \<comment> \<open>the addresses a log of calls shows as asked, in order\<close>
  "contacted [] = []"
| "contacted (Http_get u # cs) = u # contacted cs"
| "contacted (c # cs) = contacted cs"

lemma contacted_append [simp]: "contacted (a @ b) = contacted a @ contacted b"
  by (induction a rule: contacted.induct) auto

lemma contacted_log: "contacted (calls (log_call c s)) = contacted (calls s) @ contacted [c]"
  by (simp add: log_call_def)

definition still :: "host \<Rightarrow> host \<Rightarrow> bool" where
  "still s t = (files t = files s \<and> contacted (calls t) = contacted (calls s))"

lemma still_trans: "still s t \<Longrightarrow> still t u \<Longrightarrow> still s u"
  by (simp add: still_def)

lemma stream_loop_cases:
  assumes "stream_loop env limit body i written content s = (r, t)"
  obtains (stopped) e where "r = Inl e" "still s t"
  | (ended) bytes where "body i = Some bytes" "take buffer_bytes bytes = []" "r = Inr (written, content)" "still s t"
  | (further) bytes n u where "body i = Some bytes" "take buffer_bytes bytes \<noteq> []"
      "checked_add written (of_nat (length (take buffer_bytes bytes))) = Some n" "n \<le> limit" "still s u"
      "stream_loop env limit body (Suc i) n (content @ take buffer_bytes bytes) u = (r, t)"
proof -
  have w: "still s u" if "sys env (Write_temporary n) (ret ()) (log_call Read_token s) = (q, u)" for n q u
    using that by (auto simp: sys_def ret_def still_def contacted_log split: option.splits)
  have l: "still s (log_call Read_token s)" by (simp add: still_def contacted_log)
  show thesis
  proof (cases "token env (calls s) \<or> body i = None")
    case True
    then have "\<exists>e. stream_loop env limit body i written content s = (Inl e, log_call Read_token s)"
      unfolding stream_loop.simps [of env limit body i written content s]
      by (cases "token env (calls s)") simp_all
    then obtain e where "stream_loop env limit body i written content s = (Inl e, log_call Read_token s)" ..
    with assms l show thesis using stopped [of e] by simp
  next
    case False
    then obtain bytes where b: "\<not> token env (calls s)" "body i = Some bytes" by auto
    define chunk where "chunk = take buffer_bytes bytes"
    let ?L = "log_call Read_token s" and ?n = "checked_add written (of_nat (length chunk))"
    have run: "(if chunk = [] then (Inr (written, content), ?L)
      else case ?n of
        None \<Rightarrow> (Inl (download_error ''runtime download size overflow'' ''Abort the install.''), ?L)
      | Some n \<Rightarrow> if limit < n then (Inl size_limit_error, ?L)
          else case sys env (Write_temporary (length chunk)) (ret ()) ?L of
            (Inl e, t) \<Rightarrow> (Inl (download_io_error e), t)
          | (Inr _, t) \<Rightarrow> stream_loop env limit body (Suc i) n (content @ chunk) t) = (r, t)"
      using assms b by (simp only: stream_loop.simps [of env limit body i] Let_def option.case chunk_def if_False)
    consider "chunk = []" | "chunk \<noteq> []" "?n = None" | n where "chunk \<noteq> []" "?n = Some n" "limit < n"
      | n where "chunk \<noteq> []" "?n = Some n" "n \<le> limit" by (metis not_le option.exhaust)
    then show thesis
    proof cases
      case 4
      obtain q u where q: "sys env (Write_temporary (length chunk)) (ret ()) ?L = (q, u)" by fastforce
      with 4 run have "(case q of Inl e \<Rightarrow> (Inl (download_io_error e), u)
          | Inr _ \<Rightarrow> stream_loop env limit body (Suc i) n (content @ chunk) u) = (r, t)"
        by (simp add: not_less [symmetric] split: sum.splits)
      then show thesis
        using w [OF q] 4 stopped further [OF b(2)] unfolding chunk_def by (cases q) auto
    qed (use run ended [OF b(2)] stopped l in \<open>auto simp: chunk_def\<close>)
  qed
qed

lemma stream_counts:
  assumes "checked_add written (of_nat (length (take buffer_bytes bytes))) = Some n"
  shows "unat n = unat written + length (take buffer_bytes bytes)"
  using unat_checked_add [OF assms] chunk_length by simp

lemma stream_rounds:
  "checked_add written (of_nat (length (take buffer_bytes bytes))) = Some n \<Longrightarrow> take buffer_bytes bytes \<noteq> [] \<Longrightarrow>
   n \<le> limit \<Longrightarrow> Suc (unat limit) - unat n < Suc (unat limit) - unat written"
  using stream_counts [of written bytes n] length_greater_0_conv [of "take buffer_bytes bytes"]
  unfolding word_le_nat_alt by linarith

lemma stream_loop_still: "stream_loop env limit body i written content s = (r, t) \<Longrightarrow> still s t"
proof (induction "Suc (unat limit) - unat written" arbitrary: i written content s rule: less_induct)
  case less
  from less.prems show ?case
  proof (cases rule: stream_loop_cases)
    case (further bytes n u)
    then show ?thesis using less.hyps [OF stream_rounds [OF further(3,2,4)] further(6)] still_trans by blast
  qed simp_all
qed

lemma stream_loop_quiet: "quiet (stream_loop env limit body i written content)"
  unfolding quiet_def
proof (intro allI)
  fix s
  show "files (snd (stream_loop env limit body i written content s)) = files s"
    using stream_loop_still [of env limit body i written content s] by (simp add: still_def prod_eq_iff)
qed

lemma persist_grows: "persist_noclobber env p c s = (r, t) \<Longrightarrow> tidy (files s) \<Longrightarrow> grows {p} s t"
  unfolding persist_noclobber_def
  by (elim sys_cases) (auto elim!: add_node_cases simp: grows_def tidy_insert split: if_splits)

lemmas download_quiet = sys_quiet is_cancelled_quiet send_request_quiet stream_loop_quiet

lemma preserves_bnd_result:
  assumes "preserves P m" and "\<And>s x t. m s = (Inr x, t) \<Longrightarrow> preserves P (f x)"
  shows "preserves P (bnd m f)"
  unfolding preserves_def
proof (intro allI impI)
  fix s r t assume s: "P s" and b: "bnd m f s = (r, t)"
  obtain q u where q: "m s = (q, u)" by fastforce
  have u: "P u" by (rule preservesD [OF assms(1) q s])
  show "P t"
  proof (cases q)
    case (Inl e)
    with b q u show ?thesis by (simp add: bnd_def)
  next
    case (Inr x)
    with b q have "f x u = (r, t)" by (simp add: bnd_def)
    then show ?thesis by (rule preservesD [OF assms(2) [OF q [unfolded Inr]] _ u])
  qed
qed

lemma validate_request_ok:
  assumes "validate_request D request fs = Inr (u, expected, parent)"
  shows "validate_url (dw_policy D) u = Inr ()" and "validate_expected_digest (dl_expected_sha256 request) = Inr expected"
    and "path_parent (dl_destination request) = Some parent" and "\<not> path_exists fs (dl_destination request)"
  using assms by (auto simp: validate_request_def res_simps)

lemma quiet_iff: "quiet m = (\<forall>F. preserves (\<lambda>t. files t = F) m)"
  by (auto simp: quiet_def preserves_def) (metis snd_conv surjective_pairing)+

lemma stream_to_temporary_quiet: "quiet (stream_to_temporary env X D answer parent)"
  using download_quiet unfolding stream_to_temporary_def open_temporary_def quiet_iff
  by (intro allI preserves_intros) blast+

lemma receive_grows:
  assumes "path_parent (dl_destination request) = Some parent"
  shows "preserves (grows (set (trail (dl_destination request))) s) (receive_download env X D request u expected parent)"
proof -
  let ?P = "grows (set (trail (dl_destination request))) s"
  have "preserves ?P (create_dir_all env parent)"
    "preserves ?P (persist_noclobber env (dl_destination request) content)" for content
    by (rule growing_preserves [OF create_dir_all_grows], assumption+, simp add: trail_parent [OF assms] subset_eq,
      rule growing_preserves [OF persist_grows], assumption+, simp add: trail_parent [OF assms])
  then show ?thesis
    unfolding receive_download_def store_download_def sync_parent_def
    by (intro preserves_intros stream_to_temporary_quiet [THEN quiet_preserves] download_quiet [THEN quiet_preserves])
qed

lemma download_grows:
  assumes "tidy (files s)" and "system_download env X D request s = (r, t)"
  shows "grows (set (trail (dl_destination request))) s t"
proof -
  have "preserves (grows (set (trail (dl_destination request))) s) (system_download env X D request)"
    unfolding system_download_def
    by (intro preserves_bnd quiet_preserves [OF is_cancelled_quiet] preserves_base preserves_bnd_result)
      (auto simp: res_simps intro: receive_grows dest: validate_request_ok(3))
  then show ?thesis by (rule preservesD) (use assms grows_refl in auto)
qed

section \<open>What the downloader contacts and writes\<close>

definition offline :: "(host, 'e, 'a) op \<Rightarrow> bool" where
  "offline m = (\<forall>W. preserves (\<lambda>t. contacted (calls t) = W) m)"

lemma sys_offline:
  assumes "contacted [c] = []" and "\<And>s. calls (snd (act s)) = calls s"
  shows "offline (sys env c act)"
proof -
  have "contacted (calls t) = contacted (calls s)" if "sys env c act s = (r, t)" for s r t
    using that assms(1) assms(2) [of "log_call c s"]
    by (auto simp: sys_def contacted_log split: option.splits)
  then show ?thesis by (auto simp: offline_def preserves_def)
qed

lemma offline_calls:
  "offline (sys env (Open_temporary p) (ret ()))" "offline (sys env (Write_temporary n) (ret ()))"
  "offline (sys env Sync_temporary (ret ()))" "offline (sys env (Sync_dir p) (ret ()))"
  "offline (make_dir env p)" "offline (persist_noclobber env p content)"
  unfolding make_dir_def persist_noclobber_def
  by (rule sys_offline; simp add: ret_def add_node_def set_node_def split: option.splits)+

lemma is_cancelled_offline: "offline (is_cancelled env)"
  by (auto simp: offline_def preserves_def is_cancelled_def contacted_log)

lemma offline_bnd: "offline m \<Longrightarrow> (\<And>x. offline (f x)) \<Longrightarrow> offline (bnd m f)"
  by (simp add: offline_def preserves_bnd)

lemma make_dirs_offline: "offline (make_dirs env ps)"
proof (induction ps)
  case (Cons p ps)
  have "offline (\<lambda>s. if path_is_dir (files s) p then (Inr (), s) else make_dir env p s)"
    using offline_calls(5) [of env p] by (auto simp: offline_def preserves_def)
  with Cons show ?case by (auto intro: offline_bnd)
qed (auto simp: offline_def preserves_base)

lemma stream_loop_offline: "offline (stream_loop env limit body i written content)"
  using stream_loop_still by (auto simp: offline_def preserves_def still_def)

lemma offline_on_error: "offline m \<Longrightarrow> offline (on_error g m)"
  by (simp add: offline_def preserves_on_error)

lemma offline_base: "offline (ret x)" "offline (lift_res r)" "offline (asks f)"
  by (simp_all add: offline_def preserves_base)

lemma offline_case_prod: "(\<And>a b. offline (f a b)) \<Longrightarrow> offline (case x of (a, b) \<Rightarrow> f a b)"
  by (cases x) simp

lemmas offline_intros = offline_bnd offline_on_error offline_base offline_calls is_cancelled_offline
  make_dirs_offline stream_loop_offline offline_case_prod

lemma follow_redirects_contacts:
  assumes "follow_redirects policy n us s = (b, t)"
  obtains vs where "contacted (calls t) = contacted (calls s) @ map url_text vs"
    "list_all (\<lambda>u. validate_url policy u = Inr ()) vs" "length vs \<le> Suc (max_redirects policy) - n"
  using assms
proof (induction policy n us s arbitrary: thesis rule: follow_redirects.induct)
  case (2 policy n u us s)
  show ?case
  proof (cases "validate_redirect policy n u")
    case (Inr x)
    with 2(3) have "follow_redirects policy (Suc n) us (log_call (Http_get (url_text u)) s) = (b, t)" by simp
    then obtain vs where vs: "contacted (calls t) = contacted (calls (log_call (Http_get (url_text u)) s)) @ map url_text vs"
      "list_all (\<lambda>u. validate_url policy u = Inr ()) vs" "length vs \<le> Suc (max_redirects policy) - Suc n"
      using 2(1) [OF Inr] by blast
    show ?thesis
      by (rule 2(2) [of "u # vs"])
        (use vs Inr in \<open>auto simp: contacted_log validate_redirect_def split: if_splits\<close>)
  qed (use 2 in \<open>auto intro: 2(2) [of "[]"]\<close>)
qed (auto intro: that [of "[]"])

definition within_policy :: "download_policy \<Rightarrow> host \<Rightarrow> host \<Rightarrow> bool" where
  \<comment> \<open>the addresses contacted between the two states are accepted ones, within the redirect limit\<close>
  "within_policy policy s t = (\<exists>us. contacted (calls t) = contacted (calls s) @ map url_text us \<and>
     list_all (\<lambda>u. validate_url policy u = Inr ()) us \<and> length us \<le> Suc (max_redirects policy))"

lemma send_within_policy:
  assumes "send_request D u n s = (r, t)" and "validate_url (dw_policy D) u = Inr ()"
  shows "within_policy (dw_policy D) s t"
proof -
  let ?a = "dw_answer D (calls s) u n" and ?l = "log_call (Http_get (url_text u)) s"
  obtain b where b: "follow_redirects (dw_policy D) 1 (ha_redirects ?a) ?l = (b, t)"
    using assms(1) by (auto simp: send_request_def Let_def split: prod.splits if_splits)
  then obtain vs where "contacted (calls t) = contacted (calls ?l) @ map url_text vs"
    "list_all (\<lambda>u. validate_url (dw_policy D) u = Inr ()) vs" "length vs \<le> Suc (max_redirects (dw_policy D)) - 1"
    by (rule follow_redirects_contacts)
  with assms(2) show ?thesis
    unfolding within_policy_def by (intro exI [of _ "u # vs"]) (simp add: contacted_log)
qed

lemma offline_within:
  "offline m \<Longrightarrow> within_policy policy s0 s \<Longrightarrow> m s = (r, t) \<Longrightarrow> within_policy policy s0 t"
  by (auto simp: offline_def within_policy_def preserves_def)

lemma offlineD: "offline m \<Longrightarrow> m s = (r, t) \<Longrightarrow> contacted (calls t) = contacted (calls s)"
  by (auto simp: offline_def preserves_def)

lemma bnd_within:
  assumes "bnd m f s = (r, t)" and "offline m"
    and "\<And>x v. m s = (Inr x, v) \<Longrightarrow> f x v = (r, t) \<Longrightarrow> within_policy policy v t"
  shows "within_policy policy s t"
proof -
  obtain q v where q: "m s = (q, v)" by fastforce
  have c: "contacted (calls v) = contacted (calls s)" by (rule offlineD [OF assms(2) q])
  show ?thesis
  proof (cases q)
    case (Inl e)
    with assms(1) q c show ?thesis by (auto simp: bnd_def within_policy_def intro!: exI [of _ "[]"])
  next
    case (Inr x)
    with assms(1) q have "f x v = (r, t)" by (simp add: bnd_def)
    with assms(3) q Inr c show ?thesis by (simp add: within_policy_def)
  qed
qed

lemma store_download_offline: "offline (store_download env X D request expected parent answer)"
  unfolding store_download_def stream_to_temporary_def open_temporary_def sync_parent_def
  by (intro offline_intros)

lemma receive_within:
  assumes "receive_download env X D request u expected parent s = (r, t)" and "validate_url (dw_policy D) u = Inr ()"
  shows "within_policy (dw_policy D) s t"
proof (rule bnd_within [OF assms(1) [unfolded receive_download_def]])
  show "offline (on_error download_io_error (create_dir_all env parent))"
    unfolding create_dir_all_def by (intro offline_intros)
  fix v
  assume b: "bnd (send_request D u (dl_timeout_millis request)) (store_download env X D request expected parent) v = (r, t)"
  obtain q w where q: "send_request D u (dl_timeout_millis request) v = (q, w)" by fastforce
  note send_within_policy [OF q assms(2)]
  with b q offline_within [OF store_download_offline] show "within_policy (dw_policy D) v t"
    by (auto simp: bnd_def split: sum.splits)
qed

lemma within_refl: "within_policy policy s s"
  by (auto simp: within_policy_def intro: exI [of _ "[]"])

lemma download_within:
  assumes "system_download env X D request s = (r, t)"
  shows "within_policy (dw_policy D) s t"
proof (rule bnd_within [OF assms [unfolded system_download_def] is_cancelled_offline])
  fix x v
  assume "bnd (lift_res (ensure (\<not> x) cancelled_error)) (\<lambda>_. bnd (asks (\<lambda>s. validate_request D request (files s)))
    (\<lambda>(u, expected, parent). receive_download env X D request u expected parent)) v = (r, t)"
  then show "within_policy (dw_policy D) v t"
    by (cases x; cases "validate_request D request (files v)")
      (auto simp: bnd_def lift_res_def asks_def within_refl dest!: receive_within validate_request_ok(1))
qed

text \<open>What a finished stream holds: the chunks up to the first empty reading, within the limit.\<close>

lemma stream_loop_result:
  assumes "stream_loop env limit body i written content s = (Inr (n, c), t)"
    and "unat written = length content" and "length content \<le> unat limit"
  shows "unat n = length c \<and> length c \<le> unat limit"
  using assms
proof (induction "Suc (unat limit) - unat written" arbitrary: i written content s rule: less_induct)
  case less
  from less.prems(1) show ?case
  proof (cases rule: stream_loop_cases)
    case (further bytes m u)
    then have "unat m = length (content @ take buffer_bytes bytes)" and "unat m \<le> unat limit"
      using stream_counts [OF further(3)] less.prems(2) by (simp_all add: word_le_nat_alt)
    then show ?thesis using less.hyps [OF stream_rounds [OF further(3,2,4)] further(6)] by simp
  qed (use less.prems in auto)
qed

lemma persist_ok:
  "persist_noclobber env p c s = (Inr x, t) \<Longrightarrow>
   node_in (files s) p = None \<and> files t = bm_insert p (File_node c) (files s)"
  unfolding persist_noclobber_def by (elim sys_cases) (auto elim!: add_node_cases)

lemma store_download_ok:
  assumes "store_download env X D request expected parent answer s = (Inr receipt, t)"
  obtains content where "node_in (files s) (dl_destination request) = None"
    "files t = bm_insert (dl_destination request) (File_node content) (files s)"
    "unat (dr_bytes_written receipt) = length content" "length content \<le> unat (max_bytes (dw_policy D))"
    "dr_observed_sha256 receipt = encode_hex (sha256_digest X content)"
    "dr_verified receipt = (expected \<noteq> None)" "expected \<noteq> None \<longrightarrow> expected = Some (dr_observed_sha256 receipt)"
proof -
  obtain n content observed u v w where
    st: "stream_to_temporary env X D answer parent s = (Inr (n, content, observed), u)"
    and e: "\<not> (expected \<noteq> None \<and> expected \<noteq> Some observed)"
    and p: "persist_noclobber env (dl_destination request) content u = (Inr v, w)"
    and y: "sync_parent env parent w = (Inr (), t)"
    and r: "receipt = \<lparr>dr_bytes_written = n, dr_observed_sha256 = observed, dr_verified = (expected = Some observed)\<rparr>"
    using assms unfolding store_download_def by (auto simp: res_simps)
  have u: "files u = files s" using stream_to_temporary_quiet [of env X D answer parent] st by (auto simp: quiet_def) (metis snd_conv)
  have t: "files t = files w" using sys_quiet [of env "Sync_dir parent"] y by (auto simp: quiet_def sync_parent_def) (metis snd_conv)
  obtain a b where "stream_loop env (max_bytes (dw_policy D)) (ha_read answer) 0 0 [] a = (Inr (n, content), b)"
    and o: "observed = encode_hex (sha256_digest X content)"
    using st unfolding stream_to_temporary_def by (auto simp: res_simps)
  from stream_loop_result [OF this(1)] have "unat n = length content" "length content \<le> unat (max_bytes (dw_policy D))" by simp_all
  with persist_ok [OF p] u t e r o that [of content] show thesis by auto
qed

lemma download_ok:
  assumes "system_download env X D request s = (Inr receipt, t)"
  obtains u expected parent v w answer where
    "validate_request D request (files s) = Inr (u, expected, parent)"
    "create_dir_all env parent (log_call Read_token s) = (Inr (), v)"
    "files w = files v"
    "store_download env X D request expected parent answer w = (Inr receipt, t)"
    "node_in (files s) (dl_destination request) = None"
proof -
  obtain u expected parent v answer w where
    v: "validate_request D request (files s) = Inr (u, expected, parent)"
    and g: "create_dir_all env parent (log_call Read_token s) = (Inr (), v)"
    and n: "send_request D u (dl_timeout_millis request) v = (Inr answer, w)"
    and d: "store_download env X D request expected parent answer w = (Inr receipt, t)"
    using assms unfolding system_download_def receive_download_def is_cancelled_def
    by (auto simp: res_simps)
  have "files w = files v" using send_request_quiet [of D u "dl_timeout_millis request"] n by (auto simp: quiet_def) (metis snd_conv)
  moreover have "node_in (files s) (dl_destination request) = None"
    using validate_request_ok(3,4) [OF v] by (auto simp: path_exists_def node_at_def path_parent_def split: if_splits)
  ultimately show thesis using that v g d by blast
qed

lemma download_adds:
  assumes "tidy (files s)" and "system_download env X D request s = (Inr receipt, t)"
    and "path_parent (dl_destination request) = Some q" and "path_parts q = [] \<or> node_in (files s) q = Some Directory_node"
  obtains content where "node_in (files s) (dl_destination request) = None"
    "node_in (files t) = (node_in (files s))(dl_destination request \<mapsto> File_node content)"
proof -
  from assms(2) obtain u expected parent v w answer where
    v: "validate_request D request (files s) = Inr (u, expected, parent)"
    and g: "create_dir_all env parent (log_call Read_token s) = (Inr (), v)" and w: "files w = files v"
    and d: "store_download env X D request expected parent answer w = (Inr receipt, t)"
    and s: "node_in (files s) (dl_destination request) = None"
    by (rule download_ok)
  have "parent = q" using validate_request_ok(3) [OF v] assms(3) by simp
  with g create_dir_all_existing [of "log_call Read_token s" q env] assms(1,4) have "files v = files s" by auto
  with w d s show thesis by (elim store_download_ok) (use that in auto)
qed

definition syncs_allowed :: "host_env \<Rightarrow> bool" where
  "syncs_allowed env = (\<forall>h p. refuses env h (Sync_dir p) = None)"

text \<open>
  A download that fails adds nothing when its directory was there and directories can be synced: the
  temporary file disappears and nothing was published.
\<close>

lemma quietD: "quiet m \<Longrightarrow> m s = (r, t) \<Longrightarrow> files t = files s"
  by (auto simp: quiet_def) (metis snd_conv)

lemma store_download_failed:
  assumes "store_download env X D request expected parent answer s = (Inl e, t)" and "syncs_allowed env"
  shows "files t = files s"
proof -
  note u = quietD [OF stream_to_temporary_quiet [of env X D answer parent]]
  have p: "files w = files v" if "persist_noclobber env (dl_destination request) content v = (Inl e', w)" for content v e' w
    using that unfolding persist_noclobber_def by (elim sys_cases) (auto elim!: add_node_cases)
  have y: "sync_parent env parent w \<noteq> (Inl e', t)" for w e'
    using assms(2) by (simp add: sync_parent_def sys_def ret_def syncs_allowed_def)
  from assms(1) show ?thesis
    unfolding store_download_def by (auto simp: res_simps y dest!: u p)
qed

lemma download_failed:
  assumes "tidy (files s)" and "system_download env X D request s = (Inl e, t)" and "syncs_allowed env"
    and "\<And>q. path_parent (dl_destination request) = Some q \<Longrightarrow> path_parts q = [] \<or> node_in (files s) q = Some Directory_node"
  shows "files t = files s"
proof -
  let ?s = "log_call Read_token s"
  have made: "create_dir_all env parent ?s = (Inr (), ?s)"
    if "validate_request D request (files s) = Inr (u, expected, parent)" for u expected parent
    using create_dir_all_existing [of ?s parent env] assms(1) assms(4) [OF validate_request_ok(3) [OF that]] by simp
  note quietD [OF send_request_quiet] and store_download_failed [OF _ assms(3)]
  with assms(2) show ?thesis
    unfolding system_download_def receive_download_def is_cancelled_def
    by (auto simp: res_simps made)
qed

text \<open>
  C37. Whatever a download returns, it contacted only addresses the policy accepts, no more than the redirect
  limit allows, and changed nothing that existed: what is new are directories above the destination and
  the destination. When it returns a receipt, the destination is a new file within the byte limit,
  the receipt tells its length and digest, and the digest is the expected one whenever one was given.
\<close>

theorem download_is_verified:
  assumes "tidy (files s)" and "system_download env X D request s = (r, t)"
  shows "within_policy (dw_policy D) s t \<and>
    grows (set (trail (dl_destination request))) s t \<and>
    (case r of
       Inl _ \<Rightarrow> True
     | Inr receipt \<Rightarrow>
         node_in (files s) (dl_destination request) = None \<and>
         (\<exists>content. node_in (files t) (dl_destination request) = Some (File_node content) \<and>
            unat (dr_bytes_written receipt) = length content \<and>
            length content \<le> unat (max_bytes (dw_policy D)) \<and>
            dr_observed_sha256 receipt = encode_hex (sha256_digest X content)) \<and>
         dr_verified receipt = (dl_expected_sha256 request \<noteq> None) \<and>
         (case dl_expected_sha256 request of
            None \<Rightarrow> True
          | Some expected \<Rightarrow> dr_observed_sha256 receipt = to_ascii_lowercase (trim expected)))"
proof (cases r)
  case (Inr receipt)
  from assms(2) [unfolded Inr] obtain u expected parent w answer where
    v: "validate_request D request (files s) = Inr (u, expected, parent)"
    and d: "store_download env X D request expected parent answer w = (Inr receipt, t)"
    and s: "node_in (files s) (dl_destination request) = None"
    by (rule download_ok)
  from d obtain content where c: "files t = bm_insert (dl_destination request) (File_node content) (files w)"
    "unat (dr_bytes_written receipt) = length content" "length content \<le> unat (max_bytes (dw_policy D))"
    "dr_observed_sha256 receipt = encode_hex (sha256_digest X content)"
    "dr_verified receipt = (expected \<noteq> None)" "expected \<noteq> None \<longrightarrow> expected = Some (dr_observed_sha256 receipt)"
    by (rule store_download_ok)
  have x: "expected = map_option (\<lambda>d. to_ascii_lowercase (trim d)) (dl_expected_sha256 request)"
    using validate_request_ok(2) [OF v] by (auto simp: validate_expected_digest_def Let_def split: option.splits if_splits)
  show ?thesis
    using download_within [OF assms(2)] download_grows [OF assms] Inr s c x
    by (auto split: option.splits)
qed (use download_within [OF assms(2)] download_grows [OF assms] in auto)

end
