(* ===== verification/Platform.thy ===== *)
theory Platform
  imports Host_Files
begin

text \<open>
  Host detection (\<^verbatim>\<open>crates/openwork-platform/src/lib.rs\<close>): the facts about the host, their normalisation
  and the directories of an installation, over the probe trait as a record of its answers.
\<close>

datatype operating_system = MacOs | Linux | Windows
datatype architecture = Arm64 | X64
datatype host_environment = Native | Wsl
datatype support_tier = Tier1 | Tier2

record openwork_paths =
  op_config :: path_buf
  op_data :: path_buf
  op_cache :: path_buf
  op_logs :: path_buf
  op_bin :: path_buf

record permission_facts =
  pf_home_writable :: bool
  pf_install_dir_writable :: bool
  pf_elevated :: bool

record resource_facts =
  rf_total_memory_bytes :: "u64 option"
  rf_available_disk_bytes :: "u64 option"

record prerequisite_facts =
  qf_git_present :: bool
  qf_docker_present :: bool

record platform_info =
  pl_schema_version :: u32
  pl_os :: operating_system
  pl_os_version :: "string option"
  pl_architecture :: architecture
  pl_environment :: host_environment
  pl_support_tier :: support_tier
  pl_shell :: "string option"
  pl_package_managers :: "string list"
  pl_paths :: openwork_paths
  pl_permissions :: permission_facts
  pl_resources :: resource_facts
  pl_prerequisites :: prerequisite_facts

datatype platform_error =
    UnsupportedOs string
  | UnsupportedArchitecture string
  | HomeDirectoryUnavailable

fun display_platform_error :: "platform_error \<Rightarrow> string" where
  "display_platform_error (UnsupportedOs os) =
     ''unsupported operating system `'' @ os @ ''`; use macOS, Ubuntu Linux, Windows 11, or WSL2''"
| "display_platform_error (UnsupportedArchitecture a) =
     ''unsupported architecture `'' @ a @ ''`; use arm64/aarch64 or x64/x86_64''"
| "display_platform_error HomeDirectoryUnavailable =
     ''home directory is unavailable; set HOME or USERPROFILE before running OpenWork''"

record platform_probe =
  pb_raw_os :: string
  pb_raw_architecture :: string
  pb_environment :: "string \<Rightarrow> string option"
  pb_home_dir :: "path_buf option"
  pb_file_contains :: "path_buf \<Rightarrow> string \<Rightarrow> bool"
  pb_executable_exists :: "string \<Rightarrow> bool"
  pb_path_writable :: "path_buf \<Rightarrow> bool"
  pb_total_memory_bytes :: "u64 option"
  pb_available_disk_bytes :: "path_buf \<Rightarrow> u64 option"
  pb_os_version :: "string option"
  pb_elevated :: bool

definition normalize_os :: "string \<Rightarrow> platform_error + operating_system" where
  "normalize_os raw =
     (let name = to_ascii_lowercase raw in
      if name \<in> {''macos'', ''darwin''} then Inr MacOs
      else if name = ''linux'' then Inr Linux
      else if name = ''windows'' then Inr Windows
      else Inl (UnsupportedOs name))"

definition normalize_architecture :: "string \<Rightarrow> platform_error + architecture" where
  "normalize_architecture raw =
     (let name = to_ascii_lowercase raw in
      if name \<in> {''aarch64'', ''arm64''} then Inr Arm64
      else if name \<in> {''x86_64'', ''x64'', ''amd64''} then Inr X64
      else Inl (UnsupportedArchitecture name))"

definition detect_environment :: "platform_probe \<Rightarrow> operating_system \<Rightarrow> host_environment" where
  "detect_environment probe os =
     (if os = Linux \<and> (pb_environment probe ''WSL_DISTRO_NAME'' \<noteq> None \<or>
           pb_file_contains probe (Path_buf True [''proc'', ''version'']) ''microsoft'')
      then Wsl else Native)"

definition support_tier_of :: "operating_system \<Rightarrow> architecture \<Rightarrow> host_environment \<Rightarrow> support_tier" where
  "support_tier_of os a environment =
     (if os = Windows \<and> a = Arm64 \<and> environment = Native then Tier2 else Tier1)"

definition path_of_string :: "string \<Rightarrow> path_buf" where
  \<comment> \<open>the components of a path text: empty ones and a dot after the first are dropped\<close>
  "path_of_string s =
     (let absolute = starts_with s ''/''; parts = filter (\<lambda>c. c \<noteq> []) (split_on (CHR ''/'') s) in
      Path_buf absolute
        (case parts of
           [] \<Rightarrow> []
         | c # cs \<Rightarrow> (if c = ''.'' \<and> absolute then [] else [c]) @ filter (\<lambda>c. c \<noteq> ''.'') cs))"

definition env_path :: "platform_probe \<Rightarrow> string \<Rightarrow> path_buf \<Rightarrow> path_buf" where
  "env_path probe key fallback =
     (case pb_environment probe key of None \<Rightarrow> fallback | Some val \<Rightarrow> path_of_string val)"

definition below :: "path_buf \<Rightarrow> string list \<Rightarrow> path_buf" where
  "below p cs = path_join p (Path_buf False cs)"

definition platform_paths :: "platform_probe \<Rightarrow> operating_system \<Rightarrow> path_buf \<Rightarrow> openwork_paths" where
  "platform_paths probe os home =
     (case os of
        MacOs \<Rightarrow>
          \<lparr>op_config = below home [''Library'', ''Application Support'', ''OpenWork'', ''config''],
           op_data = below home [''Library'', ''Application Support'', ''OpenWork'', ''data''],
           op_cache = below home [''Library'', ''Caches'', ''OpenWork''],
           op_logs = below home [''Library'', ''Logs'', ''OpenWork''],
           op_bin = below home [''.local'', ''bin'']\<rparr>
      | Linux \<Rightarrow>
          \<lparr>op_config = below (env_path probe ''XDG_CONFIG_HOME'' (below home [''.config''])) [''openwork''],
           op_data = below (env_path probe ''XDG_DATA_HOME'' (below home [''.local'', ''share''])) [''openwork''],
           op_cache = below (env_path probe ''XDG_CACHE_HOME'' (below home [''.cache''])) [''openwork''],
           op_logs = below (env_path probe ''XDG_STATE_HOME'' (below home [''.local'', ''state''])) [''openwork'', ''logs''],
           op_bin = below home [''.local'', ''bin'']\<rparr>
      | Windows \<Rightarrow>
          let roaming = env_path probe ''APPDATA'' (below home [''AppData'', ''Roaming'']);
              local_data = env_path probe ''LOCALAPPDATA'' (below home [''AppData'', ''Local''])
          in \<lparr>op_config = below roaming [''OpenWork'', ''config''],
              op_data = below local_data [''OpenWork'', ''data''],
              op_cache = below local_data [''OpenWork'', ''cache''],
              op_logs = below local_data [''OpenWork'', ''logs''],
              op_bin = below local_data [''OpenWork'', ''bin'']\<rparr>)"

definition platform_detect :: "platform_probe \<Rightarrow> platform_error + platform_info" where
  "platform_detect probe =
     res_bind (normalize_os (pb_raw_os probe)) (\<lambda>os.
     res_bind (normalize_architecture (pb_raw_architecture probe)) (\<lambda>a.
     let environment = detect_environment probe os in
     res_bind (ok_or (pb_home_dir probe) HomeDirectoryUnavailable) (\<lambda>home.
     let paths = platform_paths probe os home in
     Inr \<lparr>pl_schema_version = 1, pl_os = os, pl_os_version = pb_os_version probe, pl_architecture = a,
          pl_environment = environment, pl_support_tier = support_tier_of os a environment,
          pl_shell = pb_environment probe (if os = Windows then ''COMSPEC'' else ''SHELL''),
          pl_package_managers = filter (pb_executable_exists probe)
            [''brew'', ''apt-get'', ''dnf'', ''pacman'', ''winget'', ''choco''],
          pl_paths = paths,
          pl_permissions = \<lparr>pf_home_writable = pb_path_writable probe home,
            pf_install_dir_writable = pb_path_writable probe (op_bin paths), pf_elevated = pb_elevated probe\<rparr>,
          pl_resources = \<lparr>rf_total_memory_bytes = pb_total_memory_bytes probe,
            rf_available_disk_bytes = pb_available_disk_bytes probe home\<rparr>,
          pl_prerequisites = \<lparr>qf_git_present = pb_executable_exists probe ''git'',
            qf_docker_present = pb_executable_exists probe ''docker''\<rparr>\<rparr>)))"

end
