(* ===== verification/Installer.thy ===== *)
theory Installer
  imports Downloads Platform
begin

text \<open>
  The installer (\<^verbatim>\<open>crates/openwork-installer/src/lib.rs\<close>): install plans, their execution through a
  downloader and a command runner, and the rollback of what a failed execution created. The downloader
  is a trait: its contract is the locale \<open>download_contract\<close>, which the downloader of the runtime crate
  satisfies. The command runner is a parameter; what a command does to the host is its own.
\<close>

section \<open>Plans and reports\<close>

record command_spec =
  cs_program :: path_buf
  cs_arguments :: "string list"
  cs_environment :: "(string, string) btree_map"
  cs_working_directory :: "path_buf option"
  cs_timeout_millis :: u64

record command_output =
  co_exit_code :: "i32 option"
  co_stdout :: string
  co_stderr :: string
  co_timed_out :: bool
  co_cancelled :: bool
  co_truncated :: bool

datatype install_action = CreateDirectory | Download | RunCommand

record install_step =
  is_id :: string
  is_action :: install_action
  is_path :: path_buf
  is_reason :: string
  is_download :: "download_request option"
  is_command :: "command_spec option"

record install_plan =
  ip_schema_version :: u32
  ip_dry_run :: bool
  ip_steps :: "install_step list"
  ip_warnings :: "string list"

datatype execution_mode = DryRun | Execute

datatype step_status = Planned | Created | Preserved | Downloaded | Executed | RolledBack | Failed

record step_result =
  rs_id :: string
  rs_status :: step_status
  rs_detail :: string
  rs_download_receipt :: "download_receipt option"

record execution_report =
  er_mode :: execution_mode
  er_completed :: bool
  er_partial_state :: bool
  er_steps :: "step_result list"
  er_rollback_warnings :: "string list"

record execution_failure =
  ef_error :: openwork_error
  ef_report :: execution_report

datatype reversible_change = ReversibleFile path_buf | ReversibleDirectory path_buf

record install_executor =
  \<comment> \<open>the injected boundaries\<close>
  ie_download :: "download_request \<Rightarrow> (host, openwork_error, download_receipt) op"
  ie_run :: "command_spec \<Rightarrow> (host, openwork_error, command_output) op"

definition install_plan_schema_version :: u32 where
  "install_plan_schema_version = 1"

section \<open>Steps\<close>

definition malformed_step :: "install_step \<Rightarrow> openwork_error" where
  "malformed_step step = with_remediation
     (new_error ConfigInvalid (''install step `'' @ is_id step @ ''` does not match its action''))
     ''Regenerate the install plan with this OpenWork version.''"

definition install_io_error :: "io_error \<Rightarrow> openwork_error" where
  "install_io_error e = with_remediation
     (new_error InstallFailed (''installation filesystem operation failed: '' @ io_text e))
     ''Check managed-directory permissions and free space.''"

definition plain_result :: "string \<Rightarrow> step_status \<Rightarrow> string \<Rightarrow> step_result" where
  "plain_result i status detail =
     \<lparr>rs_id = i, rs_status = status, rs_detail = detail, rs_download_receipt = None\<rparr>"

function missing_directories :: "(path_buf, node) btree_map \<Rightarrow> path_buf \<Rightarrow> path_buf list" where
  \<comment> \<open>from the path upwards to the first that exists\<close>
  "missing_directories fs p =
     (if path_exists fs p then []
      else p # (case path_parent p of None \<Rightarrow> [] | Some q \<Rightarrow> missing_directories fs q))"
  by pat_completeness auto
termination
  by (relation "measure (\<lambda>(fs, p). length (path_parts p))") (auto dest: path_parent_shorter)

declare missing_directories.simps [simp del]

text \<open>A step returns its result and the changes it adds to the list for the rollback.\<close>

definition execute_directory ::
  "host_env \<Rightarrow> install_step \<Rightarrow> (host, openwork_error, step_result \<times> reversible_change list) op" where
  "execute_directory env step s =
     (if is_download step \<noteq> None \<or> is_command step \<noteq> None then (Inl (malformed_step step), s)
      else if path_is_dir (files s) (is_path step) then
        (Inr (plain_result (is_id step) Preserved ''existing directory preserved'', []), s)
      else if path_exists (files s) (is_path step) then
        (Inl (new_error InstallFailed (''cannot create directory because `'' @ path_display (is_path step) @
           ''` already exists as a file'')), s)
      else
        (let missing = missing_directories (files s) (is_path step) in
         case create_dir_all env (is_path step) s of
           (Inl e, t) \<Rightarrow> (Inl (install_io_error e), t)
         | (Inr _, t) \<Rightarrow> (Inr (plain_result (is_id step) Created ''directory created'',
                             map ReversibleDirectory (rev missing)), t)))"

definition execute_download ::
  "install_executor \<Rightarrow> install_step \<Rightarrow> (host, openwork_error, step_result \<times> reversible_change list) op" where
  "execute_download E step =
     bnd (lift_res (ok_or (is_download step) (malformed_step step))) (\<lambda>request.
     bnd (lift_res (ensure (dl_destination request = is_path step)
         (new_error ConfigInvalid (''download step `'' @ is_id step @ ''` has inconsistent destinations'')))) (\<lambda>_.
     bnd (check (\<lambda>s. \<not> path_exists (files s) (is_path step))
         (with_remediation
           (new_error InstallFailed (''refusing to overwrite existing download `'' @ path_display (is_path step) @ ''`''))
           ''Review and remove only the stale managed download, then retry.'')) (\<lambda>_.
     bnd (ie_download E request) (\<lambda>receipt.
     ret (\<lparr>rs_id = is_id step, rs_status = Downloaded,
           rs_detail = ''downloaded '' @ decimal (unat (dr_bytes_written receipt)) @ '' bytes; sha256='' @
             dr_observed_sha256 receipt @ ''; verified='' @ (if dr_verified receipt then ''true'' else ''false''),
           rs_download_receipt = Some receipt\<rparr>, [ReversibleFile (is_path step)])))))"

definition execute_command ::
  "install_executor \<Rightarrow> install_step \<Rightarrow> (host, openwork_error, step_result \<times> reversible_change list) op" where
  "execute_command E step =
     bnd (lift_res (ok_or (is_command step) (malformed_step step))) (\<lambda>command.
     bnd (lift_res (ensure (cs_program command = is_path step)
         (new_error ConfigInvalid (''command step `'' @ is_id step @ ''` has an inconsistent program'')))) (\<lambda>_.
     bnd (ie_run E command) (\<lambda>output.
     bnd (lift_res (ensure (\<not> co_cancelled output)
         (new_error InstallFailed (''install command `'' @ is_id step @ ''` was cancelled'')))) (\<lambda>_.
     bnd (lift_res (ensure (\<not> co_timed_out output)
         (new_error InstallFailed (''install command `'' @ is_id step @ ''` timed out'')))) (\<lambda>_.
     bnd (lift_res (ensure (co_exit_code output = Some 0)
         (with_remediation (new_error InstallFailed (''install command `'' @ is_id step @ ''` failed''))
           ''Inspect redacted runtime diagnostics and the partial-state report.''))) (\<lambda>_.
     ret (plain_result (is_id step) Executed ''command completed successfully'', [])))))))"

definition execute_step ::
  "host_env \<Rightarrow> install_executor \<Rightarrow> install_step \<Rightarrow> (host, openwork_error, step_result \<times> reversible_change list) op" where
  "execute_step env E step =
     (case is_action step of
        CreateDirectory \<Rightarrow> execute_directory env step
      | Download \<Rightarrow> execute_download E step
      | RunCommand \<Rightarrow> execute_command E step)"

section \<open>Rollback\<close>

definition if_present :: "(host, io_error, unit) op \<Rightarrow> (host, io_error, unit) op" where
  \<comment> \<open>\<^verbatim>\<open>remove_file_if_present\<close> and \<^verbatim>\<open>remove_directory_if_empty\<close>: an absent path counts as removed\<close>
  "if_present remove s =
     (case remove s of
        (Inl e, t) \<Rightarrow> if io_kind e = NotFound then (Inr (), t) else (Inl e, t)
      | (Inr _, t) \<Rightarrow> (Inr (), t))"

fun change_path :: "reversible_change \<Rightarrow> path_buf" where
  "change_path (ReversibleFile p) = p"
| "change_path (ReversibleDirectory p) = p"

fun undo_change :: "host_env \<Rightarrow> reversible_change \<Rightarrow> (host, io_error, unit) op" where
  "undo_change env (ReversibleFile p) = if_present (remove_file env p)"
| "undo_change env (ReversibleDirectory p) = if_present (remove_dir env p)"

fun rollback :: "host_env \<Rightarrow> reversible_change list \<Rightarrow> step_result list \<Rightarrow> string list \<Rightarrow> host \<Rightarrow>
    (step_result list \<times> string list) \<times> host" where
  \<comment> \<open>the loop that pops the changes; the list has the latest change first\<close>
  "rollback env [] results warnings s = ((results, warnings), s)"
| "rollback env (c # cs) results warnings s =
     (case undo_change env c s of
        (Inr _, t) \<Rightarrow> rollback env cs (results @ [plain_result (''rollback.'' @ path_display (change_path c))
            RolledBack ''reversible install change removed'']) warnings t
      | (Inl e, t) \<Rightarrow> rollback env cs results (warnings @ [''could not roll back `'' @
            path_display (change_path c) @ ''`: '' @ io_text e]) t)"

definition rollback_failure ::
  "host_env \<Rightarrow> execution_mode \<Rightarrow> openwork_error \<Rightarrow> step_result list \<Rightarrow> reversible_change list \<Rightarrow> bool \<Rightarrow> host \<Rightarrow>
   execution_failure \<times> host" where
  "rollback_failure env mode err results changes irreversible_attempted s =
     (case rollback env (rev changes) results [] s of
        ((steps, warnings), t) \<Rightarrow>
          (\<lparr>ef_error = err,
            ef_report = \<lparr>er_mode = mode, er_completed = False,
              er_partial_state = (irreversible_attempted \<or> warnings \<noteq> []),
              er_steps = steps, er_rollback_warnings = warnings\<rparr>\<rparr>, t))"

section \<open>Execution of a plan\<close>

fun run_steps ::
  "host_env \<Rightarrow> install_executor \<Rightarrow> execution_mode \<Rightarrow> install_step list \<Rightarrow> step_result list \<Rightarrow> reversible_change list \<Rightarrow>
   bool \<Rightarrow> (host, execution_failure, execution_report) op" where
  "run_steps env E mode [] results reversible irreversible_attempted s =
     (Inr \<lparr>er_mode = mode, er_completed = True, er_partial_state = False, er_steps = results,
          er_rollback_warnings = []\<rparr>, s)"
| "run_steps env E mode (step # steps) results reversible irreversible_attempted s =
     (if token env (calls s) then
        (case rollback_failure env mode (with_remediation (new_error InstallFailed ''installation cancelled'')
            ''Review the rollback report before retrying.'') results reversible irreversible_attempted
            (log_call Read_token s) of (f, t) \<Rightarrow> (Inl f, t))
      else
        let attempted = (irreversible_attempted \<or> is_action step = RunCommand) in
        case execute_step env E step (log_call Read_token s) of
          (Inr (result, changes), t) \<Rightarrow>
            run_steps env E mode steps (results @ [result]) (reversible @ changes) attempted t
        | (Inl err, t) \<Rightarrow>
            (case rollback_failure env mode err
                (results @ [plain_result (is_id step) Failed (message err)]) reversible attempted t of
               (f, u) \<Rightarrow> (Inl f, u)))"

definition install_run ::
  "host_env \<Rightarrow> install_executor \<Rightarrow> install_plan \<Rightarrow> execution_mode \<Rightarrow> (host, execution_failure, execution_report) op" where
  "install_run env E plan mode s =
     (if ip_schema_version plan \<noteq> install_plan_schema_version then
        (Inl \<lparr>ef_error = with_remediation
              (new_error ConfigInvalid (''unsupported install plan schema version '' @
                 decimal (unat (ip_schema_version plan))))
              ''Regenerate the install plan with this OpenWork version.'',
            ef_report = \<lparr>er_mode = mode, er_completed = False, er_partial_state = False, er_steps = [],
              er_rollback_warnings = []\<rparr>\<rparr>, s)
      else if mode = DryRun then
        (Inr \<lparr>er_mode = mode, er_completed = True, er_partial_state = False,
            er_steps = map (\<lambda>step. plain_result (is_id step) Planned (is_reason step)) (ip_steps plan),
            er_rollback_warnings = []\<rparr>, s)
      else run_steps env E mode (ip_steps plan) [] [] False s)"

section \<open>Plans\<close>

record runtime_install_plan =
  rp_source_url :: string
  rp_version :: "string option"
  rp_downloads :: "download_request list"
  rp_commands :: "command_spec list"
  rp_warnings :: "string list"

definition directory_step :: "string \<Rightarrow> path_buf \<Rightarrow> string \<Rightarrow> install_step" where
  "directory_step i p reason =
     \<lparr>is_id = i, is_action = CreateDirectory, is_path = p, is_reason = reason, is_download = None, is_command = None\<rparr>"

definition dry_run_plan :: "platform_info \<Rightarrow> install_plan" where
  "dry_run_plan platform =
     (let paths = pl_paths platform in
      \<lparr>ip_schema_version = install_plan_schema_version, ip_dry_run = True,
       ip_steps = map (\<lambda>(i, p). directory_step (''directory.'' @ i) p (''Prepare the OpenWork '' @ i @ '' location''))
         [(''config'', op_config paths), (''data'', op_data paths), (''cache'', op_cache paths),
          (''logs'', op_logs paths), (''bin'', op_bin paths)],
       ip_warnings = [''Dry-run only: no directories, downloads, or subprocesses were executed.'',
         ''Runtime install steps will be added after runtime selection.'']\<rparr>)"

definition download_step :: "string \<Rightarrow> nat \<Rightarrow> download_request \<Rightarrow> install_step" where
  "download_step runtime_id index request =
     \<lparr>is_id = ''runtime.'' @ runtime_id @ ''.download.'' @ decimal index, is_action = Download,
      is_path = dl_destination request, is_reason = ''Fetch '' @ runtime_id @ '' from its official managed source'',
      is_download = Some request, is_command = None\<rparr>"

definition command_step :: "string \<Rightarrow> nat \<Rightarrow> command_spec \<Rightarrow> install_step" where
  "command_step runtime_id index command =
     \<lparr>is_id = ''runtime.'' @ runtime_id @ ''.command.'' @ decimal index, is_action = RunCommand,
      is_path = cs_program command, is_reason = ''Run the reviewed '' @ runtime_id @ '' official installer'',
      is_download = None, is_command = Some command\<rparr>"

fun download_steps :: "string \<Rightarrow> path_buf list \<Rightarrow> nat \<Rightarrow> download_request list \<Rightarrow> install_step list" where
  \<comment> \<open>the loop over the downloads; the second argument is the set of planned directories\<close>
  "download_steps runtime_id planned index [] = []"
| "download_steps runtime_id planned index (request # requests) =
     (case path_parent (dl_destination request) of
        Some parent \<Rightarrow>
          if parent \<notin> set planned then
            directory_step (''runtime.'' @ runtime_id @ ''.download-directory.'' @ decimal index) parent
              (''Prepare the managed '' @ runtime_id @ '' download location'')
            # download_step runtime_id index request
            # download_steps runtime_id (parent # planned) (Suc index) requests
          else download_step runtime_id index request # download_steps runtime_id planned (Suc index) requests
      | None \<Rightarrow> download_step runtime_id index request # download_steps runtime_id planned (Suc index) requests)"

definition managed_runtime_plan :: "platform_info \<Rightarrow> string \<Rightarrow> runtime_install_plan \<Rightarrow> install_plan" where
  "managed_runtime_plan platform runtime_id runtime =
     (let plan = dry_run_plan platform;
          planned = map is_path (filter (\<lambda>step. is_action step = CreateDirectory) (ip_steps plan)) in
      plan\<lparr>ip_warnings := butlast (ip_warnings plan) @ rp_warnings runtime,
           ip_steps := ip_steps plan @ download_steps runtime_id planned 0 (rp_downloads runtime) @
             map (\<lambda>(index, command). command_step runtime_id index command)
               (enumerate 0 (rp_commands runtime))\<rparr>)"

end
