(* ===== verification/Install_Properties.thy ===== *)
theory Install_Properties
  imports Installer
begin

text \<open>
  What an installation leaves behind. The contract of a downloader is a locale, interpreted on the
  downloader of the runtime crate; in it the execution of a plan is shown to add nodes one by one, in the
  order of its list of reversible changes, so that undoing the list backwards gives the tree it started
  from.
\<close>

section \<open>Trees that grew\<close>

inductive fits :: "reversible_change \<Rightarrow> node \<Rightarrow> bool" where
  fits_file: "fits (ReversibleFile p) (File_node content)"
| fits_directory: "fits (ReversibleDirectory p) Directory_node"

inductive_simps fits_simps: "fits (ReversibleFile p) n" "fits (ReversibleDirectory p) n"

inductive grown :: "(path_buf \<Rightarrow> node option) \<Rightarrow> reversible_change list \<Rightarrow> (path_buf \<Rightarrow> node option) \<Rightarrow> bool" where
  grown_none: "grown m [] m"
| grown_node: "grown m cs u \<Longrightarrow> u (change_path c) = None \<Longrightarrow> stands u (change_path c) \<Longrightarrow> fits c n \<Longrightarrow>
    grown m (cs @ [c]) (u(change_path c \<mapsto> n))"
| grown_nothing: "grown m cs u \<Longrightarrow> grown m (cs @ [ReversibleDirectory (Path_buf False [])]) u"
    \<comment> \<open>above a relative path the empty path is recorded, which names nothing\<close>

definition tidy_map :: "(path_buf \<Rightarrow> node option) \<Rightarrow> bool" where
  "tidy_map m = (\<forall>p. m p \<noteq> None \<longrightarrow> stands m p)"

lemma tidy_tidy_map: "tidy fs = tidy_map (node_in fs)"
  by (simp add: tidy_iff tidy_map_def)

lemma stands_parts: "stands m p \<Longrightarrow> path_parts p \<noteq> []"
  by (auto simp: stands_def path_parent_def split: if_splits)

lemma tidy_map_add: "tidy_map u \<Longrightarrow> u p = None \<Longrightarrow> stands u p \<Longrightarrow> tidy_map (u(p \<mapsto> n))"
proof -
  assume a: "tidy_map u" "u p = None" "stands u p"
  have "stands (u(p \<mapsto> n)) q" if "stands u q" for q
    using that a(2) by (elim stands_mono) auto
  with a show ?thesis by (auto simp: tidy_map_def)
qed

lemma grown_tidy: "grown m cs u \<Longrightarrow> tidy_map m \<Longrightarrow> tidy_map u"
  by (induction rule: grown.induct) (auto intro: tidy_map_add)

lemma tidy_map_empty: "tidy_map m \<Longrightarrow> path_parts p = [] \<Longrightarrow> m p = None"
  using stands_parts [of m p] by (auto simp: tidy_map_def)

lemma grown_delta:
  "grown m cs u \<Longrightarrow> tidy_map m \<Longrightarrow> (u q = m q \<or> m q = None \<and> q \<in> change_path ` set cs) \<and>
   (q \<in> change_path ` set cs \<longrightarrow> m q = None)"
proof (induction rule: grown.induct)
  case (grown_node m cs u c n)
  then show ?case by (auto split: if_splits)
next
  case (grown_nothing m cs u)
  then show ?case using tidy_map_empty [of m "Path_buf False []"] by auto
qed simp

lemma grown_append: "grown u ds v \<Longrightarrow> grown m cs u \<Longrightarrow> grown m (cs @ ds) v"
proof (induction rule: grown.induct)
  case (grown_node u ds v c n)
  then show ?case using grown.grown_node [of m "cs @ ds" v c n] by (simp only: append_assoc)
next
  case (grown_nothing u ds v)
  then show ?case using grown.grown_nothing [of m "cs @ ds" v] by simp
qed simp

section \<open>Creating directories\<close>

lemma make_dirs_snoc: "make_dirs env (ps @ [p]) = bnd (make_dirs env ps) (\<lambda>_. make_dirs env [p])"
proof (induction ps)
  case (Cons a ps)
  then show ?case by (auto simp: bnd_def fun_eq_iff split: prod.splits sum.splits)
qed (simp add: bnd_def ret_def fun_eq_iff)

lemma make_dirs_one:
  "make_dirs env [p] s = (if path_is_dir (files s) p then (Inr (), s) else make_dir env p s)"
  by (auto simp: bnd_def ret_def split: prod.splits sum.splits)

lemma make_dirs_ok:
  "make_dirs env ps s = (Inr x, t) \<Longrightarrow> tidy (files s) \<Longrightarrow> q \<in> set ps \<Longrightarrow> node_at (files t) q = Some Directory_node"
proof (induction ps arbitrary: t x rule: rev_induct)
  case (snoc p ps)
  from snoc.prems(1) obtain u where u: "make_dirs env ps s = (Inr (), u)" and t: "make_dirs env [p] u = (Inr x, t)"
    unfolding make_dirs_snoc by (auto simp: res_simps)
  have g: "grows {p} u t"
    using make_dirs_grows [OF t] make_dirs_grows [OF u snoc.prems(2)] grows_tidy by simp
  show ?case
  proof (cases "q = p")
    case True
    from t show ?thesis
      unfolding make_dirs_one True
      by (auto simp: path_is_dir_def node_at_def split: if_splits elim!: make_dir_cases)
  next
    case False
    with snoc.IH [OF u snoc.prems(2)] snoc.prems(3) have "node_at (files u) q = Some Directory_node" by simp
    then show ?thesis using grows_keeps [OF g] by (auto simp: node_at_def split: if_splits)
  qed
qed simp

lemma missing_grown:
  assumes "tidy (files s)" and "create_dir_all env p s = (Inr x, t)"
  shows "grown (node_in (files s)) (map ReversibleDirectory (rev (missing_directories (files s) p))) (node_in (files t))"
  using assms(2)
proof (induction "length (path_parts p)" arbitrary: p x t rule: less_induct)
  case less
  show ?case
  proof (cases "path_parent p")
    case None
    then obtain a where p: "p = Path_buf a []" by (cases p) (auto simp: path_parent_def split: if_splits)
    with less.prems have "t = s" by (simp add: create_dir_all_def ret_def)
    then show ?thesis
      using grown_nothing [OF grown_none]
      by (auto simp: p missing_directories.simps [of _ "Path_buf a []"] path_exists_def node_at_def path_parent_def intro: grown_none)
  next
    case (Some q)
    note tr = trail_parent [OF Some]
    show ?thesis
    proof (cases "path_exists (files s) p")
      case True
      then have "node_at (files s) p = Some Directory_node"
        using make_dirs_ok [OF less.prems [unfolded create_dir_all_def] assms(1), of p] tr
          grows_keeps [OF create_dir_all_grows [OF less.prems assms(1)], of p]
        by (auto simp: path_exists_def node_at_def split: if_splits)
      then have "t = s"
        using create_dir_all_existing [OF assms(1), of p env] less.prems by (auto simp: node_at_def split: if_splits)
      then show ?thesis using True by (simp add: missing_directories.simps [of _ p] grown_none)
    next
      case False
      from less.prems obtain u where u: "create_dir_all env q s = (Inr (), u)" and t: "make_dirs env [p] u = (Inr x, t)"
        unfolding create_dir_all_def tr make_dirs_snoc by (auto simp: res_simps)
      note IH = less.hyps [OF path_parent_shorter [OF Some] u]
      have "p \<notin> set (trail q)"
        using path_parent_shorter [OF Some] by (auto simp: trail_def)
      with create_dir_all_grows [OF u assms(1)] False have n: "node_in (files u) p = None"
        using Some by (auto simp: grows_def path_exists_def node_at_def path_parent_def split: if_splits) (metis)+
      with t Some have "files t = bm_insert p Directory_node (files u)" "stands (node_in (files u)) p"
        unfolding make_dirs_one
        by (auto simp: path_is_dir_def node_at_def path_parent_def split: if_splits elim!: make_dir_cases)
      then have "grown (node_in (files s)) (map ReversibleDirectory (rev (missing_directories (files s) q)) @ [ReversibleDirectory p])
          (node_in (files t))"
        using grown_node [OF IH, of "ReversibleDirectory p" Directory_node] n by (simp add: fits_simps)
      then show ?thesis by (simp add: missing_directories.simps [of _ p] False Some)
    qed
  qed
qed

section \<open>Undoing changes\<close>

definition honest :: "host_env \<Rightarrow> bool" where
  \<comment> \<open>that a path is absent is a fact of the tree, not a refusal\<close>
  "honest env = (\<forall>h c e. refuses env h c = Some e \<longrightarrow> io_kind e \<noteq> NotFound)"

lemma undo_change_effect:
  assumes "honest env" and "tidy (files s)" and "undo_change env c s = (r, t)"
  shows "tidy (files t) \<and>
    (node_in (files t) = node_in (files s) \<or> node_in (files t) = (node_in (files s))(change_path c := None)) \<and>
    (r = Inr () \<longrightarrow> node_in (files t) (change_path c) = None)"
proof -
  have e: "path_parts p = [] \<Longrightarrow> node_in (files s) p = None" for p
    using tidy_components [OF assms(2), of p] by (cases "node_in (files s) p") auto
  have l: "\<not> has_child (files s) p" if "node_in (files s) p = Some (File_node d)" for p d
    using tidy_no_child [OF assms(2), of p] tidy_components [OF assms(2) that] that by simp
  show ?thesis
  proof (cases c)
    case (ReversibleFile p)
    with assms show ?thesis
      by (auto simp: if_present_def remove_file_def sys_def honest_def node_at_def os_error_def e tidy_remove l fun_upd_def
          split: option.splits prod.splits sum.splits node.splits if_splits)
  next
    case (ReversibleDirectory p)
    with assms show ?thesis
      by (auto simp: if_present_def remove_dir_def sys_def honest_def node_at_def os_error_def e tidy_remove fun_upd_def
          split: option.splits prod.splits sum.splits node.splits if_splits)
  qed
qed

lemma rollback_effect:
  assumes "honest env" and "tidy (files s)" and "rollback env cs results warnings s = ((rs, ws), t)"
  shows "(\<forall>q. node_in (files t) q = node_in (files s) q \<or> q \<in> change_path ` set cs \<and> node_in (files t) q = None) \<and>
    length warnings \<le> length ws \<and> (length ws = length warnings \<longrightarrow> (\<forall>c \<in> set cs. node_in (files t) (change_path c) = None))"
  using assms(2,3)
proof (induction cs arbitrary: s results warnings)
  case (Cons c cs)
  obtain r u where u: "undo_change env c s = (r, u)" by fastforce
  note un = undo_change_effect [OF assms(1) Cons.prems(1) u]
  show ?case
  proof (cases r)
    case (Inl e)
    let ?w = "warnings @ [''could not roll back `'' @ path_display (change_path c) @ ''`: '' @ io_text e]"
    from Cons.prems(2) u Inl have "rollback env cs results ?w u = ((rs, ws), t)" by simp
    note ih = Cons.IH [OF _ this]
    have len: "length ?w = Suc (length warnings)" by simp
    show ?thesis using un ih unfolding len by (auto simp: fun_eq_iff split: if_splits) (metis)+
  next
    case (Inr x)
    from Cons.prems(2) u Inr have "rollback env cs (results @ [plain_result (''rollback.'' @ path_display (change_path c))
        RolledBack ''reversible install change removed'']) warnings u = ((rs, ws), t)" by simp
    note ih = Cons.IH [OF _ this]
    show ?thesis using un ih Inr by (auto simp: fun_eq_iff split: if_splits) (metis)+
  qed
qed simp

lemma rollback_extends:
  "rollback env cs results warnings s = ((rs, ws), t) \<Longrightarrow> \<exists>more. rs = results @ more \<and> list_all (\<lambda>r. rs_status r = RolledBack) more"
proof (induction cs arbitrary: results warnings s)
  case (Cons c cs)
  then show ?case by (fastforce simp: plain_result_def split: prod.splits sum.splits)
qed simp

definition removals_allowed :: "host_env \<Rightarrow> bool" where
  "removals_allowed env = (\<forall>h p. refuses env h (Remove_file p) = None \<and> refuses env h (Remove_dir p) = None)"

lemma undo_node:
  assumes "removals_allowed env" and "tidy_map u" and "u (change_path c) = None" and "stands u (change_path c)" and "fits c n"
    and "node_in (files s) = u(change_path c \<mapsto> n)"
  obtains t where "undo_change env c s = (Inr (), t)" and "node_in (files t) = u"
proof -
  have p: "path_parts (change_path c) \<noteq> []" by (rule stands_parts [OF assms(4)])
  have "\<not> has_child (files s) (change_path c)"
    using assms(2,3) p path_parent_neq by (auto simp: has_child_iff assms(6) tidy_map_def stands_def split: if_splits)
  moreover have "u = (u(change_path c \<mapsto> n))(change_path c := None)" using assms(3) by auto
  ultimately show thesis
    using assms(1,5,6) p
    by (cases c) (auto simp: fits_simps removals_allowed_def if_present_def remove_file_def remove_dir_def sys_def node_at_def intro!: that)
qed

lemma rollback_grown:
  assumes "removals_allowed env" and "grown m cs u" and "tidy_map m" and "node_in (files s) = u"
  obtains rs t where "rollback env (rev cs) results warnings s = ((rs, warnings), t)" and "node_in (files t) = m"
  using assms(2,3,4)
proof (induction arbitrary: s results thesis rule: grown.induct)
  case (grown_node m cs u c n)
  obtain v where v: "undo_change env c s = (Inr (), v)" "node_in (files v) = u"
    using undo_node [OF assms(1) grown_tidy [OF grown_node(1,7)] grown_node(2-4,8)] by blast
  then show ?case using grown_node by (auto intro: grown_node(5) [where s = v])
next
  case (grown_nothing m cs u)
  let ?c = "ReversibleDirectory (Path_buf False [])"
  obtain v where v: "undo_change env ?c s = (Inr (), v)" "node_in (files v) = u"
    using grown_nothing(5) assms(1)
    by (auto simp: removals_allowed_def if_present_def remove_dir_def sys_def node_at_def os_error_def)
  then show ?case using grown_nothing by (auto intro: grown_nothing(2) [where s = v])
qed simp

section \<open>Executing a plan\<close>

fun directories_planned :: "path_buf list \<Rightarrow> install_step list \<Rightarrow> bool" where
  \<comment> \<open>the directory of every download is the path of an earlier step\<close>
  "directories_planned known [] = True"
| "directories_planned known (step # steps) =
     ((is_action step = Download \<longrightarrow>
        (case path_parent (is_path step) of None \<Rightarrow> True | Some q \<Rightarrow> path_parts q = [] \<or> q \<in> set known)) \<and>
      directories_planned (if is_action step = CreateDirectory then is_path step # known else known) steps)"

definition settled_dirs :: "path_buf list \<Rightarrow> host \<Rightarrow> bool" where
  "settled_dirs known s = (\<forall>p \<in> set known. path_parts p = [] \<or> node_in (files s) p = Some Directory_node)"

definition undone :: "install_step list \<Rightarrow> (path_buf \<Rightarrow> node option) \<Rightarrow> execution_failure \<Rightarrow> host \<Rightarrow> bool" where
  \<comment> \<open>the tree is the one at the start, up to new nodes on the way to the path of the step that failed\<close>
  "undone steps m f t = (node_in (files t) = m \<or>
     (\<exists>step \<in> set steps. \<exists>r \<in> set (er_steps (ef_report f)). rs_id r = is_id step \<and> rs_status r = Failed \<and>
        (\<forall>q. node_in (files t) q = m q \<or> m q = None \<and> q \<in> set (trail (is_path step)))))"

definition only_downloads_failed :: "host_env \<Rightarrow> install_step list \<Rightarrow> execution_failure \<Rightarrow> bool" where
  \<comment> \<open>no step is reported as failed, or only a download on a system that syncs directories\<close>
  "only_downloads_failed env steps f =
     (\<forall>r \<in> set (er_steps (ef_report f)). rs_status r = Failed \<longrightarrow>
        syncs_allowed env \<and> (\<forall>step \<in> set steps. is_id step = rs_id r \<longrightarrow> is_action step = Download))"

definition installed :: "(path_buf \<Rightarrow> node option) \<Rightarrow> host \<Rightarrow> install_step \<Rightarrow> bool" where
  \<comment> \<open>what the step was to make stands in the tree; a download is a file that was not there at the start\<close>
  "installed m t step =
     (case is_action step of
        CreateDirectory \<Rightarrow> path_parts (is_path step) = [] \<or> node_in (files t) (is_path step) = Some Directory_node
      | Download \<Rightarrow> m (is_path step) = None \<and> (\<exists>content. node_in (files t) (is_path step) = Some (File_node content))
      | RunCommand \<Rightarrow> True)"

locale download_contract =
  fixes fetch :: "download_request \<Rightarrow> (host, openwork_error, download_receipt) op"
    and reliable :: bool \<comment> \<open>a failed download can be relied on to have published nothing\<close>
  assumes fetch_grows: "tidy (files s) \<Longrightarrow> fetch request s = (r, t) \<Longrightarrow> grows (set (trail (dl_destination request))) s t"
    and fetch_adds: "tidy (files s) \<Longrightarrow> fetch request s = (Inr receipt, t) \<Longrightarrow>
      path_parent (dl_destination request) = Some q \<Longrightarrow> path_parts q = [] \<or> node_in (files s) q = Some Directory_node \<Longrightarrow>
      node_in (files s) (dl_destination request) = None \<and>
      (\<exists>content. node_in (files t) = (node_in (files s))(dl_destination request \<mapsto> File_node content))"
    and fetch_below: "fetch request s = (Inr receipt, t) \<Longrightarrow> path_parent (dl_destination request) \<noteq> None"
    and fetch_fails: "reliable \<Longrightarrow> tidy (files s) \<Longrightarrow> fetch request s = (Inl e, t) \<Longrightarrow>
      \<forall>q. path_parent (dl_destination request) = Some q \<longrightarrow> path_parts q = [] \<or> node_in (files s) q = Some Directory_node \<Longrightarrow>
      files t = files s"
begin

lemma directory_grown:
  assumes "tidy (files s)" and "execute_directory env step s = (Inr (result, changes), t)"
  shows "grown (node_in (files s)) changes (node_in (files t))"
    and "path_parts (is_path step) = [] \<or> node_in (files t) (is_path step) = Some Directory_node"
proof -
  from assms(2) consider (kept) "t = s" "changes = []" "path_is_dir (files s) (is_path step)"
    | (made) x where "create_dir_all env (is_path step) s = (Inr x, t)"
        "changes = map ReversibleDirectory (rev (missing_directories (files s) (is_path step)))"
    by (auto simp: execute_directory_def Let_def split: if_splits prod.splits sum.splits)
  then have "grown (node_in (files s)) changes (node_in (files t)) \<and>
      (path_parts (is_path step) = [] \<or> node_in (files t) (is_path step) = Some Directory_node)"
  proof cases
    case kept
    then show ?thesis by (auto simp: path_is_dir_def node_at_def intro: grown_none split: if_splits)
  next
    case made
    then show ?thesis
      using missing_grown [OF assms(1) made(1)] make_dirs_ok [OF made(1) [unfolded create_dir_all_def] assms(1), of "is_path step"]
        trail_self [of "is_path step"]
      by (cases "path_parts (is_path step) = []") (simp_all add: node_at_def)
  qed
  then show "grown (node_in (files s)) changes (node_in (files t))"
    and "path_parts (is_path step) = [] \<or> node_in (files t) (is_path step) = Some Directory_node" by blast+
qed

lemma directory_fails:
  "tidy (files s) \<Longrightarrow> execute_directory env step s = (Inl e, t) \<Longrightarrow> grows (set (trail (is_path step))) s t"
  by (auto simp: execute_directory_def Let_def grows_refl split: if_splits prod.splits sum.splits dest: create_dir_all_grows)

lemma download_grown:
  assumes "tidy (files s)" and "execute_download E step s = (Inr (result, changes), t)" and "ie_download E = fetch"
    and "\<And>q. path_parent (is_path step) = Some q \<Longrightarrow> path_parts q = [] \<or> node_in (files s) q = Some Directory_node"
  shows "grown (node_in (files s)) changes (node_in (files t))"
    and "node_in (files s) (is_path step) = None"
    and "\<exists>content. node_in (files t) (is_path step) = Some (File_node content)"
proof -
  obtain request receipt where f: "fetch request s = (Inr receipt, t)" and d: "dl_destination request = is_path step"
    and c: "changes = [ReversibleFile (is_path step)]"
    using assms(2,3) unfolding execute_download_def by (auto simp: res_simps)
  obtain q where q: "path_parent (is_path step) = Some q" using fetch_below [OF f] d by auto
  from fetch_adds [OF assms(1) f _ assms(4) [OF q]] q d obtain content where
    n: "node_in (files s) (is_path step) = None" "node_in (files t) = (node_in (files s))(is_path step \<mapsto> File_node content)"
    by auto
  have "stands (node_in (files s)) (is_path step)" using q assms(4) by (auto simp: stands_def)
  then show "grown (node_in (files s)) changes (node_in (files t))"
    using grown_node [OF grown_none, of "node_in (files s)" "ReversibleFile (is_path step)" "File_node content"] n c
    by (simp add: fits_simps)
  show "node_in (files s) (is_path step) = None"
    and "\<exists>content. node_in (files t) (is_path step) = Some (File_node content)" using n by simp_all
qed

lemma download_leaves_nothing:
  assumes "tidy (files s)" and "execute_download E step s = (Inl e, t)" and "ie_download E = fetch" and reliable
    and "\<And>q. path_parent (is_path step) = Some q \<Longrightarrow> path_parts q = [] \<or> node_in (files s) q = Some Directory_node"
  shows "files t = files s"
  using assms(2) fetch_fails [OF assms(4,1)] assms(3,5) unfolding execute_download_def
  by (auto simp: res_simps)

lemma download_fails:
  assumes "tidy (files s)" and "execute_download E step s = (Inl e, t)" and "ie_download E = fetch"
  shows "grows (set (trail (is_path step))) s t"
  using assms fetch_grows unfolding execute_download_def
  by (auto simp: res_simps grows_refl) metis

lemma settled_dirs_grown:
  "settled_dirs known s \<Longrightarrow> grown (node_in (files s)) cs (node_in (files t)) \<Longrightarrow> tidy (files s) \<Longrightarrow> settled_dirs known t"
  unfolding settled_dirs_def tidy_tidy_map by (metis grown_delta option.distinct(1))

lemma step_grown:
  assumes "tidy (files s)" and "execute_step env E step s = (Inr (result, changes), t)" and "ie_download E = fetch"
    and "directories_planned known (step # steps)" and "settled_dirs known s" and "is_action step \<noteq> RunCommand"
  shows "grown (node_in (files s)) changes (node_in (files t))"
    and "settled_dirs (if is_action step = CreateDirectory then is_path step # known else known) t"
proof -
  show g: "grown (node_in (files s)) changes (node_in (files t))"
  proof (cases "is_action step")
    case CreateDirectory
    then show ?thesis using assms(1,2) directory_grown(1) by (simp add: execute_step_def)
  next
    case Download
    with assms(4,5) have "path_parts q = [] \<or> node_in (files s) q = Some Directory_node" if "path_parent (is_path step) = Some q" for q
      using that by (auto simp: settled_dirs_def)
    with Download assms(1,2,3) show ?thesis using download_grown(1) by (simp add: execute_step_def)
  qed (use assms(6) in simp)
  show "settled_dirs (if is_action step = CreateDirectory then is_path step # known else known) t"
    using settled_dirs_grown [OF assms(5) g assms(1)] directory_grown(2) [OF assms(1), of env step result changes t] assms(2)
    by (cases "is_action step = CreateDirectory") (simp_all add: settled_dirs_def execute_step_def)
qed

lemma step_fails:
  assumes "tidy (files s)" and "execute_step env E step s = (Inl e, t)" and "ie_download E = fetch" and "is_action step \<noteq> RunCommand"
  shows "grows (set (trail (is_path step))) s t"
  using assms directory_fails download_fails
  by (cases "is_action step") (auto simp: execute_step_def)

lemma attempted_is_partial:
  "run_steps env E mode steps results R True s = (Inl f, t) \<Longrightarrow> er_partial_state (ef_report f)"
proof (induction steps arbitrary: results R s)
  case (Cons step steps)
  then show ?case
    by (auto simp: rollback_failure_def Let_def split: if_splits prod.splits sum.splits)
qed simp

lemma failure_undone:
  assumes "honest env" and "tidy_map m" and "grown m R (node_in (files s))" and "tidy (files u)"
    and "\<And>q. node_in (files u) q = node_in (files s) q \<or> node_in (files s) q = None \<and> q \<in> A"
    and "rollback_failure env mode err results R False u = (f, t)" and "\<not> er_partial_state (ef_report f)"
  shows "(\<forall>q. node_in (files t) q = m q \<or> m q = None \<and> q \<in> A) \<and> set results \<subseteq> set (er_steps (ef_report f))"
proof -
  obtain rs ws where r: "rollback env (rev R) results [] u = ((rs, ws), t)" and f: "er_steps (ef_report f) = rs" "ws = []"
    using assms(6,7) by (auto simp: rollback_failure_def split: prod.splits)
  note eff = rollback_effect [OF assms(1,4) r]
  have "node_in (files t) q = m q \<or> m q = None \<and> q \<in> A" for q
  proof -
    have "node_in (files t) q = node_in (files u) q \<or> q \<in> change_path ` set R"
      and "q \<in> change_path ` set R \<Longrightarrow> node_in (files t) q = None"
      using eff f(2) by auto
    then show ?thesis using grown_delta [OF assms(3,2), of q] assms(5) [of q]
      by (cases "q \<in> change_path ` set R") auto
  qed
  moreover have "set results \<subseteq> set rs" using rollback_extends [OF r] by auto
  ultimately show ?thesis using f(1) by simp
qed

lemma run_steps_undone:
  assumes "honest env" and "tidy_map m" and "ie_download E = fetch"
    and "grown m R (node_in (files s))" and "directories_planned known steps" and "settled_dirs known s"
    and "run_steps env E mode steps results R False s = (Inl f, t)" and "\<not> er_partial_state (ef_report f)"
  shows "undone steps m f t"
  using assms(4-)
proof (induction steps arbitrary: known results R s)
  case (Cons step steps)
  let ?s = "log_call Read_token s"
  have tidy: "tidy (files ?s)" using grown_tidy [OF Cons.prems(1) assms(2)] by (simp add: tidy_tidy_map)
  have s: "grown m R (node_in (files ?s))" "settled_dirs known ?s"
    using Cons.prems(1,3) by (simp_all add: settled_dirs_def)
  show ?case
  proof (cases "token env (calls s)")
    case True
    with Cons.prems(4) obtain err where "rollback_failure env mode err results R False ?s = (f, t)"
      by (auto split: prod.splits)
    from failure_undone [OF assms(1,2) s(1) tidy _ this Cons.prems(5), of "{}"] show ?thesis
      by (simp add: undone_def fun_eq_iff)
  next
    case False
    show ?thesis
    proof (cases "is_action step = RunCommand")
      case True
      with Cons.prems(4,5) False attempted_is_partial show ?thesis
        by (auto simp: Let_def rollback_failure_def split: prod.splits sum.splits)
    next
      case nc: False
      obtain r u where u: "execute_step env E step ?s = (r, u)" by fastforce
      show ?thesis
      proof (cases r)
        case (Inl err)
        with u Cons.prems(4) False nc have "rollback_failure env mode err
            (results @ [plain_result (is_id step) Failed (message err)]) R False u = (f, t)"
          by (auto simp: Let_def split: prod.splits)
        from failure_undone [OF assms(1,2) s(1) _ _ this Cons.prems(5), of "set (trail (is_path step))"]
          step_fails [OF tidy u [unfolded Inl] assms(3) nc]
        show ?thesis by (fastforce simp: undone_def grows_def plain_result_def)
      next
        case (Inr v)
        obtain result changes where v: "v = (result, changes)" by fastforce
        note g = step_grown [OF tidy u [unfolded Inr v] assms(3) Cons.prems(2) s(2) nc]
        from Cons.IH [OF grown_append [OF g(1) s(1)] _ g(2)] Cons.prems(2,4,5) u Inr v False nc
        have "undone steps m f t" by (auto simp: Let_def)
        then show ?thesis by (auto simp: undone_def)
      qed
    qed
  qed
qed simp

lemma run_steps_cancelled:
  assumes "removals_allowed env" and "tidy_map m" and "ie_download E = fetch"
    and "grown m R (node_in (files s))" and "directories_planned known steps" and "settled_dirs known s"
    and "list_all (\<lambda>step. is_action step \<noteq> RunCommand) steps"
    and "run_steps env E mode steps results R False s = (Inl f, t)"
    and "only_downloads_failed env steps f" and "syncs_allowed env \<longrightarrow> reliable"
  shows "\<not> er_partial_state (ef_report f) \<and> node_in (files t) = m"
  using assms(4-)
proof (induction steps arbitrary: known results R s)
  case (Cons step steps)
  let ?s = "log_call Read_token s"
  have tidy: "tidy (files ?s)" using grown_tidy [OF Cons.prems(1) assms(2)] by (simp add: tidy_tidy_map)
  have s: "grown m R (node_in (files ?s))" "settled_dirs known ?s"
    using Cons.prems(1,3) by (simp_all add: settled_dirs_def)
  have nc: "is_action step \<noteq> RunCommand" using Cons.prems(4) by simp
  show ?case
  proof (cases "token env (calls s)")
    case True
    obtain rs u where r: "rollback env (rev R) results [] ?s = ((rs, []), u)" "node_in (files u) = m"
      using rollback_grown [OF assms(1) s(1) assms(2) refl] by metis
    with Cons.prems(5) True show ?thesis by (auto simp: rollback_failure_def)
  next
    case False
    obtain r u where u: "execute_step env E step ?s = (r, u)" by fastforce
    show ?thesis
    proof (cases r)
      case (Inl err)
      let ?r = "results @ [plain_result (is_id step) Failed (message err)]"
      from u Inl Cons.prems(5) False nc obtain rs ws where
        w: "rollback env (rev R) ?r [] u = ((rs, ws), t)" "er_steps (ef_report f) = rs" "er_partial_state (ef_report f) = (ws \<noteq> [])"
        by (auto simp: Let_def rollback_failure_def split: prod.splits)
      with rollback_extends [OF w(1)] Cons.prems(6,7) have d: "is_action step = Download" and reliable
        by (auto simp: only_downloads_failed_def plain_result_def)
      from d Cons.prems(2) s(2) have "path_parts q = [] \<or> node_in (files ?s) q = Some Directory_node"
        if "path_parent (is_path step) = Some q" for q using that by (auto simp: settled_dirs_def)
      with download_leaves_nothing [OF tidy _ assms(3) \<open>reliable\<close>] u Inl d have "node_in (files u) = node_in (files ?s)"
        by (simp add: execute_step_def)
      then obtain rs' v where "rollback env (rev R) ?r [] u = ((rs', []), v)" "node_in (files v) = m"
        using rollback_grown [OF assms(1) s(1) assms(2)] by metis
      with w show ?thesis by simp
    next
      case (Inr v)
      obtain result changes where v: "v = (result, changes)" by fastforce
      note g = step_grown [OF tidy u [unfolded Inr v] assms(3) Cons.prems(2) s(2) nc]
      from Cons.prems(6) have "only_downloads_failed env steps f" by (auto simp: only_downloads_failed_def)
      from Cons.IH [OF grown_append [OF g(1) s(1)] _ g(2) _ _ this Cons.prems(7)] Cons.prems(2,4,5) u Inr v False nc
      show ?thesis by (auto simp: Let_def)
    qed
  qed
qed simp

lemma installed_grown:
  "installed m s step \<Longrightarrow> grown (node_in (files s)) cs (node_in (files t)) \<Longrightarrow> tidy (files s) \<Longrightarrow> installed m t step"
  unfolding installed_def tidy_tidy_map
  by (cases "is_action step") (auto dest: grown_delta [where q = "is_path step"])

lemma installed_earlier:
  "installed (node_in (files s)) t step \<Longrightarrow> grown m cs (node_in (files s)) \<Longrightarrow> tidy_map m \<Longrightarrow> installed m t step"
  unfolding installed_def by (cases "is_action step") (auto dest: grown_delta [where q = "is_path step"])

lemma step_installed:
  assumes "tidy (files s)" and "execute_step env E step s = (Inr (result, changes), t)" and "ie_download E = fetch"
    and "directories_planned known (step # steps)" and "settled_dirs known s" and "is_action step \<noteq> RunCommand"
  shows "installed (node_in (files s)) t step" and "rs_id result = is_id step"
proof -
  have p: "path_parts q = [] \<or> node_in (files s) q = Some Directory_node" if "is_action step = Download" "path_parent (is_path step) = Some q" for q
    using assms(4,5) that by (auto simp: settled_dirs_def)
  show "installed (node_in (files s)) t step"
  proof (cases "is_action step")
    case CreateDirectory
    then show ?thesis using directory_grown(2) [OF assms(1)] assms(2) by (simp add: installed_def execute_step_def)
  next
    case Download
    then show ?thesis
      using download_grown(2,3) [OF assms(1) _ assms(3) p] assms(2) by (simp add: installed_def execute_step_def)
  qed (use assms(6) in simp)
  show "rs_id result = is_id step"
    using assms(2,6)
    by (cases "is_action step")
      (auto simp: execute_step_def execute_directory_def execute_download_def plain_result_def Let_def res_simps
        split: if_splits prod.splits sum.splits)
qed

lemma run_steps_completed:
  assumes "tidy (files s)" and "ie_download E = fetch" and "directories_planned known steps" and "settled_dirs known s"
    and "list_all (\<lambda>step. is_action step \<noteq> RunCommand) steps"
    and "run_steps env E mode steps results R False s = (Inr report, t)"
  shows "er_completed report \<and> \<not> er_partial_state report \<and>
    map rs_id (er_steps report) = map rs_id results @ map is_id steps \<and>
    list_all (installed (node_in (files s)) t) steps \<and> (\<exists>cs. grown (node_in (files s)) cs (node_in (files t)))"
  using assms(1,3-)
proof (induction steps arbitrary: known results R s)
  case Nil
  then show ?case by (auto intro: grown_none)
next
  case (Cons step steps)
  let ?s = "log_call Read_token s"
  have tidy: "tidy (files ?s)" and sd: "settled_dirs known ?s" and nc: "is_action step \<noteq> RunCommand"
    using Cons.prems(1,3,4) by (simp_all add: settled_dirs_def)
  have tk: "\<not> token env (calls s)"
    using Cons.prems(5) by (auto split: if_splits prod.splits)
  with Cons.prems(5) nc obtain result changes u where u: "execute_step env E step ?s = (Inr (result, changes), u)"
    and rest: "run_steps env E mode steps (results @ [result]) (R @ changes) False u = (Inr report, t)"
    by (auto simp: Let_def split: prod.splits sum.splits)
  note g = step_grown [OF tidy u assms(2) Cons.prems(2) sd nc] and i = step_installed [OF tidy u assms(2) Cons.prems(2) sd nc]
  have tu: "tidy (files u)" using grown_tidy [OF g(1)] tidy by (simp add: tidy_tidy_map)
  from Cons.IH [OF tu _ g(2) _ rest] Cons.prems(2,4) obtain cs where
    ih: "er_completed report" "\<not> er_partial_state report" "map rs_id (er_steps report) = map rs_id (results @ [result]) @ map is_id steps"
      "list_all (installed (node_in (files u)) t) steps" "grown (node_in (files u)) cs (node_in (files t))"
    by auto
  have "installed (node_in (files s)) t step" using installed_grown [OF i(1) ih(5) tu] by simp
  moreover have "list_all (installed (node_in (files s)) t) steps"
    using ih(4) installed_earlier [OF _ g(1)] tidy by (auto simp: list_all_iff tidy_tidy_map)
  ultimately show ?case using grown_append [OF ih(5) g(1)] ih i(2) by auto
qed

end

interpretation system_downloads: download_contract "system_download env X D" "syncs_allowed env" for env X D
proof (unfold_locales, goal_cases)
  case (1 s request r t)
  then show ?case by (rule download_grows)
next
  case (2 s request receipt t q)
  then show ?case using download_adds by metis
next
  case (3 request s receipt t)
  then show ?case by (elim download_ok) (auto dest: validate_request_ok(3))
next
  case (4 s request e t)
  then show ?case by (intro download_failed [where env = env]) auto
qed

section \<open>Plans for a runtime\<close>

definition step_matches :: "install_step \<Rightarrow> bool" where
  \<comment> \<open>the step carries what its action needs and nothing that contradicts it\<close>
  "step_matches step =
     (case is_action step of
        CreateDirectory \<Rightarrow> is_download step = None \<and> is_command step = None
      | Download \<Rightarrow> (\<exists>request. is_download step = Some request \<and> dl_destination request = is_path step)
      | RunCommand \<Rightarrow> (\<exists>command. is_command step = Some command \<and> cs_program command = is_path step))"

lemma directories_planned_mono:
  "directories_planned known steps \<Longrightarrow> set known \<subseteq> set known' \<Longrightarrow> directories_planned known' steps"
proof (induction steps arbitrary: known known')
  case (Cons step steps)
  from Cons.prems(1) have "directories_planned (if is_action step = CreateDirectory then is_path step # known else known) steps" by simp
  then have "directories_planned (if is_action step = CreateDirectory then is_path step # known' else known') steps"
    by (rule Cons.IH) (use Cons.prems(2) in auto)
  with Cons.prems show ?case by (auto split: option.splits)
qed simp

lemma directories_planned_append:
  "directories_planned known steps \<Longrightarrow>
   directories_planned (map is_path (filter (\<lambda>step. is_action step = CreateDirectory) steps) @ known) rest \<Longrightarrow>
   directories_planned known (steps @ rest)"
proof (induction steps arbitrary: known)
  case (Cons step steps)
  let ?known = "if is_action step = CreateDirectory then is_path step # known else known"
  have "directories_planned ?known (steps @ rest)"
    using Cons.prems by (intro Cons.IH) (auto elim!: directories_planned_mono)
  with Cons.prems(1) show ?case by simp
qed simp

lemma download_steps_planned:
  "directories_planned planned (download_steps runtime_id planned index requests @ map (\<lambda>(i, c). command_step runtime_id i c) cs)"
proof (induction runtime_id planned index requests rule: download_steps.induct)
  case (1 runtime_id planned index)
  show ?case by (induction cs arbitrary: planned) (auto simp: command_step_def)
next
  case (2 runtime_id planned index request requests)
  then show ?case
    by (auto simp: directory_step_def download_step_def split: option.splits elim!: directories_planned_mono)
qed

lemma download_steps_parts:
  "list_all step_matches (download_steps runtime_id planned index requests)"
  "List.map_filter is_download (download_steps runtime_id planned index requests) = requests"
  "List.map_filter is_command (download_steps runtime_id planned index requests) = []"
  by (induction runtime_id planned index requests rule: download_steps.induct)
    (auto simp: step_matches_def directory_step_def download_step_def map_filter_simps split: option.splits)

lemma map_filter_append: "List.map_filter f (a @ b) = List.map_filter f a @ List.map_filter f b"
  by (simp add: List.map_filter_def)

text \<open>
  The plan for a runtime is one the executor can follow: it has the supported version, every step
  carries what its action needs, the directory of every download is created by an earlier step, and the
  downloads and commands of the plan are exactly those of the runtime, in order, the commands last.
\<close>

lemma managed_plan_is_consistent:
  "ip_schema_version (managed_runtime_plan platform runtime_id runtime) = install_plan_schema_version \<and>
   list_all step_matches (ip_steps (managed_runtime_plan platform runtime_id runtime)) \<and>
   directories_planned [] (ip_steps (managed_runtime_plan platform runtime_id runtime)) \<and>
   List.map_filter is_download (ip_steps (managed_runtime_plan platform runtime_id runtime)) = rp_downloads runtime \<and>
   (\<exists>preparing. ip_steps (managed_runtime_plan platform runtime_id runtime) =
      preparing @ map (\<lambda>(i, c). command_step runtime_id i c) (enumerate 0 (rp_commands runtime)) \<and>
      List.map_filter is_command preparing = [])"
proof -
  let ?base = "ip_steps (dry_run_plan platform)"
  let ?planned = "map is_path (filter (\<lambda>step. is_action step = CreateDirectory) ?base)"
  let ?down = "download_steps runtime_id ?planned 0 (rp_downloads runtime)"
  let ?run = "map (\<lambda>(i, c). command_step runtime_id i c) (enumerate 0 (rp_commands runtime))"
  have steps: "ip_steps (managed_runtime_plan platform runtime_id runtime) = ?base @ ?down @ ?run"
    by (simp add: managed_runtime_plan_def Let_def)
  have base: "list_all step_matches ?base" "directories_planned [] ?base" "List.map_filter is_download ?base = []"
    "List.map_filter is_command ?base = []"
    by (simp_all add: dry_run_plan_def directory_step_def step_matches_def map_filter_simps Let_def)
  have "directories_planned [] (?base @ ?down @ ?run)"
    using download_steps_planned [of ?planned runtime_id 0 "rp_downloads runtime" "enumerate 0 (rp_commands runtime)"]
    by (intro directories_planned_append [OF base(2), of "?down @ ?run"]) simp
  moreover have "list_all step_matches ?run" "List.map_filter is_download ?run = []"
    by (auto simp: list_all_iff step_matches_def command_step_def List.map_filter_def filter_empty_conv)
  moreover note base download_steps_parts [of runtime_id ?planned 0 "rp_downloads runtime"]
  ultimately have "list_all step_matches (?base @ ?down @ ?run)" "directories_planned [] (?base @ ?down @ ?run)"
    "List.map_filter is_download (?base @ ?down @ ?run) = rp_downloads runtime"
    "List.map_filter is_command (?base @ ?down) = []"
    by (simp_all only: list_all_append map_filter_append simp_thms append.simps append_Nil2)
  moreover have "ip_schema_version (managed_runtime_plan platform runtime_id runtime) = install_plan_schema_version"
    by (simp add: managed_runtime_plan_def dry_run_plan_def Let_def)
  ultimately show ?thesis unfolding steps by (metis append_assoc)
qed

section \<open>Properties\<close>

abbreviation managed_executor :: "host_env \<Rightarrow> ext \<Rightarrow> downloader \<Rightarrow> (command_spec \<Rightarrow> (host, openwork_error, command_output) op) \<Rightarrow> install_executor" where
  "managed_executor env X D run \<equiv> \<lparr>ie_download = system_download env X D, ie_run = run\<rparr>"

text \<open>
  C36. For a plan that creates the directory of a download before the download, as every plan made for a
  runtime does, and on a system that reports a path as absent only when it is: when the installation
  fails and its report claims no partial state, the file system is what it was before, up to new nodes on
  the way to the path of a step reported as failed; nothing that existed was changed. When moreover the
  plan has no commands, the system allows removals, and the installation was cancelled between two steps
  or, on a system that syncs directories, stopped in a download by cancellation or any other error, the
  report claims no partial state and the file system is exactly what it was.
\<close>

theorem failed_install_is_undone:
  assumes "honest env" and "tidy (files s)" and "directories_planned [] (ip_steps plan)"
    and "install_run env (managed_executor env X D run) plan mode s = (Inl f, t)"
  shows "(\<not> er_partial_state (ef_report f) \<longrightarrow> undone (ip_steps plan) (node_in (files s)) f t) \<and>
    (removals_allowed env \<and> list_all (\<lambda>step. is_action step \<noteq> RunCommand) (ip_steps plan) \<and>
     only_downloads_failed env (ip_steps plan) f \<longrightarrow>
       \<not> er_partial_state (ef_report f) \<and> node_in (files t) = node_in (files s)) \<and>
    directories_planned [] (ip_steps (managed_runtime_plan platform runtime_id runtime))"
proof (cases "ip_schema_version plan = install_plan_schema_version")
  case True
  let ?E = "managed_executor env X D run"
  have m: "tidy_map (node_in (files s))" using assms(2) by (simp add: tidy_tidy_map)
  have d: "ie_download ?E = system_download env X D" and k: "settled_dirs [] s"
    by (simp_all add: settled_dirs_def)
  from assms(4) True have "run_steps env ?E mode (ip_steps plan) [] [] False s = (Inl f, t)"
    by (auto simp: install_run_def split: if_splits)
  from system_downloads.run_steps_undone [OF assms(1) m d grown_none assms(3) k this]
    system_downloads.run_steps_cancelled [OF _ m d grown_none assms(3) k _ this] managed_plan_is_consistent
  show ?thesis by blast
qed (use assms(4) managed_plan_is_consistent in \<open>auto simp: install_run_def undone_def\<close>)

text \<open>
  C38. For a plan that creates the directory of a download before the download and has no commands, a
  report of a completed installation is true: it claims completion of every step of the plan in order; a
  dry run has made no call and changed nothing, and after an execution every planned directory exists,
  every download is a file that did not exist before, and whatever existed before is unchanged.
\<close>

theorem install_report_is_true:
  assumes "tidy (files s)" and "directories_planned [] (ip_steps plan)"
    and "list_all (\<lambda>step. is_action step \<noteq> RunCommand) (ip_steps plan)"
    and "install_run env (managed_executor env X D run) plan mode s = (Inr report, t)"
  shows "er_completed report \<and> \<not> er_partial_state report \<and> map rs_id (er_steps report) = map is_id (ip_steps plan) \<and>
    (if mode = DryRun then t = s
     else list_all (installed (node_in (files s)) t) (ip_steps plan) \<and>
       (\<forall>p n. node_in (files s) p = Some n \<longrightarrow> node_in (files t) p = Some n))"
proof (cases mode)
  case DryRun
  with assms(4) show ?thesis by (auto simp: install_run_def plain_result_def split: if_splits)
next
  case Execute
  let ?E = "managed_executor env X D run"
  have d: "ie_download ?E = system_download env X D" and k: "settled_dirs [] s"
    by (simp_all add: settled_dirs_def)
  from assms(4) Execute have "run_steps env ?E mode (ip_steps plan) [] [] False s = (Inr report, t)"
    by (auto simp: install_run_def split: if_splits)
  from system_downloads.run_steps_completed [OF assms(1) d assms(2) k assms(3) this] obtain cs where
    c: "er_completed report" "\<not> er_partial_state report" "map rs_id (er_steps report) = map is_id (ip_steps plan)"
      "list_all (installed (node_in (files s)) t) (ip_steps plan)" "grown (node_in (files s)) cs (node_in (files t))"
    by auto
  have "node_in (files t) p = Some n" if "node_in (files s) p = Some n" for p n
    using grown_delta [OF c(5), of p] assms(1) that by (auto simp: tidy_tidy_map)
  with c Execute show ?thesis by simp
qed

end
