(* ===== verification/Install_Witnesses.thy ===== *)
theory Install_Witnesses
  imports Install_Properties Samples
begin

text \<open>
  A host with one directory, a server that delivers a short script, and four installations of it: one
  that succeeds, one that is cancelled after the directories were made, one that is cancelled in the
  middle of the download and one whose download cannot be published.
\<close>

definition at_home :: "string list \<Rightarrow> path_buf" where
  "at_home cs = Path_buf True (''home'' # cs)"

definition script_request :: download_request where
  "script_request =
     \<lparr>dl_url = ''https://claude.ai/install.sh'', dl_destination = at_home [''cache'', ''install.sh''],
      dl_expected_sha256 = None, dl_timeout_millis = 30000\<rparr>"

definition script_url :: url where
  "script_url = \<lparr>url_text = ''https://claude.ai/install.sh'', url_scheme = ''https'', url_username = [],
     url_password = None, url_host = Some ''claude.ai''\<rparr>"

definition script_server :: downloader where
  "script_server =
     \<lparr>dw_policy = official_runtime_sources, dw_parse_url = (\<lambda>_. Some script_url),
      dw_answer = (\<lambda>_ _ _. \<lparr>ha_redirects = [], ha_connected = True, ha_successful = True,
        ha_content_length = None, ha_read = (\<lambda>n. Some (if n = 0 then ''echo'' else []))\<rparr>)\<rparr>"

definition willing :: host_env where
  "willing = \<lparr>refuses = (\<lambda>_ _. None), token = (\<lambda>_. False)\<rparr>"

definition impatient :: host_env where
  \<comment> \<open>the user cancels once the cache directory exists\<close>
  "impatient = willing\<lparr>token := (\<lambda>h. Make_dir (at_home [''cache'']) \<in> set h)\<rparr>"

definition hasty :: host_env where
  \<comment> \<open>the user cancels once the first bytes are written\<close>
  "hasty = willing\<lparr>token := (\<lambda>h. Write_temporary 4 \<in> set h)\<rparr>"

definition full_disk :: host_env where
  "full_disk = willing\<lparr>refuses := (\<lambda>_ c. if c = Persist (at_home [''cache'', ''install.sh''])
     then Some \<lparr>io_kind = OtherKind, io_text = ''No space left on device''\<rparr> else None)\<rparr>"

definition bare_host :: host where
  "bare_host = \<lparr>files = [(at_home [], Directory_node)], calls = []\<rparr>"

definition script_plan :: install_plan where
  "script_plan =
     \<lparr>ip_schema_version = 1, ip_dry_run = True,
      ip_steps = [directory_step ''directory.cache'' (at_home [''cache'']) ''Prepare'', download_step ''claude'' 0 script_request],
      ip_warnings = []\<rparr>"

definition no_commands :: "command_spec \<Rightarrow> (host, openwork_error, command_output) op" where
  "no_commands c = fail_with (new_error Io ''no such command'')"

definition script_install :: "host_env \<Rightarrow> execution_mode \<Rightarrow> (execution_failure + execution_report) \<times> host" where
  "script_install env mode = install_run env (managed_executor env sample_ext script_server no_commands) script_plan mode bare_host"

lemma take_buffer: "length xs \<le> 65536 \<Longrightarrow> take buffer_bytes xs = xs"
  by (simp add: buffer_bytes_def)

lemma bare_tidy: "tidy (files bare_host)"
  by (simp add: bare_host_def at_home_def tidy_def path_parent_def)

definition script_body :: "nat \<Rightarrow> string option" where
  "script_body = (\<lambda>n. Some (if n = 0 then ''echo'' else []))"

lemma script_stream:
  assumes "token env = (\<lambda>_. False)" and "\<And>h n. refuses env h (Write_temporary n) = None"
  shows "stream_loop env default_max_download_bytes script_body 0 0 [] s =
    (Inr (4, ''echo''), s\<lparr>calls := calls s @ [Read_token, Write_temporary 4, Read_token]\<rparr>)"
  by (simp add: stream_loop.simps [of _ _ _ 0] stream_loop.simps [of _ _ _ "Suc 0"] assms script_body_def take_buffer
      checked_add_def sys_def ret_def log_call_def default_max_download_bytes_def)

lemma script_stream_cancelled:
  assumes "Write_temporary 4 \<notin> set (calls s)"
  shows "stream_loop hasty default_max_download_bytes script_body 0 0 [] s =
    (Inl cancelled_error, s\<lparr>calls := calls s @ [Read_token, Write_temporary 4, Read_token]\<rparr>)"
  using assms
  by (simp add: stream_loop.simps [of _ _ _ 0] stream_loop.simps [of _ _ _ "Suc 0"] hasty_def willing_def script_body_def take_buffer
      checked_add_def sys_def ret_def log_call_def default_max_download_bytes_def)

lemmas install_eval = at_home_def script_request_def script_url_def script_server_def script_plan_def bare_host_def
  system_download_def receive_download_def store_download_def stream_to_temporary_def open_temporary_def
  persist_noclobber_def sync_parent_def send_request_def validate_request_def validate_url_def
  validate_expected_digest_def official_runtime_sources_def is_cancelled_def create_dir_all_def trail_def
  make_dir_def add_node_def set_node_def drop_node_def log_call_def sys_def path_is_dir_def path_exists_def node_at_def
  path_parent_def op_defs on_error_def map_err_def to_ascii_lowercase_def ascii_lower_def is_ascii_uppercase_def byte_def
  less_path_buf_def

lemma script_downloaded:
  assumes "token env = (\<lambda>_. False)" and "\<And>h c. refuses env h c = None"
  shows "\<exists>cs. system_download env sample_ext script_server script_request bare_host =
    (Inr \<lparr>dr_bytes_written = 4, dr_observed_sha256 = encode_hex (replicate 32 (CHR 0x00)), dr_verified = False\<rparr>,
     \<lparr>files = [(at_home [], Directory_node), (at_home [''cache''], Directory_node),
        (at_home [''cache'', ''install.sh''], File_node ''echo'')], calls = cs\<rparr>)"
  using script_stream [of env, unfolded script_body_def]
  by (simp add: install_eval assms sample_ext_def)

theorem download_is_verified_witness:
  "\<exists>receipt t. system_download willing sample_ext script_server script_request bare_host = (Inr receipt, t) \<and>
     within_policy official_runtime_sources bare_host t \<and> node_in (files t) (at_home []) = Some Directory_node \<and>
     dr_verified receipt = False"
proof -
  obtain receipt t where d: "system_download willing sample_ext script_server script_request bare_host = (Inr receipt, t)"
    using script_downloaded [of willing] by (auto simp: willing_def)
  have "node_in (files bare_host) (at_home []) = Some Directory_node" by (simp add: bare_host_def)
  with d download_is_verified [OF bare_tidy d] show ?thesis
    by (auto simp: script_server_def script_request_def dest: grows_keeps)
qed

lemmas run_eval = script_install_def install_run_def rollback_failure_def execute_step_def execute_directory_def
  execute_download_def directory_step_def download_step_def install_plan_schema_version_def plain_result_def
  if_present_def remove_dir_def missing_directories.simps has_child_def bm_remove_def os_error_def Let_def

lemma script_installed: "\<exists>report t. script_install willing Execute = (Inr report, t)"
  using script_stream [of willing, unfolded script_body_def]
  by (simp add: run_eval install_eval willing_def sample_ext_def)

lemma script_cancelled:
  "\<exists>f t. script_install impatient Execute = (Inl f, t) \<and> only_downloads_failed impatient (ip_steps script_plan) f"
  by (simp add: run_eval install_eval willing_def impatient_def only_downloads_failed_def)

lemma script_interrupted:
  "\<exists>f t. script_install hasty Execute = (Inl f, t) \<and> only_downloads_failed hasty (ip_steps script_plan) f \<and>
     list_ex (\<lambda>r. rs_status r = Failed) (er_steps (ef_report f))"
  using script_stream_cancelled [unfolded script_body_def]
  by (simp add: run_eval install_eval willing_def hasty_def sample_ext_def only_downloads_failed_def syncs_allowed_def)

lemma script_failed:
  "\<exists>f t. script_install full_disk Execute = (Inl f, t) \<and> \<not> er_partial_state (ef_report f)"
  using script_stream [of full_disk, unfolded script_body_def]
  by (simp add: run_eval install_eval willing_def full_disk_def sample_ext_def)

lemma decimal_zero: "decimal 0 = ''0''"
  by code_simp

lemma script_planned: "directories_planned [] (ip_steps script_plan)"
  "list_all (\<lambda>step. is_action step \<noteq> RunCommand) (ip_steps script_plan)"
  by (simp_all add: script_plan_def directory_step_def download_step_def script_request_def at_home_def path_parent_def)

theorem install_report_is_true_witness:
  "\<exists>report t. script_install willing Execute = (Inr report, t) \<and> er_completed report \<and>
     map rs_id (er_steps report) = [''directory.cache'', ''runtime.claude.download.0''] \<and>
     node_in (files t) (at_home [''cache'']) = Some Directory_node \<and>
     node_in (files bare_host) (at_home [''cache'', ''install.sh'']) = None \<and>
     (\<exists>content. node_in (files t) (at_home [''cache'', ''install.sh'']) = Some (File_node content))"
proof -
  obtain report t where r: "script_install willing Execute = (Inr report, t)" using script_installed by blast
  from install_report_is_true [OF bare_tidy script_planned r [unfolded script_install_def]] r show ?thesis
    by (auto simp: script_plan_def directory_step_def download_step_def installed_def at_home_def decimal_zero script_request_def)
qed

theorem failed_install_is_undone_witness:
  "(\<exists>f t. script_install impatient Execute = (Inl f, t) \<and> \<not> er_partial_state (ef_report f) \<and>
      node_in (files t) = node_in (files bare_host)) \<and>
   (\<exists>f t. script_install hasty Execute = (Inl f, t) \<and> list_ex (\<lambda>r. rs_status r = Failed) (er_steps (ef_report f)) \<and>
      \<not> er_partial_state (ef_report f) \<and> node_in (files t) = node_in (files bare_host)) \<and>
   (\<exists>f t. script_install full_disk Execute = (Inl f, t) \<and> undone (ip_steps script_plan) (node_in (files bare_host)) f t)"
proof -
  have h: "honest impatient" "honest hasty" "honest full_disk" "removals_allowed impatient" "removals_allowed hasty"
    by (auto simp: honest_def removals_allowed_def impatient_def hasty_def full_disk_def willing_def)
  obtain f t where c: "script_install impatient Execute = (Inl f, t)" "only_downloads_failed impatient (ip_steps script_plan) f"
    using script_cancelled by blast
  obtain i v where e: "script_install hasty Execute = (Inl i, v)" "only_downloads_failed hasty (ip_steps script_plan) i"
    "list_ex (\<lambda>r. rs_status r = Failed) (er_steps (ef_report i))"
    using script_interrupted by blast
  obtain g u where d: "script_install full_disk Execute = (Inl g, u)" "\<not> er_partial_state (ef_report g)"
    using script_failed by blast
  note planned = bare_tidy script_planned(1)
  from failed_install_is_undone [OF h(1) planned c(1) [unfolded script_install_def]]
    failed_install_is_undone [OF h(2) planned e(1) [unfolded script_install_def]]
    failed_install_is_undone [OF h(3) planned d(1) [unfolded script_install_def]] h(4,5) script_planned(2) c d e
  show ?thesis by blast
qed

section \<open>What the report does not tell\<close>

text \<open>
  Two failures leave nodes behind that the report does not mention: directories made before a later one on
  the same path was refused, and a download whose directory could not be synced after it was published.
\<close>

definition refusing :: "host_call \<Rightarrow> host_env" where
  "refusing d = willing\<lparr>refuses := (\<lambda>_ c. if c = d then Some \<lparr>io_kind = OtherKind, io_text = ''Input/output error''\<rparr> else None)\<rparr>"

definition deep_plan :: install_plan where
  "deep_plan = \<lparr>ip_schema_version = 1, ip_dry_run = True,
     ip_steps = [directory_step ''directory.cache'' (at_home [''a'', ''b'']) ''Prepare''], ip_warnings = []\<rparr>"

definition cached_host :: host where
  "cached_host = \<lparr>files = [(at_home [], Directory_node), (at_home [''cache''], Directory_node)], calls = []\<rparr>"

lemma half_made_directory_stays:
  "\<exists>f t. install_run (refusing (Make_dir (at_home [''a'', ''b''])))
     (managed_executor (refusing (Make_dir (at_home [''a'', ''b'']))) sample_ext script_server no_commands) deep_plan Execute bare_host = (Inl f, t) \<and>
     \<not> er_partial_state (ef_report f) \<and> er_rollback_warnings (ef_report f) = [] \<and>
     node_in (files t) (at_home [''a'']) = Some Directory_node"
  by (simp add: run_eval install_eval willing_def refusing_def deep_plan_def)

lemma unsynced_download_stays:
  "\<exists>f t. install_run (refusing (Sync_dir (at_home [''cache''])))
     (managed_executor (refusing (Sync_dir (at_home [''cache'']))) sample_ext script_server no_commands) script_plan Execute cached_host = (Inl f, t) \<and>
     \<not> er_partial_state (ef_report f) \<and> er_rollback_warnings (ef_report f) = [] \<and>
     node_in (files t) (at_home [''cache'', ''install.sh'']) = Some (File_node ''echo'')"
  using script_stream [of "refusing (Sync_dir (at_home [''cache'']))", unfolded script_body_def]
  by (simp add: run_eval install_eval willing_def refusing_def cached_host_def sample_ext_def)

end
