(* ===== verification/Lockfile.thy ===== *)
theory Lockfile
  imports Core
begin

text \<open>
  The runtime lockfile (\<^verbatim>\<open>crates/openwork-config/src/lib.rs\<close>): the document with its validation, the
  migration boundary with the decoder that \<^verbatim>\<open>serde\<close> derives for it, and the store that reads, writes and
  updates it under an exclusive lock with atomic replacement, its calls as programs over their system
  calls. The JSON reader and printer and the answers of the file system are parameters.
\<close>

section \<open>The document\<close>

datatype lockfile_error =
    LockIo string
  | LockJson string
  | LockInvalid string
  | UnsupportedVersion u64 u32
  | StorageBoundary string

record storage_paths =
  sp_config :: string
  sp_lockfile :: string
  sp_secrets :: string

definition validate_storage :: "storage_paths \<Rightarrow> lockfile_error + unit" where
  "validate_storage p =
     (if sp_config p = sp_lockfile p \<or> sp_config p = sp_secrets p \<or> sp_lockfile p = sp_secrets p
      then Inl (StorageBoundary ''config, lockfile, and secrets paths must be distinct'') else Inr ())"

datatype source_kind = OfficialInstaller | SourcePackageManager | ReleaseArtifact | SystemPath
datatype checksum_authority = Upstream | InstallerMetadata | AuthorityPackageManager | Observed | Unavailable
datatype install_status = Pending | Installed | InstallationFailed | Removed

record requested_runtime =
  rq_constraint :: string
  rq_channel :: "string option"

record resolved_runtime =
  rv_version :: string
  rv_artifact :: "string option"

record runtime_source =
  so_kind :: source_kind
  so_uri :: string
  so_reference :: "string option"

record runtime_checksum =
  ck_algorithm :: string
  ck_digest :: "string option"
  ck_authority :: checksum_authority
  ck_authority_url :: "string option"

record runtime_timestamps =
  tm_created_at :: string
  tm_updated_at :: string
  tm_verified_at :: "string option"

record upstream_provenance =
  up_project_url :: string
  up_release_url :: "string option"
  up_revision :: "string option"

record runtime_license =
  lc_spdx :: string
  lc_url :: "string option"

record lock_entry =
  le_requested :: requested_runtime
  le_resolved :: resolved_runtime
  le_source :: runtime_source
  le_checksum :: runtime_checksum
  le_installed_path :: string
  le_timestamps :: runtime_timestamps
  le_status :: install_status
  le_upstream :: upstream_provenance
  le_license :: runtime_license

record runtime_lockfile =
  lf_schema_version :: u32
  lf_generated_at :: string
  lf_runtimes :: "(string, lock_entry) btree_map"

definition runtime_lockfile_version :: u32 where
  "runtime_lockfile_version = 1"

definition empty_lockfile :: "string \<Rightarrow> runtime_lockfile" where
  "empty_lockfile generated_at =
     \<lparr>lf_schema_version = runtime_lockfile_version, lf_generated_at = generated_at, lf_runtimes = []\<rparr>"

section \<open>Validation\<close>

definition require_non_empty :: "string \<Rightarrow> string \<Rightarrow> lockfile_error + unit" where
  "require_non_empty field val =
     (if blank val then Inl (LockInvalid (field @ '' must not be empty'')) else Inr ())"

fun all_ok :: "('e + unit) list \<Rightarrow> 'e + unit" where
  \<comment> \<open>a sequence of checks, each with its question mark\<close>
  "all_ok [] = Inr ()"
| "all_ok (c # cs) = res_bind c (\<lambda>_. all_ok cs)"

definition validate_checksum :: "string \<Rightarrow> runtime_checksum \<Rightarrow> lockfile_error + unit" where
  "validate_checksum runtime_id c =
     (case ck_digest c of
        None \<Rightarrow> if ck_authority c = Unavailable then Inr ()
               else Inl (LockInvalid (''runtime '' @ runtime_id @ '': checksum digest is required for this authority''))
      | Some digest \<Rightarrow> if ck_authority c = Unavailable
               then Inl (LockInvalid (''runtime '' @ runtime_id @ '': unavailable checksum authority requires digest=null''))
               else require_non_empty ''checksum.digest'' digest)"

definition validate_entry :: "string \<Rightarrow> lock_entry \<Rightarrow> lockfile_error + unit" where
  "validate_entry runtime_id e =
     all_ok
       [require_non_empty ''requested.constraint'' (rq_constraint (le_requested e)),
        require_non_empty ''resolved.version'' (rv_version (le_resolved e)),
        require_non_empty ''source.uri'' (so_uri (le_source e)),
        require_non_empty ''timestamps.createdAt'' (tm_created_at (le_timestamps e)),
        require_non_empty ''timestamps.updatedAt'' (tm_updated_at (le_timestamps e)),
        require_non_empty ''upstream.projectUrl'' (up_project_url (le_upstream e)),
        require_non_empty ''license.spdx'' (lc_spdx (le_license e)),
        ensure (le_installed_path e \<noteq> [])
          (LockInvalid (''runtime '' @ runtime_id @ '': installedPath must not be empty'')),
        require_non_empty ''checksum.algorithm'' (ck_algorithm (le_checksum e)),
        validate_checksum runtime_id (le_checksum e)]"

fun validate_entries :: "(string \<times> lock_entry) list \<Rightarrow> lockfile_error + unit" where
  "validate_entries [] = Inr ()"
| "validate_entries ((runtime_id, e) # es) =
     res_bind (require_non_empty ''runtime id'' runtime_id) (\<lambda>_.
     res_bind (validate_entry runtime_id e) (\<lambda>_. validate_entries es))"

definition validate_lockfile :: "runtime_lockfile \<Rightarrow> lockfile_error + unit" where
  "validate_lockfile L =
     (if lf_schema_version L \<noteq> runtime_lockfile_version then
        Inl (UnsupportedVersion (ucast (lf_schema_version L)) runtime_lockfile_version)
      else res_bind (require_non_empty ''generatedAt'' (lf_generated_at L)) (\<lambda>_.
        validate_entries (lf_runtimes L)))"

section \<open>JSON\<close>

text \<open>
  What the derived encoders and decoders do: a struct is an object with the camel-case names of its
  fields, an unknown name is refused, a missing optional field is none; an array of the right length is
  accepted for a struct, and an object with one null field for a unit variant.
\<close>

definition jobject :: "(string \<times> json) list \<Rightarrow> json" where
  \<comment> \<open>an object as \<^verbatim>\<open>serde_json\<close> holds it, in the order of its keys\<close>
  "jobject es = JObject (bm_of_list es)"

fun joption :: "string option \<Rightarrow> json" where
  "joption None = JNull"
| "joption (Some s) = JString s"

definition struct_fields :: "string list \<Rightarrow> json \<Rightarrow> json option list option" where
  "struct_fields names v =
     (case v of
        JObject es \<Rightarrow> if list_all (\<lambda>(k, _). k \<in> set names) es then Some (map (map_of es) names) else None
      | JArray vs \<Rightarrow> if length vs = length names then Some (map Some vs) else None
      | _ \<Rightarrow> None)"

fun get_string :: "json option \<Rightarrow> string option" where
  "get_string (Some (JString s)) = Some s"
| "get_string _ = None"

fun get_optional :: "json option \<Rightarrow> string option option" where
  "get_optional None = Some None"
| "get_optional (Some JNull) = Some None"
| "get_optional (Some (JString s)) = Some (Some s)"
| "get_optional _ = None"

definition variant_name :: "json option \<Rightarrow> string option" where
  "variant_name v =
     (case v of
        Some (JString s) \<Rightarrow> Some s
      | Some (JObject [(s, JNull)]) \<Rightarrow> Some s
      | _ \<Rightarrow> None)"

fun source_kind_name :: "source_kind \<Rightarrow> string" where
  "source_kind_name OfficialInstaller = ''official-installer''"
| "source_kind_name SourcePackageManager = ''package-manager''"
| "source_kind_name ReleaseArtifact = ''release-artifact''"
| "source_kind_name SystemPath = ''system-path''"

fun authority_name :: "checksum_authority \<Rightarrow> string" where
  "authority_name Upstream = ''upstream''"
| "authority_name InstallerMetadata = ''installer-metadata''"
| "authority_name AuthorityPackageManager = ''package-manager''"
| "authority_name Observed = ''observed''"
| "authority_name Unavailable = ''unavailable''"

fun status_name :: "install_status \<Rightarrow> string" where
  "status_name Pending = ''pending''"
| "status_name Installed = ''installed''"
| "status_name InstallationFailed = ''failed''"
| "status_name Removed = ''removed''"

definition by_name :: "('a \<Rightarrow> string) \<Rightarrow> 'a list \<Rightarrow> json option \<Rightarrow> 'a option" where
  \<comment> \<open>the unit variant with the given name\<close>
  "by_name f xs v = Option.bind (variant_name v) (\<lambda>s. find (\<lambda>x. f x = s) xs)"

definition encode_entry :: "lock_entry \<Rightarrow> json" where
  "encode_entry e =
     jobject
       [(''requested'', jobject [(''constraint'', JString (rq_constraint (le_requested e))),
           (''channel'', joption (rq_channel (le_requested e)))]),
        (''resolved'', jobject [(''version'', JString (rv_version (le_resolved e))),
           (''artifact'', joption (rv_artifact (le_resolved e)))]),
        (''source'', jobject [(''kind'', JString (source_kind_name (so_kind (le_source e)))),
           (''uri'', JString (so_uri (le_source e))), (''reference'', joption (so_reference (le_source e)))]),
        (''checksum'', jobject [(''algorithm'', JString (ck_algorithm (le_checksum e))),
           (''digest'', joption (ck_digest (le_checksum e))),
           (''authority'', JString (authority_name (ck_authority (le_checksum e)))),
           (''authorityUrl'', joption (ck_authority_url (le_checksum e)))]),
        (''installedPath'', JString (le_installed_path e)),
        (''timestamps'', jobject [(''createdAt'', JString (tm_created_at (le_timestamps e))),
           (''updatedAt'', JString (tm_updated_at (le_timestamps e))),
           (''verifiedAt'', joption (tm_verified_at (le_timestamps e)))]),
        (''status'', JString (status_name (le_status e))),
        (''upstream'', jobject [(''projectUrl'', JString (up_project_url (le_upstream e))),
           (''releaseUrl'', joption (up_release_url (le_upstream e))), (''revision'', joption (up_revision (le_upstream e)))]),
        (''license'', jobject [(''spdx'', JString (lc_spdx (le_license e))), (''url'', joption (lc_url (le_license e)))])]"

definition encode_lockfile :: "runtime_lockfile \<Rightarrow> json" where
  "encode_lockfile L =
     jobject
       [(''schemaVersion'', JNumber (PosInt (ucast (lf_schema_version L)))),
        (''generatedAt'', JString (lf_generated_at L)),
        (''runtimes'', JObject (map (\<lambda>(k, e). (k, encode_entry e)) (lf_runtimes L)))]"

fun decode_requested :: "json option list \<Rightarrow> requested_runtime option" where
  "decode_requested [c, h] =
     Option.bind (get_string c) (\<lambda>c. Option.bind (get_optional h) (\<lambda>h.
       Some \<lparr>rq_constraint = c, rq_channel = h\<rparr>))"
| "decode_requested _ = None"

fun decode_resolved :: "json option list \<Rightarrow> resolved_runtime option" where
  "decode_resolved [v, a] =
     Option.bind (get_string v) (\<lambda>v. Option.bind (get_optional a) (\<lambda>a.
       Some \<lparr>rv_version = v, rv_artifact = a\<rparr>))"
| "decode_resolved _ = None"

fun decode_source :: "json option list \<Rightarrow> runtime_source option" where
  "decode_source [k, u, r] =
     Option.bind (by_name source_kind_name [OfficialInstaller, SourcePackageManager, ReleaseArtifact, SystemPath] k) (\<lambda>k.
     Option.bind (get_string u) (\<lambda>u. Option.bind (get_optional r) (\<lambda>r.
       Some \<lparr>so_kind = k, so_uri = u, so_reference = r\<rparr>)))"
| "decode_source _ = None"

fun decode_checksum :: "json option list \<Rightarrow> runtime_checksum option" where
  "decode_checksum [a, d, h, u] =
     Option.bind (get_string a) (\<lambda>a. Option.bind (get_optional d) (\<lambda>d.
     Option.bind (by_name authority_name [Upstream, InstallerMetadata, AuthorityPackageManager, Observed, Unavailable] h) (\<lambda>h.
     Option.bind (get_optional u) (\<lambda>u.
       Some \<lparr>ck_algorithm = a, ck_digest = d, ck_authority = h, ck_authority_url = u\<rparr>))))"
| "decode_checksum _ = None"

fun decode_timestamps :: "json option list \<Rightarrow> runtime_timestamps option" where
  "decode_timestamps [c, u, v] =
     Option.bind (get_string c) (\<lambda>c. Option.bind (get_string u) (\<lambda>u. Option.bind (get_optional v) (\<lambda>v.
       Some \<lparr>tm_created_at = c, tm_updated_at = u, tm_verified_at = v\<rparr>)))"
| "decode_timestamps _ = None"

fun decode_upstream :: "json option list \<Rightarrow> upstream_provenance option" where
  "decode_upstream [p, r, v] =
     Option.bind (get_string p) (\<lambda>p. Option.bind (get_optional r) (\<lambda>r. Option.bind (get_optional v) (\<lambda>v.
       Some \<lparr>up_project_url = p, up_release_url = r, up_revision = v\<rparr>)))"
| "decode_upstream _ = None"

fun decode_license :: "json option list \<Rightarrow> runtime_license option" where
  "decode_license [s, u] =
     Option.bind (get_string s) (\<lambda>s. Option.bind (get_optional u) (\<lambda>u. Some \<lparr>lc_spdx = s, lc_url = u\<rparr>))"
| "decode_license _ = None"

definition decode_part :: "string list \<Rightarrow> (json option list \<Rightarrow> 'a option) \<Rightarrow> json option \<Rightarrow> 'a option" where
  "decode_part names f v = Option.bind v (\<lambda>v. Option.bind (struct_fields names v) f)"

definition entry_names :: "string list" where
  "entry_names = [''requested'', ''resolved'', ''source'', ''checksum'', ''installedPath'', ''timestamps'', ''status'',
     ''upstream'', ''license'']"

fun decode_entry_fields :: "json option list \<Rightarrow> lock_entry option" where
  "decode_entry_fields [rq, rv, so, ck, ip, tm, st, up, lc] =
     Option.bind (decode_part [''constraint'', ''channel''] decode_requested rq) (\<lambda>rq.
     Option.bind (decode_part [''version'', ''artifact''] decode_resolved rv) (\<lambda>rv.
     Option.bind (decode_part [''kind'', ''uri'', ''reference''] decode_source so) (\<lambda>so.
     Option.bind (decode_part [''algorithm'', ''digest'', ''authority'', ''authorityUrl''] decode_checksum ck) (\<lambda>ck.
     Option.bind (get_string ip) (\<lambda>ip.
     Option.bind (decode_part [''createdAt'', ''updatedAt'', ''verifiedAt''] decode_timestamps tm) (\<lambda>tm.
     Option.bind (by_name status_name [Pending, Installed, InstallationFailed, Removed] st) (\<lambda>st.
     Option.bind (decode_part [''projectUrl'', ''releaseUrl'', ''revision''] decode_upstream up) (\<lambda>up.
     Option.bind (decode_part [''spdx'', ''url''] decode_license lc) (\<lambda>lc.
       Some \<lparr>le_requested = rq, le_resolved = rv, le_source = so, le_checksum = ck, le_installed_path = ip,
          le_timestamps = tm, le_status = st, le_upstream = up, le_license = lc\<rparr>)))))))))"
| "decode_entry_fields _ = None"

definition decode_entry :: "json \<Rightarrow> lock_entry option" where
  "decode_entry v = decode_part entry_names decode_entry_fields (Some v)"

fun decode_u32 :: "json option \<Rightarrow> u32 option" where
  "decode_u32 (Some (JNumber (PosInt n))) = (if unat n < 2 ^ 32 then Some (ucast n) else None)"
| "decode_u32 _ = None"

fun decode_runtimes :: "(string \<times> json) list \<Rightarrow> (string \<times> lock_entry) list option" where
  "decode_runtimes [] = Some []"
| "decode_runtimes ((k, v) # es) =
     Option.bind (decode_entry v) (\<lambda>e. Option.bind (decode_runtimes es) (\<lambda>r. Some ((k, e) # r)))"

fun decode_lockfile_fields :: "json option list \<Rightarrow> runtime_lockfile option" where
  "decode_lockfile_fields [n, g, Some (JObject es)] =
     Option.bind (decode_u32 n) (\<lambda>n. Option.bind (get_string g) (\<lambda>g. Option.bind (decode_runtimes es) (\<lambda>r.
       Some \<lparr>lf_schema_version = n, lf_generated_at = g, lf_runtimes = bm_of_list r\<rparr>)))"
| "decode_lockfile_fields _ = None"

definition decode_lockfile :: "json \<Rightarrow> runtime_lockfile option" where
  "decode_lockfile v =
     decode_part [''schemaVersion'', ''generatedAt'', ''runtimes''] decode_lockfile_fields (Some v)"

fun as_u64 :: "json option \<Rightarrow> u64 option" where
  "as_u64 (Some (JNumber (PosInt n))) = Some n"
| "as_u64 _ = None"

fun json_get :: "json \<Rightarrow> string \<Rightarrow> json option" where
  "json_get (JObject es) k = map_of es k"
| "json_get _ k = None"

section \<open>The store\<close>

record lock_codec =
  \<comment> \<open>\<^verbatim>\<open>serde_json\<close>: reading bytes, printing a document, and the text of a decoding error\<close>
  lc_read :: "string \<Rightarrow> lockfile_error + json"
  lc_print :: "runtime_lockfile \<Rightarrow> lockfile_error + string"
  lc_explain :: "json \<Rightarrow> string"

definition migrate :: "lock_codec \<Rightarrow> json \<Rightarrow> lockfile_error + runtime_lockfile" where
  "migrate K v =
     res_bind (ok_or (as_u64 (json_get v ''schemaVersion'')) (LockInvalid ''schemaVersion must be an integer''))
       (\<lambda>version.
        if version = 1 then
          res_bind (ok_or (decode_lockfile v) (LockJson (lc_explain K v))) (\<lambda>L.
          res_bind (validate_lockfile L) (\<lambda>_. Inr L))
        else Inl (UnsupportedVersion version runtime_lockfile_version))"

text \<open>
  A call of the store is a program over the system calls it makes, each with the continuation that takes
  the answer: opening the lock file (with its directory), locking and unlocking it, asking whether the
  document exists, reading it, and replacing it. So what one call does between two system calls of
  another is not lost, and the order of the calls is the one of the source.
\<close>

datatype 'a lock_prog =
    Finished "lockfile_error + 'a"
  | Open_lock "string option \<Rightarrow> 'a lock_prog"
  | Lock_exclusive "string option \<Rightarrow> 'a lock_prog"
  | Path_exists "bool \<Rightarrow> 'a lock_prog"
  | Read_file "string + string \<Rightarrow> 'a lock_prog"
  | Replace_file string "string option \<Rightarrow> 'a lock_prog"
  | Unlock_file "string option \<Rightarrow> 'a lock_prog"

primrec then_do :: "'a lock_prog \<Rightarrow> (lockfile_error + 'a \<Rightarrow> 'b lock_prog) \<Rightarrow> 'b lock_prog" where
  "then_do (Finished r) k = k r"
| "then_do (Open_lock f) k = Open_lock (\<lambda>x. then_do (f x) k)"
| "then_do (Lock_exclusive f) k = Lock_exclusive (\<lambda>x. then_do (f x) k)"
| "then_do (Path_exists f) k = Path_exists (\<lambda>x. then_do (f x) k)"
| "then_do (Read_file f) k = Read_file (\<lambda>x. then_do (f x) k)"
| "then_do (Replace_file bytes f) k = Replace_file bytes (\<lambda>x. then_do (f x) k)"
| "then_do (Unlock_file f) k = Unlock_file (\<lambda>x. then_do (f x) k)"

definition prog_bind :: "'a lock_prog \<Rightarrow> ('a \<Rightarrow> 'b lock_prog) \<Rightarrow> 'b lock_prog" where
  \<comment> \<open>the question mark operator\<close>
  "prog_bind m f = then_do m (\<lambda>r. case r of Inl e \<Rightarrow> Finished (Inl e) | Inr x \<Rightarrow> f x)"

definition io_answer :: "string option \<Rightarrow> unit lock_prog" where
  "io_answer a = Finished (case a of None \<Rightarrow> Inr () | Some e \<Rightarrow> Inl (LockIo e))"

definition read_lockfile :: "lock_codec \<Rightarrow> runtime_lockfile lock_prog" where
  "read_lockfile K =
     prog_bind (Read_file (\<lambda>a. Finished (map_err LockIo a))) (\<lambda>bytes.
     Finished (res_bind (lc_read K bytes) (migrate K)))"

definition atomic_replace :: "string \<Rightarrow> unit lock_prog" where
  "atomic_replace bytes = Replace_file bytes io_answer"

definition with_exclusive_lock :: "'a lock_prog \<Rightarrow> 'a lock_prog" where
  "with_exclusive_lock act =
     prog_bind (Open_lock io_answer) (\<lambda>_.
     prog_bind (Lock_exclusive io_answer) (\<lambda>_.
     then_do act (\<lambda>r.
     Unlock_file (\<lambda>u. Finished
       (case (r, u) of
          (Inr x, None) \<Rightarrow> Inr x
        | (Inl e, _) \<Rightarrow> Inl e
        | (Inr _, Some e) \<Rightarrow> Inl (LockIo e))))))"

definition lockfile_read :: "lock_codec \<Rightarrow> runtime_lockfile lock_prog" where
  "lockfile_read K = read_lockfile K"

definition lockfile_write :: "lock_codec \<Rightarrow> runtime_lockfile \<Rightarrow> unit lock_prog" where
  "lockfile_write K L =
     prog_bind (Finished (validate_lockfile L)) (\<lambda>_.
     prog_bind (Finished (lc_print K L)) (\<lambda>bytes.
     with_exclusive_lock (atomic_replace bytes)))"

type_synonym lock_update = "runtime_lockfile \<Rightarrow> lockfile_error + runtime_lockfile"

definition save_updated :: "lock_codec \<Rightarrow> lock_update \<Rightarrow> runtime_lockfile \<Rightarrow> runtime_lockfile lock_prog" where
  \<comment> \<open>the part \<^verbatim>\<open>update\<close> and \<^verbatim>\<open>update_or_create\<close> share\<close>
  "save_updated K f L =
     prog_bind (Finished (f L)) (\<lambda>L'.
     prog_bind (Finished (validate_lockfile L')) (\<lambda>_.
     prog_bind (Finished (lc_print K L')) (\<lambda>bytes.
     prog_bind (atomic_replace bytes) (\<lambda>_. Finished (Inr L')))))"

definition lockfile_update :: "lock_codec \<Rightarrow> lock_update \<Rightarrow> runtime_lockfile lock_prog" where
  "lockfile_update K f = with_exclusive_lock (prog_bind (read_lockfile K) (save_updated K f))"

definition update_or_create :: "lock_codec \<Rightarrow> runtime_lockfile \<Rightarrow> lock_update \<Rightarrow> runtime_lockfile lock_prog" where
  "update_or_create K initial f =
     with_exclusive_lock
       (prog_bind (Path_exists (\<lambda>there. if there then read_lockfile K else Finished (Inr initial))) (save_updated K f))"

text \<open>
  What the system answers the calls of one program, each of which it makes at most once: an error text
  where a call fails. \<^verbatim>\<open>Path::exists\<close> answers no when it cannot look. \<^verbatim>\<open>AtomicFile::write\<close> puts the new
  bytes at the path in one step or not at all; that an error means they are not there is not promised.
\<close>

datatype replace_fate = Replaced | Refused string | Replaced_but string

record lock_io =
  io_open :: "string option"
  io_lock :: "string option"
  io_blind :: bool \<comment> \<open>the metadata of the document cannot be read\<close>
  io_read :: "string option"
  io_replace :: replace_fate
  io_unlock :: "string option"

type_synonym document = "string option"
  \<comment> \<open>the bytes at the path of the store, if there is a file\<close>

fun file_answer :: "lock_io \<Rightarrow> document \<Rightarrow> string + string" where
  "file_answer io d =
     (case io_read io of
        Some e \<Rightarrow> Inl e
      | None \<Rightarrow> (case d of None \<Rightarrow> Inl ''No such file or directory (os error 2)'' | Some bytes \<Rightarrow> Inr bytes))"

fun replace_answer :: "replace_fate \<Rightarrow> string option" where
  "replace_answer Replaced = None"
| "replace_answer (Refused e) = Some e"
| "replace_answer (Replaced_but e) = Some e"

fun replaced :: "replace_fate \<Rightarrow> string \<Rightarrow> document \<Rightarrow> document" where
  "replaced (Refused e) bytes d = d"
| "replaced _ bytes d = Some bytes"

text \<open>One system call of a program, and a program that runs with nobody else at the file.\<close>

fun lock_act :: "lock_io \<Rightarrow> 'a lock_prog \<Rightarrow> document \<Rightarrow> 'a lock_prog \<times> document" where
  "lock_act io (Finished r) d = (Finished r, d)"
| "lock_act io (Open_lock k) d = (k (io_open io), d)"
| "lock_act io (Lock_exclusive k) d = (k (io_lock io), d)"
| "lock_act io (Path_exists k) d = (k (d \<noteq> None \<and> \<not> io_blind io), d)"
| "lock_act io (Read_file k) d = (k (file_answer io d), d)"
| "lock_act io (Replace_file bytes k) d = (k (replace_answer (io_replace io)), replaced (io_replace io) bytes d)"
| "lock_act io (Unlock_file k) d = (k (io_unlock io), d)"

primrec run_alone :: "lock_io \<Rightarrow> 'a lock_prog \<Rightarrow> document \<Rightarrow> (lockfile_error + 'a) \<times> document" where
  "run_alone io (Finished r) d = (r, d)"
| "run_alone io (Open_lock k) d = run_alone io (k (io_open io)) d"
| "run_alone io (Lock_exclusive k) d = run_alone io (k (io_lock io)) d"
| "run_alone io (Path_exists k) d = run_alone io (k (d \<noteq> None \<and> \<not> io_blind io)) d"
| "run_alone io (Read_file k) d = run_alone io (k (file_answer io d)) d"
| "run_alone io (Replace_file bytes k) d = run_alone io (k (replace_answer (io_replace io))) (replaced (io_replace io) bytes d)"
| "run_alone io (Unlock_file k) d = run_alone io (k (io_unlock io)) d"

lemma run_alone_act: "run_alone io m d = (case lock_act io m d of (n, t) \<Rightarrow> run_alone io n t)"
  by (cases m) simp_all

lemma run_alone_then: "run_alone io (then_do m k) d = (case run_alone io m d of (r, t) \<Rightarrow> run_alone io (k r) t)"
  by (induction m arbitrary: d) simp_all

lemma run_alone_bind:
  "run_alone io (prog_bind m f) d =
     (case run_alone io m d of (Inl e, t) \<Rightarrow> (Inl e, t) | (Inr x, t) \<Rightarrow> run_alone io (f x) t)"
  by (auto simp: prog_bind_def run_alone_then split: prod.splits sum.splits)

definition sidecar_lock_path :: "string \<Rightarrow> string" where
  "sidecar_lock_path p = p @ ''.write-lock''"

section \<open>Reading back what was printed\<close>

lemma struct_fields_jobject:
  assumes "distinct (map fst es)" and "set (map fst es) \<subseteq> set names"
  shows "struct_fields names (jobject es) = Some (map (map_of es) names)"
proof -
  have "fst ` set (bm_of_list es) \<subseteq> set names" using bm_of_list_set [of es] assms(2) by auto
  then show ?thesis
    by (auto simp: struct_fields_def jobject_def bm_of_list_get [OF assms(1)] list_all_iff)
qed

lemma get_optional_joption [simp]: "get_optional (Some (joption x)) = Some x"
  by (cases x) simp_all

lemma source_kind_named [simp]:
  "by_name source_kind_name [OfficialInstaller, SourcePackageManager, ReleaseArtifact, SystemPath] (Some (JString (source_kind_name k))) = Some k"
  by (cases k) (simp_all add: by_name_def variant_name_def)

lemma authority_named [simp]:
  "by_name authority_name [Upstream, InstallerMetadata, AuthorityPackageManager, Observed, Unavailable] (Some (JString (authority_name a))) = Some a"
  by (cases a) (simp_all add: by_name_def variant_name_def)

lemma status_named [simp]:
  "by_name status_name [Pending, Installed, InstallationFailed, Removed] (Some (JString (status_name t))) = Some t"
  by (cases t) (simp_all add: by_name_def variant_name_def)

lemma decode_u32_wide [simp]: "decode_u32 (Some (JNumber (PosInt (ucast w)))) = Some w"
proof -
  have l: "unat w < 2 ^ 32" using unsigned_less [of w, where 'a = nat] by simp
  then have "unat (ucast w :: u64) = unat w" by (simp add: unsigned_ucast_eq take_bit_nat_eq_self)
  moreover have "(ucast (ucast w :: u64) :: u32) = w"
    by (rule bit_word_eqI) (simp add: bit_simps)
  ultimately show ?thesis using l by simp
qed

lemma decode_encode_entry: "decode_entry (encode_entry e) = Some e"
  by (simp add: decode_entry_def encode_entry_def decode_part_def entry_names_def struct_fields_jobject)

lemma decode_encode_runtimes: "decode_runtimes (map (\<lambda>(k, e). (k, encode_entry e)) es) = Some es"
  by (induction es) (auto simp: decode_encode_entry)

declare decode_u32.simps(1) [simp del]

lemma decode_encode_lockfile: "bm_ordered (lf_runtimes L) \<Longrightarrow> decode_lockfile (encode_lockfile L) = Some L"
  by (simp add: decode_lockfile_def encode_lockfile_def decode_part_def struct_fields_jobject decode_encode_runtimes
      bm_of_list_id)

lemma migrate_encode:
  assumes "validate_lockfile L = Inr ()" and "bm_ordered (lf_runtimes L)"
  shows "migrate K (encode_lockfile L) = Inr L"
proof -
  have "lf_schema_version L = 1"
    using assms(1) by (auto simp: validate_lockfile_def runtime_lockfile_version_def split: if_splits)
  then have "as_u64 (json_get (encode_lockfile L) ''schemaVersion'') = Some 1"
    by (simp add: encode_lockfile_def jobject_def bm_of_list_get)
  then show ?thesis using assms by (simp add: migrate_def decode_encode_lockfile)
qed

end
