(* ===== verification/Lockfile_Properties.thy ===== *)
theory Lockfile_Properties
  imports Lockfile
begin

text \<open>
  What the store of the lockfile promises: every call either leaves the document alone or replaces it by
  the lockfile the call was to store, which is valid and reads back as written, and calls of several
  callers, whose system calls interleave and which may crash between any two of them, take effect one
  after the other.
\<close>

section \<open>Calls\<close>

datatype lock_call =
    Read_lockfile
  | Write_lockfile runtime_lockfile
  | Update_lockfile lock_update
  | Update_or_create runtime_lockfile lock_update

fun lock_program :: "lock_codec \<Rightarrow> lock_call \<Rightarrow> runtime_lockfile lock_prog" where
  "lock_program K Read_lockfile = lockfile_read K"
| "lock_program K (Write_lockfile L) = prog_bind (lockfile_write K L) (\<lambda>_. Finished (Inr L))"
| "lock_program K (Update_lockfile f) = lockfile_update K f"
| "lock_program K (Update_or_create initial f) = update_or_create K initial f"

definition lock_exec ::
  "lock_codec \<Rightarrow> lock_io \<Rightarrow> lock_call \<Rightarrow> document \<Rightarrow> (lockfile_error + runtime_lockfile) \<times> document" where
  \<comment> \<open>the call with nobody else at the file\<close>
  "lock_exec K io call d = run_alone io (lock_program K call) d"

definition keeps_map_order :: "lock_update \<Rightarrow> bool" where
  \<comment> \<open>the map of runtimes is a \<^verbatim>\<open>BTreeMap\<close> whatever the callback does to it\<close>
  "keeps_map_order f = (\<forall>L L'. bm_ordered (lf_runtimes L) \<longrightarrow> f L = Inr L' \<longrightarrow> bm_ordered (lf_runtimes L'))"

fun typed_call :: "lock_call \<Rightarrow> bool" where
  "typed_call Read_lockfile = True"
| "typed_call (Write_lockfile L) = bm_ordered (lf_runtimes L)"
| "typed_call (Update_lockfile f) = keeps_map_order f"
| "typed_call (Update_or_create initial f) = (bm_ordered (lf_runtimes initial) \<and> keeps_map_order f)"

definition faithful_codec :: "lock_codec \<Rightarrow> bool" where
  \<comment> \<open>reading the bytes of a printed document gives the value it was printed from\<close>
  "faithful_codec K = (\<forall>L bytes. bm_ordered (lf_runtimes L) \<longrightarrow> lc_print K L = Inr bytes \<longrightarrow>
     lc_read K bytes = Inr (encode_lockfile L))"

definition reads_as :: "lock_codec \<Rightarrow> document \<Rightarrow> runtime_lockfile \<Rightarrow> bool" where
  "reads_as K d L = (\<exists>bytes. d = Some bytes \<and> res_bind (lc_read K bytes) (migrate K) = Inr L)"

fun wants :: "lock_codec \<Rightarrow> lock_io \<Rightarrow> lock_call \<Rightarrow> document \<Rightarrow> runtime_lockfile \<Rightarrow> bool" where
  \<comment> \<open>the lockfile the call is to leave, from the document it finds\<close>
  "wants K io Read_lockfile d L = reads_as K d L"
| "wants K io (Write_lockfile M) d L = (L = M)"
| "wants K io (Update_lockfile f) d L = (\<exists>M. reads_as K d M \<and> f M = Inr L)"
| "wants K io (Update_or_create initial f) d L =
     (\<exists>M. (if d = None \<or> io_blind io then M = initial else reads_as K d M) \<and> f M = Inr L)"

section \<open>Valid lockfiles\<close>

definition checksum_ok :: "runtime_checksum \<Rightarrow> bool" where
  "checksum_ok c =
     (\<not> blank (ck_algorithm c) \<and>
      (case ck_digest c of None \<Rightarrow> ck_authority c = Unavailable | Some d \<Rightarrow> ck_authority c \<noteq> Unavailable \<and> \<not> blank d))"

definition lock_entry_ok :: "lock_entry \<Rightarrow> bool" where
  "lock_entry_ok e =
     (\<not> blank (rq_constraint (le_requested e)) \<and> \<not> blank (rv_version (le_resolved e)) \<and> \<not> blank (so_uri (le_source e)) \<and>
      \<not> blank (tm_created_at (le_timestamps e)) \<and> \<not> blank (tm_updated_at (le_timestamps e)) \<and>
      \<not> blank (up_project_url (le_upstream e)) \<and> \<not> blank (lc_spdx (le_license e)) \<and> le_installed_path e \<noteq> [] \<and>
      checksum_ok (le_checksum e))"

definition lockfile_ok :: "runtime_lockfile \<Rightarrow> bool" where
  "lockfile_ok L =
     (lf_schema_version L = 1 \<and> \<not> blank (lf_generated_at L) \<and> bm_ordered (lf_runtimes L) \<and>
      list_all (\<lambda>(runtime_id, e). \<not> blank runtime_id \<and> lock_entry_ok e) (lf_runtimes L))"

lemma require_non_empty_ok [res_simps]: "(require_non_empty field v = Inr u) = (\<not> blank v)"
  by (simp add: require_non_empty_def)

lemma validate_checksum_ok: "(\<not> blank (ck_algorithm c) \<and> validate_checksum i c = Inr ()) = checksum_ok c"
  by (auto simp: validate_checksum_def checksum_ok_def res_simps split: option.splits)

lemma validate_entry_ok: "(validate_entry i e = Inr ()) = lock_entry_ok e"
  unfolding lock_entry_ok_def validate_checksum_ok [of "le_checksum e" i, symmetric]
  by (auto simp: validate_entry_def res_simps)

lemma validate_runtimes_ok:
  "(validate_entries es = Inr ()) = list_all (\<lambda>(runtime_id, e). \<not> blank runtime_id \<and> lock_entry_ok e) es"
  by (induction es) (auto simp: res_simps validate_entry_ok)

lemma validate_lockfile_ok: "(validate_lockfile L = Inr () \<and> bm_ordered (lf_runtimes L)) = lockfile_ok L"
  by (auto simp: validate_lockfile_def lockfile_ok_def runtime_lockfile_version_def res_simps validate_runtimes_ok)

section \<open>What a call leaves\<close>

lemma migrate_ok: "migrate K v = Inr L \<Longrightarrow> lockfile_ok L"
proof -
  assume "migrate K v = Inr L"
  then have "decode_lockfile v = Some L" and "validate_lockfile L = Inr ()"
    by (auto simp: migrate_def res_simps split: if_splits)
  moreover from this(1) obtain fs where "decode_lockfile_fields fs = Some L"
    by (auto simp: decode_lockfile_def decode_part_def split: option.splits bind_splits)
  then have "bm_ordered (lf_runtimes L)"
    by (cases fs rule: decode_lockfile_fields.cases) (auto simp: bm_of_list_ordered split: bind_splits)
  ultimately show ?thesis using validate_lockfile_ok by blast
qed

lemma reads_as_valid: "reads_as K d L \<Longrightarrow> lockfile_ok L"
  by (auto simp: reads_as_def res_simps dest: migrate_ok)

lemma printed_reads_as:
  assumes "faithful_codec K" and "lc_print K L = Inr bytes" and "validate_lockfile L = Inr ()" and "bm_ordered (lf_runtimes L)"
  shows "reads_as K (Some bytes) L"
  using assms by (auto simp: reads_as_def faithful_codec_def migrate_encode)

lemma run_read_lockfile:
  assumes "run_alone io (read_lockfile K) d = (r, t)"
  shows "t = d \<and> (\<forall>L. r = Inr L \<longrightarrow> reads_as K d L)"
  using assms
  by (auto simp: read_lockfile_def run_alone_bind map_err_def reads_as_def split: option.splits sum.splits)

definition replaces_by :: "lock_codec \<Rightarrow> lock_io \<Rightarrow> document \<Rightarrow> runtime_lockfile \<Rightarrow> lockfile_error + 'a \<Rightarrow> document \<Rightarrow> bool" where
  \<comment> \<open>the document is kept or holds the lockfile; a success means it holds it, an error that it does not unless the
    replacement reported an error after it was made\<close>
  "replaces_by K io d L r t =
     ((t = d \<or> reads_as K t L) \<and> (is_ok r \<longrightarrow> reads_as K t L) \<and>
      (\<not> is_ok r \<longrightarrow> (\<forall>e. io_replace io \<noteq> Replaced_but e) \<longrightarrow> t = d))"

lemma run_atomic_replace:
  assumes "faithful_codec K" and "lc_print K L = Inr bytes" and "validate_lockfile L = Inr ()" and "bm_ordered (lf_runtimes L)"
    and "run_alone io (atomic_replace bytes) d = (r, t)"
  shows "replaces_by K io d L r t"
  using printed_reads_as [OF assms(1-4)] assms(5)
  by (cases "io_replace io") (auto simp: atomic_replace_def io_answer_def replaces_by_def is_ok_def)

lemma run_save_updated:
  assumes "faithful_codec K" and "keeps_map_order f" and "bm_ordered (lf_runtimes L)" and "run_alone io (save_updated K f L) d = (r, t)"
  obtains (kept) e where "r = Inl e" "t = d"
  | (saved) L' where "f L = Inr L'" "replaces_by K io d L' r t" "\<And>M. r = Inr M \<Longrightarrow> M = L'"
proof (cases "\<exists>L' bytes. f L = Inr L' \<and> validate_lockfile L' = Inr () \<and> lc_print K L' = Inr bytes")
  case False
  then consider e where "f L = Inl e" | L' e where "f L = Inr L'" "validate_lockfile L' = Inl e"
    | L' e where "f L = Inr L'" "validate_lockfile L' = Inr ()" "lc_print K L' = Inl e"
    by (metis old.unit.exhaust sum.exhaust)
  then have "\<exists>e. r = Inl e \<and> t = d"
    using assms(4) [symmetric] by cases (simp_all add: save_updated_def run_alone_bind)
  then show thesis using kept by blast
next
  case True
  then obtain L' bytes where f: "f L = Inr L'" "validate_lockfile L' = Inr ()" "lc_print K L' = Inr bytes" by blast
  from assms(2,3) f(1) have "bm_ordered (lf_runtimes L')" by (auto simp: keeps_map_order_def)
  obtain q u where q: "run_alone io (atomic_replace bytes) d = (q, u)" by fastforce
  note rep = run_atomic_replace [OF assms(1) f(3,2) \<open>bm_ordered (lf_runtimes L')\<close> q]
  from q assms(4) f have "t = u" and "r = (case q of Inl e \<Rightarrow> Inl e | Inr _ \<Rightarrow> Inr L')"
    by (auto simp: save_updated_def run_alone_bind split: sum.splits)
  with rep have "replaces_by K io d L' r t" and "r = Inr M \<Longrightarrow> M = L'" for M
    by (auto simp: replaces_by_def is_ok_def split: sum.splits)
  then show thesis using saved f(1) by blast
qed

lemma run_with_lock:
  assumes "run_alone io (with_exclusive_lock act) d = (r, t)"
  obtains (unlocked) e where "r = Inl e" "t = d"
  | (acted) q where "run_alone io act d = (q, t)" "r = q \<or> (\<exists>x e. q = Inr x \<and> io_unlock io = Some e \<and> r = Inl (LockIo e))"
  using assms
  by (auto simp: with_exclusive_lock_def run_alone_bind run_alone_then io_answer_def split: option.splits prod.splits sum.splits)

definition leaves :: "lock_codec \<Rightarrow> lock_io \<Rightarrow> (runtime_lockfile \<Rightarrow> bool) \<Rightarrow> document \<Rightarrow> lockfile_error + runtime_lockfile \<Rightarrow> document \<Rightarrow> bool" where
  "leaves K io W d r t =
     ((t = d \<or> (\<exists>L. W L \<and> reads_as K t L)) \<and>
      (case r of
         Inl _ \<Rightarrow> io_unlock io = None \<and> (\<forall>e. io_replace io \<noteq> Replaced_but e) \<longrightarrow> t = d
       | Inr L \<Rightarrow> W L \<and> reads_as K t L))"

lemma locked_save:
  assumes "faithful_codec K" and "keeps_map_order f"
    and "run_alone io (with_exclusive_lock (prog_bind load (save_updated K f))) d = (r, t)"
    and "\<And>q u. run_alone io load d = (q, u) \<Longrightarrow> u = d \<and> (\<forall>L. q = Inr L \<longrightarrow> bm_ordered (lf_runtimes L) \<and> W L)"
  shows "leaves K io (\<lambda>L'. \<exists>L. W L \<and> f L = Inr L') d r t"
  using assms(3)
proof (cases rule: run_with_lock)
  case (acted q)
  obtain w u where w: "run_alone io load d = (w, u)" by fastforce
  note load = assms(4) [OF w]
  show ?thesis
  proof (cases w)
    case (Inl e)
    with acted w load show ?thesis by (auto simp: run_alone_bind leaves_def)
  next
    case (Inr L)
    with acted(1) w load have sv: "run_alone io (save_updated K f L) d = (q, t)" and L: "bm_ordered (lf_runtimes L)" "W L"
      by (auto simp: run_alone_bind)
    from assms(1,2) L(1) sv show ?thesis
    proof (cases rule: run_save_updated)
      case (kept e)
      with acted(2) show ?thesis by (auto simp: leaves_def)
    next
      case (saved L')
      with acted(2) L(2) show ?thesis
        by (cases q) (auto simp: leaves_def replaces_by_def is_ok_def)
    qed
  qed
qed (auto simp: leaves_def)

lemma locked_write:
  assumes "faithful_codec K" and "bm_ordered (lf_runtimes L)" and "lock_exec K io (Write_lockfile L) d = (r, t)"
  shows "leaves K io (\<lambda>L'. L' = L) d r t"
proof (cases "\<exists>bytes. validate_lockfile L = Inr () \<and> lc_print K L = Inr bytes")
  case False
  with assms(3) show ?thesis
    by (auto simp: lock_exec_def lockfile_write_def run_alone_bind leaves_def split: sum.splits)
next
  case True
  then obtain bytes where v: "validate_lockfile L = Inr ()" "lc_print K L = Inr bytes" by blast
  obtain q where w: "run_alone io (with_exclusive_lock (atomic_replace bytes)) d = (q, t)"
    and r: "r = (case q of Inl e \<Rightarrow> Inl e | Inr _ \<Rightarrow> Inr L)"
    using assms(3) v by (auto simp: lock_exec_def lockfile_write_def run_alone_bind split: sum.splits prod.splits)
  from w show ?thesis
  proof (cases rule: run_with_lock)
    case (acted p)
    with run_atomic_replace [OF assms(1) v(2,1) assms(2) acted(1)] r show ?thesis
      by (cases p) (auto simp: leaves_def replaces_by_def is_ok_def)
  qed (use r in \<open>auto simp: leaves_def\<close>)
qed

lemma reads_as_ordered: "reads_as K d L \<Longrightarrow> bm_ordered (lf_runtimes L)"
  by (auto dest: reads_as_valid simp: lockfile_ok_def)

lemma wants_fun:
  "wants K io (Write_lockfile M) d = (\<lambda>L. L = M)"
  "wants K io (Update_lockfile f) d = (\<lambda>L. \<exists>M. reads_as K d M \<and> f M = Inr L)"
  "wants K io (Update_or_create initial f) d =
     (\<lambda>L. \<exists>M. (if d = None \<or> io_blind io then M = initial else reads_as K d M) \<and> f M = Inr L)"
  by (simp_all add: fun_eq_iff)

lemma call_leaves:
  assumes "faithful_codec K" and "typed_call call" and "lock_exec K io call d = (r, t)"
  shows "leaves K io (wants K io call d) d r t"
proof (cases call)
  case Read_lockfile
  with assms(3) run_read_lockfile [of io K d r t] show ?thesis
    by (cases r) (auto simp: lock_exec_def lockfile_read_def leaves_def)
next
  case (Write_lockfile L)
  with assms(2,3) have "leaves K io (\<lambda>L'. L' = L) d r t" by (intro locked_write [OF assms(1)]) simp_all
  with Write_lockfile show ?thesis by (simp add: wants_fun)
next
  case (Update_lockfile f)
  with assms(2,3) have u: "keeps_map_order f" "run_alone io (with_exclusive_lock (prog_bind (read_lockfile K) (save_updated K f))) d = (r, t)"
    by (simp_all add: lock_exec_def lockfile_update_def)
  have "leaves K io (\<lambda>L'. \<exists>L. reads_as K d L \<and> f L = Inr L') d r t"
    by (rule locked_save [OF assms(1) u]) (use run_read_lockfile reads_as_ordered in blast)
  with Update_lockfile show ?thesis by (simp add: wants_fun)
next
  case (Update_or_create initial f)
  let ?load = "Path_exists (\<lambda>there. if there then read_lockfile K else Finished (Inr initial))"
  let ?W = "\<lambda>M. if d = None \<or> io_blind io then M = initial else reads_as K d M"
  from Update_or_create assms(2,3) have u: "keeps_map_order f"
    "run_alone io (with_exclusive_lock (prog_bind ?load (save_updated K f))) d = (r, t)" and i: "bm_ordered (lf_runtimes initial)"
    by (simp_all add: lock_exec_def update_or_create_def)
  have "w = d \<and> (\<forall>L. q = Inr L \<longrightarrow> bm_ordered (lf_runtimes L) \<and> ?W L)" if "run_alone io ?load d = (q, w)" for q w
    using that run_read_lockfile [of io K d q w] reads_as_ordered [of K d] i by (auto split: if_splits)
  then have "leaves K io (\<lambda>L'. \<exists>L. ?W L \<and> f L = Inr L') d r t" by (rule locked_save [OF assms(1) u])
  with Update_or_create show ?thesis by (simp only: wants_fun)
qed

text \<open>
  C39. A call of the lockfile store either leaves the document alone or replaces it by the lockfile the call
  was to store: the one given, or the update of the one the document held (of the initial one if there
  was no document or its metadata could not be read). What is stored reads back and is valid. A call that
  returns a lockfile has stored exactly it; a call that fails has changed nothing unless releasing the
  lock failed or the atomic replacement reported an error after it was made.
\<close>

theorem lockfile_call_is_atomic:
  assumes "faithful_codec K" and "typed_call call" and "lock_exec K io call d = (r, t)"
  shows "(t = d \<or> (\<exists>L. wants K io call d L \<and> reads_as K t L \<and> lockfile_ok L)) \<and>
    (case r of
       Inl _ \<Rightarrow> io_unlock io = None \<and> (\<forall>e. io_replace io \<noteq> Replaced_but e) \<longrightarrow> t = d
     | Inr L \<Rightarrow> wants K io call d L \<and> reads_as K t L)"
  using call_leaves [OF assms] reads_as_valid unfolding leaves_def by blast

section \<open>Several callers\<close>

text \<open>
  The callers are threads of any processes; each runs the program of its call, one system call at a time.
  The lock is advisory and exclusive: taking it waits while another handle has it, it is released by
  unlocking, when the handle is closed at the end of the call, and by the system when the caller dies.
\<close>

record lock_world =
  lw_document :: document
  lw_holder :: "nat option"
  lw_calls :: "nat \<Rightarrow> (lock_io \<times> lock_call \<times> runtime_lockfile lock_prog) option"

definition released :: "nat \<Rightarrow> nat option \<Rightarrow> nat option" where
  "released p h = (if h = Some p then None else h)"

fun may_act :: "lock_io \<Rightarrow> nat option \<Rightarrow> 'a lock_prog \<Rightarrow> bool" where
  "may_act io h (Finished r) = False"
| "may_act io h (Lock_exclusive k) = (io_lock io = None \<longrightarrow> h = None)"
| "may_act io h _ = True"

fun next_holder :: "nat \<Rightarrow> lock_io \<Rightarrow> 'a lock_prog \<Rightarrow> nat option \<Rightarrow> nat option" where
  "next_holder p io (Lock_exclusive k) h = (if io_lock io = None then Some p else h)"
| "next_holder p io (Unlock_file k) h = (if io_unlock io = None then released p h else h)"
| "next_holder p io _ h = h"

inductive lock_step :: "lock_codec \<Rightarrow> lock_world \<Rightarrow> lock_world \<Rightarrow> bool" for K where
  begins: "lw_calls w p = None \<Longrightarrow>
    lock_step K w (w\<lparr>lw_calls := (lw_calls w)(p \<mapsto> (io, call, lock_program K call))\<rparr>)"
| acts: "lw_calls w p = Some (io, call, m) \<Longrightarrow> may_act io (lw_holder w) m \<Longrightarrow> lock_act io m (lw_document w) = (n, d) \<Longrightarrow>
    lock_step K w (w\<lparr>lw_document := d, lw_holder := next_holder p io m (lw_holder w),
      lw_calls := (lw_calls w)(p \<mapsto> (io, call, n))\<rparr>)"
| ends: "lw_calls w p = Some (io, call, m) \<Longrightarrow> \<comment> \<open>it has returned, or it crashes\<close>
    lock_step K w (w\<lparr>lw_holder := released p (lw_holder w), lw_calls := (lw_calls w)(p := None)\<rparr>)"

definition lock_started :: "document \<Rightarrow> lock_world" where
  "lock_started d = \<lparr>lw_document = d, lw_holder = None, lw_calls = (\<lambda>_. None)\<rparr>"

text \<open>
  The shape of the programs: the document is read and replaced only between locking and unlocking, except
  for one reading with nothing after it, and after the replacement nothing but unlocking is left.
\<close>

primrec closing :: "'a lock_prog \<Rightarrow> bool" where
  "closing (Finished r) = True"
| "closing (Open_lock k) = False"
| "closing (Lock_exclusive k) = False"
| "closing (Path_exists k) = False"
| "closing (Read_file k) = False"
| "closing (Replace_file bytes k) = False"
| "closing (Unlock_file k) = (\<forall>x. closing (k x))"

primrec under_lock :: "'a lock_prog \<Rightarrow> bool" where
  "under_lock (Finished r) = False"
| "under_lock (Open_lock k) = False"
| "under_lock (Lock_exclusive k) = False"
| "under_lock (Path_exists k) = (\<forall>x. under_lock (k x) \<or> closing (k x))"
| "under_lock (Read_file k) = (\<forall>x. under_lock (k x) \<or> closing (k x))"
| "under_lock (Replace_file bytes k) = (\<forall>x. closing (k x))"
| "under_lock (Unlock_file k) = False"

primrec guarded :: "'a lock_prog \<Rightarrow> bool" where
  "guarded (Finished r) = False"
| "guarded (Open_lock k) = (\<forall>x. guarded (k x) \<or> closing (k x))"
| "guarded (Lock_exclusive k) = (\<forall>x. closing (k x) \<or> x = None \<and> under_lock (k x))"
| "guarded (Path_exists k) = False"
| "guarded (Read_file k) = (\<forall>x. closing (k x))"
| "guarded (Replace_file bytes k) = False"
| "guarded (Unlock_file k) = False"

lemma closing_result: "closing m \<Longrightarrow> \<exists>r. \<forall>d. run_alone io m d = (r, d)"
  by (induction m) auto

lemma closing_then: "closing m \<Longrightarrow> (\<And>r. closing (k r)) \<Longrightarrow> closing (then_do m k)"
  by (induction m) auto

lemma under_lock_then: "under_lock m \<Longrightarrow> (\<And>r. closing (k r)) \<Longrightarrow> under_lock (then_do m k)"
  by (induction m) (simp_all, (metis closing_then rangeI)+)

lemma guarded_with_lock:
  "under_lock act \<or> closing act \<Longrightarrow> guarded (with_exclusive_lock act)"
  by (auto simp: with_exclusive_lock_def prog_bind_def io_answer_def intro!: under_lock_then closing_then split: option.splits)

lemma closing_bind: "closing m \<Longrightarrow> (\<And>x. closing (f x)) \<Longrightarrow> closing (prog_bind m f)"
  by (auto simp: prog_bind_def intro!: closing_then split: sum.splits)

lemma guarded_bind: "guarded m \<Longrightarrow> (\<And>x. closing (f x)) \<Longrightarrow> guarded (prog_bind m f)"
  unfolding prog_bind_def
  by (induction m) (auto intro!: closing_then under_lock_then split: sum.splits)

lemma save_under_lock: "under_lock (save_updated K f L) \<or> closing (save_updated K f L)"
  by (auto simp: save_updated_def prog_bind_def atomic_replace_def io_answer_def split: sum.splits option.splits)

lemma read_then_under_lock:
  "(\<And>L. under_lock (k L) \<or> closing (k L)) \<Longrightarrow> under_lock (prog_bind (read_lockfile K) k)"
  by (auto simp: read_lockfile_def prog_bind_def map_err_def split: sum.splits)

lemma program_shape: "guarded (lock_program K call) \<or> closing (lock_program K call)"
proof (cases call)
  case Read_lockfile
  then show ?thesis by (auto simp: lockfile_read_def read_lockfile_def prog_bind_def map_err_def split: sum.splits)
next
  case (Write_lockfile L)
  have "guarded (with_exclusive_lock (atomic_replace bytes))" for bytes
    by (rule guarded_with_lock) (auto simp: atomic_replace_def io_answer_def)
  then have "guarded (lockfile_write K L) \<or> closing (lockfile_write K L)"
    by (auto simp: lockfile_write_def prog_bind_def split: sum.splits)
  with Write_lockfile show ?thesis by (auto intro: guarded_bind closing_bind)
next
  case (Update_lockfile f)
  then show ?thesis
    using read_then_under_lock [OF save_under_lock] by (auto simp: lockfile_update_def intro: guarded_with_lock)
next
  case (Update_or_create initial f)
  have "under_lock (prog_bind (if b then read_lockfile K else Finished (Inr initial)) (save_updated K f)) \<or>
      closing (prog_bind (if b then read_lockfile K else Finished (Inr initial)) (save_updated K f))" for b
    using read_then_under_lock [OF save_under_lock] save_under_lock by (auto simp: prog_bind_def)
  then have "under_lock (prog_bind (Path_exists (\<lambda>b. if b then read_lockfile K else Finished (Inr initial))) (save_updated K f))"
    by (simp add: prog_bind_def)
  with Update_or_create show ?thesis by (auto simp: update_or_create_def intro: guarded_with_lock)
qed

section \<open>Calls take effect one after the other\<close>

definition during :: "lock_codec \<Rightarrow> nat \<Rightarrow> lock_world \<Rightarrow> lock_world \<Rightarrow> bool" where
  \<comment> \<open>a step after which the caller is still at its call\<close>
  "during K p w v = (lock_step K w v \<and> lw_calls v p \<noteq> None)"

definition took_effect ::
  "lock_codec \<Rightarrow> lock_world \<Rightarrow> lock_world \<Rightarrow> nat \<Rightarrow> lock_io \<Rightarrow> lock_call \<Rightarrow> lockfile_error + runtime_lockfile \<Rightarrow> bool" where
  \<comment> \<open>in one step on the way from the first world to the second, the caller had the whole effect of the call
    it is still at\<close>
  "took_effect K s w p io call r =
     (\<exists>u v m. (lock_step K)\<^sup>*\<^sup>* s u \<and> lock_step K u v \<and> (during K p)\<^sup>*\<^sup>* v w \<and> lw_calls v p = Some (io, call, m) \<and>
        lock_exec K io call (lw_document u) = (r, lw_document v))"

definition caller_ok :: "lock_codec \<Rightarrow> lock_world \<Rightarrow> lock_world \<Rightarrow> nat \<Rightarrow> bool" where
  "caller_ok K s w p =
     (case lw_calls w p of
        None \<Rightarrow> lw_holder w \<noteq> Some p
      | Some (io, call, m) \<Rightarrow>
          closing m \<and> took_effect K s w p io call (fst (run_alone io m None)) \<or>
          lw_holder w \<noteq> Some p \<and> guarded m \<and> run_alone io m = lock_exec K io call \<or>
          lw_holder w = Some p \<and> under_lock m \<and> run_alone io m (lw_document w) = lock_exec K io call (lw_document w))"

definition lock_invariant :: "lock_codec \<Rightarrow> lock_world \<Rightarrow> lock_world \<Rightarrow> bool" where
  "lock_invariant K s w = ((lock_step K)\<^sup>*\<^sup>* s w \<and> (\<forall>p. caller_ok K s w p))"

lemma closing_run: "closing m \<Longrightarrow> run_alone io m d = (fst (run_alone io m None), d)"
  using closing_result [of m io] by auto

lemma run_alone_open: "run_alone io (Open_lock k) = run_alone io (k (io_open io))"
  by (simp add: fun_eq_iff)

lemma took_effect_step:
  "took_effect K s w p io call r \<Longrightarrow> lock_step K w v \<Longrightarrow> lw_calls v p \<noteq> None \<Longrightarrow> took_effect K s v p io call r"
  unfolding took_effect_def by (meson during_def rtranclp.rtrancl_into_rtrancl)

lemma takes_effect:
  assumes "(lock_step K)\<^sup>*\<^sup>* s w" and "lock_step K w v" and "lw_calls v p = Some (io, call, m)" and "closing m"
    and "run_alone io m (lw_document v) = lock_exec K io call (lw_document w)"
  shows "took_effect K s v p io call (fst (run_alone io m None))"
  using assms closing_run [OF assms(4), of io "lw_document v"] unfolding took_effect_def
  by (metis rtranclp.rtrancl_refl)

lemma other_caller_ok:
  assumes "lock_step K w v" and "caller_ok K s w q" and "lw_calls v q = lw_calls w q"
    and "(lw_holder v = Some q) = (lw_holder w = Some q)" and "lw_holder w = Some q \<longrightarrow> lw_document v = lw_document w"
  shows "caller_ok K s v q"
  using assms took_effect_step [OF _ assms(1), of s q] unfolding caller_ok_def
  by (auto split: option.splits)

lemma act_changes:
  assumes "lock_act io m d = (n, t)" and "t \<noteq> d"
  obtains bytes k where "m = Replace_file bytes k"
  using assms by (cases m) auto

lemma next_holder_other: "q \<noteq> p \<Longrightarrow> may_act io h m \<Longrightarrow> (next_holder p io m h = Some q) = (h = Some q)"
  by (cases m) (auto simp: released_def)

lemma acting_caller_ok:
  assumes "lock_invariant K s w" and "lw_calls w p = Some (io, call, m)" and "may_act io (lw_holder w) m"
    and "lock_act io m (lw_document w) = (n, d)"
    and v: "v = w\<lparr>lw_document := d, lw_holder := next_holder p io m (lw_holder w), lw_calls := (lw_calls w)(p \<mapsto> (io, call, n))\<rparr>"
  shows "caller_ok K s v p" and "d = lw_document w \<or> lw_holder w = Some p \<and> closing n \<and>
    lock_exec K io call (lw_document w) = (fst (run_alone io n None), d)"
proof -
  have step: "lock_step K w v" unfolding v by (rule acts [OF assms(2-4)])
  have reach: "(lock_step K)\<^sup>*\<^sup>* s w" and ok: "caller_ok K s w p" using assms(1) by (auto simp: lock_invariant_def)
  have run: "run_alone io m (lw_document w) = run_alone io n d" using assms(4) by (simp add: run_alone_act [of io m])
  have pv: "lw_calls v p = Some (io, call, n)" "lw_document v = d" by (simp_all add: v)
  have eff: "took_effect K s v p io call (fst (run_alone io n None))"
    if "closing n" "run_alone io m (lw_document w) = lock_exec K io call (lw_document w)"
    by (rule takes_effect [OF reach step pv(1) that(1)]) (use run that(2) pv in simp)
  from ok assms(2) consider (closing) "closing m" "took_effect K s w p io call (fst (run_alone io m None))"
    | (outside) "lw_holder w \<noteq> Some p" "guarded m" "run_alone io m = lock_exec K io call"
    | (inside) "lw_holder w = Some p" "under_lock m" "run_alone io m (lw_document w) = lock_exec K io call (lw_document w)"
    by (auto simp: caller_ok_def)
  then have "caller_ok K s v p \<and> (d = lw_document w \<or> lw_holder w = Some p \<and> closing n \<and>
    lock_exec K io call (lw_document w) = (fst (run_alone io n None), d))"
  proof cases
    case closing
    then have "closing n" "d = lw_document w" "fst (run_alone io n None) = fst (run_alone io m None)"
      using assms(3,4) by (cases m; auto)+
    with took_effect_step [OF closing(2) step] pv show ?thesis by (simp add: caller_ok_def)
  next
    case outside
    then have d: "d = lw_document w" using assms(4) by (cases m) auto
    show ?thesis
    proof (cases "closing n")
      case True
      with eff outside(3) d pv show ?thesis by (simp add: caller_ok_def)
    next
      case False
      with outside assms(3,4) have "lw_holder v \<noteq> Some p \<and> guarded n \<and> run_alone io n = run_alone io m \<or>
          lw_holder v = Some p \<and> under_lock n"
        by (cases m) (auto simp: v run_alone_open)
      with outside(3) run d pv show ?thesis by (auto simp: caller_ok_def)
    qed
  next
    case inside
    show ?thesis
    proof (cases "closing n")
      case True
      with eff inside run pv closing_run [OF True, of io d] show ?thesis by (simp add: caller_ok_def)
    next
      case False
      with inside(2) assms(3,4) have "under_lock n" "d = lw_document w" "next_holder p io m (lw_holder w) = lw_holder w"
        by (cases m; auto)+
      with inside(1,3) run pv show ?thesis by (simp add: caller_ok_def v)
    qed
  qed
  then show "caller_ok K s v p" and "d = lw_document w \<or> lw_holder w = Some p \<and> closing n \<and>
    lock_exec K io call (lw_document w) = (fst (run_alone io n None), d)" by blast+
qed

lemma lock_step_invariant:
  assumes "lock_invariant K s w" and "lock_step K w v"
  shows "lock_invariant K s v"
proof -
  have reach: "(lock_step K)\<^sup>*\<^sup>* s w" and ok: "caller_ok K s w q" for q using assms(1) by (auto simp: lock_invariant_def)
  have "caller_ok K s v q" for q
    using assms(2)
  proof cases
    case (begins p io call)
    then have h: "lw_holder w \<noteq> Some p" using ok [of p] by (simp add: caller_ok_def)
    have e: "took_effect K s v p io call (fst (run_alone io (lock_program K call) None))" if "closing (lock_program K call)"
      by (rule takes_effect [OF reach assms(2) _ that]) (simp_all add: begins lock_exec_def)
    show ?thesis
    proof (cases "q = p")
      case True
      with begins h e program_shape [of K call] show ?thesis by (auto simp: caller_ok_def lock_exec_def fun_eq_iff)
    next
      case False
      then show ?thesis by (intro other_caller_ok [OF assms(2) ok]) (simp_all add: begins)
    qed
  next
    case (acts p io call m n d)
    show ?thesis
    proof (cases "q = p")
      case False
      with acting_caller_ok(2) [OF assms(1) acts(2-4) acts(1)] next_holder_other [OF False acts(3)] show ?thesis
        by (intro other_caller_ok [OF assms(2) ok]) (auto simp: acts)
    qed (use acting_caller_ok(1) [OF assms(1) acts(2-4) acts(1)] in simp)
  next
    case (ends p io call m)
    show ?thesis
    proof (cases "q = p")
      case False
      then show ?thesis by (intro other_caller_ok [OF assms(2) ok]) (simp_all add: ends released_def)
    qed (simp add: caller_ok_def released_def ends)
  qed
  with reach assms(2) show ?thesis by (auto simp: lock_invariant_def)
qed

interpretation lock_history: history "lock_step K" "lock_invariant K s" "\<lambda>_ _. True" for K s
  by unfold_locales (auto dest: lock_step_invariant)

text \<open>
  C40. However the system calls of any number of callers interleave and wherever they crash, the calls of
  the store take effect one after the other. Whenever the document changes, it is by a caller that holds
  the lock, and the document becomes what the whole call of that caller, run alone on the document as it
  is at that moment, would make of it; what the caller returns later is what that run returns. And every
  call that has returned had its whole effect, on the document and in its result, in a single step
  between its beginning and its end, so no update is lost or overwritten by a stale one.
\<close>

theorem interleaved_calls_are_serial:
  assumes "(lock_step K)\<^sup>*\<^sup>* (lock_started d) w"
  shows "(\<forall>v. lock_step K w v \<longrightarrow> lw_document v = lw_document w \<or>
      (\<exists>p io call m n r. lw_holder w = Some p \<and> lw_calls w p = Some (io, call, m) \<and> lw_calls v p = Some (io, call, n) \<and>
         lock_exec K io call (lw_document w) = (r, lw_document v) \<and> (\<forall>t. run_alone io n t = (r, t)))) \<and>
    (\<forall>p io call r. lw_calls w p = Some (io, call, Finished r) \<longrightarrow> took_effect K (lock_started d) w p io call r)"
proof -
  let ?s = "lock_started d"
  have "lock_invariant K ?s ?s" by (simp add: lock_invariant_def caller_ok_def lock_started_def)
  then have w: "lock_invariant K ?s w" by (rule lock_history.steps_inv [OF assms])
  have "lw_document v = lw_document w \<or>
      (\<exists>p io call m n r. lw_holder w = Some p \<and> lw_calls w p = Some (io, call, m) \<and> lw_calls v p = Some (io, call, n) \<and>
         lock_exec K io call (lw_document w) = (r, lw_document v) \<and> (\<forall>t. run_alone io n t = (r, t)))" if "lock_step K w v" for v
    using that
  proof cases
    case (acts p io call m n t)
    have v: "lw_document v = t" "lw_calls v p = Some (io, call, n)" by (simp_all add: acts(1))
    from acting_caller_ok(2) [OF w acts(2-4) acts(1)] closing_run [of n io] acts(2) v show ?thesis by metis
  qed simp_all
  moreover have "took_effect K ?s w p io call r" if "lw_calls w p = Some (io, call, Finished r)" for p io call r
    using w that by (auto simp: lock_invariant_def caller_ok_def dest!: spec [of _ p])
  ultimately show ?thesis by blast
qed

end
