(* ===== verification/Lockfile_Witnesses.thy ===== *)
theory Lockfile_Witnesses
  imports Lockfile_Properties
begin

text \<open>Two lockfiles, a codec for them, and an update of the one to the other.\<close>

definition first_lockfile :: runtime_lockfile where
  "first_lockfile = empty_lockfile ''t1''"

definition second_lockfile :: runtime_lockfile where
  "second_lockfile = empty_lockfile ''t2''"

definition pair_codec :: lock_codec where
  "pair_codec =
     \<lparr>lc_read = (\<lambda>b. if b = ''a'' then Inr (encode_lockfile first_lockfile)
        else if b = ''b'' then Inr (encode_lockfile second_lockfile) else Inl (LockJson ''expected value'')),
      lc_print = (\<lambda>L. if L = first_lockfile then Inr ''a''
        else if L = second_lockfile then Inr ''b'' else Inl (LockJson ''not supported'')),
      lc_explain = (\<lambda>_. ''invalid type'')\<rparr>"

definition smooth :: lock_io where
  "smooth = \<lparr>io_open = None, io_lock = None, io_blind = False, io_read = None, io_replace = Replaced, io_unlock = None\<rparr>"

definition stuck :: lock_io where
  "stuck = smooth\<lparr>io_unlock := Some ''Bad file descriptor''\<rparr>"

definition unsynced :: lock_io where
  "unsynced = smooth\<lparr>io_replace := Replaced_but ''Input/output error''\<rparr>"

definition blind :: lock_io where
  "blind = smooth\<lparr>io_blind := True\<rparr>"

definition renew :: lock_update where
  "renew L = Inr (L\<lparr>lf_generated_at := ''t2''\<rparr>)"

lemma lockfiles_differ: "first_lockfile \<noteq> second_lockfile"
  by (simp add: first_lockfile_def second_lockfile_def empty_lockfile_def)

lemma pair_faithful: "faithful_codec pair_codec"
  using lockfiles_differ by (auto simp: faithful_codec_def pair_codec_def split: if_splits)

lemma renew_typed: "typed_call (Update_lockfile renew)"
  by (auto simp: keeps_map_order_def renew_def)

lemma lockfiles_valid:
  "validate_lockfile first_lockfile = Inr ()" "validate_lockfile second_lockfile = Inr ()"
  "bm_ordered (lf_runtimes first_lockfile)" "bm_ordered (lf_runtimes second_lockfile)"
  by (simp_all add: first_lockfile_def second_lockfile_def empty_lockfile_def validate_lockfile_def
      runtime_lockfile_version_def require_non_empty_def blank_def trim_start.simps byte_def)

lemma renewed: "renew first_lockfile = Inr second_lockfile"
  by (simp add: renew_def first_lockfile_def second_lockfile_def empty_lockfile_def)

lemma pair_read: "res_bind (lc_read pair_codec ''a'') (migrate pair_codec) = Inr first_lockfile"
  by (simp add: pair_codec_def migrate_encode lockfiles_valid)

lemma pair_print: "lc_print pair_codec second_lockfile = Inr ''b''"
  using lockfiles_differ by (simp add: pair_codec_def)

lemmas program_eval = lockfile_update_def update_or_create_def with_exclusive_lock_def read_lockfile_def save_updated_def
  atomic_replace_def prog_bind_def io_answer_def map_err_def smooth_def renewed pair_read pair_print lockfiles_valid

lemma first_updated: "lock_exec pair_codec smooth (Update_lockfile renew) (Some ''a'') = (Inr second_lockfile, Some ''b'')"
  by (simp add: lock_exec_def program_eval)

theorem lockfile_call_is_atomic_witness:
  "lock_exec pair_codec smooth (Update_lockfile renew) (Some ''a'') = (Inr second_lockfile, Some ''b'') \<and>
   reads_as pair_codec (Some ''b'') second_lockfile \<and> wants pair_codec smooth (Update_lockfile renew) (Some ''a'') second_lockfile"
  using lockfile_call_is_atomic [OF pair_faithful renew_typed first_updated] first_updated by simp

section \<open>Two callers\<close>

definition acted :: "nat \<Rightarrow> lock_world \<Rightarrow> lock_world" where
  \<comment> \<open>the world after one system call of the caller\<close>
  "acted p w =
     (case lw_calls w p of
        None \<Rightarrow> w
      | Some (io, call, m) \<Rightarrow>
          (case lock_act io m (lw_document w) of
             (n, d) \<Rightarrow> w\<lparr>lw_document := d, lw_holder := next_holder p io m (lw_holder w),
                lw_calls := (lw_calls w)(p \<mapsto> (io, call, n))\<rparr>))"

definition begun :: "nat \<Rightarrow> lock_world \<Rightarrow> lock_world" where
  "begun p w = w\<lparr>lw_calls := (lw_calls w)(p \<mapsto> (smooth, Update_lockfile renew, lock_program pair_codec (Update_lockfile renew)))\<rparr>"

definition can_act :: "nat \<Rightarrow> lock_world \<Rightarrow> bool" where
  "can_act p w = (case lw_calls w p of None \<Rightarrow> False | Some (io, call, m) \<Rightarrow> may_act io (lw_holder w) m)"

lemma acted_step: "can_act p w \<Longrightarrow> lock_step K w (acted p w)"
  using acts [of w p] by (auto simp: can_act_def acted_def split: option.splits prod.splits)

text \<open>Both callers have opened the lock file, one has taken the lock and read the document.\<close>

definition both_begun :: lock_world where
  "both_begun = begun 3 (begun 7 (lock_started (Some ''a'')))"

definition queued :: lock_world where
  "queued = acted 7 (acted 7 (acted 3 (acted 7 both_begun)))"

lemmas world_eval = both_begun_def can_act_def acted_def begun_def lock_started_def program_eval

lemma both_begun_reached: "(lock_step pair_codec)\<^sup>*\<^sup>* (lock_started (Some ''a'')) both_begun"
proof -
  let ?s = "lock_started (Some ''a'')"
  have "lock_step pair_codec ?s (begun 7 ?s)" "lock_step pair_codec (begun 7 ?s) both_begun"
    unfolding both_begun_def begun_def by (rule begins, simp add: lock_started_def)+
  then show ?thesis by (meson rtranclp.rtrancl_refl rtranclp.rtrancl_into_rtrancl)
qed

lemma queued_can_act:
  "can_act 7 both_begun" "can_act 3 (acted 7 both_begun)" "can_act 7 (acted 3 (acted 7 both_begun))"
  "can_act 7 (acted 7 (acted 3 (acted 7 both_begun)))" "can_act 7 queued" "can_act 7 (acted 7 queued)" "\<not> can_act 3 queued"
  by (simp_all add: queued_def world_eval)

lemma queued_state:
  "lw_document queued = Some ''a''" "lw_holder queued = Some 7" "lw_document (acted 7 queued) = Some ''b''"
  "lw_calls (acted 7 (acted 7 queued)) 7 = Some (smooth, Update_lockfile renew, Finished (Inr second_lockfile))"
  by (simp_all add: queued_def world_eval)

lemmas queued_steps = queued_can_act(1-6) [THEN acted_step [where K = pair_codec]]

lemma queued_reached: "(lock_step pair_codec)\<^sup>*\<^sup>* (lock_started (Some ''a'')) queued"
  using both_begun_reached queued_steps(1-4) unfolding queued_def by (meson rtranclp.rtrancl_into_rtrancl)

theorem interleaved_calls_are_serial_witness:
  "\<not> can_act 3 queued \<and>
   (\<exists>p io call r. lw_holder queued = Some p \<and> lock_exec pair_codec io call (Some ''a'') = (r, Some ''b'')) \<and>
   took_effect pair_codec (lock_started (Some ''a'')) (acted 7 (acted 7 queued)) 7 smooth (Update_lockfile renew) (Inr second_lockfile)"
proof -
  have "(lock_step pair_codec)\<^sup>*\<^sup>* (lock_started (Some ''a'')) (acted 7 (acted 7 queued))"
    using queued_reached queued_steps(5,6) by (meson rtranclp.rtrancl_into_rtrancl)
  note effect = interleaved_calls_are_serial [OF this]
  have "lw_document (acted 7 queued) \<noteq> lw_document queued" by (simp add: queued_state)
  with interleaved_calls_are_serial [OF queued_reached] queued_steps(5) have
    "\<exists>p io call r. lw_holder queued = Some p \<and> lock_exec pair_codec io call (lw_document queued) = (r, lw_document (acted 7 queued))"
    by blast
  with effect queued_state queued_can_act(7) show ?thesis by simp
qed

section \<open>Failures that keep the write\<close>

text \<open>
  A call whose lock cannot be released and a call whose replacement reports a late error fail although they
  have replaced the document. Where the metadata of the document cannot be read, \<^verbatim>\<open>update_or_create\<close>
  replaces a document that is there by the initial one.
\<close>

lemma failed_unlock_keeps_the_write:
  "lock_exec pair_codec stuck (Update_lockfile renew) (Some ''a'') = (Inl (LockIo ''Bad file descriptor''), Some ''b'')"
  by (simp add: lock_exec_def program_eval stuck_def)

lemma late_error_keeps_the_write:
  "lock_exec pair_codec unsynced (Update_lockfile renew) (Some ''a'') = (Inl (LockIo ''Input/output error''), Some ''b'')"
  by (simp add: lock_exec_def program_eval unsynced_def)

lemma unreadable_metadata_loses_the_document:
  "lock_exec pair_codec blind (Update_or_create second_lockfile Inr) (Some ''a'') = (Inr second_lockfile, Some ''b'')"
  by (simp add: lock_exec_def program_eval blind_def)

end
