(* ===== verification/Spec2Isabelle.thy ===== *)
theory Spec2Isabelle
  imports Witnesses Contract_Witnesses System_Witnesses Backend_Witnesses Task_Witnesses App_Witnesses
    Effect_Witnesses Install_Witnesses Lockfile_Witnesses
begin

text \<open>
  OpenWork runs agent tasks in disposable containers, keeps a tamper-evident audit chain of every run
  and lets an action take effect only after an approval was consumed for it. This development models
  the Rust crates under \<^verbatim>\<open>src/crates\<close> that carry this logic and proves what they promise.

  \<^bold>\<open>Parts and how they interact.\<close> A client creates a run through the orchestrator. The store keeps runs,
  their audit chains, artifacts, leases, approvals and action claims; workers claim queued runs under
  a lease. The orchestrator moves a run through its state machine, hands a request to the container
  sandbox, scans the outputs it reports and records them; a worker does the same for a run it claimed,
  with the command line of the chosen provider, and decodes what the provider printed. An action of a run is first judged by the
  policy engine; when approval is required, an approval is created, decided and consumed in the store,
  which leaves a durable claim; the execution boundary checks the claim, performs the action once and
  writes its receipt to the audit chain. Clients reach all this through the control API: its handlers
  authenticate a request, create runs and hand their prompts to the worker in memory, install applications
  and grants, invoke capabilities, decide approvals and carry out an approved capability through a
  connector process. On the machine of a user the installer turns a plan of the command line into
  downloads and runs of a provider's own installer, and takes back what it did when a step fails; the
  lockfile records which runtimes were resolved.

  \<^bold>\<open>Theories.\<close>
  \<^item> \<open>Prelude\<close>: operations that pass a state and may fail (\<open>op\<close>, \<open>bnd\<close>, \<open>preserves\<close>), results as a sum,
    ordered maps for \<^verbatim>\<open>BTreeMap\<close>, checked 64 bit arithmetic. \<open>Rust_Text\<close>: the functions of Rust's
    \<^verbatim>\<open>str\<close> the sources use, on UTF-8 byte strings.
  \<^item> \<open>Core\<close> (\<^verbatim>\<open>openwork-core/src/lib.rs\<close>): error codes, errors, JSON values, redaction of text and JSON.
  \<^item> \<open>Contracts\<close> (\<^verbatim>\<open>openwork-execution/src/lib.rs\<close>): identifiers, digests, paths, state machines of runs
    and approvals, sandbox requests and results, actions with their binding hash, runtime tasks.
    \<open>Audit_Chain\<close> (same file and \<^verbatim>\<open>audit/mod.rs\<close>): events, hashes, chain verification, decoding.
    \<open>Contract_Properties\<close>: redaction, binding of the parameter hash, limits, chains, round trips.
  \<^item> \<open>Store_State\<close>, \<open>Queue_Store\<close>, \<open>Approval_Store\<close> (\<^verbatim>\<open>store/mod.rs\<close>, \<^verbatim>\<open>approval/mod.rs\<close>): the in-memory
    store, one definition per trait method. \<open>Ledger\<close>: the abstract specification of a store as a step
    relation with its invariant. \<open>Store_Refine\<close>: every operation takes ledger steps. \<open>Store_Trace\<close>:
    histories of calls and the safety properties over them.
  \<^item> \<open>Action_Executor\<close> (\<^verbatim>\<open>action_executor.rs\<close>): claimed actions, the audited boundary, and the executor
    trait as a locale that the executor of the crate satisfies.
  \<^item> \<open>Artifact_Scan\<close> (\<^verbatim>\<open>artifact/mod.rs\<close>) and \<open>Orchestrator\<close> (\<^verbatim>\<open>orchestrator/mod.rs\<close>).
  \<^item> \<open>Policy\<close> (\<^verbatim>\<open>openwork-policy/src\<close>): configuration, validation, evaluator, gateway.
  \<^item> \<open>Sandbox\<close> (\<^verbatim>\<open>openwork-sandbox/src\<close>): one container from creation to removal. \<open>Sandbox_Properties\<close>:
    the monitor's deadline and removal of container and directory; \<open>Sandbox_Verdicts\<close>: every reported termination is
    backed by an engine answer; \<open>Sandbox_Limits\<close>: hardening, environment file, outputs, bounded commands.
  \<^item> \<open>Runtime_Tasks\<close> (\<^verbatim>\<open>openwork-runtime/src/task\<close>): command lines and decoders of the four providers, the
    event factory and the decoding of a sandbox result. \<open>Runtime_Properties\<close>: decoded streams are
    numbered, end once and are redacted, decoding is a concatenation over lines, prompts travel on
    standard input only.
  \<^item> \<open>Worker\<close> (\<^verbatim>\<open>openwork-worker/src/lib.rs\<close>): runtime selection and the execution of one claimed run under
    its lease, with the supervisor that renews the lease and forwards cancellation. The traits it is
    generic in are records of methods; the queue of the store is the instance of the lease store, with
    other processes calling the store between its calls. \<open>Worker_Properties\<close>: the contract of a lease
    store as a locale, interpreted on that instance, and what an outcome proves; \<open>Worker_Liveness\<close>: a
    worker that holds its lease always returns and leaves the run at rest.
  \<^item> \<open>Apps\<close> (\<^verbatim>\<open>openwork-apps/src\<close>): manifests, registry, gateway, credentials, command line provider and
    importer. \<open>App_Properties\<close>: what the gateway grants and what an import leaves.
  \<^item> \<open>Connectors\<close> (\<^verbatim>\<open>control-api/src/connector_runtime.rs\<close>): connector definitions, one session of a
    connector process per request, the mapping of capabilities to tools, the discovery cache.
    \<open>Prompt_Delivery\<close> (\<^verbatim>\<open>control-api/src/lib.rs\<close>, \<^verbatim>\<open>worker_runtime.rs\<close>): the bounded table of waiting
    prompts and the claim that takes one. \<open>Control_Api\<close> (\<^verbatim>\<open>control-api/src/lib.rs\<close>): the handlers.
    \<open>Control_Frame\<close>: requests and executions under way as a step relation, and the contract of a
    handler as a locale. \<open>Control_Properties\<close>: an external write happens once, for a consumed approval.
    \<open>Control_Runs\<close>: a prompt is delivered once; what a created run leaves; executions move a run along
    paths of its state machine.
  \<^item> \<open>Host_Files\<close>: the part of \<^verbatim>\<open>std::path\<close> and \<^verbatim>\<open>std::fs\<close> the installer uses, on a tree of files.
    \<open>Downloads\<close> (\<^verbatim>\<open>openwork-runtime/src/system_downloader.rs\<close>): redirects, the bounded stream and the
    publication of a verified file. \<open>Platform\<close> (\<^verbatim>\<open>openwork-platform/src/lib.rs\<close>): detection of the
    platform. \<open>Installer\<close> (\<^verbatim>\<open>openwork-installer/src/lib.rs\<close>): plans, execution, rollback.
    \<open>Install_Properties\<close>: the contract of a downloader as a locale, interpreted on the system downloader;
    a failed installation is undone, a report is true, for plans such as those made for a runtime.
  \<^item> \<open>Lockfile\<close> (\<^verbatim>\<open>openwork-config/src/lib.rs\<close>): the lockfile, its validation, migration and locked update.
    \<open>Lockfile_Properties\<close>: a call is atomic, and the interleaved system calls of several callers have the
    effect of calls one after the other.
  \<^item> \<open>Samples\<close>, \<open>Witnesses\<close>, \<open>Contract_Witnesses\<close>, \<open>System_Witnesses\<close>, \<open>Backend_Witnesses\<close>,
    \<open>Task_Witnesses\<close>, \<open>App_Witnesses\<close>, \<open>Control_Witnesses\<close>, \<open>Effect_Witnesses\<close>, \<open>Install_Witnesses\<close>,
    \<open>Lockfile_Witnesses\<close>: concrete histories and inputs at which the hypotheses of the properties hold.

  \<^bold>\<open>Conventions.\<close> A Rust struct is a record, an enum a datatype; \<^verbatim>\<open>u64\<close> and \<^verbatim>\<open>u32\<close> are words with checked
  addition where the source checks; \<^verbatim>\<open>Result\<close> is a sum with the error on the left. A method on shared
  state is a function from the state to a result and the new state, so an early return keeps the
  effects made before it. Generated identifiers and clock readings are arguments. Functions of
  third-party crates (SHA-256, the JSON and UUID printers, time formatting, the YAML reader) are fields
  of a parameter; where a property needs a law of theirs, such as injectivity of a printer, it is a
  named hypothesis, and the witnesses show it can hold. The file system and the container engine are
  records of answers; an engine answer may depend on everything done before. The control API is stated
  over the contract of the in-memory store; a statement it sends to the tables of its own may be carried
  out, refused, or carried out with the answer lost. The three phases of executing an approved capability
  interleave with other requests as flights of the step relation; every other request is one step. What a
  connector process answers is a parameter of its session. The tree of files of the installer follows
  neither symbolic links nor dot-dot components, and the operating system may refuse a call depending on
  all calls before it. A call of the lockfile store is a program, a datatype of system calls with their
  continuations, so that the system calls of several callers interleave one by one; the lock is taken by
  one caller at a time. The reader and printer of the lockfile are parameters; that the reader inverts the
  printer, and that an update keeps the runtimes in the order of their keys, are hypotheses. The atomic
  replacement of a file happens in one step or not at all, but may report an error after it was made.

  \<^bold>\<open>Fuel.\<close> Only two loops have no bound of their own: the monitor of a container and the wait loop of
  an engine command. Both take the number of rounds as an argument and are shown to return once the
  deadline has passed in the last of them; an engine command that waits for a killed child or for a pipe
  that another process holds open has no value, and this wait is excluded where its return is claimed.
  The supervisor of the worker runs until the sandbox answers:
  it is a partial function into options, where no value means that it never returns or that the
  backend's thread panicked, and it is shown to return whenever the backend answers. The stream of a
  download needs no fuel: every chunk counts against the limit of bytes. All other loops are total
  functions.

  \<^bold>\<open>Not modelled.\<close> The PostgreSQL store (\<^verbatim>\<open>store/postgres.rs\<close>) expresses the same contract in SQL, whose
  meaning is the database's. Lock poisoning, process spawning and, except for the lockfile, thread
  scheduling below the level of whole critical sections are left out. Of the control API the health check, file upload and listing, the
  SQL listing of approvals, reading the configuration from the environment and the wiring of routes are
  left out, of its worker thread everything but the claim. The runtime adapters and
  their registry, the command runner, the probes of the running system, the doctor and the command line
  are mostly calls of processes and of the host; the end-to-end crate is test support.
\<close>

end
